(* ===== verification/Prelude.thy ===== *)
theory Prelude
  imports Main "HOL-Library.Word"
begin

text \<open>
  Shared vocabulary of the development: results with errors as values, the sequencing of a Go
  function body (\<open>if err != nil { return err }\<close>), tables of rows as the SQL queries see them, the
  string helpers of the Go standard library that the controller calls, and 32-bit arithmetic.
  Nothing here models a line of the controller; every other theory builds on it.
\<close>

named_theorems ctrl_simps \<open>unfolding rules of the sequencing operators\<close>
named_theorems table_simps \<open>laws of the table operations\<close>

section \<open>Results and sequencing\<close>

text \<open>
  A Go function that returns \<open>(T, error)\<close> and writes nothing is a value of \<open>'e + 'a\<close>. One that
  writes to the database returns the new state beside the result: an error keeps whatever was
  written before it, as the code does outside a transaction.
\<close>

definition bindR :: "'e + 'a \<Rightarrow> ('a \<Rightarrow> 'e + 'b) \<Rightarrow> 'e + 'b" where
  "bindR m k = (case m of Inl e \<Rightarrow> Inl e | Inr x \<Rightarrow> k x)"

definition checkS :: "'e + 'a \<Rightarrow> 's \<Rightarrow> ('a \<Rightarrow> ('e + 'b) \<times> 's) \<Rightarrow> ('e + 'b) \<times> 's" where
  "checkS m s k = (case m of Inl e \<Rightarrow> (Inl e, s) | Inr x \<Rightarrow> k x)"

definition bindS :: "('e + 'a) \<times> 's \<Rightarrow> ('a \<Rightarrow> 's \<Rightarrow> ('e + 'b) \<times> 's) \<Rightarrow> ('e + 'b) \<times> 's" where
  "bindS m k = (case m of (Inl e, s) \<Rightarrow> (Inl e, s) | (Inr x, s) \<Rightarrow> k x s)"

lemma bindR_simps [simp]: "bindR (Inl e) k = Inl e" "bindR (Inr x) k = k x"
  by (simp_all add: bindR_def)

lemma checkS_simps [simp]: "checkS (Inl e) s k = (Inl e, s)" "checkS (Inr x) s k = k x"
  by (simp_all add: checkS_def)

lemma bindS_simps [simp]: "bindS (Inl e, s) k = (Inl e, s)" "bindS (Inr x, s) k = k x s"
  by (simp_all add: bindS_def)

lemma bindR_Inr_iff [ctrl_simps]: "bindR m k = Inr y \<longleftrightarrow> (\<exists>x. m = Inr x \<and> k x = Inr y)"
  by (cases m) auto

lemma bindR_Inl_iff [ctrl_simps]:
  "bindR m k = Inl e \<longleftrightarrow> m = Inl e \<or> (\<exists>x. m = Inr x \<and> k x = Inl e)"
  by (cases m) auto

lemma checkS_Inr_iff [ctrl_simps]:
  "checkS m s k = (Inr y, s') \<longleftrightarrow> (\<exists>x. m = Inr x \<and> k x = (Inr y, s'))"
  by (cases m) auto

lemma checkS_Inl_iff [ctrl_simps]:
  "checkS m s k = (Inl e, s') \<longleftrightarrow> (m = Inl e \<and> s' = s) \<or> (\<exists>x. m = Inr x \<and> k x = (Inl e, s'))"
  by (cases m) auto

lemma bindS_Inr_iff [ctrl_simps]:
  "bindS m k = (Inr y, s') \<longleftrightarrow> (\<exists>x s1. m = (Inr x, s1) \<and> k x s1 = (Inr y, s'))"
  by (cases m; cases "fst m") auto

lemma bindS_Inl_iff [ctrl_simps]:
  "bindS m k = (Inl e, s') \<longleftrightarrow> m = (Inl e, s') \<or> (\<exists>x s1. m = (Inr x, s1) \<and> k x s1 = (Inl e, s'))"
  by (cases m; cases "fst m") auto

text \<open>What a stateful step keeps: the workhorse of the invariant proofs.\<close>

lemma checkS_snd: "P s \<Longrightarrow> (\<And>x. m = Inr x \<Longrightarrow> P (snd (k x))) \<Longrightarrow> P (snd (checkS m s k))"
  by (cases m) auto

lemma bindS_snd:
  "P (snd m) \<Longrightarrow> (\<And>x. m = (Inr x, snd m) \<Longrightarrow> P (snd (k x (snd m)))) \<Longrightarrow> P (snd (bindS m k))"
  by (cases m; cases "fst m") auto

lemma checkS_cong [fundef_cong]:
  "m = m' \<Longrightarrow> s = s' \<Longrightarrow> (\<And>x. m' = Inr x \<Longrightarrow> k x = k' x) \<Longrightarrow> checkS m s k = checkS m' s' k'"
  by (cases m') auto

lemma bindR_cong [fundef_cong]:
  "m = m' \<Longrightarrow> (\<And>x. m' = Inr x \<Longrightarrow> k x = k' x) \<Longrightarrow> bindR m k = bindR m' k'"
  by (cases m') auto

text \<open>A read-only loop that stops at the first error, and one that collects its results.\<close>

fun forR :: "('a \<Rightarrow> 'e + unit) \<Rightarrow> 'a list \<Rightarrow> 'e + unit" where
  "forR f [] = Inr ()"
| "forR f (x # xs) = bindR (f x) (\<lambda>_. forR f xs)"

lemma forR_Inr_iff: "forR f xs = Inr u \<longleftrightarrow> (\<forall>x \<in> set xs. f x = Inr ())"
  by (induction xs) (auto simp: ctrl_simps)

fun mapR :: "('a \<Rightarrow> 'e + 'b) \<Rightarrow> 'a list \<Rightarrow> 'e + 'b list" where
  "mapR f [] = Inr []"
| "mapR f (x # xs) = bindR (f x) (\<lambda>y. bindR (mapR f xs) (\<lambda>ys. Inr (y # ys)))"

lemma mapR_Inr: "(\<And>x. x \<in> set xs \<Longrightarrow> f x = Inr (g x)) \<Longrightarrow> mapR f xs = Inr (map g xs)"
  by (induction xs) auto

text \<open>Translating the error of a result, with and without a state beside it.\<close>

definition map_err :: "('e \<Rightarrow> 'f) \<Rightarrow> 'e + 'a \<Rightarrow> 'f + 'a" where
  "map_err f m = (case m of Inl e \<Rightarrow> Inl (f e) | Inr x \<Rightarrow> Inr x)"

definition map_errS :: "('e \<Rightarrow> 'f) \<Rightarrow> ('e + 'a) \<times> 's \<Rightarrow> ('f + 'a) \<times> 's" where
  "map_errS f m = (map_err f (fst m), snd m)"

lemma map_err_simps [simp]: "map_err f (Inl e) = Inl (f e)" "map_err f (Inr x) = Inr x"
  by (simp_all add: map_err_def)

lemma map_err_Inr_iff [simp]: "map_err f m = Inr x \<longleftrightarrow> m = Inr x"
  by (cases m) auto

lemma map_err_Inl_iff [ctrl_simps]: "map_err f m = Inl e \<longleftrightarrow> (\<exists>e'. m = Inl e' \<and> e = f e')"
  by (cases m) auto

lemma map_errS_snd [simp]: "snd (map_errS f m) = snd m"
  by (simp add: map_errS_def)

lemma map_errS_Inr_iff [simp]: "map_errS f m = (Inr x, s) \<longleftrightarrow> m = (Inr x, s)"
  by (cases m) (simp add: map_errS_def)

text \<open>A loop over a list that writes; it stops at the first error and keeps what was written.\<close>

fun forS :: "('s \<Rightarrow> 'a \<Rightarrow> ('e + unit) \<times> 's) \<Rightarrow> 's \<Rightarrow> 'a list \<Rightarrow> ('e + unit) \<times> 's" where
  "forS f s [] = (Inr (), s)"
| "forS f s (x # xs) = bindS (f s x) (\<lambda>_ s1. forS f s1 xs)"

lemma forS_snd:
  "P s \<Longrightarrow> (\<And>s x. x \<in> set xs \<Longrightarrow> P s \<Longrightarrow> P (snd (f s x))) \<Longrightarrow> P (snd (forS f s xs))"
proof (induction xs arbitrary: s)
  case (Cons x xs)
  have "P (snd (f s x))" using Cons.prems by simp
  then show ?case using Cons by (simp add: bindS_snd)
qed simp

section \<open>Transition systems\<close>

text \<open>
  The histories of the controller are sequences of operations. An invariant that every operation
  keeps holds in every state reachable from one that satisfies it; each component instantiates
  this contract with its own step relation and invariant.
\<close>

locale step_invariant =
  fixes step :: "'s \<Rightarrow> 's \<Rightarrow> bool" and inv :: "'s \<Rightarrow> bool"
  assumes step_inv: "step s t \<Longrightarrow> inv s \<Longrightarrow> inv t"
begin

lemma reach_inv: "step\<^sup>*\<^sup>* s t \<Longrightarrow> inv s \<Longrightarrow> inv t"
  by (induction rule: rtranclp_induct) (auto intro: step_inv)

end

section \<open>Tables\<close>

text \<open>
  A table is the list of its rows, in insertion order. The primary key of a row is given by a
  function; the operations are the row-level effects of \<open>SELECT\<close>, \<open>INSERT\<close>, \<open>UPDATE\<close> and
  \<open>DELETE\<close>.
\<close>

definition tbl_get :: "('r \<Rightarrow> bool) \<Rightarrow> 'r list \<Rightarrow> 'r option" where
  "tbl_get p rs = List.find p rs"

definition tbl_update :: "('r \<Rightarrow> bool) \<Rightarrow> ('r \<Rightarrow> 'r) \<Rightarrow> 'r list \<Rightarrow> 'r list" where
  "tbl_update p f rs = map (\<lambda>r. if p r then f r else r) rs"

definition tbl_delete :: "('r \<Rightarrow> bool) \<Rightarrow> 'r list \<Rightarrow> 'r list" where
  "tbl_delete p rs = filter (\<lambda>r. \<not> p r) rs"

definition tbl_exists :: "('r \<Rightarrow> bool) \<Rightarrow> 'r list \<Rightarrow> bool" where
  "tbl_exists p rs \<longleftrightarrow> list_ex p rs"

lemma tbl_exists_iff [table_simps]: "tbl_exists p rs \<longleftrightarrow> (\<exists>r \<in> set rs. p r)"
  by (simp add: tbl_exists_def list_ex_iff)

lemma tbl_get_Nil [simp]: "tbl_get p [] = None"
  by (simp add: tbl_get_def)

lemma tbl_get_Cons [simp]: "tbl_get p (r # rs) = (if p r then Some r else tbl_get p rs)"
  by (simp add: tbl_get_def)

lemma tbl_get_SomeD: "tbl_get p rs = Some r \<Longrightarrow> r \<in> set rs \<and> p r"
  by (induction rs) (auto split: if_splits)

lemma tbl_get_None_iff: "tbl_get p rs = None \<longleftrightarrow> (\<forall>r \<in> set rs. \<not> p r)"
  by (induction rs) auto

lemma tbl_get_append: "tbl_get p (xs @ ys) = (case tbl_get p xs of None \<Rightarrow> tbl_get p ys | Some r \<Rightarrow> Some r)"
  by (induction xs) auto

lemma tbl_get_exists: "(\<exists>r. tbl_get p rs = Some r) \<longleftrightarrow> tbl_exists p rs"
  by (metis tbl_exists_iff tbl_get_None_iff option.exhaust option.distinct(1))

lemma set_tbl_delete [simp]: "set (tbl_delete p rs) = {r \<in> set rs. \<not> p r}"
  by (auto simp: tbl_delete_def)

lemma set_tbl_update [simp]: "set (tbl_update p f rs) = (\<lambda>r. if p r then f r else r) ` set rs"
  by (simp add: tbl_update_def)

lemma tbl_update_simps [simp]:
  "tbl_update p f [] = []"
  "tbl_update p f (r # rs) = (if p r then f r else r) # tbl_update p f rs"
  by (simp_all add: tbl_update_def)

lemma tbl_delete_simps [simp]:
  "tbl_delete p [] = []"
  "tbl_delete p (r # rs) = (if p r then tbl_delete p rs else r # tbl_delete p rs)"
  by (simp_all add: tbl_delete_def)

lemma tbl_exists_update: "(\<And>r. p (f r) = p r) \<Longrightarrow> tbl_exists p (tbl_update q f rs) = tbl_exists p rs"
  by (induction rs) (auto simp: tbl_exists_def)

lemma length_filter_tbl_delete: "length (filter p (tbl_delete q rs)) \<le> length (filter p rs)"
  by (induction rs) auto

lemma length_filter_tbl_update:
  "(\<And>r. p (f r) = p r) \<Longrightarrow> length (filter p (tbl_update q f rs)) = length (filter p rs)"
  by (induction rs) auto

lemma map_key_tbl_update:
  "(\<And>r. r \<in> set rs \<Longrightarrow> p r \<Longrightarrow> key (f r) = key r) \<Longrightarrow> map key (tbl_update p f rs) = map key rs"
  by (auto simp: tbl_update_def)

lemma distinct_key_tbl_delete: "distinct (map key rs) \<Longrightarrow> distinct (map key (tbl_delete p rs))"
  by (simp add: tbl_delete_def distinct_map_filter)

lemma tbl_get_key_unique:
  "distinct (map key rs) \<Longrightarrow> r \<in> set rs \<Longrightarrow> tbl_get (\<lambda>x. key x = key r) rs = Some r"
  by (induction rs) (auto simp: rev_image_eqI)

lemma tbl_get_update_other:
  "(\<And>r. r \<in> set rs \<Longrightarrow> p r \<Longrightarrow> \<not> q r \<and> \<not> q (f r)) \<Longrightarrow> tbl_get q (tbl_update p f rs) = tbl_get q rs"
  by (induction rs) auto

lemma tbl_get_update_same:
  "(\<And>r. p r \<Longrightarrow> p (f r)) \<Longrightarrow> tbl_get p (tbl_update p f rs) = map_option f (tbl_get p rs)"
  by (induction rs) auto

lemma tbl_get_delete_same: "tbl_get p (tbl_delete p rs) = None"
  by (simp add: tbl_get_None_iff)

lemma tbl_get_delete_other:
  "(\<And>r. r \<in> set rs \<Longrightarrow> p r \<Longrightarrow> \<not> q r) \<Longrightarrow> tbl_get q (tbl_delete p rs) = tbl_get q rs"
  by (induction rs) auto

section \<open>Strings of the Go standard library\<close>

text \<open>
  Identifiers, keys and names are byte strings. \<open>strings.HasPrefix\<close> and \<open>strings.TrimSpace\<close>
  are modelled on them; the blanks of \<open>TrimSpace\<close> are the ASCII ones.
\<close>

definition HasPrefix :: "string \<Rightarrow> string \<Rightarrow> bool" where
  "HasPrefix s p \<longleftrightarrow> take (length p) s = p"

definition is_blank :: "char \<Rightarrow> bool" where
  "is_blank c \<longleftrightarrow> c = CHR '' '' \<or> c = CHR 0x09 \<or> c = CHR 0x0A \<or> c = CHR 0x0B \<or> c = CHR 0x0C \<or> c = CHR 0x0D"

definition TrimSpace :: "string \<Rightarrow> string" where
  "TrimSpace s = rev (dropWhile is_blank (rev (dropWhile is_blank s)))"

lemma HasPrefix_append [simp]: "HasPrefix (p @ s) p"
  by (simp add: HasPrefix_def)

text \<open>A nil or empty Go string pointer, as the code tests it (\<open>p == nil || *p == ""\<close>).\<close>

definition blank_ptr :: "string option \<Rightarrow> bool" where
  "blank_ptr p = (case p of None \<Rightarrow> True | Some s \<Rightarrow> s = [])"

lemma blank_ptr_simps [simp]: "blank_ptr None" "blank_ptr (Some s) \<longleftrightarrow> s = []"
  by (simp_all add: blank_ptr_def)

section \<open>32-bit integers\<close>

text \<open>
  Go's \<open>int32\<close> wraps around in two's complement. The wire and SQL integers are \<open>int\<close> values in
  range; an arithmetic operation that the code performs at that width goes through \<open>wrap32\<close>.
\<close>

definition wrap32 :: "int \<Rightarrow> int" where
  "wrap32 x = (x + 2 ^ 31) mod 2 ^ 32 - 2 ^ 31"

definition in32 :: "int \<Rightarrow> bool" where
  "in32 x \<longleftrightarrow> - (2 ^ 31) \<le> x \<and> x < 2 ^ 31"

lemma wrap32_code [code]: "wrap32 x = (x + 2147483648) mod 4294967296 - 2147483648"
  by (simp add: wrap32_def)

lemma in32_code [code]: "in32 x \<longleftrightarrow> - 2147483648 \<le> x \<and> x < 2147483648"
  by (simp add: in32_def)

lemma wrap32_id [simp]: "in32 x \<Longrightarrow> wrap32 x = x"
  by (simp add: wrap32_def in32_def)

lemma in32_wrap32: "in32 (wrap32 x)"
  by (auto simp: wrap32_def in32_def)

lemma wrap32_sint: "wrap32 x = sint (word_of_int x :: 32 word)"
  by (simp add: wrap32_def sint_sbintrunc' signed_take_bit_eq_take_bit_shift take_bit_eq_mod)

end
