(* ===== verification/Entities.thy ===== *)
theory Entities
  imports Prelude
begin

text \<open>
  The domain vocabulary of \<open>domain/\<close> and \<open>domain/entity/\<close>: sentinel errors, groups, roles,
  members, permission keys, hosts, accounts, sessions, asynchronous jobs and scheduled operations.
  A pointer or a nullable column is an \<open>option\<close>; a timestamp is an \<open>int\<close> (any unit, only order and
  differences matter); a \<open>float32\<close>, which the controller only copies, is its 32-bit pattern.
\<close>

section \<open>Errors\<close>

text \<open>
  The errors the code tells apart with \<open>errors.Is\<close> are constructors; every other error carries its
  message. Wrapping (\<open>errors.Wrap\<close>, \<open>errors.WrapPrefix\<close>) keeps the sentinel, so it is not modelled.
  \<open>ErrNoRows\<close> is pgx's result for a query that finds no row; \<open>ErrDB\<close> is a failed query: a lost
  connection or a violated constraint.
\<close>

datatype err =
    ErrNotFound
  | ErrNoRows
  | ErrUnauthenticated
  | ErrPermissionDenied
  | ErrHostDraining
  | ErrGroupOperationForbidden
  | ErrCannotModifyBuiltinRole
  | ErrInvalidPermissionKey
  | ErrScheduledOperationNotCancelable
  | ErrCanceled
  | ErrDB
  | ErrMsg string

type_synonym 'a res = "err + 'a"

definition SystemUserID :: string where
  "SystemUserID = ''system''"

type_synonym time = int
type_synonym int32 = int
type_synonym float32 = "32 word"

section \<open>Groups, roles and permission keys\<close>

datatype GroupType = GroupType_Personal | GroupType_Normal | GroupType_System | GroupType_Other string

datatype RoleScope = RoleScope_Normal | RoleScope_System | RoleScope_Other string

definition SystemGroupID :: string where
  "SystemGroupID = ''system''"

definition SeedRoleID_Admin :: string where
  "SeedRoleID_Admin = ''seed-admin''"

definition SeedRoleID_SystemAdmin :: string where
  "SeedRoleID_SystemAdmin = ''seed-system-admin''"

abbreviation PermKey_HostRead :: string where "PermKey_HostRead \<equiv> ''host:read''"
abbreviation PermKey_HostWrite :: string where "PermKey_HostWrite \<equiv> ''host:write''"
abbreviation PermKey_HostUse :: string where "PermKey_HostUse \<equiv> ''host:use''"
abbreviation PermKey_SessionRead :: string where "PermKey_SessionRead \<equiv> ''session:read''"
abbreviation PermKey_SessionWrite :: string where "PermKey_SessionWrite \<equiv> ''session:write''"
abbreviation PermKey_AccountRead :: string where "PermKey_AccountRead \<equiv> ''account:read''"
abbreviation PermKey_AccountWrite :: string where "PermKey_AccountWrite \<equiv> ''account:write''"
abbreviation PermKey_AccountUse :: string where "PermKey_AccountUse \<equiv> ''account:use''"
abbreviation PermKey_GroupMembersManage :: string where
  "PermKey_GroupMembersManage \<equiv> ''group:members.manage''"
abbreviation PermKey_GroupEdit :: string where "PermKey_GroupEdit \<equiv> ''group:edit''"
abbreviation PermKey_SystemUserCreate :: string where "PermKey_SystemUserCreate \<equiv> ''system:user.create''"
abbreviation PermKey_SystemUserDelete :: string where "PermKey_SystemUserDelete \<equiv> ''system:user.delete''"
abbreviation PermKey_SystemUserList :: string where "PermKey_SystemUserList \<equiv> ''system:user.list''"
abbreviation PermKey_SystemGroupList :: string where "PermKey_SystemGroupList \<equiv> ''system:group.list''"
abbreviation PermKey_SystemGroupManage :: string where
  "PermKey_SystemGroupManage \<equiv> ''system:group.manage''"
abbreviation PermKey_SystemRoleManage :: string where "PermKey_SystemRoleManage \<equiv> ''system:role.manage''"

record Group =
  Group_ID :: string
  Group_Name :: string
  Group_Type :: GroupType
  Group_CreatedAt :: time
  Group_UpdatedAt :: time

record GroupMember =
  Member_GroupID :: string
  Member_UserID :: string
  Member_RoleID :: string
  Member_AddedBy :: "string option"
  Member_JoinedAt :: time

record Role =
  Role_ID :: string
  Role_GroupID :: "string option"
  Role_Name :: string
  Role_Scope :: RoleScope
  Role_IsBuiltin :: bool
  Role_PermissionKeys :: "string list"
  Role_CreatedAt :: time
  Role_UpdatedAt :: time

record PermissionKeyDef =
  KeyDef_Key :: string
  KeyDef_Scope :: RoleScope

definition AllPermissionKeys :: "PermissionKeyDef list" where
  "AllPermissionKeys = [
     \<lparr>KeyDef_Key = PermKey_HostRead, KeyDef_Scope = RoleScope_Normal\<rparr>,
     \<lparr>KeyDef_Key = PermKey_HostWrite, KeyDef_Scope = RoleScope_Normal\<rparr>,
     \<lparr>KeyDef_Key = PermKey_HostUse, KeyDef_Scope = RoleScope_Normal\<rparr>,
     \<lparr>KeyDef_Key = PermKey_SessionRead, KeyDef_Scope = RoleScope_Normal\<rparr>,
     \<lparr>KeyDef_Key = PermKey_SessionWrite, KeyDef_Scope = RoleScope_Normal\<rparr>,
     \<lparr>KeyDef_Key = PermKey_AccountRead, KeyDef_Scope = RoleScope_Normal\<rparr>,
     \<lparr>KeyDef_Key = PermKey_AccountWrite, KeyDef_Scope = RoleScope_Normal\<rparr>,
     \<lparr>KeyDef_Key = PermKey_AccountUse, KeyDef_Scope = RoleScope_Normal\<rparr>,
     \<lparr>KeyDef_Key = PermKey_GroupMembersManage, KeyDef_Scope = RoleScope_Normal\<rparr>,
     \<lparr>KeyDef_Key = PermKey_GroupEdit, KeyDef_Scope = RoleScope_Normal\<rparr>,
     \<lparr>KeyDef_Key = PermKey_SystemUserCreate, KeyDef_Scope = RoleScope_System\<rparr>,
     \<lparr>KeyDef_Key = PermKey_SystemUserDelete, KeyDef_Scope = RoleScope_System\<rparr>,
     \<lparr>KeyDef_Key = PermKey_SystemUserList, KeyDef_Scope = RoleScope_System\<rparr>,
     \<lparr>KeyDef_Key = PermKey_SystemGroupList, KeyDef_Scope = RoleScope_System\<rparr>,
     \<lparr>KeyDef_Key = PermKey_SystemGroupManage, KeyDef_Scope = RoleScope_System\<rparr>,
     \<lparr>KeyDef_Key = PermKey_SystemRoleManage, KeyDef_Scope = RoleScope_System\<rparr>]"

definition IsValidPermissionKey :: "string \<Rightarrow> bool" where
  "IsValidPermissionKey key = list_ex (\<lambda>p. KeyDef_Key p = key) AllPermissionKeys"

definition GetPermissionKeyDef :: "string \<Rightarrow> PermissionKeyDef option" where
  "GetPermissionKeyDef key = List.find (\<lambda>p. KeyDef_Key p = key) AllPermissionKeys"

text \<open>A key belongs to the system scope exactly when its name starts with \<open>system:\<close>.\<close>

abbreviation is_system_key :: "string \<Rightarrow> bool" where
  "is_system_key k \<equiv> HasPrefix k ''system:''"

lemma key_scope_by_prefix:
  "p \<in> set AllPermissionKeys \<Longrightarrow>
     is_system_key (KeyDef_Key p) = (KeyDef_Scope p = RoleScope_System)"
  by (auto simp: AllPermissionKeys_def HasPrefix_def)

section \<open>Users and registration tokens\<close>

record User =
  User_ID :: string
  User_Password :: string
  User_ResoniteID :: "string option"
  User_IconUrl :: "string option"

record RegistrationToken =
  Token_Token :: string
  Token_ResoniteID :: string
  Token_ExpiresAt :: time
  Token_UsedAt :: "time option"
  Token_PersonalRoleID :: "string option"

section \<open>Accounts, hosts and sessions\<close>

record HeadlessAccount =
  Account_ResoniteID :: string
  Account_Credential :: string
  Account_Password :: string
  Account_LastDisplayName :: "string option"
  Account_LastIconUrl :: "string option"
  Account_GroupID :: string
  Account_CreatedBy :: "string option"

datatype HeadlessHostStatus =
    HeadlessHostStatus_UNKNOWN | HeadlessHostStatus_STARTING | HeadlessHostStatus_RUNNING
  | HeadlessHostStatus_STOPPING | HeadlessHostStatus_EXITED | HeadlessHostStatus_CRASHED

datatype HostAutoUpdatePolicy =
    HostAutoUpdatePolicy_UNSPECIFIED | HostAutoUpdatePolicy_NEVER | HostAutoUpdatePolicy_USERS_EMPTY

datatype SessionStatus =
    SessionStatus_UNKNOWN | SessionStatus_STARTING | SessionStatus_RUNNING
  | SessionStatus_ENDED | SessionStatus_CRASHED

text \<open>
  The protobuf messages of the headless container (\<open>pbgen/\<close>, generated) with the fields the
  controller reads or writes; the rest of a message travels in an opaque field.
\<close>

datatype LoadWorld = LoadWorldUrl string | LoadWorldPresetName string

record WorldStartupParameters =
  Wsp_Name :: "string option"
  Wsp_Description :: "string option"
  Wsp_Tags :: "string list"
  Wsp_MaxUsers :: "int32 option"
  Wsp_AccessLevel :: int32
  Wsp_LoadWorld :: "LoadWorld option"
  Wsp_HideFromPublicListing :: bool
  Wsp_AwayKickMinutes :: float32
  Wsp_IdleRestartIntervalSeconds :: int32
  Wsp_SaveOnExit :: bool
  Wsp_AutoSaveIntervalSeconds :: int32
  Wsp_AutoSleep :: bool
  Wsp_ForcePort :: nat
  Wsp_Other :: string

record SessionSnapshot =
  Snap_Id :: string
  Snap_Name :: string
  Snap_Description :: string
  Snap_AccessLevel :: int32
  Snap_UsersCount :: int32
  Snap_MaxUsers :: int32
  Snap_AwayKickMinutes :: float32
  Snap_IdleRestartIntervalSeconds :: int32
  Snap_SaveOnExit :: bool
  Snap_AutoSaveIntervalSeconds :: int32
  Snap_AutoSleep :: bool
  Snap_HideFromPublicListing :: bool
  Snap_Tags :: "string list"
  Snap_WorldUrl :: string
  Snap_StartedAt :: time
  Snap_Other :: string

record HostAllowedAccessEntry =
  Access_Host :: string
  Access_Ports :: "int32 list"
  Access_Types :: "int32 list"

record StartupConfig =
  Sc_UniverseId :: "string option"
  Sc_TickRate :: "float32 option"
  Sc_MaxConcurrentAssetTransfers :: "int32 option"
  Sc_UsernameOverride :: "string option"
  Sc_StartWorlds :: "WorldStartupParameters list"
  Sc_AllowedUrlHosts :: "HostAllowedAccessEntry list"
  Sc_AutoSpawnItems :: "string list"

record HeadlessHostSettings =
  Settings_UniverseID :: "string option"
  Settings_TickRate :: float32
  Settings_MaxConcurrentAssetTransfers :: int32
  Settings_UsernameOverride :: "string option"
  Settings_AllowedUrlHosts :: "HostAllowedAccessEntry list"
  Settings_AutoSpawnItems :: "string list"
  Settings_StartWorlds :: "WorldStartupParameters list"

record Session =
  Session_ID :: string
  Session_Name :: string
  Session_Status :: SessionStatus
  Session_StartedAt :: "time option"
  Session_CreatedBy :: "string option"
  Session_EndedAt :: "time option"
  Session_HostID :: string
  Session_StartupParameters :: "WorldStartupParameters option"
  Session_AutoUpgrade :: bool
  Session_Memo :: string
  Session_CurrentState :: "SessionSnapshot option"
  Session_GroupID :: string

section \<open>Jobs and scheduled operations\<close>

datatype AsyncJobType =
    AsyncJobType_UNKNOWN | AsyncJobType_START_HOST | AsyncJobType_SHUTDOWN_HOST
  | AsyncJobType_RESTART_HOST | AsyncJobType_START_SESSION | AsyncJobType_STOP_SESSION
  | AsyncJobType_Other int32

datatype AsyncJobStatus =
    AsyncJobStatus_PENDING | AsyncJobStatus_RUNNING | AsyncJobStatus_SUCCEEDED | AsyncJobStatus_FAILED

record AsyncJob =
  Job_ID :: string
  Job_Type :: AsyncJobType
  Job_Payload :: string
  Job_Status :: AsyncJobStatus
  Job_ResultPayload :: string
  Job_LastError :: "string option"
  Job_ClaimedBy :: "string option"
  Job_ClaimedAt :: "time option"
  Job_ExecutedAt :: "time option"
  Job_HostID :: "string option"
  Job_SessionID :: "string option"
  Job_CreatedBy :: "string option"
  Job_CreatedAt :: time

datatype ScheduledOperationType =
    ScheduledOperationType_UNKNOWN | ScheduledOperationType_START_SESSION
  | ScheduledOperationType_STOP_SESSION | ScheduledOperationType_UPDATE_PARAMETERS
  | ScheduledOperationType_UPDATE_EXTRA_SETTINGS | ScheduledOperationType_Other int32

datatype ScheduledTriggerType =
    ScheduledTriggerType_UNKNOWN | ScheduledTriggerType_TIME
  | ScheduledTriggerType_SESSION_USER_COUNT | ScheduledTriggerType_Other int32

datatype ScheduledOperationStatus =
    ScheduledOperationStatus_PENDING | ScheduledOperationStatus_RUNNING
  | ScheduledOperationStatus_SUCCEEDED | ScheduledOperationStatus_FAILED
  | ScheduledOperationStatus_CANCELED

record ScheduledSessionOperation =
  Op_ID :: string
  Op_OperationType :: ScheduledOperationType
  Op_OperationPayload :: string
  Op_TriggerType :: ScheduledTriggerType
  Op_TriggerConfig :: string
  Op_NextFireAt :: time
  Op_HostID :: "string option"
  Op_SessionID :: "string option"
  Op_Status :: ScheduledOperationStatus
  Op_LastError :: "string option"
  Op_ClaimedBy :: "string option"
  Op_ClaimedAt :: "time option"
  Op_ExecutedAt :: "time option"
  Op_CreatedBy :: "string option"
  Op_CreatedAt :: time

end
