(* ===== verification/Store.thy ===== *)
theory Store
  imports Entities "HOL-Library.Char_ord" "HOL-Library.List_Lexorder" "HOL-Library.Product_Lexorder"
begin

text \<open>
  The database as the controller sees it: the tables of \<open>db/migrations\<close> as one record, and the
  queries of \<open>db/\<close> (generated from \<open>db/queries\<close>) that the permission system uses, with the primary
  keys, foreign keys, unique indexes, CHECK constraints and builtin-role triggers the migrations
  declare. A query can also fail for reasons outside the program; \<open>db_fault\<close> says which ones do.
\<close>

section \<open>The database state\<close>

datatype dbfault = Fault_Failed | Fault_Canceled

type_synonym query = "string \<times> string list"

record Host =
  Host_ID :: string
  Host_Name :: string
  Host_Status :: HeadlessHostStatus
  Host_AccountID :: string
  Host_CreatedBy :: "string option"
  Host_LastStartupConfig :: StartupConfig
  Host_ConnectorType :: string
  Host_ConnectString :: string
  Host_StartedAt :: "time option"
  Host_Memo :: "string option"
  Host_AutoUpdatePolicy :: HostAutoUpdatePolicy
  Host_InstanceCount :: int32
  Host_GroupID :: string

text \<open>
  A row of \<open>container_logs\<close>, which Fluent Bit writes: the JSON document is kept as the pair of its
  \<open>log\<close> and \<open>stream\<close> members, or \<open>None\<close> when it does not parse.
\<close>

record ContainerLog =
  Log_ID :: int
  Log_Tag :: string
  Log_Ts :: "time option"
  Log_Data :: "(string \<times> string) option"

text \<open>
  A row of \<open>roles\<close> is a \<open>Role\<close> without its keys, which live in \<open>role_permissions\<close>; a row of
  \<open>sessions\<close> is a \<open>Session\<close> without its volatile state.
\<close>

record db =
  db_users :: "User list"
  db_groups :: "Group list"
  db_roles :: "Role list"
  db_role_permissions :: "(string \<times> string) list"
  db_members :: "GroupMember list"
  db_tokens :: "RegistrationToken list"
  db_accounts :: "HeadlessAccount list"
  db_hosts :: "Host list"
  db_sessions :: "Session list"
  db_checkpoints :: "(string \<times> string) list"
  db_logs :: "ContainerLog list"
  db_jobs :: "AsyncJob list"
  db_ops :: "ScheduledSessionOperation list"
  db_now :: time
  db_fault :: "query \<Rightarrow> dbfault option"

fun fault_err :: "dbfault \<Rightarrow> err" where
  "fault_err Fault_Failed = ErrDB"
| "fault_err Fault_Canceled = ErrCanceled"

text \<open>Running a read query and a write query: the fault comes first and writes nothing.\<close>

definition readQ :: "db \<Rightarrow> string \<Rightarrow> string list \<Rightarrow> 'a res \<Rightarrow> 'a res" where
  "readQ d name args r = (case db_fault d (name, args) of Some f \<Rightarrow> Inl (fault_err f) | None \<Rightarrow> r)"

definition writeQ :: "db \<Rightarrow> string \<Rightarrow> string list \<Rightarrow> 'a res \<times> db \<Rightarrow> 'a res \<times> db" where
  "writeQ d name args r = (case db_fault d (name, args) of Some f \<Rightarrow> (Inl (fault_err f), d) | None \<Rightarrow> r)"

definition no_faults :: "db \<Rightarrow> bool" where
  "no_faults d \<longleftrightarrow> db_fault d = (\<lambda>_. None)"

lemma readQ_no_faults [simp]: "no_faults d \<Longrightarrow> readQ d n a r = r"
  by (simp add: readQ_def no_faults_def)

lemma writeQ_no_faults [simp]: "no_faults d \<Longrightarrow> writeQ d n a r = r"
  by (simp add: writeQ_def no_faults_def)

lemma readQ_Inr_iff [ctrl_simps]:
  "readQ d n a r = Inr x \<longleftrightarrow> db_fault d (n, a) = None \<and> r = Inr x"
  by (simp add: readQ_def split: option.splits)

lemma writeQ_Inr_iff [ctrl_simps]:
  "writeQ d n a r = (Inr x, d') \<longleftrightarrow> db_fault d (n, a) = None \<and> r = (Inr x, d')"
  by (simp add: writeQ_def split: option.splits)

lemma writeQ_snd: "P d \<Longrightarrow> P (snd r) \<Longrightarrow> P (snd (writeQ d n a r))"
  by (simp add: writeQ_def split: option.splits)

lemma fault_err_neq [simp]:
  "fault_err f \<noteq> ErrPermissionDenied" "fault_err f \<noteq> ErrNoRows" "fault_err f \<noteq> ErrNotFound"
  "fault_err f \<noteq> ErrUnauthenticated" "fault_err f \<noteq> ErrMsg s" "fault_err f \<noteq> ErrGroupOperationForbidden"
  by (cases f; simp)+

lemma fault_err_cases: "fault_err f = ErrDB \<or> fault_err f = ErrCanceled"
  by (cases f) auto

section \<open>Queries on groups\<close>

definition q_GetGroup :: "db \<Rightarrow> string \<Rightarrow> Group res" where
  "q_GetGroup d gid = readQ d ''GetGroup'' [gid]
     (case tbl_get (\<lambda>g. Group_ID g = gid) (db_groups d) of None \<Rightarrow> Inl ErrNoRows | Some g \<Rightarrow> Inr g)"

fun group_type_ok :: "GroupType \<Rightarrow> bool" where
  "group_type_ok (GroupType_Other _) = False"
| "group_type_ok _ = True"

definition q_CreateGroup :: "db \<Rightarrow> string \<Rightarrow> string \<Rightarrow> GroupType \<Rightarrow> Group res \<times> db" where
  "q_CreateGroup d gid name gtype = writeQ d ''CreateGroup'' [gid]
     (if tbl_exists (\<lambda>g. Group_ID g = gid) (db_groups d) \<or> \<not> group_type_ok gtype
         \<or> (gtype = GroupType_System \<and> tbl_exists (\<lambda>g. Group_Type g = GroupType_System) (db_groups d))
      then (Inl ErrDB, d)
      else let g = \<lparr>Group_ID = gid, Group_Name = name, Group_Type = gtype,
                    Group_CreatedAt = db_now d, Group_UpdatedAt = db_now d\<rparr>
           in (Inr g, d\<lparr>db_groups := db_groups d @ [g]\<rparr>))"

definition q_ListGroups :: "db \<Rightarrow> Group list res" where
  "q_ListGroups d = readQ d ''ListGroups'' [] (Inr (sort_key (\<lambda>g. - Group_CreatedAt g) (db_groups d)))"

definition is_member :: "db \<Rightarrow> string \<Rightarrow> string \<Rightarrow> bool" where
  "is_member d u g = tbl_exists (\<lambda>m. Member_GroupID m = g \<and> Member_UserID m = u) (db_members d)"

definition q_ListGroupsByUser :: "db \<Rightarrow> string \<Rightarrow> Group list res" where
  "q_ListGroupsByUser d u = readQ d ''ListGroupsByUser'' [u]
     (Inr (sort_key (\<lambda>g. - Group_CreatedAt g) (filter (\<lambda>g. is_member d u (Group_ID g)) (db_groups d))))"

definition q_GetPersonalGroupByUser :: "db \<Rightarrow> string \<Rightarrow> Group res" where
  "q_GetPersonalGroupByUser d u = readQ d ''GetPersonalGroupByUser'' [u]
     (case tbl_get (\<lambda>g. Group_Type g = GroupType_Personal \<and> is_member d u (Group_ID g)) (db_groups d) of
        None \<Rightarrow> Inl ErrNoRows | Some g \<Rightarrow> Inr g)"

definition q_UpdateGroupName :: "db \<Rightarrow> string \<Rightarrow> string \<Rightarrow> unit res \<times> db" where
  "q_UpdateGroupName d gid name = writeQ d ''UpdateGroupName'' [gid]
     (Inr (), d\<lparr>db_groups := tbl_update (\<lambda>g. Group_ID g = gid)
                  (\<lambda>g. g\<lparr>Group_Name := name, Group_UpdatedAt := db_now d\<rparr>) (db_groups d)\<rparr>)"

text \<open>
  Deleting a group cascades to its members, to its custom roles and to their keys (and clears the
  role of a token); it is refused when a host, a session or an account still belongs to it, or when
  a member of another group still has one of the deleted roles.
\<close>

definition roles_of_group :: "db \<Rightarrow> string \<Rightarrow> string list" where
  "roles_of_group d gid = map Role_ID (filter (\<lambda>r. Role_GroupID r = Some gid) (db_roles d))"

definition q_DeleteGroup :: "db \<Rightarrow> string \<Rightarrow> unit res \<times> db" where
  "q_DeleteGroup d gid = writeQ d ''DeleteGroup'' [gid]
     (let gone = roles_of_group d gid;
          kept = tbl_delete (\<lambda>m. Member_GroupID m = gid) (db_members d)
      in if \<not> tbl_exists (\<lambda>g. Group_ID g = gid) (db_groups d) then (Inr (), d)
         else if tbl_exists (\<lambda>h. Host_GroupID h = gid) (db_hosts d)
             \<or> tbl_exists (\<lambda>s. Session_GroupID s = gid) (db_sessions d)
             \<or> tbl_exists (\<lambda>a. Account_GroupID a = gid) (db_accounts d)
             \<or> tbl_exists (\<lambda>m. Member_RoleID m \<in> set gone) kept
             \<or> tbl_exists (\<lambda>r. Role_GroupID r = Some gid \<and> Role_IsBuiltin r) (db_roles d)
         then (Inl ErrDB, d)
         else (Inr (), d\<lparr>db_groups := tbl_delete (\<lambda>g. Group_ID g = gid) (db_groups d),
                         db_members := kept,
                         db_roles := tbl_delete (\<lambda>r. Role_GroupID r = Some gid) (db_roles d),
                         db_role_permissions := tbl_delete (\<lambda>p. fst p \<in> set gone) (db_role_permissions d),
                         db_tokens := tbl_update (\<lambda>t. \<exists>r \<in> set gone. Token_PersonalRoleID t = Some r)
                           (\<lambda>t. t\<lparr>Token_PersonalRoleID := None\<rparr>) (db_tokens d)\<rparr>))"

section \<open>Queries on members\<close>

definition q_AddGroupMember ::
  "db \<Rightarrow> string \<Rightarrow> string \<Rightarrow> string \<Rightarrow> string option \<Rightarrow> GroupMember res \<times> db" where
  "q_AddGroupMember d gid uid rid addedBy = writeQ d ''AddGroupMember'' [gid, uid]
     (if is_member d uid gid
         \<or> \<not> tbl_exists (\<lambda>g. Group_ID g = gid) (db_groups d)
         \<or> \<not> tbl_exists (\<lambda>u. User_ID u = uid) (db_users d)
         \<or> \<not> tbl_exists (\<lambda>r. Role_ID r = rid) (db_roles d)
         \<or> (case addedBy of None \<Rightarrow> False | Some a \<Rightarrow> \<not> tbl_exists (\<lambda>u. User_ID u = a) (db_users d))
      then (Inl ErrDB, d)
      else let m = \<lparr>Member_GroupID = gid, Member_UserID = uid, Member_RoleID = rid,
                    Member_AddedBy = addedBy, Member_JoinedAt = db_now d\<rparr>
           in (Inr m, d\<lparr>db_members := db_members d @ [m]\<rparr>))"

definition q_RemoveGroupMember :: "db \<Rightarrow> string \<Rightarrow> string \<Rightarrow> unit res \<times> db" where
  "q_RemoveGroupMember d gid uid = writeQ d ''RemoveGroupMember'' [gid, uid]
     (Inr (), d\<lparr>db_members := tbl_delete (\<lambda>m. Member_GroupID m = gid \<and> Member_UserID m = uid)
                  (db_members d)\<rparr>)"

definition q_UpdateGroupMemberRole :: "db \<Rightarrow> string \<Rightarrow> string \<Rightarrow> string \<Rightarrow> unit res \<times> db" where
  "q_UpdateGroupMemberRole d gid uid rid = writeQ d ''UpdateGroupMemberRole'' [gid, uid]
     (if is_member d uid gid \<and> \<not> tbl_exists (\<lambda>r. Role_ID r = rid) (db_roles d) then (Inl ErrDB, d)
      else (Inr (), d\<lparr>db_members := tbl_update (\<lambda>m. Member_GroupID m = gid \<and> Member_UserID m = uid)
                       (\<lambda>m. m\<lparr>Member_RoleID := rid\<rparr>) (db_members d)\<rparr>))"

definition q_GetGroupMember :: "db \<Rightarrow> string \<Rightarrow> string \<Rightarrow> GroupMember res" where
  "q_GetGroupMember d gid uid = readQ d ''GetGroupMember'' [gid, uid]
     (case tbl_get (\<lambda>m. Member_GroupID m = gid \<and> Member_UserID m = uid) (db_members d) of
        None \<Rightarrow> Inl ErrNoRows | Some m \<Rightarrow> Inr m)"

definition q_ListGroupMembers :: "db \<Rightarrow> string \<Rightarrow> GroupMember list res" where
  "q_ListGroupMembers d gid = readQ d ''ListGroupMembers'' [gid]
     (Inr (sort_key Member_JoinedAt (filter (\<lambda>m. Member_GroupID m = gid) (db_members d))))"

definition q_ListUserGroupMemberships :: "db \<Rightarrow> string \<Rightarrow> GroupMember list res" where
  "q_ListUserGroupMemberships d uid = readQ d ''ListUserGroupMemberships'' [uid]
     (Inr (sort_key Member_JoinedAt (filter (\<lambda>m. Member_UserID m = uid) (db_members d))))"

text \<open>The permission keys of a user in a group: the join of the membership with its role's keys.\<close>

definition perm_rows :: "db \<Rightarrow> string \<Rightarrow> string \<Rightarrow> string list" where
  "perm_rows d uid gid =
     remdups (concat (map (\<lambda>m. map snd (filter (\<lambda>p. fst p = Member_RoleID m) (db_role_permissions d)))
                (filter (\<lambda>m. Member_UserID m = uid \<and> Member_GroupID m = gid) (db_members d))))"

definition q_GetUserPermissionsForGroup :: "db \<Rightarrow> string \<Rightarrow> string \<Rightarrow> string list res" where
  "q_GetUserPermissionsForGroup d uid gid =
     readQ d ''GetUserPermissionsForGroup'' [uid, gid] (Inr (perm_rows d uid gid))"

definition q_ListUserSystemPermissions :: "db \<Rightarrow> string \<Rightarrow> string list res" where
  "q_ListUserSystemPermissions d uid =
     readQ d ''ListUserSystemPermissions'' [uid] (Inr (perm_rows d uid ''system''))"

section \<open>Queries on roles\<close>

definition role_name_taken :: "db \<Rightarrow> string option \<Rightarrow> string \<Rightarrow> bool" where
  "role_name_taken d gid name = tbl_exists (\<lambda>r. Role_GroupID r = gid \<and> Role_Name r = name) (db_roles d)"

fun role_scope_ok :: "RoleScope \<Rightarrow> bool" where
  "role_scope_ok (RoleScope_Other _) = False"
| "role_scope_ok _ = True"

definition q_CreateRole :: "db \<Rightarrow> string \<Rightarrow> string option \<Rightarrow> string \<Rightarrow> RoleScope \<Rightarrow> Role res \<times> db" where
  "q_CreateRole d rid gid name scope = writeQ d ''CreateRole'' [rid]
     (if tbl_exists (\<lambda>r. Role_ID r = rid) (db_roles d)
         \<or> (case gid of None \<Rightarrow> False | Some g \<Rightarrow> \<not> tbl_exists (\<lambda>x. Group_ID x = g) (db_groups d))
         \<or> role_name_taken d gid name \<or> \<not> role_scope_ok scope
      then (Inl ErrDB, d)
      else let r = \<lparr>Role_ID = rid, Role_GroupID = gid, Role_Name = name, Role_Scope = scope,
                    Role_IsBuiltin = False, Role_PermissionKeys = [],
                    Role_CreatedAt = db_now d, Role_UpdatedAt = db_now d\<rparr>
           in (Inr r, d\<lparr>db_roles := db_roles d @ [r]\<rparr>))"

definition q_GetRole :: "db \<Rightarrow> string \<Rightarrow> Role res" where
  "q_GetRole d rid = readQ d ''GetRole'' [rid]
     (case tbl_get (\<lambda>r. Role_ID r = rid) (db_roles d) of None \<Rightarrow> Inl ErrNoRows | Some r \<Rightarrow> Inr r)"

definition q_ListGlobalRoles :: "db \<Rightarrow> Role list res" where
  "q_ListGlobalRoles d = readQ d ''ListGlobalRoles'' []
     (Inr (sort_key (\<lambda>r. (\<not> Role_IsBuiltin r, Role_Name r))
            (filter (\<lambda>r. Role_GroupID r = None) (db_roles d))))"

definition q_ListAssignableRoles :: "db \<Rightarrow> string option \<Rightarrow> RoleScope \<Rightarrow> Role list res" where
  "q_ListAssignableRoles d gid scope = readQ d ''ListAssignableRoles'' (case gid of None \<Rightarrow> [] | Some g \<Rightarrow> [g])
     (Inr (sort_key (\<lambda>r. (\<not> Role_IsBuiltin r, Role_GroupID r \<noteq> None, Role_Name r))
            (filter (\<lambda>r. (Role_GroupID r = None \<or> (gid \<noteq> None \<and> Role_GroupID r = gid)) \<and> Role_Scope r = scope)
              (db_roles d))))"

definition q_UpdateRoleName :: "db \<Rightarrow> string \<Rightarrow> string \<Rightarrow> unit res \<times> db" where
  "q_UpdateRoleName d rid name = writeQ d ''UpdateRoleName'' [rid]
     (case tbl_get (\<lambda>r. Role_ID r = rid) (db_roles d) of
        None \<Rightarrow> (Inr (), d)
      | Some r \<Rightarrow>
          if Role_Name r \<noteq> name \<and> (Role_IsBuiltin r \<or> role_name_taken d (Role_GroupID r) name)
          then (Inl ErrDB, d)
          else (Inr (), d\<lparr>db_roles := tbl_update (\<lambda>x. Role_ID x = rid)
                           (\<lambda>x. x\<lparr>Role_Name := name, Role_UpdatedAt := db_now d\<rparr>) (db_roles d)\<rparr>))"

definition role_builtin :: "db \<Rightarrow> string \<Rightarrow> bool" where
  "role_builtin d rid = tbl_exists (\<lambda>r. Role_ID r = rid \<and> Role_IsBuiltin r) (db_roles d)"

definition q_DeleteRole :: "db \<Rightarrow> string \<Rightarrow> unit res \<times> db" where
  "q_DeleteRole d rid = writeQ d ''DeleteRole'' [rid]
     (if role_builtin d rid \<or> tbl_exists (\<lambda>m. Member_RoleID m = rid) (db_members d) then (Inl ErrDB, d)
      else (Inr (), d\<lparr>db_roles := tbl_delete (\<lambda>r. Role_ID r = rid) (db_roles d),
                      db_role_permissions := tbl_delete (\<lambda>p. fst p = rid) (db_role_permissions d),
                      db_tokens := tbl_update (\<lambda>t. Token_PersonalRoleID t = Some rid)
                        (\<lambda>t. t\<lparr>Token_PersonalRoleID := None\<rparr>) (db_tokens d)\<rparr>))"

definition q_ListRolePermissions :: "db \<Rightarrow> string \<Rightarrow> string list res" where
  "q_ListRolePermissions d rid = readQ d ''ListRolePermissions'' [rid]
     (Inr (sort (map snd (filter (\<lambda>p. fst p = rid) (db_role_permissions d)))))"

definition q_ListRolePermissionsForRoles :: "db \<Rightarrow> string list \<Rightarrow> (string \<times> string) list res" where
  "q_ListRolePermissionsForRoles d rids = readQ d ''ListRolePermissionsForRoles'' rids
     (Inr (sort (filter (\<lambda>p. fst p \<in> set rids) (db_role_permissions d))))"

definition q_AddRolePermission :: "db \<Rightarrow> string \<Rightarrow> string \<Rightarrow> unit res \<times> db" where
  "q_AddRolePermission d rid key = writeQ d ''AddRolePermission'' [rid, key]
     (if role_builtin d rid \<or> \<not> tbl_exists (\<lambda>r. Role_ID r = rid) (db_roles d) then (Inl ErrDB, d)
      else if (rid, key) \<in> set (db_role_permissions d) then (Inr (), d)
      else (Inr (), d\<lparr>db_role_permissions := db_role_permissions d @ [(rid, key)]\<rparr>))"

definition q_RemoveRolePermission :: "db \<Rightarrow> string \<Rightarrow> string \<Rightarrow> unit res \<times> db" where
  "q_RemoveRolePermission d rid key = writeQ d ''RemoveRolePermission'' [rid, key]
     (if role_builtin d rid \<and> (rid, key) \<in> set (db_role_permissions d) then (Inl ErrDB, d)
      else (Inr (), d\<lparr>db_role_permissions := tbl_delete (\<lambda>p. p = (rid, key)) (db_role_permissions d)\<rparr>))"

section \<open>Queries on users and registration tokens\<close>

definition q_CreateUser ::
  "db \<Rightarrow> string \<Rightarrow> string \<Rightarrow> string option \<Rightarrow> string option \<Rightarrow> unit res \<times> db" where
  "q_CreateUser d uid pw resoniteId icon = writeQ d ''CreateUser'' [uid]
     (if tbl_exists (\<lambda>u. User_ID u = uid) (db_users d) then (Inl ErrDB, d)
      else (Inr (), d\<lparr>db_users := db_users d @
              [\<lparr>User_ID = uid, User_Password = pw, User_ResoniteID = resoniteId, User_IconUrl = icon\<rparr>]\<rparr>))"

text \<open>
  Deleting a user cascades to the memberships; the columns that name the user as an author
  (\<open>added_by\<close>, \<open>created_by\<close>) are set to NULL.
\<close>

definition forget_author :: "string \<Rightarrow> string option \<Rightarrow> string option" where
  "forget_author uid a = (if a = Some uid then None else a)"

definition q_DeleteUser :: "db \<Rightarrow> string \<Rightarrow> unit res \<times> db" where
  "q_DeleteUser d uid = writeQ d ''DeleteUser'' [uid]
     (if \<not> tbl_exists (\<lambda>u. User_ID u = uid) (db_users d) then (Inr (), d)
      else (Inr (), d\<lparr>
        db_users := tbl_delete (\<lambda>u. User_ID u = uid) (db_users d),
        db_members := map (\<lambda>m. m\<lparr>Member_AddedBy := forget_author uid (Member_AddedBy m)\<rparr>)
          (tbl_delete (\<lambda>m. Member_UserID m = uid) (db_members d)),
        db_hosts := map (\<lambda>h. h\<lparr>Host_CreatedBy := forget_author uid (Host_CreatedBy h)\<rparr>) (db_hosts d),
        db_sessions := map (\<lambda>s. s\<lparr>Session_CreatedBy := forget_author uid (Session_CreatedBy s)\<rparr>) (db_sessions d),
        db_accounts := map (\<lambda>a. a\<lparr>Account_CreatedBy := forget_author uid (Account_CreatedBy a)\<rparr>) (db_accounts d)\<rparr>))"

definition q_GetUser :: "db \<Rightarrow> string \<Rightarrow> User res" where
  "q_GetUser d uid = readQ d ''GetUser'' [uid]
     (case tbl_get (\<lambda>u. User_ID u = uid) (db_users d) of None \<Rightarrow> Inl ErrNoRows | Some u \<Rightarrow> Inr u)"

definition q_ListUsers :: "db \<Rightarrow> User list res" where
  "q_ListUsers d = readQ d ''ListUsers'' [] (Inr (sort_key User_ID (db_users d)))"

definition q_UpdateUserPassword :: "db \<Rightarrow> string \<Rightarrow> string \<Rightarrow> unit res \<times> db" where
  "q_UpdateUserPassword d uid pw = writeQ d ''UpdateUserPassword'' [uid]
     (Inr (), d\<lparr>db_users := tbl_update (\<lambda>u. User_ID u = uid) (\<lambda>u. u\<lparr>User_Password := pw\<rparr>) (db_users d)\<rparr>)"

text \<open>The token column holds a SHA-256 digest; its CHECK constraint asks for 64 hexadecimal digits.\<close>

definition is_hex_digest :: "string \<Rightarrow> bool" where
  "is_hex_digest s \<longleftrightarrow> length s = 64 \<and> list_all (\<lambda>c. c \<in> set ''0123456789abcdef'') s"

definition q_CreateRegistrationToken ::
  "db \<Rightarrow> string \<Rightarrow> string \<Rightarrow> time \<Rightarrow> string option \<Rightarrow> unit res \<times> db" where
  "q_CreateRegistrationToken d tok resoniteId expiresAt rid = writeQ d ''CreateRegistrationToken'' [tok]
     (if tbl_exists (\<lambda>t. Token_Token t = tok) (db_tokens d) \<or> \<not> is_hex_digest tok
         \<or> (case rid of None \<Rightarrow> False | Some r \<Rightarrow> \<not> tbl_exists (\<lambda>x. Role_ID x = r) (db_roles d))
      then (Inl ErrDB, d)
      else (Inr (), d\<lparr>db_tokens := db_tokens d @
              [\<lparr>Token_Token = tok, Token_ResoniteID = resoniteId, Token_ExpiresAt = expiresAt,
                Token_UsedAt = None, Token_PersonalRoleID = rid\<rparr>]\<rparr>))"

definition q_GetValidRegistrationToken :: "db \<Rightarrow> string \<Rightarrow> RegistrationToken res" where
  "q_GetValidRegistrationToken d tok = readQ d ''GetValidRegistrationToken'' [tok]
     (case tbl_get (\<lambda>t. Token_Token t = tok \<and> db_now d < Token_ExpiresAt t \<and> Token_UsedAt t = None) (db_tokens d) of
        None \<Rightarrow> Inl ErrNoRows | Some t \<Rightarrow> Inr t)"

text \<open>\<open>:execrows\<close>: the result is the number of rows the update touched.\<close>

definition q_MarkRegistrationTokenUsed :: "db \<Rightarrow> string \<Rightarrow> nat res \<times> db" where
  "q_MarkRegistrationTokenUsed d tok = writeQ d ''MarkRegistrationTokenUsed'' [tok]
     (let hit = (\<lambda>t. Token_Token t = tok \<and> Token_UsedAt t = None)
      in (Inr (length (filter hit (db_tokens d))),
          d\<lparr>db_tokens := tbl_update hit (\<lambda>t. t\<lparr>Token_UsedAt := Some (db_now d)\<rparr>) (db_tokens d)\<rparr>))"

end
