(* ===== verification/Repos.thy ===== *)
theory Repos
  imports Store
begin

text \<open>
  The repositories of \<open>adapter/\<close> for groups, members and roles, over the queries of theory Store,
  and the well-formedness of the permission tables. A row and its entity have the same fields, so
  the conversions \<open>dbGroupToEntity\<close>, \<open>dbGroupMemberToEntity\<close> and \<open>dbRoleToEntity\<close> are identities
  here; what a repository adds is the translation of \<open>pgx.ErrNoRows\<close>, the keys of a role and the
  replacement of a role's keys.
\<close>

section \<open>Groups and members\<close>

fun convertDBErr :: "err \<Rightarrow> err" where
  "convertDBErr ErrNoRows = ErrNotFound"
| "convertDBErr e = e"

definition GroupRepository_Create :: "db \<Rightarrow> string \<Rightarrow> string \<Rightarrow> GroupType \<Rightarrow> Group res \<times> db" where
  "GroupRepository_Create d gid name gtype = map_errS convertDBErr (q_CreateGroup d gid name gtype)"

definition GroupRepository_Get :: "db \<Rightarrow> string \<Rightarrow> Group res" where
  "GroupRepository_Get d gid = map_err convertDBErr (q_GetGroup d gid)"

definition GroupRepository_ListAll :: "db \<Rightarrow> Group list res" where
  "GroupRepository_ListAll d = q_ListGroups d"

definition GroupRepository_ListByUser :: "db \<Rightarrow> string \<Rightarrow> Group list res" where
  "GroupRepository_ListByUser d uid = q_ListGroupsByUser d uid"

definition GroupRepository_GetPersonalGroupByUser :: "db \<Rightarrow> string \<Rightarrow> Group res" where
  "GroupRepository_GetPersonalGroupByUser d uid = map_err convertDBErr (q_GetPersonalGroupByUser d uid)"

definition GroupRepository_UpdateName :: "db \<Rightarrow> string \<Rightarrow> string \<Rightarrow> unit res \<times> db" where
  "GroupRepository_UpdateName d gid name = q_UpdateGroupName d gid name"

definition GroupRepository_Delete :: "db \<Rightarrow> string \<Rightarrow> unit res \<times> db" where
  "GroupRepository_Delete d gid = q_DeleteGroup d gid"

definition GroupMemberRepository_Add ::
  "db \<Rightarrow> string \<Rightarrow> string \<Rightarrow> string \<Rightarrow> string option \<Rightarrow> GroupMember res \<times> db" where
  "GroupMemberRepository_Add d gid uid rid addedBy =
     map_errS convertDBErr (q_AddGroupMember d gid uid rid addedBy)"

definition GroupMemberRepository_Remove :: "db \<Rightarrow> string \<Rightarrow> string \<Rightarrow> unit res \<times> db" where
  "GroupMemberRepository_Remove d gid uid = q_RemoveGroupMember d gid uid"

definition GroupMemberRepository_UpdateRole :: "db \<Rightarrow> string \<Rightarrow> string \<Rightarrow> string \<Rightarrow> unit res \<times> db" where
  "GroupMemberRepository_UpdateRole d gid uid rid = q_UpdateGroupMemberRole d gid uid rid"

definition GroupMemberRepository_Get :: "db \<Rightarrow> string \<Rightarrow> string \<Rightarrow> GroupMember res" where
  "GroupMemberRepository_Get d gid uid = map_err convertDBErr (q_GetGroupMember d gid uid)"

definition GroupMemberRepository_ListByGroup :: "db \<Rightarrow> string \<Rightarrow> GroupMember list res" where
  "GroupMemberRepository_ListByGroup d gid = q_ListGroupMembers d gid"

definition GroupMemberRepository_ListByUser :: "db \<Rightarrow> string \<Rightarrow> GroupMember list res" where
  "GroupMemberRepository_ListByUser d uid = q_ListUserGroupMemberships d uid"

definition GroupMemberRepository_GetUserPermissionsForGroup :: "db \<Rightarrow> string \<Rightarrow> string \<Rightarrow> string list res" where
  "GroupMemberRepository_GetUserPermissionsForGroup d uid gid = q_GetUserPermissionsForGroup d uid gid"

definition GroupMemberRepository_ListUserSystemPermissions :: "db \<Rightarrow> string \<Rightarrow> string list res" where
  "GroupMemberRepository_ListUserSystemPermissions d uid = q_ListUserSystemPermissions d uid"

section \<open>Roles\<close>

definition RoleRepository_Create ::
  "db \<Rightarrow> string \<Rightarrow> string option \<Rightarrow> string \<Rightarrow> RoleScope \<Rightarrow> Role res \<times> db" where
  "RoleRepository_Create d rid gid name scope = map_errS convertDBErr (q_CreateRole d rid gid name scope)"

definition RoleRepository_Get :: "db \<Rightarrow> string \<Rightarrow> Role res" where
  "RoleRepository_Get d rid =
     bindR (map_err convertDBErr (q_GetRole d rid)) (\<lambda>r.
     bindR (q_ListRolePermissions d rid) (\<lambda>keys.
     Inr (r\<lparr>Role_PermissionKeys := keys\<rparr>)))"

definition RoleRepository_attachPermissionsToRoles :: "db \<Rightarrow> Role list \<Rightarrow> Role list res" where
  "RoleRepository_attachPermissionsToRoles d rows =
     (if rows = [] then Inr []
      else bindR (q_ListRolePermissionsForRoles d (map Role_ID rows)) (\<lambda>perms.
        Inr (map (\<lambda>r. r\<lparr>Role_PermissionKeys := map snd (filter (\<lambda>p. fst p = Role_ID r) perms)\<rparr>) rows)))"

definition RoleRepository_ListGlobal :: "db \<Rightarrow> Role list res" where
  "RoleRepository_ListGlobal d = bindR (q_ListGlobalRoles d) (RoleRepository_attachPermissionsToRoles d)"

definition RoleRepository_ListAssignable :: "db \<Rightarrow> string option \<Rightarrow> RoleScope \<Rightarrow> Role list res" where
  "RoleRepository_ListAssignable d gid scope =
     bindR (q_ListAssignableRoles d gid scope) (RoleRepository_attachPermissionsToRoles d)"

definition RoleRepository_UpdateName :: "db \<Rightarrow> string \<Rightarrow> string \<Rightarrow> unit res \<times> db" where
  "RoleRepository_UpdateName d rid name = q_UpdateRoleName d rid name"

definition RoleRepository_Delete :: "db \<Rightarrow> string \<Rightarrow> unit res \<times> db" where
  "RoleRepository_Delete d rid = q_DeleteRole d rid"

text \<open>
  The code ranges over two Go maps, whose iteration order is unspecified: \<open>ord\<close> is the order, any
  function that permutes its argument.
\<close>

definition iteration_order :: "(string list \<Rightarrow> string list) \<Rightarrow> bool" where
  "iteration_order ord \<longleftrightarrow> (\<forall>xs. set (ord xs) = set xs \<and> length (ord xs) = length xs)"

lemma iteration_order_id [simp]: "iteration_order id"
  by (simp add: iteration_order_def)

definition RoleRepository_ReplacePermissions ::
  "(string list \<Rightarrow> string list) \<Rightarrow> db \<Rightarrow> string \<Rightarrow> string list \<Rightarrow> unit res \<times> db" where
  "RoleRepository_ReplacePermissions ord d rid keys =
     checkS (q_ListRolePermissions d rid) d (\<lambda>existing.
     bindS (forS (\<lambda>s k. q_RemoveRolePermission s rid k) d
              (filter (\<lambda>k. k \<notin> set keys) (ord (remdups existing)))) (\<lambda>_ d1.
     forS (\<lambda>s k. q_AddRolePermission s rid k) d1
       (filter (\<lambda>k. k \<notin> set existing) (ord (remdups keys)))))"

definition RoleRepository_GetPermissions :: "db \<Rightarrow> string \<Rightarrow> string list res" where
  "RoleRepository_GetPermissions d rid = q_ListRolePermissions d rid"

lemmas repo_defs =
  GroupRepository_Create_def GroupRepository_Get_def GroupRepository_ListAll_def
  GroupRepository_ListByUser_def GroupRepository_GetPersonalGroupByUser_def
  GroupRepository_UpdateName_def GroupRepository_Delete_def GroupMemberRepository_Add_def
  GroupMemberRepository_Remove_def GroupMemberRepository_UpdateRole_def GroupMemberRepository_Get_def
  GroupMemberRepository_ListByGroup_def GroupMemberRepository_ListByUser_def
  GroupMemberRepository_GetUserPermissionsForGroup_def
  GroupMemberRepository_ListUserSystemPermissions_def
  RoleRepository_Create_def RoleRepository_UpdateName_def RoleRepository_Delete_def
  RoleRepository_GetPermissions_def

section \<open>What the queries return\<close>

definition group_of :: "db \<Rightarrow> string \<Rightarrow> Group option" where
  "group_of d gid = tbl_get (\<lambda>g. Group_ID g = gid) (db_groups d)"

definition role_of :: "db \<Rightarrow> string \<Rightarrow> Role option" where
  "role_of d rid = tbl_get (\<lambda>r. Role_ID r = rid) (db_roles d)"

definition user_exists :: "db \<Rightarrow> string \<Rightarrow> bool" where
  "user_exists d uid = tbl_exists (\<lambda>u. User_ID u = uid) (db_users d)"

text \<open>The keys of a role, and the keys a user holds in a group through a membership.\<close>

definition role_keys :: "db \<Rightarrow> string \<Rightarrow> string set" where
  "role_keys d rid = {k. (rid, k) \<in> set (db_role_permissions d)}"

definition perms :: "db \<Rightarrow> string \<Rightarrow> string \<Rightarrow> string set" where
  "perms d uid gid = (\<Union>m \<in> {m \<in> set (db_members d). Member_UserID m = uid \<and> Member_GroupID m = gid}.
                        role_keys d (Member_RoleID m))"

lemma set_perm_rows [simp]: "set (perm_rows d uid gid) = perms d uid gid"
  by (force simp: perm_rows_def perms_def role_keys_def)

lemma group_ID_of: "group_of d gid = Some g \<Longrightarrow> Group_ID g = gid \<and> g \<in> set (db_groups d)"
  by (auto simp: group_of_def dest: tbl_get_SomeD)

lemma role_ID_of: "role_of d rid = Some r \<Longrightarrow> Role_ID r = rid \<and> r \<in> set (db_roles d)"
  by (auto simp: role_of_def dest: tbl_get_SomeD)

lemma GroupRepository_Get_Inr:
  "GroupRepository_Get d gid = Inr g \<longleftrightarrow> db_fault d (''GetGroup'', [gid]) = None \<and> group_of d gid = Some g"
  by (auto simp: GroupRepository_Get_def q_GetGroup_def group_of_def ctrl_simps split: option.splits)

lemma RoleRepository_Get_Inr:
  assumes "RoleRepository_Get d rid = Inr r"
  shows "\<exists>r0. role_of d rid = Some r0 \<and> Role_ID r = Role_ID r0 \<and> Role_GroupID r = Role_GroupID r0
           \<and> Role_Name r = Role_Name r0 \<and> Role_Scope r = Role_Scope r0 \<and> Role_IsBuiltin r = Role_IsBuiltin r0"
    and "set (Role_PermissionKeys r) = role_keys d rid"
  using assms
  by (auto simp: RoleRepository_Get_def q_GetRole_def q_ListRolePermissions_def role_of_def role_keys_def
      ctrl_simps image_iff split: option.splits)


section \<open>Replacing the keys of a role\<close>

text \<open>
  The two loops only ever touch \<open>role_permissions\<close>. When they all succeed the role has exactly the
  wanted keys, whatever the iteration order, and no other role changes.
\<close>

definition only_role_permissions :: "db \<Rightarrow> db \<Rightarrow> bool" where
  "only_role_permissions d d' \<longleftrightarrow> (\<exists>ps. d' = d\<lparr>db_role_permissions := ps\<rparr>)"

lemma only_role_permissions_refl [simp]: "only_role_permissions d d"
  unfolding only_role_permissions_def by (rule exI[of _ "db_role_permissions d"]) simp

lemma only_role_permissions_trans:
  "only_role_permissions a b \<Longrightarrow> only_role_permissions b c \<Longrightarrow> only_role_permissions a c"
  by (auto simp: only_role_permissions_def)

lemma only_role_permissions_eqs:
  assumes "only_role_permissions d d'"
  shows "db_roles d' = db_roles d" "db_groups d' = db_groups d" "db_members d' = db_members d"
    "db_users d' = db_users d" "db_tokens d' = db_tokens d" "db_fault d' = db_fault d"
  using assms by (auto simp: only_role_permissions_def)

lemma q_RemoveRolePermission_only: "only_role_permissions d (snd (q_RemoveRolePermission d rid k))"
  unfolding q_RemoveRolePermission_def
  by (rule writeQ_snd) (auto simp: only_role_permissions_def intro: exI[of _ "db_role_permissions d"])

lemma q_AddRolePermission_only: "only_role_permissions d (snd (q_AddRolePermission d rid k))"
  unfolding q_AddRolePermission_def
  by (rule writeQ_snd) (auto simp: only_role_permissions_def intro: exI[of _ "db_role_permissions d"])

lemma forS_only:
  assumes "\<And>s x. only_role_permissions s (snd (f s x))"
  shows "only_role_permissions d (snd (forS f d xs))"
  by (rule forS_snd[where P = "only_role_permissions d"]) (auto intro: only_role_permissions_trans assms)

lemma ReplacePermissions_only:
  "only_role_permissions d (snd (RoleRepository_ReplacePermissions ord d rid keys))"
  unfolding RoleRepository_ReplacePermissions_def
  by (rule checkS_snd, simp, rule bindS_snd)
     (rule only_role_permissions_trans[OF forS_only forS_only] forS_only
        q_RemoveRolePermission_only q_AddRolePermission_only)+

lemma forS_Remove:
  "forS (\<lambda>s k. q_RemoveRolePermission s rid k) d ks = (Inr u, d') \<Longrightarrow>
     set (db_role_permissions d') = set (db_role_permissions d) - {rid} \<times> set ks"
proof (induction ks arbitrary: d)
  case (Cons k ks)
  from Cons.prems obtain d1 where 1: "q_RemoveRolePermission d rid k = (Inr (), d1)"
    and 2: "forS (\<lambda>s k. q_RemoveRolePermission s rid k) d1 ks = (Inr u, d')"
    by (auto simp: ctrl_simps)
  from 1 have "set (db_role_permissions d1) = set (db_role_permissions d) - {(rid, k)}"
    by (auto simp: q_RemoveRolePermission_def ctrl_simps split: if_splits)
  then show ?case using Cons.IH[OF 2] by auto
qed simp

lemma forS_Add:
  "forS (\<lambda>s k. q_AddRolePermission s rid k) d ks = (Inr u, d') \<Longrightarrow>
     set (db_role_permissions d') = set (db_role_permissions d) \<union> {rid} \<times> set ks"
proof (induction ks arbitrary: d)
  case (Cons k ks)
  from Cons.prems obtain d1 where 1: "q_AddRolePermission d rid k = (Inr (), d1)"
    and 2: "forS (\<lambda>s k. q_AddRolePermission s rid k) d1 ks = (Inr u, d')"
    by (auto simp: ctrl_simps)
  from 1 have "set (db_role_permissions d1) = set (db_role_permissions d) \<union> {(rid, k)}"
    by (auto simp: q_AddRolePermission_def ctrl_simps split: if_splits)
  then show ?case using Cons.IH[OF 2] by auto
qed simp

lemma ReplacePermissions_set:
  assumes "RoleRepository_ReplacePermissions ord d rid keys = (Inr u, d')" "iteration_order ord"
  shows "set (db_role_permissions d') = {p \<in> set (db_role_permissions d). fst p \<noteq> rid} \<union> {rid} \<times> set keys"
proof -
  from assms(1) obtain ex d1 where
    ex: "q_ListRolePermissions d rid = Inr ex" and
    rm: "forS (\<lambda>s k. q_RemoveRolePermission s rid k) d (filter (\<lambda>k. k \<notin> set keys) (ord (remdups ex))) = (Inr (), d1)" and
    ad: "forS (\<lambda>s k. q_AddRolePermission s rid k) d1 (filter (\<lambda>k. k \<notin> set ex) (ord (remdups keys))) = (Inr u, d')"
    by (auto simp: RoleRepository_ReplacePermissions_def ctrl_simps)
  have ord: "set (ord (remdups xs)) = set xs" for xs
    using assms(2) by (simp add: iteration_order_def)
  have ex': "(k \<in> set ex) = ((rid, k) \<in> set (db_role_permissions d))" for k
    using ex by (auto simp: q_ListRolePermissions_def ctrl_simps image_iff)
  have E: "set (db_role_permissions d') =
          (set (db_role_permissions d) - {rid} \<times> {k \<in> set ex. k \<notin> set keys}) \<union> {rid} \<times> {k \<in> set keys. k \<notin> set ex}"
    by (simp only: forS_Remove[OF rm] forS_Add[OF ad] set_filter ord)
  show ?thesis
  proof (rule set_eqI)
    fix p :: "string \<times> string"
    obtain r k where p: "p = (r, k)" by (cases p)
    show "p \<in> set (db_role_permissions d') \<longleftrightarrow>
            p \<in> {p \<in> set (db_role_permissions d). fst p \<noteq> rid} \<union> {rid} \<times> set keys"
      by (cases "r = rid"; cases "k \<in> set keys") (simp_all add: E p ex')
  qed
qed

text \<open>Every key the loops may leave behind, also when they stop half way, is an old one or a wanted one.\<close>

lemma forS_Add_subset:
  "set (db_role_permissions (snd (forS (\<lambda>s k. q_AddRolePermission s rid k) d ks)))
     \<subseteq> set (db_role_permissions d) \<union> {rid} \<times> set ks"
proof -
  have "set (db_role_permissions (snd (forS (\<lambda>s k. q_AddRolePermission s rid k) d ks)))
          \<subseteq> set (db_role_permissions d) \<union> {rid} \<times> set ks"
    by (rule forS_snd[where P = "\<lambda>s. set (db_role_permissions s) \<subseteq> set (db_role_permissions d) \<union> {rid} \<times> set ks"])
       (auto simp: q_AddRolePermission_def writeQ_def split: option.splits if_splits)
  then show ?thesis .
qed

lemma forS_Remove_subset:
  "set (db_role_permissions (snd (forS (\<lambda>s k. q_RemoveRolePermission s rid k) d ks)))
     \<subseteq> set (db_role_permissions d)"
  by (rule forS_snd[where P = "\<lambda>s. set (db_role_permissions s) \<subseteq> set (db_role_permissions d)"])
     (auto simp: q_RemoveRolePermission_def writeQ_def split: option.splits if_splits)

lemma ReplacePermissions_subset:
  assumes "iteration_order ord"
  shows "set (db_role_permissions (snd (RoleRepository_ReplacePermissions ord d rid keys)))
           \<subseteq> set (db_role_permissions d) \<union> {rid} \<times> set keys"
proof -
  let ?P = "\<lambda>s. set (db_role_permissions s) \<subseteq> set (db_role_permissions d) \<union> {rid} \<times> set keys"
  have ord: "set (ord (remdups xs)) = set xs" for xs
    using assms by (simp add: iteration_order_def)
  have "?P (snd (RoleRepository_ReplacePermissions ord d rid keys))"
    unfolding RoleRepository_ReplacePermissions_def
  proof (rule checkS_snd[where P = ?P], simp, rule bindS_snd[where P = ?P], goal_cases)
    case (1 ex)
    then show ?case using forS_Remove_subset by fastforce
  next
    case (2 ex u)
    then show ?case using forS_Remove_subset forS_Add_subset ord by fastforce
  qed
  then show ?thesis .
qed

end
