(* ===== verification/RbacInv.thy ===== *)
theory RbacInv
  imports Repos
begin

text \<open>
  The well-formedness of the permission tables and its preservation, query by query. The primary
  and foreign keys of the schema are part of it; the rest is what the schema does not enforce and
  the usecases promise: a role holds only keys of its scope, a member's role fits the type of the
  group, an invitation carries a normal-scope role, \<open>system\<close> is the one system group, and a
  personal group has at most one member.
\<close>

section \<open>The invariant\<close>

fun scope_fits :: "RoleScope \<Rightarrow> GroupType \<Rightarrow> bool" where
  "scope_fits RoleScope_Normal t \<longleftrightarrow> t = GroupType_Normal \<or> t = GroupType_Personal"
| "scope_fits RoleScope_System t \<longleftrightarrow> t = GroupType_System"
| "scope_fits (RoleScope_Other _) t \<longleftrightarrow> False"

fun key_fits :: "RoleScope \<Rightarrow> string \<Rightarrow> bool" where
  "key_fits RoleScope_Normal k \<longleftrightarrow> IsValidPermissionKey k \<and> \<not> is_system_key k"
| "key_fits RoleScope_System k \<longleftrightarrow> IsValidPermissionKey k \<and> is_system_key k"
| "key_fits (RoleScope_Other _) k \<longleftrightarrow> False"

abbreviation members_of :: "db \<Rightarrow> string \<Rightarrow> GroupMember list" where
  "members_of d gid \<equiv> filter (\<lambda>m. Member_GroupID m = gid) (db_members d)"

definition role_scope :: "db \<Rightarrow> string \<Rightarrow> RoleScope option" where
  "role_scope d rid = map_option Role_Scope (role_of d rid)"

definition group_type :: "db \<Rightarrow> string \<Rightarrow> GroupType option" where
  "group_type d gid = map_option Group_Type (group_of d gid)"

definition ids_ok :: "db \<Rightarrow> bool" where
  "ids_ok d \<longleftrightarrow> distinct (map Group_ID (db_groups d)) \<and> distinct (map Role_ID (db_roles d))
     \<and> distinct (map (\<lambda>m. (Member_GroupID m, Member_UserID m)) (db_members d))"

definition groups_ok :: "db \<Rightarrow> bool" where
  "groups_ok d \<longleftrightarrow> group_type d SystemGroupID \<noteq> None
     \<and> (\<forall>g \<in> set (db_groups d). Group_Type g = GroupType_System \<longleftrightarrow> Group_ID g = SystemGroupID)"

definition roles_ok :: "db \<Rightarrow> bool" where
  "roles_ok d \<longleftrightarrow> role_scope d SeedRoleID_Admin = Some RoleScope_Normal \<and> role_builtin d SeedRoleID_Admin
     \<and> (\<forall>r \<in> set (db_roles d). role_scope_ok (Role_Scope r) \<and> (Role_IsBuiltin r \<longrightarrow> Role_GroupID r = None))"

definition role_keys_ok :: "db \<Rightarrow> bool" where
  "role_keys_ok d \<longleftrightarrow> (\<forall>p \<in> set (db_role_permissions d).
     case role_scope d (fst p) of None \<Rightarrow> False | Some sc \<Rightarrow> key_fits sc (snd p))"

lemma role_keys_ok_iff:
  "role_keys_ok d \<longleftrightarrow> (\<forall>p \<in> set (db_role_permissions d).
     \<exists>sc. role_scope d (fst p) = Some sc \<and> key_fits sc (snd p))"
  by (auto simp: role_keys_ok_def split: option.splits)

definition members_ok :: "db \<Rightarrow> bool" where
  "members_ok d \<longleftrightarrow> (\<forall>m \<in> set (db_members d). 
     (case role_scope d (Member_RoleID m) of None \<Rightarrow> False
      | Some sc \<Rightarrow> (case group_type d (Member_GroupID m) of None \<Rightarrow> False | Some t \<Rightarrow> scope_fits sc t))
     \<and> user_exists d (Member_UserID m))"

lemma members_ok_iff:
  "members_ok d \<longleftrightarrow> (\<forall>m \<in> set (db_members d). \<exists>sc t.
     role_scope d (Member_RoleID m) = Some sc \<and> group_type d (Member_GroupID m) = Some t
     \<and> scope_fits sc t \<and> user_exists d (Member_UserID m))"
  unfolding members_ok_def by (intro ball_cong refl) (auto split: option.splits)

definition personal_ok :: "db \<Rightarrow> bool" where
  "personal_ok d \<longleftrightarrow> (\<forall>g \<in> set (db_groups d).
     Group_Type g = GroupType_Personal \<longrightarrow> length (members_of d (Group_ID g)) \<le> 1)"

definition tokens_ok :: "db \<Rightarrow> bool" where
  "tokens_ok d \<longleftrightarrow> (\<forall>t \<in> set (db_tokens d). 
     case Token_PersonalRoleID t of None \<Rightarrow> True | Some rid \<Rightarrow> role_scope d rid = Some RoleScope_Normal)"

lemma tokens_ok_iff:
  "tokens_ok d \<longleftrightarrow> (\<forall>t \<in> set (db_tokens d). \<forall>rid. Token_PersonalRoleID t = Some rid \<longrightarrow>
     role_scope d rid = Some RoleScope_Normal)"
  by (auto simp: tokens_ok_def split: option.splits)

definition rbac_inv :: "db \<Rightarrow> bool" where
  "rbac_inv d \<longleftrightarrow> ids_ok d \<and> groups_ok d \<and> roles_ok d \<and> role_keys_ok d \<and> members_ok d
     \<and> personal_ok d \<and> tokens_ok d"

lemmas rbac_parts = ids_ok_def groups_ok_def roles_ok_def role_keys_ok_iff members_ok_iff
  personal_ok_def tokens_ok_iff

lemmas lookup_defs = group_of_def role_of_def user_exists_def role_scope_def group_type_def role_builtin_def

lemma lookup_frame [simp]:
  "group_of (d\<lparr>db_roles := rs\<rparr>) x = group_of d x"
  "group_of (d\<lparr>db_users := us\<rparr>) x = group_of d x"
  "group_of (d\<lparr>db_members := ms\<rparr>) x = group_of d x"
  "group_of (d\<lparr>db_role_permissions := ps\<rparr>) x = group_of d x"
  "group_of (d\<lparr>db_tokens := ts\<rparr>) x = group_of d x"
  "group_of (d\<lparr>db_hosts := hs\<rparr>) x = group_of d x"
  "group_of (d\<lparr>db_sessions := ss\<rparr>) x = group_of d x"
  "group_of (d\<lparr>db_accounts := as\<rparr>) x = group_of d x"
  "role_of (d\<lparr>db_groups := gs\<rparr>) x = role_of d x"
  "role_of (d\<lparr>db_users := us\<rparr>) x = role_of d x"
  "role_of (d\<lparr>db_members := ms\<rparr>) x = role_of d x"
  "role_of (d\<lparr>db_role_permissions := ps\<rparr>) x = role_of d x"
  "role_of (d\<lparr>db_tokens := ts\<rparr>) x = role_of d x"
  "role_of (d\<lparr>db_hosts := hs\<rparr>) x = role_of d x"
  "role_of (d\<lparr>db_sessions := ss\<rparr>) x = role_of d x"
  "role_of (d\<lparr>db_accounts := as\<rparr>) x = role_of d x"
  "user_exists (d\<lparr>db_groups := gs\<rparr>) x = user_exists d x"
  "user_exists (d\<lparr>db_roles := rs\<rparr>) x = user_exists d x"
  "user_exists (d\<lparr>db_members := ms\<rparr>) x = user_exists d x"
  "user_exists (d\<lparr>db_role_permissions := ps\<rparr>) x = user_exists d x"
  "user_exists (d\<lparr>db_tokens := ts\<rparr>) x = user_exists d x"
  "user_exists (d\<lparr>db_hosts := hs\<rparr>) x = user_exists d x"
  "user_exists (d\<lparr>db_sessions := ss\<rparr>) x = user_exists d x"
  "user_exists (d\<lparr>db_accounts := as\<rparr>) x = user_exists d x"
  "role_keys (d\<lparr>db_groups := gs\<rparr>) x = role_keys d x"
  "role_keys (d\<lparr>db_roles := rs\<rparr>) x = role_keys d x"
  "role_keys (d\<lparr>db_users := us\<rparr>) x = role_keys d x"
  "role_keys (d\<lparr>db_members := ms\<rparr>) x = role_keys d x"
  "role_keys (d\<lparr>db_tokens := ts\<rparr>) x = role_keys d x"
  "role_keys (d\<lparr>db_hosts := hs\<rparr>) x = role_keys d x"
  "role_keys (d\<lparr>db_sessions := ss\<rparr>) x = role_keys d x"
  "role_keys (d\<lparr>db_accounts := as\<rparr>) x = role_keys d x"
  "role_scope (d\<lparr>db_groups := gs\<rparr>) x = role_scope d x"
  "role_scope (d\<lparr>db_users := us\<rparr>) x = role_scope d x"
  "role_scope (d\<lparr>db_members := ms\<rparr>) x = role_scope d x"
  "role_scope (d\<lparr>db_role_permissions := ps\<rparr>) x = role_scope d x"
  "role_scope (d\<lparr>db_tokens := ts\<rparr>) x = role_scope d x"
  "role_scope (d\<lparr>db_hosts := hs\<rparr>) x = role_scope d x"
  "role_scope (d\<lparr>db_sessions := ss\<rparr>) x = role_scope d x"
  "role_scope (d\<lparr>db_accounts := as\<rparr>) x = role_scope d x"
  "role_builtin (d\<lparr>db_groups := gs\<rparr>) x = role_builtin d x"
  "role_builtin (d\<lparr>db_users := us\<rparr>) x = role_builtin d x"
  "role_builtin (d\<lparr>db_members := ms\<rparr>) x = role_builtin d x"
  "role_builtin (d\<lparr>db_role_permissions := ps\<rparr>) x = role_builtin d x"
  "role_builtin (d\<lparr>db_tokens := ts\<rparr>) x = role_builtin d x"
  "role_builtin (d\<lparr>db_hosts := hs\<rparr>) x = role_builtin d x"
  "role_builtin (d\<lparr>db_sessions := ss\<rparr>) x = role_builtin d x"
  "role_builtin (d\<lparr>db_accounts := as\<rparr>) x = role_builtin d x"
  "group_type (d\<lparr>db_roles := rs\<rparr>) x = group_type d x"
  "group_type (d\<lparr>db_users := us\<rparr>) x = group_type d x"
  "group_type (d\<lparr>db_members := ms\<rparr>) x = group_type d x"
  "group_type (d\<lparr>db_role_permissions := ps\<rparr>) x = group_type d x"
  "group_type (d\<lparr>db_tokens := ts\<rparr>) x = group_type d x"
  "group_type (d\<lparr>db_hosts := hs\<rparr>) x = group_type d x"
  "group_type (d\<lparr>db_sessions := ss\<rparr>) x = group_type d x"
  "group_type (d\<lparr>db_accounts := as\<rparr>) x = group_type d x"
  by (simp_all add: lookup_defs role_keys_def)

lemma tbl_get_delete_keep:
  "tbl_get p rs = Some r \<Longrightarrow> \<not> q r \<Longrightarrow> tbl_get p (tbl_delete q rs) = Some r"
  by (induction rs) (auto split: if_splits)

lemma tbl_get_snoc: "tbl_get p rs = Some r \<Longrightarrow> tbl_get p (rs @ [x]) = Some r"
  by (simp add: tbl_get_append)

lemma tbl_get_update_keep:
  "(\<And>r. p (f r) = p r) \<Longrightarrow> tbl_get p (tbl_update q f rs) = map_option (\<lambda>r. if q r then f r else r) (tbl_get p rs)"
  by (induction rs) auto

lemma tbl_exists_group [simp]: "tbl_exists (\<lambda>g. Group_ID g = gid) (db_groups d) \<longleftrightarrow> group_of d gid \<noteq> None"
  by (auto simp: group_of_def tbl_exists_iff tbl_get_None_iff)

lemma tbl_exists_role [simp]: "tbl_exists (\<lambda>r. Role_ID r = rid) (db_roles d) \<longleftrightarrow> role_of d rid \<noteq> None"
  by (auto simp: role_of_def tbl_exists_iff tbl_get_None_iff)

lemma role_builtin_iff: "ids_ok d \<Longrightarrow> role_builtin d rid \<longleftrightarrow> (\<exists>r. role_of d rid = Some r \<and> Role_IsBuiltin r)"
proof
  assume a: "ids_ok d" "role_builtin d rid"
  then obtain r where r: "r \<in> set (db_roles d)" "Role_ID r = rid" "Role_IsBuiltin r"
    by (auto simp: role_builtin_def tbl_exists_iff)
  then have "role_of d rid = Some r"
    using a tbl_get_key_unique[of Role_ID "db_roles d" r] by (simp add: role_of_def ids_ok_def)
  with r show "\<exists>r. role_of d rid = Some r \<and> Role_IsBuiltin r" by blast
next
  assume "\<exists>r. role_of d rid = Some r \<and> Role_IsBuiltin r"
  then show "role_builtin d rid" using role_ID_of by (auto simp: role_builtin_def tbl_exists_iff)
qed

lemma is_member_iff: "is_member d uid gid \<longleftrightarrow> (\<exists>m \<in> set (db_members d). Member_GroupID m = gid \<and> Member_UserID m = uid)"
  by (simp add: is_member_def tbl_exists_iff)

section \<open>Preservation\<close>

lemmas rbac_writeQ = writeQ_snd[where P = rbac_inv]

subsection \<open>Groups\<close>

lemma rbac_CreateGroup:
  assumes "rbac_inv d" shows "rbac_inv (snd (q_CreateGroup d gid name gtype))"
  unfolding q_CreateGroup_def
proof (rule rbac_writeQ[OF assms], goal_cases)
  case 1
  let ?g = "\<lparr>Group_ID = gid, Group_Name = name, Group_Type = gtype,
                    Group_CreatedAt = db_now d, Group_UpdatedAt = db_now d\<rparr>"
  show ?case
  proof (cases "group_of d gid \<noteq> None \<or> \<not> group_type_ok gtype
         \<or> (gtype = GroupType_System \<and> tbl_exists (\<lambda>g. Group_Type g = GroupType_System) (db_groups d))")
    case False
    let ?d = "d\<lparr>db_groups := db_groups d @ [?g]\<rparr>"
    have keep: "group_type d x = Some y \<Longrightarrow> group_type ?d x = Some y" for x y
      by (auto simp: group_type_def group_of_def tbl_get_snoc)
    have fresh: "Group_ID g \<noteq> gid" if "g \<in> set (db_groups d)" for g
      using False that by (auto simp: group_of_def tbl_get_None_iff)
    have sys: "gid \<noteq> SystemGroupID" using assms False by (auto simp: rbac_inv_def groups_ok_def group_type_def)
    obtain sg where "group_of d SystemGroupID = Some sg" using assms by (auto simp: rbac_inv_def groups_ok_def group_type_def)
    then have sys': "gtype \<noteq> GroupType_System"
      using assms False group_ID_of[of d SystemGroupID sg] by (auto simp: rbac_inv_def groups_ok_def tbl_exists_iff)
    have none: "members_of d gid = []"
      using assms False by (fastforce simp: rbac_inv_def members_ok_iff filter_empty_conv group_type_def)
    have "rbac_inv ?d"
      unfolding rbac_inv_def
    proof (intro conjI)
      show "ids_ok ?d" using assms fresh by (auto simp: rbac_inv_def ids_ok_def)
      show "groups_ok ?d" using assms sys sys' keep by (auto simp: rbac_inv_def groups_ok_def)
      show "personal_ok ?d" using assms none by (auto simp: rbac_inv_def personal_ok_def)
      show "members_ok ?d" using assms keep by (fastforce simp: rbac_inv_def members_ok_iff)
    qed (use assms in \<open>simp_all add: rbac_inv_def roles_ok_def role_keys_ok_iff tokens_ok_iff\<close>)
    then show ?thesis using False by (auto simp: Let_def)
  qed (use assms in \<open>auto simp: Let_def\<close>)
qed

lemma rbac_UpdateGroupName:
  assumes "rbac_inv d" shows "rbac_inv (snd (q_UpdateGroupName d gid name))"
  unfolding q_UpdateGroupName_def
proof (rule rbac_writeQ[OF assms], goal_cases)
  case 1
  let ?f = "\<lambda>g. g\<lparr>Group_Name := name, Group_UpdatedAt := db_now d\<rparr>"
  let ?d = "d\<lparr>db_groups := tbl_update (\<lambda>g. Group_ID g = gid) ?f (db_groups d)\<rparr>"
  have keep: "group_type ?d x = group_type d x" for x
    by (cases "group_of d x") (simp_all add: group_type_def group_of_def tbl_get_update_keep)
  have "rbac_inv ?d"
    unfolding rbac_inv_def
  proof (intro conjI)
    show "ids_ok ?d" using assms by (simp add: rbac_inv_def ids_ok_def map_key_tbl_update)
    show "groups_ok ?d" using assms keep by (auto simp: rbac_inv_def groups_ok_def)
    show "members_ok ?d"
      using assms by (simp add: rbac_inv_def members_ok_iff keep)
    show "personal_ok ?d" using assms by (auto simp: rbac_inv_def personal_ok_def)
  qed (use assms in \<open>simp_all add: rbac_inv_def roles_ok_def role_keys_ok_iff tokens_ok_iff\<close>)
  then show ?case by simp
qed

lemma rbac_DeleteGroup:
  assumes "rbac_inv d" "gid \<noteq> SystemGroupID" shows "rbac_inv (snd (q_DeleteGroup d gid))"
  unfolding q_DeleteGroup_def
proof (rule rbac_writeQ[OF assms(1)], goal_cases)
  case 1
  let ?gone = "roles_of_group d gid"
  let ?kept = "tbl_delete (\<lambda>m. Member_GroupID m = gid) (db_members d)"
  let ?ts = "tbl_update (\<lambda>t. \<exists>r \<in> set ?gone. Token_PersonalRoleID t = Some r)
               (\<lambda>t. t\<lparr>Token_PersonalRoleID := None\<rparr>) (db_tokens d)"
  let ?d = "d\<lparr>db_groups := tbl_delete (\<lambda>g. Group_ID g = gid) (db_groups d), db_members := ?kept,
              db_roles := tbl_delete (\<lambda>r. Role_GroupID r = Some gid) (db_roles d),
              db_role_permissions := tbl_delete (\<lambda>p. fst p \<in> set ?gone) (db_role_permissions d),
              db_tokens := ?ts\<rparr>"
  have gone: "rid \<in> set ?gone" if "role_of d rid = Some r" "Role_GroupID r = Some gid" for rid r
    using role_ID_of[OF that(1)] that(2) by (auto simp: roles_of_group_def)
  have role: "role_scope ?d rid = Some sc" if "role_scope d rid = Some sc" "rid \<notin> set ?gone" for rid sc
  proof -
    from that(1) obtain r where r: "role_of d rid = Some r" "Role_Scope r = sc" by (auto simp: role_scope_def)
    then have "Role_GroupID r \<noteq> Some gid" using gone that(2) by blast
    with r have "role_of ?d rid = Some r" by (simp add: role_of_def tbl_get_delete_keep)
    with r show ?thesis by (simp add: role_scope_def)
  qed
  have group: "group_type ?d x = Some t" if "group_type d x = Some t" "x \<noteq> gid" for x t
    using that group_ID_of[of d x] by (auto simp: group_type_def group_of_def tbl_get_delete_keep)
  have seed: "SeedRoleID_Admin \<notin> set ?gone"
  proof
    assume "SeedRoleID_Admin \<in> set ?gone"
    then obtain x where x: "x \<in> set (db_roles d)" "Role_GroupID x = Some gid" "Role_ID x = SeedRoleID_Admin"
      by (auto simp: roles_of_group_def)
    obtain r where r: "r \<in> set (db_roles d)" "Role_ID r = SeedRoleID_Admin" "Role_GroupID r = None"
      using assms(1) by (auto simp: rbac_inv_def roles_ok_def role_builtin_def tbl_exists_iff)
    have "x = r" using assms(1) x r by (auto simp: rbac_inv_def ids_ok_def distinct_map inj_on_def)
    with x r show False by simp
  qed
  have bi: "role_builtin ?d SeedRoleID_Admin"
    using assms(1) by (fastforce simp: rbac_inv_def roles_ok_def role_builtin_def tbl_exists_iff)
  have "rbac_inv ?d" if k: "\<not> tbl_exists (\<lambda>m. Member_RoleID m \<in> set ?gone) ?kept"
    unfolding rbac_inv_def
  proof (intro conjI)
    show "ids_ok ?d" using assms(1) by (simp add: rbac_inv_def ids_ok_def distinct_key_tbl_delete)
    show "groups_ok ?d" using assms group by (auto simp: rbac_inv_def groups_ok_def)
    show "roles_ok ?d" using assms(1) role seed bi by (auto simp: rbac_inv_def roles_ok_def)
    show "role_keys_ok ?d" using assms(1) role by (fastforce simp: rbac_inv_def role_keys_ok_iff)
    show "members_ok ?d"
      unfolding members_ok_iff
    proof
      fix m assume "m \<in> set (db_members ?d)"
      then have m: "m \<in> set (db_members d)" "Member_GroupID m \<noteq> gid" "Member_RoleID m \<notin> set ?gone"
        using k by (auto simp: tbl_exists_iff)
      with assms(1) obtain sc t where "role_scope d (Member_RoleID m) = Some sc"
        "group_type d (Member_GroupID m) = Some t" "scope_fits sc t" "user_exists d (Member_UserID m)"
        unfolding rbac_inv_def members_ok_iff by blast
      with m role group show "\<exists>sc t. role_scope ?d (Member_RoleID m) = Some sc \<and>
        group_type ?d (Member_GroupID m) = Some t \<and> scope_fits sc t \<and> user_exists ?d (Member_UserID m)"
        by auto
    qed
    show "personal_ok ?d"
      using assms(1) by (auto simp: rbac_inv_def personal_ok_def intro: le_trans[OF length_filter_tbl_delete])
    show "tokens_ok ?d"
      using assms(1) role by (fastforce simp: rbac_inv_def tokens_ok_iff)
  qed
  then show ?case using assms(1) by (auto simp: Let_def)
qed

subsection \<open>Members\<close>

lemma rbac_AddGroupMember:
  assumes "rbac_inv d" "role_scope d rid = Some sc" "group_type d gid = Some t" "scope_fits sc t"
    "t = GroupType_Personal \<Longrightarrow> members_of d gid = []"
  shows "rbac_inv (snd (q_AddGroupMember d gid uid rid addedBy))"
  unfolding q_AddGroupMember_def
proof (rule rbac_writeQ[OF assms(1)], goal_cases)
  case 1
  let ?m = "\<lparr>Member_GroupID = gid, Member_UserID = uid, Member_RoleID = rid,
              Member_AddedBy = addedBy, Member_JoinedAt = db_now d\<rparr>"
  let ?d = "d\<lparr>db_members := db_members d @ [?m]\<rparr>"
  have "rbac_inv ?d" if new: "\<not> is_member d uid gid" "user_exists d uid"
    unfolding rbac_inv_def
  proof (intro conjI)
    show "ids_ok ?d" using assms(1) new by (auto simp: rbac_inv_def ids_ok_def is_member_iff)
    show "members_ok ?d" using assms new by (auto simp: rbac_inv_def members_ok_iff)
    show "personal_ok ?d"
      unfolding personal_ok_def
    proof (intro ballI impI)
      fix g assume g: "g \<in> set (db_groups ?d)" "Group_Type g = GroupType_Personal"
      have "group_of d (Group_ID g) = Some g"
        using assms(1) g tbl_get_key_unique[of Group_ID "db_groups d" g]
        by (simp add: group_of_def rbac_inv_def ids_ok_def)
      then have "members_of d (Group_ID g) = []" if "Group_ID g = gid"
        using assms(3,5) g that by (simp add: group_type_def)
      then show "length (members_of ?d (Group_ID g)) \<le> 1"
        using assms(1) g by (auto simp: rbac_inv_def personal_ok_def)
    qed
  qed (use assms(1) in \<open>simp_all add: rbac_inv_def groups_ok_def roles_ok_def role_keys_ok_iff tokens_ok_iff\<close>)
  then show ?case using assms(1) by (auto simp: Let_def user_exists_def)
qed

lemma rbac_filter_members:
  assumes "rbac_inv d" shows "rbac_inv (d\<lparr>db_members := filter P (db_members d)\<rparr>)"
  unfolding rbac_inv_def
proof (intro conjI)
  let ?d = "d\<lparr>db_members := filter P (db_members d)\<rparr>"
  show "ids_ok ?d" using assms by (simp add: rbac_inv_def ids_ok_def distinct_map_filter)
  show "members_ok ?d" using assms by (simp add: rbac_inv_def members_ok_iff)
  have "length (members_of ?d x) \<le> length (members_of d x)" for x
    using length_filter_le[of P "members_of d x"] by (simp add: conj_commute)
  then show "personal_ok ?d" using assms by (fastforce simp: rbac_inv_def personal_ok_def intro: le_trans)
qed (use assms in \<open>simp_all add: rbac_inv_def groups_ok_def roles_ok_def role_keys_ok_iff tokens_ok_iff\<close>)

lemma rbac_RemoveGroupMember:
  assumes "rbac_inv d" shows "rbac_inv (snd (q_RemoveGroupMember d gid uid))"
  unfolding q_RemoveGroupMember_def
  by (rule rbac_writeQ[OF assms]) (simp add: tbl_delete_def rbac_filter_members assms)

lemma rbac_UpdateGroupMemberRole:
  assumes "rbac_inv d" "role_scope d rid = Some sc" "group_type d gid = Some t" "scope_fits sc t"
  shows "rbac_inv (snd (q_UpdateGroupMemberRole d gid uid rid))"
  unfolding q_UpdateGroupMemberRole_def
proof (rule rbac_writeQ[OF assms(1)], goal_cases)
  case 1
  let ?p = "\<lambda>m. Member_GroupID m = gid \<and> Member_UserID m = uid" and ?f = "\<lambda>m. m\<lparr>Member_RoleID := rid\<rparr>"
  let ?d = "d\<lparr>db_members := tbl_update ?p ?f (db_members d)\<rparr>"
  have "ids_ok ?d" using assms(1) by (simp add: rbac_inv_def ids_ok_def map_key_tbl_update)
  moreover have "members_ok ?d" using assms by (auto simp: rbac_inv_def members_ok_iff)
  ultimately have "rbac_inv ?d"
    using assms(1) by (simp add: rbac_inv_def groups_ok_def roles_ok_def role_keys_ok_iff tokens_ok_iff personal_ok_def
        length_filter_tbl_update)
  then show ?case using assms(1) by auto
qed

subsection \<open>Roles\<close>

lemma rbac_CreateRole:
  assumes "rbac_inv d" shows "rbac_inv (snd (q_CreateRole d rid gid name scope))"
  unfolding q_CreateRole_def
proof (rule rbac_writeQ[OF assms], goal_cases)
  case 1
  let ?r = "\<lparr>Role_ID = rid, Role_GroupID = gid, Role_Name = name, Role_Scope = scope,
              Role_IsBuiltin = False, Role_PermissionKeys = [],
              Role_CreatedAt = db_now d, Role_UpdatedAt = db_now d\<rparr>"
  let ?d = "d\<lparr>db_roles := db_roles d @ [?r]\<rparr>"
  have keep: "role_scope d x = Some y \<Longrightarrow> role_scope ?d x = Some y" for x y
    by (auto simp: role_scope_def role_of_def tbl_get_snoc)
  have "rbac_inv ?d" if new: "role_of d rid = None" "role_scope_ok scope"
    unfolding rbac_inv_def
  proof (intro conjI)
    show "ids_ok ?d" using assms new by (auto simp: rbac_inv_def ids_ok_def role_of_def tbl_get_None_iff)
    show "roles_ok ?d"
      using assms keep new(2) by (auto simp: rbac_inv_def roles_ok_def role_builtin_def tbl_exists_iff)
    show "role_keys_ok ?d" using assms keep by (fastforce simp: rbac_inv_def role_keys_ok_iff)
    show "members_ok ?d" using assms keep by (fastforce simp: rbac_inv_def members_ok_iff)
    show "tokens_ok ?d" using assms keep by (fastforce simp: rbac_inv_def tokens_ok_iff)
  qed (use assms in \<open>simp_all add: rbac_inv_def groups_ok_def personal_ok_def\<close>)
  then show ?case using assms by (auto simp: Let_def)
qed

lemma rbac_UpdateRoleName:
  assumes "rbac_inv d" shows "rbac_inv (snd (q_UpdateRoleName d rid name))"
  unfolding q_UpdateRoleName_def
proof (rule rbac_writeQ[OF assms], goal_cases)
  case 1
  let ?f = "\<lambda>r. r\<lparr>Role_Name := name, Role_UpdatedAt := db_now d\<rparr>"
  let ?d = "d\<lparr>db_roles := tbl_update (\<lambda>x. Role_ID x = rid) ?f (db_roles d)\<rparr>"
  have keep: "role_scope ?d x = role_scope d x" for x
    by (cases "role_of d x") (simp_all add: role_scope_def role_of_def tbl_get_update_keep)
  have bi: "role_builtin ?d x = role_builtin d x" for x
    by (simp add: role_builtin_def tbl_exists_update)
  have "rbac_inv ?d"
    using assms unfolding rbac_inv_def rbac_parts
    by (simp add: keep bi map_key_tbl_update) (auto simp: map_key_tbl_update)
  then show ?case using assms by (auto split: option.splits)
qed

lemma rbac_DeleteRole:
  assumes "rbac_inv d" shows "rbac_inv (snd (q_DeleteRole d rid))"
  unfolding q_DeleteRole_def
proof (rule rbac_writeQ[OF assms], goal_cases)
  case 1
  let ?ts = "tbl_update (\<lambda>t. Token_PersonalRoleID t = Some rid) (\<lambda>t. t\<lparr>Token_PersonalRoleID := None\<rparr>) (db_tokens d)"
  let ?d = "d\<lparr>db_roles := tbl_delete (\<lambda>r. Role_ID r = rid) (db_roles d),
              db_role_permissions := tbl_delete (\<lambda>p. fst p = rid) (db_role_permissions d), db_tokens := ?ts\<rparr>"
  have keep: "role_scope ?d x = Some y" if "role_scope d x = Some y" "x \<noteq> rid" for x y
    using that role_ID_of[of d x] by (auto simp: role_scope_def role_of_def tbl_get_delete_keep)
  have "rbac_inv ?d"
    if ok: "\<not> role_builtin d rid" "\<not> tbl_exists (\<lambda>m. Member_RoleID m = rid) (db_members d)"
    unfolding rbac_inv_def
  proof (intro conjI)
    have "SeedRoleID_Admin \<noteq> rid" using ok assms by (auto simp: rbac_inv_def roles_ok_def)
    moreover from this have "role_builtin ?d SeedRoleID_Admin"
      using assms by (fastforce simp: rbac_inv_def roles_ok_def role_builtin_def tbl_exists_iff)
    ultimately show "roles_ok ?d" using assms keep by (auto simp: rbac_inv_def roles_ok_def)
    show "ids_ok ?d" using assms by (simp add: rbac_inv_def ids_ok_def distinct_key_tbl_delete)
    show "role_keys_ok ?d" using assms keep by (fastforce simp: rbac_inv_def role_keys_ok_iff)
    show "members_ok ?d" using assms ok(2) keep by (fastforce simp: rbac_inv_def members_ok_iff tbl_exists_iff)
    show "tokens_ok ?d" using assms keep by (fastforce simp: rbac_inv_def tokens_ok_iff)
  qed (use assms in \<open>simp_all add: rbac_inv_def groups_ok_def personal_ok_def\<close>)
  then show ?case using assms by auto
qed

text \<open>Any change confined to the keys of roles keeps the invariant as long as the new keys fit.\<close>

lemma rbac_only_role_permissions:
  assumes "rbac_inv d" "only_role_permissions d d'"
    "\<And>p. p \<in> set (db_role_permissions d') \<Longrightarrow>
       p \<in> set (db_role_permissions d) \<or> (\<exists>sc. role_scope d (fst p) = Some sc \<and> key_fits sc (snd p))"
  shows "rbac_inv d'"
proof -
  from assms(2) obtain ps where d': "d' = d\<lparr>db_role_permissions := ps\<rparr>"
    by (auto simp: only_role_permissions_def)
  have "role_keys_ok d'"
    unfolding role_keys_ok_iff
  proof
    fix p assume "p \<in> set (db_role_permissions d')"
    from assms(3)[OF this] show "\<exists>sc. role_scope d' (fst p) = Some sc \<and> key_fits sc (snd p)"
      using assms(1) by (auto simp: d' rbac_inv_def role_keys_ok_iff)
  qed
  then show ?thesis
    using assms(1)
    by (simp add: d' rbac_inv_def ids_ok_def groups_ok_def roles_ok_def members_ok_iff personal_ok_def tokens_ok_iff)
qed

lemma rbac_ReplacePermissions:
  assumes "rbac_inv d" "iteration_order ord" "role_scope d rid = Some sc" "\<And>k. k \<in> set keys \<Longrightarrow> key_fits sc k"
  shows "rbac_inv (snd (RoleRepository_ReplacePermissions ord d rid keys))"
proof (rule rbac_only_role_permissions[OF assms(1) ReplacePermissions_only])
  fix p assume "p \<in> set (db_role_permissions (snd (RoleRepository_ReplacePermissions ord d rid keys)))"
  then show "p \<in> set (db_role_permissions d) \<or> (\<exists>sc. role_scope d (fst p) = Some sc \<and> key_fits sc (snd p))"
    using ReplacePermissions_subset[OF assms(2), of d rid keys] assms(3,4) by auto
qed

subsection \<open>Users and tokens\<close>

lemma rbac_CreateUser:
  assumes "rbac_inv d" shows "rbac_inv (snd (q_CreateUser d uid pw res icon))"
  unfolding q_CreateUser_def
proof (rule rbac_writeQ[OF assms], goal_cases)
  case 1
  have u: "user_exists d x \<Longrightarrow> user_exists (d\<lparr>db_users := db_users d @ us\<rparr>) x" for x us
    by (auto simp: user_exists_def tbl_exists_iff)
  then have "rbac_inv (d\<lparr>db_users := db_users d @ us\<rparr>)" for us
    using assms by (auto simp: rbac_inv_def rbac_parts)
  then show ?case using assms by auto
qed

lemma rbac_DeleteUser:
  assumes "rbac_inv d" shows "rbac_inv (snd (q_DeleteUser d uid))"
  unfolding q_DeleteUser_def
proof (rule rbac_writeQ[OF assms], goal_cases)
  case 1
  let ?f = "\<lambda>m. m\<lparr>Member_AddedBy := forget_author uid (Member_AddedBy m)\<rparr>"
  let ?ms = "map ?f (tbl_delete (\<lambda>m. Member_UserID m = uid) (db_members d))"
  let ?us = "tbl_delete (\<lambda>u. User_ID u = uid) (db_users d)"
  have u: "user_exists d x \<Longrightarrow> x \<noteq> uid \<Longrightarrow> user_exists (d\<lparr>db_users := ?us\<rparr>) x" for x
    by (auto simp: user_exists_def tbl_exists_iff)
  have "rbac_inv (d\<lparr>db_users := ?us, db_members := ?ms\<rparr>)" (is "rbac_inv ?d")
    unfolding rbac_inv_def
  proof (intro conjI)
    show "ids_ok ?d"
      using assms by (simp add: rbac_inv_def ids_ok_def comp_def distinct_key_tbl_delete)
    show "members_ok ?d" using assms u by (fastforce simp: rbac_inv_def members_ok_iff)
    have "length (members_of ?d x) \<le> length (members_of d x)" for x
      by (simp add: filter_map comp_def length_filter_tbl_delete)
    then show "personal_ok ?d" using assms by (fastforce simp: rbac_inv_def personal_ok_def intro: le_trans)
  qed (use assms in \<open>simp_all add: rbac_inv_def groups_ok_def roles_ok_def role_keys_ok_iff tokens_ok_iff\<close>)
  then have "rbac_inv (d\<lparr>db_users := ?us, db_members := ?ms, db_hosts := hs, db_sessions := ss, db_accounts := as\<rparr>)"
    for hs ss as by (simp add: rbac_inv_def rbac_parts)
  then show ?case using assms by simp
qed

lemma rbac_same_ids:
  assumes "rbac_inv d" "\<And>x. user_exists (d\<lparr>db_users := us\<rparr>) x = user_exists d x"
  shows "rbac_inv (d\<lparr>db_users := us\<rparr>)"
  using assms by (simp add: rbac_inv_def rbac_parts)

lemma rbac_UpdateUserPassword:
  assumes "rbac_inv d" shows "rbac_inv (snd (q_UpdateUserPassword d uid pw))"
  unfolding q_UpdateUserPassword_def
  by (rule rbac_writeQ[OF assms]) (simp add: rbac_same_ids assms user_exists_def tbl_exists_update)

lemma rbac_CreateRegistrationToken:
  assumes "rbac_inv d" "\<And>r. rid = Some r \<Longrightarrow> role_scope d r = Some RoleScope_Normal"
  shows "rbac_inv (snd (q_CreateRegistrationToken d tok res e rid))"
  unfolding q_CreateRegistrationToken_def
  by (rule rbac_writeQ[OF assms(1)]) (use assms in \<open>auto simp: rbac_inv_def rbac_parts\<close>)

lemma rbac_MarkRegistrationTokenUsed:
  assumes "rbac_inv d" shows "rbac_inv (snd (q_MarkRegistrationTokenUsed d tok))"
  unfolding q_MarkRegistrationTokenUsed_def
  by (rule rbac_writeQ[OF assms]) (use assms in \<open>auto simp: rbac_inv_def rbac_parts Let_def\<close>)

lemmas rbac_queries = rbac_CreateGroup rbac_UpdateGroupName rbac_RemoveGroupMember rbac_CreateRole
  rbac_UpdateRoleName rbac_DeleteRole rbac_CreateUser rbac_DeleteUser rbac_UpdateUserPassword
  rbac_MarkRegistrationTokenUsed


section \<open>What a successful insert adds\<close>

lemma q_CreateRole_Inr:
  assumes "q_CreateRole d rid gid name sc = (Inr role, d1)"
  shows "Role_ID role = rid" "Role_GroupID role = gid" "Role_Scope role = sc" "\<not> Role_IsBuiltin role"
    "role_of d rid = None" "d1 = d\<lparr>db_roles := db_roles d @ [role]\<rparr>" "role_scope d1 rid = Some sc"
proof -
  from assms show *: "Role_ID role = rid" "Role_GroupID role = gid" "Role_Scope role = sc" "\<not> Role_IsBuiltin role"
    "role_of d rid = None" "d1 = d\<lparr>db_roles := db_roles d @ [role]\<rparr>"
    by (auto simp: q_CreateRole_def ctrl_simps Let_def split: if_splits option.splits)
  then show "role_scope d1 rid = Some sc"
    by (simp add: role_scope_def role_of_def tbl_get_append)
qed

lemma q_CreateGroup_Inr:
  assumes "q_CreateGroup d gid name t = (Inr g, d1)"
  shows "Group_ID g = gid" "Group_Name g = name" "Group_Type g = t" "group_of d gid = None"
    "d1 = d\<lparr>db_groups := db_groups d @ [g]\<rparr>" "group_type d1 gid = Some t"
proof -
  from assms show *: "Group_ID g = gid" "Group_Name g = name" "Group_Type g = t" "group_of d gid = None"
    "d1 = d\<lparr>db_groups := db_groups d @ [g]\<rparr>"
    by (auto simp: q_CreateGroup_def ctrl_simps Let_def split: if_splits)
  then show "group_type d1 gid = Some t"
    by (simp add: group_type_def group_of_def tbl_get_append)
qed

lemma q_AddGroupMember_Inr:
  assumes "q_AddGroupMember d gid uid rid addedBy = (Inr m, d1)"
  shows "Member_GroupID m = gid" "Member_UserID m = uid" "Member_RoleID m = rid" "\<not> is_member d uid gid"
    "d1 = d\<lparr>db_members := db_members d @ [m]\<rparr>" "role_of d rid \<noteq> None" "group_of d gid \<noteq> None" "user_exists d uid"
  using assms by (auto simp: q_AddGroupMember_def ctrl_simps Let_def user_exists_def split: if_splits option.splits)

lemma no_members_of_missing: "rbac_inv d \<Longrightarrow> group_of d gid = None \<Longrightarrow> members_of d gid = []"
  by (fastforce simp: rbac_inv_def members_ok_iff filter_empty_conv group_type_def)

section \<open>The seeded database\<close>

text \<open>
  The rows the migrations insert: the system group, the four builtin roles with their keys, and the
  system user as the first member of the system group.
\<close>

definition seed_role :: "string \<Rightarrow> string \<Rightarrow> RoleScope \<Rightarrow> Role" where
  "seed_role rid name scope = \<lparr>Role_ID = rid, Role_GroupID = None, Role_Name = name, Role_Scope = scope,
     Role_IsBuiltin = True, Role_PermissionKeys = [], Role_CreatedAt = 0, Role_UpdatedAt = 0\<rparr>"

definition seed_db :: db where
  "seed_db = \<lparr>
     db_users = [\<lparr>User_ID = SystemUserID, User_Password = [], User_ResoniteID = None, User_IconUrl = None\<rparr>],
     db_groups = [\<lparr>Group_ID = SystemGroupID, Group_Name = ''system'', Group_Type = GroupType_System,
                   Group_CreatedAt = 0, Group_UpdatedAt = 0\<rparr>],
     db_roles = [seed_role SeedRoleID_Admin ''admin'' RoleScope_Normal,
                 seed_role ''seed-user'' ''user'' RoleScope_Normal,
                 seed_role ''seed-session-operator'' ''session-operator'' RoleScope_Normal,
                 seed_role SeedRoleID_SystemAdmin ''system-admin'' RoleScope_System],
     db_role_permissions =
       map (Pair SeedRoleID_Admin)
         [PermKey_HostRead, PermKey_HostWrite, PermKey_HostUse, PermKey_SessionRead, PermKey_SessionWrite,
          PermKey_AccountRead, PermKey_AccountWrite, PermKey_AccountUse, PermKey_GroupMembersManage, PermKey_GroupEdit]
       @ map (Pair ''seed-user'')
         [PermKey_HostRead, PermKey_HostWrite, PermKey_HostUse, PermKey_SessionRead, PermKey_SessionWrite,
          PermKey_AccountRead, PermKey_AccountWrite, PermKey_AccountUse]
       @ map (Pair ''seed-session-operator'')
         [PermKey_HostRead, PermKey_HostUse, PermKey_SessionRead, PermKey_SessionWrite,
          PermKey_AccountRead, PermKey_AccountUse]
       @ map (Pair SeedRoleID_SystemAdmin)
         [PermKey_SystemUserCreate, PermKey_SystemUserDelete, PermKey_SystemUserList, PermKey_SystemGroupList,
          PermKey_SystemGroupManage, PermKey_SystemRoleManage],
     db_members = [\<lparr>Member_GroupID = SystemGroupID, Member_UserID = SystemUserID,
                    Member_RoleID = SeedRoleID_SystemAdmin, Member_AddedBy = None, Member_JoinedAt = 0\<rparr>],
     db_tokens = [], db_accounts = [], db_hosts = [], db_sessions = [], db_checkpoints = [], db_logs = [], db_jobs = [], db_ops = [],
     db_now = 0, db_fault = (\<lambda>_. None)\<rparr>"

lemma seed_db_inv: "rbac_inv seed_db"
  by code_simp

lemma no_faults_seed_db [simp]: "no_faults seed_db"
  by (simp add: no_faults_def seed_db_def)

text \<open>A small installation for the concrete instances: a team with an admin and a user, beside the seed rows.\<close>

definition plain_user :: "string \<Rightarrow> User" where
  "plain_user uid = \<lparr>User_ID = uid, User_Password = ''hash'', User_ResoniteID = None, User_IconUrl = None\<rparr>"

definition plain_member :: "string \<Rightarrow> string \<Rightarrow> string \<Rightarrow> GroupMember" where
  "plain_member gid uid rid = \<lparr>Member_GroupID = gid, Member_UserID = uid, Member_RoleID = rid,
     Member_AddedBy = None, Member_JoinedAt = 1\<rparr>"

definition plain_group :: "string \<Rightarrow> GroupType \<Rightarrow> Group" where
  "plain_group gid t = \<lparr>Group_ID = gid, Group_Name = gid, Group_Type = t, Group_CreatedAt = 1, Group_UpdatedAt = 1\<rparr>"

definition sample_db :: db where
  "sample_db = seed_db\<lparr>
     db_users := db_users seed_db @ map plain_user [''alice'', ''bob'', ''carol''],
     db_groups := db_groups seed_db @ [plain_group ''team'' GroupType_Normal, plain_group ''bob-personal'' GroupType_Personal],
     db_members := db_members seed_db @
       [plain_member ''team'' ''alice'' SeedRoleID_Admin, plain_member ''team'' ''bob'' ''seed-user'',
        plain_member ''bob-personal'' ''bob'' SeedRoleID_Admin]\<rparr>"

lemma sample_db_inv [simp]: "rbac_inv sample_db"
  by code_simp

lemma no_faults_sample_db [simp]: "no_faults sample_db"
  by (simp add: no_faults_def sample_db_def seed_db_def)

end
