(* ===== verification/PermissionUsecase.thy ===== *)
theory PermissionUsecase
  imports RbacInv
begin

text \<open>
  The permission usecase (\<open>usecase/permission_usecase.go\<close>): who holds which key in which group, and
  the guards the other usecases and the RPC layer call. The caller of an operation is the user id of
  the claims in the context, \<open>None\<close> when there are none. What the guards promise their clients is
  the locale \<open>permission_service\<close>.
\<close>

section \<open>Deciding a permission\<close>

type_synonym claims = "string option"

definition HasPermission :: "db \<Rightarrow> string \<Rightarrow> string \<Rightarrow> string \<Rightarrow> bool res" where
  "HasPermission d userID groupID requiredKey =
     (if requiredKey = [] then Inr True
      else if HasPrefix requiredKey ''system:'' then
        bindR (GroupMemberRepository_ListUserSystemPermissions d userID) (\<lambda>sysPerms.
        Inr (requiredKey \<in> set sysPerms))
      else
        bindR (if groupID \<noteq> [] then
                 bindR (GroupMemberRepository_GetUserPermissionsForGroup d userID groupID) (\<lambda>perms.
                 Inr (requiredKey \<in> set perms))
               else Inr False) (\<lambda>inGroup.
        if inGroup then Inr True
        else
          bindR (GroupMemberRepository_ListUserSystemPermissions d userID) (\<lambda>sysPerms.
          Inr (PermKey_SystemGroupManage \<in> set sysPerms))))"

fun HasAllPermissions :: "db \<Rightarrow> string \<Rightarrow> string \<Rightarrow> string list \<Rightarrow> bool res" where
  "HasAllPermissions d userID groupID [] = Inr True"
| "HasAllPermissions d userID groupID (k # ks) =
     bindR (HasPermission d userID groupID k) (\<lambda>ok.
     if ok then HasAllPermissions d userID groupID ks else Inr False)"

definition HasSystemPermission :: "db \<Rightarrow> string \<Rightarrow> string \<Rightarrow> bool res" where
  "HasSystemPermission d userID key =
     bindR (GroupMemberRepository_ListUserSystemPermissions d userID) (\<lambda>sysPerms.
     Inr (key \<in> set sysPerms))"

definition ResolveGroupIDForUser :: "db \<Rightarrow> string \<Rightarrow> string \<Rightarrow> string res" where
  "ResolveGroupIDForUser d userID requestedGroupID =
     (if requestedGroupID \<noteq> [] then Inr requestedGroupID
      else bindR (GroupRepository_GetPersonalGroupByUser d userID) (\<lambda>g. Inr (Group_ID g)))"

text \<open>The loop over the memberships, and the filter: \<open>(groupIDs, listAll)\<close>.\<close>

fun readable_groups :: "db \<Rightarrow> string \<Rightarrow> string \<Rightarrow> GroupMember list \<Rightarrow> string list res" where
  "readable_groups d userID permKey [] = Inr []"
| "readable_groups d userID permKey (m # ms) =
     (if Member_GroupID m = SystemGroupID then readable_groups d userID permKey ms
      else if permKey = [] then
        bindR (readable_groups d userID permKey ms) (\<lambda>gs. Inr (Member_GroupID m # gs))
      else
        bindR (HasPermission d userID (Member_GroupID m) permKey) (\<lambda>ok.
        bindR (readable_groups d userID permKey ms) (\<lambda>gs.
        Inr (if ok then Member_GroupID m # gs else gs))))"

definition ResolveListGroupFilter :: "db \<Rightarrow> string \<Rightarrow> string \<Rightarrow> (string list \<times> bool) res" where
  "ResolveListGroupFilter d userID permKey =
     bindR (HasSystemPermission d userID PermKey_SystemGroupList) (\<lambda>canListAll.
     if canListAll then Inr ([], True)
     else
       bindR (GroupMemberRepository_ListByUser d userID) (\<lambda>memberships.
       bindR (readable_groups d userID permKey memberships) (\<lambda>result.
       Inr (result, False))))"

definition CanReadGroup :: "db \<Rightarrow> string \<Rightarrow> string \<Rightarrow> string \<Rightarrow> bool res" where
  "CanReadGroup d userID groupID permKey =
     bindR (HasSystemPermission d userID PermKey_SystemGroupList) (\<lambda>canList.
     if canList then Inr True else HasPermission d userID groupID permKey)"

record GroupPermissionSummary =
  Summary_GroupID :: string
  Summary_RoleID :: string
  Summary_PermissionKeys :: "string list"

record MyPermissionsSummary =
  Summary_Groups :: "GroupPermissionSummary list"
  Summary_SystemPermissionKeys :: "string list"

definition GetMyPermissionsSummary :: "db \<Rightarrow> string \<Rightarrow> MyPermissionsSummary res" where
  "GetMyPermissionsSummary d userID =
     bindR (GroupMemberRepository_ListByUser d userID) (\<lambda>memberships.
     bindR (mapR (\<lambda>m.
         bindR (GroupMemberRepository_GetUserPermissionsForGroup d userID (Member_GroupID m)) (\<lambda>perms.
         Inr \<lparr>Summary_GroupID = Member_GroupID m, Summary_RoleID = Member_RoleID m,
              Summary_PermissionKeys = perms\<rparr>)) memberships) (\<lambda>groups.
     Inr \<lparr>Summary_Groups = groups,
          Summary_SystemPermissionKeys =
            concat (map Summary_PermissionKeys (filter (\<lambda>s. Summary_GroupID s = SystemGroupID) groups))\<rparr>))"

section \<open>Guards\<close>

definition CurrentUserID :: "claims \<Rightarrow> string res" where
  "CurrentUserID c = (case c of None \<Rightarrow> Inl ErrUnauthenticated
                      | Some uid \<Rightarrow> if uid = [] then Inl ErrUnauthenticated else Inr uid)"

definition require :: "bool res \<Rightarrow> unit res" where
  "require r = bindR r (\<lambda>ok. if ok then Inr () else Inl ErrPermissionDenied)"

definition RequirePermissionForGroup :: "db \<Rightarrow> claims \<Rightarrow> string \<Rightarrow> string \<Rightarrow> unit res" where
  "RequirePermissionForGroup d c groupID permKey =
     bindR (CurrentUserID c) (\<lambda>userID. require (HasPermission d userID groupID permKey))"

definition RequireSystemPermission :: "db \<Rightarrow> claims \<Rightarrow> string \<Rightarrow> unit res" where
  "RequireSystemPermission d c permKey =
     bindR (CurrentUserID c) (\<lambda>userID. require (HasSystemPermission d userID permKey))"

definition RequireAllPermissionsForGroup :: "db \<Rightarrow> claims \<Rightarrow> string \<Rightarrow> string list \<Rightarrow> unit res" where
  "RequireAllPermissionsForGroup d c groupID permKeys = forR (RequirePermissionForGroup d c groupID) permKeys"

fun require_any :: "(string \<Rightarrow> bool res) \<Rightarrow> string list \<Rightarrow> unit res" where
  "require_any has [] = Inl ErrPermissionDenied"
| "require_any has (k # ks) = bindR (has k) (\<lambda>ok. if ok then Inr () else require_any has ks)"

definition RequireAnyPermissionForGroup :: "db \<Rightarrow> claims \<Rightarrow> string \<Rightarrow> string list \<Rightarrow> unit res" where
  "RequireAnyPermissionForGroup d c groupID permKeys =
     bindR (CurrentUserID c) (\<lambda>userID. require_any (HasPermission d userID groupID) permKeys)"

fun CanReadGroupAny :: "db \<Rightarrow> string \<Rightarrow> string \<Rightarrow> string list \<Rightarrow> bool res" where
  "CanReadGroupAny d userID groupID [] = Inr False"
| "CanReadGroupAny d userID groupID (k # ks) =
     bindR (CanReadGroup d userID groupID k) (\<lambda>ok.
     if ok then Inr True else CanReadGroupAny d userID groupID ks)"

section \<open>The contract of the permission service\<close>

text \<open>
  What a client may rely on, for a caller \<open>u\<close>: system keys do not depend on the group, the holder of
  \<open>system:group.manage\<close> acts for every normal key, an empty key is always held, and the service
  itself never answers with a denial (a denial is a guard's decision, not an error of the lookup).
\<close>

locale permission_service =
  fixes hasp :: "string \<Rightarrow> string \<Rightarrow> string \<Rightarrow> bool res"
    and sysp :: "string \<Rightarrow> string \<Rightarrow> bool res"
  assumes system_key: "is_system_key k \<Longrightarrow> hasp u g k = sysp u k"
    and bypass: "sysp u PermKey_SystemGroupManage = Inr True \<Longrightarrow> \<not> is_system_key k \<Longrightarrow>
                   hasp u g k = Inr b \<Longrightarrow> b"
    and no_denial: "hasp u g k \<noteq> Inl ErrPermissionDenied" "sysp u k \<noteq> Inl ErrPermissionDenied"
begin

lemma require_Inr: "require (hasp u g k) = Inr x \<longleftrightarrow> hasp u g k = Inr True"
  by (auto simp: require_def ctrl_simps split: if_splits)

lemma require_denied: "require (hasp u g k) = Inl ErrPermissionDenied \<longleftrightarrow> hasp u g k = Inr False"
  using no_denial(1)[of u g k] by (auto simp: require_def ctrl_simps split: if_splits)

lemma require_each_Inr: "forR (\<lambda>k. require (hasp u g k)) ks = Inr x \<longleftrightarrow> (\<forall>k \<in> set ks. hasp u g k = Inr True)"
  by (simp add: forR_Inr_iff require_Inr)

lemma require_any_Inr:
  "require_any (hasp u g) ks = Inr x \<Longrightarrow> \<exists>k \<in> set ks. hasp u g k = Inr True"
  by (induction ks) (auto simp: ctrl_simps split: if_splits)

lemma require_any_denied:
  "require_any (hasp u g) ks = Inl ErrPermissionDenied \<longleftrightarrow> (\<forall>k \<in> set ks. hasp u g k = Inr False)"
proof (induction ks)
  case (Cons k ks)
  then show ?case using no_denial(1)[of u g k] by (cases "hasp u g k") auto
qed simp

text \<open>A manager passes the subset check on normal keys unless a lookup fails.\<close>

lemma manager_passes:
  assumes "sysp u PermKey_SystemGroupManage = Inr True" "\<forall>k \<in> set ks. \<not> is_system_key k"
    "\<forall>k \<in> set ks. \<exists>b. hasp u g k = Inr b"
  shows "forR (\<lambda>k. require (hasp u g k)) ks = Inr ()"
  using assms bypass[OF assms(1)] by (auto simp: require_each_Inr) metis

end

interpretation perm: permission_service "HasPermission d" "HasSystemPermission d" for d
proof
  fix u g k b
  show "is_system_key k \<Longrightarrow> HasPermission d u g k = HasSystemPermission d u k"
    by (auto simp: HasPermission_def HasSystemPermission_def HasPrefix_def)
  show "HasSystemPermission d u PermKey_SystemGroupManage = Inr True \<Longrightarrow> \<not> is_system_key k \<Longrightarrow>
          HasPermission d u g k = Inr b \<Longrightarrow> b"
    by (auto simp: HasPermission_def HasSystemPermission_def ctrl_simps split: if_splits)
  show "HasPermission d u g k \<noteq> Inl ErrPermissionDenied" "HasSystemPermission d u k \<noteq> Inl ErrPermissionDenied"
    by (auto simp: HasPermission_def HasSystemPermission_def repo_defs q_ListUserSystemPermissions_def
        q_GetUserPermissionsForGroup_def readQ_def ctrl_simps split: if_splits option.splits)
qed

section \<open>The abstract decision\<close>

text \<open>
  \<open>docs/permissions.md\<close> states the rule over memberships: a system key is held through the system
  group; a normal key is held in the group, or replaced by \<open>system:group.manage\<close>.
\<close>

definition holds :: "db \<Rightarrow> string \<Rightarrow> string \<Rightarrow> string \<Rightarrow> bool" where
  "holds d u g k \<longleftrightarrow> (\<exists>m \<in> set (db_members d). Member_UserID m = u \<and> Member_GroupID m = g
                        \<and> (Member_RoleID m, k) \<in> set (db_role_permissions d))"

definition allowed :: "db \<Rightarrow> string \<Rightarrow> string \<Rightarrow> string \<Rightarrow> bool" where
  "allowed d u g k \<longleftrightarrow> k = [] \<or>
     (if is_system_key k then holds d u SystemGroupID k
      else g \<noteq> [] \<and> holds d u g k \<or> holds d u SystemGroupID PermKey_SystemGroupManage)"

lemma perms_holds: "k \<in> perms d u g \<longleftrightarrow> holds d u g k"
  by (auto simp: perms_def holds_def role_keys_def)

lemma sys_keys_answer:
  "GroupMemberRepository_ListUserSystemPermissions d u = Inr ks \<Longrightarrow> k \<in> set ks \<longleftrightarrow> holds d u SystemGroupID k"
  by (auto simp: repo_defs q_ListUserSystemPermissions_def ctrl_simps perms_holds SystemGroupID_def)

lemma group_keys_answer:
  "GroupMemberRepository_GetUserPermissionsForGroup d u g = Inr ks \<Longrightarrow> k \<in> set ks \<longleftrightarrow> holds d u g k"
  by (auto simp: repo_defs q_GetUserPermissionsForGroup_def ctrl_simps perms_holds)

lemma HasSystemPermission_answer: "HasSystemPermission d u k = Inr b \<Longrightarrow> b \<longleftrightarrow> holds d u SystemGroupID k"
  by (auto simp: HasSystemPermission_def ctrl_simps sys_keys_answer)

lemma HasPermission_answer: "HasPermission d u g k = Inr b \<Longrightarrow> b \<longleftrightarrow> allowed d u g k"
  by (auto simp: HasPermission_def allowed_def ctrl_simps sys_keys_answer group_keys_answer split: if_splits)

lemma HasSystemPermission_total: "no_faults d \<Longrightarrow> HasSystemPermission d u k = Inr (holds d u SystemGroupID k)"
  using HasSystemPermission_answer[of d u k]
  by (auto simp: HasSystemPermission_def repo_defs q_ListUserSystemPermissions_def)

lemma HasPermission_total: "no_faults d \<Longrightarrow> HasPermission d u g k = Inr (allowed d u g k)"
  using HasPermission_answer[of d u g k]
  by (auto simp: HasPermission_def repo_defs q_ListUserSystemPermissions_def q_GetUserPermissionsForGroup_def
      split: if_splits)

lemma RequirePermissionForGroup_Inr:
  "RequirePermissionForGroup d c g k = Inr x \<Longrightarrow> \<exists>u. c = Some u \<and> u \<noteq> [] \<and> allowed d u g k"
  by (auto simp: RequirePermissionForGroup_def CurrentUserID_def ctrl_simps perm.require_Inr
      dest: HasPermission_answer split: option.splits if_splits)

lemma RequireSystemPermission_Inr:
  "RequireSystemPermission d c k = Inr x \<Longrightarrow> \<exists>u. c = Some u \<and> u \<noteq> [] \<and> holds d u SystemGroupID k"
  by (auto simp: RequireSystemPermission_def require_def CurrentUserID_def ctrl_simps
      dest: HasSystemPermission_answer split: option.splits if_splits)

text \<open>On well-formed tables a system key is held only by a member of the system group.\<close>

lemma holds_system_key:
  assumes "rbac_inv d" "holds d u g k" "is_system_key k"
  shows "g = SystemGroupID"
proof -
  from assms(2) obtain m where m: "m \<in> set (db_members d)" "Member_UserID m = u" "Member_GroupID m = g"
    "(Member_RoleID m, k) \<in> set (db_role_permissions d)" by (auto simp: holds_def)
  with assms(1) obtain sc t where sc: "role_scope d (Member_RoleID m) = Some sc" "group_type d g = Some t"
    "scope_fits sc t" unfolding rbac_inv_def members_ok_iff by blast
  moreover have "key_fits sc k" using assms(1) m(4) sc(1) by (force simp: rbac_inv_def role_keys_ok_iff)
  ultimately have "t = GroupType_System" using assms(3) by (cases sc) auto
  then obtain g0 where "group_of d g = Some g0" "Group_Type g0 = GroupType_System"
    using sc(2) by (auto simp: group_type_def)
  then show ?thesis using assms(1) group_ID_of by (fastforce simp: rbac_inv_def groups_ok_def)
qed

lemma allowed_system_key_member:
  "allowed d u g k \<Longrightarrow> is_system_key k \<Longrightarrow> is_member d u SystemGroupID"
  by (auto simp: allowed_def holds_def is_member_iff HasPrefix_def split: if_splits)

section \<open>Properties\<close>

text \<open>
  C3: \<open>HasPermission\<close> decides exactly the documented rule. Whenever it answers, also while some
  queries fail, the answer is the abstract decision over memberships and role keys; with a database
  that answers it always returns.
\<close>

theorem HasPermission_refines:
  "(\<forall>b. HasPermission d u g k = Inr b \<longrightarrow> b = allowed d u g k)
   \<and> (no_faults d \<longrightarrow> HasPermission d u g k = Inr (allowed d u g k))"
  by (auto simp: HasPermission_answer HasPermission_total)

text \<open>
  \<open>RequireAnyPermissionForGroup\<close> never turns a failed lookup into a denial: it denies exactly
  when the caller is known and every key was looked up and found missing, and it lets pass only a
  caller for whom one of the keys is allowed.
\<close>

theorem RequireAny_no_masking:
  "(RequireAnyPermissionForGroup d c g ks = Inl ErrPermissionDenied \<longleftrightarrow>
      (\<exists>u. c = Some u \<and> u \<noteq> [] \<and> (\<forall>k \<in> set ks. HasPermission d u g k = Inr False)))
   \<and> (RequireAnyPermissionForGroup d c g ks = Inr () \<longrightarrow>
      (\<exists>u k. c = Some u \<and> u \<noteq> [] \<and> k \<in> set ks \<and> allowed d u g k))"
proof (cases c)
  case (Some u)
  then show ?thesis
    using HasPermission_answer[of d u g _ True] perm.require_any_Inr[of d u g ks]
    by (auto simp: RequireAnyPermissionForGroup_def CurrentUserID_def perm.require_any_denied)
qed (simp add: RequireAnyPermissionForGroup_def CurrentUserID_def)

lemma readable_groups_set:
  "no_faults d \<Longrightarrow> readable_groups d u k ms = Inr (map Member_GroupID
     (filter (\<lambda>m. Member_GroupID m \<noteq> SystemGroupID \<and> (k = [] \<or> allowed d u (Member_GroupID m) k)) ms))"
  by (induction ms) (auto simp: HasPermission_total)

text \<open>
  The group filter of the list operations is exact. A holder of \<open>system:group.list\<close> sees
  everything; everyone else gets precisely the groups they are a member of, other than the system
  group, in which the key is allowed (any such group when no key is asked for), each once.
\<close>

theorem ResolveListGroupFilter_exact:
  assumes "no_faults d" "rbac_inv d"
  shows "\<exists>gs. ResolveListGroupFilter d u k = Inr (gs, holds d u SystemGroupID PermKey_SystemGroupList)
           \<and> distinct gs
           \<and> (holds d u SystemGroupID PermKey_SystemGroupList \<longrightarrow> gs = [])
           \<and> (\<not> holds d u SystemGroupID PermKey_SystemGroupList \<longrightarrow>
                set gs = {g. is_member d u g \<and> g \<noteq> SystemGroupID \<and> (k = [] \<or> allowed d u g k)})"
proof (cases "holds d u SystemGroupID PermKey_SystemGroupList")
  case True
  then show ?thesis using assms(1) by (simp add: ResolveListGroupFilter_def HasSystemPermission_total)
next
  case False
  let ?ms = "sort_key Member_JoinedAt (filter (\<lambda>m. Member_UserID m = u) (db_members d))"
  let ?P = "\<lambda>m. Member_GroupID m \<noteq> SystemGroupID \<and> (k = [] \<or> allowed d u (Member_GroupID m) k)"
  have "inj_on (\<lambda>m. (Member_GroupID m, Member_UserID m)) (set (db_members d))" "distinct (db_members d)"
    using assms(2) by (simp_all add: rbac_inv_def ids_ok_def distinct_map)
  then have "distinct (map Member_GroupID (filter ?P ?ms))"
    by (auto simp: distinct_map inj_on_def)
  moreover have "set (map Member_GroupID (filter ?P ?ms))
      = {g. is_member d u g \<and> g \<noteq> SystemGroupID \<and> (k = [] \<or> allowed d u g k)}"
    by (auto simp: is_member_iff)
  moreover have "ResolveListGroupFilter d u k = Inr (map Member_GroupID (filter ?P ?ms), False)"
    using assms(1) False
    by (simp add: ResolveListGroupFilter_def HasSystemPermission_total repo_defs q_ListUserGroupMemberships_def
        readable_groups_set)
  ultimately show ?thesis using False by simp
qed

text \<open>
  On well-formed tables a user who is not a member of the system group is allowed no system key
  in any group, whatever roles they hold elsewhere.
\<close>

theorem system_keys_confined:
  assumes "rbac_inv d" "\<not> is_member d u SystemGroupID" "is_system_key k"
  shows "\<not> allowed d u g k \<and> \<not> holds d u g k"
  using assms allowed_system_key_member[of d u g k] holds_system_key[of d u g k]
  by (auto simp: holds_def is_member_iff)

section \<open>Instances\<close>

theorem HasPermission_refines_witness:
  "no_faults sample_db \<and> HasPermission sample_db ''bob'' ''team'' PermKey_SessionWrite = Inr True
   \<and> HasPermission sample_db ''bob'' ''team'' PermKey_GroupMembersManage = Inr False"
proof -
  have "allowed sample_db ''bob'' ''team'' PermKey_SessionWrite"
    "\<not> allowed sample_db ''bob'' ''team'' PermKey_GroupMembersManage" by code_simp+
  then show ?thesis
    by (simp add: HasPermission_refines[THEN conjunct2, THEN mp, OF no_faults_sample_db])
qed

theorem RequireAny_no_masking_witness:
  "RequireAnyPermissionForGroup sample_db (Some ''bob'') ''team'' [PermKey_GroupEdit, PermKey_HostRead] = Inr ()
   \<and> (\<exists>u k. Some ''bob'' = Some u \<and> u \<noteq> [] \<and> k \<in> set [PermKey_GroupEdit, PermKey_HostRead]
        \<and> allowed sample_db u ''team'' k)"
proof -
  have ok: "RequireAnyPermissionForGroup sample_db (Some ''bob'') ''team'' [PermKey_GroupEdit, PermKey_HostRead] = Inr ()"
    by code_simp
  show ?thesis by (rule conjI[OF ok RequireAny_no_masking[THEN conjunct2, THEN mp, OF ok]])
qed

theorem ResolveListGroupFilter_exact_witness:
  "no_faults sample_db \<and> rbac_inv sample_db \<and> (\<exists>gs. ResolveListGroupFilter sample_db ''bob'' PermKey_HostRead = Inr (gs, False)
     \<and> distinct gs \<and> set gs = {g. is_member sample_db ''bob'' g \<and> g \<noteq> SystemGroupID \<and>
         (PermKey_HostRead = [] \<or> allowed sample_db ''bob'' g PermKey_HostRead)})"
proof -
  have "\<not> holds sample_db ''bob'' SystemGroupID PermKey_SystemGroupList" by code_simp
  then show ?thesis using ResolveListGroupFilter_exact[of sample_db "''bob''" PermKey_HostRead] by simp
qed

theorem system_keys_confined_witness:
  "\<not> allowed sample_db ''alice'' ''team'' PermKey_SystemUserCreate
   \<and> \<not> holds sample_db ''alice'' ''team'' PermKey_SystemUserCreate"
proof (rule system_keys_confined)
  show "rbac_inv sample_db" by simp
  show "\<not> is_member sample_db ''alice'' SystemGroupID" by code_simp
  show "is_system_key PermKey_SystemUserCreate" by code_simp
qed

end
