(* ===== verification/RoleUsecase.thy ===== *)
theory RoleUsecase
  imports PermissionUsecase
begin

text \<open>
  The role usecase (\<open>usecase/role_usecase.go\<close>): custom roles and their keys. The fresh part of a
  role id (\<open>uniuri.New\<close>) and the iteration order of the key sets are arguments.
\<close>

section \<open>Operations\<close>

definition ListRoles :: "db \<Rightarrow> string option \<Rightarrow> Role list res" where
  "ListRoles d groupID =
     (case groupID of
        None \<Rightarrow> RoleRepository_ListGlobal d
      | Some gid \<Rightarrow>
          if gid = [] then RoleRepository_ListGlobal d
          else bindR (GroupRepository_Get d gid) (\<lambda>g.
            RoleRepository_ListAssignable d groupID
              (if Group_Type g = GroupType_System then RoleScope_System else RoleScope_Normal)))"

fun validatePermissionKeys :: "RoleScope \<Rightarrow> string list \<Rightarrow> unit res" where
  "validatePermissionKeys scope [] = Inr ()"
| "validatePermissionKeys scope (k # ks) =
     (if \<not> IsValidPermissionKey k then Inl ErrInvalidPermissionKey
      else case scope of
        RoleScope_Normal \<Rightarrow> if HasPrefix k ''system:'' then Inl ErrInvalidPermissionKey
                            else validatePermissionKeys scope ks
      | RoleScope_System \<Rightarrow> if \<not> HasPrefix k ''system:'' then Inl ErrInvalidPermissionKey
                            else validatePermissionKeys scope ks
      | RoleScope_Other _ \<Rightarrow> validatePermissionKeys scope ks)"

definition requireSubsetOfCaller :: "db \<Rightarrow> claims \<Rightarrow> string \<Rightarrow> string list \<Rightarrow> unit res" where
  "requireSubsetOfCaller d c groupID keys =
     bindR (CurrentUserID c) (\<lambda>callerID. forR (\<lambda>k. require (HasPermission d callerID groupID k)) keys)"

fun canScopeBeAttachedToGroup :: "RoleScope \<Rightarrow> GroupType \<Rightarrow> bool" where
  "canScopeBeAttachedToGroup RoleScope_Normal gtype = (gtype = GroupType_Normal \<or> gtype = GroupType_Personal)"
| "canScopeBeAttachedToGroup RoleScope_System gtype = (gtype = GroupType_System)"
| "canScopeBeAttachedToGroup (RoleScope_Other _) gtype = False"

record CreateRoleParams =
  CreateRole_GroupID :: "string option"
  CreateRole_Name :: string
  CreateRole_Scope :: RoleScope
  CreateRole_PermissionKeys :: "string list"

text \<open>The validation and the authorisation of \<open>CreateRole\<close>, in the order of the code, then its writes.\<close>

definition CreateRole_checks :: "db \<Rightarrow> claims \<Rightarrow> CreateRoleParams \<Rightarrow> unit res" where
  "CreateRole_checks d c params =
     (let scope = CreateRole_Scope params; keys = CreateRole_PermissionKeys params; gid = CreateRole_GroupID params in
      if CreateRole_Name params = [] then Inl (ErrMsg ''role name is required'')
      else if scope \<noteq> RoleScope_Normal \<and> scope \<noteq> RoleScope_System then Inl (ErrMsg ''invalid scope'')
      else
        bindR (validatePermissionKeys scope keys) (\<lambda>_.
        if \<not> blank_ptr gid then
          bindR (GroupRepository_Get d (the gid)) (\<lambda>g.
          if \<not> canScopeBeAttachedToGroup scope (Group_Type g) then Inl (ErrMsg ''scope does not match group type'')
          else
            bindR (RequirePermissionForGroup d c (the gid) PermKey_GroupMembersManage) (\<lambda>_.
            requireSubsetOfCaller d c (the gid) keys))
        else RequireSystemPermission d c PermKey_SystemRoleManage))"

definition new_role_id :: "string \<Rightarrow> string" where
  "new_role_id fresh = ''role-'' @ fresh"

definition CreateRole ::
  "(string list \<Rightarrow> string list) \<Rightarrow> string \<Rightarrow> db \<Rightarrow> claims \<Rightarrow> CreateRoleParams \<Rightarrow> Role res \<times> db" where
  "CreateRole ord fresh d c params =
     checkS (CreateRole_checks d c params) d (\<lambda>_.
     bindS (RoleRepository_Create d (new_role_id fresh) (CreateRole_GroupID params) (CreateRole_Name params)
              (CreateRole_Scope params)) (\<lambda>role d1.
     if CreateRole_PermissionKeys params \<noteq> [] then
       bindS (RoleRepository_ReplacePermissions ord d1 (Role_ID role) (CreateRole_PermissionKeys params)) (\<lambda>_ d2.
       (Inr (role\<lparr>Role_PermissionKeys := CreateRole_PermissionKeys params\<rparr>), d2))
     else (Inr role, d1)))"

definition requireRoleMutation :: "db \<Rightarrow> claims \<Rightarrow> Role \<Rightarrow> unit res" where
  "requireRoleMutation d c role =
     (if blank_ptr (Role_GroupID role) then RequireSystemPermission d c PermKey_SystemRoleManage
      else RequirePermissionForGroup d c (the (Role_GroupID role)) PermKey_GroupMembersManage)"

record UpdateRoleParams =
  UpdateRole_ID :: string
  UpdateRole_Name :: "string option"
  UpdateRole_PermissionKeys :: "string list option"
  UpdateRole_OverwritePermKeys :: bool

definition UpdateRole_newKeys :: "UpdateRoleParams \<Rightarrow> string list" where
  "UpdateRole_newKeys params =
     (if UpdateRole_OverwritePermKeys params
      then (case UpdateRole_PermissionKeys params of None \<Rightarrow> [] | Some ks \<Rightarrow> ks) else [])"

definition UpdateRole_checks :: "db \<Rightarrow> claims \<Rightarrow> UpdateRoleParams \<Rightarrow> Role res" where
  "UpdateRole_checks d c params =
     bindR (RoleRepository_Get d (UpdateRole_ID params)) (\<lambda>role.
     if Role_IsBuiltin role then Inl ErrCannotModifyBuiltinRole
     else
       bindR (if UpdateRole_OverwritePermKeys params
              then validatePermissionKeys (Role_Scope role) (UpdateRole_newKeys params) else Inr ()) (\<lambda>_.
       bindR (requireRoleMutation d c role) (\<lambda>_.
       bindR (if UpdateRole_OverwritePermKeys params \<and> \<not> blank_ptr (Role_GroupID role)
              then requireSubsetOfCaller d c (the (Role_GroupID role)) (UpdateRole_newKeys params) else Inr ()) (\<lambda>_.
       Inr role))))"

definition UpdateRole ::
  "(string list \<Rightarrow> string list) \<Rightarrow> db \<Rightarrow> claims \<Rightarrow> UpdateRoleParams \<Rightarrow> Role res \<times> db" where
  "UpdateRole ord d c params =
     checkS (UpdateRole_checks d c params) d (\<lambda>role.
     bindS (case UpdateRole_Name params of
              None \<Rightarrow> (Inr (), d)
            | Some name \<Rightarrow> if name \<noteq> Role_Name role
                           then RoleRepository_UpdateName d (UpdateRole_ID params) name else (Inr (), d)) (\<lambda>_ d1.
     bindS (if UpdateRole_OverwritePermKeys params
            then RoleRepository_ReplacePermissions ord d1 (UpdateRole_ID params) (UpdateRole_newKeys params)
            else (Inr (), d1)) (\<lambda>_ d2.
     (RoleRepository_Get d2 (UpdateRole_ID params), d2))))"

definition DeleteRole :: "db \<Rightarrow> claims \<Rightarrow> string \<Rightarrow> unit res \<times> db" where
  "DeleteRole d c rid =
     checkS (RoleRepository_Get d rid) d (\<lambda>role.
     if Role_IsBuiltin role then (Inl ErrCannotModifyBuiltinRole, d)
     else checkS (requireRoleMutation d c role) d (\<lambda>_. RoleRepository_Delete d rid))"

definition GetRole :: "db \<Rightarrow> string \<Rightarrow> Role res" where
  "GetRole d rid = RoleRepository_Get d rid"

section \<open>Lemmas\<close>

lemma validatePermissionKeys_Inr:
  "sc = RoleScope_Normal \<or> sc = RoleScope_System \<Longrightarrow>
     validatePermissionKeys sc ks = Inr x \<longleftrightarrow> (\<forall>k \<in> set ks. key_fits sc k)"
  by (induction ks) auto

lemma canScopeBeAttachedToGroup_fits [simp]: "canScopeBeAttachedToGroup sc t = scope_fits sc t"
  by (cases sc) auto

lemma requireSubsetOfCaller_Inr:
  "requireSubsetOfCaller d c g ks = Inr x \<Longrightarrow> \<exists>u. c = Some u \<and> (\<forall>k \<in> set ks. allowed d u g k)"
  by (auto simp: requireSubsetOfCaller_def CurrentUserID_def ctrl_simps perm.require_each_Inr
      dest: HasPermission_answer split: option.splits if_splits)

lemma CreateRole_checks_Inr:
  assumes "CreateRole_checks d c params = Inr x"
  shows "\<forall>k \<in> set (CreateRole_PermissionKeys params). key_fits (CreateRole_Scope params) k"
    and "CreateRole_Scope params = RoleScope_Normal \<or> CreateRole_Scope params = RoleScope_System"
  using assms by (auto simp: CreateRole_checks_def ctrl_simps Let_def validatePermissionKeys_Inr split: if_splits)

lemma rbac_CreateRole_op:
  assumes "rbac_inv d" "iteration_order ord"
  shows "rbac_inv (snd (CreateRole ord fresh d c params))"
  unfolding CreateRole_def
proof (rule checkS_snd[where P = rbac_inv], fact, rule bindS_snd[where P = rbac_inv], goal_cases)
  case (1 x)
  then show ?case using assms(1) by (simp add: RoleRepository_Create_def rbac_queries)
next
  case (2 x role)
  let ?d1 = "snd (RoleRepository_Create d (new_role_id fresh) (CreateRole_GroupID params) (CreateRole_Name params)
              (CreateRole_Scope params))"
  have inv: "rbac_inv ?d1" using assms(1) by (simp add: RoleRepository_Create_def rbac_queries)
  have q: "q_CreateRole d (new_role_id fresh) (CreateRole_GroupID params) (CreateRole_Name params)
              (CreateRole_Scope params) = (Inr role, ?d1)"
    using 2(2) unfolding RoleRepository_Create_def by (simp only: map_errS_Inr_iff map_errS_snd)
  have "role_scope ?d1 (Role_ID role) = Some (CreateRole_Scope params)"
    using q_CreateRole_Inr(1,7)[OF q] by (simp only:)
  then have rp: "rbac_inv (snd (RoleRepository_ReplacePermissions ord ?d1 (Role_ID role) (CreateRole_PermissionKeys params)))"
    using rbac_ReplacePermissions[OF inv assms(2)] CreateRole_checks_Inr[OF 2(1)] by blast
  show ?case by (cases "CreateRole_PermissionKeys params = []") (simp_all add: inv rp bindS_snd)
qed


lemma UpdateRole_checks_Inr:
  assumes "UpdateRole_checks d c params = Inr role"
  shows "RoleRepository_Get d (UpdateRole_ID params) = Inr role" "\<not> Role_IsBuiltin role"
    "requireRoleMutation d c role = Inr ()"
    "UpdateRole_OverwritePermKeys params \<Longrightarrow>
       validatePermissionKeys (Role_Scope role) (UpdateRole_newKeys params) = Inr ()"
    "UpdateRole_OverwritePermKeys params \<Longrightarrow> \<not> blank_ptr (Role_GroupID role) \<Longrightarrow>
       requireSubsetOfCaller d c (the (Role_GroupID role)) (UpdateRole_newKeys params) = Inr ()"
  using assms by (auto simp: UpdateRole_checks_def ctrl_simps split: if_splits)

lemma RoleRepository_Get_scope: "RoleRepository_Get d rid = Inr r \<Longrightarrow> role_scope d rid = Some (Role_Scope r)"
  using RoleRepository_Get_Inr(1)[of d rid r] by (auto simp: role_scope_def)

text \<open>The schema allows no third scope, so a role that was read has one of the two.\<close>

lemma role_scope_two: "rbac_inv d \<Longrightarrow> role_scope d rid = Some sc \<Longrightarrow> sc = RoleScope_Normal \<or> sc = RoleScope_System"
proof -
  assume a: "rbac_inv d" "role_scope d rid = Some sc"
  then obtain r where "r \<in> set (db_roles d)" "Role_Scope r = sc"
    using role_ID_of by (fastforce simp: role_scope_def)
  with a(1) have "role_scope_ok sc" by (auto simp: rbac_inv_def roles_ok_def)
  then show ?thesis by (cases sc) auto
qed

lemma UpdateRoleName_scope: "role_scope (snd (q_UpdateRoleName d rid name)) x = role_scope d x"
proof (cases "db_fault d (''UpdateRoleName'', [rid])")
  case None
  have "role_scope (d\<lparr>db_roles := tbl_update (\<lambda>x. Role_ID x = rid)
          (\<lambda>x. x\<lparr>Role_Name := name, Role_UpdatedAt := db_now d\<rparr>) (db_roles d)\<rparr>) x = role_scope d x"
    by (cases "role_of d x") (simp_all add: role_scope_def role_of_def tbl_get_update_keep)
  then show ?thesis by (simp add: q_UpdateRoleName_def writeQ_def None split: option.split)
qed (simp add: q_UpdateRoleName_def writeQ_def)

lemma rbac_UpdateRole_op:
  assumes "rbac_inv d" "iteration_order ord"
  shows "rbac_inv (snd (UpdateRole ord d c params))"
  unfolding UpdateRole_def
proof (rule checkS_snd[where P = rbac_inv], fact, goal_cases)
  case (1 role)
  let ?rename = "case UpdateRole_Name params of None \<Rightarrow> (Inr (), d)
            | Some name \<Rightarrow> if name \<noteq> Role_Name role
                then RoleRepository_UpdateName d (UpdateRole_ID params) name else (Inr (), d)"
  note chk = UpdateRole_checks_Inr[OF 1]
  have inv1: "rbac_inv (snd ?rename)"
    using assms(1) by (auto simp: RoleRepository_UpdateName_def rbac_queries split: option.split)
  have scope1: "role_scope (snd ?rename) (UpdateRole_ID params) = Some (Role_Scope role)"
    using RoleRepository_Get_scope[OF chk(1)]
    by (auto simp: RoleRepository_UpdateName_def UpdateRoleName_scope split: option.split)
  have two: "Role_Scope role = RoleScope_Normal \<or> Role_Scope role = RoleScope_System"
    using role_scope_two[OF assms(1) RoleRepository_Get_scope[OF chk(1)]] .
  have inv2: "rbac_inv (snd (RoleRepository_ReplacePermissions ord (snd ?rename) (UpdateRole_ID params)
                 (UpdateRole_newKeys params)))" if "UpdateRole_OverwritePermKeys params"
    using rbac_ReplacePermissions[OF inv1 assms(2) scope1] chk(4)[OF that] two
    by (simp add: validatePermissionKeys_Inr)
  show ?case
    by (rule bindS_snd[where P = rbac_inv, OF inv1], rule bindS_snd[where P = rbac_inv]) (use inv1 inv2 in auto)
qed

lemma rbac_DeleteRole_op: "rbac_inv d \<Longrightarrow> rbac_inv (snd (DeleteRole d c rid))"
  unfolding DeleteRole_def
  by (rule checkS_snd[where P = rbac_inv], assumption)
     (auto intro!: checkS_snd[where P = rbac_inv] simp: RoleRepository_Delete_def rbac_queries)

lemma ReplacePermissions_keys:
  assumes "RoleRepository_ReplacePermissions ord d rid ks = (Inr u, d')" "iteration_order ord"
  shows "role_keys d' rid = set ks" "x \<noteq> rid \<Longrightarrow> role_keys d' x = role_keys d x"
    "db_roles d' = db_roles d" "db_members d' = db_members d"
  using ReplacePermissions_set[OF assms] only_role_permissions_eqs[OF ReplacePermissions_only[of d ord rid ks]] assms(1)
  by (auto simp: role_keys_def)

lemma role_keys_missing: "rbac_inv d \<Longrightarrow> role_of d rid = None \<Longrightarrow> role_keys d rid = {}"
  by (auto simp: rbac_inv_def role_keys_ok_iff role_keys_def role_scope_def)

section \<open>Properties\<close>

text \<open>
  A successful \<open>CreateRole\<close> adds one custom role with exactly the requested keys and touches no
  other role; every key fits the scope. For a role of a group the caller manages the members of that
  group and is allowed every key of the new role there (no privilege escalation); a global role takes
  \<open>system:role.manage\<close>.
\<close>

theorem CreateRole_effect:
  assumes "CreateRole ord fresh d c p = (Inr role, d')" "iteration_order ord" "rbac_inv d"
  shows "\<exists>u r. c = Some u \<and> role_of d (new_role_id fresh) = None
     \<and> role_of d' (new_role_id fresh) = Some r \<and> \<not> Role_IsBuiltin r
     \<and> Role_GroupID r = CreateRole_GroupID p \<and> Role_Scope r = CreateRole_Scope p
     \<and> role_keys d' (new_role_id fresh) = set (CreateRole_PermissionKeys p)
     \<and> (\<forall>k \<in> set (CreateRole_PermissionKeys p). key_fits (CreateRole_Scope p) k)
     \<and> (\<forall>x. x \<noteq> new_role_id fresh \<longrightarrow> role_of d' x = role_of d x \<and> role_keys d' x = role_keys d x)
     \<and> (if blank_ptr (CreateRole_GroupID p) then holds d u SystemGroupID PermKey_SystemRoleManage
        else allowed d u (the (CreateRole_GroupID p)) PermKey_GroupMembersManage
          \<and> (\<forall>k \<in> set (CreateRole_PermissionKeys p). allowed d u (the (CreateRole_GroupID p)) k))"
proof -
  let ?id = "new_role_id fresh" and ?ks = "CreateRole_PermissionKeys p"
  from assms(1) obtain r d1 where chk: "CreateRole_checks d c p = Inr ()"
    and q: "q_CreateRole d ?id (CreateRole_GroupID p) (CreateRole_Name p) (CreateRole_Scope p) = (Inr r, d1)"
    and w: "(if ?ks \<noteq> [] then bindS (RoleRepository_ReplacePermissions ord d1 (Role_ID r) ?ks)
              (\<lambda>_ d2. (Inr (r\<lparr>Role_PermissionKeys := ?ks\<rparr>), d2)) else (Inr r, d1)) = (Inr role, d')"
    by (auto simp: CreateRole_def RoleRepository_Create_def ctrl_simps)
  note r = q_CreateRole_Inr[OF q]
  have keys1: "role_keys d1 x = role_keys d x" for x by (simp add: r(6))
  have "role_keys d' ?id = set ?ks \<and> db_roles d' = db_roles d1
        \<and> (\<forall>x. x \<noteq> ?id \<longrightarrow> role_keys d' x = role_keys d x)"
  proof (cases "?ks = []")
    case True
    then show ?thesis using w keys1 role_keys_missing[OF assms(3) r(5)] by simp
  next
    case False
    then obtain u where "RoleRepository_ReplacePermissions ord d1 ?id ?ks = (Inr u, d')"
      using w r(1) by (auto simp: ctrl_simps)
    from ReplacePermissions_keys[OF this assms(2)] show ?thesis by (simp add: keys1)
  qed
  moreover have "role_of d' x = (if x = ?id then Some r else role_of d x)" if "db_roles d' = db_roles d1" for x
    using r that by (auto simp: role_of_def tbl_get_append split: option.split)
  moreover have "\<exists>u. c = Some u \<and> (if blank_ptr (CreateRole_GroupID p) then holds d u SystemGroupID PermKey_SystemRoleManage
        else allowed d u (the (CreateRole_GroupID p)) PermKey_GroupMembersManage
          \<and> (\<forall>k \<in> set ?ks. allowed d u (the (CreateRole_GroupID p)) k))"
    using chk
    by (auto simp: CreateRole_checks_def ctrl_simps Let_def dest!: RequirePermissionForGroup_Inr
        RequireSystemPermission_Inr requireSubsetOfCaller_Inr split: if_splits)
  ultimately show ?thesis using CreateRole_checks_Inr(1)[OF chk] r by auto
qed

text \<open>
  A successful \<open>UpdateRole\<close> that overwrites the keys leaves the role with exactly the new keys
  and every other role with its own; the role was not builtin, every new key fits its scope, and for a
  role of a group the caller manages the members of that group and is allowed every new key there.
\<close>

theorem UpdateRole_effect:
  assumes "UpdateRole ord d c p = (Inr role', d')" "iteration_order ord" "rbac_inv d"
    "UpdateRole_OverwritePermKeys p"
  shows "\<exists>u r. c = Some u \<and> role_of d (UpdateRole_ID p) = Some r \<and> \<not> Role_IsBuiltin r
     \<and> role_keys d' (UpdateRole_ID p) = set (UpdateRole_newKeys p)
     \<and> (\<forall>k \<in> set (UpdateRole_newKeys p). key_fits (Role_Scope r) k)
     \<and> (\<forall>x. x \<noteq> UpdateRole_ID p \<longrightarrow> role_keys d' x = role_keys d x)
     \<and> (if blank_ptr (Role_GroupID r) then holds d u SystemGroupID PermKey_SystemRoleManage
        else allowed d u (the (Role_GroupID r)) PermKey_GroupMembersManage
          \<and> (\<forall>k \<in> set (UpdateRole_newKeys p). allowed d u (the (Role_GroupID r)) k))"
proof -
  from assms(1,4) obtain role d1 u2 where chk: "UpdateRole_checks d c p = Inr role"
    and ren: "(case UpdateRole_Name p of None \<Rightarrow> (Inr (), d)
            | Some name \<Rightarrow> if name \<noteq> Role_Name role
                then RoleRepository_UpdateName d (UpdateRole_ID p) name else (Inr (), d)) = (Inr (), d1)"
    and rep: "RoleRepository_ReplacePermissions ord d1 (UpdateRole_ID p) (UpdateRole_newKeys p) = (Inr u2, d')"
    by (auto simp: UpdateRole_def ctrl_simps)
  note chk = UpdateRole_checks_Inr[OF chk]
  obtain r0 where r0: "role_of d (UpdateRole_ID p) = Some r0" "Role_GroupID role = Role_GroupID r0"
    "Role_Scope role = Role_Scope r0" "Role_IsBuiltin role = Role_IsBuiltin r0"
    using RoleRepository_Get_Inr(1)[OF chk(1)] by auto
  have keys1: "role_keys d1 x = role_keys d x" for x
    using ren by (auto simp: RoleRepository_UpdateName_def q_UpdateRoleName_def ctrl_simps role_keys_def
        split: option.splits if_splits)
  have fits: "\<forall>k \<in> set (UpdateRole_newKeys p). key_fits (Role_Scope role) k"
    using chk(4)[OF assms(4)] role_scope_two[OF assms(3) RoleRepository_Get_scope[OF chk(1)]]
    by (simp add: validatePermissionKeys_Inr)
  have "\<exists>u. c = Some u \<and> (if blank_ptr (Role_GroupID r0) then holds d u SystemGroupID PermKey_SystemRoleManage
        else allowed d u (the (Role_GroupID r0)) PermKey_GroupMembersManage
          \<and> (\<forall>k \<in> set (UpdateRole_newKeys p). allowed d u (the (Role_GroupID r0)) k))"
    using chk(3) chk(5)[OF assms(4)]
    by (auto simp: requireRoleMutation_def r0 dest!: RequirePermissionForGroup_Inr RequireSystemPermission_Inr
        requireSubsetOfCaller_Inr split: if_splits)
  then show ?thesis
    using ReplacePermissions_keys[OF rep assms(2)] keys1 fits r0 chk(2) by auto
qed

text \<open>
  A builtin role is out of reach. Neither \<open>UpdateRole\<close> nor \<open>DeleteRole\<close> changes the database
  when the role is builtin, whoever calls, and the failure is not a success of any kind.
\<close>

theorem builtin_role_untouchable:
  assumes "role_builtin d rid" "rbac_inv d" "UpdateRole_ID p = rid"
  shows "snd (UpdateRole ord d c p) = d \<and> snd (DeleteRole d c rid) = d
     \<and> (\<nexists>r. fst (UpdateRole ord d c p) = Inr r) \<and> fst (DeleteRole d c rid) \<noteq> Inr ()
     \<and> (no_faults d \<longrightarrow> fst (UpdateRole ord d c p) = Inl ErrCannotModifyBuiltinRole
          \<and> fst (DeleteRole d c rid) = Inl ErrCannotModifyBuiltinRole)"
proof -
  have bi: "\<exists>r. role_of d rid = Some r \<and> Role_IsBuiltin r"
    using assms by (simp add: role_builtin_iff rbac_inv_def)
  have get: "RoleRepository_Get d rid = Inr r \<Longrightarrow> Role_IsBuiltin r" for r
    using bi RoleRepository_Get_Inr(1)[of d rid r] by auto
  have tot: "no_faults d \<Longrightarrow> \<exists>r. RoleRepository_Get d rid = Inr r"
    using bi by (auto simp: RoleRepository_Get_def q_GetRole_def q_ListRolePermissions_def role_of_def)
  show ?thesis
    using get tot assms(3)
    by (cases "RoleRepository_Get d rid") (auto simp: UpdateRole_def UpdateRole_checks_def DeleteRole_def)
qed

section \<open>Instances\<close>

definition viewer_role :: CreateRoleParams where
  "viewer_role = \<lparr>CreateRole_GroupID = Some ''team'', CreateRole_Name = ''viewer'',
     CreateRole_Scope = RoleScope_Normal, CreateRole_PermissionKeys = [PermKey_HostRead, PermKey_SessionRead]\<rparr>"

definition viewer_edit :: UpdateRoleParams where
  "viewer_edit = \<lparr>UpdateRole_ID = new_role_id ''x'', UpdateRole_Name = Some ''reader'',
     UpdateRole_PermissionKeys = Some [PermKey_HostRead], UpdateRole_OverwritePermKeys = True\<rparr>"

definition viewer_db :: db where
  "viewer_db = snd (CreateRole id ''x'' sample_db (Some ''alice'') viewer_role)"

definition is_ok :: "'a res \<Rightarrow> bool" where
  "is_ok r = (case r of Inl _ \<Rightarrow> False | Inr _ \<Rightarrow> True)"

lemma is_ok_pair: "is_ok (fst m) \<Longrightarrow> \<exists>x. m = (Inr x, snd m)"
  by (cases m; cases "fst m") (auto simp: is_ok_def)

theorem CreateRole_effect_witness:
  "is_ok (fst (CreateRole id ''x'' sample_db (Some ''alice'') viewer_role))
   \<and> role_keys viewer_db (new_role_id ''x'') = {PermKey_HostRead, PermKey_SessionRead}"
proof -
  have ok: "is_ok (fst (CreateRole id ''x'' sample_db (Some ''alice'') viewer_role))" by code_simp
  then obtain role where "CreateRole id ''x'' sample_db (Some ''alice'') viewer_role = (Inr role, viewer_db)"
    using is_ok_pair unfolding viewer_db_def by blast
  from CreateRole_effect[OF this iteration_order_id sample_db_inv] ok show ?thesis
    by (auto simp: viewer_role_def)
qed

theorem UpdateRole_effect_witness:
  "is_ok (fst (UpdateRole id viewer_db (Some ''alice'') viewer_edit))
   \<and> role_keys (snd (UpdateRole id viewer_db (Some ''alice'') viewer_edit)) (new_role_id ''x'') = {PermKey_HostRead}"
proof -
  have ok: "is_ok (fst (UpdateRole id viewer_db (Some ''alice'') viewer_edit))" by code_simp
  have inv: "rbac_inv viewer_db" unfolding viewer_db_def by (rule rbac_CreateRole_op) simp_all
  have ow: "UpdateRole_OverwritePermKeys viewer_edit" by (simp add: viewer_edit_def)
  obtain role where "UpdateRole id viewer_db (Some ''alice'') viewer_edit
      = (Inr role, snd (UpdateRole id viewer_db (Some ''alice'') viewer_edit))"
    using is_ok_pair[OF ok] by blast
  from UpdateRole_effect[OF this iteration_order_id inv ow] ok show ?thesis
    by (auto simp: viewer_edit_def UpdateRole_newKeys_def)
qed

theorem builtin_role_untouchable_witness:
  "role_builtin sample_db SeedRoleID_Admin
   \<and> snd (DeleteRole sample_db (Some ''alice'') SeedRoleID_Admin) = sample_db
   \<and> fst (DeleteRole sample_db (Some ''alice'') SeedRoleID_Admin) \<noteq> Inr ()"
proof -
  have bi: "role_builtin sample_db SeedRoleID_Admin" by code_simp
  show ?thesis
    using bi builtin_role_untouchable[OF bi sample_db_inv, of "viewer_edit\<lparr>UpdateRole_ID := SeedRoleID_Admin\<rparr>" id "Some ''alice''"]
    by simp
qed

end
