(* ===== verification/GroupUsecase.thy ===== *)
theory GroupUsecase
  imports RoleUsecase
begin

text \<open>
  The group usecase (\<open>usecase/group_usecase.go\<close>): groups, their members and the personal group of a
  user. Fresh group ids (\<open>uniuri.New\<close>) are arguments.
\<close>

section \<open>Operations\<close>

definition CreateGroup :: "string \<Rightarrow> db \<Rightarrow> claims \<Rightarrow> string \<Rightarrow> string \<Rightarrow> Group res \<times> db" where
  "CreateGroup fresh d c name creatorUserID =
     checkS (RequireSystemPermission d c PermKey_SystemGroupManage) d (\<lambda>_.
     if name = [] then (Inl (ErrMsg ''group name is required''), d)
     else
       bindS (GroupRepository_Create d fresh name GroupType_Normal) (\<lambda>g d1.
       bindS (GroupMemberRepository_Add d1 (Group_ID g) creatorUserID SeedRoleID_Admin (Some creatorUserID)) (\<lambda>_ d2.
       (Inr g, d2))))"

definition GetGroup :: "db \<Rightarrow> string \<Rightarrow> Group res" where
  "GetGroup d gid = GroupRepository_Get d gid"

definition ListGroupsForUser :: "db \<Rightarrow> string \<Rightarrow> Group list res" where
  "ListGroupsForUser d userID =
     bindR (HasSystemPermission d userID PermKey_SystemGroupList) (\<lambda>canListAll.
     if canListAll then GroupRepository_ListAll d else GroupRepository_ListByUser d userID)"

definition UpdateGroupName :: "db \<Rightarrow> claims \<Rightarrow> string \<Rightarrow> string \<Rightarrow> Group res \<times> db" where
  "UpdateGroupName d c gid name =
     checkS (GroupRepository_Get d gid) d (\<lambda>g.
     if Group_Type g \<noteq> GroupType_Normal then (Inl ErrGroupOperationForbidden, d)
     else
       checkS (RequirePermissionForGroup d c gid PermKey_GroupEdit) d (\<lambda>_.
       bindS (GroupRepository_UpdateName d gid name) (\<lambda>_ d1.
       (GroupRepository_Get d1 gid, d1))))"

definition DeleteGroup :: "db \<Rightarrow> claims \<Rightarrow> string \<Rightarrow> unit res \<times> db" where
  "DeleteGroup d c gid =
     checkS (GroupRepository_Get d gid) d (\<lambda>g.
     if Group_Type g \<noteq> GroupType_Normal then (Inl ErrGroupOperationForbidden, d)
     else
       checkS (RequirePermissionForGroup d c gid PermKey_GroupEdit) d (\<lambda>_.
       GroupRepository_Delete d gid))"

definition ListGroupMembers :: "db \<Rightarrow> string \<Rightarrow> GroupMember list res" where
  "ListGroupMembers d gid = GroupMemberRepository_ListByGroup d gid"

fun isRoleAssignableToGroup :: "RoleScope \<Rightarrow> GroupType \<Rightarrow> bool" where
  "isRoleAssignableToGroup RoleScope_Normal gtype = (gtype = GroupType_Normal \<or> gtype = GroupType_Personal)"
| "isRoleAssignableToGroup RoleScope_System gtype = (gtype = GroupType_System)"
| "isRoleAssignableToGroup (RoleScope_Other _) gtype = False"

definition requirePermSubsetOfCaller :: "db \<Rightarrow> claims \<Rightarrow> Group \<Rightarrow> Role \<Rightarrow> unit res" where
  "requirePermSubsetOfCaller d c grp role =
     (if Role_PermissionKeys role = [] then Inr ()
      else
        bindR (CurrentUserID c) (\<lambda>callerID.
        forR (\<lambda>k. require (HasPermission d callerID (Group_ID grp) k)) (Role_PermissionKeys role)))"

definition AddGroupMember ::
  "db \<Rightarrow> claims \<Rightarrow> string \<Rightarrow> string \<Rightarrow> string \<Rightarrow> string option \<Rightarrow> GroupMember res \<times> db" where
  "AddGroupMember d c groupID userID roleID addedBy =
     checkS (RequirePermissionForGroup d c groupID PermKey_GroupMembersManage) d (\<lambda>_.
     checkS (GroupRepository_Get d groupID) d (\<lambda>g.
     if Group_Type g = GroupType_Personal then (Inl ErrGroupOperationForbidden, d)
     else
       checkS (RoleRepository_Get d roleID) d (\<lambda>role.
       if \<not> isRoleAssignableToGroup (Role_Scope role) (Group_Type g)
       then (Inl (ErrMsg ''role scope does not match group type''), d)
       else
         checkS (requirePermSubsetOfCaller d c g role) d (\<lambda>_.
         GroupMemberRepository_Add d groupID userID roleID addedBy))))"

definition RemoveGroupMember :: "db \<Rightarrow> claims \<Rightarrow> string \<Rightarrow> string \<Rightarrow> unit res \<times> db" where
  "RemoveGroupMember d c groupID userID =
     checkS (GroupRepository_Get d groupID) d (\<lambda>g.
     if Group_Type g = GroupType_Personal then (Inl ErrGroupOperationForbidden, d)
     else
       checkS (RequirePermissionForGroup d c groupID PermKey_GroupMembersManage) d (\<lambda>_.
       checkS (if Group_Type g = GroupType_System then
                 bindR (GroupMemberRepository_ListByGroup d groupID) (\<lambda>members.
                 if list_ex (\<lambda>m. Member_UserID m \<noteq> userID) members then Inr ()
                 else Inl ErrGroupOperationForbidden)
               else Inr ()) d (\<lambda>_.
       GroupMemberRepository_Remove d groupID userID)))"

definition UpdateGroupMemberRole :: "db \<Rightarrow> claims \<Rightarrow> string \<Rightarrow> string \<Rightarrow> string \<Rightarrow> GroupMember res \<times> db" where
  "UpdateGroupMemberRole d c groupID userID roleID =
     checkS (GroupRepository_Get d groupID) d (\<lambda>g.
     checkS (if Group_Type g = GroupType_Personal then RequireSystemPermission d c PermKey_SystemGroupManage
             else RequirePermissionForGroup d c groupID PermKey_GroupMembersManage) d (\<lambda>_.
     checkS (RoleRepository_Get d roleID) d (\<lambda>role.
     if \<not> isRoleAssignableToGroup (Role_Scope role) (Group_Type g)
     then (Inl (ErrMsg ''role scope does not match group type''), d)
     else
       checkS (requirePermSubsetOfCaller d c g role) d (\<lambda>_.
       checkS (GroupMemberRepository_Get d groupID userID) d (\<lambda>_.
       bindS (GroupMemberRepository_UpdateRole d groupID userID roleID) (\<lambda>_ d1.
       (GroupMemberRepository_Get d1 groupID userID, d1)))))))"

definition ValidatePersonalRoleAssignable :: "db \<Rightarrow> string \<Rightarrow> unit res" where
  "ValidatePersonalRoleAssignable d roleID =
     bindR (RoleRepository_Get d roleID) (\<lambda>role.
     if Role_Scope role \<noteq> RoleScope_Normal then Inl (ErrMsg ''personal group role must be a normal-scope role'')
     else if \<not> blank_ptr (Role_GroupID role) then Inl (ErrMsg ''personal group role must be a global role'')
     else Inr ())"

definition personal_id :: "string \<Rightarrow> string" where
  "personal_id userID = userID @ ''-personal''"

definition EnsurePersonalGroupForUser :: "db \<Rightarrow> string \<Rightarrow> string \<Rightarrow> Group res \<times> db" where
  "EnsurePersonalGroupForUser d userID roleID =
     checkS (if roleID \<noteq> [] then ValidatePersonalRoleAssignable d roleID else Inr ()) d (\<lambda>_.
     case GroupRepository_GetPersonalGroupByUser d userID of
       Inr g \<Rightarrow> (Inr g, d)
     | Inl e \<Rightarrow>
         if e \<noteq> ErrNotFound then (Inl e, d)
         else
           bindS (GroupRepository_Create d (personal_id userID) (personal_id userID) GroupType_Personal) (\<lambda>g d1.
           bindS (GroupMemberRepository_Add d1 (Group_ID g) userID
                    (if roleID = [] then SeedRoleID_Admin else roleID) None) (\<lambda>_ d2.
           (Inr g, d2))))"

section \<open>Preservation of the table invariant\<close>

lemma isRoleAssignableToGroup_fits [simp]: "isRoleAssignableToGroup sc t = scope_fits sc t"
  by (cases sc) auto

lemma GroupRepository_Get_type: "GroupRepository_Get d gid = Inr g \<Longrightarrow> group_type d gid = Some (Group_Type g) \<and> Group_ID g = gid"
  using group_ID_of[of d gid g] by (auto simp: GroupRepository_Get_Inr group_type_def)

lemma system_group_type: "rbac_inv d \<Longrightarrow> group_type d SystemGroupID = Some t \<Longrightarrow> t = GroupType_System"
  using group_ID_of[of d SystemGroupID] by (auto simp: rbac_inv_def groups_ok_def group_type_def)

lemmas inv_checkS = checkS_snd[where P = rbac_inv]
lemmas inv_bindS = bindS_snd[where P = rbac_inv]

lemma seed_admin_normal: "rbac_inv d \<Longrightarrow> role_scope d SeedRoleID_Admin = Some RoleScope_Normal"
  by (simp add: rbac_inv_def roles_ok_def)

lemma rbac_add_to_new_group:
  assumes "rbac_inv d" "t = GroupType_Normal \<or> t = GroupType_Personal" "role_scope d rid = Some RoleScope_Normal"
  shows "rbac_inv (snd (bindS (GroupRepository_Create d gid name t) (\<lambda>g d1.
           bindS (GroupMemberRepository_Add d1 (Group_ID g) uid rid addedBy) (\<lambda>_ d2. (Inr g, d2)))))"
proof (rule inv_bindS, goal_cases)
  case 1
  then show ?case using assms(1) by (simp add: GroupRepository_Create_def rbac_queries)
next
  case (2 g)
  let ?d1 = "snd (GroupRepository_Create d gid name t)"
  have q: "q_CreateGroup d gid name t = (Inr g, ?d1)" using 2 by (simp add: GroupRepository_Create_def)
  note g = q_CreateGroup_Inr[OF q]
  have inv: "rbac_inv ?d1" using assms(1) by (simp add: GroupRepository_Create_def rbac_queries)
  have d1: "?d1 = d\<lparr>db_groups := db_groups d @ [g]\<rparr>" using g(5) .
  have "rbac_inv (snd (q_AddGroupMember ?d1 gid uid rid addedBy))"
  proof (rule rbac_AddGroupMember[OF inv _ g(6)])
    show "role_scope ?d1 rid = Some RoleScope_Normal" using assms(3) by (simp only: d1 lookup_frame)
    show "scope_fits RoleScope_Normal t" using assms(2) by simp
    show "members_of ?d1 gid = []" using no_members_of_missing[OF assms(1) g(4)] by (simp add: d1)
  qed
  then show ?case by (simp add: GroupMemberRepository_Add_def g(1) bindS_snd)
qed

lemma rbac_CreateGroup_op: "rbac_inv d \<Longrightarrow> rbac_inv (snd (CreateGroup fresh d c name creator))"
  unfolding CreateGroup_def
  by (rule inv_checkS) (auto intro!: rbac_add_to_new_group seed_admin_normal)

lemma rbac_UpdateGroupName_op: "rbac_inv d \<Longrightarrow> rbac_inv (snd (UpdateGroupName d c gid name))"
  unfolding UpdateGroupName_def
  by (rule inv_checkS) (auto intro!: inv_checkS inv_bindS simp: GroupRepository_UpdateName_def rbac_queries)

lemma rbac_DeleteGroup_op: "rbac_inv d \<Longrightarrow> rbac_inv (snd (DeleteGroup d c gid))"
  unfolding DeleteGroup_def
  by (rule inv_checkS)
     (auto intro!: inv_checkS rbac_DeleteGroup simp: GroupRepository_Delete_def
        dest: system_group_type dest!: GroupRepository_Get_type)

lemma rbac_assign:
  assumes "rbac_inv d" "GroupRepository_Get d gid = Inr g" "RoleRepository_Get d rid = Inr role"
    "Group_Type g = t" "scope_fits (Role_Scope role) t"
  shows "t \<noteq> GroupType_Personal \<Longrightarrow> rbac_inv (snd (GroupMemberRepository_Add d gid uid rid addedBy))"
    and "rbac_inv (snd (GroupMemberRepository_UpdateRole d gid uid rid))"
proof -
  have t: "group_type d gid = Some t" using GroupRepository_Get_type[OF assms(2)] assms(4) by simp
  note r = RoleRepository_Get_scope[OF assms(3)]
  show "rbac_inv (snd (GroupMemberRepository_Add d gid uid rid addedBy))" if "t \<noteq> GroupType_Personal"
    using rbac_AddGroupMember[OF assms(1) r t assms(5)] that by (simp add: GroupMemberRepository_Add_def)
  show "rbac_inv (snd (GroupMemberRepository_UpdateRole d gid uid rid))"
    using rbac_UpdateGroupMemberRole[OF assms(1) r t assms(5)] by (simp add: GroupMemberRepository_UpdateRole_def)
qed

lemma rbac_AddGroupMember_op: "rbac_inv d \<Longrightarrow> rbac_inv (snd (AddGroupMember d c gid uid rid addedBy))"
  unfolding AddGroupMember_def
proof (rule inv_checkS, assumption, rule inv_checkS, assumption, goal_cases)
  case (1 u g)
  note assign = rbac_assign(1)[OF 1(1) 1(3)]
  show ?case by (auto intro!: inv_checkS 1(1) intro: assign)
qed

lemma rbac_RemoveGroupMember_op: "rbac_inv d \<Longrightarrow> rbac_inv (snd (RemoveGroupMember d c gid uid))"
  unfolding RemoveGroupMember_def
  by (rule inv_checkS) (auto intro!: inv_checkS simp: GroupMemberRepository_Remove_def rbac_queries)

lemma rbac_UpdateGroupMemberRole_op: "rbac_inv d \<Longrightarrow> rbac_inv (snd (UpdateGroupMemberRole d c gid uid rid))"
  unfolding UpdateGroupMemberRole_def
proof (rule inv_checkS, assumption, goal_cases)
  case (1 g)
  note assign = rbac_assign(2)[OF 1(1) 1(2)]
  show ?case
    by (rule inv_checkS[OF 1(1)], rule inv_checkS[OF 1(1)])
       (auto intro!: inv_checkS inv_bindS 1(1) dest!: assign[OF _ refl, where uid = uid])
qed

lemma ValidatePersonalRoleAssignable_Inr:
  "ValidatePersonalRoleAssignable d rid = Inr x \<Longrightarrow>
     role_scope d rid = Some RoleScope_Normal \<and> (\<exists>r. role_of d rid = Some r \<and> blank_ptr (Role_GroupID r))"
  using RoleRepository_Get_scope RoleRepository_Get_Inr(1)
  by (fastforce simp: ValidatePersonalRoleAssignable_def ctrl_simps split: if_splits)

lemma rbac_EnsurePersonalGroup_op: "rbac_inv d \<Longrightarrow> rbac_inv (snd (EnsurePersonalGroupForUser d uid rid))"
  unfolding EnsurePersonalGroupForUser_def
  by (rule inv_checkS)
     (auto intro!: rbac_add_to_new_group seed_admin_normal dest: ValidatePersonalRoleAssignable_Inr
        split: sum.splits if_splits)

section \<open>Lemmas on the member operations\<close>

lemma requirePermSubsetOfCaller_Inr:
  assumes "requirePermSubsetOfCaller d c g role = Inr x" "RoleRepository_Get d rid = Inr role" "c = Some u"
  shows "\<forall>k \<in> role_keys d rid. allowed d u (Group_ID g) k"
  using assms RoleRepository_Get_Inr(2)[OF assms(2)]
  by (auto simp: requirePermSubsetOfCaller_def CurrentUserID_def ctrl_simps perm.require_each_Inr
      dest: HasPermission_answer split: if_splits)

lemma AddGroupMember_Inr:
  assumes "AddGroupMember d c gid uid rid addedBy = (Inr m, d')"
  obtains u g r where "c = Some u" "allowed d u gid PermKey_GroupMembersManage"
    "group_of d gid = Some g" "Group_Type g \<noteq> GroupType_Personal" "role_scope d rid = Some r"
    "scope_fits r (Group_Type g)" "\<forall>k \<in> role_keys d rid. allowed d u gid k"
    "q_AddGroupMember d gid uid rid addedBy = (Inr m, d')"
proof -
  from assms obtain g role where
    perm: "RequirePermissionForGroup d c gid PermKey_GroupMembersManage = Inr ()" and
    g: "GroupRepository_Get d gid = Inr g" and np: "Group_Type g \<noteq> GroupType_Personal" and
    r: "RoleRepository_Get d rid = Inr role" and fit: "scope_fits (Role_Scope role) (Group_Type g)" and
    sub: "requirePermSubsetOfCaller d c g role = Inr ()" and
    q: "q_AddGroupMember d gid uid rid addedBy = (Inr m, d')"
    by (auto simp: AddGroupMember_def ctrl_simps GroupMemberRepository_Add_def split: if_splits)
  obtain u where u: "c = Some u" "allowed d u gid PermKey_GroupMembersManage"
    using RequirePermissionForGroup_Inr[OF perm] by blast
  have "group_of d gid = Some g" using g by (simp add: GroupRepository_Get_Inr)
  with that u np fit q RoleRepository_Get_scope[OF r] requirePermSubsetOfCaller_Inr[OF sub r u(1)]
    GroupRepository_Get_type[OF g] show thesis by simp
qed

lemma UpdateGroupMemberRole_Inr:
  assumes "UpdateGroupMemberRole d c gid uid rid = (Inr m, d')"
  obtains u g r where "c = Some u" "group_of d gid = Some g"
    "if Group_Type g = GroupType_Personal then holds d u SystemGroupID PermKey_SystemGroupManage
     else allowed d u gid PermKey_GroupMembersManage"
    "role_scope d rid = Some r" "scope_fits r (Group_Type g)" "\<forall>k \<in> role_keys d rid. allowed d u gid k"
    "is_member d uid gid" "q_UpdateGroupMemberRole d gid uid rid = (Inr (), d')"
proof -
  from assms obtain g role m0 where
    g: "GroupRepository_Get d gid = Inr g" and
    auth: "(if Group_Type g = GroupType_Personal then RequireSystemPermission d c PermKey_SystemGroupManage
             else RequirePermissionForGroup d c gid PermKey_GroupMembersManage) = Inr ()" and
    r: "RoleRepository_Get d rid = Inr role" and fit: "scope_fits (Role_Scope role) (Group_Type g)" and
    sub: "requirePermSubsetOfCaller d c g role = Inr ()" and
    m0: "GroupMemberRepository_Get d gid uid = Inr m0" and
    q: "q_UpdateGroupMemberRole d gid uid rid = (Inr (), d')"
    by (auto simp: UpdateGroupMemberRole_def ctrl_simps GroupMemberRepository_UpdateRole_def split: if_splits)
  obtain u where u: "c = Some u" "if Group_Type g = GroupType_Personal
      then holds d u SystemGroupID PermKey_SystemGroupManage else allowed d u gid PermKey_GroupMembersManage"
    using auth by (auto split: if_splits dest!: RequirePermissionForGroup_Inr RequireSystemPermission_Inr)
  have "is_member d uid gid"
    using m0 by (auto simp: GroupMemberRepository_Get_def q_GetGroupMember_def ctrl_simps is_member_iff
        dest!: tbl_get_SomeD split: option.splits)
  moreover have "group_of d gid = Some g" using g by (simp add: GroupRepository_Get_Inr)
  ultimately show thesis
    using that u fit q RoleRepository_Get_scope[OF r] requirePermSubsetOfCaller_Inr[OF sub r u(1)]
      GroupRepository_Get_type[OF g] by simp
qed

definition system_has_member :: "db \<Rightarrow> bool" where
  "system_has_member d \<longleftrightarrow> members_of d SystemGroupID \<noteq> []"

lemmas kept_checkS = checkS_snd[where P = system_has_member]

lemma kept_Remove:
  assumes "system_has_member d"
    "gid = SystemGroupID \<Longrightarrow> \<exists>m \<in> set (db_members d). Member_GroupID m = SystemGroupID \<and> Member_UserID m \<noteq> uid"
  shows "system_has_member (snd (q_RemoveGroupMember d gid uid))"
  unfolding q_RemoveGroupMember_def
  by (rule writeQ_snd[where P = system_has_member], fact, cases "gid = SystemGroupID")
     (use assms in \<open>auto simp: system_has_member_def filter_empty_conv tbl_delete_def\<close>)

lemma kept_RemoveGroupMember:
  assumes "rbac_inv d" "system_has_member d"
  shows "system_has_member (snd (RemoveGroupMember d c gid uid))"
  unfolding RemoveGroupMember_def
proof (rule kept_checkS, fact, goal_cases)
  case (1 g)
  have "gid = SystemGroupID \<Longrightarrow> Group_Type g = GroupType_System"
    using GroupRepository_Get_type[OF 1] system_group_type[OF assms(1)] by blast
  then show ?case
    using assms(2)
    by (auto intro!: kept_checkS kept_Remove simp: repo_defs q_ListGroupMembers_def ctrl_simps list_ex_iff split: if_splits)
qed

section \<open>Properties\<close>

text \<open>
  C2: adding a member or changing a member's role cannot escalate privileges. After a successful
  \<open>AddGroupMember\<close> or \<open>UpdateGroupMemberRole\<close>, whatever key anyone holds anywhere they held before,
  except the keys the target user now has in the group, and each of those the caller was allowed in
  that group.
\<close>

theorem member_operations_no_escalation:
  assumes "AddGroupMember d c gid uid rid addedBy = (Inr m, d')
             \<or> UpdateGroupMemberRole d c gid uid rid = (Inr m, d')"
    and "holds d' v h k"
  shows "holds d v h k \<or> (v = uid \<and> h = gid \<and> (\<exists>u. c = Some u \<and> allowed d u gid k))"
  using assms(1)
proof
  assume "AddGroupMember d c gid uid rid addedBy = (Inr m, d')"
  then obtain u where u: "c = Some u" "\<forall>k \<in> role_keys d rid. allowed d u gid k"
    and q: "q_AddGroupMember d gid uid rid addedBy = (Inr m, d')" by (rule AddGroupMember_Inr)
  show ?thesis using assms(2) u q_AddGroupMember_Inr[OF q] by (auto simp: holds_def role_keys_def)
next
  assume "UpdateGroupMemberRole d c gid uid rid = (Inr m, d')"
  then obtain u where u: "c = Some u" "\<forall>k \<in> role_keys d rid. allowed d u gid k"
    and q: "q_UpdateGroupMemberRole d gid uid rid = (Inr (), d')" by (rule UpdateGroupMemberRole_Inr)
  from q have "d' = d\<lparr>db_members := tbl_update (\<lambda>m. Member_GroupID m = gid \<and> Member_UserID m = uid)
                       (\<lambda>m. m\<lparr>Member_RoleID := rid\<rparr>) (db_members d)\<rparr>"
    by (auto simp: q_UpdateGroupMemberRole_def ctrl_simps split: if_splits)
  then show ?thesis using assms(2) u by (auto simp: holds_def role_keys_def)
qed

text \<open>
  The role of a member of a personal group changes only through \<open>system:group.manage\<close>, and nobody
  is ever added to or removed from a personal group by the member operations.
\<close>

theorem personal_group_locked:
  assumes "group_type d gid = Some GroupType_Personal"
  shows "snd (AddGroupMember d c gid uid rid addedBy) = d
     \<and> snd (RemoveGroupMember d c gid uid) = d
     \<and> (\<forall>m d'. UpdateGroupMemberRole d c gid uid rid = (Inr m, d') \<longrightarrow>
          (\<exists>u. c = Some u \<and> holds d u SystemGroupID PermKey_SystemGroupManage))"
proof (intro conjI allI impI)
  have p: "Group_Type g = GroupType_Personal" if "GroupRepository_Get d gid = Inr g" for g
    using assms GroupRepository_Get_type[OF that] by simp
  show "snd (AddGroupMember d c gid uid rid addedBy) = d"
    unfolding AddGroupMember_def
    by (rule checkS_snd[where P = "\<lambda>s. s = d"], simp, rule checkS_snd[where P = "\<lambda>s. s = d"]) (simp_all add: p)
  show "snd (RemoveGroupMember d c gid uid) = d"
    unfolding RemoveGroupMember_def by (rule checkS_snd[where P = "\<lambda>s. s = d"]) (simp_all add: p)
next
  fix m d' assume "UpdateGroupMemberRole d c gid uid rid = (Inr m, d')"
  then show "\<exists>u. c = Some u \<and> holds d u SystemGroupID PermKey_SystemGroupManage"
    using assms by (rule_tac UpdateGroupMemberRole_Inr) (auto simp: group_type_def)
qed

text \<open>
  \<open>RemoveGroupMember\<close> never empties the system group. Whatever the arguments, the caller and the
  outcome, the system group keeps a member if it had one; removing its only member is refused.
\<close>

theorem system_group_keeps_member:
  assumes "rbac_inv d" "system_has_member d"
  shows "system_has_member (snd (RemoveGroupMember d c gid uid))"
  by (rule kept_RemoveGroupMember[OF assms])

text \<open>
  \<open>AddGroupMember\<close> does not reveal which groups exist. A caller without
  \<open>group:members.manage\<close> gets the same denial and no effect for every group id, existing or not.
\<close>

theorem AddGroupMember_no_oracle:
  assumes "no_faults d" "u \<noteq> []" "\<not> allowed d u gid PermKey_GroupMembersManage"
  shows "AddGroupMember d (Some u) gid uid rid addedBy = (Inl ErrPermissionDenied, d)"
  using assms
  by (simp add: AddGroupMember_def RequirePermissionForGroup_def CurrentUserID_def require_def HasPermission_total)

text \<open>What the personal-group lookup finds, once the tables are well formed.\<close>

lemma GetPersonalGroup_None:
  "no_faults d \<Longrightarrow> (\<forall>g \<in> set (db_groups d). \<not> (Group_Type g = GroupType_Personal \<and> is_member d uid (Group_ID g))) \<Longrightarrow>
     GroupRepository_GetPersonalGroupByUser d uid = Inl ErrNotFound"
  by (auto simp: repo_defs q_GetPersonalGroupByUser_def tbl_get_None_iff split: option.split dest!: tbl_get_SomeD)

text \<open>
  \<open>EnsurePersonalGroupForUser\<close> gives a user without a personal group a fresh one, named after
  the user, whose single member is the user with the requested role (\<open>seed-admin\<close> by default), and
  calling it again returns that group and writes nothing.
\<close>

theorem EnsurePersonalGroup_creates:
  assumes "no_faults d" "rbac_inv d" "user_exists d uid" "group_of d (personal_id uid) = None"
    "\<forall>g \<in> set (db_groups d). \<not> (Group_Type g = GroupType_Personal \<and> is_member d uid (Group_ID g))"
    "rid = [] \<or> ValidatePersonalRoleAssignable d rid = Inr ()"
  shows "\<exists>g d'. EnsurePersonalGroupForUser d uid rid = (Inr g, d')
     \<and> group_of d' (personal_id uid) = Some g \<and> Group_Type g = GroupType_Personal
     \<and> map (\<lambda>m. (Member_UserID m, Member_RoleID m)) (members_of d' (personal_id uid))
         = [(uid, if rid = [] then SeedRoleID_Admin else rid)]
     \<and> EnsurePersonalGroupForUser d' uid [] = (Inr g, d')"
proof -
  let ?gid = "personal_id uid" and ?rid = "if rid = [] then SeedRoleID_Admin else rid"
  define g where "g = \<lparr>Group_ID = ?gid, Group_Name = ?gid, Group_Type = GroupType_Personal,
                    Group_CreatedAt = db_now d, Group_UpdatedAt = db_now d\<rparr>"
  define m where "m = \<lparr>Member_GroupID = ?gid, Member_UserID = uid, Member_RoleID = ?rid,
                    Member_AddedBy = None, Member_JoinedAt = db_now d\<rparr>"
  let ?d1 = "d\<lparr>db_groups := db_groups d @ [g]\<rparr>"
  let ?d2 = "?d1\<lparr>db_members := db_members d @ [m]\<rparr>"
  have nf: "no_faults ?d1" "no_faults ?d2" using assms(1) by (simp_all add: no_faults_def)
  have role: "role_of d ?rid \<noteq> None"
    using assms(6) seed_admin_normal[OF assms(2)] ValidatePersonalRoleAssignable_Inr[of d rid]
    by (auto simp: role_scope_def split: if_splits)
  have none: "members_of d ?gid = []" using no_members_of_missing[OF assms(2,4)] .
  have q1: "q_CreateGroup d ?gid ?gid GroupType_Personal = (Inr g, ?d1)"
    using assms(1,4) by (simp add: q_CreateGroup_def g_def Let_def)
  have gof: "group_of ?d1 ?gid = Some g"
    using assms(4) by (simp add: group_of_def tbl_get_append g_def)
  have fresh: "\<not> is_member ?d1 uid ?gid" using none by (auto simp: is_member_iff filter_empty_conv)
  have q2: "q_AddGroupMember ?d1 ?gid uid ?rid None = (Inr m, ?d2)"
    unfolding q_AddGroupMember_def writeQ_no_faults[OF nf(1)] tbl_exists_group tbl_exists_role
    using role gof fresh assms(3) by (simp add: m_def Let_def user_exists_def)
  have run: "EnsurePersonalGroupForUser d uid rid = (Inr g, ?d2)"
    using assms(6) GetPersonalGroup_None[OF assms(1,5)] q1 q2
    by (auto simp: EnsurePersonalGroupForUser_def GroupRepository_Create_def GroupMemberRepository_Add_def
        map_errS_def g_def)
  have mem: "is_member ?d2 uid x \<longleftrightarrow> is_member d uid x \<or> x = ?gid" for x
    by (auto simp: is_member_iff m_def)
  have "tbl_get (\<lambda>x. Group_Type x = GroupType_Personal \<and> is_member ?d2 uid (Group_ID x)) (db_groups d) = None"
    using assms(4,5) mem by (auto simp: tbl_get_None_iff group_of_def)
  then have "GroupRepository_GetPersonalGroupByUser ?d2 uid = Inr g"
    using nf(2) mem by (simp add: repo_defs q_GetPersonalGroupByUser_def tbl_get_append g_def)
  then have "EnsurePersonalGroupForUser ?d2 uid [] = (Inr g, ?d2)"
    by (simp add: EnsurePersonalGroupForUser_def)
  moreover have "map (\<lambda>m. (Member_UserID m, Member_RoleID m)) (members_of ?d2 ?gid) = [(uid, ?rid)]"
    using none by (simp add: m_def)
  moreover have "group_of ?d2 ?gid = Some g" using gof by simp
  ultimately show ?thesis using run by (auto simp: g_def)
qed

text \<open>
  A second team, and a history in which its admin enrols a user with a role that belongs to the first
  team, whose admin then widens that role.
\<close>

definition two_teams :: db where
  "two_teams = viewer_db\<lparr>
     db_groups := db_groups viewer_db @ [plain_group ''other'' GroupType_Normal],
     db_members := db_members viewer_db @ [plain_member ''other'' ''carol'' SeedRoleID_Admin]\<rparr>"

definition foreign_enrol :: "GroupMember res \<times> db" where
  "foreign_enrol = AddGroupMember two_teams (Some ''carol'') ''other'' ''bob'' (new_role_id ''x'') (Some ''carol'')"

definition foreign_widen :: "Role res \<times> db" where
  "foreign_widen = UpdateRole id (snd foreign_enrol) (Some ''alice'')
     \<lparr>UpdateRole_ID = new_role_id ''x'', UpdateRole_Name = None,
      UpdateRole_PermissionKeys = Some [PermKey_HostRead, PermKey_HostWrite], UpdateRole_OverwritePermKeys = True\<rparr>"


section \<open>Instances\<close>

definition enrol_carol :: "GroupMember res \<times> db" where
  "enrol_carol = AddGroupMember sample_db (Some ''alice'') ''team'' ''carol'' ''seed-user'' (Some ''alice'')"

theorem member_operations_no_escalation_witness:
  "is_ok (fst enrol_carol) \<and> holds (snd enrol_carol) ''carol'' ''team'' PermKey_HostWrite
   \<and> (holds sample_db ''carol'' ''team'' PermKey_HostWrite
      \<or> (\<exists>u. Some ''alice'' = Some u \<and> allowed sample_db u ''team'' PermKey_HostWrite))"
proof -
  have ok: "is_ok (fst enrol_carol)" and h: "holds (snd enrol_carol) ''carol'' ''team'' PermKey_HostWrite"
    by code_simp+
  obtain m where "enrol_carol = (Inr m, snd enrol_carol)" using is_ok_pair[OF ok] by blast
  then have "AddGroupMember sample_db (Some ''alice'') ''team'' ''carol'' ''seed-user'' (Some ''alice'') = (Inr m, snd enrol_carol)"
    by (simp add: enrol_carol_def)
  from member_operations_no_escalation[OF disjI1[OF this] h] ok h show ?thesis by blast
qed

theorem personal_group_locked_witness:
  "group_type sample_db ''bob-personal'' = Some GroupType_Personal
   \<and> snd (AddGroupMember sample_db (Some ''bob'') ''bob-personal'' ''carol'' ''seed-user'' None) = sample_db
   \<and> snd (RemoveGroupMember sample_db (Some ''bob'') ''bob-personal'' ''bob'') = sample_db"
proof -
  have t: "group_type sample_db ''bob-personal'' = Some GroupType_Personal" by code_simp
  show ?thesis
    by (intro conjI t personal_group_locked[OF t, THEN conjunct1]
        personal_group_locked[OF t, where rid = "[]" and addedBy = None, THEN conjunct2, THEN conjunct1])
qed

theorem system_group_keeps_member_witness:
  "system_has_member (snd (RemoveGroupMember sample_db (Some SystemUserID) SystemGroupID SystemUserID))"
proof (rule system_group_keeps_member)
  show "rbac_inv sample_db" by simp
  show "system_has_member sample_db" by code_simp
qed

theorem AddGroupMember_no_oracle_witness:
  "AddGroupMember sample_db (Some ''bob'') ''no-such-group'' ''carol'' ''seed-user'' None = (Inl ErrPermissionDenied, sample_db)"
proof (rule AddGroupMember_no_oracle)
  show "\<not> allowed sample_db ''bob'' ''no-such-group'' PermKey_GroupMembersManage" by code_simp
qed simp_all

theorem EnsurePersonalGroup_creates_witness:
  "\<exists>g d'. EnsurePersonalGroupForUser sample_db ''alice'' ''seed-user'' = (Inr g, d')
     \<and> group_of d' (personal_id ''alice'') = Some g \<and> Group_Type g = GroupType_Personal
     \<and> map (\<lambda>m. (Member_UserID m, Member_RoleID m)) (members_of d' (personal_id ''alice''))
         = [(''alice'', if ''seed-user'' = [] then SeedRoleID_Admin else ''seed-user'')]
     \<and> EnsurePersonalGroupForUser d' ''alice'' [] = (Inr g, d')"
proof (rule EnsurePersonalGroup_creates)
  show "user_exists sample_db ''alice''" by code_simp
  show "group_of sample_db (personal_id ''alice'') = None" by code_simp
  show "\<forall>g\<in>set (db_groups sample_db). \<not> (Group_Type g = GroupType_Personal \<and> is_member sample_db ''alice'' (Group_ID g))"
    by code_simp
  show "''seed-user'' = [] \<or> ValidatePersonalRoleAssignable sample_db ''seed-user'' = Inr ()" by code_simp
qed simp_all

end
