(* ===== verification/UserUsecase.thy ===== *)
theory UserUsecase
  imports GroupUsecase
begin

text \<open>
  The user usecase (\<open>usecase/user_usecase.go\<close>) and the user-deletion handler of
  \<open>adapter/rpc/user_service.go\<close>: accounts, invitation tokens and registration. Password hashing
  (bcrypt), the token digest (SHA-256), the random token and the Resonite cloud lookup are the fields
  of an environment record that every operation takes as an argument.
\<close>

section \<open>The environment\<close>

record UserInfo =
  UserInfo_ID :: string
  UserInfo_UserName :: string
  UserInfo_IconUrl :: string

record user_env =
  Env_HashPassword :: "string \<Rightarrow> string res"
  Env_ComparePasswordAndHash :: "string \<Rightarrow> string \<Rightarrow> bool"
  Env_FetchUserInfo :: "string \<Rightarrow> UserInfo res"
  Env_hashRegistrationToken :: "string \<Rightarrow> string"
  Env_generateSecureToken :: "string res"
  Env_now :: time
  Env_guc :: bool

definition registrationTokenTTL :: time where
  "registrationTokenTTL = 24 * 3600"

definition minPasswordLength :: nat where
  "minPasswordLength = 8"

definition fetch_icon :: "user_env \<Rightarrow> string \<Rightarrow> string option" where
  "fetch_icon env resoniteId =
     (case Env_FetchUserInfo env resoniteId of Inl _ \<Rightarrow> None
      | Inr info \<Rightarrow> if UserInfo_IconUrl info \<noteq> [] then Some (UserInfo_IconUrl info) else None)"

section \<open>Operations\<close>

definition validatePersonalRole :: "user_env \<Rightarrow> db \<Rightarrow> string \<Rightarrow> unit res" where
  "validatePersonalRole env d personalRoleID =
     (if \<not> Env_guc env then Inl (ErrMsg ''cannot validate personal role: group usecase is not configured'')
      else ValidatePersonalRoleAssignable d personalRoleID)"

definition CreateUser ::
  "user_env \<Rightarrow> db \<Rightarrow> claims \<Rightarrow> string \<Rightarrow> string \<Rightarrow> string \<Rightarrow> string \<Rightarrow> unit res \<times> db" where
  "CreateUser env d c uid password resoniteId personalRoleID =
     checkS (RequireSystemPermission d c PermKey_SystemUserCreate) d (\<lambda>_.
     if uid = SystemUserID then (Inl (ErrMsg ''user id 'system' is reserved''), d)
     else
       checkS (if personalRoleID \<noteq> [] then validatePersonalRole env d personalRoleID else Inr ()) d (\<lambda>_.
       checkS (Env_HashPassword env password) d (\<lambda>passwordHash.
       bindS (q_CreateUser d uid passwordHash (Some resoniteId) (fetch_icon env resoniteId)) (\<lambda>_ d1.
       if Env_guc env then bindS (EnsurePersonalGroupForUser d1 uid personalRoleID) (\<lambda>_ d2. (Inr (), d2))
       else (Inr (), d1)))))"

definition GetUserWithPassword :: "user_env \<Rightarrow> db \<Rightarrow> string \<Rightarrow> string \<Rightarrow> User res" where
  "GetUserWithPassword env d uid password =
     (if uid = SystemUserID then Inl (ErrMsg ''invalid credentials'')
      else
        bindR (q_GetUser d uid) (\<lambda>user.
        if Env_ComparePasswordAndHash env password (User_Password user) then Inr user
        else Inl (ErrMsg ''hashedPassword is not the hash of the given password'')))"

definition DeleteUser :: "db \<Rightarrow> claims \<Rightarrow> string \<Rightarrow> unit res \<times> db" where
  "DeleteUser d c uid =
     checkS (RequireSystemPermission d c PermKey_SystemUserDelete) d (\<lambda>_.
     if uid = SystemUserID then (Inl (ErrMsg ''system user cannot be deleted''), d)
     else
       checkS (map_err convertDBErr (q_GetUser d uid)) d (\<lambda>_.
       q_DeleteUser d uid))"

definition createRegistrationToken ::
  "user_env \<Rightarrow> db \<Rightarrow> string \<Rightarrow> string \<Rightarrow> (string \<times> time) res \<times> db" where
  "createRegistrationToken env d resoniteId personalRoleID =
     checkS (if personalRoleID \<noteq> [] then validatePersonalRole env d personalRoleID else Inr ()) d (\<lambda>_.
     checkS (Env_generateSecureToken env) d (\<lambda>token.
     let expiresAt = Env_now env + registrationTokenTTL in
     bindS (q_CreateRegistrationToken d (Env_hashRegistrationToken env token) resoniteId expiresAt
              (if personalRoleID \<noteq> [] then Some personalRoleID else None)) (\<lambda>_ d1.
     (Inr (token, expiresAt), d1))))"

definition CreateRegistrationToken :: "user_env \<Rightarrow> db \<Rightarrow> claims \<Rightarrow> string \<Rightarrow> string \<Rightarrow> string res \<times> db" where
  "CreateRegistrationToken env d c resoniteId personalRoleID =
     checkS (RequireSystemPermission d c PermKey_SystemUserCreate) d (\<lambda>_.
     bindS (createRegistrationToken env d resoniteId personalRoleID) (\<lambda>r d1. (Inr (fst r), d1)))"

record RegistrationTokenWithInfo =
  Info_Token :: string
  Info_ExpiresAt :: time
  Info_ResoniteUserName :: string
  Info_IconUrl :: string

definition CreateRegistrationTokenWithInfo ::
  "user_env \<Rightarrow> db \<Rightarrow> claims \<Rightarrow> string \<Rightarrow> string \<Rightarrow> RegistrationTokenWithInfo res \<times> db" where
  "CreateRegistrationTokenWithInfo env d c resoniteId personalRoleID =
     checkS (RequireSystemPermission d c PermKey_SystemUserCreate) d (\<lambda>_.
     checkS (Env_FetchUserInfo env resoniteId) d (\<lambda>userInfo.
     bindS (createRegistrationToken env d resoniteId personalRoleID) (\<lambda>r d1.
     (Inr \<lparr>Info_Token = fst r, Info_ExpiresAt = snd r,
           Info_ResoniteUserName = UserInfo_UserName userInfo, Info_IconUrl = UserInfo_IconUrl userInfo\<rparr>, d1))))"

definition ListUsers :: "db \<Rightarrow> User list res" where
  "ListUsers d = q_ListUsers d"

definition GetUser :: "db \<Rightarrow> string \<Rightarrow> User res" where
  "GetUser d uid = map_err convertDBErr (q_GetUser d uid)"

definition ValidateRegistrationToken :: "user_env \<Rightarrow> db \<Rightarrow> string \<Rightarrow> UserInfo res" where
  "ValidateRegistrationToken env d token =
     bindR (q_GetValidRegistrationToken d (Env_hashRegistrationToken env token)) (\<lambda>regToken.
     case Env_FetchUserInfo env (Token_ResoniteID regToken) of
       Inl _ \<Rightarrow> Inr \<lparr>UserInfo_ID = Token_ResoniteID regToken, UserInfo_UserName = [], UserInfo_IconUrl = []\<rparr>
     | Inr info \<Rightarrow> Inr info)"

text \<open>
  \<open>db.RunInTx\<close>: the body sees its own writes; an error of the body, or of the commit, rolls
  everything back.
\<close>

definition RunInTx :: "db \<Rightarrow> (db \<Rightarrow> 'a res \<times> db) \<Rightarrow> 'a res \<times> db" where
  "RunInTx d fn =
     (case db_fault d (''BEGIN'', []) of Some f \<Rightarrow> (Inl (fault_err f), d)
      | None \<Rightarrow>
          (case fn d of
             (Inl e, _) \<Rightarrow> (Inl e, d)
           | (Inr x, d1) \<Rightarrow> (case db_fault d1 (''COMMIT'', []) of Some f \<Rightarrow> (Inl (fault_err f), d) | None \<Rightarrow> (Inr x, d1))))"

text \<open>
  Registration reads the token outside the transaction and then runs one transaction. The two phases
  are separate definitions because other requests can run between them.
\<close>

definition RegisterWithToken_read :: "user_env \<Rightarrow> db \<Rightarrow> string \<Rightarrow> string \<Rightarrow> (RegistrationToken \<times> string) res" where
  "RegisterWithToken_read env d token password =
     bindR (q_GetValidRegistrationToken d (Env_hashRegistrationToken env token)) (\<lambda>regToken.
     bindR (Env_HashPassword env password) (\<lambda>passwordHash.
     Inr (regToken, passwordHash)))"

definition invited_role :: "RegistrationToken \<Rightarrow> string" where
  "invited_role regToken =
     (if \<not> blank_ptr (Token_PersonalRoleID regToken) then the (Token_PersonalRoleID regToken) else SeedRoleID_Admin)"

definition RegisterWithToken_body ::
  "user_env \<Rightarrow> string \<Rightarrow> string \<Rightarrow> RegistrationToken \<Rightarrow> string \<Rightarrow> db \<Rightarrow> User res \<times> db" where
  "RegisterWithToken_body env token userId regToken passwordHash d =
     bindS (q_CreateUser d userId passwordHash (Some (Token_ResoniteID regToken))
              (fetch_icon env (Token_ResoniteID regToken))) (\<lambda>_ d1.
     bindS (q_CreateGroup d1 (personal_id userId) (personal_id userId) GroupType_Personal) (\<lambda>_ d2.
     bindS (q_AddGroupMember d2 (personal_id userId) userId (invited_role regToken) None) (\<lambda>_ d3.
     bindS (q_MarkRegistrationTokenUsed d3 (Env_hashRegistrationToken env token)) (\<lambda>rows d4.
     if rows \<noteq> 1 then (Inl (ErrMsg ''registration token is already used''), d4)
     else (q_GetUser d4 userId, d4)))))"

definition RegisterWithToken_tx ::
  "user_env \<Rightarrow> string \<Rightarrow> string \<Rightarrow> RegistrationToken \<times> string \<Rightarrow> db \<Rightarrow> User res \<times> db" where
  "RegisterWithToken_tx env token userId r d =
     RunInTx d (RegisterWithToken_body env token userId (fst r) (snd r))"

definition RegisterWithToken :: "user_env \<Rightarrow> db \<Rightarrow> string \<Rightarrow> string \<Rightarrow> string \<Rightarrow> User res \<times> db" where
  "RegisterWithToken env d token userId password =
     checkS (RegisterWithToken_read env d token password) d (\<lambda>r. RegisterWithToken_tx env token userId r d)"

definition ChangePassword :: "user_env \<Rightarrow> db \<Rightarrow> string \<Rightarrow> string \<Rightarrow> string \<Rightarrow> unit res \<times> db" where
  "ChangePassword env d userID currentPassword newPassword =
     checkS (q_GetUser d userID) d (\<lambda>user.
     if \<not> Env_ComparePasswordAndHash env currentPassword (User_Password user)
     then (Inl (ErrMsg ''current password is wrong''), d)
     else if length newPassword < minPasswordLength then (Inl (ErrMsg ''password is too short''), d)
     else
       checkS (Env_HashPassword env newPassword) d (\<lambda>passwordHash.
       q_UpdateUserPassword d userID passwordHash))"

text \<open>The RPC handler adds the guard that nobody deletes their own account.\<close>

definition UserService_DeleteUser :: "db \<Rightarrow> claims \<Rightarrow> string \<Rightarrow> unit res \<times> db" where
  "UserService_DeleteUser d c uid =
     (if uid = [] then (Inl (ErrMsg ''user_id is required''), d)
      else case c of
        None \<Rightarrow> (Inl ErrUnauthenticated, d)
      | Some caller \<Rightarrow>
          if caller = uid then (Inl (ErrMsg ''cannot delete yourself''), d)
          else DeleteUser d c uid)"

section \<open>Preservation of the table invariant\<close>

lemma validatePersonalRole_Inr:
  "validatePersonalRole env d rid = Inr x \<Longrightarrow> role_scope d rid = Some RoleScope_Normal"
  by (auto simp: validatePersonalRole_def dest!: ValidatePersonalRoleAssignable_Inr split: if_splits)

lemma rbac_CreateUser_op: "rbac_inv d \<Longrightarrow> rbac_inv (snd (CreateUser env d c uid pw res rid))"
  unfolding CreateUser_def
  by (rule inv_checkS) (auto intro!: inv_checkS inv_bindS rbac_queries rbac_EnsurePersonalGroup_op)

lemma rbac_DeleteUser_op: "rbac_inv d \<Longrightarrow> rbac_inv (snd (DeleteUser d c uid))"
  unfolding DeleteUser_def by (rule inv_checkS) (auto intro!: inv_checkS rbac_queries)

lemma rbac_createRegistrationToken_op: "rbac_inv d \<Longrightarrow> rbac_inv (snd (createRegistrationToken env d res rid))"
  unfolding createRegistrationToken_def Let_def
  by (rule inv_checkS)
     (auto intro!: inv_checkS inv_bindS rbac_CreateRegistrationToken dest!: validatePersonalRole_Inr split: if_splits)

lemma rbac_CreateRegistrationToken_op: "rbac_inv d \<Longrightarrow> rbac_inv (snd (CreateRegistrationToken env d c res rid))"
  unfolding CreateRegistrationToken_def
  by (rule inv_checkS) (auto intro!: inv_bindS rbac_createRegistrationToken_op)

lemma rbac_CreateRegistrationTokenWithInfo_op:
  "rbac_inv d \<Longrightarrow> rbac_inv (snd (CreateRegistrationTokenWithInfo env d c res rid))"
  unfolding CreateRegistrationTokenWithInfo_def
  by (rule inv_checkS) (auto intro!: inv_checkS inv_bindS rbac_createRegistrationToken_op)

lemma rbac_ChangePassword_op: "rbac_inv d \<Longrightarrow> rbac_inv (snd (ChangePassword env d uid old new))"
  unfolding ChangePassword_def by (rule inv_checkS) (auto intro!: inv_checkS rbac_queries)

lemma RunInTx_snd: "P d \<Longrightarrow> (\<And>x d1. fn d = (Inr x, d1) \<Longrightarrow> P d1) \<Longrightarrow> P (snd (RunInTx d fn))"
  by (auto simp: RunInTx_def split: option.splits prod.splits sum.splits)

lemma RunInTx_Inr: "RunInTx d fn = (Inr x, d') \<Longrightarrow> fn d = (Inr x, d')"
  by (auto simp: RunInTx_def split: option.splits prod.splits sum.splits)

lemma RunInTx_Inl: "RunInTx d fn = (Inl e, d') \<Longrightarrow> d' = d"
  by (auto simp: RunInTx_def split: option.splits prod.splits sum.splits)

section \<open>Registration\<close>

text \<open>What a committed registration did, step by step.\<close>

lemma RegisterWithToken_tx_Inr:
  assumes "RegisterWithToken_tx env token uid r d = (Inr u, d')"
  obtains d1 d2 d3 g m where
    "q_CreateUser d uid (snd r) (Some (Token_ResoniteID (fst r))) (fetch_icon env (Token_ResoniteID (fst r))) = (Inr (), d1)"
    "q_CreateGroup d1 (personal_id uid) (personal_id uid) GroupType_Personal = (Inr g, d2)"
    "q_AddGroupMember d2 (personal_id uid) uid (invited_role (fst r)) None = (Inr m, d3)"
    "q_MarkRegistrationTokenUsed d3 (Env_hashRegistrationToken env token) = (Inr 1, d')"
    "q_GetUser d' uid = Inr u"
  using RunInTx_Inr[OF assms[unfolded RegisterWithToken_tx_def]]
  by (auto simp: RegisterWithToken_body_def ctrl_simps split: if_splits)

lemma registered_role_normal:
  assumes "rbac_inv d" "q_GetValidRegistrationToken d h = Inr t"
  shows "role_scope d (invited_role t) = Some RoleScope_Normal"
proof -
  have "t \<in> set (db_tokens d)"
    using assms(2) by (auto simp: q_GetValidRegistrationToken_def ctrl_simps dest!: tbl_get_SomeD split: option.splits)
  then show ?thesis
    using assms(1) by (cases "Token_PersonalRoleID t") (auto simp: rbac_inv_def tokens_ok_iff roles_ok_def invited_role_def)
qed

lemma rbac_RegisterWithToken_op: "rbac_inv d \<Longrightarrow> rbac_inv (snd (RegisterWithToken env d token uid pw))"
  unfolding RegisterWithToken_def
proof (rule inv_checkS, assumption, goal_cases)
  case (1 r)
  let ?rid = "invited_role (fst r)"
  have rid: "role_scope d ?rid = Some RoleScope_Normal"
    using registered_role_normal[OF 1(1)] 1(2) by (auto simp: RegisterWithToken_read_def ctrl_simps)
  show ?case
  proof (cases "RegisterWithToken_tx env token uid r d")
    case (Pair res d')
    show ?thesis
    proof (cases res)
      case (Inl e)
      then show ?thesis using 1(1) Pair RunInTx_Inl by (fastforce simp: RegisterWithToken_tx_def)
    next
      case (Inr u)
      with Pair have ok: "RegisterWithToken_tx env token uid r d = (Inr u, d')" by simp
      then obtain d1 d2 d3 g m where s:
        "q_CreateUser d uid (snd r) (Some (Token_ResoniteID (fst r))) (fetch_icon env (Token_ResoniteID (fst r))) = (Inr (), d1)"
        "q_CreateGroup d1 (personal_id uid) (personal_id uid) GroupType_Personal = (Inr g, d2)"
        "q_AddGroupMember d2 (personal_id uid) uid ?rid None = (Inr m, d3)"
        "q_MarkRegistrationTokenUsed d3 (Env_hashRegistrationToken env token) = (Inr 1, d')"
        by (rule RegisterWithToken_tx_Inr)
      have i1: "rbac_inv d1" using rbac_CreateUser[OF 1(1)] s(1) by (metis snd_conv)
      have i2: "rbac_inv d2" using rbac_CreateGroup[OF i1] s(2) by (metis snd_conv)
      have r1: "role_scope d1 ?rid = Some RoleScope_Normal"
        using s(1) rid by (auto simp: q_CreateUser_def ctrl_simps split: if_splits)
      have r2: "role_scope d2 ?rid = Some RoleScope_Normal" using r1 q_CreateGroup_Inr(5)[OF s(2)] by simp
      have none: "members_of d2 (personal_id uid) = []"
        using no_members_of_missing[OF i1 q_CreateGroup_Inr(4)[OF s(2)]] q_CreateGroup_Inr(5)[OF s(2)] by simp
      have i3: "rbac_inv d3"
        using rbac_AddGroupMember[OF i2 r2 q_CreateGroup_Inr(6)[OF s(2)], of uid None] none s(3) by simp
      show ?thesis using rbac_MarkRegistrationTokenUsed[OF i3, of "Env_hashRegistrationToken env token"] s(4) Pair by simp
    qed
  qed
qed

definition token_spent :: "string \<Rightarrow> db \<Rightarrow> bool" where
  "token_spent h d \<longleftrightarrow> (\<exists>t \<in> set (db_tokens d). Token_Token t = h)
     \<and> (\<forall>t \<in> set (db_tokens d). Token_Token t = h \<longrightarrow> Token_UsedAt t \<noteq> None)"

lemma RegisterWithToken_result:
  assumes "RegisterWithToken env d token uid pw = (res, d')" "rbac_inv d"
  shows "case res of
     Inl _ \<Rightarrow> d' = d
   | Inr u \<Rightarrow> \<not> user_exists d uid \<and> User_ID u = uid \<and> Env_HashPassword env pw = Inr (User_Password u)
       \<and> (\<exists>g m. members_of d' (personal_id uid) = [m] \<and> Member_UserID m = uid
            \<and> group_of d' (personal_id uid) = Some g \<and> Group_Type g = GroupType_Personal
            \<and> role_scope d' (Member_RoleID m) = Some RoleScope_Normal)
       \<and> token_spent (Env_hashRegistrationToken env token) d'"
proof (cases res)
  case (Inl e)
  then show ?thesis
    using assms(1) RunInTx_Inl by (auto simp: RegisterWithToken_def RegisterWithToken_tx_def ctrl_simps)
next
  case (Inr u)
  let ?h = "Env_hashRegistrationToken env token"
  from assms(1) Inr obtain r where t: "q_GetValidRegistrationToken d ?h = Inr (fst r)"
    and ph: "Env_HashPassword env pw = Inr (snd r)"
    and tx: "RegisterWithToken_tx env token uid r d = (Inr u, d')"
    by (auto simp: RegisterWithToken_def RegisterWithToken_read_def ctrl_simps)
  from tx obtain d1 d2 d3 g m where s:
    "q_CreateUser d uid (snd r) (Some (Token_ResoniteID (fst r))) (fetch_icon env (Token_ResoniteID (fst r))) = (Inr (), d1)"
    "q_CreateGroup d1 (personal_id uid) (personal_id uid) GroupType_Personal = (Inr g, d2)"
    "q_AddGroupMember d2 (personal_id uid) uid (invited_role (fst r)) None = (Inr m, d3)"
    "q_MarkRegistrationTokenUsed d3 ?h = (Inr 1, d')" "q_GetUser d' uid = Inr u"
    by (rule RegisterWithToken_tx_Inr)
  define u0 where "u0 = \<lparr>User_ID = uid, User_Password = snd r, User_ResoniteID = Some (Token_ResoniteID (fst r)),
                     User_IconUrl = fetch_icon env (Token_ResoniteID (fst r))\<rparr>"
  have d1: "d1 = d\<lparr>db_users := db_users d @ [u0]\<rparr>" "\<not> user_exists d uid"
    using s(1) by (auto simp: q_CreateUser_def ctrl_simps user_exists_def u0_def split: if_splits)
  note g = q_CreateGroup_Inr[OF s(2)] and m = q_AddGroupMember_Inr[OF s(3)]
  have d3: "d3 = d1\<lparr>db_groups := db_groups d1 @ [g], db_members := db_members d1 @ [m]\<rparr>"
    using g(5) m(5) by simp
  define hit where "hit = (\<lambda>x::RegistrationToken. Token_Token x = ?h \<and> Token_UsedAt x = None)"
  have d': "d' = d3\<lparr>db_tokens := tbl_update hit (\<lambda>x. x\<lparr>Token_UsedAt := Some (db_now d3)\<rparr>) (db_tokens d3)\<rparr>"
    and one: "length (filter hit (db_tokens d3)) = 1"
    using s(4) by (auto simp: q_MarkRegistrationTokenUsed_def ctrl_simps Let_def hit_def)
  have "members_of d1 (personal_id uid) = []"
    using no_members_of_missing[of d1 "personal_id uid"] rbac_CreateUser[OF assms(2)] s(1) g(4) by (metis snd_conv)
  then have mem: "members_of d' (personal_id uid) = [m]" by (simp add: d' d3 m(1))
  have grp: "group_of d' (personal_id uid) = Some g"
    using g(1,4) by (simp add: d' d3 group_of_def tbl_get_append)
  have rol: "role_scope d' (Member_RoleID m) = Some RoleScope_Normal"
    using registered_role_normal[OF assms(2) t] m(3) by (simp add: d' d3 d1)
  have "u = u0"
    using s(5) d1(2) by (auto simp: q_GetUser_def ctrl_simps d' d3 d1 tbl_get_append user_exists_def tbl_exists_iff u0_def
        dest!: tbl_get_SomeD split: option.splits if_splits)
  moreover have "\<exists>x \<in> set (db_tokens d3). hit x" using one by (metis filter_empty_conv list.size(3) zero_neq_one)
  then have "\<exists>x \<in> set (db_tokens d'). Token_Token x = ?h"
    using tbl_exists_update[of "\<lambda>x. Token_Token x = ?h" "\<lambda>x. x\<lparr>Token_UsedAt := Some (db_now d3)\<rparr>" hit "db_tokens d3"]
    by (auto simp: tbl_exists_iff d' hit_def simp del: set_tbl_update)
  then have "token_spent ?h d'" unfolding token_spent_def by (auto simp: d' hit_def)
  ultimately show ?thesis
    using Inr mem grp rol d1(2) ph m(2) g(3) by (auto simp: u0_def)
qed

text \<open>A spent token registers nobody, whatever an earlier read returned.\<close>

lemma token_spent_refuses:
  assumes "token_spent (Env_hashRegistrationToken env token) d"
  shows "(\<exists>e. RegisterWithToken_tx env token uid r d = (Inl e, d))
     \<and> (\<exists>e. RegisterWithToken env d token uid pw = (Inl e, d))"
proof
  let ?h = "Env_hashRegistrationToken env token"
  have no: "\<nexists>u d'. RegisterWithToken_tx env token uid r d = (Inr u, d')" for r
  proof
    assume "\<exists>u d'. RegisterWithToken_tx env token uid r d = (Inr u, d')"
    then obtain u d' where "RegisterWithToken_tx env token uid r d = (Inr u, d')" by blast
    then obtain d1 d2 d3 g m where s:
      "q_CreateUser d uid (snd r) (Some (Token_ResoniteID (fst r))) (fetch_icon env (Token_ResoniteID (fst r))) = (Inr (), d1)"
      "q_CreateGroup d1 (personal_id uid) (personal_id uid) GroupType_Personal = (Inr g, d2)"
      "q_AddGroupMember d2 (personal_id uid) uid (invited_role (fst r)) None = (Inr m, d3)"
      "q_MarkRegistrationTokenUsed d3 ?h = (Inr 1, d')" by (rule RegisterWithToken_tx_Inr)
    have "db_tokens d3 = db_tokens d"
      using s(1) q_CreateGroup_Inr(5)[OF s(2)] q_AddGroupMember_Inr(5)[OF s(3)]
      by (auto simp: q_CreateUser_def ctrl_simps split: if_splits)
    then have "filter (\<lambda>t. Token_Token t = ?h \<and> Token_UsedAt t = None) (db_tokens d3) = []"
      using assms by (auto simp: token_spent_def filter_empty_conv)
    then show False using s(4) by (auto simp: q_MarkRegistrationTokenUsed_def ctrl_simps Let_def)
  qed
  have fails: "\<exists>e. RegisterWithToken_tx env token uid r d = (Inl e, d)" for r
    using no[of r] RunInTx_Inl[of d "RegisterWithToken_body env token uid (fst r) (snd r)"]
    by (cases "RegisterWithToken_tx env token uid r d"; cases "fst (RegisterWithToken_tx env token uid r d)")
       (auto simp: RegisterWithToken_tx_def)
  show "\<exists>e. RegisterWithToken_tx env token uid r d = (Inl e, d)" by (rule fails)
  show "\<exists>e. RegisterWithToken env d token uid pw = (Inl e, d)"
    using fails by (cases "RegisterWithToken_read env d token pw") (auto simp: RegisterWithToken_def)
qed

section \<open>Properties\<close>


text \<open>
  The command line cannot repair a system group that lost the system user. The CLI acts as the
  user \<open>system\<close>; once that user is not a member of the system group, \<open>system-admin add\<close> is denied
  and changes nothing, for every user.
\<close>

theorem cli_cannot_recover:
  assumes "no_faults d" "\<not> is_member d SystemUserID SystemGroupID"
  shows "AddGroupMember d (Some SystemUserID) SystemGroupID uid SeedRoleID_SystemAdmin (Some SystemUserID)
           = (Inl ErrPermissionDenied, d)"
proof -
  have "\<not> holds d SystemUserID SystemGroupID k" for k using assms(2) by (auto simp: holds_def is_member_iff)
  then have "\<not> allowed d SystemUserID SystemGroupID PermKey_GroupMembersManage" by (simp add: allowed_def)
  then show ?thesis
    using assms(1) by (simp add: AddGroupMember_def RequirePermissionForGroup_def CurrentUserID_def require_def
        HasPermission_total SystemUserID_def)
qed

section \<open>Instances\<close>

text \<open>A toy environment: the digest repeats a digit, the hash prefixes the password.\<close>

definition toy_env :: user_env where
  "toy_env = \<lparr>Env_HashPassword = (\<lambda>p. Inr (''h:'' @ p)), Env_ComparePasswordAndHash = (\<lambda>p h. h = ''h:'' @ p),
     Env_FetchUserInfo = (\<lambda>_. Inl (ErrMsg ''offline'')), Env_hashRegistrationToken = (\<lambda>_. replicate 64 (CHR ''a'')),
     Env_generateSecureToken = Inr ''tok'', Env_now = 0, Env_guc = True\<rparr>"

definition invited_db :: db where
  "invited_db = snd (CreateRegistrationToken toy_env sample_db (Some SystemUserID) ''U-x'' ''seed-user'')"

definition dave_registers :: "User res \<times> db" where
  "dave_registers = RegisterWithToken toy_env invited_db ''tok'' ''dave'' ''secret''"

lemma invited_db_inv: "rbac_inv invited_db"
  unfolding invited_db_def by (rule rbac_CreateRegistrationToken_op) simp

lemma dave_registers_ok: "is_ok (fst dave_registers)"
  by code_simp


theorem cli_cannot_recover_witness:
  "AddGroupMember (sample_db\<lparr>db_members := []\<rparr>) (Some SystemUserID) SystemGroupID ''alice'' SeedRoleID_SystemAdmin
     (Some SystemUserID) = (Inl ErrPermissionDenied, sample_db\<lparr>db_members := []\<rparr>)"
proof (rule cli_cannot_recover)
  show "no_faults (sample_db\<lparr>db_members := []\<rparr>)" by (simp add: no_faults_def sample_db_def seed_db_def)
  show "\<not> is_member (sample_db\<lparr>db_members := []\<rparr>) SystemUserID SystemGroupID" by (simp add: is_member_iff)
qed

end
