(* ===== verification/Rbac.thy ===== *)
theory Rbac
  imports UserUsecase
begin

text \<open>
  Histories of the permission system: the step relation over every operation of the role, group and
  user usecases, each with arbitrary arguments, callers, environment and outcome (also failing half
  way), and what every reachable database satisfies.
\<close>

section \<open>Steps\<close>

text \<open>
  \<open>faults\<close> lets the availability of the database change between two operations, \<open>clock\<close> lets time
  pass. User deletion comes from its RPC handler or from the
  command line, which acts as the system user.
\<close>

inductive rbac_step :: "db \<Rightarrow> db \<Rightarrow> bool" where
  create_role: "iteration_order ord \<Longrightarrow> rbac_step d (snd (CreateRole ord fresh d c p))"
| update_role: "iteration_order ord \<Longrightarrow> rbac_step d (snd (UpdateRole ord d c q))"
| delete_role: "rbac_step d (snd (DeleteRole d c rid))"
| create_group: "rbac_step d (snd (CreateGroup fresh d c name creator))"
| rename_group: "rbac_step d (snd (UpdateGroupName d c gid name))"
| delete_group: "rbac_step d (snd (DeleteGroup d c gid))"
| add_member: "rbac_step d (snd (AddGroupMember d c gid uid rid addedBy))"
| remove_member: "rbac_step d (snd (RemoveGroupMember d c gid uid))"
| change_role: "rbac_step d (snd (UpdateGroupMemberRole d c gid uid rid))"
| create_user: "rbac_step d (snd (CreateUser env d c uid pw res rid))"
| delete_user: "rbac_step d (snd (UserService_DeleteUser d c uid))"
| delete_user_cli: "rbac_step d (snd (DeleteUser d (Some SystemUserID) uid))"
| invite: "rbac_step d (snd (CreateRegistrationToken env d c res rid))"
| invite_info: "rbac_step d (snd (CreateRegistrationTokenWithInfo env d c res rid))"
| register: "rbac_step d (snd (RegisterWithToken env d token uid pw))"
| change_password: "rbac_step d (snd (ChangePassword env d uid old new))"
| faults: "rbac_step d (d\<lparr>db_fault := f\<rparr>)"
| clock: "db_now d \<le> n \<Longrightarrow> rbac_step d (d\<lparr>db_now := n\<rparr>)"

lemma rbac_UserService_DeleteUser: "rbac_inv d \<Longrightarrow> rbac_inv (snd (UserService_DeleteUser d c uid))"
  by (auto simp: UserService_DeleteUser_def rbac_DeleteUser_op split: option.split)

lemma rbac_faults: "rbac_inv d \<Longrightarrow> rbac_inv (d\<lparr>db_fault := f\<rparr>)" "rbac_inv d \<Longrightarrow> rbac_inv (d\<lparr>db_now := n\<rparr>)"
  by (simp_all add: rbac_inv_def rbac_parts lookup_defs)

lemmas rbac_ops = rbac_CreateRole_op rbac_UpdateRole_op rbac_DeleteRole_op rbac_CreateGroup_op
  rbac_UpdateGroupName_op rbac_DeleteGroup_op rbac_AddGroupMember_op rbac_RemoveGroupMember_op
  rbac_UpdateGroupMemberRole_op rbac_CreateUser_op rbac_UserService_DeleteUser
  rbac_CreateRegistrationToken_op rbac_CreateRegistrationTokenWithInfo_op rbac_RegisterWithToken_op
  rbac_ChangePassword_op rbac_DeleteUser_op rbac_faults

interpretation rbac: step_invariant rbac_step rbac_inv
  by unfold_locales (auto elim!: rbac_step.cases intro: rbac_ops)

section \<open>The system group keeps a member\<close>

lemma system_has_member_iff: "system_has_member d \<longleftrightarrow> (\<exists>m \<in> set (db_members d). Member_GroupID m = SystemGroupID)"
  by (auto simp: system_has_member_def filter_empty_conv)

lemmas kept_bindS = bindS_snd[where P = system_has_member]
lemmas kept_writeQ = writeQ_snd[where P = system_has_member]

lemma kept_frame:
  "system_has_member d \<Longrightarrow> db_members d' = db_members d \<Longrightarrow> system_has_member d'"
  by (simp add: system_has_member_iff)

lemma kept_role_update:
  "system_has_member d \<Longrightarrow>
     system_has_member (d\<lparr>db_members := tbl_update q (\<lambda>m. m\<lparr>Member_RoleID := rid\<rparr>) (db_members d)\<rparr>)"
  using tbl_exists_update[of "\<lambda>m. Member_GroupID m = SystemGroupID" "\<lambda>m. m\<lparr>Member_RoleID := rid\<rparr>" q "db_members d"]
  by (simp add: system_has_member_iff tbl_exists_iff)

lemma kept_queries:
  assumes "system_has_member d"
  shows "system_has_member (snd (q_CreateGroup d gid name t))"
    "system_has_member (snd (q_UpdateGroupName d gid name))"
    "system_has_member (snd (q_AddGroupMember d gid uid rid a))"
    "system_has_member (snd (q_UpdateGroupMemberRole d gid uid rid))"
    "system_has_member (snd (q_CreateRole d rid gr name sc))"
    "system_has_member (snd (q_UpdateRoleName d rid name))"
    "system_has_member (snd (q_DeleteRole d rid))"
    "system_has_member (snd (q_CreateUser d uid pw ro ic))"
    "system_has_member (snd (q_UpdateUserPassword d uid pw))"
    "system_has_member (snd (q_CreateRegistrationToken d h re e tr))"
    "system_has_member (snd (q_MarkRegistrationTokenUsed d h))"
    "gid \<noteq> SystemGroupID \<Longrightarrow> system_has_member (snd (q_DeleteGroup d gid))"
  using assms kept_role_update[OF assms]
  by (auto simp: q_CreateGroup_def q_UpdateGroupName_def q_AddGroupMember_def q_UpdateGroupMemberRole_def
      q_CreateRole_def q_UpdateRoleName_def q_DeleteRole_def q_CreateUser_def q_UpdateUserPassword_def
      q_CreateRegistrationToken_def q_MarkRegistrationTokenUsed_def q_DeleteGroup_def Let_def
      intro!: kept_writeQ split: option.splits intro: kept_frame)
    (auto simp: system_has_member_iff)

lemma kept_ReplacePermissions:
  "system_has_member d \<Longrightarrow> system_has_member (snd (RoleRepository_ReplacePermissions ord d rid ks))"
  by (erule kept_frame) (rule only_role_permissions_eqs(3)[OF ReplacePermissions_only])

lemma kept_DeleteUser:
  assumes "system_has_member d" "\<exists>v. v \<noteq> uid \<and> is_member d v SystemGroupID"
  shows "system_has_member (snd (q_DeleteUser d uid))"
  unfolding q_DeleteUser_def
  by (rule kept_writeQ) (use assms in \<open>auto simp: system_has_member_iff is_member_iff\<close>)

lemma holds_system_member: "holds d u SystemGroupID k \<Longrightarrow> is_member d u SystemGroupID"
  by (auto simp: holds_def is_member_iff)

lemma kept_DeleteUser_op:
  assumes "system_has_member d" "c = Some caller" "caller \<noteq> uid"
  shows "system_has_member (snd (DeleteUser d c uid))"
  unfolding DeleteUser_def
proof (rule kept_checkS, fact, goal_cases)
  case (1 x)
  then have "is_member d caller SystemGroupID"
    using RequireSystemPermission_Inr[OF 1] assms(2) holds_system_member by blast
  then show ?case using assms by (auto intro!: kept_checkS kept_DeleteUser)
qed

lemma kept_UserService_DeleteUser: "system_has_member d \<Longrightarrow> system_has_member (snd (UserService_DeleteUser d c uid))"
  by (auto simp: UserService_DeleteUser_def intro: kept_DeleteUser_op split: option.split)

lemma kept_DeleteUser_cli: "system_has_member d \<Longrightarrow> system_has_member (snd (DeleteUser d (Some SystemUserID) uid))"
proof (cases "uid = SystemUserID")
  case True
  then show "system_has_member d \<Longrightarrow> ?thesis" unfolding DeleteUser_def by (auto intro!: kept_checkS)
qed (auto intro: kept_DeleteUser_op)

lemma kept_role_ops:
  assumes "system_has_member d"
  shows "system_has_member (snd (CreateRole ord fresh d c p))" "system_has_member (snd (UpdateRole ord d c q))"
    "system_has_member (snd (DeleteRole d c rid))"
  using assms
  by (auto simp: CreateRole_def UpdateRole_def DeleteRole_def repo_defs kept_queries kept_ReplacePermissions
      intro!: kept_checkS kept_bindS split: option.split)

lemma kept_group_ops:
  assumes "system_has_member d" "rbac_inv d"
  shows "system_has_member (snd (CreateGroup fresh d c name creator))"
    "system_has_member (snd (UpdateGroupName d c gid name))"
    "system_has_member (snd (DeleteGroup d c gid))"
    "system_has_member (snd (AddGroupMember d c gid uid rid a))"
    "system_has_member (snd (UpdateGroupMemberRole d c gid uid rid))"
    "system_has_member (snd (EnsurePersonalGroupForUser d uid rid))"
proof -
  show "system_has_member (snd (DeleteGroup d c gid))"
    unfolding DeleteGroup_def
    by (rule kept_checkS[OF assms(1)])
       (use assms in \<open>auto intro!: kept_checkS kept_queries(12) simp: GroupRepository_Delete_def
          dest: system_group_type dest!: GroupRepository_Get_type\<close>)
qed (use assms(1) in \<open>auto simp: CreateGroup_def UpdateGroupName_def AddGroupMember_def UpdateGroupMemberRole_def
      EnsurePersonalGroupForUser_def repo_defs kept_queries intro!: kept_checkS kept_bindS split: sum.split\<close>)

lemma kept_user_ops:
  assumes "system_has_member d" "rbac_inv d"
  shows "system_has_member (snd (CreateUser env d c uid pw res rid))"
    "system_has_member (snd (createRegistrationToken env d res rid))"
    "system_has_member (snd (RegisterWithToken env d token uid pw))"
    "system_has_member (snd (ChangePassword env d uid old new))"
proof -
  show "system_has_member (snd (CreateUser env d c uid pw res rid))"
    unfolding CreateUser_def
    by (rule kept_checkS[OF assms(1)])
       (use assms in \<open>auto intro!: kept_checkS kept_bindS kept_queries kept_group_ops(6) rbac_CreateUser\<close>)
  show "system_has_member (snd (RegisterWithToken env d token uid pw))"
    unfolding RegisterWithToken_def RegisterWithToken_tx_def
  proof (rule kept_checkS[OF assms(1)], rule RunInTx_snd[where P = system_has_member, OF assms(1)])
    fix r x d1 assume "RegisterWithToken_body env token uid (fst r) (snd r) d = (Inr x, d1)"
    then have "d1 = snd (RegisterWithToken_body env token uid (fst r) (snd r) d)" by simp
    then show "system_has_member d1"
      using assms(1) by (auto simp: RegisterWithToken_body_def kept_queries intro!: kept_bindS)
  qed
qed (use assms(1) in \<open>auto simp: createRegistrationToken_def ChangePassword_def Let_def kept_queries
      intro!: kept_checkS kept_bindS\<close>)

lemma kept_invites:
  assumes "system_has_member d" "rbac_inv d"
  shows "system_has_member (snd (CreateRegistrationToken env d c res rid))"
    "system_has_member (snd (CreateRegistrationTokenWithInfo env d c res rid))"
  using assms by (auto simp: CreateRegistrationToken_def CreateRegistrationTokenWithInfo_def kept_user_ops
      intro!: kept_checkS kept_bindS)

interpretation sysadmin: step_invariant rbac_step "\<lambda>d. rbac_inv d \<and> system_has_member d"
proof
  fix d d' assume s: "rbac_step d d'" and i: "rbac_inv d \<and> system_has_member d"
  have "rbac_inv d'" using rbac.step_inv[OF s] i by blast
  moreover have "system_has_member d'"
    using s i by (cases rule: rbac_step.cases)
      (auto simp: kept_role_ops kept_group_ops kept_user_ops kept_invites kept_UserService_DeleteUser
        kept_DeleteUser_cli kept_RemoveGroupMember intro: kept_frame)
  ultimately show "rbac_inv d' \<and> system_has_member d'" by blast
qed

section \<open>Spent invitations stay spent\<close>

lemmas spent_checkS = checkS_snd[where P = "token_spent h" for h]
lemmas spent_bindS = bindS_snd[where P = "token_spent h" for h]
lemmas spent_writeQ = writeQ_snd[where P = "token_spent h" for h]

lemma spent_frame: "token_spent h d \<Longrightarrow> db_tokens d' = db_tokens d \<Longrightarrow> token_spent h d'"
  by (simp add: token_spent_def)

lemma spent_update:
  assumes "token_spent h d" "\<And>t. Token_Token (f t) = Token_Token t" "\<And>t. Token_UsedAt t \<noteq> None \<Longrightarrow> Token_UsedAt (f t) \<noteq> None"
    "db_tokens d' = tbl_update q f (db_tokens d)"
  shows "token_spent h d'"
  using assms(1) tbl_exists_update[of "\<lambda>t. Token_Token t = h" f q "db_tokens d"] assms(2,3)
  by (auto simp: token_spent_def assms(4) tbl_exists_iff)

lemma spent_queries:
  assumes "token_spent h d"
  shows "token_spent h (snd (q_CreateGroup d gid name t))"
    "token_spent h (snd (q_UpdateGroupName d gid name))"
    "token_spent h (snd (q_AddGroupMember d gid uid rid a))"
    "token_spent h (snd (q_RemoveGroupMember d gid uid))"
    "token_spent h (snd (q_UpdateGroupMemberRole d gid uid rid))"
    "token_spent h (snd (q_CreateRole d rid gr name sc))"
    "token_spent h (snd (q_UpdateRoleName d rid name))"
    "token_spent h (snd (q_CreateUser d uid pw ro ic))"
    "token_spent h (snd (q_DeleteUser d uid))"
    "token_spent h (snd (q_UpdateUserPassword d uid pw))"
  using assms
  by (auto simp: q_CreateGroup_def q_UpdateGroupName_def q_AddGroupMember_def q_UpdateGroupMemberRole_def
      q_CreateRole_def q_UpdateRoleName_def q_CreateUser_def q_UpdateUserPassword_def q_RemoveGroupMember_def
      q_DeleteUser_def Let_def intro!: spent_writeQ split: option.splits intro: spent_frame)

lemma spent_token_queries:
  assumes "token_spent h d"
  shows "token_spent h (snd (q_DeleteRole d rid))" "token_spent h (snd (q_DeleteGroup d gid))"
    "token_spent h (snd (q_MarkRegistrationTokenUsed d h'))"
    "token_spent h (snd (q_CreateRegistrationToken d h' re e tr))"
proof -
  show "token_spent h (snd (q_DeleteRole d rid))"
    unfolding q_DeleteRole_def
    by (rule spent_writeQ[OF assms])
       (auto intro!: assms spent_update[OF assms, where f = "\<lambda>t. t\<lparr>Token_PersonalRoleID := None\<rparr>"
          and q = "\<lambda>t. Token_PersonalRoleID t = Some rid"])
  show "token_spent h (snd (q_DeleteGroup d gid))"
    unfolding q_DeleteGroup_def Let_def
    by (rule spent_writeQ[OF assms])
       (auto intro!: assms spent_update[OF assms, where f = "\<lambda>t. t\<lparr>Token_PersonalRoleID := None\<rparr>"
          and q = "\<lambda>t. \<exists>r \<in> set (roles_of_group d gid). Token_PersonalRoleID t = Some r"])
  show "token_spent h (snd (q_MarkRegistrationTokenUsed d h'))"
    unfolding q_MarkRegistrationTokenUsed_def Let_def
    by (rule spent_writeQ[OF assms])
       (auto intro!: spent_update[OF assms, where f = "\<lambda>t. t\<lparr>Token_UsedAt := Some (db_now d)\<rparr>"
          and q = "\<lambda>t. Token_Token t = h' \<and> Token_UsedAt t = None"])
  show "token_spent h (snd (q_CreateRegistrationToken d h' re e tr))"
    unfolding q_CreateRegistrationToken_def
    by (rule spent_writeQ[OF assms]) (use assms in \<open>auto simp: token_spent_def tbl_exists_iff\<close>)
qed

lemma spent_ReplacePermissions:
  "token_spent h d \<Longrightarrow> token_spent h (snd (RoleRepository_ReplacePermissions ord d rid ks))"
  by (erule spent_frame) (rule only_role_permissions_eqs(5)[OF ReplacePermissions_only])

lemmas spent_rules = spent_queries spent_token_queries spent_ReplacePermissions

lemma spent_ops:
  assumes "token_spent h d"
  shows "token_spent h (snd (CreateRole ord fresh d c p))" "token_spent h (snd (UpdateRole ord d c q))"
    "token_spent h (snd (DeleteRole d c rid))" "token_spent h (snd (CreateGroup fresh d c name creator))"
    "token_spent h (snd (UpdateGroupName d c gid name))" "token_spent h (snd (DeleteGroup d c gid))"
    "token_spent h (snd (AddGroupMember d c gid uid rid a))" "token_spent h (snd (RemoveGroupMember d c gid uid))"
    "token_spent h (snd (UpdateGroupMemberRole d c gid uid rid))" "token_spent h (snd (EnsurePersonalGroupForUser d uid rid))"
    "token_spent h (snd (DeleteUser d c uid))" "token_spent h (snd (createRegistrationToken env d res rid))"
    "token_spent h (snd (ChangePassword env d uid old new))"
  using assms
  by (auto simp: CreateRole_def UpdateRole_def DeleteRole_def CreateGroup_def UpdateGroupName_def DeleteGroup_def
      AddGroupMember_def RemoveGroupMember_def UpdateGroupMemberRole_def EnsurePersonalGroupForUser_def
      DeleteUser_def createRegistrationToken_def ChangePassword_def Let_def repo_defs spent_rules
      intro!: spent_checkS spent_bindS split: option.split sum.split)

lemma spent_user_ops:
  assumes "token_spent h d"
  shows "token_spent h (snd (CreateUser env d c uid pw res rid))" "token_spent h (snd (CreateRegistrationToken env d c res rid))"
    "token_spent h (snd (CreateRegistrationTokenWithInfo env d c res rid))"
    "token_spent h (snd (UserService_DeleteUser d c uid))" "token_spent h (snd (RegisterWithToken env d token uid pw))"
proof -
  show "token_spent h (snd (RegisterWithToken env d token uid pw))"
    unfolding RegisterWithToken_def RegisterWithToken_tx_def
  proof (rule spent_checkS[OF assms], rule RunInTx_snd[where P = "token_spent h", OF assms])
    fix r x d1 assume "RegisterWithToken_body env token uid (fst r) (snd r) d = (Inr x, d1)"
    then have "d1 = snd (RegisterWithToken_body env token uid (fst r) (snd r) d)" by simp
    then show "token_spent h d1"
      using assms by (auto simp: RegisterWithToken_body_def spent_rules intro!: spent_bindS)
  qed
qed (use assms in \<open>auto simp: CreateUser_def CreateRegistrationToken_def CreateRegistrationTokenWithInfo_def
      UserService_DeleteUser_def spent_rules spent_ops intro!: spent_checkS spent_bindS split: option.split\<close>)

interpretation spent: step_invariant rbac_step "token_spent h" for h
  by unfold_locales (auto elim!: rbac_step.cases simp: spent_ops spent_user_ops intro: spent_frame)

section \<open>Builtin roles never change\<close>

text \<open>Every builtin role of \<open>d0\<close> is in \<open>d\<close> with the same row and the same keys.\<close>

definition same_builtins :: "db \<Rightarrow> db \<Rightarrow> bool" where
  "same_builtins d0 d \<longleftrightarrow> (\<forall>rid. role_builtin d0 rid \<longrightarrow> role_builtin d rid
     \<and> role_of d rid = role_of d0 rid \<and> role_keys d rid = role_keys d0 rid)"

definition roles_view :: "db \<Rightarrow> Role list \<times> (string \<times> string) list" where
  "roles_view d = (db_roles d, db_role_permissions d)"

lemma builtins_frame: "same_builtins d0 d \<Longrightarrow> roles_view d' = roles_view d \<Longrightarrow> same_builtins d0 d'"
  by (simp add: same_builtins_def roles_view_def role_of_def role_keys_def role_builtin_def)

lemma builtins_refl [simp]: "same_builtins d d"
  by (simp add: same_builtins_def)

lemma builtins_trans: "same_builtins a b \<Longrightarrow> same_builtins b c \<Longrightarrow> same_builtins a c"
  by (simp add: same_builtins_def)

lemma builtin_group: "rbac_inv d \<Longrightarrow> role_builtin d rid \<Longrightarrow> \<exists>r. role_of d rid = Some r \<and> Role_IsBuiltin r \<and> Role_GroupID r = None"
  using role_builtin_iff[of d rid] role_ID_of[of d rid] by (auto simp: rbac_inv_def roles_ok_def)

lemma builtins_CreateRole: "same_builtins d (snd (q_CreateRole d rid gid name sc))"
  unfolding q_CreateRole_def
  by (rule writeQ_snd[where P = "same_builtins d"])
     (auto simp: same_builtins_def Let_def role_builtin_def tbl_exists_iff role_of_def tbl_get_append tbl_get_None_iff
       split: option.split)

lemma builtins_UpdateRoleName:
  assumes "\<not> role_builtin d rid" shows "same_builtins d (snd (q_UpdateRoleName d rid name))"
  unfolding q_UpdateRoleName_def
proof (rule writeQ_snd[where P = "same_builtins d"], simp, goal_cases)
  case 1
  let ?f = "\<lambda>x. x\<lparr>Role_Name := name, Role_UpdatedAt := db_now d\<rparr>"
  let ?d = "d\<lparr>db_roles := tbl_update (\<lambda>x. Role_ID x = rid) ?f (db_roles d)\<rparr>"
  have "role_of ?d x = role_of d x" if "x \<noteq> rid" for x
    using that role_ID_of[of d x] by (cases "role_of d x") (auto simp: role_of_def tbl_get_update_keep)
  moreover have "role_builtin ?d x = role_builtin d x" for x by (simp add: role_builtin_def tbl_exists_update)
  moreover have "role_keys ?d x = role_keys d x" for x by simp
  ultimately have "same_builtins d ?d" using assms unfolding same_builtins_def by (intro allI impI) metis
  then show ?case by (auto split: option.split)
qed

lemma role_keys_other:
  assumes "x \<noteq> rid"
  shows "role_keys (snd (RoleRepository_ReplacePermissions ord d rid ks)) x = role_keys d x"
proof -
  let ?P = "\<lambda>s. role_keys s x = role_keys d x"
  have rm: "?P (snd (forS (\<lambda>s k. q_RemoveRolePermission s rid k) s l))" if "?P s" for s l
    by (rule forS_snd[where P = ?P], rule that)
       (use assms in \<open>auto simp: q_RemoveRolePermission_def writeQ_def role_keys_def split: option.splits if_splits\<close>)
  have ad: "?P (snd (forS (\<lambda>s k. q_AddRolePermission s rid k) s l))" if "?P s" for s l
    by (rule forS_snd[where P = ?P], rule that)
       (use assms in \<open>auto simp: q_AddRolePermission_def writeQ_def role_keys_def split: option.splits if_splits\<close>)
  show ?thesis
    unfolding RoleRepository_ReplacePermissions_def
    by (rule checkS_snd[where P = ?P], simp, rule bindS_snd[where P = ?P]) (auto intro!: rm ad)
qed

lemma builtins_ReplacePermissions:
  "\<not> role_builtin d rid \<Longrightarrow> same_builtins d (snd (RoleRepository_ReplacePermissions ord d rid ks))"
  using only_role_permissions_eqs(1)[OF ReplacePermissions_only[of d ord rid ks]]
  by (auto simp: same_builtins_def role_builtin_def role_of_def intro!: role_keys_other)

lemma builtins_DeleteRole:
  assumes "\<not> role_builtin d rid" shows "same_builtins d (snd (q_DeleteRole d rid))"
  unfolding q_DeleteRole_def
proof (rule writeQ_snd[where P = "same_builtins d"], simp, goal_cases)
  case 1
  have "role_of d x = tbl_get (\<lambda>r. Role_ID r = x) (tbl_delete (\<lambda>r. Role_ID r = rid) (db_roles d))" if "x \<noteq> rid" for x
    using that by (simp add: role_of_def tbl_get_delete_other)
  then show ?case using assms
    by (auto simp: same_builtins_def role_of_def role_keys_def role_builtin_def tbl_exists_iff)
qed

lemma builtins_DeleteGroup:
  assumes "rbac_inv d" shows "same_builtins d (snd (q_DeleteGroup d gid))"
  unfolding q_DeleteGroup_def Let_def
proof (rule writeQ_snd[where P = "same_builtins d"], simp, goal_cases)
  case 1
  have "tbl_get (\<lambda>r. Role_ID r = x) (tbl_delete (\<lambda>r. Role_GroupID r = Some gid) (db_roles d)) = role_of d x
        \<and> x \<notin> set (roles_of_group d gid)" if bi: "role_builtin d x" for x
  proof -
    obtain r where r: "role_of d x = Some r" "Role_GroupID r = None" using builtin_group[OF assms bi] by blast
    have "Role_GroupID r' = None" if "r' \<in> set (db_roles d)" "Role_ID r' = x" for r'
      using tbl_get_key_unique[of Role_ID "db_roles d" r'] assms that r by (simp add: rbac_inv_def ids_ok_def role_of_def)
    then show ?thesis using r by (auto simp: role_of_def tbl_get_delete_keep roles_of_group_def)
  qed
  then show ?case
    using builtin_group[OF assms]
    by (auto simp: same_builtins_def role_of_def role_keys_def) (auto simp: role_builtin_def tbl_exists_iff dest!: tbl_get_SomeD)
qed

lemmas view_checkS = checkS_snd[where P = "\<lambda>s. roles_view s = v" for v]
lemmas view_bindS = bindS_snd[where P = "\<lambda>s. roles_view s = v" for v]

lemma view_queries:
  "roles_view (snd (q_CreateGroup d gid name t)) = roles_view d"
  "roles_view (snd (q_UpdateGroupName d gid name)) = roles_view d"
  "roles_view (snd (q_AddGroupMember d gid uid rid a)) = roles_view d"
  "roles_view (snd (q_RemoveGroupMember d gid uid)) = roles_view d"
  "roles_view (snd (q_UpdateGroupMemberRole d gid uid rid)) = roles_view d"
  "roles_view (snd (q_CreateUser d uid pw ro ic)) = roles_view d"
  "roles_view (snd (q_DeleteUser d uid)) = roles_view d"
  "roles_view (snd (q_UpdateUserPassword d uid pw)) = roles_view d"
  "roles_view (snd (q_CreateRegistrationToken d h re e tr)) = roles_view d"
  "roles_view (snd (q_MarkRegistrationTokenUsed d h)) = roles_view d"
  by (auto simp: q_CreateGroup_def q_UpdateGroupName_def q_AddGroupMember_def q_UpdateGroupMemberRole_def
      q_CreateUser_def q_UpdateUserPassword_def q_RemoveGroupMember_def q_DeleteUser_def
      q_CreateRegistrationToken_def q_MarkRegistrationTokenUsed_def Let_def roles_view_def writeQ_def split: option.splits)

lemma view_ops:
  "roles_view (snd (CreateGroup fresh d c name creator)) = roles_view d"
  "roles_view (snd (UpdateGroupName d c gid name)) = roles_view d"
  "roles_view (snd (AddGroupMember d c gid uid rid a)) = roles_view d"
  "roles_view (snd (RemoveGroupMember d c gid uid)) = roles_view d"
  "roles_view (snd (UpdateGroupMemberRole d c gid uid rid)) = roles_view d"
  "roles_view (snd (EnsurePersonalGroupForUser d uid rid)) = roles_view d"
  "roles_view (snd (DeleteUser d c uid)) = roles_view d"
  "roles_view (snd (createRegistrationToken env d res rid)) = roles_view d"
  "roles_view (snd (ChangePassword env d uid old new)) = roles_view d"
  by (auto simp: CreateGroup_def UpdateGroupName_def AddGroupMember_def RemoveGroupMember_def
      UpdateGroupMemberRole_def EnsurePersonalGroupForUser_def DeleteUser_def createRegistrationToken_def
      ChangePassword_def Let_def repo_defs view_queries intro!: view_checkS view_bindS split: option.split sum.split)

lemma view_user_ops:
  "roles_view (snd (CreateUser env d c uid pw res rid)) = roles_view d"
  "roles_view (snd (CreateRegistrationToken env d c res rid)) = roles_view d"
  "roles_view (snd (CreateRegistrationTokenWithInfo env d c res rid)) = roles_view d"
  "roles_view (snd (UserService_DeleteUser d c uid)) = roles_view d"
  "roles_view (snd (RegisterWithToken env d token uid pw)) = roles_view d"
proof -
  show "roles_view (snd (RegisterWithToken env d token uid pw)) = roles_view d"
    unfolding RegisterWithToken_def RegisterWithToken_tx_def
  proof (rule view_checkS[OF refl], rule RunInTx_snd[where P = "\<lambda>s. roles_view s = roles_view d", OF refl])
    fix r x d1 assume "RegisterWithToken_body env token uid (fst r) (snd r) d = (Inr x, d1)"
    then have "d1 = snd (RegisterWithToken_body env token uid (fst r) (snd r) d)" by simp
    then show "roles_view d1 = roles_view d"
      by (auto simp: RegisterWithToken_body_def view_queries intro!: view_bindS)
  qed
qed (auto simp: CreateUser_def CreateRegistrationToken_def CreateRegistrationTokenWithInfo_def
      UserService_DeleteUser_def view_queries view_ops intro!: view_checkS view_bindS split: option.split)

lemma builtins_role_ops:
  assumes "rbac_inv d"
  shows "same_builtins d (snd (CreateRole ord fresh d c p))"
    "same_builtins d (snd (UpdateRole ord d c q))"
    "same_builtins d (snd (DeleteRole d c rid))"
    "same_builtins d (snd (DeleteGroup d c gid))"
proof -
  note chk = checkS_snd[where P = "same_builtins d"] and bnd = bindS_snd[where P = "same_builtins d"]
  have get: "\<not> role_builtin d rid" if "RoleRepository_Get d rid = Inr r" "\<not> Role_IsBuiltin r" for rid r
    using RoleRepository_Get_Inr(1)[OF that(1)] that(2) assms by (auto simp: role_builtin_iff rbac_inv_def)
  show "same_builtins d (snd (CreateRole ord fresh d c p))"
    unfolding CreateRole_def
  proof (rule chk, simp, rule bnd, goal_cases)
    case 1 show ?case by (simp add: RoleRepository_Create_def builtins_CreateRole)
  next
    case (2 x role)
    let ?d1 = "snd (RoleRepository_Create d (new_role_id fresh) (CreateRole_GroupID p) (CreateRole_Name p) (CreateRole_Scope p))"
    have q: "q_CreateRole d (new_role_id fresh) (CreateRole_GroupID p) (CreateRole_Name p) (CreateRole_Scope p) = (Inr role, ?d1)"
      using 2(2) unfolding RoleRepository_Create_def by (simp only: map_errS_Inr_iff map_errS_snd)
    note r = q_CreateRole_Inr[OF q]
    have "\<not> role_builtin ?d1 (Role_ID role)"
      using r(1,4,5) by (subst r(6)) (auto simp: role_builtin_def tbl_exists_iff role_of_def tbl_get_None_iff)
    moreover have s1: "same_builtins d ?d1" by (simp add: RoleRepository_Create_def builtins_CreateRole)
    ultimately have "same_builtins d (snd (RoleRepository_ReplacePermissions ord ?d1 (Role_ID role) (CreateRole_PermissionKeys p)))"
      using builtins_trans builtins_ReplacePermissions by blast
    with s1 show ?case by (auto intro!: bnd)
  qed
  show "same_builtins d (snd (UpdateRole ord d c q))"
    unfolding UpdateRole_def
  proof (rule chk, simp, rule bnd, goal_cases)
    case (1 role)
    note nb = get[OF UpdateRole_checks_Inr(1,2)[OF 1]]
    show ?case by (auto simp: RoleRepository_UpdateName_def builtins_UpdateRoleName nb split: option.split)
  next
    case (2 role u)
    note nb = get[OF UpdateRole_checks_Inr(1,2)[OF 2(1)]]
    let ?ren = "case UpdateRole_Name q of None \<Rightarrow> (Inr (), d)
            | Some name \<Rightarrow> if name \<noteq> Role_Name role
                then RoleRepository_UpdateName d (UpdateRole_ID q) name else (Inr (), d)"
    have s1: "same_builtins d (snd ?ren)"
      by (auto simp: RoleRepository_UpdateName_def builtins_UpdateRoleName nb split: option.split)
    have "role_builtin (snd ?ren) x = role_builtin d x" for x
      by (auto simp: RoleRepository_UpdateName_def q_UpdateRoleName_def writeQ_def role_builtin_def tbl_exists_update
          split: option.split)
    then have "same_builtins d (snd (RoleRepository_ReplacePermissions ord (snd ?ren) (UpdateRole_ID q) (UpdateRole_newKeys q)))"
      using nb by (auto intro: builtins_trans[OF s1] builtins_ReplacePermissions)
    with s1 show ?case by (auto intro!: bnd)
  qed
  show "same_builtins d (snd (DeleteRole d c rid))"
    unfolding DeleteRole_def by (rule chk) (auto intro!: chk builtins_DeleteRole dest: get simp: RoleRepository_Delete_def)
  show "same_builtins d (snd (DeleteGroup d c gid))"
    unfolding DeleteGroup_def by (rule chk) (auto intro!: chk builtins_DeleteGroup assms simp: GroupRepository_Delete_def)
qed

lemma view_faults: "roles_view (d\<lparr>db_fault := f\<rparr>) = roles_view d" "roles_view (d\<lparr>db_now := n\<rparr>) = roles_view d"
  by (simp_all add: roles_view_def)

lemma builtins_one_step: "rbac_step d d' \<Longrightarrow> rbac_inv d \<Longrightarrow> same_builtins d d'"
  by (cases rule: rbac_step.cases)
     (auto simp: builtins_role_ops view_ops view_user_ops view_faults intro: builtins_frame[OF builtins_refl])

interpretation builtins: step_invariant rbac_step "\<lambda>d. rbac_inv d \<and> same_builtins d0 d" for d0
  by unfold_locales (auto intro: rbac.step_inv builtins_trans builtins_one_step)

section \<open>Properties\<close>

text \<open>
  C1: every database reachable from the seeded one, by any sequence of operations by any callers, with
  any query failures on the way, is well formed: keys and foreign keys hold, each role holds only keys
  of its scope, each member's role fits the type of its group, invitations carry normal-scope roles,
  \<open>system\<close> is the only system group, and a personal group has at most one member.
\<close>

theorem reachable_well_formed:
  assumes "rbac_step\<^sup>*\<^sup>* seed_db d" shows "rbac_inv d"
  by (rule rbac.reach_inv[OF assms seed_db_inv])

text \<open>
  C6: the system group is never empty in any reachable database, so somebody can always administer the
  installation.
\<close>

theorem reachable_system_member:
  assumes "rbac_step\<^sup>*\<^sup>* seed_db d" shows "\<exists>m \<in> set (db_members d). Member_GroupID m = SystemGroupID"
proof -
  have "system_has_member seed_db" by code_simp
  then have "system_has_member d" using sysadmin.reach_inv[OF assms] seed_db_inv by blast
  then show ?thesis by (simp add: system_has_member_iff)
qed

text \<open>
  The builtin roles are the same in every reachable database: their rows and their keys are those
  of the migration, whatever anyone did.
\<close>

theorem reachable_builtin_roles:
  assumes "rbac_step\<^sup>*\<^sup>* seed_db d" "rid \<in> Role_ID ` set (db_roles seed_db)"
  shows "role_of d rid = role_of seed_db rid \<and> role_keys d rid = role_keys seed_db rid"
proof -
  have "same_builtins seed_db d" using builtins.reach_inv[OF assms(1), of seed_db] seed_db_inv by simp
  moreover have "list_all (\<lambda>r. role_builtin seed_db (Role_ID r)) (db_roles seed_db)" by code_simp
  then have "role_builtin seed_db rid" using assms(2) by (auto simp: list_all_iff)
  ultimately show ?thesis by (simp add: same_builtins_def)
qed

text \<open>
  C4: an invitation registers at most one user, in any history and under races. Once a registration with
  a token has committed, then after any further operations every registration transaction with that
  token fails and changes nothing, whatever it read from the token table before.
\<close>

theorem token_single_use:
  assumes "RegisterWithToken env d token uid pw = (Inr u, d1)" "rbac_inv d" "rbac_step\<^sup>*\<^sup>* d1 d2"
  shows "\<exists>e. RegisterWithToken_tx env token uid' r d2 = (Inl e, d2)"
proof -
  have "token_spent (Env_hashRegistrationToken env token) d1"
    using RegisterWithToken_result[OF assms(1,2)] by simp
  then have "token_spent (Env_hashRegistrationToken env token) d2" using spent.reach_inv[OF assms(3)] by blast
  then show ?thesis using token_spent_refuses by blast
qed

section \<open>Instances\<close>

text \<open>A two-step history from the seeded database.\<close>

definition first_group :: db where
  "first_group = snd (CreateGroup ''g1'' seed_db (Some SystemUserID) ''team one'' SystemUserID)"

lemma first_group_reachable: "rbac_step\<^sup>*\<^sup>* seed_db first_group"
  unfolding first_group_def by (rule r_into_rtranclp) (rule create_group)

theorem reachable_well_formed_witness: "group_of first_group ''g1'' \<noteq> None \<and> rbac_inv first_group"
proof -
  have "group_of first_group ''g1'' \<noteq> None" by code_simp
  then show ?thesis using reachable_well_formed[OF first_group_reachable] by blast
qed

theorem reachable_system_member_witness: "\<exists>m \<in> set (db_members first_group). Member_GroupID m = SystemGroupID"
  using reachable_system_member[OF first_group_reachable] .

theorem reachable_builtin_roles_witness: "role_of first_group SeedRoleID_Admin = role_of seed_db SeedRoleID_Admin
   \<and> role_keys first_group SeedRoleID_Admin = role_keys seed_db SeedRoleID_Admin"
proof (rule reachable_builtin_roles[OF first_group_reachable])
  show "SeedRoleID_Admin \<in> Role_ID ` set (db_roles seed_db)" by code_simp
qed

theorem token_single_use_witness:
  "\<exists>e. RegisterWithToken_tx toy_env ''tok'' ''erin''
         (\<lparr>Token_Token = replicate 64 (CHR ''a''), Token_ResoniteID = ''U-x'', Token_ExpiresAt = 86400,
           Token_UsedAt = None, Token_PersonalRoleID = None\<rparr>, ''h:pw'') (snd dave_registers)
       = (Inl e, snd dave_registers)"
proof -
  obtain u where "dave_registers = (Inr u, snd dave_registers)" using is_ok_pair[OF dave_registers_ok] by blast
  from token_single_use[OF this[unfolded dave_registers_def] invited_db_inv, of "snd dave_registers"]
  show ?thesis by (simp add: dave_registers_def)
qed

end
