(* ===== verification/WorkQueue.thy ===== *)
theory WorkQueue
  imports Entities
begin

text \<open>
  What the two executors of the controller (\<open>worker/async_job_executor.go\<close> and
  \<open>worker/scheduled_operation_executor.go\<close>) rely on. Both keep their work as rows of a table, claim
  pending rows for an instance, settle each claimed row when its action is done, and put rows whose
  claim has become stale back into the queue. The contract of such a table is a locale; the executors'
  repositories interpret it. Both also run a claimed batch through a semaphore, whose timing is
  analysed here once. Times are in microseconds, the resolution of a PostgreSQL timestamp.
\<close>

abbreviation Second :: time where "Second \<equiv> 1000000"
abbreviation Minute :: time where "Minute \<equiv> 60000000"

lemma tbl_get_update_key:
  "(\<And>r. key (f r) = key r) \<Longrightarrow>
     tbl_get (\<lambda>r. key r = k) (tbl_update p f rs) = map_option (\<lambda>r. if p r then f r else r) (tbl_get (\<lambda>r. key r = k) rs)"
  by (induction rs) auto

lemma distinct_map_remove1: "distinct (map h xs) \<Longrightarrow> distinct (map h (remove1 x xs))"
  by (induction xs) (auto dest: set_remove1_subset[THEN subsetD])

lemma map_remove1_distinct:
  "distinct (map (fst \<circ> h) xs) \<Longrightarrow> x \<in> set xs \<Longrightarrow> map h (remove1 x xs) = remove1 (h x) (map h xs)"
  by (induction xs) (auto, metis image_eqI)

section \<open>Tables of work\<close>

text \<open>
  A flight is an item that an instance has claimed and not yet settled, with the time of the claim.
  \<open>queued\<close> and \<open>held\<close> say that the row of an item waits or is claimed.
\<close>

locale work_table =
  fixes ok :: "'s \<Rightarrow> bool"
    and queued held :: "'s \<Rightarrow> string \<Rightarrow> bool"
    and held_since :: "'s \<Rightarrow> string \<Rightarrow> time option"
    and now :: "'s \<Rightarrow> time"
    and claim :: "'c \<Rightarrow> 's \<Rightarrow> string list \<times> 's"
    and settle :: "'m \<Rightarrow> string \<Rightarrow> 's \<Rightarrow> 's"
    and sweep :: "'k \<Rightarrow> 's \<Rightarrow> 's"
    and age :: "'k \<Rightarrow> time"
  assumes queued_not_held: "ok s \<Longrightarrow> queued s i \<Longrightarrow> \<not> held s i"
    and claim_queued: "ok s \<Longrightarrow> claim w s = (is, t) \<Longrightarrow> distinct is \<and> (\<forall>i \<in> set is. queued s i)"
    and claim_held: "ok s \<Longrightarrow> claim w s = (is, t) \<Longrightarrow> i \<in> set is \<Longrightarrow> held t i \<and> held_since t i = Some (now s)"
    and claim_others: "ok s \<Longrightarrow> claim w s = (is, t) \<Longrightarrow> i \<notin> set is \<Longrightarrow> held t i = held s i \<and> held_since t i = held_since s i"
    and settle_others: "ok s \<Longrightarrow> i \<noteq> j \<Longrightarrow> held (settle m j s) i = held s i \<and> held_since (settle m j s) i = held_since s i"
    and sweep_fresh: "ok s \<Longrightarrow> held s i \<Longrightarrow> held_since s i = Some u \<Longrightarrow> now s - age st \<le> u \<Longrightarrow>
       held (sweep st s) i \<and> held_since (sweep st s) i = Some u"
begin

text \<open>Every flight holds its row, by its own claim, and no two flights are of the same item.\<close>

definition exclusive :: "'s \<Rightarrow> (string \<times> time) list \<Rightarrow> bool" where
  "exclusive s fs \<longleftrightarrow> distinct (map fst fs) \<and> (\<forall>(i, t) \<in> set fs. held s i \<and> held_since s i = Some t)"

lemma exclusive_Nil [simp]: "exclusive s []"
  by (simp add: exclusive_def)

lemma exclusive_mono:
  "exclusive s fs \<Longrightarrow> distinct (map fst gs) \<Longrightarrow> set gs \<subseteq> set fs \<Longrightarrow>
     (\<And>i t. (i, t) \<in> set gs \<Longrightarrow> held s i \<Longrightarrow> held_since s i = Some t \<Longrightarrow> held s' i \<and> held_since s' i = Some t) \<Longrightarrow>
     exclusive s' gs"
  unfolding exclusive_def by blast

lemma exclusive_remove1: "exclusive s fs \<Longrightarrow> exclusive s (remove1 f fs)"
  by (rule exclusive_mono) (auto simp: exclusive_def distinct_map_remove1 dest: set_remove1_subset[THEN subsetD])

lemma exclusive_claim:
  assumes ok: "ok s" and ex: "exclusive s fs" and cl: "claim w s = (is, t)"
  shows "exclusive t (fs @ map (\<lambda>i. (i, now s)) is)"
proof -
  note q = claim_queued[OF ok cl]
  have disj: "i \<notin> set is" if "(i, u) \<in> set fs" for i u
    using ex that q queued_not_held[OF ok] unfolding exclusive_def by blast
  have "held t i \<and> held_since t i = Some u" if "(i, u) \<in> set fs" for i u
    using ex that claim_others[OF ok cl disj[OF that]] unfolding exclusive_def by auto
  moreover have "set (map fst fs) \<inter> set is = {}" using disj by auto
  ultimately show ?thesis
    using ex q claim_held[OF ok cl] unfolding exclusive_def by (auto simp: comp_def)
qed

lemma exclusive_settle:
  assumes ok: "ok s" and ex: "exclusive s fs" and f: "f \<in> set fs"
  shows "exclusive (settle m (fst f) s) (remove1 f fs)"
proof (rule exclusive_mono[OF ex])
  have d: "distinct (map fst fs)" using ex by (simp add: exclusive_def)
  then have r: "distinct (map fst (remove1 f fs)) \<and> fst f \<notin> fst ` set (remove1 f fs)"
    using f by (induction fs) (auto simp: image_iff)
  then show "distinct (map fst (remove1 f fs))" ..
  show "held (settle m (fst f) s) i \<and> held_since (settle m (fst f) s) i = Some t"
    if "(i, t) \<in> set (remove1 f fs)" "held s i" "held_since s i = Some t" for i t
  proof -
    have "i \<noteq> fst f" using r that(1) by (metis fst_conv imageI)
    then show ?thesis using that settle_others[OF ok] by simp
  qed
qed (rule set_remove1_subset)

lemma exclusive_sweep:
  assumes "ok s" "exclusive s fs" "\<forall>(i, t) \<in> set fs. now s - age st \<le> t"
  shows "exclusive (sweep st s) fs"
  using assms sweep_fresh[OF assms(1)] unfolding exclusive_def by fastforce

end

text \<open>A table in which a finished item stays finished, whatever the executors do.\<close>

locale work_queue = work_table +
  fixes finished :: "'a \<Rightarrow> 'r \<Rightarrow> bool"
  assumes claim_finished: "ok s \<Longrightarrow> claim w s = (is, t) \<Longrightarrow> finished s r \<Longrightarrow> finished t r"
    and settle_finished: "ok s \<Longrightarrow> finished s r \<Longrightarrow> finished (settle m j s) r"
    and sweep_finished: "ok s \<Longrightarrow> finished s r \<Longrightarrow> finished (sweep st s) r"
    and claim_ok: "ok s \<Longrightarrow> claim w s = (is, t) \<Longrightarrow> ok t"
    and settle_ok: "ok s \<Longrightarrow> ok (settle m j s)"
    and sweep_ok: "ok s \<Longrightarrow> ok (sweep st s)"
begin

text \<open>The steps of the executors on the table alone.\<close>

inductive work :: "'a \<Rightarrow> 'a \<Rightarrow> bool" where
  claimed: "claim w s = (is, t) \<Longrightarrow> work s t"
| settled: "work s (settle m j s)"
| swept: "work s (sweep st s)"

lemma work_ok_finished: "work s t \<Longrightarrow> ok s \<Longrightarrow> ok t \<and> (finished s r \<longrightarrow> finished t r)"
  by (induction rule: work.induct)
     (auto intro: claim_ok settle_ok sweep_ok claim_finished settle_finished sweep_finished)

lemma work_star_finished: "work\<^sup>*\<^sup>* s t \<Longrightarrow> ok s \<Longrightarrow> finished s r \<Longrightarrow> ok t \<and> finished t r"
  by (induction rule: rtranclp_induct) (auto dest: work_ok_finished)

end

section \<open>A batch behind a semaphore\<close>

text \<open>
  \<open>dispatchOnce\<close> starts the claimed items in order, each as soon as one of the slots of the semaphore
  is free. Given the time each item takes, \<open>finish_times\<close> computes when each is done, with \<open>slots\<close> the
  times at which the slots become free.
\<close>

fun min_slot :: "time list \<Rightarrow> nat" where
  "min_slot [] = 0"
| "min_slot [x] = 0"
| "min_slot (x # xs) = (if x \<le> xs ! min_slot xs then 0 else Suc (min_slot xs))"

fun finish_times :: "time list \<Rightarrow> time list \<Rightarrow> time list" where
  "finish_times slots [] = []"
| "finish_times slots (d # ds) =
     (let i = min_slot slots; t = slots ! i + d in t # finish_times (slots[i := t]) ds)"

definition batch_finish :: "nat \<Rightarrow> time list \<Rightarrow> time list" where
  "batch_finish concurrency ds = finish_times (replicate concurrency 0) ds"

lemma min_slot_least: "xs \<noteq> [] \<Longrightarrow> min_slot xs < length xs \<and> (\<forall>x \<in> set xs. xs ! min_slot xs \<le> x)"
  by (induction xs rule: min_slot.induct) auto

text \<open>
  The number of slots that are busy beyond \<open>j\<close> times the longest item is bounded by the number of
  items started beyond \<open>j\<close> full rounds.
\<close>

definition rounds_inv :: "time \<Rightarrow> nat \<Rightarrow> time list \<Rightarrow> bool" where
  "rounds_inv T m slots \<longleftrightarrow> (\<forall>j. length (filter (\<lambda>f. int j * T < f) slots) \<le> m - j * length slots)"

lemma filter_all_iff_length: "length (filter P xs) = length xs \<longleftrightarrow> (\<forall>x \<in> set xs. P x)"
  by (metis filter_id_conv length_filter_less less_irrefl filter_True)

lemma min_slot_bound:
  assumes "rounds_inv T m slots" "slots \<noteq> []" "0 \<le> T"
  shows "slots ! min_slot slots \<le> int (m div length slots) * T"
proof (rule ccontr)
  let ?k = "length slots" and ?j = "m div length slots"
  assume "\<not> ?thesis"
  then have "\<forall>x \<in> set slots. int ?j * T < x" using min_slot_least[OF assms(2)] by fastforce
  then have "?k \<le> m - ?j * ?k"
    using assms(1) filter_all_iff_length[of "\<lambda>f. int ?j * T < f" slots] unfolding rounds_inv_def by metis
  moreover have "m - ?j * ?k < ?k" using assms(2) by (simp add: minus_div_mult_eq_mod)
  ultimately show False by simp
qed

lemma length_filter_update:
  assumes "i < length xs"
  shows "length (filter P (xs[i := y])) \<le> length (filter P xs) + (if P y \<and> \<not> P (xs ! i) then 1 else 0)"
proof -
  have split: "xs = take i xs @ xs ! i # drop (Suc i) xs" using assms by (rule id_take_nth_drop)
  have upd: "xs[i := y] = take i xs @ y # drop (Suc i) xs" using assms by (rule upd_conv_take_nth_drop)
  have "length (filter P xs) = length (filter P (take i xs)) + (if P (xs ! i) then 1 else 0) + length (filter P (drop (Suc i) xs))"
    by (subst split) simp
  then show ?thesis by (simp add: upd)
qed

lemma rounds_inv_step:
  assumes inv: "rounds_inv T m slots" and ne: "slots \<noteq> []" and T: "0 \<le> T" and d: "d \<le> T"
  shows "rounds_inv T (Suc m) (slots[min_slot slots := slots ! min_slot slots + d])"
  unfolding rounds_inv_def
proof
  fix j
  let ?k = "length slots" and ?i = "min_slot slots" and ?P = "\<lambda>f. int j * T < f"
  let ?y = "slots ! ?i + d"
  have i: "?i < ?k" and least: "\<forall>x \<in> set slots. slots ! ?i \<le> x" using min_slot_least[OF ne] by auto
  have old: "length (filter ?P slots) \<le> m - j * ?k" using inv by (simp add: rounds_inv_def)
  have "length (filter ?P (slots[?i := ?y])) \<le> Suc m - j * ?k"
  proof (cases "?P ?y \<and> \<not> ?P (slots ! ?i)")
    case False
    then show ?thesis using length_filter_update[OF i, of ?P ?y] old by (simp split: if_splits)
  next
    case True
    have "j * ?k \<le> m"
    proof (cases j)
      case (Suc n)
      then have "int n * T < slots ! ?i" using True d by (simp add: algebra_simps)
      then have "\<forall>x \<in> set slots. int n * T < x" using least by fastforce
      then have "?k \<le> m - n * ?k"
        using inv filter_all_iff_length[of "\<lambda>f. int n * T < f" slots] unfolding rounds_inv_def by metis
      moreover have "0 < ?k" using ne by simp
      ultimately show ?thesis unfolding Suc mult_Suc by linarith
    qed simp
    then show ?thesis using length_filter_update[OF i, of ?P ?y] old by (simp split: if_splits)
  qed
  then show "length (filter ?P (slots[?i := ?y])) \<le> Suc m - j * length (slots[?i := ?y])" by simp
qed

lemma finish_times_bound:
  assumes "rounds_inv T m slots" "slots \<noteq> []" "0 \<le> T" "\<forall>d \<in> set ds. d \<le> T" "n < length ds"
  shows "finish_times slots ds ! n \<le> (int ((m + n) div length slots) + 1) * T"
  using assms
proof (induction ds arbitrary: m n slots)
  case (Cons d ds)
  let ?i = "min_slot slots"
  show ?case
  proof (cases n)
    case 0
    then show ?thesis using min_slot_bound[OF Cons.prems(1-3)] Cons.prems(4)
      by (simp add: Let_def algebra_simps)
  next
    case (Suc l)
    have inv: "rounds_inv T (Suc m) (slots[?i := slots ! ?i + d])"
      using rounds_inv_step[OF Cons.prems(1-3)] Cons.prems(4) by simp
    have "finish_times (slots[?i := slots ! ?i + d]) ds ! l
        \<le> (int ((Suc m + l) div length (slots[?i := slots ! ?i + d])) + 1) * T"
      by (rule Cons.IH[OF inv]) (use Cons.prems Suc in auto)
    then show ?thesis using Suc by (simp add: Let_def)
  qed
qed simp

text \<open>Item \<open>n\<close> of a batch is done after at most \<open>n div concurrency + 1\<close> times the longest item.\<close>

lemma batch_finish_bound:
  assumes "0 < concurrency" "0 \<le> T" "\<forall>d \<in> set ds. d \<le> T" "n < length ds"
  shows "batch_finish concurrency ds ! n \<le> (int (n div concurrency) + 1) * T"
proof -
  have "\<not> int j * T < 0" for j using assms(2) by (simp add: not_less)
  then have "rounds_inv T 0 (replicate concurrency 0)" by (simp add: rounds_inv_def filter_replicate)
  then show ?thesis
    unfolding batch_finish_def using finish_times_bound[of T 0 "replicate concurrency 0" ds n] assms by simp
qed

end
