(* ===== verification/SessionStore.thy ===== *)
theory SessionStore
  imports RbacInv
begin

text \<open>
  The queries on \<open>sessions\<close> (\<open>db/sessions.sql.go\<close>) and the session repository
  (\<open>adapter/session_repository.go\<close>). The column \<open>startup_parameters\<close> holds a protojson document; the
  model keeps the message itself, so marshalling is the identity and the JSONB merges of the queries
  are updates of its fields. A NULL memo and an empty memo are the same entity value.
\<close>

section \<open>Queries\<close>

abbreviation session_row :: "string \<Rightarrow> Session \<Rightarrow> bool" where
  "session_row sid \<equiv> \<lambda>s. Session_ID s = sid"

definition session_of :: "db \<Rightarrow> string \<Rightarrow> Session option" where
  "session_of d sid = tbl_get (session_row sid) (db_sessions d)"

definition fk_user_ok :: "db \<Rightarrow> string option \<Rightarrow> bool" where
  "fk_user_ok d u = (case u of None \<Rightarrow> True | Some uid \<Rightarrow> tbl_exists (\<lambda>x. User_ID x = uid) (db_users d))"

definition q_UpsertSession :: "db \<Rightarrow> Session \<Rightarrow> Session res \<times> db" where
  "q_UpsertSession d s = writeQ d ''UpsertSession'' [Session_ID s]
     (if Session_StartupParameters s = None then (Inl ErrDB, d)
      else case tbl_get (session_row (Session_ID s)) (db_sessions d) of
        None \<Rightarrow>
          if \<not> tbl_exists (\<lambda>g. Group_ID g = Session_GroupID s) (db_groups d) \<or> \<not> fk_user_ok d (Session_CreatedBy s)
          then (Inl ErrDB, d)
          else let row = s\<lparr>Session_CurrentState := None\<rparr>
               in (Inr row, d\<lparr>db_sessions := db_sessions d @ [row]\<rparr>)
      | Some old \<Rightarrow>
          let createdBy = (if Session_CreatedBy old \<noteq> None then Session_CreatedBy old else Session_CreatedBy s);
              row = s\<lparr>Session_CurrentState := None, Session_CreatedBy := createdBy, Session_GroupID := Session_GroupID old\<rparr>
          in if Session_CreatedBy old = None \<and> \<not> fk_user_ok d (Session_CreatedBy s) then (Inl ErrDB, d)
             else (Inr row, d\<lparr>db_sessions := tbl_update (session_row (Session_ID s)) (\<lambda>_. row) (db_sessions d)\<rparr>))"

definition q_UpdateSessionStatus :: "db \<Rightarrow> string \<Rightarrow> SessionStatus \<Rightarrow> unit res \<times> db" where
  "q_UpdateSessionStatus d sid status = writeQ d ''UpdateSessionStatus'' [sid]
     (Inr (), d\<lparr>db_sessions := tbl_update (session_row sid) (\<lambda>s. s\<lparr>Session_Status := status\<rparr>) (db_sessions d)\<rparr>)"

text \<open>The JSONB merge of \<open>SessionParametersChanged\<close>: eleven fields of the startup parameters.\<close>

definition merge_parameters :: "SessionSnapshot \<Rightarrow> WorldStartupParameters \<Rightarrow> WorldStartupParameters" where
  "merge_parameters snap p = p\<lparr>
     Wsp_Name := Some (Snap_Name snap), Wsp_Description := Some (Snap_Description snap),
     Wsp_MaxUsers := Some (Snap_MaxUsers snap), Wsp_AccessLevel := Snap_AccessLevel snap,
     Wsp_HideFromPublicListing := Snap_HideFromPublicListing snap,
     Wsp_AwayKickMinutes := Snap_AwayKickMinutes snap,
     Wsp_IdleRestartIntervalSeconds := Snap_IdleRestartIntervalSeconds snap,
     Wsp_SaveOnExit := Snap_SaveOnExit snap, Wsp_AutoSaveIntervalSeconds := Snap_AutoSaveIntervalSeconds snap,
     Wsp_AutoSleep := Snap_AutoSleep snap, Wsp_Tags := Snap_Tags snap\<rparr>"

definition q_ApplySessionParametersChanged :: "db \<Rightarrow> string \<Rightarrow> SessionSnapshot \<Rightarrow> unit res \<times> db" where
  "q_ApplySessionParametersChanged d sid snap = writeQ d ''ApplySessionParametersChanged'' [sid]
     (Inr (), d\<lparr>db_sessions := tbl_update (session_row sid)
        (\<lambda>s. s\<lparr>Session_Name := Snap_Name snap,
               Session_StartupParameters := map_option (merge_parameters snap) (Session_StartupParameters s)\<rparr>)
        (db_sessions d)\<rparr>)"

definition q_UpdateSessionAfterWorldSaved :: "db \<Rightarrow> string \<Rightarrow> string \<Rightarrow> unit res \<times> db" where
  "q_UpdateSessionAfterWorldSaved d sid url = writeQ d ''UpdateSessionAfterWorldSaved'' [sid]
     (Inr (), d\<lparr>db_sessions := tbl_update (session_row sid)
        (\<lambda>s. s\<lparr>Session_StartupParameters :=
                 map_option (\<lambda>p. p\<lparr>Wsp_LoadWorld := Some (LoadWorldUrl url)\<rparr>) (Session_StartupParameters s)\<rparr>)
        (db_sessions d)\<rparr>)"

definition q_DowngradeSessionToUnknownIfRunning :: "db \<Rightarrow> string \<Rightarrow> unit res \<times> db" where
  "q_DowngradeSessionToUnknownIfRunning d sid = writeQ d ''DowngradeSessionToUnknownIfRunning'' [sid]
     (Inr (), d\<lparr>db_sessions := tbl_update (\<lambda>s. Session_ID s = sid \<and> Session_Status s = SessionStatus_RUNNING)
        (\<lambda>s. s\<lparr>Session_Status := SessionStatus_UNKNOWN\<rparr>) (db_sessions d)\<rparr>)"

definition q_GetSession :: "db \<Rightarrow> string \<Rightarrow> Session res" where
  "q_GetSession d sid = readQ d ''GetSession'' [sid]
     (case tbl_get (session_row sid) (db_sessions d) of None \<Rightarrow> Inl ErrNoRows | Some s \<Rightarrow> Inr s)"

text \<open>\<open>ORDER BY started_at DESC\<close>, where PostgreSQL puts NULL first, and \<open>DESC NULLS LAST, id ASC\<close>.\<close>

definition started_desc :: "Session \<Rightarrow> bool \<times> int" where
  "started_desc s = (case Session_StartedAt s of None \<Rightarrow> (False, 0) | Some t \<Rightarrow> (True, - t))"

definition started_desc_nulls_last :: "Session \<Rightarrow> bool \<times> int \<times> string" where
  "started_desc_nulls_last s =
     (case Session_StartedAt s of None \<Rightarrow> (True, 0, Session_ID s) | Some t \<Rightarrow> (False, - t, Session_ID s))"

definition q_ListSessions :: "db \<Rightarrow> Session list res" where
  "q_ListSessions d = readQ d ''ListSessions'' [] (Inr (sort_key started_desc (db_sessions d)))"

definition q_ListSessionsByStatus :: "db \<Rightarrow> SessionStatus \<Rightarrow> Session list res" where
  "q_ListSessionsByStatus d status = readQ d ''ListSessionsByStatus'' []
     (Inr (sort_key started_desc (filter (\<lambda>s. Session_Status s = status) (db_sessions d))))"

definition q_ListSessionsByHostAndStatus :: "db \<Rightarrow> string \<Rightarrow> SessionStatus \<Rightarrow> Session list res" where
  "q_ListSessionsByHostAndStatus d hid status = readQ d ''ListSessionsByHostAndStatus'' [hid]
     (Inr (sort_key started_desc (filter (\<lambda>s. Session_HostID s = hid \<and> Session_Status s = status) (db_sessions d))))"

text \<open>\<open>LIMIT\<close> and \<open>OFFSET\<close> must not be negative; every row carries the count before paging.\<close>

definition q_ListSessionsPaged ::
  "db \<Rightarrow> SessionStatus option \<Rightarrow> string option \<Rightarrow> string list option \<Rightarrow> int32 \<Rightarrow> int32 \<Rightarrow> (Session \<times> nat) list res" where
  "q_ListSessionsPaged d status hid groups off lim = readQ d ''ListSessionsPaged'' []
     (if off < 0 \<or> lim < 0 then Inl ErrDB
      else let rows = sort_key started_desc_nulls_last
                 (filter (\<lambda>s. (case status of None \<Rightarrow> True | Some st \<Rightarrow> Session_Status s = st)
                            \<and> (case hid of None \<Rightarrow> True | Some h \<Rightarrow> Session_HostID s = h)
                            \<and> (case groups of None \<Rightarrow> True | Some gs \<Rightarrow> Session_GroupID s \<in> set gs)) (db_sessions d))
           in Inr (map (\<lambda>s. (s, length rows)) (take (nat lim) (drop (nat off) rows))))"

definition q_InsertSessionFromEvent ::
  "db \<Rightarrow> string \<Rightarrow> string \<Rightarrow> SessionStatus \<Rightarrow> time option \<Rightarrow> string \<Rightarrow> WorldStartupParameters \<Rightarrow> nat res \<times> db" where
  "q_InsertSessionFromEvent d sid name status startedAt hid params = writeQ d ''InsertSessionFromEvent'' [sid]
     (case tbl_get (\<lambda>h. Host_ID h = hid) (db_hosts d) of
        None \<Rightarrow> (Inr 0, d)
      | Some h \<Rightarrow>
          if tbl_exists (session_row sid) (db_sessions d) then (Inr 0, d)
          else (Inr 1, d\<lparr>db_sessions := db_sessions d @
                 [\<lparr>Session_ID = sid, Session_Name = name, Session_Status = status, Session_StartedAt = startedAt,
                   Session_CreatedBy = None, Session_EndedAt = None, Session_HostID = hid,
                   Session_StartupParameters = Some params, Session_AutoUpgrade = False, Session_Memo = [],
                   Session_CurrentState = None, Session_GroupID = Host_GroupID h\<rparr>]\<rparr>))"

definition started_hit :: "string \<Rightarrow> time \<Rightarrow> Session \<Rightarrow> bool" where
  "started_hit sid t s \<longleftrightarrow> Session_ID s = sid \<and> (case Session_StartedAt s of None \<Rightarrow> True | Some t0 \<Rightarrow> t0 < t)"

definition q_ApplySessionStarted :: "db \<Rightarrow> string \<Rightarrow> string \<Rightarrow> SessionStatus \<Rightarrow> time \<Rightarrow> string \<Rightarrow> nat res \<times> db" where
  "q_ApplySessionStarted d sid name status t hid = writeQ d ''ApplySessionStarted'' [sid]
     (Inr (length (filter (started_hit sid t) (db_sessions d))),
      d\<lparr>db_sessions := tbl_update (started_hit sid t)
          (\<lambda>s. s\<lparr>Session_Name := name, Session_Status := status, Session_StartedAt := Some t,
                 Session_EndedAt := None, Session_HostID := hid\<rparr>) (db_sessions d)\<rparr>)"

definition ended_hit :: "string \<Rightarrow> string \<Rightarrow> time \<Rightarrow> Session \<Rightarrow> bool" where
  "ended_hit sid hid t s \<longleftrightarrow> Session_ID s = sid \<and> Session_HostID s = hid
     \<and> (case Session_EndedAt s of None \<Rightarrow> True | Some t0 \<Rightarrow> t0 < t)"

definition q_ApplySessionEnded :: "db \<Rightarrow> string \<Rightarrow> SessionStatus \<Rightarrow> time \<Rightarrow> string \<Rightarrow> nat res \<times> db" where
  "q_ApplySessionEnded d sid status t hid = writeQ d ''ApplySessionEnded'' [sid]
     (Inr (length (filter (ended_hit sid hid t) (db_sessions d))),
      d\<lparr>db_sessions := tbl_update (ended_hit sid hid t)
          (\<lambda>s. s\<lparr>Session_Status := status, Session_EndedAt := Some t\<rparr>) (db_sessions d)\<rparr>)"

definition q_DeleteSession :: "db \<Rightarrow> string \<Rightarrow> unit res \<times> db" where
  "q_DeleteSession d sid = writeQ d ''DeleteSession'' [sid]
     (Inr (), d\<lparr>db_sessions := tbl_delete (session_row sid) (db_sessions d)\<rparr>)"

section \<open>Repository\<close>

definition SessionRepository_Upsert :: "db \<Rightarrow> Session \<Rightarrow> unit res \<times> db" where
  "SessionRepository_Upsert d s = bindS (q_UpsertSession d s) (\<lambda>_ d1. (Inr (), d1))"

definition SessionRepository_UpdateStatus :: "db \<Rightarrow> string \<Rightarrow> SessionStatus \<Rightarrow> unit res \<times> db" where
  "SessionRepository_UpdateStatus d sid status = q_UpdateSessionStatus d sid status"

definition SessionRepository_ApplySessionParametersChanged ::
  "db \<Rightarrow> string \<Rightarrow> SessionSnapshot option \<Rightarrow> unit res \<times> db" where
  "SessionRepository_ApplySessionParametersChanged d sid snapshot =
     (case snapshot of None \<Rightarrow> (Inr (), d) | Some snap \<Rightarrow> q_ApplySessionParametersChanged d sid snap)"

definition SessionRepository_UpdateAfterWorldSaved :: "db \<Rightarrow> string \<Rightarrow> string \<Rightarrow> unit res \<times> db" where
  "SessionRepository_UpdateAfterWorldSaved d sid url = q_UpdateSessionAfterWorldSaved d sid url"

definition SessionRepository_DowngradeToUnknownIfRunning :: "db \<Rightarrow> string \<Rightarrow> unit res \<times> db" where
  "SessionRepository_DowngradeToUnknownIfRunning d sid = q_DowngradeSessionToUnknownIfRunning d sid"

definition SessionRepository_Get :: "db \<Rightarrow> string \<Rightarrow> Session res" where
  "SessionRepository_Get d sid = map_err convertDBErr (q_GetSession d sid)"

definition SessionRepository_ListAll :: "db \<Rightarrow> Session list res" where
  "SessionRepository_ListAll d = map_err convertDBErr (q_ListSessions d)"

definition SessionRepository_ListByStatus :: "db \<Rightarrow> SessionStatus \<Rightarrow> Session list res" where
  "SessionRepository_ListByStatus d status = map_err convertDBErr (q_ListSessionsByStatus d status)"

definition SessionRepository_ListByHostAndStatus :: "db \<Rightarrow> string \<Rightarrow> SessionStatus \<Rightarrow> Session list res" where
  "SessionRepository_ListByHostAndStatus d hid status = map_err convertDBErr (q_ListSessionsByHostAndStatus d hid status)"

text \<open>An empty message: every field at its zero value.\<close>

definition empty_parameters :: WorldStartupParameters where
  "empty_parameters = \<lparr>Wsp_Name = None, Wsp_Description = None, Wsp_Tags = [], Wsp_MaxUsers = None,
     Wsp_AccessLevel = 0, Wsp_LoadWorld = None, Wsp_HideFromPublicListing = False, Wsp_AwayKickMinutes = 0,
     Wsp_IdleRestartIntervalSeconds = 0, Wsp_SaveOnExit = False, Wsp_AutoSaveIntervalSeconds = 0,
     Wsp_AutoSleep = False, Wsp_ForcePort = 0, Wsp_Other = []\<rparr>"

definition SessionRepository_InsertFromEvent :: "db \<Rightarrow> Session \<Rightarrow> unit res \<times> db" where
  "SessionRepository_InsertFromEvent d s =
     bindS (map_errS convertDBErr (q_InsertSessionFromEvent d (Session_ID s) (Session_Name s) (Session_Status s)
              (Session_StartedAt s) (Session_HostID s)
              (case Session_StartupParameters s of None \<Rightarrow> empty_parameters | Some p \<Rightarrow> p)))
       (\<lambda>_ d1. (Inr (), d1))"

definition SessionRepository_ApplySessionStarted :: "db \<Rightarrow> string \<Rightarrow> string \<Rightarrow> string \<Rightarrow> time \<Rightarrow> bool res \<times> db" where
  "SessionRepository_ApplySessionStarted d sid hid name t =
     bindS (map_errS convertDBErr (q_ApplySessionStarted d sid name SessionStatus_RUNNING t hid)) (\<lambda>rows d1.
     (Inr (0 < rows), d1))"

definition SessionRepository_ApplySessionEnded :: "db \<Rightarrow> string \<Rightarrow> string \<Rightarrow> time \<Rightarrow> bool res \<times> db" where
  "SessionRepository_ApplySessionEnded d sid hid t =
     bindS (map_errS convertDBErr (q_ApplySessionEnded d sid SessionStatus_ENDED t hid)) (\<lambda>rows d1.
     (Inr (0 < rows), d1))"

record SessionListPageOptions =
  Page_HostID :: "string option"
  Page_Status :: "SessionStatus option"
  Page_PageIndex :: int32
  Page_PageSize :: int32
  Page_GroupIDs :: "string list option"

record SessionListPageResult =
  PageResult_Sessions :: "Session list"
  PageResult_TotalCount :: int32

definition SessionRepository_ListPaged :: "db \<Rightarrow> SessionListPageOptions \<Rightarrow> SessionListPageResult res" where
  "SessionRepository_ListPaged d opts =
     bindR (map_err convertDBErr (q_ListSessionsPaged d (Page_Status opts) (Page_HostID opts) (Page_GroupIDs opts)
              (wrap32 (Page_PageIndex opts * Page_PageSize opts)) (Page_PageSize opts))) (\<lambda>rows.
     Inr \<lparr>PageResult_Sessions = map fst rows,
          PageResult_TotalCount = (case rows of [] \<Rightarrow> 0 | r # _ \<Rightarrow> wrap32 (int (snd r)))\<rparr>)"

definition SessionRepository_Delete :: "db \<Rightarrow> string \<Rightarrow> unit res \<times> db" where
  "SessionRepository_Delete d sid = q_DeleteSession d sid"

section \<open>Lemmas\<close>

lemma SessionRepository_Get_Inr:
  "SessionRepository_Get d sid = Inr s \<Longrightarrow> session_of d sid = Some s \<and> Session_ID s = sid"
  by (auto simp: SessionRepository_Get_def q_GetSession_def session_of_def ctrl_simps
      dest: tbl_get_SomeD split: option.splits)

lemma SessionRepository_Get_total:
  "no_faults d \<Longrightarrow> SessionRepository_Get d sid = (case session_of d sid of None \<Rightarrow> Inl ErrNotFound | Some s \<Rightarrow> Inr s)"
  by (simp add: SessionRepository_Get_def q_GetSession_def session_of_def split: option.split)

text \<open>A keyed update seen through the lookup.\<close>

lemma session_of_update:
  assumes "\<And>s. q s \<Longrightarrow> Session_ID (f s) = Session_ID s"
  shows "session_of (d\<lparr>db_sessions := tbl_update q f (db_sessions d)\<rparr>) sid
           = map_option (\<lambda>s. if q s then f s else s) (session_of d sid)"
proof -
  have "tbl_get (session_row sid) (tbl_update q f xs) = map_option (\<lambda>s. if q s then f s else s) (tbl_get (session_row sid) xs)" for xs
    using assms by (induction xs) auto
  then show ?thesis by (simp add: session_of_def)
qed

lemma session_ID_of: "session_of d sid = Some s \<Longrightarrow> Session_ID s = sid \<and> s \<in> set (db_sessions d)"
  by (auto simp: session_of_def dest: tbl_get_SomeD)

section \<open>Paging\<close>

text \<open>The listing that the pages cut up.\<close>

definition listing :: "db \<Rightarrow> SessionListPageOptions \<Rightarrow> Session list" where
  "listing d opts = sort_key started_desc_nulls_last
     (filter (\<lambda>s. (case Page_Status opts of None \<Rightarrow> True | Some st \<Rightarrow> Session_Status s = st)
        \<and> (case Page_HostID opts of None \<Rightarrow> True | Some h \<Rightarrow> Session_HostID s = h)
        \<and> (case Page_GroupIDs opts of None \<Rightarrow> True | Some gs \<Rightarrow> Session_GroupID s \<in> set gs)) (db_sessions d))"

lemma ListPaged_eq:
  assumes "no_faults d" "0 \<le> wrap32 (Page_PageIndex opts * Page_PageSize opts)" "0 \<le> Page_PageSize opts"
  shows "SessionRepository_ListPaged d opts =
     (let page = take (nat (Page_PageSize opts)) (drop (nat (wrap32 (Page_PageIndex opts * Page_PageSize opts))) (listing d opts))
      in Inr \<lparr>PageResult_Sessions = page,
              PageResult_TotalCount = (if page = [] then 0 else wrap32 (int (length (listing d opts))))\<rparr>)"
  using assms
  by (auto simp: SessionRepository_ListPaged_def q_ListSessionsPaged_def listing_def Let_def comp_def split: list.split)

lemma take_drop_pages: "concat (map (\<lambda>i. take n (drop (i * n) xs)) [0..<k]) = take (k * n) xs"
proof (induction k)
  case (Suc k)
  have "take (k * n + n) xs = take (k * n) xs @ take n (drop (k * n) xs)" by (rule take_add)
  then show ?case using Suc by (simp add: add.commute)
qed simp

text \<open>
  The pages of a session listing are its consecutive pieces. With a page size \<open>n > 0\<close> and while
  the offsets stay in the 32-bit range, page \<open>i\<close> holds the sessions from position \<open>i * n\<close> on, the
  first \<open>k\<close> pages together are the first \<open>k * n\<close> sessions in order, each listed session matches the
  group filter, and a non-empty page reports the full count.
\<close>

theorem ListPaged_pages:
  assumes "no_faults d" "0 < n" "k * n < 2 ^ 31" "length (listing d opts) < 2 ^ 31"
  defines "page \<equiv> (\<lambda>i. SessionRepository_ListPaged d (opts\<lparr>Page_PageIndex := int i, Page_PageSize := int n\<rparr>))"
  shows "\<exists>r. (\<forall>i < k. page i = Inr (r i) \<and> (PageResult_Sessions (r i) \<noteq> [] \<longrightarrow>
                 PageResult_TotalCount (r i) = int (length (listing d opts))))
      \<and> concat (map (\<lambda>i. PageResult_Sessions (r i)) [0..<k]) = take (k * n) (listing d opts)
      \<and> (\<forall>i < k. \<forall>s \<in> set (PageResult_Sessions (r i)).
            \<forall>gs. Page_GroupIDs opts = Some gs \<longrightarrow> Session_GroupID s \<in> set gs)"
proof -
  let ?xs = "listing d opts"
  define r where "r i = \<lparr>PageResult_Sessions = take n (drop (i * n) ?xs),
      PageResult_TotalCount = (if take n (drop (i * n) ?xs) = [] then 0 else wrap32 (int (length ?xs)))\<rparr>" for i
  have off: "wrap32 (int i * int n) = int (i * n)" if "i < k" for i
  proof -
    have "i * n < 2 ^ 31" using assms(3) that by (meson le_less_trans less_imp_le mult_le_mono1)
    then show ?thesis by (simp add: in32_def flip: of_nat_mult)
  qed
  have lst: "listing d (opts\<lparr>Page_PageIndex := a, Page_PageSize := b\<rparr>) = ?xs" for a b by (simp add: listing_def)
  have "page i = Inr (r i)" if "i < k" for i
    using ListPaged_eq[of d "opts\<lparr>Page_PageIndex := int i, Page_PageSize := int n\<rparr>"] assms(1) off[OF that]
    by (simp add: page_def r_def lst Let_def nat_mult_distrib cong: if_cong)
  moreover have "wrap32 (int (length ?xs)) = int (length ?xs)" using assms(4) by (simp add: in32_def)
  moreover have "concat (map (\<lambda>i. PageResult_Sessions (r i)) [0..<k]) = take (k * n) ?xs"
    by (simp add: r_def take_drop_pages)
  moreover have "Session_GroupID s \<in> set gs" if "s \<in> set (PageResult_Sessions (r i))" "Page_GroupIDs opts = Some gs" for s i gs
    using that by (auto simp: r_def listing_def dest!: in_set_takeD in_set_dropD)
  ultimately show ?thesis by (intro exI[of _ r]) (auto simp: r_def)
qed

text \<open>
  The page offset is computed in 32 bits and wraps around. For a page size of 4, page index
  1073741824 lists the first page again.
\<close>

theorem ListPaged_offset_wraps:
  "SessionRepository_ListPaged d (opts\<lparr>Page_PageIndex := 1073741824, Page_PageSize := 4\<rparr>)
     = SessionRepository_ListPaged d (opts\<lparr>Page_PageIndex := 0, Page_PageSize := 4\<rparr>)"
  by (simp add: SessionRepository_ListPaged_def wrap32_def)

section \<open>Instances\<close>

definition plain_session :: "string \<Rightarrow> string \<Rightarrow> SessionStatus \<Rightarrow> time \<Rightarrow> Session" where
  "plain_session sid hid st t = \<lparr>Session_ID = sid, Session_Name = sid, Session_Status = st, Session_StartedAt = Some t,
     Session_CreatedBy = None, Session_EndedAt = None, Session_HostID = hid,
     Session_StartupParameters = Some empty_parameters, Session_AutoUpgrade = False, Session_Memo = [],
     Session_CurrentState = None, Session_GroupID = ''team''\<rparr>"

definition empty_config :: StartupConfig where
  "empty_config = \<lparr>Sc_UniverseId = None, Sc_TickRate = None, Sc_MaxConcurrentAssetTransfers = None,
     Sc_UsernameOverride = None, Sc_StartWorlds = [], Sc_AllowedUrlHosts = [], Sc_AutoSpawnItems = []\<rparr>"

definition plain_host :: "string \<Rightarrow> Host" where
  "plain_host hid = \<lparr>Host_ID = hid, Host_Name = hid, Host_Status = HeadlessHostStatus_RUNNING, Host_AccountID = ''U-acc'',
     Host_CreatedBy = None, Host_LastStartupConfig = empty_config, Host_ConnectorType = ''docker'', Host_ConnectString = hid,
     Host_StartedAt = Some 1, Host_Memo = None, Host_AutoUpdatePolicy = HostAutoUpdatePolicy_NEVER,
     Host_InstanceCount = 1, Host_GroupID = ''team''\<rparr>"

definition session_db :: db where
  "session_db = sample_db\<lparr>db_hosts := [plain_host ''h1'', plain_host ''h2''],
     db_sessions := [plain_session ''s1'' ''h1'' SessionStatus_RUNNING 10,
                     plain_session ''s2'' ''h1'' SessionStatus_ENDED 20,
                     plain_session ''s3'' ''h2'' SessionStatus_RUNNING 30]\<rparr>"

definition all_sessions :: SessionListPageOptions where
  "all_sessions = \<lparr>Page_HostID = None, Page_Status = None, Page_PageIndex = 0, Page_PageSize = 2, Page_GroupIDs = Some [''team'']\<rparr>"

lemma no_faults_session_db [simp]: "no_faults session_db"
  by (simp add: no_faults_def session_db_def sample_db_def seed_db_def)

theorem ListPaged_pages_witness:
  "length (listing session_db all_sessions) = 3 \<and>
   (\<exists>r0 r1. SessionRepository_ListPaged session_db (all_sessions\<lparr>Page_PageIndex := int 0, Page_PageSize := int 2\<rparr>) = Inr r0
      \<and> SessionRepository_ListPaged session_db (all_sessions\<lparr>Page_PageIndex := int 1, Page_PageSize := int 2\<rparr>) = Inr r1
      \<and> PageResult_Sessions r0 @ PageResult_Sessions r1 = take (2 * 2) (listing session_db all_sessions))"
proof -
  have len: "length (listing session_db all_sessions) = 3" by code_simp
  have "0 < (2::nat)" "2 * 2 < (2 ^ 31 :: nat)" "length (listing session_db all_sessions) < 2 ^ 31" by (simp_all add: len)
  from ListPaged_pages[OF no_faults_session_db this] obtain r where
    r: "\<And>i. i < 2 \<Longrightarrow> SessionRepository_ListPaged session_db (all_sessions\<lparr>Page_PageIndex := int i, Page_PageSize := int 2\<rparr>) = Inr (r i)"
    and c: "concat (map (\<lambda>i. PageResult_Sessions (r i)) [0..<2]) = take (2 * 2) (listing session_db all_sessions)" by blast
  have "[0..<2] = [0, 1::nat]" by (simp add: upt_rec)
  then have "PageResult_Sessions (r 0) @ PageResult_Sessions (r 1) = take (2 * 2) (listing session_db all_sessions)"
    using c by simp
  moreover have "SessionRepository_ListPaged session_db (all_sessions\<lparr>Page_PageIndex := int 0, Page_PageSize := int 2\<rparr>) = Inr (r 0)"
    "SessionRepository_ListPaged session_db (all_sessions\<lparr>Page_PageIndex := int 1, Page_PageSize := int 2\<rparr>) = Inr (r 1)"
    by (rule r; simp)+
  ultimately show ?thesis using len by blast
qed

end
