(* ===== verification/SessionCache.thy ===== *)
theory SessionCache
  imports Entities
begin

text \<open>
  The in-memory store of live session snapshots (\<open>adapter/sessionstate/cache.go\<close>). Its contract
  (\<open>port.SessionStateCache\<close>) is the locale \<open>session_state_cache\<close>: a map from session ids to an owner
  host and a snapshot; \<open>MemoryCache\<close> with its two maps implements it.
\<close>

section \<open>MemoryCache\<close>

record cache_entry =
  entry_hostID :: string
  entry_snapshot :: SessionSnapshot

record MemoryCache =
  mc_sessions :: "string \<Rightarrow> cache_entry option"
  mc_hostSessions :: "string \<Rightarrow> string set option"

definition NewMemoryCache :: MemoryCache where
  "NewMemoryCache = \<lparr>mc_sessions = (\<lambda>_. None), mc_hostSessions = (\<lambda>_. None)\<rparr>"

definition Cache_Get :: "MemoryCache \<Rightarrow> string \<Rightarrow> SessionSnapshot option" where
  "Cache_Get c sessionID = (case mc_sessions c sessionID of None \<Rightarrow> None | Some e \<Rightarrow> Some (entry_snapshot e))"

definition removeFromHostIndex :: "MemoryCache \<Rightarrow> string \<Rightarrow> string \<Rightarrow> MemoryCache" where
  "removeFromHostIndex c hostID sessionID =
     (case mc_hostSessions c hostID of
        None \<Rightarrow> c
      | Some ids \<Rightarrow>
          let ids' = ids - {sessionID} in
          c\<lparr>mc_hostSessions := (mc_hostSessions c)(hostID := if ids' = {} then None else Some ids')\<rparr>)"

text \<open>\<open>Set\<close> ignores a nil snapshot.\<close>

definition Cache_Set :: "MemoryCache \<Rightarrow> string \<Rightarrow> string \<Rightarrow> SessionSnapshot option \<Rightarrow> MemoryCache" where
  "Cache_Set c hostID sessionID snapshot =
     (case snapshot of
        None \<Rightarrow> c
      | Some snap \<Rightarrow>
          let c1 = (case mc_sessions c sessionID of
                      None \<Rightarrow> c
                    | Some prev \<Rightarrow> if entry_hostID prev \<noteq> hostID
                                   then removeFromHostIndex c (entry_hostID prev) sessionID else c);
              c2 = c1\<lparr>mc_sessions := (mc_sessions c1)(sessionID := Some \<lparr>entry_hostID = hostID, entry_snapshot = snap\<rparr>)\<rparr>;
              ids = (case mc_hostSessions c2 hostID of None \<Rightarrow> {} | Some ids \<Rightarrow> ids)
          in c2\<lparr>mc_hostSessions := (mc_hostSessions c2)(hostID := Some (insert sessionID ids))\<rparr>)"

definition Cache_Delete :: "MemoryCache \<Rightarrow> string \<Rightarrow> MemoryCache" where
  "Cache_Delete c sessionID =
     (case mc_sessions c sessionID of
        None \<Rightarrow> c
      | Some e \<Rightarrow> removeFromHostIndex (c\<lparr>mc_sessions := (mc_sessions c)(sessionID := None)\<rparr>) (entry_hostID e) sessionID)"

definition PruneHost :: "MemoryCache \<Rightarrow> string \<Rightarrow> string set \<Rightarrow> MemoryCache" where
  "PruneHost c hostID live =
     (case mc_hostSessions c hostID of
        None \<Rightarrow> c
      | Some ids \<Rightarrow>
          let kept = ids \<inter> live in
          c\<lparr>mc_sessions := (\<lambda>s. if s \<in> ids \<and> s \<notin> live then None else mc_sessions c s),
            mc_hostSessions := (mc_hostSessions c)(hostID := if kept = {} then None else Some kept)\<rparr>)"

section \<open>The contract\<close>

locale session_state_cache =
  fixes get :: "'c \<Rightarrow> string \<Rightarrow> SessionSnapshot option"
    and set_snap :: "'c \<Rightarrow> string \<Rightarrow> string \<Rightarrow> SessionSnapshot option \<Rightarrow> 'c"
    and del :: "'c \<Rightarrow> string \<Rightarrow> 'c"
    and prune :: "'c \<Rightarrow> string \<Rightarrow> string set \<Rightarrow> 'c"
    and inv :: "'c \<Rightarrow> bool"
    and content :: "'c \<Rightarrow> string \<Rightarrow> (string \<times> SessionSnapshot) option"
  assumes get_content: "get c s = map_option snd (content c s)"
    and inv_set: "inv c \<Longrightarrow> inv (set_snap c h s x)"
    and inv_del: "inv c \<Longrightarrow> inv (del c s)"
    and inv_prune: "inv c \<Longrightarrow> inv (prune c h live)"
    and content_set: "inv c \<Longrightarrow> content (set_snap c h s x) =
           (case x of None \<Rightarrow> content c | Some snap \<Rightarrow> (content c)(s := Some (h, snap)))"
    and content_del: "inv c \<Longrightarrow> content (del c s) = (content c)(s := None)"
    and content_prune: "inv c \<Longrightarrow> content (prune c h live) s =
           (case content c s of None \<Rightarrow> None
            | Some (h', snap) \<Rightarrow> if h' = h \<and> s \<notin> live then None else Some (h', snap))"
begin

text \<open>A client that re-reads a host: set every reported session, then prune.\<close>

lemma inv_set_all: "inv c \<Longrightarrow> inv (fold (\<lambda>(s, x) c. set_snap c h s (Some x)) xs c)"
  by (induction xs arbitrary: c) (auto intro: inv_set)

lemma content_set_all:
  "inv c \<Longrightarrow> content (fold (\<lambda>(s, x) c. set_snap c h s (Some x)) xs c) s =
     (case map_of (rev xs) s of None \<Rightarrow> content c s | Some x \<Rightarrow> Some (h, x))"
proof (induction xs arbitrary: c)
  case (Cons p xs)
  obtain s' x where p: "p = (s', x)" by (cases p)
  show ?case
    using Cons.IH[OF inv_set[OF Cons.prems, of h s' "Some x"]] Cons.prems
    by (simp add: p content_set map_add_def split: option.split)
qed simp

lemma resync_content:
  assumes "inv c"
  shows "content (prune (fold (\<lambda>(s, x) c. set_snap c h s (Some x)) xs c) h (fst ` set xs)) s =
     (case map_of (rev xs) s of
        Some x \<Rightarrow> Some (h, x)
      | None \<Rightarrow> (case content c s of None \<Rightarrow> None | Some (h', x) \<Rightarrow> if h' = h then None else Some (h', x)))"
proof -
  have "s \<in> fst ` set xs" if "map_of (rev xs) s = Some x" for x
    using map_of_SomeD[OF that] by force
  moreover have "s \<notin> fst ` set xs" if "map_of (rev xs) s = None"
    using that by (simp add: map_of_eq_None_iff)
  ultimately show ?thesis
    by (auto simp: content_prune[OF inv_set_all[OF assms]] content_set_all[OF assms] split: option.splits)
qed

end

section \<open>MemoryCache implements it\<close>

text \<open>The host index lists exactly the sessions each host owns, and has no empty entries.\<close>

definition cache_inv :: "MemoryCache \<Rightarrow> bool" where
  "cache_inv c \<longleftrightarrow>
     (\<forall>h s. (\<exists>ids. mc_hostSessions c h = Some ids \<and> s \<in> ids) \<longleftrightarrow> (\<exists>e. mc_sessions c s = Some e \<and> entry_hostID e = h))
     \<and> (\<forall>h. mc_hostSessions c h \<noteq> Some {})"

definition cache_content :: "MemoryCache \<Rightarrow> string \<Rightarrow> (string \<times> SessionSnapshot) option" where
  "cache_content c s = map_option (\<lambda>e. (entry_hostID e, entry_snapshot e)) (mc_sessions c s)"

text \<open>The index read as a relation, which makes the invariant an equation.\<close>

definition index_of :: "MemoryCache \<Rightarrow> string \<Rightarrow> string set" where
  "index_of c h = (case mc_hostSessions c h of None \<Rightarrow> {} | Some ids \<Rightarrow> ids)"

lemma index_mem: "s \<in> index_of c h \<longleftrightarrow> (\<exists>ids. mc_hostSessions c h = Some ids \<and> s \<in> ids)"
  by (simp add: index_of_def split: option.split)

lemma cache_inv_iff:
  "cache_inv c \<longleftrightarrow> (\<forall>h. index_of c h = {s. \<exists>e. mc_sessions c s = Some e \<and> entry_hostID e = h})
     \<and> (\<forall>h. mc_hostSessions c h \<noteq> Some {})"
  unfolding cache_inv_def by (simp add: set_eq_iff index_mem)

lemma removeFromHostIndex_simps [simp]:
  "mc_sessions (removeFromHostIndex c h s) = mc_sessions c"
  "index_of (removeFromHostIndex c h s) h' = (if h' = h then index_of c h - {s} else index_of c h')"
  by (auto simp: removeFromHostIndex_def index_of_def Let_def split: option.splits)

lemma removeFromHostIndex_nonempty:
  "(\<forall>h. mc_hostSessions c h \<noteq> Some {}) \<Longrightarrow> mc_hostSessions (removeFromHostIndex c h s) h' \<noteq> Some {}"
  by (auto simp: removeFromHostIndex_def Let_def split: option.splits)

lemma cache_inv_Set: "cache_inv c \<Longrightarrow> cache_inv (Cache_Set c h s x)"
proof (cases x)
  case (Some snap)
  assume inv: "cache_inv c"
  let ?c1 = "case mc_sessions c s of None \<Rightarrow> c
     | Some prev \<Rightarrow> if entry_hostID prev \<noteq> h then removeFromHostIndex c (entry_hostID prev) s else c"
  have idx: "index_of ?c1 h' = {t. \<exists>e. mc_sessions c t = Some e \<and> entry_hostID e = h' \<and> (t = s \<longrightarrow> h' = h)}" for h'
    using inv by (auto simp: cache_inv_iff split: option.splits)
  have ne: "mc_hostSessions ?c1 h' \<noteq> Some {}" for h'
    using inv removeFromHostIndex_nonempty[of c] by (auto simp: cache_inv_iff split: option.splits)
  have ses: "mc_sessions ?c1 = mc_sessions c" by (auto split: option.splits)
  have res: "mc_sessions (Cache_Set c h s x) = (mc_sessions c)(s \<mapsto> \<lparr>entry_hostID = h, entry_snapshot = snap\<rparr>)"
    by (simp add: Cache_Set_def Some Let_def ses)
  have hs: "mc_hostSessions (Cache_Set c h s x) = (mc_hostSessions ?c1)(h \<mapsto> insert s (index_of ?c1 h))"
    by (simp add: Cache_Set_def Some Let_def index_of_def split: option.split)
  have "index_of (Cache_Set c h s x) h' = (if h' = h then insert s (index_of ?c1 h) else index_of ?c1 h')" for h'
    by (simp add: index_of_def[of "Cache_Set c h s x"] hs) (simp add: index_of_def)
  then show ?thesis
    unfolding cache_inv_iff by (auto simp: res idx hs ne)
qed (simp add: Cache_Set_def)

lemma cache_inv_Delete: "cache_inv c \<Longrightarrow> cache_inv (Cache_Delete c s)"
proof (cases "mc_sessions c s")
  case (Some e)
  assume inv: "cache_inv c"
  let ?c1 = "c\<lparr>mc_sessions := (mc_sessions c)(s := None)\<rparr>"
  have i1: "index_of ?c1 h = index_of c h" for h by (simp add: index_of_def)
  have "index_of (removeFromHostIndex ?c1 (entry_hostID e) s) h
        = {t. \<exists>e. mc_sessions (removeFromHostIndex ?c1 (entry_hostID e) s) t = Some e \<and> entry_hostID e = h}" for h
    using inv Some by (auto simp: i1 cache_inv_iff)
  then show ?thesis
    using inv removeFromHostIndex_nonempty[of ?c1] Some unfolding cache_inv_iff
    by (simp add: Cache_Delete_def)
qed (simp add: Cache_Delete_def)

lemma cache_inv_Prune: "cache_inv c \<Longrightarrow> cache_inv (PruneHost c h live)"
proof (cases "mc_hostSessions c h")
  case (Some ids)
  assume inv: "cache_inv c"
  have ids: "ids = {s. \<exists>e. mc_sessions c s = Some e \<and> entry_hostID e = h}"
    using inv Some by (simp add: cache_inv_iff index_of_def[of c h, simplified Some option.case, symmetric])
  have "index_of (PruneHost c h live) h' = (if h' = h then ids \<inter> live else index_of c h')" for h'
    by (auto simp: index_of_def PruneHost_def Some Let_def)
  then show ?thesis
    using inv unfolding cache_inv_iff
    by (auto simp: PruneHost_def Some Let_def ids split: if_splits)
qed (simp add: PruneHost_def)

interpretation cache: session_state_cache Cache_Get Cache_Set Cache_Delete PruneHost cache_inv cache_content
proof
  fix c h s x live
  show "Cache_Get c s = map_option snd (cache_content c s)"
    by (simp add: Cache_Get_def cache_content_def split: option.split)
  show "cache_inv c \<Longrightarrow> cache_inv (Cache_Set c h s x)" by (rule cache_inv_Set)
  show "cache_inv c \<Longrightarrow> cache_inv (Cache_Delete c s)" by (rule cache_inv_Delete)
  show "cache_inv c \<Longrightarrow> cache_inv (PruneHost c h live)" by (rule cache_inv_Prune)
  show "cache_inv c \<Longrightarrow> cache_content (Cache_Set c h s x) =
     (case x of None \<Rightarrow> cache_content c | Some snap \<Rightarrow> (cache_content c)(s := Some (h, snap)))"
    by (auto simp: cache_content_def Cache_Set_def Let_def fun_eq_iff split: option.splits)
  show "cache_inv c \<Longrightarrow> cache_content (Cache_Delete c s) = (cache_content c)(s := None)"
    by (auto simp: cache_content_def Cache_Delete_def fun_eq_iff split: option.splits)
  show "cache_inv c \<Longrightarrow> cache_content (PruneHost c h live) s =
     (case cache_content c s of None \<Rightarrow> None
      | Some (h', snap) \<Rightarrow> if h' = h \<and> s \<notin> live then None else Some (h', snap))"
  proof -
    assume inv: "cache_inv c"
    show ?thesis
    proof (cases "mc_hostSessions c h")
      case None
      then have "mc_sessions c s = Some e \<Longrightarrow> entry_hostID e \<noteq> h" for e
        using inv unfolding cache_inv_def by (metis option.distinct(1))
      then show ?thesis using None by (auto simp: PruneHost_def cache_content_def split: option.split)
    next
      case (Some ids)
      then have "s \<in> ids \<longleftrightarrow> (\<exists>e. mc_sessions c s = Some e \<and> entry_hostID e = h)"
        using inv unfolding cache_inv_def by (metis option.inject)
      then show ?thesis using Some by (auto simp: PruneHost_def cache_content_def Let_def split: option.split)
    qed
  qed
qed

lemma NewMemoryCache_inv: "cache_inv NewMemoryCache"
  by (simp add: cache_inv_def NewMemoryCache_def)

lemma NewMemoryCache_content: "cache_content NewMemoryCache s = None"
  by (simp add: cache_content_def NewMemoryCache_def)

end
