(* ===== verification/SessionEvents.thy ===== *)
theory SessionEvents
  imports SessionStore SessionCache
begin

text \<open>
  What the controller does with the events of a host: \<open>worker/session_lifecycle_handler.go\<close> writes
  starts and ends of sessions to the database, \<open>worker/session_state_sync_handler.go\<close> keeps the
  snapshot cache and the startup parameters up to date and resynchronises after a stream reset. The
  RPC answers of the host are arguments; errors are logged by the code and end the handler.
\<close>

section \<open>Events\<close>

datatype HostEventPayload =
    SessionStarted string string
  | SessionEnded string
  | SessionParametersChanged string "SessionSnapshot option"
  | WorldSaved string string
  | UserJoinedSession string string
  | UserLeftSession string string
  | OtherPayload

record HostEvent =
  Event_Id :: string
  Event_OccurredAt :: "time option"
  Event_Payload :: HostEventPayload

section \<open>The lifecycle handler\<close>

definition handleSessionStarted :: "db \<Rightarrow> string \<Rightarrow> time \<Rightarrow> string \<Rightarrow> string \<Rightarrow> db" where
  "handleSessionStarted d hostID occurredAt sessionID name =
     (let newSession = \<lparr>Session_ID = sessionID, Session_Name = name, Session_Status = SessionStatus_RUNNING,
            Session_StartedAt = Some occurredAt, Session_CreatedBy = None, Session_EndedAt = None,
            Session_HostID = hostID, Session_StartupParameters = Some empty_parameters,
            Session_AutoUpgrade = False, Session_Memo = [], Session_CurrentState = None, Session_GroupID = []\<rparr>
      in case SessionRepository_InsertFromEvent d newSession of
           (Inl _, d1) \<Rightarrow> d1
         | (Inr _, d1) \<Rightarrow> snd (SessionRepository_ApplySessionStarted d1 sessionID hostID name occurredAt))"

definition handleSessionEnded :: "db \<Rightarrow> string \<Rightarrow> time \<Rightarrow> string \<Rightarrow> db" where
  "handleSessionEnded d hostID occurredAt sessionID =
     (case SessionRepository_Get d sessionID of
        Inl _ \<Rightarrow> d
      | Inr existing \<Rightarrow>
          if Session_HostID existing \<noteq> hostID then d
          else if (case Session_StartedAt existing of None \<Rightarrow> False | Some t \<Rightarrow> occurredAt < t) then d
          else snd (SessionRepository_ApplySessionEnded d sessionID hostID occurredAt))"

definition Lifecycle_HandleHostEvent :: "db \<Rightarrow> string \<Rightarrow> HostEvent \<Rightarrow> db" where
  "Lifecycle_HandleHostEvent d hostID ev =
     (case Event_OccurredAt ev of
        None \<Rightarrow> d
      | Some t \<Rightarrow>
          (case Event_Payload ev of
             SessionStarted sid name \<Rightarrow> handleSessionStarted d hostID t sid name
           | SessionEnded sid \<Rightarrow> handleSessionEnded d hostID t sid
           | _ \<Rightarrow> d))"

definition Lifecycle_HandleHostEventStreamReset :: "db \<Rightarrow> string \<Rightarrow> db" where
  "Lifecycle_HandleHostEventStreamReset d hostID = d"

section \<open>The state synchronisation handler\<close>

record live =
  lv_db :: db
  lv_cache :: MemoryCache

definition applySessionParametersChanged :: "live \<Rightarrow> string \<Rightarrow> string \<Rightarrow> SessionSnapshot option \<Rightarrow> live" where
  "applySessionParametersChanged l hostID sessionID snapshot =
     (case snapshot of
        None \<Rightarrow> l
      | Some _ \<Rightarrow>
          l\<lparr>lv_cache := Cache_Set (lv_cache l) hostID sessionID snapshot,
            lv_db := snd (SessionRepository_ApplySessionParametersChanged (lv_db l) sessionID snapshot)\<rparr>)"

definition applyWorldSaved :: "live \<Rightarrow> string \<Rightarrow> string \<Rightarrow> string \<Rightarrow> live" where
  "applyWorldSaved l hostID sessionID worldURL =
     (if worldURL = [] then l
      else
        l\<lparr>lv_cache := (case Cache_Get (lv_cache l) sessionID of
                         None \<Rightarrow> lv_cache l
                       | Some existing \<Rightarrow>
                           Cache_Set (lv_cache l) hostID sessionID (Some (existing\<lparr>Snap_WorldUrl := worldURL\<rparr>))),
          lv_db := snd (SessionRepository_UpdateAfterWorldSaved (lv_db l) sessionID worldURL)\<rparr>)"

definition applySessionEnded :: "live \<Rightarrow> string \<Rightarrow> live" where
  "applySessionEnded l sessionID = l\<lparr>lv_cache := Cache_Delete (lv_cache l) sessionID\<rparr>"

definition bumped :: "int32 \<Rightarrow> SessionSnapshot \<Rightarrow> SessionSnapshot" where
  "bumped delta snap = snap\<lparr>Snap_UsersCount := max (wrap32 (Snap_UsersCount snap + delta)) 0\<rparr>"

definition bumpUsersCount :: "live \<Rightarrow> string \<Rightarrow> string \<Rightarrow> int32 \<Rightarrow> live" where
  "bumpUsersCount l hostID sessionID delta =
     (case Cache_Get (lv_cache l) sessionID of
        None \<Rightarrow> l
      | Some existing \<Rightarrow> l\<lparr>lv_cache := Cache_Set (lv_cache l) hostID sessionID (Some (bumped delta existing))\<rparr>)"

definition Sync_HandleHostEvent :: "live \<Rightarrow> string \<Rightarrow> HostEvent \<Rightarrow> live" where
  "Sync_HandleHostEvent l hostID ev =
     (case Event_Payload ev of
        SessionParametersChanged sid snap \<Rightarrow> applySessionParametersChanged l hostID sid snap
      | WorldSaved sid url \<Rightarrow> applyWorldSaved l hostID sid url
      | UserJoinedSession sid _ \<Rightarrow> bumpUsersCount l hostID sid 1
      | UserLeftSession sid _ \<Rightarrow> bumpUsersCount l hostID sid (- 1)
      | SessionEnded sid \<Rightarrow> applySessionEnded l sid
      | _ \<Rightarrow> l)"

text \<open>
  The reset reads the RUNNING rows, asks the host for its sessions (\<open>rpc\<close>: getting the client, then
  \<open>ListSessions\<close>), sets and prunes the cache in the iteration order \<open>ord\<close> of the map of live
  sessions, and demotes the rows the host no longer reports; a failing demotion is logged only.
\<close>

definition live_map :: "SessionSnapshot list \<Rightarrow> string \<Rightarrow> SessionSnapshot option" where
  "live_map xs = map_of (rev (map (\<lambda>x. (Snap_Id x, x)) xs))"

definition resync_cache ::
  "(string list \<Rightarrow> string list) \<Rightarrow> MemoryCache \<Rightarrow> string \<Rightarrow> SessionSnapshot list \<Rightarrow> MemoryCache" where
  "resync_cache ord c hostID reported =
     PruneHost (fold (\<lambda>sid c. Cache_Set c hostID sid (live_map reported sid)) (ord (remdups (map Snap_Id reported))) c)
       hostID (Snap_Id ` set reported)"

definition demote_missing :: "db \<Rightarrow> SessionSnapshot list \<Rightarrow> Session list \<Rightarrow> db" where
  "demote_missing d reported running =
     fold (\<lambda>s d. if Session_ID s \<in> Snap_Id ` set reported then d
                 else snd (SessionRepository_DowngradeToUnknownIfRunning d (Session_ID s))) running d"

definition Sync_HandleHostEventStreamReset ::
  "(string list \<Rightarrow> string list) \<Rightarrow> (string \<Rightarrow> SessionSnapshot list res) \<Rightarrow> live \<Rightarrow> string \<Rightarrow> live" where
  "Sync_HandleHostEventStreamReset ord rpc l hostID =
     (case SessionRepository_ListByHostAndStatus (lv_db l) hostID SessionStatus_RUNNING of
        Inl _ \<Rightarrow> l
      | Inr runningSessions \<Rightarrow>
          (case rpc hostID of
             Inl _ \<Rightarrow> l
           | Inr reported \<Rightarrow>
               l\<lparr>lv_cache := resync_cache ord (lv_cache l) hostID reported,
                 lv_db := demote_missing (lv_db l) reported runningSessions\<rparr>))"

section \<open>Lemmas on the lifecycle handler\<close>

definition started_row :: "string \<Rightarrow> time \<Rightarrow> string \<Rightarrow> Session \<Rightarrow> Session" where
  "started_row hid t name s = s\<lparr>Session_Name := name, Session_Status := SessionStatus_RUNNING,
     Session_StartedAt := Some t, Session_EndedAt := None, Session_HostID := hid\<rparr>"

lemma handleSessionStarted_existing:
  assumes "no_faults d" "session_of d sid \<noteq> None"
  shows "handleSessionStarted d hid t sid name
           = d\<lparr>db_sessions := tbl_update (started_hit sid t) (started_row hid t name) (db_sessions d)\<rparr>"
proof -
  have ex: "tbl_exists (session_row sid) (db_sessions d)"
    using assms(2) by (auto simp: session_of_def tbl_exists_iff dest: tbl_get_SomeD)
  show ?thesis
    using assms(1) ex
    by (auto simp: handleSessionStarted_def Let_def SessionRepository_InsertFromEvent_def q_InsertSessionFromEvent_def
        SessionRepository_ApplySessionStarted_def q_ApplySessionStarted_def map_errS_def started_row_def[abs_def]
        split: option.split)
qed

lemma handleSessionEnded_eq:
  assumes "no_faults d"
  shows "handleSessionEnded d hid t sid =
     (case session_of d sid of
        None \<Rightarrow> d
      | Some s \<Rightarrow>
          if Session_HostID s \<noteq> hid \<or> (case Session_StartedAt s of None \<Rightarrow> False | Some t0 \<Rightarrow> t < t0) then d
          else d\<lparr>db_sessions := tbl_update (ended_hit sid hid t)
                   (\<lambda>s. s\<lparr>Session_Status := SessionStatus_ENDED, Session_EndedAt := Some t\<rparr>) (db_sessions d)\<rparr>)"
  using assms
  by (auto simp: handleSessionEnded_def SessionRepository_Get_total SessionRepository_ApplySessionEnded_def
      q_ApplySessionEnded_def map_errS_def split: option.split)

lemma no_faults_sessions [simp]: "no_faults (d\<lparr>db_sessions := ss\<rparr>) = no_faults d"
  by (simp add: no_faults_def)

lemma started_row_simps [simp]:
  "Session_ID (started_row hid t name s) = Session_ID s" "Session_StartedAt (started_row hid t name s) = Some t"
  by (simp_all add: started_row_def)

lemma tbl_update_twice:
  "(\<And>s. s \<in> set xs \<Longrightarrow> (if q2 (if q1 s then f1 s else s) then f2 (if q1 s then f1 s else s) else (if q1 s then f1 s else s))
      = (if q1 (if q2 s then f2 s else s) then f1 (if q2 s then f2 s else s) else (if q2 s then f2 s else s)))
   \<Longrightarrow> tbl_update q2 f2 (tbl_update q1 f1 xs) = tbl_update q1 f1 (tbl_update q2 f2 xs)"
  by (induction xs) auto

section \<open>Lemmas on resynchronisation\<close>

lemma resync_cache_content:
  assumes "cache_inv c" "iteration_order ord"
  shows "cache_content (resync_cache ord c h reported) s =
     (case live_map reported s of
        Some x \<Rightarrow> Some (h, x)
      | None \<Rightarrow> (case cache_content c s of None \<Rightarrow> None | Some (h', x) \<Rightarrow> if h' = h then None else Some (h', x)))"
    and "cache_inv (resync_cache ord c h reported)"
proof -
  let ?ids = "ord (remdups (map Snap_Id reported))"
  let ?xs = "map (\<lambda>sid. (sid, the (live_map reported sid))) ?ids"
  have ids: "set ?ids = Snap_Id ` set reported" using assms(2) by (simp add: iteration_order_def)
  have ids_lm: "sid \<in> set ?ids \<longleftrightarrow> live_map reported sid \<noteq> None" for sid
    by (auto simp: ids live_map_def map_of_eq_None_iff image_iff)
  have "fold (\<lambda>sid c. Cache_Set c h sid (live_map reported sid)) l c
          = fold (\<lambda>(s, x) c. Cache_Set c h s (Some x)) (map (\<lambda>sid. (sid, the (live_map reported sid))) l) c"
    if "set l \<subseteq> set ?ids" for l c
    using that by (induction l arbitrary: c) (auto simp: ids_lm)
  then have fold: "fold (\<lambda>sid c. Cache_Set c h sid (live_map reported sid)) ?ids c
          = fold (\<lambda>(s, x) c. Cache_Set c h s (Some x)) ?xs c" by blast
  have live: "fst ` set ?xs = Snap_Id ` set reported" using ids by (force simp: image_iff)
  have mo: "map_of (rev ?xs) s = live_map reported s"
  proof (cases "s \<in> set ?ids")
    case True
    then have "map_of (rev (map (\<lambda>sid. (sid, the (live_map reported sid))) l)) s = Some (the (live_map reported s))"
      if "s \<in> set l" for l using that by (induction l rule: rev_induct) (auto simp: rev_map[symmetric])
    with True ids_lm[of s] show ?thesis by auto
  next
    case False
    then show ?thesis using ids_lm[of s] by (auto simp: map_of_eq_None_iff image_iff)
  qed
  show "cache_content (resync_cache ord c h reported) s =
     (case live_map reported s of
        Some x \<Rightarrow> Some (h, x)
      | None \<Rightarrow> (case cache_content c s of None \<Rightarrow> None | Some (h', x) \<Rightarrow> if h' = h then None else Some (h', x)))"
    using cache.resync_content[OF assms(1), of h ?xs s] unfolding resync_cache_def fold live[symmetric] mo .
  show "cache_inv (resync_cache ord c h reported)"
    unfolding resync_cache_def fold using cache.inv_prune cache.inv_set_all[OF assms(1)] by blast
qed

definition demoted_row :: "string set \<Rightarrow> Session \<Rightarrow> Session" where
  "demoted_row ids s = (if Session_ID s \<in> ids \<and> Session_Status s = SessionStatus_RUNNING
                        then s\<lparr>Session_Status := SessionStatus_UNKNOWN\<rparr> else s)"

lemma demote_missing_eq:
  assumes "no_faults d"
  shows "demote_missing d reported running
     = d\<lparr>db_sessions := map (demoted_row (Session_ID ` {s \<in> set running. Session_ID s \<notin> Snap_Id ` set reported})) (db_sessions d)\<rparr>"
  using assms
proof (induction running arbitrary: d)
  case Nil
  then show ?case by (simp add: demote_missing_def demoted_row_def)
next
  case (Cons r rs)
  let ?ids = "\<lambda>xs. Session_ID ` {s \<in> set xs. Session_ID s \<notin> Snap_Id ` set reported}"
  show ?case
  proof (cases "Session_ID r \<in> Snap_Id ` set reported")
    case True
    then have "?ids (r # rs) = ?ids rs" by auto
    with True Cons show ?thesis by (simp add: demote_missing_def)
  next
    case False
    let ?d = "d\<lparr>db_sessions := tbl_update (\<lambda>s. Session_ID s = Session_ID r \<and> Session_Status s = SessionStatus_RUNNING)
                 (\<lambda>s. s\<lparr>Session_Status := SessionStatus_UNKNOWN\<rparr>) (db_sessions d)\<rparr>"
    have step: "demote_missing d reported (r # rs) = demote_missing ?d reported rs"
      using False Cons.prems
      by (simp add: demote_missing_def SessionRepository_DowngradeToUnknownIfRunning_def
          q_DowngradeSessionToUnknownIfRunning_def)
    have ids: "?ids (r # rs) = insert (Session_ID r) (?ids rs)" using False by auto
    have "map (demoted_row (?ids rs)) (db_sessions ?d) = map (demoted_row (?ids (r # rs))) (db_sessions d)"
      unfolding ids by (auto simp: tbl_update_def demoted_row_def)
    then show ?thesis using step Cons.IH[of ?d] Cons.prems by simp
  qed
qed

section \<open>Properties\<close>

text \<open>
  Session starts can be delivered in any order. For a session that has a row, two
  \<open>SessionStarted\<close> events with different times leave the same database whichever is handled first,
  the newer one wins, and handling an event again changes nothing.
\<close>

theorem started_events_converge:
  assumes "no_faults d" "session_of d sid \<noteq> None" "t1 < t2"
  shows "handleSessionStarted (handleSessionStarted d h1 t1 sid n1) h2 t2 sid n2
           = handleSessionStarted (handleSessionStarted d h2 t2 sid n2) h1 t1 sid n1
     \<and> handleSessionStarted (handleSessionStarted d h1 t1 sid n1) h1 t1 sid n1 = handleSessionStarted d h1 t1 sid n1
     \<and> (\<exists>s. session_of (handleSessionStarted (handleSessionStarted d h1 t1 sid n1) h2 t2 sid n2) sid = Some s
          \<and> (\<exists>t. Session_StartedAt s = Some t \<and> t2 \<le> t))"
proof -
  let ?u = "\<lambda>h t n xs. tbl_update (started_hit sid t) (started_row h t n) xs"
  have ex: "session_of (d\<lparr>db_sessions := ?u h t n (db_sessions d)\<rparr>) sid \<noteq> None" for h t n
    using assms(2) by (subst session_of_update) auto
  have run: "handleSessionStarted (handleSessionStarted d h t sid n) h' t' sid n'
      = d\<lparr>db_sessions := ?u h' t' n' (?u h t n (db_sessions d))\<rparr>" for h t n h' t' n'
    using assms(1,2) ex[of t h n] by (simp add: handleSessionStarted_existing)
  have "?u h2 t2 n2 (?u h1 t1 n1 xs) = ?u h1 t1 n1 (?u h2 t2 n2 xs)" for xs
    by (rule tbl_update_twice)
       (use assms(3) in \<open>auto simp: started_hit_def started_row_def split: option.splits\<close>)
  moreover have "?u h1 t1 n1 (?u h1 t1 n1 xs) = ?u h1 t1 n1 xs" for xs
    by (induction xs) (auto simp: started_hit_def)
  moreover obtain s where s: "session_of d sid = Some s" using assms(2) by blast
  have "session_of (d\<lparr>db_sessions := ?u h2 t2 n2 (?u h1 t1 n1 (db_sessions d))\<rparr>) sid =
      map_option (\<lambda>s. if started_hit sid t2 s then started_row h2 t2 n2 s else s)
        (map_option (\<lambda>s. if started_hit sid t1 s then started_row h1 t1 n1 s else s) (Some s))"
    using session_of_update[of "started_hit sid t2" "started_row h2 t2 n2" "d\<lparr>db_sessions := ?u h1 t1 n1 (db_sessions d)\<rparr>" sid]
      session_of_update[of "started_hit sid t1" "started_row h1 t1 n1" d sid] s by simp
  ultimately show ?thesis
    unfolding run using assms(1,2) session_ID_of[OF s]
    by (auto simp: handleSessionStarted_existing started_hit_def split: option.splits)
qed

text \<open>
  A late end cannot bring down a running session. A \<open>SessionEnded\<close> from a host that does not own
  the session, or older than its start, changes nothing; otherwise it marks exactly that row ENDED at
  the time of the event and leaves every other field of it alone.
\<close>

theorem ended_event_guarded:
  assumes "no_faults d" "session_of d sid = Some s"
  shows "(Session_HostID s \<noteq> hid \<or> (\<exists>t0. Session_StartedAt s = Some t0 \<and> t < t0) \<longrightarrow> handleSessionEnded d hid t sid = d)
     \<and> (Session_HostID s = hid \<and> (\<forall>t0. Session_StartedAt s = Some t0 \<longrightarrow> t0 \<le> t)
          \<and> (\<forall>t0. Session_EndedAt s = Some t0 \<longrightarrow> t0 < t) \<longrightarrow>
        session_of (handleSessionEnded d hid t sid) sid
          = Some (s\<lparr>Session_Status := SessionStatus_ENDED, Session_EndedAt := Some t\<rparr>)
        \<and> (\<forall>x. x \<noteq> sid \<longrightarrow> session_of (handleSessionEnded d hid t sid) x = session_of d x))"
proof (intro conjI impI)
  assume "Session_HostID s \<noteq> hid \<or> (\<exists>t0. Session_StartedAt s = Some t0 \<and> t < t0)"
  then show "handleSessionEnded d hid t sid = d" using assms by (auto simp: handleSessionEnded_eq split: option.splits)
next
  assume a: "Session_HostID s = hid \<and> (\<forall>t0. Session_StartedAt s = Some t0 \<longrightarrow> t0 \<le> t)
          \<and> (\<forall>t0. Session_EndedAt s = Some t0 \<longrightarrow> t0 < t)"
  let ?f = "\<lambda>s. s\<lparr>Session_Status := SessionStatus_ENDED, Session_EndedAt := Some t\<rparr>"
  have run: "handleSessionEnded d hid t sid = d\<lparr>db_sessions := tbl_update (ended_hit sid hid t) ?f (db_sessions d)\<rparr>"
    using a assms by (auto simp: handleSessionEnded_eq split: option.splits)
  have get: "session_of (handleSessionEnded d hid t sid) x = map_option (\<lambda>s. if ended_hit sid hid t s then ?f s else s) (session_of d x)" for x
    unfolding run by (rule session_of_update) simp
  show "session_of (handleSessionEnded d hid t sid) sid = Some (?f s)"
    unfolding get using a assms session_ID_of by (auto simp: ended_hit_def split: option.splits)
  show "\<forall>x. x \<noteq> sid \<longrightarrow> session_of (handleSessionEnded d hid t sid) x = session_of d x"
  proof (intro allI impI)
    fix x assume "x \<noteq> sid"
    then show "session_of (handleSessionEnded d hid t sid) x = session_of d x"
      unfolding get using session_ID_of[of d x] by (cases "session_of d x") (auto simp: ended_hit_def)
  qed
qed

text \<open>
  C14: resynchronisation after a stream reset is exact. When the host answers, afterwards the cache
  holds for this host exactly the sessions it reported, with the reported snapshots; entries of other
  hosts stay unless the session is now reported here; and in the database exactly the RUNNING rows of
  this host that were not reported become UNKNOWN. The cache invariant is kept.
\<close>

theorem resync_exact:
  assumes "no_faults (lv_db l)" "cache_inv (lv_cache l)" "iteration_order ord" "rpc hid = Inr reported"
  defines "l' \<equiv> Sync_HandleHostEventStreamReset ord rpc l hid"
  shows "cache_inv (lv_cache l')
     \<and> (\<forall>s. cache_content (lv_cache l') s =
          (case live_map reported s of
             Some x \<Rightarrow> Some (hid, x)
           | None \<Rightarrow> (case cache_content (lv_cache l) s of None \<Rightarrow> None
                      | Some (h', x) \<Rightarrow> if h' = hid then None else Some (h', x))))
     \<and> lv_db l' = (lv_db l)\<lparr>db_sessions := map (\<lambda>s.
          if Session_ID s \<in> Session_ID ` {r \<in> set (db_sessions (lv_db l)).
                 Session_HostID r = hid \<and> Session_Status r = SessionStatus_RUNNING} - Snap_Id ` set reported
             \<and> Session_Status s = SessionStatus_RUNNING
          then s\<lparr>Session_Status := SessionStatus_UNKNOWN\<rparr> else s) (db_sessions (lv_db l))\<rparr>"
proof -
  let ?d = "lv_db l"
  let ?run = "sort_key started_desc (filter (\<lambda>s. Session_HostID s = hid \<and> Session_Status s = SessionStatus_RUNNING) (db_sessions ?d))"
  have l': "l' = l\<lparr>lv_cache := resync_cache ord (lv_cache l) hid reported, lv_db := demote_missing ?d reported ?run\<rparr>"
    using assms(1,4)
    by (simp add: l'_def Sync_HandleHostEventStreamReset_def SessionRepository_ListByHostAndStatus_def
        q_ListSessionsByHostAndStatus_def)
  have "Session_ID ` {s \<in> set ?run. Session_ID s \<notin> Snap_Id ` set reported} =
      Session_ID ` {r \<in> set (db_sessions ?d). Session_HostID r = hid \<and> Session_Status r = SessionStatus_RUNNING} - Snap_Id ` set reported"
    by auto
  then show ?thesis
    using resync_cache_content[OF assms(2,3)] demote_missing_eq[OF assms(1)]
    by (simp add: l' demoted_row_def[abs_def])
qed

text \<open>
  Users are never counted below zero, and counted only where there is a snapshot. Whatever the
  order of join and leave events, every cached count stays in the range of an \<open>int32\<close> and, once
  non-negative, stays non-negative; a session without a snapshot is not touched.
\<close>

theorem users_count_clamped:
  assumes "cache_inv (lv_cache l)"
    "\<forall>s h x. cache_content (lv_cache l) s = Some (h, x) \<longrightarrow> 0 \<le> Snap_UsersCount x"
  shows "let l' = fold (\<lambda>(hid, sid, joined) l. bumpUsersCount l hid sid (if joined then 1 else - 1)) evs l in
     lv_db l' = lv_db l \<and> cache_inv (lv_cache l')
     \<and> (\<forall>s. cache_content (lv_cache l') s = None \<longleftrightarrow> cache_content (lv_cache l) s = None)
     \<and> (\<forall>s h x. cache_content (lv_cache l') s = Some (h, x) \<longrightarrow> 0 \<le> Snap_UsersCount x)"
  using assms unfolding Let_def
proof (induction evs arbitrary: l)
  case (Cons e evs)
  obtain hid sid j where e: "e = (hid, sid, j)" by (cases e)
  let ?l = "bumpUsersCount l hid sid (if j then 1 else - 1)"
  have inv: "cache_inv (lv_cache ?l)"
    using Cons.prems(1) by (auto simp: bumpUsersCount_def intro: cache.inv_set split: option.split)
  have cnt: "\<forall>s h x. cache_content (lv_cache ?l) s = Some (h, x) \<longrightarrow> 0 \<le> Snap_UsersCount x"
    using Cons.prems by (auto simp: bumpUsersCount_def cache.content_set bumped_def split: option.split if_splits)
  have dom: "(cache_content (lv_cache ?l) s = None) = (cache_content (lv_cache l) s = None)" for s
    using Cons.prems(1) by (auto simp: bumpUsersCount_def cache.content_set cache.get_content split: option.split)
  have db: "lv_db ?l = lv_db l" by (simp add: bumpUsersCount_def split: option.split)
  show ?case using Cons.IH[OF inv cnt] by (simp add: e db dom)
qed simp

text \<open>
  The end of a session empties its cache entry whichever host reports it. The handler does not
  compare the reporting host with the owner of the entry, while the database handler does: an end
  from a host that no longer runs the session leaves the row RUNNING and the live snapshot gone.
\<close>

theorem ended_evicts_other_owner:
  assumes "no_faults (lv_db l)" "cache_inv (lv_cache l)" "session_of (lv_db l) sid = Some s"
    "Session_HostID s \<noteq> hid" "Event_Payload ev = SessionEnded sid"
  shows "Lifecycle_HandleHostEvent (lv_db l) hid ev = lv_db l
     \<and> Cache_Get (lv_cache (Sync_HandleHostEvent l hid ev)) sid = None"
proof
  show "Lifecycle_HandleHostEvent (lv_db l) hid ev = lv_db l"
    using assms by (simp add: Lifecycle_HandleHostEvent_def handleSessionEnded_eq split: option.split)
  show "Cache_Get (lv_cache (Sync_HandleHostEvent l hid ev)) sid = None"
    using assms(2,5) by (simp add: Sync_HandleHostEvent_def applySessionEnded_def cache.get_content cache.content_del)
qed

section \<open>Instances\<close>

definition plain_snapshot :: "string \<Rightarrow> SessionSnapshot" where
  "plain_snapshot sid = \<lparr>Snap_Id = sid, Snap_Name = sid, Snap_Description = [], Snap_AccessLevel = 0,
     Snap_UsersCount = 0, Snap_MaxUsers = 16, Snap_AwayKickMinutes = 0, Snap_IdleRestartIntervalSeconds = 0,
     Snap_SaveOnExit = False, Snap_AutoSaveIntervalSeconds = 0, Snap_AutoSleep = False,
     Snap_HideFromPublicListing = False, Snap_Tags = [], Snap_WorldUrl = ''resrec:///U-a/R-1'', Snap_StartedAt = 10, Snap_Other = []\<rparr>"

definition sample_live :: live where
  "sample_live = \<lparr>lv_db = session_db, lv_cache = Cache_Set NewMemoryCache ''h1'' ''s1'' (Some (plain_snapshot ''s1''))\<rparr>"

lemma sample_live_ok:
  "lv_db sample_live = session_db" "cache_inv (lv_cache sample_live)"
  "cache_content (lv_cache sample_live) = [''s1'' \<mapsto> (''h1'', plain_snapshot ''s1'')]"
  by (auto simp: sample_live_def NewMemoryCache_inv NewMemoryCache_content cache.inv_set cache.content_set)

theorem started_events_converge_witness:
  "session_of session_db ''s1'' \<noteq> None
     \<and> handleSessionStarted (handleSessionStarted session_db ''h1'' 40 ''s1'' ''old'') ''h2'' 50 ''s1'' ''new''
         = handleSessionStarted (handleSessionStarted session_db ''h2'' 50 ''s1'' ''new'') ''h1'' 40 ''s1'' ''old''"
proof -
  have ex: "session_of session_db ''s1'' \<noteq> None" by code_simp
  show ?thesis
    using ex started_events_converge[OF no_faults_session_db ex, of 40 50 "''h1''" "''old''" "''h2''" "''new''"] by simp
qed

theorem ended_event_guarded_witness:
  "handleSessionEnded session_db ''h2'' 50 ''s1'' = session_db
     \<and> map_option Session_Status (session_of (handleSessionEnded session_db ''h1'' 50 ''s1'') ''s1'') = Some SessionStatus_ENDED"
proof -
  have s: "session_of session_db ''s1'' = Some (plain_session ''s1'' ''h1'' SessionStatus_RUNNING 10)" by code_simp
  show ?thesis
    using ended_event_guarded[OF no_faults_session_db s, of "''h2''" 50] ended_event_guarded[OF no_faults_session_db s, of "''h1''" 50]
    by (simp add: plain_session_def)
qed

theorem resync_exact_witness:
  "let l' = Sync_HandleHostEventStreamReset id (\<lambda>_. Inr []) sample_live ''h1''
   in cache_inv (lv_cache l') \<and> cache_content (lv_cache l') ''s1'' = None
     \<and> map Session_Status (db_sessions (lv_db l')) = [SessionStatus_UNKNOWN, SessionStatus_ENDED, SessionStatus_RUNNING]"
proof -
  let ?l = "Sync_HandleHostEventStreamReset id (\<lambda>_. Inr []) sample_live ''h1''"
  have st: "map Session_Status (db_sessions (lv_db ?l)) = [SessionStatus_UNKNOWN, SessionStatus_ENDED, SessionStatus_RUNNING]"
    by code_simp
  have nf: "no_faults (lv_db sample_live)" by (simp add: sample_live_ok)
  have rpc: "(\<lambda>_. Inr []) ''h1'' = Inr []" by simp
  note r = resync_exact[OF nf sample_live_ok(2) iteration_order_id, of "\<lambda>_. Inr []" "''h1''" "[]", OF rpc]
  have "cache_content (lv_cache ?l) ''s1'' = None"
    using r by (simp add: live_map_def sample_live_ok(3) del: iteration_order_id)
  with r st show ?thesis unfolding Let_def by blast
qed

theorem users_count_clamped_witness:
  "let l' = fold (\<lambda>(hid, sid, joined) l. bumpUsersCount l hid sid (if joined then 1 else - 1))
              [(''h1'', ''s1'', False), (''h1'', ''s1'', True)] sample_live
   in lv_db l' = lv_db sample_live \<and> cache_inv (lv_cache l') \<and> cache_content (lv_cache l') ''s2'' = None
      \<and> (\<exists>h x. cache_content (lv_cache l') ''s1'' = Some (h, x) \<and> 0 \<le> Snap_UsersCount x)"
proof -
  have c: "\<forall>s h x. cache_content (lv_cache sample_live) s = Some (h, x) \<longrightarrow> 0 \<le> Snap_UsersCount x"
    by (auto simp: sample_live_ok plain_snapshot_def split: if_splits)
  have d: "cache_content (lv_cache sample_live) ''s1'' \<noteq> None" "cache_content (lv_cache sample_live) ''s2'' = None"
    by (simp_all add: sample_live_ok)
  let ?evs = "[(''h1'', ''s1'', False), (''h1'', ''s1'', True)]"
  define l where "l = fold (\<lambda>(hid, sid, joined) l. bumpUsersCount l hid sid (if joined then 1 else - 1)) ?evs sample_live"
  note u = users_count_clamped[OF sample_live_ok(2) c, of ?evs, unfolded Let_def, folded l_def]
  have dom: "cache_content (lv_cache l) s = None \<longleftrightarrow> cache_content (lv_cache sample_live) s = None" for s
    using u by (elim conjE allE[of _ s])
  obtain h x where hx: "cache_content (lv_cache l) ''s1'' = Some (h, x)"
    using dom[of "''s1''"] d(1) by (cases "cache_content (lv_cache l) ''s1''") auto
  then have "0 \<le> Snap_UsersCount x" using u by blast
  then show ?thesis unfolding Let_def l_def[symmetric] using u hx dom[of "''s2''"] d(2) by simp
qed

theorem ended_evicts_other_owner_witness:
  "Cache_Get (lv_cache sample_live) ''s1'' \<noteq> None
     \<and> Cache_Get (lv_cache (Sync_HandleHostEvent sample_live ''h2'' \<lparr>Event_Id = ''e'', Event_OccurredAt = Some 50,
         Event_Payload = SessionEnded ''s1''\<rparr>)) ''s1'' = None"
proof -
  have s: "session_of (lv_db sample_live) ''s1'' = Some (plain_session ''s1'' ''h1'' SessionStatus_RUNNING 10)" by code_simp
  have "Cache_Get (lv_cache sample_live) ''s1'' \<noteq> None" by (simp add: cache.get_content sample_live_ok)
  then show ?thesis
    using ended_evicts_other_owner[of sample_live, OF _ sample_live_ok(2) s] by (simp add: sample_live_ok plain_session_def)
qed

end
