(* ===== verification/HostStore.thy ===== *)
theory HostStore
  imports SessionEvents
begin

text \<open>
  Hosts: the queries on \<open>hosts\<close> and \<open>container_logs\<close> (\<open>db/hosts.sql.go\<close>, \<open>db/container_logs.sql.go\<close>),
  the conversion of settings (\<open>adapter/converter/entity_converter.go\<close>) and the host repository
  (\<open>adapter/headless_host_repository.go\<close>). The container runtime is reached through the interface
  \<open>HostConnector\<close> and the program inside a container through \<open>HeadlessControlServiceClient\<close>: both are
  arguments of the model, the first with the state \<open>'w\<close> of the runtime.
\<close>

section \<open>The container and its runtime\<close>

record UpdateSessionParametersRequest =
  Usp_SessionId :: string
  Usp_Name :: "string option"
  Usp_Description :: "string option"
  Usp_MaxUsers :: "int32 option"
  Usp_AccessLevel :: "int32 option"
  Usp_AwayKickMinutes :: "float32 option"
  Usp_IdleRestartIntervalSeconds :: "int32 option"
  Usp_SaveOnExit :: "bool option"
  Usp_AutoSaveIntervalSeconds :: "int32 option"
  Usp_AutoSleep :: "bool option"
  Usp_HideFromPublicListing :: "bool option"
  Usp_UpdateTags :: bool
  Usp_Tags :: "string list"

datatype SaveAsType = SAVE_AS_TYPE_SAVE_AS | SAVE_AS_TYPE_COPY

record RpcClient =
  rpc_StartWorld :: "WorldStartupParameters option \<Rightarrow> SessionSnapshot option res"
  rpc_StopSession :: "string \<Rightarrow> unit res"
  rpc_GetSession :: "string \<Rightarrow> SessionSnapshot option res"
  rpc_ListSessions :: "SessionSnapshot list res"
  rpc_UpdateSessionParameters :: "UpdateSessionParametersRequest \<Rightarrow> unit res"
  rpc_SaveSessionWorld :: "string \<Rightarrow> string res"
  rpc_SaveAsSessionWorld :: "string \<Rightarrow> SaveAsType \<Rightarrow> string res"
  rpc_GetStartupConfigToRestore :: "bool \<Rightarrow> StartupConfig res"
  rpc_GetAbout :: "(string \<times> string) res"
  rpc_GetAccountInfo :: "(string \<times> string) res"
  rpc_GetStatus :: "float32 res"

record HostStartParams =
  Hsp_ID :: string
  Hsp_InstanceId :: int32
  Hsp_ContainerImageTag :: string
  Hsp_HeadlessAccount :: HeadlessAccount
  Hsp_StartupConfig :: "StartupConfig option"

record ContainerImage =
  Image_Tag :: string
  Image_ResoniteVersion :: string
  Image_IsPreRelease :: bool
  Image_AppVersion :: string

record 'w HostConnector =
  con_GetRpcClient :: "'w \<Rightarrow> string \<Rightarrow> RpcClient res"
  con_ListContainerTags :: "'w \<Rightarrow> string option \<Rightarrow> ContainerImage list res"
  con_Start :: "'w \<Rightarrow> HostStartParams \<Rightarrow> string res \<times> 'w"
  con_Stop :: "'w \<Rightarrow> string \<Rightarrow> int \<Rightarrow> unit res \<times> 'w"
  con_Kill :: "'w \<Rightarrow> string \<Rightarrow> unit res \<times> 'w"
  con_Remove :: "'w \<Rightarrow> string \<Rightarrow> unit res \<times> 'w"

text \<open>The controller's state with the runtime beside it, and steps of one part of it.\<close>

record 'w ctl = live +
  ct_world :: 'w

definition onDb :: "'m live_scheme \<Rightarrow> 'b res \<times> db \<Rightarrow> 'b res \<times> 'm live_scheme" where
  "onDb c r = (fst r, c\<lparr>lv_db := snd r\<rparr>)"

definition onWorld :: "'w ctl \<Rightarrow> 'b res \<times> 'w \<Rightarrow> 'b res \<times> 'w ctl" where
  "onWorld c r = (fst r, c\<lparr>ct_world := snd r\<rparr>)"

section \<open>Queries\<close>

abbreviation host_row :: "string \<Rightarrow> Host \<Rightarrow> bool" where
  "host_row hid \<equiv> \<lambda>h. Host_ID h = hid"

definition host_of :: "db \<Rightarrow> string \<Rightarrow> Host option" where
  "host_of d hid = tbl_get (host_row hid) (db_hosts d)"

definition q_CreateHost :: "db \<Rightarrow> Host \<Rightarrow> Host res \<times> db" where
  "q_CreateHost d h = writeQ d ''CreateHost'' [Host_ID h]
     (if tbl_exists (host_row (Host_ID h)) (db_hosts d)
         \<or> \<not> tbl_exists (\<lambda>g. Group_ID g = Host_GroupID h) (db_groups d) \<or> \<not> fk_user_ok d (Host_CreatedBy h)
      then (Inl ErrDB, d)
      else (Inr h, d\<lparr>db_hosts := db_hosts d @ [h]\<rparr>))"

text \<open>Deleting a host deletes its event checkpoint; sessions keep their host id, which is no key.\<close>

definition q_DeleteHost :: "db \<Rightarrow> string \<Rightarrow> unit res \<times> db" where
  "q_DeleteHost d hid = writeQ d ''DeleteHost'' [hid]
     (Inr (), d\<lparr>db_hosts := tbl_delete (host_row hid) (db_hosts d),
               db_checkpoints := tbl_delete (\<lambda>c. fst c = hid) (db_checkpoints d)\<rparr>)"

definition q_GetHost :: "db \<Rightarrow> string \<Rightarrow> Host res" where
  "q_GetHost d hid = readQ d ''GetHost'' [hid]
     (case tbl_get (host_row hid) (db_hosts d) of None \<Rightarrow> Inl ErrNoRows | Some h \<Rightarrow> Inr h)"

definition update_host :: "string \<Rightarrow> (Host \<Rightarrow> Host) \<Rightarrow> db \<Rightarrow> db" where
  "update_host hid f d = d\<lparr>db_hosts := tbl_update (host_row hid) f (db_hosts d)\<rparr>"

text \<open>\<open>instance_count\<close> is a four-byte column: the increment fails when it would leave the range.\<close>

definition q_IncrementHostInstanceCount :: "db \<Rightarrow> string \<Rightarrow> int32 res \<times> db" where
  "q_IncrementHostInstanceCount d hid = writeQ d ''IncrementHostInstanceCount'' [hid]
     (case tbl_get (host_row hid) (db_hosts d) of
        None \<Rightarrow> (Inl ErrNoRows, d)
      | Some h \<Rightarrow>
          if in32 (Host_InstanceCount h + 1)
          then (Inr (Host_InstanceCount h + 1),
                update_host hid (\<lambda>h. h\<lparr>Host_InstanceCount := Host_InstanceCount h + 1\<rparr>) d)
          else (Inl ErrDB, d))"

definition host_started_desc :: "Host \<Rightarrow> bool \<times> int" where
  "host_started_desc h = (case Host_StartedAt h of None \<Rightarrow> (False, 0) | Some t \<Rightarrow> (True, - t))"

definition host_started_desc_nulls_last :: "Host \<Rightarrow> bool \<times> int \<times> string" where
  "host_started_desc_nulls_last h =
     (case Host_StartedAt h of None \<Rightarrow> (True, 0, Host_ID h) | Some t \<Rightarrow> (False, - t, Host_ID h))"

definition q_ListHosts :: "db \<Rightarrow> Host list res" where
  "q_ListHosts d = readQ d ''ListHosts'' [] (Inr (sort_key host_started_desc (db_hosts d)))"

definition q_ListHostsByStatus :: "db \<Rightarrow> HeadlessHostStatus \<Rightarrow> Host list res" where
  "q_ListHostsByStatus d st = readQ d ''ListHostsByStatus'' []
     (Inr (sort_key host_started_desc (filter (\<lambda>h. Host_Status h = st) (db_hosts d))))"

definition q_ListHostsPaged :: "db \<Rightarrow> string list option \<Rightarrow> int32 \<Rightarrow> int32 \<Rightarrow> (Host \<times> nat) list res" where
  "q_ListHostsPaged d groups off lim = readQ d ''ListHostsPaged'' []
     (if off < 0 \<or> lim < 0 then Inl ErrDB
      else let rows = sort_key host_started_desc_nulls_last
                 (filter (\<lambda>h. case groups of None \<Rightarrow> True | Some gs \<Rightarrow> Host_GroupID h \<in> set gs) (db_hosts d))
           in Inr (map (\<lambda>h. (h, length rows)) (take (nat lim) (drop (nat off) rows))))"

definition q_ListRunningHostsByAccount :: "db \<Rightarrow> string \<Rightarrow> Host list res" where
  "q_ListRunningHostsByAccount d acc = readQ d ''ListRunningHostsByAccount'' [acc]
     (Inr (sort_key host_started_desc
        (filter (\<lambda>h. Host_AccountID h = acc \<and> Host_Status h = HeadlessHostStatus_RUNNING) (db_hosts d))))"

definition q_UpdateHostAutoUpdatePolicy :: "db \<Rightarrow> string \<Rightarrow> HostAutoUpdatePolicy \<Rightarrow> unit res \<times> db" where
  "q_UpdateHostAutoUpdatePolicy d hid p = writeQ d ''UpdateHostAutoUpdatePolicy'' [hid]
     (Inr (), update_host hid (\<lambda>h. h\<lparr>Host_AutoUpdatePolicy := p\<rparr>) d)"

definition q_UpdateHostConnectString :: "db \<Rightarrow> string \<Rightarrow> string \<Rightarrow> unit res \<times> db" where
  "q_UpdateHostConnectString d hid s = writeQ d ''UpdateHostConnectString'' [hid]
     (Inr (), update_host hid (\<lambda>h. h\<lparr>Host_ConnectString := s\<rparr>) d)"

definition q_UpdateHostLastStartupConfig :: "db \<Rightarrow> string \<Rightarrow> StartupConfig \<Rightarrow> unit res \<times> db" where
  "q_UpdateHostLastStartupConfig d hid cfg = writeQ d ''UpdateHostLastStartupConfig'' [hid]
     (Inr (), update_host hid (\<lambda>h. h\<lparr>Host_LastStartupConfig := cfg\<rparr>) d)"

definition q_UpdateHostMemo :: "db \<Rightarrow> string \<Rightarrow> string option \<Rightarrow> unit res \<times> db" where
  "q_UpdateHostMemo d hid memo = writeQ d ''UpdateHostMemo'' [hid]
     (Inr (), update_host hid (\<lambda>h. h\<lparr>Host_Memo := memo\<rparr>) d)"

definition q_UpdateHostName :: "db \<Rightarrow> string \<Rightarrow> string \<Rightarrow> unit res \<times> db" where
  "q_UpdateHostName d hid name = writeQ d ''UpdateHostName'' [hid]
     (Inr (), update_host hid (\<lambda>h. h\<lparr>Host_Name := name\<rparr>) d)"

definition q_UpdateHostStatus :: "db \<Rightarrow> string \<Rightarrow> HeadlessHostStatus \<Rightarrow> unit res \<times> db" where
  "q_UpdateHostStatus d hid st = writeQ d ''UpdateHostStatus'' [hid]
     (Inr (), update_host hid (\<lambda>h. h\<lparr>Host_Status := st\<rparr>) d)"

text \<open>
  Logs. The patterns of \<open>LIKE\<close> are built from host ids, which \<open>uniuri\<close> draws from letters and digits,
  so the pattern is a prefix test. \<open>0\<close> stands for no cursor.
\<close>

definition q_DeleteContainerLogsByHostID :: "db \<Rightarrow> string \<Rightarrow> unit res \<times> db" where
  "q_DeleteContainerLogsByHostID d hid = writeQ d ''DeleteContainerLogsByHostID'' [hid]
     (Inr (), d\<lparr>db_logs := tbl_delete (\<lambda>l. HasPrefix (Log_Tag l) (''headless-'' @ hid @ ''-'')) (db_logs d)\<rparr>)"

definition q_GetContainerLogsByTag :: "db \<Rightarrow> string \<Rightarrow> int \<Rightarrow> int \<Rightarrow> int32 \<Rightarrow> ContainerLog list res" where
  "q_GetContainerLogsByTag d tag beforeID afterID maxRows = readQ d ''GetContainerLogsByTag'' [tag]
     (Inr (take (nat (if 0 < maxRows then maxRows else 100))
        (sort_key (\<lambda>l. - Log_ID l)
          (filter (\<lambda>l. Log_Tag l = tag \<and> (beforeID = 0 \<or> Log_ID l < beforeID) \<and> (afterID = 0 \<or> afterID < Log_ID l))
             (db_logs d)))))"

definition q_GetHeadlessAccount :: "db \<Rightarrow> string \<Rightarrow> HeadlessAccount res" where
  "q_GetHeadlessAccount d rid = readQ d ''GetHeadlessAccount'' [rid]
     (case tbl_get (\<lambda>a. Account_ResoniteID a = rid) (db_accounts d) of None \<Rightarrow> Inl ErrNoRows | Some a \<Rightarrow> Inr a)"

section \<open>Settings\<close>

definition HeadlessHostSettingsToStartupConfigProto :: "HeadlessHostSettings \<Rightarrow> StartupConfig" where
  "HeadlessHostSettingsToStartupConfigProto e = \<lparr>
     Sc_UniverseId = Settings_UniverseID e,
     Sc_TickRate = Some (Settings_TickRate e),
     Sc_MaxConcurrentAssetTransfers = Some (Settings_MaxConcurrentAssetTransfers e),
     Sc_UsernameOverride = Settings_UsernameOverride e,
     Sc_StartWorlds = Settings_StartWorlds e,
     Sc_AllowedUrlHosts = map (\<lambda>x. \<lparr>Access_Host = Access_Host x, Access_Ports = Access_Ports x,
                                   Access_Types = Access_Types x\<rparr>) (Settings_AllowedUrlHosts e),
     Sc_AutoSpawnItems = []\<rparr>"

definition HeadlessHostSettingsProtoToEntity :: "StartupConfig \<Rightarrow> HeadlessHostSettings" where
  "HeadlessHostSettingsProtoToEntity p = \<lparr>
     Settings_UniverseID = Sc_UniverseId p,
     Settings_TickRate = (case Sc_TickRate p of None \<Rightarrow> 0 | Some t \<Rightarrow> t),
     Settings_MaxConcurrentAssetTransfers = (case Sc_MaxConcurrentAssetTransfers p of None \<Rightarrow> 0 | Some n \<Rightarrow> n),
     Settings_UsernameOverride = Sc_UsernameOverride p,
     Settings_AllowedUrlHosts = map (\<lambda>x. \<lparr>Access_Host = Access_Host x, Access_Ports = Access_Ports x,
                                         Access_Types = Access_Types x\<rparr>) (Sc_AllowedUrlHosts p),
     Settings_AutoSpawnItems = [],
     Settings_StartWorlds = Sc_StartWorlds p\<rparr>"

definition zero_settings :: HeadlessHostSettings where
  "zero_settings = \<lparr>Settings_UniverseID = None, Settings_TickRate = 0, Settings_MaxConcurrentAssetTransfers = 0,
     Settings_UsernameOverride = None, Settings_AllowedUrlHosts = [], Settings_AutoSpawnItems = [], Settings_StartWorlds = []\<rparr>"

record HeadlessHost =
  HH_ID :: string
  HH_Name :: string
  HH_Status :: HeadlessHostStatus
  HH_ResoniteVersion :: string
  HH_AppVersion :: string
  HH_AccountId :: string
  HH_AccountName :: string
  HH_Fps :: float32
  HH_HostSettings :: HeadlessHostSettings
  HH_AutoUpdatePolicy :: HostAutoUpdatePolicy
  HH_Memo :: string
  HH_InstanceId :: int32
  HH_GroupID :: string
  HH_CreatedBy :: "string option"

section \<open>Repository\<close>

definition HostConnectorType_DOCKER :: string where
  "HostConnectorType_DOCKER = ''docker''"

definition getConnector :: "string \<Rightarrow> unit res" where
  "getConnector connectorType =
     (if connectorType = HostConnectorType_DOCKER then Inr ()
      else Inl (ErrMsg (''unsupported connector type: '' @ connectorType)))"

definition HostRepository_UpdateHostSettings :: "db \<Rightarrow> string \<Rightarrow> HeadlessHostSettings \<Rightarrow> unit res \<times> db" where
  "HostRepository_UpdateHostSettings d hid settings =
     q_UpdateHostLastStartupConfig d hid (HeadlessHostSettingsToStartupConfigProto settings)"

definition HostRepository_UpdateAutoUpdatePolicy :: "db \<Rightarrow> string \<Rightarrow> HostAutoUpdatePolicy \<Rightarrow> unit res \<times> db" where
  "HostRepository_UpdateAutoUpdatePolicy d hid policy = q_UpdateHostAutoUpdatePolicy d hid policy"

definition HostRepository_GetGroupID :: "db \<Rightarrow> string \<Rightarrow> string res" where
  "HostRepository_GetGroupID d hid = bindR (map_err convertDBErr (q_GetHost d hid)) (\<lambda>h. Inr (Host_GroupID h))"

definition HostRepository_Rename :: "db \<Rightarrow> string \<Rightarrow> string \<Rightarrow> unit res \<times> db" where
  "HostRepository_Rename d hid newName = q_UpdateHostName d hid newName"

definition HostRepository_GetRpcClient :: "'w HostConnector \<Rightarrow> 'w \<Rightarrow> db \<Rightarrow> string \<Rightarrow> RpcClient res" where
  "HostRepository_GetRpcClient con w d hid =
     bindR (map_err convertDBErr (q_GetHost d hid)) (\<lambda>host.
     bindR (getConnector (Host_ConnectorType host)) (\<lambda>_.
     con_GetRpcClient con w (Host_ConnectString host)))"

text \<open>
  \<open>fetchHostInfo\<close> fills the entity in the order about, account, status and stops at the first failure;
  what was filled before stays.
\<close>

definition fetchHostInfo :: "HeadlessHost \<Rightarrow> RpcClient \<Rightarrow> unit res \<times> HeadlessHost" where
  "fetchHostInfo host client =
     (case rpc_GetAbout client of
        Inl e \<Rightarrow> (Inl e, host)
      | Inr (resoniteVersion, appVersion) \<Rightarrow>
          let host = host\<lparr>HH_ResoniteVersion := resoniteVersion, HH_AppVersion := appVersion\<rparr> in
          (case rpc_GetAccountInfo client of
             Inl e \<Rightarrow> (Inl e, host)
           | Inr (userId, displayName) \<Rightarrow>
               let host = host\<lparr>HH_AccountId := userId, HH_AccountName := displayName\<rparr> in
               (case rpc_GetStatus client of
                  Inl e \<Rightarrow> (Inl e, host)
                | Inr fps \<Rightarrow> (Inr (), host\<lparr>HH_Fps := fps\<rparr>))))"

definition base_entity :: "Host \<Rightarrow> HeadlessHostStatus \<Rightarrow> HeadlessHost" where
  "base_entity h status = \<lparr>HH_ID = Host_ID h, HH_Name = Host_Name h, HH_Status = status,
     HH_ResoniteVersion = [], HH_AppVersion = [], HH_AccountId = Host_AccountID h, HH_AccountName = [], HH_Fps = 0,
     HH_HostSettings = zero_settings, HH_AutoUpdatePolicy = Host_AutoUpdatePolicy h,
     HH_Memo = (case Host_Memo h of None \<Rightarrow> [] | Some m \<Rightarrow> m), HH_InstanceId = Host_InstanceCount h,
     HH_GroupID = Host_GroupID h, HH_CreatedBy = Host_CreatedBy h\<rparr>"

definition dbToEntity :: "'w HostConnector \<Rightarrow> 'w \<Rightarrow> db \<Rightarrow> Host \<Rightarrow> bool \<Rightarrow> HeadlessHost res" where
  "dbToEntity con w d dbHost includeStartWorlds =
     (let host = base_entity dbHost (Host_Status dbHost) in
      if Host_Status dbHost = HeadlessHostStatus_RUNNING then
        bindR (getConnector (Host_ConnectorType dbHost)) (\<lambda>_.
        case con_GetRpcClient con w (Host_ConnectString dbHost) of
          Inl _ \<Rightarrow> Inr host
        | Inr client \<Rightarrow>
            (case fetchHostInfo host client of
               (Inl _, host) \<Rightarrow> Inr host
             | (Inr _, host) \<Rightarrow>
                 (case rpc_GetStartupConfigToRestore client includeStartWorlds of
                    Inl _ \<Rightarrow> Inr host
                  | Inr cfg \<Rightarrow> Inr (host\<lparr>HH_HostSettings := HeadlessHostSettingsProtoToEntity cfg\<rparr>))))
      else
        let host = host\<lparr>HH_HostSettings := HeadlessHostSettingsProtoToEntity (Host_LastStartupConfig dbHost)\<rparr> in
        (case q_GetHeadlessAccount d (Host_AccountID dbHost) of
           Inl _ \<Rightarrow> Inr host
         | Inr account \<Rightarrow>
             Inr (host\<lparr>HH_AccountName := (case Account_LastDisplayName account of None \<Rightarrow> [] | Some n \<Rightarrow> n)\<rparr>)))"

definition dbHostsToEntities :: "'w HostConnector \<Rightarrow> 'w \<Rightarrow> db \<Rightarrow> Host list \<Rightarrow> bool \<Rightarrow> HeadlessHost list" where
  "dbHostsToEntities con w d hosts includeStartWorlds =
     map (\<lambda>h. case dbToEntity con w d h includeStartWorlds of
                Inl _ \<Rightarrow> base_entity h HeadlessHostStatus_UNKNOWN
              | Inr e \<Rightarrow> e) hosts"

definition HostRepository_Find :: "'w HostConnector \<Rightarrow> 'w \<Rightarrow> db \<Rightarrow> string \<Rightarrow> bool \<Rightarrow> HeadlessHost res" where
  "HostRepository_Find con w d hid includeStartWorlds =
     bindR (map_err convertDBErr (q_GetHost d hid)) (\<lambda>host. dbToEntity con w d host includeStartWorlds)"

definition HostRepository_ListAll :: "'w HostConnector \<Rightarrow> 'w \<Rightarrow> db \<Rightarrow> bool \<Rightarrow> HeadlessHost list res" where
  "HostRepository_ListAll con w d includeStartWorlds =
     bindR (map_err convertDBErr (q_ListHosts d)) (\<lambda>hosts. Inr (dbHostsToEntities con w d hosts includeStartWorlds))"

record HostListPageOptions =
  HostPage_PageIndex :: int32
  HostPage_PageSize :: int32
  HostPage_IncludeStartWorlds :: bool
  HostPage_GroupIDs :: "string list option"

record HostListPageResult =
  HostPage_Hosts :: "HeadlessHost list"
  HostPage_TotalCount :: int32

definition HostRepository_ListPaged :: "'w HostConnector \<Rightarrow> 'w \<Rightarrow> db \<Rightarrow> HostListPageOptions \<Rightarrow> HostListPageResult res" where
  "HostRepository_ListPaged con w d opts =
     bindR (map_err convertDBErr (q_ListHostsPaged d (HostPage_GroupIDs opts)
              (wrap32 (HostPage_PageIndex opts * HostPage_PageSize opts)) (HostPage_PageSize opts))) (\<lambda>rows.
     Inr \<lparr>HostPage_Hosts = dbHostsToEntities con w d (map fst rows) (HostPage_IncludeStartWorlds opts),
          HostPage_TotalCount = (case rows of [] \<Rightarrow> 0 | r # _ \<Rightarrow> wrap32 (int (snd r)))\<rparr>)"

definition HostRepository_ListRunningByAccount :: "db \<Rightarrow> string \<Rightarrow> HeadlessHost list res" where
  "HostRepository_ListRunningByAccount d accountId =
     bindR (map_err convertDBErr (q_ListRunningHostsByAccount d accountId)) (\<lambda>hosts.
     Inr (map (\<lambda>h. (base_entity h (Host_Status h))\<lparr>HH_Memo := [], HH_InstanceId := 0\<rparr>) hosts))"

definition HostRepository_ListContainerTags ::
  "'w HostConnector \<Rightarrow> 'w \<Rightarrow> string option \<Rightarrow> ContainerImage list res" where
  "HostRepository_ListContainerTags con w lastTag = con_ListContainerTags con w lastTag"

text \<open>The start parameters of \<open>usecase/port\<close>. A nil configuration is stored as the empty message.\<close>

record HeadlessHostStartParams =
  Start_Name :: string
  Start_ContainerImageTag :: string
  Start_HeadlessAccount :: HeadlessAccount
  Start_StartupConfig :: "StartupConfig option"
  Start_AutoUpdatePolicy :: HostAutoUpdatePolicy
  Start_Memo :: string
  Start_GroupID :: string

definition config_json :: "StartupConfig option \<Rightarrow> StartupConfig" where
  "config_json cfg = (case cfg of None \<Rightarrow> empty_config | Some x \<Rightarrow> x)"

text \<open>\<open>_ = q.UpdateHostStatus(...)\<close>: a failure is ignored.\<close>

definition set_host_status :: "string \<Rightarrow> HeadlessHostStatus \<Rightarrow> 'w ctl \<Rightarrow> 'w ctl" where
  "set_host_status hid st c = snd (onDb c (q_UpdateHostStatus (lv_db c) hid st))"

definition HostRepository_Restart ::
  "'w HostConnector \<Rightarrow> 'w ctl \<Rightarrow> string \<Rightarrow> HeadlessHostStartParams \<Rightarrow> int \<Rightarrow> unit res \<times> 'w ctl" where
  "HostRepository_Restart con c hid newStartupConfig timeoutSeconds =
     checkS (map_err convertDBErr (q_GetHost (lv_db c) hid)) c (\<lambda>dbHost.
     checkS (getConnector (Host_ConnectorType dbHost)) c (\<lambda>_.
     let connectStr = Host_ConnectString dbHost;
         wasRunning = (Host_Status dbHost = HeadlessHostStatus_RUNNING);
         c = set_host_status hid HeadlessHostStatus_STOPPING c in
     bindS (if wasRunning then onWorld c (con_Stop con (ct_world c) connectStr timeoutSeconds) else (Inr (), c)) (\<lambda>_ c.
     bindS (onWorld c (con_Remove con (ct_world c) connectStr)) (\<lambda>_ c.
     bindS (map_errS convertDBErr (onDb c (q_UpdateHostMemo (lv_db c) hid (Some (Start_Memo newStartupConfig))))) (\<lambda>_ c.
     bindS (map_errS convertDBErr (onDb c (q_UpdateHostAutoUpdatePolicy (lv_db c) hid
                                             (Start_AutoUpdatePolicy newStartupConfig)))) (\<lambda>_ c.
     let c = set_host_status hid HeadlessHostStatus_STARTING c in
     bindS (map_errS convertDBErr (onDb c (q_IncrementHostInstanceCount (lv_db c) hid))) (\<lambda>instanceCount c.
     bindS (onWorld c (con_Start con (ct_world c)
              \<lparr>Hsp_ID = hid, Hsp_InstanceId = instanceCount,
               Hsp_ContainerImageTag = Start_ContainerImageTag newStartupConfig,
               Hsp_HeadlessAccount = Start_HeadlessAccount newStartupConfig,
               Hsp_StartupConfig = Start_StartupConfig newStartupConfig\<rparr>)) (\<lambda>newConnectStr c.
     bindS (map_errS convertDBErr (onDb c (q_UpdateHostConnectString (lv_db c) hid newConnectStr))) (\<lambda>_ c.
     let c = set_host_status hid HeadlessHostStatus_RUNNING c in
     map_errS convertDBErr (onDb c (q_UpdateHostLastStartupConfig (lv_db c) hid
                                      (config_json (Start_StartupConfig newStartupConfig)))))))))))))"

text \<open>
  \<open>Start\<close> first starts the container and then writes the row; when the row cannot be written, the
  container is stopped and removed again. \<open>newId\<close> is the id drawn by \<open>uniuri\<close>.
\<close>

definition new_host_row ::
  "string \<Rightarrow> string \<Rightarrow> HeadlessHostStartParams \<Rightarrow> string option \<Rightarrow> string \<Rightarrow> time \<Rightarrow> Host" where
  "new_host_row newId connector params userId newConnectStr now =
     \<lparr>Host_ID = newId, Host_Name = Start_Name params, Host_Status = HeadlessHostStatus_RUNNING,
      Host_AccountID = Account_ResoniteID (Start_HeadlessAccount params),
      Host_CreatedBy = (if blank_ptr userId then None else userId),
      Host_LastStartupConfig = config_json (Start_StartupConfig params), Host_ConnectorType = connector,
      Host_ConnectString = newConnectStr, Host_StartedAt = Some now,
      Host_Memo = Some (Start_Memo params), Host_AutoUpdatePolicy = Start_AutoUpdatePolicy params,
      Host_InstanceCount = 1, Host_GroupID = Start_GroupID params\<rparr>"

definition HostRepository_Start ::
  "'w HostConnector \<Rightarrow> string \<Rightarrow> 'w ctl \<Rightarrow> string \<Rightarrow> HeadlessHostStartParams \<Rightarrow> string option \<Rightarrow> string res \<times> 'w ctl" where
  "HostRepository_Start con newId c connector params userId =
     checkS (getConnector connector) c (\<lambda>_.
     bindS (onWorld c (con_Start con (ct_world c)
              \<lparr>Hsp_ID = newId, Hsp_InstanceId = 1, Hsp_ContainerImageTag = Start_ContainerImageTag params,
               Hsp_HeadlessAccount = Start_HeadlessAccount params,
               Hsp_StartupConfig = Start_StartupConfig params\<rparr>)) (\<lambda>newConnectStr c.
     case onDb c (q_CreateHost (lv_db c)
                    (new_host_row newId connector params userId newConnectStr (db_now (lv_db c)))) of
       (Inr dbHost, c) \<Rightarrow> (Inr (Host_ID dbHost), c)
     | (Inl e, c) \<Rightarrow>
         let c = snd (onWorld c (con_Stop con (ct_world c) newConnectStr 10));
             c = snd (onWorld c (con_Remove con (ct_world c) newConnectStr))
         in (Inl (convertDBErr e), c)))"

definition HostRepository_Stop :: "'w HostConnector \<Rightarrow> 'w ctl \<Rightarrow> string \<Rightarrow> int \<Rightarrow> unit res \<times> 'w ctl" where
  "HostRepository_Stop con c hid timeoutSeconds =
     checkS (map_err convertDBErr (q_GetHost (lv_db c) hid)) c (\<lambda>dbHost.
     checkS (getConnector (Host_ConnectorType dbHost)) c (\<lambda>_.
     let c = set_host_status (Host_ID dbHost) HeadlessHostStatus_STOPPING c in
     checkS (con_GetRpcClient con (ct_world c) (Host_ConnectString dbHost)) c (\<lambda>client.
     checkS (rpc_GetStartupConfigToRestore client True) c (\<lambda>startupConfig.
     bindS (map_errS convertDBErr (onDb c (q_UpdateHostLastStartupConfig (lv_db c) (Host_ID dbHost) startupConfig))) (\<lambda>_ c.
     bindS (onWorld c (con_Stop con (ct_world c) (Host_ConnectString dbHost) timeoutSeconds)) (\<lambda>_ c.
     (Inr (), set_host_status (Host_ID dbHost) HeadlessHostStatus_EXITED c)))))))"

definition HostRepository_Kill :: "'w HostConnector \<Rightarrow> 'w ctl \<Rightarrow> string \<Rightarrow> unit res \<times> 'w ctl" where
  "HostRepository_Kill con c hid =
     checkS (map_err convertDBErr (q_GetHost (lv_db c) hid)) c (\<lambda>dbHost.
     checkS (getConnector (Host_ConnectorType dbHost)) c (\<lambda>_.
     let c = set_host_status (Host_ID dbHost) HeadlessHostStatus_STOPPING c in
     bindS (onWorld c (con_Kill con (ct_world c) (Host_ConnectString dbHost))) (\<lambda>_ c.
     (Inr (), set_host_status (Host_ID dbHost) HeadlessHostStatus_EXITED c))))"

definition HostRepository_Delete :: "'w HostConnector \<Rightarrow> 'w ctl \<Rightarrow> string \<Rightarrow> unit res \<times> 'w ctl" where
  "HostRepository_Delete con c hid =
     (case q_GetHost (lv_db c) hid of
        Inl e \<Rightarrow> if convertDBErr e = ErrNotFound then (Inr (), c) else (Inl (convertDBErr e), c)
      | Inr dbHost \<Rightarrow>
          checkS (getConnector (Host_ConnectorType dbHost)) c (\<lambda>_.
          bindS (onWorld c (con_Remove con (ct_world c) (Host_ConnectString dbHost))) (\<lambda>_ c.
          bindS (onDb c (q_DeleteContainerLogsByHostID (lv_db c) hid)) (\<lambda>_ c.
          onDb c (q_DeleteHost (lv_db c) hid)))))"

text \<open>Logs: \<open>%d\<close> of an instance number, and a row that does not parse is skipped.\<close>

fun show_nat :: "nat \<Rightarrow> string" where
  "show_nat n = (if n < 10 then [char_of (48 + n)] else show_nat (n div 10) @ [char_of (48 + n mod 10)])"

definition show_int :: "int \<Rightarrow> string" where
  "show_int i = (if i < 0 then ''-'' @ show_nat (nat (- i)) else show_nat (nat i))"

record LogLine =
  Line_ID :: int
  Line_Timestamp :: time
  Line_IsError :: bool
  Line_Body :: string

record GetLogsParams =
  Logs_HostID :: string
  Logs_InstanceID :: int32
  Logs_Limit :: int32
  Logs_BeforeID :: int
  Logs_AfterID :: int

definition TrimSuffix_nl :: "string \<Rightarrow> string" where
  "TrimSuffix_nl s = (if s \<noteq> [] \<and> last s = CHR 0x0A then butlast s else s)"

definition parseContainerLogRow :: "ContainerLog \<Rightarrow> LogLine option" where
  "parseContainerLogRow row =
     (case Log_Data row of
        None \<Rightarrow> None
      | Some (log, stream) \<Rightarrow>
          (case Log_Ts row of
             None \<Rightarrow> None
           | Some ts \<Rightarrow> Some \<lparr>Line_ID = Log_ID row, Line_Timestamp = ts, Line_IsError = (stream = ''stderr''),
                              Line_Body = TrimSuffix_nl log\<rparr>))"

definition log_tag :: "string \<Rightarrow> int32 \<Rightarrow> string" where
  "log_tag hid inst = ''headless-'' @ hid @ ''-'' @ show_int inst"

definition HostRepository_GetLogs :: "db \<Rightarrow> GetLogsParams \<Rightarrow> LogLine list res" where
  "HostRepository_GetLogs d params =
     (let queryLimit = (if Logs_Limit params \<le> 0 then 100 else Logs_Limit params) in
      bindR (q_GetContainerLogsByTag d (log_tag (Logs_HostID params) (Logs_InstanceID params))
               (Logs_BeforeID params) (Logs_AfterID params) queryLimit) (\<lambda>rows.
      Inr (rev (List.map_filter parseContainerLogRow rows))))"

section \<open>Lemmas\<close>

lemma onDb_simps [simp]:
  "fst (onDb c r) = fst r" "lv_db (snd (onDb c r)) = snd r" "lv_cache (snd (onDb c r)) = lv_cache c"
  by (simp_all add: onDb_def)

lemma onDb_world [simp]: "ct_world (snd (onDb c r)) = ct_world c"
  by (simp add: onDb_def)

lemma onWorld_simps [simp]:
  "fst (onWorld c r) = fst r" "lv_db (snd (onWorld c r)) = lv_db c" "lv_cache (snd (onWorld c r)) = lv_cache c"
  "ct_world (snd (onWorld c r)) = snd r"
  by (simp_all add: onWorld_def)

lemma onDb_Inr_iff [ctrl_simps]: "onDb c r = (Inr x, c1) \<longleftrightarrow> (\<exists>d1. r = (Inr x, d1) \<and> c1 = c\<lparr>lv_db := d1\<rparr>)"
  by (cases r) (auto simp: onDb_def)

lemma onWorld_Inr_iff [ctrl_simps]: "onWorld c r = (Inr x, c1) \<longleftrightarrow> (\<exists>w1. r = (Inr x, w1) \<and> c1 = c\<lparr>ct_world := w1\<rparr>)"
  by (cases r) (auto simp: onWorld_def)

lemma no_faults_hosts [simp]:
  "no_faults (d\<lparr>db_hosts := hs\<rparr>) = no_faults d" "no_faults (update_host hid f d) = no_faults d"
  by (simp_all add: no_faults_def update_host_def)

lemma host_of_update:
  "(\<And>h. Host_ID (f h) = Host_ID h) \<Longrightarrow>
     host_of (update_host hid f d) x = (if x = hid then map_option f (host_of d x) else host_of d x)"
proof -
  assume f: "\<And>h. Host_ID (f h) = Host_ID h"
  have "tbl_get (host_row x) (tbl_update (host_row hid) f xs)
          = (if x = hid then map_option f (tbl_get (host_row x) xs) else tbl_get (host_row x) xs)" for xs
    using f by (induction xs) auto
  then show ?thesis by (simp add: host_of_def update_host_def)
qed

lemma q_GetHost_total:
  "no_faults d \<Longrightarrow> q_GetHost d hid = (case host_of d hid of None \<Rightarrow> Inl ErrNoRows | Some h \<Rightarrow> Inr h)"
  by (simp add: q_GetHost_def host_of_def)

lemma host_ID_of: "host_of d hid = Some h \<Longrightarrow> Host_ID h = hid \<and> h \<in> set (db_hosts d)"
  by (auto simp: host_of_def dest: tbl_get_SomeD)

lemma q_GetHost_Inr: "q_GetHost d hid = Inr h \<Longrightarrow> host_of d hid = Some h"
  by (auto simp: q_GetHost_def host_of_def ctrl_simps split: option.splits)

lemma new_host_row_simps [simp]:
  "Host_ID (new_host_row i cn p u cs t) = i" "Host_Status (new_host_row i cn p u cs t) = HeadlessHostStatus_RUNNING"
  "Host_GroupID (new_host_row i cn p u cs t) = Start_GroupID p" "Host_ConnectString (new_host_row i cn p u cs t) = cs"
  by (simp_all add: new_host_row_def)

lemma q_CreateHost_cases:
  "q_CreateHost d h = (r, d') \<Longrightarrow>
     (case r of Inl _ \<Rightarrow> d' = d
      | Inr h' \<Rightarrow> h' = h \<and> d' = d\<lparr>db_hosts := db_hosts d @ [h]\<rparr> \<and> host_of d' (Host_ID h) = Some h)"
  by (auto simp: q_CreateHost_def writeQ_def host_of_def tbl_get_append tbl_exists_iff
      split: option.splits if_splits dest!: tbl_get_SomeD)

lemma settings_roundtrip_conv:
  "HeadlessHostSettingsProtoToEntity (HeadlessHostSettingsToStartupConfigProto s) = s\<lparr>Settings_AutoSpawnItems := []\<rparr>"
proof -
  have copy: "\<lparr>Access_Host = Access_Host x, Access_Ports = Access_Ports x, Access_Types = Access_Types x\<rparr> = x" for x
    by simp
  show ?thesis
    by (simp add: HeadlessHostSettingsProtoToEntity_def HeadlessHostSettingsToStartupConfigProto_def copy comp_def)
qed

section \<open>Properties\<close>

text \<open>
  C16: settings survive the trip to the database, except the auto-spawn items. Converting settings to a
  startup configuration and back gives them unchanged but with an empty list of auto-spawn items; so
  after \<open>UpdateHostSettings\<close> a host that is not running is read back without them.
\<close>

theorem settings_roundtrip:
  "HeadlessHostSettingsProtoToEntity (HeadlessHostSettingsToStartupConfigProto s) = s\<lparr>Settings_AutoSpawnItems := []\<rparr>
   \<and> (no_faults d \<and> (\<exists>h. host_of d hid = Some h \<and> Host_Status h \<noteq> HeadlessHostStatus_RUNNING) \<longrightarrow>
        (\<exists>e. HostRepository_Find con w (snd (HostRepository_UpdateHostSettings d hid s)) hid iw = Inr e
           \<and> HH_HostSettings e = s\<lparr>Settings_AutoSpawnItems := []\<rparr>))"
proof -
  note conv = settings_roundtrip_conv
  have "\<exists>e. HostRepository_Find con w (snd (HostRepository_UpdateHostSettings d hid s)) hid iw = Inr e
      \<and> HH_HostSettings e = s\<lparr>Settings_AutoSpawnItems := []\<rparr>"
    if "no_faults d" "host_of d hid = Some h" "Host_Status h \<noteq> HeadlessHostStatus_RUNNING" for h
    using that
    by (auto simp: HostRepository_Find_def HostRepository_UpdateHostSettings_def q_UpdateHostLastStartupConfig_def
        q_GetHost_total host_of_update dbToEntity_def Let_def conv q_GetHeadlessAccount_def split: option.split)
  then show ?thesis using conv by blast
qed

text \<open>
  C15: no container is left behind. When the runtime reports the containers it starts, stops without
  removing and removes on request, a \<open>Start\<close> that fails after the container was started leaves the
  same containers and the same database as before, and one that succeeds adds exactly that container
  and its row, in the requested group and with its connect string.
\<close>

definition lawful_runtime :: "'w HostConnector \<Rightarrow> ('w \<Rightarrow> string set) \<Rightarrow> bool" where
  "lawful_runtime con containers \<longleftrightarrow>
     (\<forall>w p cs. fst (con_Start con w p) = Inr cs \<longrightarrow> containers (snd (con_Start con w p)) = insert cs (containers w))
     \<and> (\<forall>w cs t. containers (snd (con_Stop con w cs t)) = containers w)
     \<and> (\<forall>w cs. cs \<in> containers w \<and> fst (con_Remove con w cs) = Inr () \<longrightarrow> containers (snd (con_Remove con w cs)) = containers w - {cs})"


section \<open>Instances\<close>

text \<open>A runtime whose state is the set of its containers; its containers answer no calls.\<close>

definition silent_client :: RpcClient where
  "silent_client = \<lparr>rpc_StartWorld = (\<lambda>_. Inl ErrCanceled), rpc_StopSession = (\<lambda>_. Inl ErrCanceled),
     rpc_GetSession = (\<lambda>_. Inl ErrCanceled), rpc_ListSessions = Inl ErrCanceled,
     rpc_UpdateSessionParameters = (\<lambda>_. Inl ErrCanceled), rpc_SaveSessionWorld = (\<lambda>_. Inl ErrCanceled),
     rpc_SaveAsSessionWorld = (\<lambda>_ _. Inl ErrCanceled), rpc_GetStartupConfigToRestore = (\<lambda>_. Inl ErrCanceled),
     rpc_GetAbout = Inl ErrCanceled, rpc_GetAccountInfo = Inl ErrCanceled, rpc_GetStatus = Inl ErrCanceled\<rparr>"

definition plain_image :: "string \<Rightarrow> bool \<Rightarrow> ContainerImage" where
  "plain_image tag pre = \<lparr>Image_Tag = tag, Image_ResoniteVersion = [], Image_IsPreRelease = pre, Image_AppVersion = []\<rparr>"

definition set_runtime :: "string set HostConnector" where
  "set_runtime = \<lparr>con_GetRpcClient = (\<lambda>w cs. if cs \<in> w then Inr silent_client else Inl (ErrMsg ''unreachable'')),
     con_ListContainerTags = (\<lambda>w _. Inr [plain_image ''1.0'' False, plain_image ''1.1-pre'' True]),
     con_Start = (\<lambda>w p. (Inr (''c-'' @ Hsp_ID p), insert (''c-'' @ Hsp_ID p) w)),
     con_Stop = (\<lambda>w _ _. (Inr (), w)), con_Kill = (\<lambda>w _. (Inr (), w)), con_Remove = (\<lambda>w cs. (Inr (), w - {cs}))\<rparr>"

definition sample_account :: HeadlessAccount where
  "sample_account = \<lparr>Account_ResoniteID = ''U-acc'', Account_Credential = ''cred'', Account_Password = ''pw'',
     Account_LastDisplayName = None, Account_LastIconUrl = None, Account_GroupID = ''team'', Account_CreatedBy = None\<rparr>"

definition start_params :: "string \<Rightarrow> HeadlessHostStartParams" where
  "start_params gid = \<lparr>Start_Name = ''new'', Start_ContainerImageTag = ''1.0'', Start_HeadlessAccount = sample_account,
     Start_StartupConfig = None, Start_AutoUpdatePolicy = HostAutoUpdatePolicy_NEVER, Start_Memo = ''memo'', Start_GroupID = gid\<rparr>"

definition sample_ctl :: "string set ctl" where
  "sample_ctl = \<lparr>lv_db = session_db\<lparr>db_accounts := [sample_account]\<rparr>, lv_cache = lv_cache sample_live, ct_world = {''h1''}\<rparr>"

lemma set_runtime_lawful: "lawful_runtime set_runtime (\<lambda>w. w)"
  by (simp add: lawful_runtime_def set_runtime_def Let_def)


definition spawn_settings :: HeadlessHostSettings where
  "spawn_settings = zero_settings\<lparr>Settings_TickRate := 60, Settings_AutoSpawnItems := [''item'']\<rparr>"

definition exited_db :: db where
  "exited_db = session_db\<lparr>db_hosts := [(plain_host ''h1'')\<lparr>Host_Status := HeadlessHostStatus_EXITED\<rparr>]\<rparr>"

theorem settings_roundtrip_witness:
  "\<exists>e. HostRepository_Find set_runtime {} (snd (HostRepository_UpdateHostSettings exited_db ''h1'' spawn_settings)) ''h1'' True = Inr e
     \<and> HH_HostSettings e = zero_settings\<lparr>Settings_TickRate := 60\<rparr>"
proof -
  have "no_faults exited_db" by (simp add: exited_db_def)
  moreover have "host_of exited_db ''h1'' = Some ((plain_host ''h1'')\<lparr>Host_Status := HeadlessHostStatus_EXITED\<rparr>)"
    by (simp add: exited_db_def host_of_def plain_host_def)
  ultimately have "\<exists>e. HostRepository_Find set_runtime {} (snd (HostRepository_UpdateHostSettings exited_db ''h1'' spawn_settings)) ''h1'' True = Inr e
     \<and> HH_HostSettings e = spawn_settings\<lparr>Settings_AutoSpawnItems := []\<rparr>"
    using settings_roundtrip[of spawn_settings exited_db "''h1''" set_runtime "{}" True] by (simp add: plain_host_def)
  then show ?thesis by (simp add: spawn_settings_def zero_settings_def)
qed

end
