(* ===== verification/SessionUsecase.thy ===== *)
theory SessionUsecase
  imports HostStore PermissionUsecase "HOL-Library.Multiset"
begin

text \<open>
  The session usecase (\<open>usecase/session_usecase.go\<close>): starting, stopping, reading, searching, changing
  and deleting sessions, and the search for a free port. Arguments of the model are the container
  runtime \<open>con\<close>, whether a host is being drained (\<open>port.HostDrainer\<close>), whether the operating system
  can listen on a port, the nanoseconds of the clock, and the claims of the caller. An operation
  returns its result and the new state.
\<close>

section \<open>Free ports\<close>

text \<open>
  The search starts at a clock-dependent offset and walks once around the range. An empty range with
  \<open>max = min - 1\<close> divides by zero, which Go reports as a run-time panic; here it is the error of the call.
\<close>

definition panic :: "string \<Rightarrow> err" where
  "panic msg = ErrMsg (''runtime error: '' @ msg)"

definition port_candidates :: "int \<Rightarrow> int \<Rightarrow> int \<Rightarrow> int list" where
  "port_candidates nano pmin pmax =
     map (\<lambda>i. pmin + (nano mod (pmax - pmin + 1) + i) mod (pmax - pmin + 1)) [0..pmax - pmin]"

definition getFreeSessionPort :: "(int \<Rightarrow> bool) \<Rightarrow> int \<Rightarrow> int \<Rightarrow> int \<Rightarrow> int res" where
  "getFreeSessionPort isPortAvailable nano pmin pmax =
     (if pmin = 0 \<and> pmax = 0 then Inr 0
      else if pmax - pmin + 1 = 0 then Inl (panic ''integer divide by zero'')
      else case List.find isPortAvailable (port_candidates nano pmin pmax) of
             Some p \<Rightarrow> Inr p
           | None \<Rightarrow> Inl (ErrMsg ''no free port found in range''))"

section \<open>Starting and stopping\<close>

record session_env =
  env_IsHostDraining :: "string \<Rightarrow> bool"
  env_isPortAvailable :: "int \<Rightarrow> bool"
  env_nano :: int
  env_portMin :: int
  env_portMax :: int

text \<open>The parameters handed to the container: a free port is filled in when none was asked for.\<close>

definition params_for_container ::
  "session_env \<Rightarrow> WorldStartupParameters option \<Rightarrow> WorldStartupParameters option res" where
  "params_for_container env params =
     (if (case params of None \<Rightarrow> 0 | Some p \<Rightarrow> Wsp_ForcePort p) = 0 then
        bindR (getFreeSessionPort (env_isPortAvailable env) (env_nano env) (env_portMin env) (env_portMax env)) (\<lambda>autoPort.
        if autoPort \<noteq> 0 then
          (case params of
             None \<Rightarrow> Inl (panic ''invalid memory address or nil pointer dereference'')
           | Some p \<Rightarrow> Inr (Some (p\<lparr>Wsp_ForcePort := nat (autoPort mod 2 ^ 32)\<rparr>)))
        else Inr params)
      else Inr params)"

text \<open>The getters of a nil message return zero values.\<close>

definition snap_Id :: "SessionSnapshot option \<Rightarrow> string" where
  "snap_Id s = (case s of None \<Rightarrow> [] | Some x \<Rightarrow> Snap_Id x)"

definition snap_Name :: "SessionSnapshot option \<Rightarrow> string" where
  "snap_Name s = (case s of None \<Rightarrow> [] | Some x \<Rightarrow> Snap_Name x)"

definition snap_StartedAt :: "SessionSnapshot option \<Rightarrow> time" where
  "snap_StartedAt s = (case s of None \<Rightarrow> 0 | Some x \<Rightarrow> Snap_StartedAt x)"

definition StartSession ::
  "'w HostConnector \<Rightarrow> session_env \<Rightarrow> 'w ctl \<Rightarrow> claims \<Rightarrow> string \<Rightarrow> string \<Rightarrow> string option
     \<Rightarrow> WorldStartupParameters option \<Rightarrow> string option \<Rightarrow> Session res \<times> 'w ctl" where
  "StartSession con env c caller hostId groupID userId params memo =
     (if env_IsHostDraining env hostId then (Inl ErrHostDraining, c)
      else
        checkS (HostRepository_GetGroupID (lv_db c) hostId) c (\<lambda>hostGroupID.
        if groupID \<noteq> [] \<and> groupID \<noteq> hostGroupID then (Inl (ErrMsg ''session group must equal host group''), c)
        else
        checkS (RequireAllPermissionsForGroup (lv_db c) caller hostGroupID
                  [PermKey_HostUse, PermKey_AccountUse, PermKey_SessionWrite]) c (\<lambda>_.
        checkS (HostRepository_GetRpcClient con (ct_world c) (lv_db c) hostId) c (\<lambda>client.
        checkS (params_for_container env params) c (\<lambda>paramsForContainer.
        checkS (rpc_StartWorld client paramsForContainer) c (\<lambda>openedSession.
        let session = \<lparr>Session_ID = snap_Id openedSession, Session_Name = snap_Name openedSession,
              Session_Status = SessionStatus_RUNNING, Session_StartedAt = Some (snap_StartedAt openedSession),
              Session_CreatedBy = userId, Session_EndedAt = None, Session_HostID = hostId,
              Session_StartupParameters = params, Session_AutoUpgrade = False,
              Session_Memo = (case memo of None \<Rightarrow> [] | Some m \<Rightarrow> m),
              Session_CurrentState = openedSession, Session_GroupID = hostGroupID\<rparr> in
        bindS (onDb c (SessionRepository_Upsert (lv_db c) session)) (\<lambda>_ c.
        (Inr session, c\<lparr>lv_cache := Cache_Set (lv_cache c) hostId (snap_Id openedSession) openedSession\<rparr>))))))))"

definition with_world_url :: "SessionSnapshot option \<Rightarrow> Session \<Rightarrow> Session" where
  "with_world_url snapshot s =
     (case snapshot of
        None \<Rightarrow> s
      | Some x \<Rightarrow>
          if Snap_WorldUrl x \<noteq> [] \<and> Session_StartupParameters s \<noteq> None
          then s\<lparr>Session_StartupParameters :=
                   map_option (\<lambda>p. p\<lparr>Wsp_LoadWorld := Some (LoadWorldUrl (Snap_WorldUrl x))\<rparr>) (Session_StartupParameters s)\<rparr>
          else s)"

definition StopSession :: "'w HostConnector \<Rightarrow> 'w ctl \<Rightarrow> claims \<Rightarrow> string \<Rightarrow> unit res \<times> 'w ctl" where
  "StopSession con c caller sid =
     checkS (SessionRepository_Get (lv_db c) sid) c (\<lambda>s.
     checkS (RequirePermissionForGroup (lv_db c) caller (Session_GroupID s) PermKey_SessionWrite) c (\<lambda>_.
     checkS (HostRepository_GetRpcClient con (ct_world c) (lv_db c) (Session_HostID s)) c (\<lambda>client.
     let s = with_world_url (Cache_Get (lv_cache c) sid) s in
     checkS (rpc_StopSession client sid) c (\<lambda>_.
     let s = s\<lparr>Session_EndedAt := Some (db_now (lv_db c)), Session_Status := SessionStatus_ENDED\<rparr> in
     bindS (onDb c (SessionRepository_Upsert (lv_db c) s)) (\<lambda>_ c.
     (Inr (), c\<lparr>lv_cache := Cache_Delete (lv_cache c) sid\<rparr>))))))"

section \<open>Reading\<close>

text \<open>The row is moved to the observed status when it differs; a failing update is ignored.\<close>

definition settle :: "'w ctl \<Rightarrow> Session \<Rightarrow> SessionStatus \<Rightarrow> Session res \<times> 'w ctl" where
  "settle c s status =
     (if Session_Status s \<noteq> status
      then (Inr (s\<lparr>Session_Status := status\<rparr>),
            snd (onDb c (SessionRepository_UpdateStatus (lv_db c) (Session_ID s) status)))
      else (Inr s, c))"

definition GetSession :: "'w HostConnector \<Rightarrow> 'w ctl \<Rightarrow> string \<Rightarrow> Session res \<times> 'w ctl" where
  "GetSession con c sid =
     checkS (SessionRepository_Get (lv_db c) sid) c (\<lambda>dbSession.
     if Session_Status dbSession = SessionStatus_ENDED then (Inr dbSession, c)
     else
       case Cache_Get (lv_cache c) sid of
         Some snapshot \<Rightarrow> settle c (dbSession\<lparr>Session_CurrentState := Some snapshot\<rparr>) SessionStatus_RUNNING
       | None \<Rightarrow>
           (case HostRepository_GetRpcClient con (ct_world c) (lv_db c) (Session_HostID dbSession) of
              Inl _ \<Rightarrow> settle c dbSession SessionStatus_CRASHED
            | Inr client \<Rightarrow>
                (case rpc_GetSession client sid of
                   Inr (Some snapshot) \<Rightarrow>
                     settle (c\<lparr>lv_cache := Cache_Set (lv_cache c) (Session_HostID dbSession) sid (Some snapshot)\<rparr>)
                       (dbSession\<lparr>Session_CurrentState := Some snapshot\<rparr>) SessionStatus_RUNNING
                 | _ \<Rightarrow> settle c dbSession SessionStatus_CRASHED)))"

record SearchSessionsFilter =
  Filter_HostID :: "string option"
  Filter_Status :: "SessionStatus option"
  Filter_PageIndex :: int32
  Filter_PageSize :: int32
  Filter_GroupIDs :: "string list option"

definition hydrateCurrentState :: "MemoryCache \<Rightarrow> Session list \<Rightarrow> Session list" where
  "hydrateCurrentState cache sessions =
     map (\<lambda>s. case Cache_Get cache (Session_ID s) of
                None \<Rightarrow> s | Some snapshot \<Rightarrow> s\<lparr>Session_CurrentState := Some snapshot\<rparr>) sessions"

definition SearchSessions :: "'w ctl \<Rightarrow> SearchSessionsFilter \<Rightarrow> (Session list \<times> int32) res" where
  "SearchSessions c flt =
     (if 0 < Filter_PageSize flt then
        bindR (SessionRepository_ListPaged (lv_db c)
                 \<lparr>Page_HostID = Filter_HostID flt, Page_Status = Filter_Status flt,
                  Page_PageIndex = Filter_PageIndex flt, Page_PageSize = Filter_PageSize flt,
                  Page_GroupIDs = Filter_GroupIDs flt\<rparr>) (\<lambda>page.
        Inr (hydrateCurrentState (lv_cache c) (PageResult_Sessions page), PageResult_TotalCount page))
      else
        bindR (case Filter_Status flt of
                 Some st \<Rightarrow> SessionRepository_ListByStatus (lv_db c) st
               | None \<Rightarrow> SessionRepository_ListAll (lv_db c)) (\<lambda>dbSessions.
        let onHost = (case Filter_HostID flt of
                        None \<Rightarrow> dbSessions | Some h \<Rightarrow> filter (\<lambda>s. Session_HostID s = h) dbSessions);
            inGroups = (case Filter_GroupIDs flt of
                          None \<Rightarrow> onHost | Some gs \<Rightarrow> filter (\<lambda>s. Session_GroupID s \<in> set gs) onHost)
        in Inr (hydrateCurrentState (lv_cache c) inGroups, wrap32 (int (length inGroups)))))"

section \<open>Changing\<close>

definition or_else :: "'a option \<Rightarrow> 'a \<Rightarrow> 'a" where
  "or_else new old = (case new of None \<Rightarrow> old | Some x \<Rightarrow> x)"

definition updateStartupParamsByUpdateRequest ::
  "WorldStartupParameters \<Rightarrow> UpdateSessionParametersRequest \<Rightarrow> WorldStartupParameters" where
  "updateStartupParamsByUpdateRequest current params = current\<lparr>
     Wsp_Name := (if Usp_Name params \<noteq> None then Usp_Name params else Wsp_Name current),
     Wsp_Description := (if Usp_Description params \<noteq> None then Usp_Description params else Wsp_Description current),
     Wsp_MaxUsers := (if Usp_MaxUsers params \<noteq> None then Usp_MaxUsers params else Wsp_MaxUsers current),
     Wsp_AccessLevel := or_else (Usp_AccessLevel params) (Wsp_AccessLevel current),
     Wsp_AwayKickMinutes := or_else (Usp_AwayKickMinutes params) (Wsp_AwayKickMinutes current),
     Wsp_IdleRestartIntervalSeconds :=
       or_else (Usp_IdleRestartIntervalSeconds params) (Wsp_IdleRestartIntervalSeconds current),
     Wsp_SaveOnExit := or_else (Usp_SaveOnExit params) (Wsp_SaveOnExit current),
     Wsp_AutoSaveIntervalSeconds := or_else (Usp_AutoSaveIntervalSeconds params) (Wsp_AutoSaveIntervalSeconds current),
     Wsp_AutoSleep := or_else (Usp_AutoSleep params) (Wsp_AutoSleep current),
     Wsp_HideFromPublicListing := or_else (Usp_HideFromPublicListing params) (Wsp_HideFromPublicListing current),
     Wsp_Tags := (if Usp_UpdateTags params then Usp_Tags params else Wsp_Tags current)\<rparr>"

text \<open>A row always has startup parameters, so the update is applied to the ones that are there.\<close>

definition UpdateSessionParameters ::
  "'w HostConnector \<Rightarrow> 'w ctl \<Rightarrow> claims \<Rightarrow> string \<Rightarrow> UpdateSessionParametersRequest \<Rightarrow> unit res \<times> 'w ctl" where
  "UpdateSessionParameters con c caller sid params =
     checkS (SessionRepository_Get (lv_db c) sid) c (\<lambda>s.
     checkS (RequirePermissionForGroup (lv_db c) caller (Session_GroupID s) PermKey_SessionWrite) c (\<lambda>_.
     checkS (HostRepository_GetRpcClient con (ct_world c) (lv_db c) (Session_HostID s)) c (\<lambda>client.
     checkS (rpc_UpdateSessionParameters client params) c (\<lambda>_.
     checkS (rpc_GetSession client sid) c (\<lambda>newSession.
     let s = s\<lparr>Session_StartupParameters :=
                map_option (\<lambda>p. updateStartupParamsByUpdateRequest p params) (Session_StartupParameters s),
               Session_Name := snap_Name newSession\<rparr> in
     bindS (onDb c (SessionRepository_Upsert (lv_db c) s)) (\<lambda>_ c.
     (Inr (), c\<lparr>lv_cache := Cache_Set (lv_cache c) (Session_HostID s) sid newSession\<rparr>)))))))"

definition DeleteSession :: "'w ctl \<Rightarrow> claims \<Rightarrow> string \<Rightarrow> unit res \<times> 'w ctl" where
  "DeleteSession c caller sid =
     checkS (SessionRepository_Get (lv_db c) sid) c (\<lambda>s.
     checkS (RequirePermissionForGroup (lv_db c) caller (Session_GroupID s) PermKey_SessionWrite) c (\<lambda>_.
     bindS (onDb c (SessionRepository_Delete (lv_db c) sid)) (\<lambda>_ c.
     (Inr (), c\<lparr>lv_cache := Cache_Delete (lv_cache c) sid\<rparr>))))"

datatype SaveMode = SaveMode_OVERWRITE | SaveMode_SAVE_AS | SaveMode_COPY | SaveMode_Other int32

definition SaveSessionWorld ::
  "'w HostConnector \<Rightarrow> 'w ctl \<Rightarrow> claims \<Rightarrow> string \<Rightarrow> SaveMode \<Rightarrow> string res \<times> 'w ctl" where
  "SaveSessionWorld con c caller sid saveMode =
     bindS (GetSession con c sid) (\<lambda>s c.
     checkS (RequirePermissionForGroup (lv_db c) caller (Session_GroupID s) PermKey_SessionWrite) c (\<lambda>_.
     checkS (HostRepository_GetRpcClient con (ct_world c) (lv_db c) (Session_HostID s)) c (\<lambda>client.
     case saveMode of
       SaveMode_OVERWRITE \<Rightarrow>
         checkS (rpc_SaveSessionWorld client sid) c (\<lambda>url.
         if url \<noteq> [] then (Inr url, c)
         else (Inr (case Cache_Get (lv_cache c) sid of None \<Rightarrow> [] | Some snapshot \<Rightarrow> Snap_WorldUrl snapshot), c))
     | SaveMode_SAVE_AS \<Rightarrow> (rpc_SaveAsSessionWorld client sid SAVE_AS_TYPE_SAVE_AS, c)
     | SaveMode_COPY \<Rightarrow> (rpc_SaveAsSessionWorld client sid SAVE_AS_TYPE_COPY, c)
     | SaveMode_Other _ \<Rightarrow> (Inl (ErrMsg ''unknown save mode''), c))))"

definition UpdateSessionExtraSettings ::
  "'w HostConnector \<Rightarrow> 'w ctl \<Rightarrow> claims \<Rightarrow> string \<Rightarrow> bool option \<Rightarrow> string option \<Rightarrow> unit res \<times> 'w ctl" where
  "UpdateSessionExtraSettings con c caller sid autoUpgrade memo =
     bindS (GetSession con c sid) (\<lambda>s c.
     checkS (RequirePermissionForGroup (lv_db c) caller (Session_GroupID s) PermKey_SessionWrite) c (\<lambda>_.
     onDb c (SessionRepository_Upsert (lv_db c)
       (s\<lparr>Session_AutoUpgrade := or_else autoUpgrade (Session_AutoUpgrade s),
          Session_Memo := or_else memo (Session_Memo s)\<rparr>))))"

section \<open>Lemmas\<close>

text \<open>An upsert writes nothing when it fails, and otherwise exactly the row, which keeps its group and author.\<close>

definition upserted :: "db \<Rightarrow> Session \<Rightarrow> Session" where
  "upserted d s = (case session_of d (Session_ID s) of
      None \<Rightarrow> s\<lparr>Session_CurrentState := None\<rparr>
    | Some old \<Rightarrow> s\<lparr>Session_CurrentState := None,
        Session_CreatedBy := (if Session_CreatedBy old \<noteq> None then Session_CreatedBy old else Session_CreatedBy s),
        Session_GroupID := Session_GroupID old\<rparr>)"

lemma Upsert_Inl: "SessionRepository_Upsert d s = (Inl e, d') \<Longrightarrow> d' = d"
  by (auto simp: SessionRepository_Upsert_def q_UpsertSession_def ctrl_simps writeQ_def Let_def
      split: option.splits if_splits)

lemma session_of_replace:
  "Session_ID row = sid \<Longrightarrow>
     session_of (d\<lparr>db_sessions := tbl_update (session_row sid) (\<lambda>_. row) (db_sessions d)\<rparr>) x
       = (if x = sid then map_option (\<lambda>_. row) (session_of d x) else session_of d x)"
proof -
  assume row: "Session_ID row = sid"
  have "tbl_get (session_row x) (tbl_update (session_row sid) (\<lambda>_. row) xs)
     = (if x = sid then map_option (\<lambda>_. row) (tbl_get (session_row x) xs) else tbl_get (session_row x) xs)" for xs
    using row by (induction xs) auto
  then show ?thesis by (simp add: session_of_def)
qed

lemma Upsert_Inr:
  assumes "SessionRepository_Upsert d s = (Inr u, d')"
  shows "session_of d' x = (if x = Session_ID s then Some (upserted d s) else session_of d x)"
    and "\<exists>ss. d' = d\<lparr>db_sessions := ss\<rparr>"
proof -
  have q: "q_UpsertSession d s = (Inr v, d')" if "q_UpsertSession d s = (Inr v, d1)" for v d1
    using assms that by (simp add: SessionRepository_Upsert_def)
  obtain v where v: "q_UpsertSession d s = (Inr v, d')"
    using assms q by (auto simp: SessionRepository_Upsert_def ctrl_simps)
  show "session_of d' x = (if x = Session_ID s then Some (upserted d s) else session_of d x)"
  proof (cases "session_of d (Session_ID s)")
    case None
    then have d': "d' = d\<lparr>db_sessions := db_sessions d @ [s\<lparr>Session_CurrentState := None\<rparr>]\<rparr>"
      using v by (auto simp: q_UpsertSession_def session_of_def ctrl_simps Let_def split: if_splits)
    show ?thesis using None by (auto simp: d' session_of_def tbl_get_append upserted_def split: option.split)
  next
    case (Some old)
    then have d': "d' = d\<lparr>db_sessions := tbl_update (session_row (Session_ID s)) (\<lambda>_. upserted d s) (db_sessions d)\<rparr>"
      using v by (auto simp: q_UpsertSession_def session_of_def ctrl_simps Let_def upserted_def split: if_splits)
    have "Session_ID (upserted d s) = Session_ID s" using Some by (simp add: upserted_def)
    then show ?thesis using Some by (simp add: d' session_of_replace)
  qed
  show "\<exists>ss. d' = d\<lparr>db_sessions := ss\<rparr>"
    using v by (auto simp: q_UpsertSession_def ctrl_simps Let_def split: option.splits if_splits)
qed

lemma ctl_eq_iff: "c' = c \<longleftrightarrow> lv_db c' = lv_db c \<and> lv_cache c' = lv_cache c \<and> ct_world c' = ct_world c" for c :: "'w ctl"
  by auto

lemma onDb_Upsert_Inl: "onDb c (SessionRepository_Upsert (lv_db c) s) = (Inl e, c') \<Longrightarrow> c' = c"
  by (cases "SessionRepository_Upsert (lv_db c) s") (auto simp: onDb_def dest: Upsert_Inl)

lemma onDb_Upsert_Inr:
  "onDb c (SessionRepository_Upsert (lv_db c) s) = (Inr u, c') \<Longrightarrow>
     SessionRepository_Upsert (lv_db c) s = (Inr u, lv_db c') \<and> lv_cache c' = lv_cache c"
  by (cases "SessionRepository_Upsert (lv_db c) s") (auto simp: onDb_def)

section \<open>Properties\<close>

lemma port_candidates_set:
  assumes "pmin \<le> pmax"
  shows "set (port_candidates nano pmin pmax) = {pmin..pmax}"
proof -
  let ?n = "pmax - pmin + 1"
  have n: "0 < ?n" using assms by simp
  have "p \<in> (\<lambda>i. pmin + (nano mod ?n + i) mod ?n) ` {0..pmax - pmin}" if "p \<in> {pmin..pmax}" for p
  proof -
    let ?i = "(p - pmin - nano) mod ?n"
    have "(nano mod ?n + ?i) mod ?n = (p - pmin) mod ?n" by (simp add: mod_simps)
    also have "\<dots> = p - pmin" using that by (intro mod_pos_pos_trivial) auto
    finally have "p = pmin + (nano mod ?n + ?i) mod ?n" by simp
    moreover have "?i \<in> {0..pmax - pmin}" using pos_mod_sign[OF n] pos_mod_bound[OF n] by (simp add: zle_diff1_eq)
    ultimately show ?thesis by blast
  qed
  moreover have "pmin + (nano mod ?n + i) mod ?n \<in> {pmin..pmax}" for i
    using pos_mod_sign[OF n, of "nano mod ?n + i"] pos_mod_bound[OF n, of "nano mod ?n + i"] by simp
  ultimately show ?thesis unfolding port_candidates_def set_map set_upto by (intro equalityI subsetI) auto
qed

text \<open>
  The port search is complete. On a non-empty range it returns a port of the range that the system
  can listen on exactly when there is one, whatever the clock says, and fails otherwise; without a
  configured range it returns 0.
\<close>

theorem getFreeSessionPort_complete:
  assumes "pmin \<le> pmax" "\<not> (pmin = 0 \<and> pmax = 0)"
  shows "(\<forall>p. getFreeSessionPort avail nano pmin pmax = Inr p \<longrightarrow> pmin \<le> p \<and> p \<le> pmax \<and> avail p)
     \<and> ((\<exists>p. getFreeSessionPort avail nano pmin pmax = Inr p) \<longleftrightarrow> (\<exists>p \<in> {pmin..pmax}. avail p))"
proof (cases "List.find avail (port_candidates nano pmin pmax)")
  case None
  then have "\<forall>p \<in> {pmin..pmax}. \<not> avail p"
    using port_candidates_set[OF assms(1), of nano] by (simp add: find_None_iff)
  then show ?thesis using assms None by (simp add: getFreeSessionPort_def)
next
  case (Some p)
  then have "p \<in> set (port_candidates nano pmin pmax)" "avail p" by (auto simp: find_Some_iff)
  then show ?thesis
    using assms port_candidates_set[OF assms(1), of nano] Some by (auto simp: getFreeSessionPort_def)
qed



text \<open>
  Reading a session heals its status. With a working database, an ENDED session is returned as it
  is and nothing changes. Any other session is RUNNING exactly when a snapshot is cached or its
  container answers with one, which is returned and cached, and CRASHED otherwise; the row takes that
  status and keeps every other field, and no other row changes.
\<close>

definition observed :: "'w HostConnector \<Rightarrow> 'w ctl \<Rightarrow> Session \<Rightarrow> SessionSnapshot option" where
  "observed con c s =
     (case Cache_Get (lv_cache c) (Session_ID s) of
        Some x \<Rightarrow> Some x
      | None \<Rightarrow>
          (case HostRepository_GetRpcClient con (ct_world c) (lv_db c) (Session_HostID s) of
             Inl _ \<Rightarrow> None
           | Inr client \<Rightarrow> (case rpc_GetSession client (Session_ID s) of Inl _ \<Rightarrow> None | Inr x \<Rightarrow> x)))"

lemma settle_eq:
  "no_faults (lv_db c) \<Longrightarrow> settle c s st =
     (Inr (s\<lparr>Session_Status := st\<rparr>),
      if Session_Status s = st then c
      else c\<lparr>lv_db := (lv_db c)\<lparr>db_sessions := tbl_update (session_row (Session_ID s)) (\<lambda>s. s\<lparr>Session_Status := st\<rparr>)
                                    (db_sessions (lv_db c))\<rparr>\<rparr>)"
  by (auto simp: settle_def onDb_def SessionRepository_UpdateStatus_def q_UpdateSessionStatus_def)

lemma session_of_status:
  "session_of (d\<lparr>db_sessions := tbl_update (session_row sid) (\<lambda>s. s\<lparr>Session_Status := st\<rparr>) (db_sessions d)\<rparr>) x
     = (if x = sid then map_option (\<lambda>s. s\<lparr>Session_Status := st\<rparr>) (session_of d x) else session_of d x)"
  by (subst session_of_update) (cases "session_of d x"; use session_ID_of[of d x] in auto)+

theorem GetSession_heals:
  assumes "no_faults (lv_db c)" "cache_inv (lv_cache c)" "session_of (lv_db c) sid = Some s"
    "GetSession con c sid = (r, c')"
  defines "st \<equiv> (if observed con c s = None then SessionStatus_CRASHED else SessionStatus_RUNNING)"
  shows "if Session_Status s = SessionStatus_ENDED then r = Inr s \<and> c' = c
     else (\<exists>t. r = Inr t \<and> Session_Status t = st
             \<and> Session_CurrentState t = (if observed con c s = None then Session_CurrentState s else observed con c s)
             \<and> t\<lparr>Session_Status := Session_Status s, Session_CurrentState := Session_CurrentState s\<rparr> = s)
        \<and> session_of (lv_db c') sid = Some (s\<lparr>Session_Status := st\<rparr>)
        \<and> (\<forall>x. x \<noteq> sid \<longrightarrow> session_of (lv_db c') x = session_of (lv_db c) x)
        \<and> Cache_Get (lv_cache c') sid = observed con c s"
proof -
  have sid: "Session_ID s = sid" using session_ID_of[OF assms(3)] by simp
  have get: "SessionRepository_Get (lv_db c) sid = Inr s" using assms by (simp add: SessionRepository_Get_total)
  have st: "session_of (lv_db c) x = Some y \<Longrightarrow> Session_Status y = z \<Longrightarrow> y\<lparr>Session_Status := z\<rparr> = y" for x y z by auto
  show ?thesis
  proof (cases "Session_Status s = SessionStatus_ENDED")
    case True
    then show ?thesis using assms(4) by (auto simp: GetSession_def get)
  next
    case nended: False
    show ?thesis
    proof (cases "observed con c s")
      case None
      then have c0: "Cache_Get (lv_cache c) sid = None" by (simp add: observed_def sid split: option.splits)
      have "GetSession con c sid = settle c s SessionStatus_CRASHED"
        using None nended
        by (auto simp: GetSession_def get c0 observed_def sid split: option.splits sum.splits)
      then show ?thesis
        using assms(1,3,4) nended None c0 by (auto simp: settle_eq sid st_def session_of_status)
    next
      case (Some x)
      let ?c = "if Cache_Get (lv_cache c) sid = None then c\<lparr>lv_cache := Cache_Set (lv_cache c) (Session_HostID s) sid (Some x)\<rparr> else c"
      have "GetSession con c sid = settle ?c (s\<lparr>Session_CurrentState := Some x\<rparr>) SessionStatus_RUNNING"
        using Some nended
        by (auto simp: GetSession_def get observed_def sid split: option.splits sum.splits)
      moreover have "no_faults (lv_db ?c)" "lv_db ?c = lv_db c" using assms(1) by simp_all
      moreover have "Cache_Get (lv_cache ?c) sid = Some x"
        using Some assms(2) by (auto simp: cache.get_content cache.content_set observed_def sid split: option.splits)
      ultimately show ?thesis
        using assms(3,4) nended Some by (auto simp: settle_eq sid st_def session_of_status split: if_splits)
    qed
  qed
qed

lemma search_unpaged_mset:
  assumes "no_faults (lv_db c)" "Filter_PageSize flt \<le> 0"
  defines "opts \<equiv> \<lparr>Page_HostID = Filter_HostID flt, Page_Status = Filter_Status flt,
     Page_PageIndex = 0, Page_PageSize = 0, Page_GroupIDs = Filter_GroupIDs flt\<rparr>"
  shows "\<exists>xs. SearchSessions c flt = Inr (hydrateCurrentState (lv_cache c) xs, wrap32 (int (length xs)))
     \<and> mset xs = mset (listing (lv_db c) opts)"
proof -
  let ?P = "\<lambda>s. case Filter_Status flt of None \<Rightarrow> True | Some st \<Rightarrow> Session_Status s = st"
  let ?H = "\<lambda>s. case Filter_HostID flt of None \<Rightarrow> True | Some h \<Rightarrow> Session_HostID s = h"
  let ?G = "\<lambda>s. case Filter_GroupIDs flt of None \<Rightarrow> True | Some gs \<Rightarrow> Session_GroupID s \<in> set gs"
  let ?xs = "filter ?G (filter ?H (sort_key started_desc (filter ?P (db_sessions (lv_db c)))))"
  have "SearchSessions c flt = Inr (hydrateCurrentState (lv_cache c) ?xs, wrap32 (int (length ?xs)))"
    using assms(1,2)
    by (cases "Filter_Status flt"; cases "Filter_HostID flt"; cases "Filter_GroupIDs flt")
       (simp_all add: SearchSessions_def SessionRepository_ListByStatus_def SessionRepository_ListAll_def
          q_ListSessionsByStatus_def q_ListSessions_def Let_def)
  moreover have "mset ?xs = mset (listing (lv_db c) opts)"
    by (simp add: listing_def opts_def filter_filter_mset conj_commute conj_left_commute)
  ultimately show ?thesis by blast
qed

text \<open>
  The listing without paging and the paged listing agree. For the same filter, the unpaged search
  (which filters host and group in memory) and a first page large enough to hold everything (which
  filters in SQL) return the same sessions, as often, and the same count; and every session
  returned belongs to a group of the filter.
\<close>

theorem SearchSessions_unpaged_agrees:
  assumes "no_faults (lv_db c)" "Filter_PageSize flt \<le> 0"
    "length (db_sessions (lv_db c)) \<le> n" "0 < n" "n < 2 ^ 31"
  shows "\<exists>xs ys t. SearchSessions c flt = Inr (xs, t)
     \<and> SearchSessions c (flt\<lparr>Filter_PageIndex := 0, Filter_PageSize := int n\<rparr>) = Inr (ys, t)
     \<and> mset xs = mset ys
     \<and> (\<forall>gs. Filter_GroupIDs flt = Some gs \<longrightarrow> (\<forall>s \<in> set xs. Session_GroupID s \<in> set gs))"
proof -
  define opts where "opts = \<lparr>Page_HostID = Filter_HostID flt, Page_Status = Filter_Status flt,
     Page_PageIndex = 0, Page_PageSize = 0, Page_GroupIDs = Filter_GroupIDs flt\<rparr>"
  let ?l = "listing (lv_db c) opts"
  let ?h = "hydrateCurrentState (lv_cache c)"
  obtain xs where xs: "SearchSessions c flt = Inr (?h xs, wrap32 (int (length xs)))" "mset xs = mset ?l"
    using search_unpaged_mset[OF assms(1,2)] unfolding opts_def by blast
  have len: "length ?l \<le> n"
    using assms(3) length_filter_le[of _ "db_sessions (lv_db c)"] unfolding listing_def length_sort by (meson le_trans)
  have lst: "listing (lv_db c) \<lparr>Page_HostID = Filter_HostID flt, Page_Status = Filter_Status flt,
     Page_PageIndex = 0, Page_PageSize = int n, Page_GroupIDs = Filter_GroupIDs flt\<rparr> = ?l"
    by (simp add: listing_def opts_def)
  have "SearchSessions c (flt\<lparr>Filter_PageIndex := 0, Filter_PageSize := int n\<rparr>) = Inr (?h ?l, wrap32 (int (length ?l)))"
    using assms(1,4,5) len
    by (auto simp: SearchSessions_def ListPaged_eq lst Let_def wrap32_def)
  moreover have "length xs = length ?l" using xs(2) by (rule mset_eq_length)
  moreover have "mset (?h xs) = mset (?h ?l)"
    using xs(2) unfolding hydrateCurrentState_def mset_map by simp
  moreover have "Session_GroupID s \<in> set gs" if "Filter_GroupIDs flt = Some gs" "s \<in> set (?h xs)" for s gs
  proof -
    from that(2) obtain s0 where s0: "s0 \<in> set xs" "Session_GroupID s = Session_GroupID s0"
      by (auto simp: hydrateCurrentState_def split: option.splits)
    then have "s0 \<in> set ?l" using xs(2) by (metis set_mset_mset)
    then show ?thesis using that(1) s0(2) by (simp add: listing_def opts_def)
  qed
  ultimately show ?thesis using xs(1) by metis
qed

section \<open>Instances\<close>

text \<open>A container that opens one session and answers for it, and a caller who may use the team's hosts.\<close>

definition lively_client :: RpcClient where
  "lively_client = silent_client\<lparr>rpc_StartWorld := (\<lambda>_. Inr (Some (plain_snapshot ''s9''))),
     rpc_StopSession := (\<lambda>_. Inr ()), rpc_GetSession := (\<lambda>sid. Inr (Some (plain_snapshot sid)))\<rparr>"

definition lively_runtime :: "string set HostConnector" where
  "lively_runtime = set_runtime\<lparr>con_GetRpcClient := (\<lambda>w cs. if cs \<in> w then Inr lively_client else Inl (ErrMsg ''unreachable''))\<rparr>"

definition calm_env :: session_env where
  "calm_env = \<lparr>env_IsHostDraining = (\<lambda>_. False), env_isPortAvailable = (\<lambda>p. p = 6001), env_nano = 7,
     env_portMin = 6000, env_portMax = 6003\<rparr>"

theorem getFreeSessionPort_complete_witness:
  "getFreeSessionPort (\<lambda>p. p = 6001) 7 6000 6003 = Inr 6001
     \<and> (\<exists>p. getFreeSessionPort (\<lambda>p. p = 6001) 7 6000 6003 = Inr p)"
proof -
  have "getFreeSessionPort (\<lambda>p. p = 6001) 7 6000 6003 = Inr 6001" by code_simp
  then show ?thesis using getFreeSessionPort_complete[of 6000 6003 "\<lambda>p. p = 6001" 7] by auto
qed

lemma sample_ctl_inv: "cache_inv (lv_cache sample_ctl)"
  using sample_live_ok(2) by (simp add: sample_ctl_def)



theorem GetSession_heals_witness:
  "let (r, c') = GetSession lively_runtime sample_ctl ''s3''
   in map_option Session_Status (session_of (lv_db c') ''s3'') = Some SessionStatus_CRASHED"
proof -
  obtain r c' where run: "GetSession lively_runtime sample_ctl ''s3'' = (r, c')" by force
  have s: "session_of (lv_db sample_ctl) ''s3'' = Some (plain_session ''s3'' ''h2'' SessionStatus_RUNNING 30)" by code_simp
  have nf: "no_faults (lv_db sample_ctl)" using no_faults_session_db by (simp add: sample_ctl_def no_faults_def)
  have "case_option True (\<lambda>_. False) (observed lively_runtime sample_ctl (plain_session ''s3'' ''h2'' SessionStatus_RUNNING 30))"
    by code_simp
  then have "observed lively_runtime sample_ctl (plain_session ''s3'' ''h2'' SessionStatus_RUNNING 30) = None"
    by (auto split: option.splits)
  then show ?thesis
    using GetSession_heals[OF nf sample_ctl_inv s run] run by (simp add: plain_session_def)
qed

theorem SearchSessions_unpaged_agrees_witness:
  "let flt = \<lparr>Filter_HostID = Some ''h1'', Filter_Status = None, Filter_PageIndex = 0, Filter_PageSize = 0,
              Filter_GroupIDs = Some [''team'']\<rparr>
   in \<exists>xs ys t. SearchSessions sample_ctl flt = Inr (xs, t)
     \<and> SearchSessions sample_ctl (flt\<lparr>Filter_PageIndex := 0, Filter_PageSize := int 10\<rparr>) = Inr (ys, t)
     \<and> mset xs = mset ys"
proof -
  have nf: "no_faults (lv_db sample_ctl)" using no_faults_session_db by (simp add: sample_ctl_def no_faults_def)
  have len: "length (db_sessions (lv_db sample_ctl)) \<le> 10" by code_simp
  let ?flt = "\<lparr>Filter_HostID = Some ''h1'', Filter_Status = None, Filter_PageIndex = 0, Filter_PageSize = 0,
              Filter_GroupIDs = Some [''team'']\<rparr>"
  show ?thesis using SearchSessions_unpaged_agrees[OF nf _ len, of ?flt] unfolding Let_def by force
qed

end
