(* ===== verification/AccountUsecase.thy ===== *)
theory AccountUsecase
  imports HostStore PermissionUsecase
begin

text \<open>
  Headless accounts: the queries on \<open>headless_accounts\<close> (\<open>db/headless_accounts.sql.go\<close>) and the usecase
  (\<open>usecase/headless_account_usecase.go\<close>). The cloud client (\<open>lib/skyfrost\<close>) is an argument: logging in,
  fetching a user, preparing and uploading an icon, changing a profile.
\<close>

section \<open>Queries\<close>

abbreviation account_row :: "string \<Rightarrow> HeadlessAccount \<Rightarrow> bool" where
  "account_row rid \<equiv> \<lambda>a. Account_ResoniteID a = rid"

definition account_of :: "db \<Rightarrow> string \<Rightarrow> HeadlessAccount option" where
  "account_of d rid = tbl_get (account_row rid) (db_accounts d)"

definition q_CreateHeadlessAccount :: "db \<Rightarrow> HeadlessAccount \<Rightarrow> unit res \<times> db" where
  "q_CreateHeadlessAccount d a = writeQ d ''CreateHeadlessAccount'' [Account_ResoniteID a]
     (if tbl_exists (account_row (Account_ResoniteID a)) (db_accounts d)
         \<or> \<not> tbl_exists (\<lambda>g. Group_ID g = Account_GroupID a) (db_groups d) \<or> \<not> fk_user_ok d (Account_CreatedBy a)
      then (Inl ErrDB, d)
      else (Inr (), d\<lparr>db_accounts := db_accounts d @ [a]\<rparr>))"

definition q_DeleteHeadlessAccount :: "db \<Rightarrow> string \<Rightarrow> unit res \<times> db" where
  "q_DeleteHeadlessAccount d rid = writeQ d ''DeleteHeadlessAccount'' [rid]
     (Inr (), d\<lparr>db_accounts := tbl_delete (account_row rid) (db_accounts d)\<rparr>)"

definition q_ListHeadlessAccounts :: "db \<Rightarrow> HeadlessAccount list res" where
  "q_ListHeadlessAccounts d = readQ d ''ListHeadlessAccounts'' [] (Inr (sort_key Account_ResoniteID (db_accounts d)))"

definition q_ListHeadlessAccountsPaged ::
  "db \<Rightarrow> string list option \<Rightarrow> int32 \<Rightarrow> int32 \<Rightarrow> (HeadlessAccount \<times> nat) list res" where
  "q_ListHeadlessAccountsPaged d groups off lim = readQ d ''ListHeadlessAccountsPaged'' []
     (if off < 0 \<or> lim < 0 then Inl ErrDB
      else let rows = sort_key Account_ResoniteID
                 (filter (\<lambda>a. case groups of None \<Rightarrow> True | Some gs \<Rightarrow> Account_GroupID a \<in> set gs) (db_accounts d))
           in Inr (map (\<lambda>a. (a, length rows)) (take (nat lim) (drop (nat off) rows))))"

definition update_account :: "string \<Rightarrow> (HeadlessAccount \<Rightarrow> HeadlessAccount) \<Rightarrow> db \<Rightarrow> db" where
  "update_account rid f d = d\<lparr>db_accounts := tbl_update (account_row rid) f (db_accounts d)\<rparr>"

definition q_UpdateAccountIconUrl :: "db \<Rightarrow> string \<Rightarrow> string \<Rightarrow> unit res \<times> db" where
  "q_UpdateAccountIconUrl d rid url = writeQ d ''UpdateAccountIconUrl'' [rid]
     (Inr (), update_account rid (\<lambda>a. a\<lparr>Account_LastIconUrl := Some url\<rparr>) d)"

definition q_UpdateAccountInfo :: "db \<Rightarrow> string \<Rightarrow> string \<Rightarrow> string \<Rightarrow> unit res \<times> db" where
  "q_UpdateAccountInfo d rid name url = writeQ d ''UpdateAccountInfo'' [rid]
     (Inr (), update_account rid (\<lambda>a. a\<lparr>Account_LastDisplayName := Some name, Account_LastIconUrl := Some url\<rparr>) d)"

definition q_UpdateHeadlessAccountCredentials :: "db \<Rightarrow> string \<Rightarrow> string \<Rightarrow> string \<Rightarrow> unit res \<times> db" where
  "q_UpdateHeadlessAccountCredentials d rid credential password = writeQ d ''UpdateHeadlessAccountCredentials'' [rid]
     (Inr (), update_account rid (\<lambda>a. a\<lparr>Account_Credential := credential, Account_Password := password\<rparr>) d)"

section \<open>The usecase\<close>

record UserInfo =
  Info_ID :: string
  Info_UserName :: string
  Info_IconUrl :: string

record skyfrost =
  sky_UserLogin :: "string \<Rightarrow> string \<Rightarrow> string res"
  sky_FetchUserInfo :: "string \<Rightarrow> UserInfo res"
  sky_ProcessIconImage :: "string \<Rightarrow> string res"
  sky_UploadTextureRecord :: "string \<Rightarrow> string \<Rightarrow> string \<Rightarrow> string res"
  sky_UpdateUserProfile :: "string \<Rightarrow> string \<Rightarrow> string \<Rightarrow> unit res"

definition login_failed :: "err \<Rightarrow> err" where
  "login_failed e = ErrMsg ''failed to login''"

definition CreateHeadlessAccount ::
  "skyfrost \<Rightarrow> db \<Rightarrow> claims \<Rightarrow> string \<Rightarrow> string \<Rightarrow> string \<Rightarrow> string option \<Rightarrow> unit res \<times> db" where
  "CreateHeadlessAccount sky d caller credential password groupID createdBy =
     checkS (RequirePermissionForGroup d caller groupID PermKey_AccountWrite) d (\<lambda>_.
     checkS (map_err login_failed (sky_UserLogin sky credential password)) d (\<lambda>userId.
     checkS (sky_FetchUserInfo sky userId) d (\<lambda>userInfo.
     q_CreateHeadlessAccount d \<lparr>Account_ResoniteID = userId, Account_Credential = credential,
       Account_Password = password, Account_LastDisplayName = Some (Info_UserName userInfo),
       Account_LastIconUrl = Some (Info_IconUrl userInfo), Account_GroupID = groupID, Account_CreatedBy = createdBy\<rparr>)))"

definition ListHeadlessAccounts :: "db \<Rightarrow> HeadlessAccount list res" where
  "ListHeadlessAccounts d = q_ListHeadlessAccounts d"

definition ListHeadlessAccountsPaged ::
  "db \<Rightarrow> int32 \<Rightarrow> int32 \<Rightarrow> string list option \<Rightarrow> (HeadlessAccount list \<times> int32) res" where
  "ListHeadlessAccountsPaged d pageIndex pageSize groupIDs =
     bindR (q_ListHeadlessAccountsPaged d groupIDs (wrap32 (pageIndex * pageSize)) pageSize) (\<lambda>rows.
     Inr (map fst rows, case rows of [] \<Rightarrow> 0 | r # _ \<Rightarrow> wrap32 (int (snd r))))"

definition GetHeadlessAccount :: "db \<Rightarrow> string \<Rightarrow> HeadlessAccount res" where
  "GetHeadlessAccount d resoniteID = map_err convertDBErr (q_GetHeadlessAccount d resoniteID)"

definition requireAccountWrite :: "db \<Rightarrow> claims \<Rightarrow> string \<Rightarrow> unit res" where
  "requireAccountWrite d caller resoniteID =
     bindR (GetHeadlessAccount d resoniteID) (\<lambda>account.
     RequirePermissionForGroup d caller (Account_GroupID account) PermKey_AccountWrite)"

definition UpdateHeadlessAccountCredentials ::
  "skyfrost \<Rightarrow> db \<Rightarrow> claims \<Rightarrow> string \<Rightarrow> string \<Rightarrow> string \<Rightarrow> unit res \<times> db" where
  "UpdateHeadlessAccountCredentials sky d caller resoniteID credential password =
     checkS (requireAccountWrite d caller resoniteID) d (\<lambda>_.
     checkS (map_err login_failed (sky_UserLogin sky credential password)) d (\<lambda>userId.
     checkS (sky_FetchUserInfo sky userId) d (\<lambda>userInfo.
     if resoniteID \<noteq> Info_ID userInfo then (Inl (ErrMsg ''does not match resonite ID''), d)
     else q_UpdateHeadlessAccountCredentials d resoniteID credential password)))"

definition DeleteHeadlessAccount :: "db \<Rightarrow> claims \<Rightarrow> string \<Rightarrow> unit res \<times> db" where
  "DeleteHeadlessAccount d caller resoniteID =
     checkS (requireAccountWrite d caller resoniteID) d (\<lambda>_. q_DeleteHeadlessAccount d resoniteID)"

definition RefetchHeadlessAccountInfo :: "skyfrost \<Rightarrow> db \<Rightarrow> claims \<Rightarrow> string \<Rightarrow> unit res \<times> db" where
  "RefetchHeadlessAccountInfo sky d caller resoniteID =
     checkS (requireAccountWrite d caller resoniteID) d (\<lambda>_.
     checkS (map_err (\<lambda>_. ErrMsg ''failed to fetch user info'') (sky_FetchUserInfo sky resoniteID)) d (\<lambda>userInfo.
     q_UpdateAccountInfo d resoniteID (Info_UserName userInfo) (Info_IconUrl userInfo)))"

definition UpdateHeadlessAccountIcon :: "skyfrost \<Rightarrow> db \<Rightarrow> claims \<Rightarrow> string \<Rightarrow> string \<Rightarrow> string res \<times> db" where
  "UpdateHeadlessAccountIcon sky d caller resoniteID iconData =
     checkS (requireAccountWrite d caller resoniteID) d (\<lambda>_.
     checkS (map_err (\<lambda>_. ErrMsg ''failed to get headless account'') (q_GetHeadlessAccount d resoniteID)) d (\<lambda>account.
     checkS (map_err (\<lambda>_. ErrMsg ''failed to process icon image'') (sky_ProcessIconImage sky iconData)) d (\<lambda>processedData.
     checkS (map_err (\<lambda>_. ErrMsg ''failed to upload icon'')
               (sky_UploadTextureRecord sky (Account_Credential account) (Account_Password account) processedData)) d (\<lambda>iconUrl.
     checkS (map_err (\<lambda>_. ErrMsg ''failed to update profile'')
               (sky_UpdateUserProfile sky (Account_Credential account) (Account_Password account) iconUrl)) d (\<lambda>_.
     bindS (map_errS (\<lambda>_. ErrMsg ''failed to update account info in DB'') (q_UpdateAccountIconUrl d resoniteID iconUrl)) (\<lambda>_ d1.
     (Inr iconUrl, d1)))))))"

section \<open>Lemmas\<close>

lemma account_of_update:
  "(\<And>a. Account_ResoniteID (f a) = Account_ResoniteID a) \<Longrightarrow>
     account_of (update_account rid f d) x = (if x = rid then map_option f (account_of d x) else account_of d x)"
proof -
  assume f: "\<And>a. Account_ResoniteID (f a) = Account_ResoniteID a"
  have "tbl_get (account_row x) (tbl_update (account_row rid) f xs)
          = (if x = rid then map_option f (tbl_get (account_row x) xs) else tbl_get (account_row x) xs)" for xs
    using f by (induction xs) auto
  then show ?thesis by (simp add: account_of_def update_account_def)
qed

lemma GetHeadlessAccount_Inr: "GetHeadlessAccount d rid = Inr a \<Longrightarrow> account_of d rid = Some a \<and> Account_ResoniteID a = rid"
  by (auto simp: GetHeadlessAccount_def q_GetHeadlessAccount_def account_of_def ctrl_simps
      dest: tbl_get_SomeD split: option.splits)

lemma requireAccountWrite_Inr:
  "requireAccountWrite d caller rid = Inr u \<Longrightarrow>
     \<exists>a uid. account_of d rid = Some a \<and> caller = Some uid \<and> allowed d uid (Account_GroupID a) PermKey_AccountWrite"
  by (auto simp: requireAccountWrite_def ctrl_simps dest!: GetHeadlessAccount_Inr RequirePermissionForGroup_Inr)

lemma account_of_insert:
  "account_of (d\<lparr>db_accounts := db_accounts d @ [a]\<rparr>) x =
     (case account_of d x of Some b \<Rightarrow> Some b | None \<Rightarrow> if x = Account_ResoniteID a then Some a else None)"
  by (auto simp: account_of_def tbl_get_append split: option.split)

lemma account_of_delete:
  "account_of (d\<lparr>db_accounts := tbl_delete (account_row rid) (db_accounts d)\<rparr>) x = (if x = rid then None else account_of d x)"
  unfolding account_of_def
  by (cases "x = rid") (simp_all add: tbl_get_delete_same tbl_get_delete_other)

section \<open>Who changes an account\<close>

inductive account_step :: "skyfrost \<Rightarrow> claims \<Rightarrow> db \<Rightarrow> db \<Rightarrow> bool" for sky caller where
  create: "account_step sky caller d (snd (CreateHeadlessAccount sky d caller cred pw gid by_user))"
| credentials: "account_step sky caller d (snd (UpdateHeadlessAccountCredentials sky d caller rid cred pw))"
| delete: "account_step sky caller d (snd (DeleteHeadlessAccount d caller rid))"
| refetch: "account_step sky caller d (snd (RefetchHeadlessAccountInfo sky d caller rid))"
| icon: "account_step sky caller d (snd (UpdateHeadlessAccountIcon sky d caller rid data))"

text \<open>The credentials of an account were accepted by the cloud service for exactly this account.\<close>

definition logged_in :: "skyfrost \<Rightarrow> string \<Rightarrow> string \<Rightarrow> string \<Rightarrow> bool" where
  "logged_in sky cred pw rid \<longleftrightarrow>
     (\<exists>u info. sky_UserLogin sky cred pw = Inr u \<and> sky_FetchUserInfo sky u = Inr info \<and> (u = rid \<or> Info_ID info = rid))"

definition writer_of :: "db \<Rightarrow> claims \<Rightarrow> string \<Rightarrow> bool" where
  "writer_of d caller gid \<longleftrightarrow> (\<exists>u. caller = Some u \<and> allowed d u gid PermKey_AccountWrite)"

definition account_change_ok :: "skyfrost \<Rightarrow> claims \<Rightarrow> db \<Rightarrow> db \<Rightarrow> string \<Rightarrow> bool" where
  "account_change_ok sky caller d d' rid \<longleftrightarrow>
     account_of d' rid = account_of d rid
     \<or> (case (account_of d rid, account_of d' rid) of
          (Some a, Some b) \<Rightarrow> writer_of d caller (Account_GroupID a) \<and> Account_GroupID b = Account_GroupID a
             \<and> Account_CreatedBy b = Account_CreatedBy a
             \<and> ((Account_Credential b, Account_Password b) \<noteq> (Account_Credential a, Account_Password a) \<longrightarrow>
                  logged_in sky (Account_Credential b) (Account_Password b) rid)
        | (Some a, None) \<Rightarrow> writer_of d caller (Account_GroupID a)
        | (None, Some b) \<Rightarrow> writer_of d caller (Account_GroupID b)
             \<and> logged_in sky (Account_Credential b) (Account_Password b) rid
        | (None, None) \<Rightarrow> True)"

lemma guarded_update_ok:
  assumes "requireAccountWrite d caller rid = Inr ()" "\<And>a. Account_ResoniteID (f a) = Account_ResoniteID a"
    "\<And>a. Account_GroupID (f a) = Account_GroupID a \<and> Account_CreatedBy (f a) = Account_CreatedBy a"
    "\<And>a. (Account_Credential (f a), Account_Password (f a)) \<noteq> (Account_Credential a, Account_Password a) \<Longrightarrow>
       logged_in sky (Account_Credential (f a)) (Account_Password (f a)) rid"
  shows "account_change_ok sky caller d (update_account rid f d) x"
  using requireAccountWrite_Inr[OF assms(1)] assms(3,4)
  by (auto simp: account_change_ok_def account_of_update[OF assms(2)] writer_of_def)

lemma account_change_refl: "account_change_ok sky caller d d x"
  by (simp add: account_change_ok_def)

text \<open>
  C23: only writers change accounts, and only to credentials that work. Whatever operation of the
  account usecase runs, an account that differs afterwards belongs (or, if new, was put) into a group
  where the caller is allowed \<open>account:write\<close>, keeps its group and author, and if its credentials are
  new, the cloud service accepted them for this very account.
\<close>

theorem account_changes_authorised:
  assumes "account_step sky caller d d'"
  shows "account_change_ok sky caller d d' x"
  using assms
proof cases
  case (create cred pw gid by_user)
  let ?P = "\<lambda>d'. account_change_ok sky caller d d' x"
  show ?thesis
    unfolding create CreateHeadlessAccount_def
  proof (intro checkS_snd[where P = ?P] account_change_refl)
    fix u v userInfo assume p: "RequirePermissionForGroup d caller gid PermKey_AccountWrite = Inr u"
      and l: "map_err login_failed (sky_UserLogin sky cred pw) = Inr v" "sky_FetchUserInfo sky v = Inr userInfo"
    show "?P (snd (q_CreateHeadlessAccount d \<lparr>Account_ResoniteID = v, Account_Credential = cred,
       Account_Password = pw, Account_LastDisplayName = Some (Info_UserName userInfo),
       Account_LastIconUrl = Some (Info_IconUrl userInfo), Account_GroupID = gid, Account_CreatedBy = by_user\<rparr>))"
      unfolding q_CreateHeadlessAccount_def
      using RequirePermissionForGroup_Inr[OF p] l
      by (intro writeQ_snd[where P = ?P] account_change_refl)
         (auto simp: account_change_refl account_change_ok_def account_of_insert writer_of_def logged_in_def split: option.split)
  qed
next
  case (credentials rid cred pw)
  let ?P = "\<lambda>d'. account_change_ok sky caller d d' x"
  show ?thesis
    unfolding credentials UpdateHeadlessAccountCredentials_def
  proof (intro checkS_snd[where P = ?P] account_change_refl)
    fix u v userInfo assume p: "requireAccountWrite d caller rid = Inr u"
      and l: "map_err login_failed (sky_UserLogin sky cred pw) = Inr v" "sky_FetchUserInfo sky v = Inr userInfo"
    have "logged_in sky cred pw rid" if "rid = Info_ID userInfo" using l that by (auto simp: logged_in_def)
    then have upd: "?P (update_account rid (\<lambda>a. a\<lparr>Account_Credential := cred, Account_Password := pw\<rparr>) d)" if "rid = Info_ID userInfo"
      using that p by (intro guarded_update_ok) auto
    show "?P (snd (if rid \<noteq> Info_ID userInfo then (Inl (ErrMsg ''does not match resonite ID''), d)
        else q_UpdateHeadlessAccountCredentials d rid cred pw))"
      unfolding q_UpdateHeadlessAccountCredentials_def
      using upd by (auto simp: account_change_refl intro: writeQ_snd[where P = ?P])
  qed
next
  case (delete rid)
  let ?P = "\<lambda>d'. account_change_ok sky caller d d' x"
  show ?thesis
    unfolding delete DeleteHeadlessAccount_def q_DeleteHeadlessAccount_def
    by (intro checkS_snd[where P = ?P] writeQ_snd[where P = ?P] account_change_refl)
       (auto simp: account_change_ok_def account_of_delete writer_of_def dest: requireAccountWrite_Inr split: option.split)
next
  case (refetch rid)
  let ?P = "\<lambda>d'. account_change_ok sky caller d d' x"
  show ?thesis
    unfolding refetch RefetchHeadlessAccountInfo_def q_UpdateAccountInfo_def
    by (intro checkS_snd[where P = ?P] writeQ_snd[where P = ?P] account_change_refl)
       (auto intro: guarded_update_ok)
next
  case (icon rid data)
  let ?P = "\<lambda>d'. account_change_ok sky caller d d' x"
  show ?thesis
    unfolding icon UpdateHeadlessAccountIcon_def q_UpdateAccountIconUrl_def
    by (intro checkS_snd[where P = ?P] bindS_snd[where P = ?P] account_change_refl)
       (auto intro!: guarded_update_ok writeQ_snd[where P = ?P] account_change_refl)
qed

section \<open>Instances\<close>

definition kind_sky :: skyfrost where
  "kind_sky = \<lparr>sky_UserLogin = (\<lambda>c p. if p = ''secret'' then Inr c else Inl ErrUnauthenticated),
     sky_FetchUserInfo = (\<lambda>u. Inr \<lparr>Info_ID = u, Info_UserName = u, Info_IconUrl = []\<rparr>),
     sky_ProcessIconImage = Inr, sky_UploadTextureRecord = (\<lambda>_ _ _. Inr ''url''), sky_UpdateUserProfile = (\<lambda>_ _ _. Inr ())\<rparr>"

definition account_db :: db where
  "account_db = session_db\<lparr>db_accounts := [sample_account]\<rparr>"

theorem account_changes_authorised_witness:
  "let d' = snd (CreateHeadlessAccount kind_sky account_db (Some SystemUserID) ''U-new'' ''secret'' ''team'' None)
   in account_of account_db ''U-new'' = None \<and> map_option Account_GroupID (account_of d' ''U-new'') = Some ''team''
      \<and> account_change_ok kind_sky (Some SystemUserID) account_db d' ''U-new''"
proof -
  have "case_option True (\<lambda>_. False) (account_of account_db ''U-new'')" by code_simp
  then have "account_of account_db ''U-new'' = None" by (auto split: option.splits)
  moreover have "map_option Account_GroupID (account_of (snd (CreateHeadlessAccount kind_sky account_db (Some SystemUserID)
      ''U-new'' ''secret'' ''team'' None)) ''U-new'') = Some ''team''" by code_simp
  ultimately show ?thesis
    unfolding Let_def using account_changes_authorised[OF account_step.create] by blast
qed

end
