(* ===== verification/HostUsecase.thy ===== *)
theory HostUsecase
  imports SessionUsecase AccountUsecase
begin

text \<open>
  The host usecase (\<open>usecase/headless_host_usecase.go\<close>): starting, restarting, shutting down, killing
  and deleting hosts, and reading their logs. It calls the host repository, the session usecase (to
  find the sessions that a stop ends) and the account usecase. The statistics of log instances
  (\<open>HeadlessHostGetInstances\<close>) are not modelled.
\<close>

section \<open>Guards and helpers\<close>

definition requireHostWrite :: "db \<Rightarrow> claims \<Rightarrow> string \<Rightarrow> unit res" where
  "requireHostWrite d caller hostID =
     bindR (HostRepository_GetGroupID d hostID) (\<lambda>groupID. RequirePermissionForGroup d caller groupID PermKey_HostWrite)"

definition requireHostRead :: "db \<Rightarrow> claims \<Rightarrow> string \<Rightarrow> unit res" where
  "requireHostRead d caller hostID =
     bindR (HostRepository_GetGroupID d hostID) (\<lambda>groupID.
     RequireAnyPermissionForGroup d caller groupID [PermKey_HostRead, PermKey_HostWrite])"

definition resolveTagToUse :: "'w HostConnector \<Rightarrow> 'w \<Rightarrow> string option \<Rightarrow> string res" where
  "resolveTagToUse con w tagInput =
     (if tagInput = None \<or> tagInput = Some [] \<or> tagInput = Some ''latestRelease'' \<or> tagInput = Some ''latestPreRelease''
      then
        bindR (HostRepository_ListContainerTags con w None) (\<lambda>tags.
        let wantPreRelease = (tagInput = Some ''latestPreRelease'') in
        case List.find (\<lambda>t. Image_IsPreRelease t = wantPreRelease) (rev tags) of
          Some t \<Rightarrow> Inr (Image_Tag t)
        | None \<Rightarrow> Inl (ErrMsg ''no available container image tags''))
      else Inr (case tagInput of Some t \<Rightarrow> t | None \<Rightarrow> []))"

text \<open>
  Every session of the list is written back as ENDED, with the world URL of its snapshot when it has
  one; the loop stops at the first error.
\<close>

definition ended_session :: "time \<Rightarrow> Session \<Rightarrow> Session" where
  "ended_session now s =
     (let s = s\<lparr>Session_EndedAt := Some now, Session_Status := SessionStatus_ENDED\<rparr> in
      case Session_CurrentState s of
        None \<Rightarrow> s
      | Some x \<Rightarrow> if Snap_WorldUrl x \<noteq> []
                  then s\<lparr>Session_StartupParameters :=
                           map_option (\<lambda>p. p\<lparr>Wsp_LoadWorld := Some (LoadWorldUrl (Snap_WorldUrl x))\<rparr>) (Session_StartupParameters s)\<rparr>
                  else s)"

definition markSessionsAsEnded :: "'w ctl \<Rightarrow> Session list \<Rightarrow> unit res \<times> 'w ctl" where
  "markSessionsAsEnded c sessions =
     (let now = db_now (lv_db c) in
      forS (\<lambda>c s. onDb c (SessionRepository_Upsert (lv_db c) (ended_session now s))) c sessions)"

definition running_on :: "string \<Rightarrow> SearchSessionsFilter" where
  "running_on hid = \<lparr>Filter_HostID = Some hid, Filter_Status = Some SessionStatus_RUNNING,
     Filter_PageIndex = 0, Filter_PageSize = 0, Filter_GroupIDs = None\<rparr>"

section \<open>Operations\<close>

definition HeadlessHostStart ::
  "'w HostConnector \<Rightarrow> string \<Rightarrow> 'w ctl \<Rightarrow> claims \<Rightarrow> HeadlessHostStartParams \<Rightarrow> string option \<Rightarrow> string res \<times> 'w ctl" where
  "HeadlessHostStart con newId c caller params userId =
     checkS (RequirePermissionForGroup (lv_db c) caller (Start_GroupID params) PermKey_HostWrite) c (\<lambda>_.
     checkS (RequirePermissionForGroup (lv_db c) caller (Start_GroupID params) PermKey_AccountUse) c (\<lambda>_.
     if Account_GroupID (Start_HeadlessAccount params) \<noteq> []
        \<and> Account_GroupID (Start_HeadlessAccount params) \<noteq> Start_GroupID params
     then (Inl (ErrMsg ''account group does not match host group''), c)
     else
       checkS (resolveTagToUse con (ct_world c) (Some (Start_ContainerImageTag params))) c (\<lambda>tag.
       HostRepository_Start con newId c HostConnectorType_DOCKER (params\<lparr>Start_ContainerImageTag := tag\<rparr>) userId)))"

definition HeadlessHostList :: "'w HostConnector \<Rightarrow> 'w ctl \<Rightarrow> HeadlessHost list res" where
  "HeadlessHostList con c = HostRepository_ListAll con (ct_world c) (lv_db c) False"

definition HeadlessHostListPaged ::
  "'w HostConnector \<Rightarrow> 'w ctl \<Rightarrow> int32 \<Rightarrow> int32 \<Rightarrow> string list option \<Rightarrow> HostListPageResult res" where
  "HeadlessHostListPaged con c pageIndex pageSize groupIDs =
     HostRepository_ListPaged con (ct_world c) (lv_db c)
       \<lparr>HostPage_PageIndex = pageIndex, HostPage_PageSize = pageSize, HostPage_IncludeStartWorlds = False,
        HostPage_GroupIDs = groupIDs\<rparr>"

definition HeadlessHostGet :: "'w HostConnector \<Rightarrow> 'w ctl \<Rightarrow> claims \<Rightarrow> string \<Rightarrow> HeadlessHost res" where
  "HeadlessHostGet con c caller hid =
     bindR (requireHostRead (lv_db c) caller hid) (\<lambda>_. HostRepository_Find con (ct_world c) (lv_db c) hid False)"

definition HeadlessHostDelete :: "'w HostConnector \<Rightarrow> 'w ctl \<Rightarrow> claims \<Rightarrow> string \<Rightarrow> unit res \<times> 'w ctl" where
  "HeadlessHostDelete con c caller hid =
     checkS (requireHostWrite (lv_db c) caller hid) c (\<lambda>_. HostRepository_Delete con c hid)"

definition HeadlessHostRestart ::
  "'w HostConnector \<Rightarrow> 'w ctl \<Rightarrow> claims \<Rightarrow> string \<Rightarrow> string option \<Rightarrow> bool \<Rightarrow> int \<Rightarrow> unit res \<times> 'w ctl" where
  "HeadlessHostRestart con c caller hid newTag withWorldRestart timeoutSeconds =
     checkS (requireHostWrite (lv_db c) caller hid) c (\<lambda>_.
     checkS (HostRepository_Find con (ct_world c) (lv_db c) hid withWorldRestart) c (\<lambda>host.
     checkS (resolveTagToUse con (ct_world c) newTag) c (\<lambda>tagToUse.
     checkS (GetHeadlessAccount (lv_db c) (HH_AccountId host)) c (\<lambda>account.
     checkS (SearchSessions c (running_on (HH_ID host))) c (\<lambda>sessions.
     bindS (markSessionsAsEnded c (fst sessions)) (\<lambda>_ c.
     HostRepository_Restart con c (HH_ID host)
       \<lparr>Start_Name = HH_Name host, Start_ContainerImageTag = tagToUse, Start_HeadlessAccount = account,
        Start_StartupConfig = Some (HeadlessHostSettingsToStartupConfigProto (HH_HostSettings host)),
        Start_AutoUpdatePolicy = HostAutoUpdatePolicy_UNSPECIFIED, Start_Memo = [], Start_GroupID = []\<rparr>
       timeoutSeconds))))))"

definition HeadlessHostShutdown :: "'w HostConnector \<Rightarrow> 'w ctl \<Rightarrow> claims \<Rightarrow> string \<Rightarrow> unit res \<times> 'w ctl" where
  "HeadlessHostShutdown con c caller hid =
     checkS (requireHostWrite (lv_db c) caller hid) c (\<lambda>_.
     checkS (SearchSessions c (running_on hid)) c (\<lambda>sessions.
     bindS (markSessionsAsEnded c (fst sessions)) (\<lambda>_ c.
     HostRepository_Stop con c hid (- 1))))"

definition HeadlessHostKill :: "'w HostConnector \<Rightarrow> 'w ctl \<Rightarrow> claims \<Rightarrow> string \<Rightarrow> unit res \<times> 'w ctl" where
  "HeadlessHostKill con c caller hid =
     checkS (requireHostWrite (lv_db c) caller hid) c (\<lambda>_.
     checkS (SearchSessions c (running_on hid)) c (\<lambda>sessions.
     bindS (markSessionsAsEnded c (fst sessions)) (\<lambda>_ c.
     HostRepository_Kill con c hid)))"

record HeadlessHostGetLogsResult =
  LogsResult_Logs :: "LogLine list"
  LogsResult_HasMoreBefore :: bool
  LogsResult_HasMoreAfter :: bool

definition HeadlessHostGetLogs :: "'w ctl \<Rightarrow> claims \<Rightarrow> GetLogsParams \<Rightarrow> HeadlessHostGetLogsResult res" where
  "HeadlessHostGetLogs c caller params =
     bindR (requireHostRead (lv_db c) caller (Logs_HostID params)) (\<lambda>_.
     let fetchLimit = wrap32 ((if Logs_Limit params \<le> 0 then 100 else Logs_Limit params) + 1) in
     bindR (HostRepository_GetLogs (lv_db c) (params\<lparr>Logs_Limit := fetchLimit\<rparr>)) (\<lambda>logs.
     let hasMore = (fetchLimit \<le> int (length logs)) in
     if hasMore \<and> logs = [] then Inl (panic ''slice bounds out of range'')
     else
       let logs = (if hasMore then butlast logs else logs);
           (before, after) = (if 0 < Logs_BeforeID params then (hasMore, False)
                              else if 0 < Logs_AfterID params then (False, hasMore)
                              else (hasMore, False))
       in Inr \<lparr>LogsResult_Logs = logs, LogsResult_HasMoreBefore = before, LogsResult_HasMoreAfter = after\<rparr>))"

section \<open>Lemmas: ending sessions\<close>

text \<open>A table of sessions as the database keeps it: unique ids, and parameters in every row.\<close>

definition session_table_ok :: "db \<Rightarrow> bool" where
  "session_table_ok d \<longleftrightarrow> distinct (map Session_ID (db_sessions d))
     \<and> (\<forall>s \<in> set (db_sessions d). Session_StartupParameters s \<noteq> None \<and> Session_CurrentState s = None)"

lemma session_of_row: "session_table_ok d \<Longrightarrow> s \<in> set (db_sessions d) \<Longrightarrow> session_of d (Session_ID s) = Some s"
  by (auto simp: session_table_ok_def session_of_def intro: tbl_get_key_unique)

lemma Upsert_existing:
  assumes "no_faults d" "session_of d (Session_ID s) = Some old" "Session_StartupParameters s \<noteq> None"
    "Session_CreatedBy s = Session_CreatedBy old" "Session_GroupID s = Session_GroupID old"
  shows "fst (SessionRepository_Upsert d s) = Inr ()" "upserted d s = s\<lparr>Session_CurrentState := None\<rparr>"
  using assms
  by (auto simp: SessionRepository_Upsert_def q_UpsertSession_def session_of_def Let_def fk_user_ok_def upserted_def
      split: option.split)

lemma ended_session_simps [simp]:
  "Session_ID (ended_session t s) = Session_ID s" "Session_CreatedBy (ended_session t s) = Session_CreatedBy s"
  "Session_GroupID (ended_session t s) = Session_GroupID s" "Session_HostID (ended_session t s) = Session_HostID s"
  "Session_Status (ended_session t s) = SessionStatus_ENDED" "Session_EndedAt (ended_session t s) = Some t"
  "Session_StartupParameters (ended_session t s) = None \<longleftrightarrow> Session_StartupParameters s = None"
  by (auto simp: ended_session_def Let_def split: option.split)

text \<open>Ending a list of live rows: exactly they end, whatever else is in the database stays.\<close>

definition live_rows :: "db \<Rightarrow> Session list \<Rightarrow> bool" where
  "live_rows d ss \<longleftrightarrow> distinct (map Session_ID ss) \<and>
     (\<forall>s \<in> set ss. Session_StartupParameters s \<noteq> None \<and>
        (\<exists>old. session_of d (Session_ID s) = Some old \<and> Session_CreatedBy s = Session_CreatedBy old
           \<and> Session_GroupID s = Session_GroupID old))"

definition ended_row :: "time \<Rightarrow> Session list \<Rightarrow> string \<Rightarrow> Session option" where
  "ended_row t ss x = map_option (\<lambda>s. (ended_session t s)\<lparr>Session_CurrentState := None\<rparr>) (tbl_get (session_row x) ss)"

lemma end_all:
  assumes "no_faults (lv_db c)" "live_rows (lv_db c) ss"
    "forS (\<lambda>c s. onDb c (SessionRepository_Upsert (lv_db c) (ended_session t s))) c ss = (r, c')"
  shows "r = Inr () \<and> (\<exists>ws. lv_db c' = (lv_db c)\<lparr>db_sessions := ws\<rparr>) \<and> lv_cache c' = lv_cache c \<and> ct_world c' = ct_world c
     \<and> (\<forall>x. session_of (lv_db c') x = (case ended_row t ss x of Some e \<Rightarrow> Some e | None \<Rightarrow> session_of (lv_db c) x))"
  using assms
proof (induction ss arbitrary: c)
  case Nil
  then show ?case by (auto simp: ended_row_def intro: exI[of _ "db_sessions (lv_db c')"])
next
  case (Cons s ss)
  let ?e = "ended_session t s"
  obtain old where old: "session_of (lv_db c) (Session_ID s) = Some old" "Session_StartupParameters s \<noteq> None"
    "Session_CreatedBy s = Session_CreatedBy old" "Session_GroupID s = Session_GroupID old"
    using Cons.prems(2) by (auto simp: live_rows_def)
  have up: "fst (SessionRepository_Upsert (lv_db c) ?e) = Inr ()" "upserted (lv_db c) ?e = ?e\<lparr>Session_CurrentState := None\<rparr>"
    using Upsert_existing[OF Cons.prems(1), of ?e old] old by auto
  define d1 where "d1 = snd (SessionRepository_Upsert (lv_db c) ?e)"
  have run1: "SessionRepository_Upsert (lv_db c) ?e = (Inr (), d1)" using up(1) by (simp add: d1_def prod_eq_iff)
  note rows1 = Upsert_Inr[OF run1, unfolded up(2)]
  obtain ws where d1: "d1 = (lv_db c)\<lparr>db_sessions := ws\<rparr>" using rows1(2) by blast
  let ?c = "c\<lparr>lv_db := d1\<rparr>"
  have rest: "forS (\<lambda>c s. onDb c (SessionRepository_Upsert (lv_db c) (ended_session t s))) ?c ss = (r, c')"
    using Cons.prems(3) run1 by (simp add: onDb_def)
  have nf: "no_faults (lv_db ?c)" using Cons.prems(1) by (simp add: d1)
  have neq: "Session_ID u \<noteq> Session_ID s" if "u \<in> set ss" for u
    using Cons.prems(2) imageI[OF that, of Session_ID] by (auto simp: live_rows_def)
  have lr: "live_rows (lv_db ?c) ss" using Cons.prems(2) rows1(1) neq by (auto simp: live_rows_def)
  note ih = Cons.IH[OF nf lr rest]
  have none: "tbl_get (session_row (Session_ID s)) ss = None"
    using neq by (auto simp: tbl_get_None_iff)
  have "session_of (lv_db c') x = (case ended_row t (s # ss) x of Some e \<Rightarrow> Some e | None \<Rightarrow> session_of (lv_db c) x)" for x
    using ih rows1(1)[of x] none by (auto simp: ended_row_def split: option.split)
  moreover have "\<exists>ws. lv_db c' = (lv_db c)\<lparr>db_sessions := ws\<rparr>" using ih d1 by auto
  ultimately show ?case using ih by simp
qed

lemma distinct_map_sort_key [simp]: "distinct (map f (sort_key k xs)) = distinct (map f xs)"
  by (rule mset_eq_imp_distinct_iff) simp

text \<open>The sessions that a stop of a host finds and ends.\<close>

definition live_on :: "'w ctl \<Rightarrow> string \<Rightarrow> Session list" where
  "live_on c hid = hydrateCurrentState (lv_cache c)
     (filter (\<lambda>s. Session_HostID s = hid)
        (sort_key started_desc (filter (\<lambda>s. Session_Status s = SessionStatus_RUNNING) (db_sessions (lv_db c)))))"

lemma SearchSessions_running:
  "no_faults (lv_db c) \<Longrightarrow> \<exists>n. SearchSessions c (running_on hid) = Inr (live_on c hid, n)"
  by (simp add: SearchSessions_def running_on_def SessionRepository_ListByStatus_def q_ListSessionsByStatus_def live_on_def Let_def)

definition hydrated :: "MemoryCache \<Rightarrow> Session \<Rightarrow> Session" where
  "hydrated cache s = (case Cache_Get cache (Session_ID s) of None \<Rightarrow> s | Some x \<Rightarrow> s\<lparr>Session_CurrentState := Some x\<rparr>)"

lemma hydrated_simps [simp]:
  "Session_ID (hydrated k s) = Session_ID s" "Session_GroupID (hydrated k s) = Session_GroupID s"
  "Session_CreatedBy (hydrated k s) = Session_CreatedBy s" "Session_StartupParameters (hydrated k s) = Session_StartupParameters s"
  by (simp_all add: hydrated_def split: option.split)

lemma live_on_map: "live_on c hid = map (hydrated (lv_cache c)) (filter (\<lambda>s. Session_HostID s = hid)
        (sort_key started_desc (filter (\<lambda>s. Session_Status s = SessionStatus_RUNNING) (db_sessions (lv_db c)))))"
  by (simp add: live_on_def hydrateCurrentState_def hydrated_def)

lemma live_on_rows: "session_table_ok (lv_db c) \<Longrightarrow> live_rows (lv_db c) (live_on c hid)"
  by (auto simp: live_rows_def live_on_map session_table_ok_def comp_def session_of_row[unfolded session_table_ok_def]
      intro!: distinct_map_filter)

lemma tbl_get_map: "tbl_get p (map f xs) = map_option f (tbl_get (\<lambda>x. p (f x)) xs)"
  by (induction xs) auto

lemma ended_row_live_on:
  assumes "session_table_ok (lv_db c)"
  shows "ended_row t (live_on c hid) x =
     (case session_of (lv_db c) x of
        None \<Rightarrow> None
      | Some s \<Rightarrow> if Session_HostID s = hid \<and> Session_Status s = SessionStatus_RUNNING
                  then Some ((ended_session t (hydrated (lv_cache c) s))\<lparr>Session_CurrentState := None\<rparr>) else None)"
proof -
  let ?l = "filter (\<lambda>s. Session_HostID s = hid)
        (sort_key started_desc (filter (\<lambda>s. Session_Status s = SessionStatus_RUNNING) (db_sessions (lv_db c))))"
  have dist: "distinct (map Session_ID ?l)"
    using assms by (auto simp: session_table_ok_def intro!: distinct_map_filter)
  have get: "tbl_get (session_row x) ?l = (case session_of (lv_db c) x of None \<Rightarrow> None
      | Some s \<Rightarrow> if Session_HostID s = hid \<and> Session_Status s = SessionStatus_RUNNING then Some s else None)"
  proof (cases "tbl_get (session_row x) ?l")
    case None
    then have "\<forall>s \<in> set ?l. Session_ID s \<noteq> x" by (simp only: tbl_get_None_iff)
    then show ?thesis using None session_ID_of[of "lv_db c" x] by (auto split: option.split)
  next
    case (Some s)
    then have "s \<in> set ?l" "Session_ID s = x" using tbl_get_SomeD by force+
    then show ?thesis using Some session_of_row[OF assms, of s] by auto
  qed
  show ?thesis unfolding ended_row_def live_on_map tbl_get_map
    using get by (auto split: option.split)
qed

section \<open>Lemmas: host rows\<close>

lemma update_host_twice [simp]:
  "(\<And>h. Host_ID (f h) = Host_ID h) \<Longrightarrow> update_host hid g (update_host hid f d) = update_host hid (\<lambda>h. g (f h)) d"
  by (auto simp: update_host_def tbl_update_def)

lemma update_host_fields [simp]:
  "db_sessions (update_host hid f d) = db_sessions d" "db_accounts (update_host hid f d) = db_accounts d"
  "db_now (update_host hid f d) = db_now d"
  by (simp_all add: update_host_def)

lemma set_host_status_nf:
  "no_faults (lv_db c) \<Longrightarrow> set_host_status hid st c = c\<lparr>lv_db := update_host hid (\<lambda>h. h\<lparr>Host_Status := st\<rparr>) (lv_db c)\<rparr>"
  by (simp add: set_host_status_def onDb_def q_UpdateHostStatus_def)

lemma session_of_update_host [simp]: "session_of (update_host hid f d) x = session_of d x"
  by (simp add: session_of_def)

lemmas host_query_defs = q_UpdateHostMemo_def q_UpdateHostAutoUpdatePolicy_def q_UpdateHostConnectString_def
  q_UpdateHostLastStartupConfig_def

lemma Restart_Inr:
  assumes nf: "no_faults (lv_db c)" and run: "HostRepository_Restart con c hid p timeout = (Inr u, c')"
  shows "\<exists>h cs. host_of (lv_db c) hid = Some h
     \<and> lv_db c' = update_host hid (\<lambda>h. h\<lparr>Host_Memo := Some (Start_Memo p), Host_AutoUpdatePolicy := Start_AutoUpdatePolicy p,
            Host_InstanceCount := Host_InstanceCount h + 1, Host_ConnectString := cs, Host_Status := HeadlessHostStatus_RUNNING,
            Host_LastStartupConfig := config_json (Start_StartupConfig p)\<rparr>) (lv_db c)
     \<and> lv_cache c' = lv_cache c"
proof -
  have inc: "q_IncrementHostInstanceCount d hid = (Inr n, d1) \<Longrightarrow> no_faults d \<Longrightarrow>
      d1 = update_host hid (\<lambda>h. h\<lparr>Host_InstanceCount := Host_InstanceCount h + 1\<rparr>) d" for d n d1
    by (auto simp: q_IncrementHostInstanceCount_def split: option.splits if_splits)
  show ?thesis
    using run nf unfolding HostRepository_Restart_def
    by (auto simp: ctrl_simps Let_def set_host_status_nf host_query_defs dest!: q_GetHost_Inr inc split: if_splits)
qed

lemma q_IncrementHostInstanceCount_nf:
  "no_faults d \<Longrightarrow> q_IncrementHostInstanceCount d hid =
     (case host_of d hid of
        None \<Rightarrow> (Inl ErrNoRows, d)
      | Some h \<Rightarrow> if in32 (Host_InstanceCount h + 1)
                  then (Inr (Host_InstanceCount h + 1), update_host hid (\<lambda>h. h\<lparr>Host_InstanceCount := Host_InstanceCount h + 1\<rparr>) d)
                  else (Inl ErrDB, d))"
  by (simp add: q_IncrementHostInstanceCount_def host_of_def)

text \<open>A runtime on which every request succeeds.\<close>

definition able_runtime :: "'w HostConnector \<Rightarrow> bool" where
  "able_runtime con \<longleftrightarrow> (\<forall>w cs t. fst (con_Stop con w cs t) = Inr ()) \<and> (\<forall>w cs. fst (con_Remove con w cs) = Inr ())
     \<and> (\<forall>w p. \<exists>cs. fst (con_Start con w p) = Inr cs)"

lemma host_updates_nf:
  assumes "no_faults d"
  shows "map_errS e (onDb c (q_UpdateHostMemo d hid m))
           = (Inr (), c\<lparr>lv_db := update_host hid (\<lambda>h. h\<lparr>Host_Memo := m\<rparr>) d\<rparr>)"
    "map_errS e (onDb c (q_UpdateHostAutoUpdatePolicy d hid p))
           = (Inr (), c\<lparr>lv_db := update_host hid (\<lambda>h. h\<lparr>Host_AutoUpdatePolicy := p\<rparr>) d\<rparr>)"
    "map_errS e (onDb c (q_UpdateHostConnectString d hid s))
           = (Inr (), c\<lparr>lv_db := update_host hid (\<lambda>h. h\<lparr>Host_ConnectString := s\<rparr>) d\<rparr>)"
    "map_errS e (onDb c (q_UpdateHostLastStartupConfig d hid cfg))
           = (Inr (), c\<lparr>lv_db := update_host hid (\<lambda>h. h\<lparr>Host_LastStartupConfig := cfg\<rparr>) d\<rparr>)"
  using assms by (simp_all add: onDb_def host_query_defs map_errS_def)

lemma Restart_ok:
  assumes nf: "no_faults (lv_db c)" and con: "able_runtime con"
    and h: "host_of (lv_db c) hid = Some h" "Host_ConnectorType h = HostConnectorType_DOCKER" "in32 (Host_InstanceCount h + 1)"
  shows "fst (HostRepository_Restart con c hid p timeout) = Inr ()"
proof -
  obtain st where "\<And>w p. fst (con_Start con w p) = Inr (st w p)" using con unfolding able_runtime_def by metis
  then have w: "onWorld c (con_Stop con w cs t) = (Inr (), c\<lparr>ct_world := snd (con_Stop con w cs t)\<rparr>)"
    "onWorld c (con_Remove con w cs) = (Inr (), c\<lparr>ct_world := snd (con_Remove con w cs)\<rparr>)"
    "onWorld c (con_Start con w q) = (Inr (st w q), c\<lparr>ct_world := snd (con_Start con w q)\<rparr>)" for c w cs t q
    using con by (simp_all add: able_runtime_def onWorld_def)
  have inc: "map_errS e (onDb c (q_IncrementHostInstanceCount d hid))
      = (Inr (Host_InstanceCount k + 1), c\<lparr>lv_db := update_host hid (\<lambda>h. h\<lparr>Host_InstanceCount := Host_InstanceCount h + 1\<rparr>) d\<rparr>)"
    if "no_faults d" "host_of d hid = Some k" "in32 (Host_InstanceCount k + 1)" for c :: "'a ctl" and d k e
    using that by (simp add: q_IncrementHostInstanceCount_nf onDb_def map_errS_def)
  show ?thesis
    unfolding HostRepository_Restart_def Let_def
    using nf h by (simp add: q_GetHost_total getConnector_def set_host_status_nf host_updates_nf w inc host_of_update)
qed

lemma fetchHostInfo_ID: "HH_ID (snd (fetchHostInfo e client)) = HH_ID e \<and> HH_Name (snd (fetchHostInfo e client)) = HH_Name e"
  by (auto simp: fetchHostInfo_def Let_def split: sum.split prod.split)

lemma dbToEntity_ID: "dbToEntity con w d h iw = Inr e \<Longrightarrow> HH_ID e = Host_ID h"
  using fetchHostInfo_ID[of "base_entity h (Host_Status h)"]
  by (auto simp: dbToEntity_def Let_def ctrl_simps base_entity_def split: sum.splits prod.splits if_splits)
     (metis snd_conv)+

lemma Find_Inr:
  "HostRepository_Find con w d hid iw = Inr e \<Longrightarrow> \<exists>h. host_of d hid = Some h \<and> dbToEntity con w d h iw = Inr e \<and> HH_ID e = hid"
  using host_ID_of[of d hid]
  by (auto simp: HostRepository_Find_def ctrl_simps dest!: q_GetHost_Inr dest: dbToEntity_ID)

text \<open>What a stop does to the sessions: the running ones of the host end, all others stay.\<close>

definition stopped_session :: "'w ctl \<Rightarrow> string \<Rightarrow> Session \<Rightarrow> Session" where
  "stopped_session c hid s =
     (if Session_HostID s = hid \<and> Session_Status s = SessionStatus_RUNNING
      then (ended_session (db_now (lv_db c)) (hydrated (lv_cache c) s))\<lparr>Session_CurrentState := None\<rparr> else s)"

lemma markSessionsAsEnded_live:
  assumes "no_faults (lv_db c)" "session_table_ok (lv_db c)" "markSessionsAsEnded c (live_on c hid) = (r, c')"
  shows "r = Inr () \<and> (\<exists>ws. lv_db c' = (lv_db c)\<lparr>db_sessions := ws\<rparr>) \<and> lv_cache c' = lv_cache c \<and> ct_world c' = ct_world c
     \<and> (\<forall>x. session_of (lv_db c') x = map_option (stopped_session c hid) (session_of (lv_db c) x))"
  using end_all[OF assms(1) live_on_rows[OF assms(2)]] assms(3)
  by (auto simp: markSessionsAsEnded_def Let_def ended_row_live_on[OF assms(2)] stopped_session_def split: option.split)

lemma host_of_sessions [simp]: "host_of (d\<lparr>db_sessions := ws\<rparr>) x = host_of d x"
  by (simp add: host_of_def)

lemma HeadlessHostRestart_Inr:
  assumes nf: "no_faults (lv_db c)" and tbl: "session_table_ok (lv_db c)"
    and run: "HeadlessHostRestart con c caller hid newTag ww timeout = (Inr u, c')"
  shows "\<exists>h e h'. host_of (lv_db c) hid = Some h \<and> dbToEntity con (ct_world c) (lv_db c) h ww = Inr e
     \<and> host_of (lv_db c') hid = Some h' \<and> Host_Status h' = HeadlessHostStatus_RUNNING
     \<and> Host_InstanceCount h' = Host_InstanceCount h + 1 \<and> Host_Name h' = Host_Name h \<and> Host_GroupID h' = Host_GroupID h
     \<and> Host_Memo h' = Some [] \<and> Host_AutoUpdatePolicy h' = HostAutoUpdatePolicy_UNSPECIFIED
     \<and> Host_LastStartupConfig h' = HeadlessHostSettingsToStartupConfigProto (HH_HostSettings e)
     \<and> (\<forall>x. session_of (lv_db c') x = map_option (stopped_session c hid) (session_of (lv_db c) x))"
proof -
  obtain n where search: "SearchSessions c (running_on hid) = Inr (live_on c hid, n)"
    using SearchSessions_running[OF nf] by blast
  obtain e tag account c1 where e: "HostRepository_Find con (ct_world c) (lv_db c) hid ww = Inr e"
    and mark: "markSessionsAsEnded c (live_on c (HH_ID e)) = (Inr (), c1)"
    and rst: "HostRepository_Restart con c1 (HH_ID e)
       \<lparr>Start_Name = HH_Name e, Start_ContainerImageTag = tag, Start_HeadlessAccount = account,
        Start_StartupConfig = Some (HeadlessHostSettingsToStartupConfigProto (HH_HostSettings e)),
        Start_AutoUpdatePolicy = HostAutoUpdatePolicy_UNSPECIFIED, Start_Memo = [], Start_GroupID = []\<rparr> timeout = (Inr u, c')"
    using run search Find_Inr[of con "ct_world c" "lv_db c" hid ww]
    by (auto simp: HeadlessHostRestart_def ctrl_simps)
  obtain h where h: "host_of (lv_db c) hid = Some h" "dbToEntity con (ct_world c) (lv_db c) h ww = Inr e" "HH_ID e = hid"
    using Find_Inr[OF e] by blast
  note m = markSessionsAsEnded_live[OF nf tbl mark[unfolded h(3)]]
  obtain ws where ws: "lv_db c1 = (lv_db c)\<lparr>db_sessions := ws\<rparr>" using m by blast
  have nf1: "no_faults (lv_db c1)" using nf by (simp add: ws)
  from Restart_Inr[OF nf1 rst] obtain cs where d': "lv_db c' = update_host hid (\<lambda>h. h\<lparr>Host_Memo := Some [],
            Host_AutoUpdatePolicy := HostAutoUpdatePolicy_UNSPECIFIED,
            Host_InstanceCount := Host_InstanceCount h + 1, Host_ConnectString := cs, Host_Status := HeadlessHostStatus_RUNNING,
            Host_LastStartupConfig := HeadlessHostSettingsToStartupConfigProto (HH_HostSettings e)\<rparr>) (lv_db c1)"
    by (auto simp: h(3) config_json_def)
  have "session_of (lv_db c') x = map_option (stopped_session c hid) (session_of (lv_db c) x)" for x
    using m by (simp add: d')
  moreover have "host_of (lv_db c') hid = map_option (\<lambda>h. h\<lparr>Host_Memo := Some [],
            Host_AutoUpdatePolicy := HostAutoUpdatePolicy_UNSPECIFIED,
            Host_InstanceCount := Host_InstanceCount h + 1, Host_ConnectString := cs, Host_Status := HeadlessHostStatus_RUNNING,
            Host_LastStartupConfig := HeadlessHostSettingsToStartupConfigProto (HH_HostSettings e)\<rparr>) (host_of (lv_db c1) hid)"
    unfolding d' by (subst host_of_update) simp_all
  ultimately show ?thesis using h(1,2) by (simp add: ws)
qed

lemma HeadlessHostRestart_ok:
  assumes nf: "no_faults (lv_db c)" and tbl: "session_table_ok (lv_db c)" and con: "able_runtime con"
    and acc: "requireHostWrite (lv_db c) caller hid = Inr ()"
    and e: "HostRepository_Find con (ct_world c) (lv_db c) hid ww = Inr e"
    and a: "GetHeadlessAccount (lv_db c) (HH_AccountId e) = Inr account"
    and t: "resolveTagToUse con (ct_world c) newTag = Inr tag"
    and h: "host_of (lv_db c) hid = Some h" "Host_ConnectorType h = HostConnectorType_DOCKER" "in32 (Host_InstanceCount h + 1)"
  shows "fst (HeadlessHostRestart con c caller hid newTag ww timeout) = Inr ()"
proof -
  obtain n where search: "SearchSessions c (running_on hid) = Inr (live_on c hid, n)"
    using SearchSessions_running[OF nf] by blast
  obtain r1 c1 where mark: "markSessionsAsEnded c (live_on c hid) = (r1, c1)" by force
  note m = markSessionsAsEnded_live[OF nf tbl mark]
  have "HH_ID e = hid" using Find_Inr[OF e] by blast
  moreover have "no_faults (lv_db c1)" "host_of (lv_db c1) hid = Some h" using m nf h(1) by auto
  ultimately show ?thesis
    using Restart_ok[OF _ con _ h(2,3), of c1] m by (simp add: HeadlessHostRestart_def acc e t a search mark)
qed

section \<open>Properties\<close>

text \<open>
  A restart goes through when nothing stands in its way. With a working database and a runtime that
  serves every request, a caller with \<open>host:write\<close>, a host that can be read, whose account exists and
  for which an image is found, the restart succeeds - also when the container itself no longer answers.
\<close>

theorem Restart_succeeds:
  assumes "no_faults (lv_db c)" "session_table_ok (lv_db c)" "able_runtime con"
    "requireHostWrite (lv_db c) caller hid = Inr ()"
    "HostRepository_Find con (ct_world c) (lv_db c) hid ww = Inr e"
    "GetHeadlessAccount (lv_db c) (HH_AccountId e) = Inr account"
    "resolveTagToUse con (ct_world c) newTag = Inr tag"
    "host_of (lv_db c) hid = Some h" "Host_ConnectorType h = HostConnectorType_DOCKER" "in32 (Host_InstanceCount h + 1)"
  shows "\<exists>c'. HeadlessHostRestart con c caller hid newTag ww timeout = (Inr (), c')
     \<and> map_option Host_Status (host_of (lv_db c') hid) = Some HeadlessHostStatus_RUNNING"
proof -
  obtain c' where run: "HeadlessHostRestart con c caller hid newTag ww timeout = (Inr (), c')"
    using HeadlessHostRestart_ok[OF assms] by (metis prod.collapse)
  show ?thesis using HeadlessHostRestart_Inr[OF assms(1,2) run] run by auto
qed


text \<open>
  Restarting a host that does not answer wipes its configuration. When the row says RUNNING and the
  connector cannot reach the container, a restart that succeeds starts the host with empty settings
  (no worlds, no allowed hosts, a tick rate of 0) and stores them over the last configuration.
\<close>

theorem Restart_unresponsive_wipes:
  assumes "no_faults (lv_db c)" "session_table_ok (lv_db c)"
    and h: "host_of (lv_db c) hid = Some h" "Host_Status h = HeadlessHostStatus_RUNNING"
      "con_GetRpcClient con (ct_world c) (Host_ConnectString h) = Inl err"
    and run: "HeadlessHostRestart con c caller hid newTag ww timeout = (Inr u, c')"
  shows "map_option Host_LastStartupConfig (host_of (lv_db c') hid)
           = Some (HeadlessHostSettingsToStartupConfigProto zero_settings)"
proof -
  obtain e h' where e: "dbToEntity con (ct_world c) (lv_db c) h ww = Inr e" and h': "host_of (lv_db c') hid = Some h'"
    "Host_LastStartupConfig h' = HeadlessHostSettingsToStartupConfigProto (HH_HostSettings e)"
    using HeadlessHostRestart_Inr[OF assms(1,2) run] h(1) by auto
  have "HH_HostSettings e = zero_settings"
    using e h(2,3) by (auto simp: dbToEntity_def Let_def ctrl_simps base_entity_def)
  then show ?thesis using h' by simp
qed

lemma Kill_Inr:
  assumes "no_faults (lv_db c)" "HostRepository_Kill con c hid = (Inr u, c')"
  shows "(\<exists>h. host_of (lv_db c) hid = Some h \<and> host_of (lv_db c') hid = Some (h\<lparr>Host_Status := HeadlessHostStatus_EXITED\<rparr>))
     \<and> (\<forall>x. session_of (lv_db c') x = session_of (lv_db c) x)"
  using assms host_ID_of[of "lv_db c" hid] unfolding HostRepository_Kill_def
  by (auto simp: ctrl_simps Let_def set_host_status_nf host_of_update dest!: q_GetHost_Inr)

lemma Stop_Inr:
  assumes "no_faults (lv_db c)" "HostRepository_Stop con c hid t = (Inr u, c')"
  shows "(\<exists>h client cfg. host_of (lv_db c) hid = Some h
        \<and> con_GetRpcClient con (ct_world c) (Host_ConnectString h) = Inr client \<and> rpc_GetStartupConfigToRestore client True = Inr cfg
        \<and> host_of (lv_db c') hid = Some (h\<lparr>Host_Status := HeadlessHostStatus_EXITED, Host_LastStartupConfig := cfg\<rparr>))
     \<and> (\<forall>x. session_of (lv_db c') x = session_of (lv_db c) x)"
  using assms host_ID_of[of "lv_db c" hid] unfolding HostRepository_Stop_def
  by (auto simp: ctrl_simps Let_def set_host_status_nf host_of_update host_query_defs dest!: q_GetHost_Inr)

text \<open>
  Stopping a host ends its sessions. After a successful shutdown or kill the host is EXITED, every
  session that was RUNNING on it is ENDED at that time and will start from its last known world, no
  other session changed, and a shutdown stored the configuration the container gave.
\<close>

theorem stop_ends_sessions:
  assumes nf: "no_faults (lv_db c)" and tbl: "session_table_ok (lv_db c)"
    and run: "HeadlessHostKill con c caller hid = (Inr u, c') \<or> HeadlessHostShutdown con c caller hid = (Inr u, c')"
  shows "map_option Host_Status (host_of (lv_db c') hid) = Some HeadlessHostStatus_EXITED
     \<and> (\<forall>x. session_of (lv_db c') x = map_option (stopped_session c hid) (session_of (lv_db c) x))"
proof -
  obtain n where search: "SearchSessions c (running_on hid) = Inr (live_on c hid, n)"
    using SearchSessions_running[OF nf] by blast
  obtain r1 c1 where mark: "markSessionsAsEnded c (live_on c hid) = (r1, c1)" by force
  note m = markSessionsAsEnded_live[OF nf tbl mark]
  have nf1: "no_faults (lv_db c1)" using m nf by auto
  have "HostRepository_Kill con c1 hid = (Inr u, c') \<or> HostRepository_Stop con c1 hid (- 1) = (Inr u, c')"
    using run by (auto simp: HeadlessHostKill_def HeadlessHostShutdown_def ctrl_simps search mark)
  then show ?thesis
    using Kill_Inr[OF nf1] Stop_Inr[OF nf1] m by fastforce
qed

text \<open>
  Host operations need \<open>host:write\<close>. Deleting, restarting, shutting down or killing a host changes
  nothing at all - rows, snapshots or containers - unless the caller is allowed \<open>host:write\<close> in the group
  of the host.
\<close>

inductive host_step :: "'w HostConnector \<Rightarrow> claims \<Rightarrow> string \<Rightarrow> 'w ctl \<Rightarrow> 'w ctl \<Rightarrow> bool" for con caller hid where
  delete: "host_step con caller hid c (snd (HeadlessHostDelete con c caller hid))"
| restart: "host_step con caller hid c (snd (HeadlessHostRestart con c caller hid newTag ww timeout))"
| shutdown: "host_step con caller hid c (snd (HeadlessHostShutdown con c caller hid))"
| kill: "host_step con caller hid c (snd (HeadlessHostKill con c caller hid))"

lemma requireHostWrite_Inr:
  "requireHostWrite d caller hid = Inr u \<Longrightarrow>
     \<exists>h uid. host_of d hid = Some h \<and> caller = Some uid \<and> allowed d uid (Host_GroupID h) PermKey_HostWrite"
  by (auto simp: requireHostWrite_def HostRepository_GetGroupID_def ctrl_simps dest!: q_GetHost_Inr RequirePermissionForGroup_Inr)

theorem host_changes_authorised:
  assumes "host_step con caller hid c c'" "c' \<noteq> c"
  shows "\<exists>h uid. host_of (lv_db c) hid = Some h \<and> caller = Some uid
     \<and> allowed (lv_db c) uid (Host_GroupID h) PermKey_HostWrite"
proof -
  have "\<exists>u. requireHostWrite (lv_db c) caller hid = Inr u"
    using assms
    by cases (cases "requireHostWrite (lv_db c) caller hid";
        simp add: HeadlessHostDelete_def HeadlessHostRestart_def HeadlessHostShutdown_def HeadlessHostKill_def)+
  then show ?thesis using requireHostWrite_Inr by blast
qed

lemma GetLogs_eq:
  assumes "no_faults d" "0 < Logs_Limit p"
    "\<forall>l \<in> set (db_logs d). Log_Tag l = log_tag (Logs_HostID p) (Logs_InstanceID p) \<longrightarrow> parseContainerLogRow l \<noteq> None"
  shows "HostRepository_GetLogs d p = Inr (rev (map (\<lambda>l. the (parseContainerLogRow l)) (take (nat (Logs_Limit p))
     (sort_key (\<lambda>l. - Log_ID l) (filter (\<lambda>l. Log_Tag l = log_tag (Logs_HostID p) (Logs_InstanceID p)
        \<and> (Logs_BeforeID p = 0 \<or> Log_ID l < Logs_BeforeID p) \<and> (Logs_AfterID p = 0 \<or> Logs_AfterID p < Log_ID l)) (db_logs d))))))"
proof -
  have mf: "List.map_filter parseContainerLogRow xs = map (\<lambda>l. the (parseContainerLogRow l)) xs"
    if "\<forall>l \<in> set xs. parseContainerLogRow l \<noteq> None" for xs
    using that by (induction xs) (auto simp: List.map_filter_simps split: option.split)
  show ?thesis
    using assms by (simp add: HostRepository_GetLogs_def q_GetContainerLogsByTag_def)
       (rule mf, auto dest!: in_set_takeD)
qed

lemma parse_ID: "parseContainerLogRow l \<noteq> None \<Longrightarrow> Line_ID (the (parseContainerLogRow l)) = Log_ID l"
  by (auto simp: parseContainerLogRow_def split: option.splits)

lemma tl_sort_desc_newest:
  assumes "distinct (map Log_ID rows)" "newest \<in> set rows" "\<forall>l \<in> set rows. Log_ID l \<le> Log_ID newest"
    "l \<in> set (tl (sort_key (\<lambda>l. - Log_ID l) rows))"
  shows "Log_ID l \<noteq> Log_ID newest"
proof -
  let ?s = "sort_key (\<lambda>l. - Log_ID l) rows"
  obtain x xs where s: "?s = x # xs" using assms(2) by (cases ?s) (auto dest: arg_cong[where f = set])
  have set: "set (x # xs) = set rows" using s by (metis set_sort)
  have "sorted (map (\<lambda>l. - Log_ID l) (x # xs))" using s by (metis sorted_sort_key)
  then have "\<forall>y \<in> set (x # xs). Log_ID y \<le> Log_ID x" by auto
  then have x: "Log_ID x = Log_ID newest" using assms(2,3) set by (metis list.set_intros(1) order_antisym)
  have "distinct (map Log_ID (x # xs))" using assms(1) s by (metis distinct_map_sort_key)
  moreover have "Log_ID l \<in> Log_ID ` set xs" using assms(4) s by simp
  ultimately show ?thesis using x by auto
qed

text \<open>
  The newest log line is not shown. Without a cursor, when the instance has more lines than the
  limit, the result has as many lines as asked for and says there are older ones, but the line it
  leaves out to make room is the newest of all instead of the oldest it fetched.
\<close>

theorem logs_drop_newest:
  assumes nf: "no_faults (lv_db c)" and acc: "requireHostRead (lv_db c) caller (Logs_HostID p) = Inr ()"
    and lim: "0 < Logs_Limit p" "Logs_Limit p + 1 < 2 ^ 31" and cur: "Logs_BeforeID p = 0" "Logs_AfterID p = 0"
    and rows: "rows = filter (\<lambda>l. Log_Tag l = log_tag (Logs_HostID p) (Logs_InstanceID p)) (db_logs (lv_db c))"
      "\<forall>l \<in> set rows. parseContainerLogRow l \<noteq> None" "distinct (map Log_ID rows)" "Logs_Limit p < int (length rows)"
    and newest: "newest \<in> set rows" "\<forall>l \<in> set rows. Log_ID l \<le> Log_ID newest"
  shows "\<exists>r. HeadlessHostGetLogs c caller p = Inr r \<and> int (length (LogsResult_Logs r)) = Logs_Limit p
     \<and> LogsResult_HasMoreBefore r \<and> Log_ID newest \<notin> Line_ID ` set (LogsResult_Logs r)"
proof -
  define n where "n = nat (Logs_Limit p)"
  let ?s = "sort_key (\<lambda>l. - Log_ID l) rows"
  let ?f = "\<lambda>l. the (parseContainerLogRow l)"
  have w: "wrap32 (Logs_Limit p + 1) = Logs_Limit p + 1" using lim by (simp add: in32_def)
  have n: "nat (Logs_Limit p + 1) = Suc n" "n < length rows" using lim(1) rows(4) by (simp_all add: n_def nat_add_distrib)
  let ?logs = "rev (map ?f (take (Suc n) ?s))"
  have "HostRepository_GetLogs (lv_db c) (p\<lparr>Logs_Limit := Logs_Limit p + 1\<rparr>) = Inr ?logs"
    using GetLogs_eq[OF nf, of "p\<lparr>Logs_Limit := Logs_Limit p + 1\<rparr>"] lim rows cur by (simp add: n(1))
  moreover have len: "length ?logs = Suc n" using n(2) by simp
  then have ne: "?logs \<noteq> []" by (metis length_0_conv nat.distinct(1))
  moreover have "Logs_Limit p + 1 \<le> int (length ?logs)" unfolding len using lim(1) by (simp add: n_def)
  ultimately have run: "HeadlessHostGetLogs c caller p
     = Inr \<lparr>LogsResult_Logs = butlast ?logs, LogsResult_HasMoreBefore = True, LogsResult_HasMoreAfter = False\<rparr>"
    using acc lim(1) cur by (simp add: HeadlessHostGetLogs_def w Let_def del: rev_map)
  have bl: "set (butlast ?logs) = ?f ` set (tl (take (Suc n) ?s))"
    by (simp add: butlast_rev map_tl flip: set_map)
  have sub: "set (tl (take (Suc n) ?s)) \<subseteq> set (tl ?s)"
    by (cases ?s) (auto dest: in_set_takeD)
  have "Log_ID newest \<notin> Line_ID ` set (butlast ?logs)"
  proof
    assume "Log_ID newest \<in> Line_ID ` set (butlast ?logs)"
    then obtain l where l: "l \<in> set (tl ?s)" "Log_ID newest = Line_ID (?f l)" unfolding bl using sub by blast
    then have "l \<in> set rows" by (metis list.set_sel(2) set_sort tl_Nil empty_iff list.set(1))
    then show False
      using l parse_ID[of l] rows(2) tl_sort_desc_newest[OF rows(3) newest l(1)] by simp
  qed
  then show ?thesis
    by (intro exI[of _ "\<lparr>LogsResult_Logs = butlast ?logs, LogsResult_HasMoreBefore = True, LogsResult_HasMoreAfter = False\<rparr>"])
       (use len lim(1) in \<open>simp add: run n_def del: rev_map\<close>)
qed

lemma find_split: "List.find P xs = Some x \<Longrightarrow> \<exists>us vs. xs = us @ x # vs \<and> P x \<and> (\<forall>u \<in> set us. \<not> P u)"
proof (induction xs)
  case (Cons a xs)
  show ?case
  proof (cases "P a")
    case True
    then show ?thesis using Cons.prems by (intro exI[of _ "[]"] exI[of _ xs]) simp
  next
    case False
    then obtain us vs where "xs = us @ x # vs" "P x" "\<forall>u \<in> set us. \<not> P u" using Cons by auto
    then show ?thesis using False by (intro exI[of _ "a # us"] exI[of _ vs]) simp
  qed
qed simp

text \<open>
  The newest image is chosen. A request for the latest release or pre-release, or for no tag in
  particular, takes the last tag of the registry's list that has the wanted kind, and fails exactly when
  there is none; any other tag is used as given.
\<close>

theorem resolveTagToUse_newest:
  assumes "con_ListContainerTags con w None = Inr tags"
  shows "(t \<in> {None, Some [], Some ''latestRelease'', Some ''latestPreRelease''} \<longrightarrow>
       (case resolveTagToUse con w t of
          Inr tag \<Rightarrow> (\<exists>older img newer. tags = older @ img # newer \<and> Image_Tag img = tag
              \<and> Image_IsPreRelease img = (t = Some ''latestPreRelease'')
              \<and> (\<forall>x \<in> set newer. Image_IsPreRelease x \<noteq> (t = Some ''latestPreRelease'')))
        | Inl _ \<Rightarrow> (\<forall>x \<in> set tags. Image_IsPreRelease x \<noteq> (t = Some ''latestPreRelease''))))
     \<and> (t = Some tag \<and> tag \<notin> {[], ''latestRelease'', ''latestPreRelease''} \<longrightarrow> resolveTagToUse con w t = Inr tag)"
proof (intro conjI impI)
  let ?want = "t = Some ''latestPreRelease''"
  assume t: "t \<in> {None, Some [], Some ''latestRelease'', Some ''latestPreRelease''}"
  have r: "resolveTagToUse con w t = (case List.find (\<lambda>x. Image_IsPreRelease x = ?want) (rev tags) of
      Some x \<Rightarrow> Inr (Image_Tag x) | None \<Rightarrow> Inl (ErrMsg ''no available container image tags''))"
    using t assms by (auto simp: resolveTagToUse_def HostRepository_ListContainerTags_def Let_def)
  show "case resolveTagToUse con w t of
          Inr tag \<Rightarrow> (\<exists>older img newer. tags = older @ img # newer \<and> Image_Tag img = tag
              \<and> Image_IsPreRelease img = ?want \<and> (\<forall>x \<in> set newer. Image_IsPreRelease x \<noteq> ?want))
        | Inl _ \<Rightarrow> (\<forall>x \<in> set tags. Image_IsPreRelease x \<noteq> ?want)"
  proof (cases "List.find (\<lambda>x. Image_IsPreRelease x = ?want) (rev tags)")
    case None
    then have "\<forall>x \<in> set tags. Image_IsPreRelease x \<noteq> ?want" by (simp add: find_None_iff)
    then show ?thesis unfolding r None by simp
  next
    case (Some img)
    then obtain xs ys where f: "rev tags = xs @ img # ys" "\<forall>x \<in> set xs. Image_IsPreRelease x \<noteq> ?want" "Image_IsPreRelease img = ?want"
      using find_split[OF Some] by blast
    have "tags = rev (xs @ img # ys)" using f(1) by (metis rev_rev_ident)
    then have "tags = rev ys @ img # rev xs" by simp
    then show ?thesis unfolding r Some using f(2,3)
      by (simp only: option.case sum.case) (rule exI[of _ "rev ys"], rule exI[of _ img], rule exI[of _ "rev xs"], simp)
  qed
qed (use assms in \<open>auto simp: resolveTagToUse_def\<close>)

section \<open>Instances\<close>

definition team_log :: "int \<Rightarrow> ContainerLog" where
  "team_log i = \<lparr>Log_ID = i, Log_Tag = log_tag ''h1'' 1, Log_Ts = Some i, Log_Data = Some (''line'', ''stdout'')\<rparr>"

definition host_ctl :: "string set ctl" where
  "host_ctl = sample_ctl\<lparr>lv_db := (lv_db sample_ctl)\<lparr>db_logs := [team_log 1, team_log 2, team_log 3],
     db_hosts := [(plain_host ''h1'')\<lparr>Host_Memo := Some ''keep me''\<rparr>, plain_host ''h2'']\<rparr>\<rparr>"

lemma host_ctl_ok:
  "no_faults (lv_db host_ctl)" "session_table_ok (lv_db host_ctl)"
  using no_faults_session_db by (simp add: host_ctl_def sample_ctl_def no_faults_def) code_simp

definition logs_request :: GetLogsParams where
  "logs_request = \<lparr>Logs_HostID = ''h1'', Logs_InstanceID = 1, Logs_Limit = 2, Logs_BeforeID = 0, Logs_AfterID = 0\<rparr>"

lemma set_runtime_able: "able_runtime set_runtime"
  by (simp add: able_runtime_def set_runtime_def)

lemma host_ctl_restart_ready:
  assumes "hid = ''h1'' \<or> hid = ''h2''"
  shows "requireHostWrite (lv_db host_ctl) (Some SystemUserID) hid = Inr ()"
    "\<exists>e. HostRepository_Find set_runtime (ct_world host_ctl) (lv_db host_ctl) hid True = Inr e \<and> HH_AccountId e = ''U-acc''"
    "GetHeadlessAccount (lv_db host_ctl) ''U-acc'' = Inr sample_account"
    "resolveTagToUse set_runtime (ct_world host_ctl) None = Inr ''1.0''"
    "\<exists>h. host_of (lv_db host_ctl) hid = Some h \<and> Host_ConnectorType h = HostConnectorType_DOCKER \<and> in32 (Host_InstanceCount h + 1)"
proof -
  have w: "requireHostWrite (lv_db host_ctl) (Some SystemUserID) ''h1'' = Inr ()"
    "requireHostWrite (lv_db host_ctl) (Some SystemUserID) ''h2'' = Inr ()" by code_simp+
  then show "requireHostWrite (lv_db host_ctl) (Some SystemUserID) hid = Inr ()" using assms by blast
  have "case_sum (\<lambda>_. None) (\<lambda>e. Some (HH_AccountId e)) (HostRepository_Find set_runtime (ct_world host_ctl) (lv_db host_ctl) ''h1'' True) = Some ''U-acc''"
    "case_sum (\<lambda>_. None) (\<lambda>e. Some (HH_AccountId e)) (HostRepository_Find set_runtime (ct_world host_ctl) (lv_db host_ctl) ''h2'' True) = Some ''U-acc''"
    by code_simp+
  then show "\<exists>e. HostRepository_Find set_runtime (ct_world host_ctl) (lv_db host_ctl) hid True = Inr e \<and> HH_AccountId e = ''U-acc''"
    using assms by (auto split: sum.splits)
  show "GetHeadlessAccount (lv_db host_ctl) ''U-acc'' = Inr sample_account" by code_simp
  show "resolveTagToUse set_runtime (ct_world host_ctl) None = Inr ''1.0''" by code_simp
  show "\<exists>h. host_of (lv_db host_ctl) hid = Some h \<and> Host_ConnectorType h = HostConnectorType_DOCKER \<and> in32 (Host_InstanceCount h + 1)"
    using assms by (auto simp: host_ctl_def host_of_def plain_host_def HostConnectorType_DOCKER_def in32_def)
qed

lemma host_ctl_restarts:
  assumes "hid = ''h1'' \<or> hid = ''h2''"
  shows "\<exists>c'. HeadlessHostRestart set_runtime host_ctl (Some SystemUserID) hid None True 600 = (Inr (), c')"
proof -
  obtain e h where "HostRepository_Find set_runtime (ct_world host_ctl) (lv_db host_ctl) hid True = Inr e" "HH_AccountId e = ''U-acc''"
    "host_of (lv_db host_ctl) hid = Some h" "Host_ConnectorType h = HostConnectorType_DOCKER" "in32 (Host_InstanceCount h + 1)"
    using host_ctl_restart_ready(2,5)[OF assms] by blast
  then have "fst (HeadlessHostRestart set_runtime host_ctl (Some SystemUserID) hid None True 600) = Inr ()"
    using HeadlessHostRestart_ok[OF host_ctl_ok set_runtime_able] host_ctl_restart_ready(1,3,4)[OF assms] by force
  then show ?thesis by (metis prod.collapse)
qed

theorem Restart_succeeds_witness:
  "\<exists>c'. HeadlessHostRestart set_runtime host_ctl (Some SystemUserID) ''h2'' None True 600 = (Inr (), c')
     \<and> map_option Host_Status (host_of (lv_db c') ''h2'') = Some HeadlessHostStatus_RUNNING"
proof -
  have h2: "''h2'' = ''h1'' \<or> ''h2'' = ''h2''" by simp
  obtain e h where e: "HostRepository_Find set_runtime (ct_world host_ctl) (lv_db host_ctl) ''h2'' True = Inr e" "HH_AccountId e = ''U-acc''"
    and h: "host_of (lv_db host_ctl) ''h2'' = Some h" "Host_ConnectorType h = HostConnectorType_DOCKER" "in32 (Host_InstanceCount h + 1)"
    using host_ctl_restart_ready(2,5)[OF h2] by blast
  note r = host_ctl_restart_ready(1,3,4)[OF h2]
  show ?thesis
    by (rule Restart_succeeds[OF host_ctl_ok set_runtime_able r(1) e(1) r(2)[folded e(2)] r(3) h])
qed


theorem Restart_unresponsive_wipes_witness:
  "\<exists>u c'. HeadlessHostRestart set_runtime host_ctl (Some SystemUserID) ''h2'' None True 600 = (Inr u, c')
     \<and> map_option Host_LastStartupConfig (host_of (lv_db c') ''h2'') = Some (HeadlessHostSettingsToStartupConfigProto zero_settings)"
proof -
  obtain c' where run: "HeadlessHostRestart set_runtime host_ctl (Some SystemUserID) ''h2'' None True 600 = (Inr (), c')"
    using host_ctl_restarts[of "''h2''"] by blast
  have h: "host_of (lv_db host_ctl) ''h2'' = Some (plain_host ''h2'')" by (simp add: host_ctl_def host_of_def plain_host_def)
  have r: "con_GetRpcClient set_runtime (ct_world host_ctl) (Host_ConnectString (plain_host ''h2'')) = Inl (ErrMsg ''unreachable'')"
    by (simp add: set_runtime_def host_ctl_def sample_ctl_def plain_host_def)
  have st: "Host_Status (plain_host ''h2'') = HeadlessHostStatus_RUNNING" by (simp add: plain_host_def)
  show ?thesis
    using Restart_unresponsive_wipes[OF host_ctl_ok h st r run] run by blast
qed

theorem stop_ends_sessions_witness:
  "\<exists>u c'. HeadlessHostKill set_runtime host_ctl (Some SystemUserID) ''h1'' = (Inr u, c')
     \<and> map_option Session_Status (session_of (lv_db c') ''s1'') = Some SessionStatus_ENDED
     \<and> map_option Session_Status (session_of (lv_db c') ''s3'') = Some SessionStatus_RUNNING"
proof -
  have ok: "fst (HeadlessHostKill set_runtime host_ctl (Some SystemUserID) ''h1'') = Inr ()" by code_simp
  obtain c' where run: "HeadlessHostKill set_runtime host_ctl (Some SystemUserID) ''h1'' = (Inr (), c')"
    using ok by (metis prod.collapse)
  have s: "map_option (\<lambda>s. Session_Status (stopped_session host_ctl ''h1'' s)) (session_of (lv_db host_ctl) ''s1'') = Some SessionStatus_ENDED"
    "map_option (\<lambda>s. Session_Status (stopped_session host_ctl ''h1'' s)) (session_of (lv_db host_ctl) ''s3'') = Some SessionStatus_RUNNING"
    by code_simp+
  show ?thesis
    using stop_ends_sessions[OF host_ctl_ok disjI1[OF run]] run s by (auto simp: option.map_comp comp_def)
qed

theorem host_changes_authorised_witness:
  "snd (HeadlessHostKill set_runtime host_ctl (Some SystemUserID) ''h1'') \<noteq> host_ctl
     \<and> (\<exists>h uid. host_of (lv_db host_ctl) ''h1'' = Some h \<and> Some SystemUserID = Some uid
          \<and> allowed (lv_db host_ctl) uid (Host_GroupID h) PermKey_HostWrite)"
proof -
  have "map Host_Status (db_hosts (lv_db (snd (HeadlessHostKill set_runtime host_ctl (Some SystemUserID) ''h1''))))
          \<noteq> map Host_Status (db_hosts (lv_db host_ctl))" by code_simp
  then have ne: "snd (HeadlessHostKill set_runtime host_ctl (Some SystemUserID) ''h1'') \<noteq> host_ctl" by metis
  show ?thesis using ne host_changes_authorised[OF host_step.kill ne] by blast
qed

theorem logs_drop_newest_witness:
  "\<exists>r. HeadlessHostGetLogs host_ctl (Some SystemUserID) logs_request = Inr r \<and> length (LogsResult_Logs r) = 2
     \<and> 3 \<notin> Line_ID ` set (LogsResult_Logs r)"
proof -
  have acc: "requireHostRead (lv_db host_ctl) (Some SystemUserID) (Logs_HostID logs_request) = Inr ()" by code_simp
  have rows: "[team_log 1, team_log 2, team_log 3]
      = filter (\<lambda>l. Log_Tag l = log_tag (Logs_HostID logs_request) (Logs_InstanceID logs_request)) (db_logs (lv_db host_ctl))"
    by (simp add: host_ctl_def logs_request_def team_log_def)
  have "\<exists>r. HeadlessHostGetLogs host_ctl (Some SystemUserID) logs_request = Inr r
     \<and> int (length (LogsResult_Logs r)) = Logs_Limit logs_request \<and> LogsResult_HasMoreBefore r
     \<and> Log_ID (team_log 3) \<notin> Line_ID ` set (LogsResult_Logs r)"
    by (rule logs_drop_newest[OF host_ctl_ok(1) acc _ _ _ _ rows])
       (simp_all add: logs_request_def team_log_def parseContainerLogRow_def)
  then show ?thesis by (auto simp: logs_request_def team_log_def)
qed

theorem resolveTagToUse_newest_witness:
  "resolveTagToUse set_runtime {} (Some ''9.9'') = Inr ''9.9''
     \<and> resolveTagToUse set_runtime {} (Some ''latestPreRelease'') = Inr ''1.1-pre''"
proof -
  have tags: "con_ListContainerTags set_runtime {} None = Inr [plain_image ''1.0'' False, plain_image ''1.1-pre'' True]"
    by (simp add: set_runtime_def)
  have "resolveTagToUse set_runtime {} (Some ''latestPreRelease'') = Inr ''1.1-pre''" by code_simp
  then show ?thesis using resolveTagToUse_newest[OF tags, of "Some ''9.9''" "''9.9''"] by simp
qed

end
