(* ===== verification/JobQueue.thy ===== *)
theory JobQueue
  imports WorkQueue HostUsecase
begin

text \<open>
  Asynchronous jobs as stored work: the queries on \<open>async_jobs\<close> (\<open>db/async_jobs.sql.go\<close>), the repository
  (\<open>adapter/async_job_repository.go\<close>), and the usecase that enqueues requests
  (\<open>usecase/async_job/usecase.go\<close>). Arguments of the model are how pgx reads a UUID (\<open>pg_Scan\<close>, as the
  canonical text of what it read), the text PostgreSQL keeps for a JSON document (\<open>pg_Jsonb\<close>, \<open>None\<close> when
  it is not JSON), the random bytes of a new id, and the protobuf JSON codec. A statement of the model is
  atomic, so \<open>FOR UPDATE SKIP LOCKED\<close> never finds a locked row.
\<close>

record pg_env =
  pg_Scan :: "string \<Rightarrow> string option"
  pg_Jsonb :: "string \<Rightarrow> string option"

section \<open>UUIDs\<close>

definition hex_digit :: "nat \<Rightarrow> char" where
  "hex_digit n = (if n < 10 then char_of (48 + n) else char_of (87 + n))"

definition hex_Encode :: "8 word list \<Rightarrow> string" where
  "hex_Encode bs = concat (map (\<lambda>b. [hex_digit (unat b div 16), hex_digit (unat b mod 16)]) bs)"

definition formatUUID :: "8 word list \<Rightarrow> string" where
  "formatUUID src = hex_Encode (take 4 src) @ ''-'' @ hex_Encode (take 2 (drop 4 src)) @ ''-''
     @ hex_Encode (take 2 (drop 6 src)) @ ''-'' @ hex_Encode (take 2 (drop 8 src)) @ ''-'' @ hex_Encode (take 6 (drop 10 src))"

definition parseUUID :: "pg_env \<Rightarrow> string \<Rightarrow> string res" where
  "parseUUID pg s = (case pg_Scan pg s of None \<Rightarrow> Inl (ErrMsg ''invalid uuid'') | Some u \<Rightarrow> Inr u)"

section \<open>Queries\<close>

abbreviation job_row :: "string \<Rightarrow> AsyncJob \<Rightarrow> bool" where
  "job_row i \<equiv> \<lambda>j. Job_ID j = i"

definition job_of :: "db \<Rightarrow> string \<Rightarrow> AsyncJob option" where
  "job_of d i = tbl_get (job_row i) (db_jobs d)"

definition update_jobs :: "(AsyncJob \<Rightarrow> bool) \<Rightarrow> (AsyncJob \<Rightarrow> AsyncJob) \<Rightarrow> db \<Rightarrow> db" where
  "update_jobs p f d = d\<lparr>db_jobs := tbl_update p f (db_jobs d)\<rparr>"

text \<open>The candidates of a claim: the oldest PENDING rows.\<close>

definition due_jobs :: "db \<Rightarrow> int32 \<Rightarrow> AsyncJob list" where
  "due_jobs d batchSize =
     take (nat batchSize) (sort_key Job_CreatedAt (filter (\<lambda>j. Job_Status j = AsyncJobStatus_PENDING) (db_jobs d)))"

definition claim_job :: "string \<Rightarrow> time \<Rightarrow> AsyncJob \<Rightarrow> AsyncJob" where
  "claim_job instanceID t j =
     j\<lparr>Job_Status := AsyncJobStatus_RUNNING, Job_ClaimedBy := Some instanceID, Job_ClaimedAt := Some t\<rparr>"

definition q_ClaimDueAsyncJobs :: "db \<Rightarrow> string \<Rightarrow> int32 \<Rightarrow> AsyncJob list res \<times> db" where
  "q_ClaimDueAsyncJobs d instanceID batchSize = writeQ d ''ClaimDueAsyncJobs'' [instanceID]
     (if batchSize < 0 then (Inl ErrDB, d)
      else let hit = (\<lambda>j. Job_ID j \<in> set (map Job_ID (due_jobs d batchSize)))
           in (Inr (map (claim_job instanceID (db_now d)) (filter hit (db_jobs d))),
               update_jobs hit (claim_job instanceID (db_now d)) d))"

record AsyncJobCreateParams =
  JobCreate_JobType :: AsyncJobType
  JobCreate_Payload :: string
  JobCreate_HostID :: "string option"
  JobCreate_SessionID :: "string option"
  JobCreate_CreatedBy :: "string option"

definition q_CreateAsyncJob :: "pg_env \<Rightarrow> 8 word list \<Rightarrow> db \<Rightarrow> AsyncJobCreateParams \<Rightarrow> AsyncJob res \<times> db" where
  "q_CreateAsyncJob pg newId d arg = writeQ d ''CreateAsyncJob'' []
     (case pg_Jsonb pg (JobCreate_Payload arg) of
        None \<Rightarrow> (Inl ErrDB, d)
      | Some payload \<Rightarrow>
          if tbl_exists (job_row (formatUUID newId)) (db_jobs d) then (Inl ErrDB, d)
          else let j = \<lparr>Job_ID = formatUUID newId, Job_Type = JobCreate_JobType arg, Job_Payload = payload,
                        Job_Status = AsyncJobStatus_PENDING, Job_ResultPayload = [], Job_LastError = None,
                        Job_ClaimedBy = None, Job_ClaimedAt = None, Job_ExecutedAt = None,
                        Job_HostID = JobCreate_HostID arg, Job_SessionID = JobCreate_SessionID arg,
                        Job_CreatedBy = JobCreate_CreatedBy arg, Job_CreatedAt = db_now d\<rparr>
               in (Inr j, d\<lparr>db_jobs := db_jobs d @ [j]\<rparr>))"

definition q_GetAsyncJob :: "db \<Rightarrow> string \<Rightarrow> AsyncJob res" where
  "q_GetAsyncJob d i = readQ d ''GetAsyncJob'' [i]
     (case job_of d i of None \<Rightarrow> Inl ErrNoRows | Some j \<Rightarrow> Inr j)"

abbreviation running_job :: "string \<Rightarrow> AsyncJob \<Rightarrow> bool" where
  "running_job i \<equiv> \<lambda>j. Job_ID j = i \<and> Job_Status j = AsyncJobStatus_RUNNING"

definition q_MarkAsyncJobFailed :: "db \<Rightarrow> string \<Rightarrow> string \<Rightarrow> nat res \<times> db" where
  "q_MarkAsyncJobFailed d i msg = writeQ d ''MarkAsyncJobFailed'' [i]
     (Inr (length (filter (running_job i) (db_jobs d))),
      update_jobs (running_job i) (\<lambda>j. j\<lparr>Job_Status := AsyncJobStatus_FAILED, Job_ExecutedAt := Some (db_now d),
        Job_LastError := Some msg, Job_ClaimedBy := None, Job_ClaimedAt := None\<rparr>) d)"

definition q_MarkAsyncJobSucceeded :: "pg_env \<Rightarrow> db \<Rightarrow> string \<Rightarrow> string \<Rightarrow> nat res \<times> db" where
  "q_MarkAsyncJobSucceeded pg d i resultPayload = writeQ d ''MarkAsyncJobSucceeded'' [i]
     (case pg_Jsonb pg resultPayload of
        None \<Rightarrow> (Inl ErrDB, d)
      | Some result \<Rightarrow>
          (Inr (length (filter (running_job i) (db_jobs d))),
           update_jobs (running_job i) (\<lambda>j. j\<lparr>Job_Status := AsyncJobStatus_SUCCEEDED, Job_ExecutedAt := Some (db_now d),
             Job_ResultPayload := result, Job_LastError := None, Job_ClaimedBy := None, Job_ClaimedAt := None\<rparr>) d))"

definition stale_job :: "time \<Rightarrow> AsyncJob \<Rightarrow> bool" where
  "stale_job before j \<longleftrightarrow> Job_Status j = AsyncJobStatus_RUNNING \<and>
     (case Job_ClaimedAt j of None \<Rightarrow> False | Some t \<Rightarrow> t < before)"

definition q_ReleaseStaleAsyncJobClaims :: "db \<Rightarrow> int32 \<Rightarrow> nat res \<times> db" where
  "q_ReleaseStaleAsyncJobClaims d staleAfterSeconds = writeQ d ''ReleaseStaleAsyncJobClaims'' []
     (let hit = stale_job (db_now d - staleAfterSeconds * Second)
      in (Inr (length (filter hit (db_jobs d))),
          update_jobs hit (\<lambda>j. j\<lparr>Job_Status := AsyncJobStatus_PENDING, Job_ClaimedBy := None, Job_ClaimedAt := None\<rparr>) d))"

section \<open>The repository\<close>

definition AsyncJobRepository_Create :: "pg_env \<Rightarrow> 8 word list \<Rightarrow> db \<Rightarrow> AsyncJobCreateParams \<Rightarrow> AsyncJob res \<times> db" where
  "AsyncJobRepository_Create pg newId d params = map_errS convertDBErr (q_CreateAsyncJob pg newId d params)"

definition AsyncJobRepository_Get :: "pg_env \<Rightarrow> db \<Rightarrow> string \<Rightarrow> AsyncJob res" where
  "AsyncJobRepository_Get pg d i = bindR (parseUUID pg i) (\<lambda>uid. map_err convertDBErr (q_GetAsyncJob d uid))"

definition AsyncJobRepository_ClaimDue :: "db \<Rightarrow> string \<Rightarrow> int32 \<Rightarrow> AsyncJob list res \<times> db" where
  "AsyncJobRepository_ClaimDue d instanceID batchSize = map_errS convertDBErr (q_ClaimDueAsyncJobs d instanceID batchSize)"

definition AsyncJobRepository_ReleaseStaleClaims :: "db \<Rightarrow> time \<Rightarrow> nat res \<times> db" where
  "AsyncJobRepository_ReleaseStaleClaims d staleAfter =
     map_errS convertDBErr (q_ReleaseStaleAsyncJobClaims d (wrap32 (staleAfter div Second)))"

definition AsyncJobRepository_MarkSucceeded :: "pg_env \<Rightarrow> db \<Rightarrow> string \<Rightarrow> string \<Rightarrow> unit res \<times> db" where
  "AsyncJobRepository_MarkSucceeded pg d i resultPayload =
     checkS (parseUUID pg i) d (\<lambda>uid.
     let resultPayload = (if resultPayload = [] then ''null'' else resultPayload) in
     bindS (map_errS convertDBErr (q_MarkAsyncJobSucceeded pg d uid resultPayload)) (\<lambda>_ d. (Inr (), d)))"

definition AsyncJobRepository_MarkFailed :: "pg_env \<Rightarrow> db \<Rightarrow> string \<Rightarrow> string \<Rightarrow> unit res \<times> db" where
  "AsyncJobRepository_MarkFailed pg d i errMessage =
     checkS (parseUUID pg i) d (\<lambda>uid.
     bindS (map_errS convertDBErr (q_MarkAsyncJobFailed d uid errMessage)) (\<lambda>_ d. (Inr (), d)))"

section \<open>Requests and the enqueueing usecase\<close>

record StartHeadlessHostRequest =
  Shr_Name :: string
  Shr_HeadlessAccountId :: string
  Shr_ImageTag :: "string option"
  Shr_StartupConfig :: "StartupConfig option"
  Shr_AutoUpdatePolicy :: "HostAutoUpdatePolicy option"
  Shr_Memo :: "string option"
  Shr_GroupId :: "string option"

record RestartHeadlessHostRequest =
  Rhr_HostId :: string
  Rhr_WithUpdate :: bool
  Rhr_WithImageTag :: "string option"
  Rhr_WithWorldRestart :: bool
  Rhr_TimeoutSeconds :: "int32 option"

record StartWorldRequest =
  Swr_HostId :: string
  Swr_Parameters :: "WorldStartupParameters option"
  Swr_Memo :: string
  Swr_GroupId :: "string option"

text \<open>The messages that are stored as payloads, and the codec that writes and reads them.\<close>

datatype job_request =
    StartHeadlessHostReq StartHeadlessHostRequest
  | ShutdownHeadlessHostReq string
  | RestartHeadlessHostReq RestartHeadlessHostRequest
  | StartWorldReq StartWorldRequest
  | StopSessionReq string

record job_codec =
  cd_Marshal :: "job_request \<Rightarrow> string res"
  cd_UnmarshalStartHost :: "string \<Rightarrow> StartHeadlessHostRequest res"
  cd_UnmarshalShutdownHost :: "string \<Rightarrow> string res"
  cd_UnmarshalRestartHost :: "string \<Rightarrow> RestartHeadlessHostRequest res"
  cd_UnmarshalStartWorld :: "string \<Rightarrow> StartWorldRequest res"
  cd_UnmarshalStopSession :: "string \<Rightarrow> string res"

definition marshalPayload :: "job_codec \<Rightarrow> job_request \<Rightarrow> string res" where
  "marshalPayload cd msg = cd_Marshal cd msg"

definition enqueue ::
  "pg_env \<Rightarrow> 8 word list \<Rightarrow> db \<Rightarrow> AsyncJobType \<Rightarrow> string \<Rightarrow> string option \<Rightarrow> string option \<Rightarrow> string option \<Rightarrow> string res \<times> db" where
  "enqueue pg newId d jobType payload hostID sessionID createdBy =
     bindS (AsyncJobRepository_Create pg newId d
              \<lparr>JobCreate_JobType = jobType, JobCreate_Payload = payload, JobCreate_HostID = hostID,
               JobCreate_SessionID = sessionID, JobCreate_CreatedBy = createdBy\<rparr>) (\<lambda>job d. (Inr (Job_ID job), d))"

definition EnqueueStartHost ::
  "job_codec \<Rightarrow> pg_env \<Rightarrow> 8 word list \<Rightarrow> db \<Rightarrow> StartHeadlessHostRequest \<Rightarrow> string option \<Rightarrow> string res \<times> db" where
  "EnqueueStartHost cd pg newId d req createdBy =
     checkS (marshalPayload cd (StartHeadlessHostReq req)) d (\<lambda>payload.
     enqueue pg newId d AsyncJobType_START_HOST payload None None createdBy)"

definition EnqueueShutdownHost ::
  "job_codec \<Rightarrow> pg_env \<Rightarrow> 8 word list \<Rightarrow> db \<Rightarrow> string \<Rightarrow> string option \<Rightarrow> string res \<times> db" where
  "EnqueueShutdownHost cd pg newId d hostID createdBy =
     checkS (marshalPayload cd (ShutdownHeadlessHostReq hostID)) d (\<lambda>payload.
     enqueue pg newId d AsyncJobType_SHUTDOWN_HOST payload (Some hostID) None createdBy)"

definition EnqueueRestartHost ::
  "job_codec \<Rightarrow> pg_env \<Rightarrow> 8 word list \<Rightarrow> db \<Rightarrow> RestartHeadlessHostRequest \<Rightarrow> string option \<Rightarrow> string res \<times> db" where
  "EnqueueRestartHost cd pg newId d req createdBy =
     checkS (marshalPayload cd (RestartHeadlessHostReq req)) d (\<lambda>payload.
     enqueue pg newId d AsyncJobType_RESTART_HOST payload (Some (Rhr_HostId req)) None createdBy)"

definition EnqueueStartSession ::
  "job_codec \<Rightarrow> pg_env \<Rightarrow> 8 word list \<Rightarrow> db \<Rightarrow> StartWorldRequest \<Rightarrow> string option \<Rightarrow> string res \<times> db" where
  "EnqueueStartSession cd pg newId d req createdBy =
     checkS (marshalPayload cd (StartWorldReq req)) d (\<lambda>payload.
     enqueue pg newId d AsyncJobType_START_SESSION payload (Some (Swr_HostId req)) None createdBy)"

definition EnqueueStopSession ::
  "job_codec \<Rightarrow> pg_env \<Rightarrow> 8 word list \<Rightarrow> db \<Rightarrow> string \<Rightarrow> string option \<Rightarrow> string res \<times> db" where
  "EnqueueStopSession cd pg newId d sessionID createdBy =
     checkS (marshalPayload cd (StopSessionReq sessionID)) d (\<lambda>payload.
     enqueue pg newId d AsyncJobType_STOP_SESSION payload None (Some sessionID) createdBy)"

section \<open>Lemmas\<close>

text \<open>The text of a UUID determines its bytes, so two ids differ exactly when their bytes do.\<close>

lemma hex_digit_inj: "m < 16 \<Longrightarrow> n < 16 \<Longrightarrow> hex_digit m = hex_digit n \<longleftrightarrow> m = n"
  by (auto simp: hex_digit_def of_char_of take_bit_eq_mod dest!: arg_cong[where f = "of_char :: char \<Rightarrow> nat"] split: if_splits)

lemma hex_Encode_length [simp]: "length (hex_Encode bs) = 2 * length bs"
  by (induction bs) (auto simp: hex_Encode_def)

lemma byte_digits: "unat (b :: 8 word) div 16 < 16"
proof -
  have "unat b < 256" using unsigned_less[of b, where 'a = nat] by simp
  then show ?thesis by simp
qed

lemma hex_Encode_inj: "hex_Encode xs = hex_Encode ys \<longleftrightarrow> xs = ys"
proof (induction xs arbitrary: ys)
  case Nil
  then show ?case by (cases ys) (auto simp: hex_Encode_def)
next
  case (Cons x xs)
  show ?case
  proof (cases ys)
    case (Cons y zs)
    have "unat x div 16 = unat y div 16 \<and> unat x mod 16 = unat y mod 16 \<longleftrightarrow> x = y"
      by (metis div_mult_mod_eq word_unat_eq_iff)
    then show ?thesis
      using Cons.IH[of zs] byte_digits[of x] byte_digits[of y]
      by (auto simp: hex_Encode_def Cons hex_digit_inj)
  qed (simp add: hex_Encode_def)
qed

lemma formatUUID_inj:
  assumes "length a = 16" "length b = 16" "formatUUID a = formatUUID b"
  shows "a = b"
proof -
  have "take 4 a = take 4 b \<and> take 2 (drop 4 a) = take 2 (drop 4 b) \<and> take 2 (drop 6 a) = take 2 (drop 6 b)
      \<and> take 2 (drop 8 a) = take 2 (drop 8 b) \<and> take 6 (drop 10 a) = take 6 (drop 10 b)"
    using assms by (simp add: formatUUID_def append_eq_append_conv hex_Encode_inj)
  then have "take 4 a @ take 2 (drop 4 a) @ take 2 (drop 6 a) @ take 2 (drop 8 a) @ take 6 (drop 10 a) =
      take 4 b @ take 2 (drop 4 b) @ take 2 (drop 6 b) @ take 2 (drop 8 b) @ take 6 (drop 10 b)" by simp
  moreover have "xs = take 4 xs @ take 2 (drop 4 xs) @ take 2 (drop 6 xs) @ take 2 (drop 8 xs) @ take 6 (drop 10 xs)"
    if "length xs = 16" for xs :: "8 word list"
    using that append_take_drop_id[of 4 xs] append_take_drop_id[of 2 "drop 4 xs"] append_take_drop_id[of 2 "drop 6 xs"]
      append_take_drop_id[of 2 "drop 8 xs"] by simp
  ultimately show ?thesis using assms(1,2) by metis
qed

lemma formatUUID_length [simp]: "length src = 16 \<Longrightarrow> length (formatUUID src) = 36"
  by (simp add: formatUUID_def)

text \<open>Rows under the row-wise updates of the queries.\<close>

lemma job_of_update:
  "(\<And>j. Job_ID (f j) = Job_ID j) \<Longrightarrow> job_of (update_jobs p f d) i = map_option (\<lambda>j. if p j then f j else j) (job_of d i)"
  by (simp add: job_of_def update_jobs_def tbl_get_update_key)

lemma update_jobs_simps [simp]:
  "db_jobs (update_jobs p f d) = tbl_update p f (db_jobs d)" "db_now (update_jobs p f d) = db_now d"
  "db_fault (update_jobs p f d) = db_fault d" "no_faults (update_jobs p f d) = no_faults d"
  by (simp_all add: update_jobs_def no_faults_def)

lemma claim_job_simps [simp]:
  "Job_ID (claim_job w t j) = Job_ID j" "Job_Status (claim_job w t j) = AsyncJobStatus_RUNNING"
  "Job_ClaimedAt (claim_job w t j) = Some t" "Job_ClaimedBy (claim_job w t j) = Some w"
  "Job_Type (claim_job w t j) = Job_Type j" "Job_Payload (claim_job w t j) = Job_Payload j"
  "Job_CreatedBy (claim_job w t j) = Job_CreatedBy j"
  by (simp_all add: claim_job_def)

text \<open>A table of jobs as the primary key keeps it.\<close>

definition jobs_ok :: "db \<Rightarrow> bool" where
  "jobs_ok d \<longleftrightarrow> distinct (map Job_ID (db_jobs d))"

definition job_queued :: "db \<Rightarrow> string \<Rightarrow> bool" where
  "job_queued d i \<longleftrightarrow> map_option Job_Status (job_of d i) = Some AsyncJobStatus_PENDING"

definition job_held :: "db \<Rightarrow> string \<Rightarrow> bool" where
  "job_held d i \<longleftrightarrow> map_option Job_Status (job_of d i) = Some AsyncJobStatus_RUNNING"

definition job_held_since :: "db \<Rightarrow> string \<Rightarrow> time option" where
  "job_held_since d i = (case job_of d i of None \<Rightarrow> None | Some j \<Rightarrow> Job_ClaimedAt j)"

text \<open>A finished row, with everything it says.\<close>

definition job_finished :: "db \<Rightarrow> AsyncJob \<Rightarrow> bool" where
  "job_finished d j \<longleftrightarrow> j \<in> set (db_jobs d) \<and> (Job_Status j = AsyncJobStatus_SUCCEEDED \<or> Job_Status j = AsyncJobStatus_FAILED)"

text \<open>The three ways in which the executor touches the table.\<close>

datatype job_outcome = JobSucceeded string | JobFailed string

fun claim_jobs :: "string \<times> int32 \<Rightarrow> db \<Rightarrow> string list \<times> db" where
  "claim_jobs (w, n) d = (case AsyncJobRepository_ClaimDue d w n of
      (Inr js, d') \<Rightarrow> (map Job_ID js, d') | (Inl _, d') \<Rightarrow> ([], d'))"

fun settle_job :: "pg_env \<Rightarrow> job_outcome \<Rightarrow> string \<Rightarrow> db \<Rightarrow> db" where
  "settle_job pg (JobSucceeded res) i d = snd (q_MarkAsyncJobSucceeded pg d i res)"
| "settle_job pg (JobFailed msg) i d = snd (q_MarkAsyncJobFailed d i msg)"

definition sweep_jobs :: "int32 \<Rightarrow> db \<Rightarrow> db" where
  "sweep_jobs secs d = snd (q_ReleaseStaleAsyncJobClaims d secs)"

lemma job_of_row: "jobs_ok d \<Longrightarrow> j \<in> set (db_jobs d) \<Longrightarrow> job_of d (Job_ID j) = Some j"
  by (simp add: jobs_ok_def job_of_def tbl_get_key_unique)

lemma job_ID_of: "job_of d i = Some j \<Longrightarrow> Job_ID j = i \<and> j \<in> set (db_jobs d)"
  using tbl_get_SomeD[of "job_row i"] by (auto simp: job_of_def)

lemma due_jobs_pending:
  assumes "j \<in> set (due_jobs d n)"
  shows "j \<in> set (db_jobs d) \<and> Job_Status j = AsyncJobStatus_PENDING"
  using set_take_subset[THEN subsetD, OF assms[unfolded due_jobs_def]] by simp

lemma claim_jobs_cases:
  assumes "claim_jobs (w, n) d = (is, d')"
  shows "is = [] \<and> d' = d \<or>
     is = map Job_ID (filter (\<lambda>j. Job_ID j \<in> set (map Job_ID (due_jobs d n))) (db_jobs d))
       \<and> d' = update_jobs (\<lambda>j. Job_ID j \<in> set (map Job_ID (due_jobs d n))) (claim_job w (db_now d)) d"
  using assms
  by (auto simp: AsyncJobRepository_ClaimDue_def q_ClaimDueAsyncJobs_def map_errS_def writeQ_def Let_def comp_def
      split: option.splits if_splits)

lemma settle_job_cases:
  "settle_job pg m i d = d \<or> (\<exists>f. settle_job pg m i d = update_jobs (running_job i) f d \<and> (\<forall>j. Job_ID (f j) = Job_ID j))"
proof (cases m)
  case (JobSucceeded r)
  then show ?thesis by (auto simp: q_MarkAsyncJobSucceeded_def writeQ_def split: option.split intro!: exI)
next
  case (JobFailed msg)
  then show ?thesis by (auto simp: q_MarkAsyncJobFailed_def writeQ_def split: option.split intro!: exI)
qed

lemma sweep_jobs_cases:
  "sweep_jobs st d = d \<or> sweep_jobs st d = update_jobs (stale_job (db_now d - st * Second))
     (\<lambda>j. j\<lparr>Job_Status := AsyncJobStatus_PENDING, Job_ClaimedBy := None, Job_ClaimedAt := None\<rparr>) d"
  by (auto simp: sweep_jobs_def q_ReleaseStaleAsyncJobClaims_def writeQ_def Let_def split: option.split)

lemma jobs_ok_update: "(\<And>j. Job_ID (f j) = Job_ID j) \<Longrightarrow> jobs_ok (update_jobs p f d) = jobs_ok d"
  by (simp add: jobs_ok_def map_key_tbl_update)

lemma finished_update:
  "job_finished d j \<Longrightarrow> \<not> p j \<Longrightarrow> job_finished (update_jobs p f d) j"
  by (force simp: job_finished_def)

text \<open>The row-wise reading of a claim.\<close>

lemma claimed_iff:
  assumes "jobs_ok d"
  shows "i \<in> set (map Job_ID (due_jobs d n)) \<Longrightarrow> job_queued d i"
    and "job_of d i = Some j \<Longrightarrow> Job_ID j \<in> set (map Job_ID (due_jobs d n)) \<longleftrightarrow> i \<in> set (map Job_ID (due_jobs d n))"
proof -
  assume "i \<in> set (map Job_ID (due_jobs d n))"
  then obtain j where "j \<in> set (due_jobs d n)" "Job_ID j = i" by auto
  then show "job_queued d i" using due_jobs_pending job_of_row[OF assms, of j] by (auto simp: job_queued_def)
next
  assume "job_of d i = Some j"
  then show "Job_ID j \<in> set (map Job_ID (due_jobs d n)) \<longleftrightarrow> i \<in> set (map Job_ID (due_jobs d n))"
    using job_ID_of by blast
qed

interpretation jobs: work_queue jobs_ok job_queued job_held job_held_since db_now claim_jobs "settle_job pg" sweep_jobs "\<lambda>secs. secs * Second" job_finished for pg
proof unfold_locales
  fix d i assume "jobs_ok d" "job_queued d i" then show "\<not> job_held d i" by (auto simp: job_queued_def job_held_def)
next
  fix d :: db and w :: "string \<times> int32" and is' d' assume ok: "jobs_ok d" and run: "claim_jobs w d = (is', d')"
  obtain u n where w: "w = (u, n)" by force
  note cases = claim_jobs_cases[OF run[unfolded w]]
  let ?due = "\<lambda>j. Job_ID j \<in> set (map Job_ID (due_jobs d n))"
  have "distinct (map Job_ID (filter ?due (db_jobs d)))" using ok by (simp add: jobs_ok_def distinct_map_filter)
  moreover have "job_queued d i" if "i \<in> set (map Job_ID (filter ?due (db_jobs d)))" for i
    using that claimed_iff(1)[OF ok, of i n] by auto
  ultimately show "distinct is' \<and> (\<forall>i \<in> set is'. job_queued d i)" using cases by auto
  have member: "\<exists>j. job_of d i = Some j \<and> ?due j" if "i \<in> set (map Job_ID (filter ?due (db_jobs d)))" for i
    using that job_of_row[OF ok] by auto
  have of: "job_of d' i = map_option (\<lambda>j. if ?due j then claim_job u (db_now d) j else j) (job_of d i)"
    if "d' = update_jobs ?due (claim_job u (db_now d)) d" for i
    using that by (simp add: job_of_update)
  show "job_held d' i \<and> job_held_since d' i = Some (db_now d)" if mem: "i \<in> set is'" for i
  proof -
    have c: "is' = map Job_ID (filter ?due (db_jobs d))" "d' = update_jobs ?due (claim_job u (db_now d)) d"
      using cases mem by auto
    obtain j where "job_of d i = Some j" "?due j" using member[OF mem[unfolded c(1)]] by blast
    then have "job_of d' i = Some (claim_job u (db_now d) j)" using of[OF c(2), of i] by simp
    then show ?thesis by (simp add: job_held_def job_held_since_def)
  qed
  show "job_held d' i = job_held d i \<and> job_held_since d' i = job_held_since d i" if "i \<notin> set is'" for i
  proof (cases "d' = d")
    case False
    then have c: "is' = map Job_ID (filter ?due (db_jobs d))" "d' = update_jobs ?due (claim_job u (db_now d)) d" using cases by auto
    have "\<not> ?due j" if "job_of d i = Some j" for j
      using that \<open>i \<notin> set is'\<close> job_ID_of[OF that] unfolding c(1) by auto
    then show ?thesis using of[OF c(2), of i] by (auto simp: job_held_def job_held_since_def split: option.split)
  qed simp
  show "job_finished d' r" if "job_finished d r" for r
  proof -
    have "\<not> ?due r" if "job_finished d r"
      using that job_of_row[OF ok, of r] claimed_iff(1)[OF ok, of "Job_ID r" n] by (auto simp: job_finished_def job_queued_def)
    then show ?thesis using cases that finished_update[of d r ?due] by auto
  qed
  show "jobs_ok d'" using cases ok by (auto simp: jobs_ok_update)
next
  fix d m and i j :: string assume "jobs_ok d" "i \<noteq> j"
  then show "job_held (settle_job pg m j d) i = job_held d i \<and> job_held_since (settle_job pg m j d) i = job_held_since d i"
    using settle_job_cases[of pg m j d] job_ID_of[of d i]
    by (auto simp: job_held_def job_held_since_def job_of_update split: option.splits)
next
  fix d i u st assume h: "job_held d i" "job_held_since d i = Some u" "db_now d - st * Second \<le> u"
  then have "\<not> stale_job (db_now d - st * Second) j" if "job_of d i = Some j" for j
    using that by (simp add: stale_job_def job_held_since_def)
  then show "job_held (sweep_jobs st d) i \<and> job_held_since (sweep_jobs st d) i = Some u"
    using h sweep_jobs_cases[of st d] by (auto simp: job_held_def job_held_since_def job_of_update split: option.splits)
next
  fix d r m and j :: string assume "job_finished d r"
  then show "job_finished (settle_job pg m j d) r"
    using settle_job_cases[of pg m j d] finished_update[of d r "running_job j"] by (auto simp: job_finished_def)
next
  fix d r st assume "job_finished d r"
  then show "job_finished (sweep_jobs st d) r"
    using sweep_jobs_cases[of st d] finished_update[of d r "stale_job (db_now d - st * Second)"]
    by (auto simp: job_finished_def stale_job_def)
next
  fix d m and j :: string assume "jobs_ok d" then show "jobs_ok (settle_job pg m j d)"
    using settle_job_cases[of pg m j d] by (auto simp: jobs_ok_update)
next
  fix d st assume "jobs_ok d" then show "jobs_ok (sweep_jobs st d)"
    using sweep_jobs_cases[of st d] by (auto simp: jobs_ok_update)
qed

end
