(* ===== verification/Frames.thy ===== *)
theory Frames
  imports HostUsecase
begin

text \<open>
  What the session and host operations leave alone. None of them touches the permission tables, the
  accounts, the jobs, the scheduled operations, the clock or the faults: they write hosts, sessions and
  logs only. The executors and the orchestrator rely on this when they run such operations.
\<close>

named_theorems frame_intros \<open>operations that write hosts, sessions and logs only\<close>

definition host_frame :: "db \<Rightarrow> db \<Rightarrow> bool" where
  "host_frame d d' \<longleftrightarrow> d' = d\<lparr>db_hosts := db_hosts d', db_sessions := db_sessions d', db_logs := db_logs d'\<rparr>"

definition frame :: "'w ctl \<Rightarrow> 'w ctl \<Rightarrow> bool" where
  "frame c c' \<longleftrightarrow> host_frame (lv_db c) (lv_db c')"

lemma host_frame_refl [simp, intro]: "host_frame d d"
  by (simp add: host_frame_def)

lemma host_frame_simps:
  assumes "host_frame d d'"
  shows "db_jobs d' = db_jobs d" "db_ops d' = db_ops d" "db_now d' = db_now d" "db_fault d' = db_fault d"
    "db_users d' = db_users d" "db_groups d' = db_groups d" "db_members d' = db_members d" "db_roles d' = db_roles d"
    "db_role_permissions d' = db_role_permissions d" "db_tokens d' = db_tokens d" "db_accounts d' = db_accounts d"
    "db_checkpoints d' = db_checkpoints d"
  by (subst assms[unfolded host_frame_def]; simp)+

lemma host_frame_iff:
  "host_frame d d' \<longleftrightarrow> db_jobs d' = db_jobs d \<and> db_ops d' = db_ops d \<and> db_now d' = db_now d \<and> db_fault d' = db_fault d
     \<and> db_users d' = db_users d \<and> db_groups d' = db_groups d \<and> db_members d' = db_members d \<and> db_roles d' = db_roles d
     \<and> db_role_permissions d' = db_role_permissions d \<and> db_tokens d' = db_tokens d \<and> db_accounts d' = db_accounts d
     \<and> db_checkpoints d' = db_checkpoints d"
  by (auto simp: host_frame_simps) (cases d; cases d'; simp add: host_frame_def)

lemma host_frame_trans: "host_frame d d1 \<Longrightarrow> host_frame d1 d2 \<Longrightarrow> host_frame d d2"
  by (simp add: host_frame_iff)

lemma frame_refl [simp, frame_intros]: "frame c c"
  by (simp add: frame_def)

lemma frame_trans: "frame c c1 \<Longrightarrow> frame c1 c2 \<Longrightarrow> frame c c2"
  by (auto simp: frame_def intro: host_frame_trans)

lemma frame_onDb [frame_intros]:
  "frame c0 c \<Longrightarrow> host_frame (lv_db c) (snd r) \<Longrightarrow> frame c0 (snd (onDb c r))"
  by (auto simp: frame_def onDb_def intro: host_frame_trans)

lemma frame_onWorld [frame_intros]: "frame c0 c \<Longrightarrow> frame c0 (snd (onWorld c r))"
  by (simp add: frame_def onWorld_def)

lemma frame_cache [frame_intros]: "frame c0 c \<Longrightarrow> frame c0 (c\<lparr>lv_cache := k\<rparr>)"
  by (simp add: frame_def)

lemma frame_checkS [frame_intros]:
  "frame c0 c \<Longrightarrow> (\<And>x. m = Inr x \<Longrightarrow> frame c0 (snd (k x))) \<Longrightarrow> frame c0 (snd (checkS m c k))"
  by (rule checkS_snd)

lemma frame_bindS [frame_intros]:
  "frame c0 (snd m) \<Longrightarrow> (\<And>x c. frame c0 c \<Longrightarrow> frame c0 (snd (k x c))) \<Longrightarrow> frame c0 (snd (bindS m k))"
  by (rule bindS_snd) auto

lemma frame_map_errS [frame_intros]: "frame c0 (snd m) \<Longrightarrow> frame c0 (snd (map_errS f m))"
  by simp

lemma frame_forS [frame_intros]:
  "frame c0 c \<Longrightarrow> (\<And>c x. frame c0 c \<Longrightarrow> frame c0 (snd (f c x))) \<Longrightarrow> frame c0 (snd (forS f c xs))"
  by (rule forS_snd)

lemma frame_if [frame_intros]: "(b \<Longrightarrow> frame c0 (snd x)) \<Longrightarrow> (\<not> b \<Longrightarrow> frame c0 (snd y)) \<Longrightarrow> frame c0 (snd (if b then x else y))"
  by simp

lemma frame_pair [frame_intros]: "frame c0 c \<Longrightarrow> frame c0 (snd (r, c))"
  by simp

section \<open>Queries\<close>

lemma host_frame_update_host [simp]: "host_frame d (update_host hid f d)"
  by (simp add: host_frame_def update_host_def)

lemma host_queries_frame [frame_intros]:
  "host_frame d (snd (q_UpdateHostStatus d hid st))" "host_frame d (snd (q_UpdateHostMemo d hid m))"
  "host_frame d (snd (q_UpdateHostAutoUpdatePolicy d hid p))" "host_frame d (snd (q_UpdateHostConnectString d hid cs))"
  "host_frame d (snd (q_UpdateHostLastStartupConfig d hid cfg))" "host_frame d (snd (q_IncrementHostInstanceCount d hid))"
  "host_frame d (snd (q_CreateHost d h))" "host_frame d (snd (q_UpdateHostName d hid n))"
  "host_frame d (snd (q_DeleteContainerLogsByHostID d hid))"
  by (auto simp: q_UpdateHostStatus_def q_UpdateHostMemo_def q_UpdateHostAutoUpdatePolicy_def q_UpdateHostConnectString_def
      q_UpdateHostLastStartupConfig_def q_IncrementHostInstanceCount_def q_CreateHost_def q_UpdateHostName_def
      q_DeleteContainerLogsByHostID_def writeQ_def host_frame_def update_host_def Let_def split: option.splits if_splits)

lemma session_queries_frame [frame_intros]:
  "host_frame d (snd (SessionRepository_Upsert d s))" "host_frame d (snd (SessionRepository_UpdateStatus d sid st))"
  "host_frame d (snd (SessionRepository_Delete d sid))"
  by (auto simp: SessionRepository_Upsert_def q_UpsertSession_def SessionRepository_UpdateStatus_def q_UpdateSessionStatus_def
      SessionRepository_Delete_def q_DeleteSession_def bindS_def writeQ_def host_frame_def Let_def map_errS_def
      split: option.splits if_splits sum.splits prod.splits)

section \<open>Operations\<close>

lemma set_host_status_frame [frame_intros]: "frame c0 c \<Longrightarrow> frame c0 (set_host_status hid st c)"
  unfolding set_host_status_def by (intro frame_intros)

lemma Restart_frame [frame_intros]: "frame c0 c \<Longrightarrow> frame c0 (snd (HostRepository_Restart con c hid p t))"
  unfolding HostRepository_Restart_def Let_def by (intro frame_intros)

lemma Stop_frame [frame_intros]: "frame c0 c \<Longrightarrow> frame c0 (snd (HostRepository_Stop con c hid t))"
  unfolding HostRepository_Stop_def Let_def by (intro frame_intros)

lemma Kill_frame [frame_intros]: "frame c0 c \<Longrightarrow> frame c0 (snd (HostRepository_Kill con c hid))"
  unfolding HostRepository_Kill_def Let_def by (intro frame_intros)

lemma frame_result [frame_intros]:
  "frame c0 (snd m) \<Longrightarrow> (\<And>x c. frame c0 c \<Longrightarrow> frame c0 (snd (f x c))) \<Longrightarrow> (\<And>e c. frame c0 c \<Longrightarrow> frame c0 (snd (g e c))) \<Longrightarrow>
     frame c0 (snd (case m of (Inr x, c) \<Rightarrow> f x c | (Inl e, c) \<Rightarrow> g e c))"
  by (auto split: prod.split sum.split)

lemma Start_frame [frame_intros]: "frame c0 c \<Longrightarrow> frame c0 (snd (HostRepository_Start con newId c cn p u))"
  unfolding HostRepository_Start_def Let_def by (intro frame_intros)

lemma markSessionsAsEnded_frame [frame_intros]: "frame c0 c \<Longrightarrow> frame c0 (snd (markSessionsAsEnded c ss))"
  unfolding markSessionsAsEnded_def Let_def by (intro frame_intros)

lemma host_usecase_frame [frame_intros]:
  "frame c0 c \<Longrightarrow> frame c0 (snd (HeadlessHostStart con newId c caller p u))"
  "frame c0 c \<Longrightarrow> frame c0 (snd (HeadlessHostRestart con c caller hid tag ww t))"
  "frame c0 c \<Longrightarrow> frame c0 (snd (HeadlessHostShutdown con c caller hid))"
  "frame c0 c \<Longrightarrow> frame c0 (snd (HeadlessHostKill con c caller hid))"
  unfolding HeadlessHostStart_def HeadlessHostRestart_def HeadlessHostShutdown_def HeadlessHostKill_def
  by (intro frame_intros; assumption)+

lemma settle_frame [frame_intros]: "frame c0 c \<Longrightarrow> frame c0 (snd (settle c s st))"
  unfolding settle_def by (intro frame_intros)

lemma GetSession_frame [frame_intros]: "frame c0 c \<Longrightarrow> frame c0 (snd (GetSession con c sid))"
  unfolding GetSession_def by (intro frame_intros) (auto split: option.split sum.split intro: frame_intros)

lemma session_usecase_frame [frame_intros]:
  "frame c0 c \<Longrightarrow> frame c0 (snd (StartSession con env c caller h g u p m))"
  "frame c0 c \<Longrightarrow> frame c0 (snd (StopSession con c caller sid))"
  "frame c0 c \<Longrightarrow> frame c0 (snd (UpdateSessionParameters con c caller sid req))"
  "frame c0 c \<Longrightarrow> frame c0 (snd (UpdateSessionExtraSettings con c caller sid au memo))"
  unfolding StartSession_def StopSession_def UpdateSessionParameters_def UpdateSessionExtraSettings_def Let_def
  by (intro frame_intros; assumption)+

end
