(* ===== verification/JobExecutor.thy ===== *)
theory JobExecutor
  imports JobQueue Frames
begin

text \<open>
  Running asynchronous jobs: the dispatcher (\<open>usecase/async_job/handler.go\<close>) and the executor
  (\<open>worker/async_job_executor.go\<close>). A job is run as the user who created it. Arguments of the model
  beside those of the usecases are the id of a host that is started and the text of an error
  (\<open>Error()\<close>). A Go panic in a handler is an error of the handler, which the executor turns into a
  failed job like any other error. Deadlines are cancellations. The notifications that a run publishes
  are part of its result.
\<close>

record job_env =
  je_pg :: pg_env
  je_codec :: job_codec
  je_session :: session_env
  je_newHostId :: string
  je_errText :: "err \<Rightarrow> string"

section \<open>Results and messages\<close>

record JobResult =
  Result_HostID :: string
  Result_SessionID :: string

text \<open>
  A JSON string as \<open>encoding/json\<close> writes it. Bytes above 127 are copied, as they are for valid UTF-8
  without U+2028 and U+2029.
\<close>

definition json_char :: "char \<Rightarrow> string" where
  "json_char c =
     (if c = CHR 0x22 then [CHR 0x5C, CHR 0x22]
      else if c = CHR 0x5C then [CHR 0x5C, CHR 0x5C]
      else if c = CHR 0x08 then [CHR 0x5C, CHR ''b'']
      else if c = CHR 0x0C then [CHR 0x5C, CHR ''f'']
      else if c = CHR 0x0A then [CHR 0x5C, CHR ''n'']
      else if c = CHR 0x0D then [CHR 0x5C, CHR ''r'']
      else if c = CHR 0x09 then [CHR 0x5C, CHR ''t'']
      else if of_char c < (32 :: nat) \<or> c = CHR ''<'' \<or> c = CHR ''>'' \<or> c = CHR ''&''
        then [CHR 0x5C, CHR ''u'', CHR ''0'', CHR ''0'', hex_digit (of_char c div 16), hex_digit (of_char c mod 16)]
      else [c])"

definition json_quote :: "string \<Rightarrow> string" where
  "json_quote s = [CHR 0x22] @ concat (map json_char s) @ [CHR 0x22]"

fun intersperse_comma :: "string list \<Rightarrow> string" where
  "intersperse_comma [] = []"
| "intersperse_comma [x] = x"
| "intersperse_comma (x # xs) = x @ '','' @ intersperse_comma xs"

definition MarshalResult :: "JobResult \<Rightarrow> string" where
  "MarshalResult r = ''{'' @ intersperse_comma
     ((if Result_HostID r = [] then [] else [json_quote ''host_id'' @ '':'' @ json_quote (Result_HostID r)])
      @ (if Result_SessionID r = [] then [] else [json_quote ''session_id'' @ '':'' @ json_quote (Result_SessionID r)])) @ ''}''"

text \<open>The texts of the notifications, each with what it names.\<close>

datatype job_message =
    HostStarted string | HostStopped string | HostRestarted string
  | SessionStartedMsg string | SessionStoppedMsg string | ErrorText string

datatype job_level = LEVEL_SUCCESS | LEVEL_ERROR

record JobCompletedEvent =
  Completed_User :: string
  Completed_JobId :: string
  Completed_Message :: job_message
  Completed_Level :: job_level

section \<open>The dispatcher\<close>

definition getter :: "string option \<Rightarrow> string" where
  "getter s = (case s of None \<Rightarrow> [] | Some x \<Rightarrow> x)"

definition dispatch_startHost ::
  "'w HostConnector \<Rightarrow> job_env \<Rightarrow> 'w ctl \<Rightarrow> claims \<Rightarrow> AsyncJob \<Rightarrow> (JobResult \<times> job_message) res \<times> 'w ctl" where
  "dispatch_startHost con env c caller job =
     checkS (cd_UnmarshalStartHost (je_codec env) (Job_Payload job)) c (\<lambda>req.
     checkS (GetHeadlessAccount (lv_db c) (Shr_HeadlessAccountId req)) c (\<lambda>account.
     let groupID = (if getter (Shr_GroupId req) = [] then Account_GroupID account else getter (Shr_GroupId req));
         params = \<lparr>Start_Name = Shr_Name req, Start_ContainerImageTag = getter (Shr_ImageTag req),
                   Start_HeadlessAccount = account, Start_StartupConfig = Shr_StartupConfig req,
                   Start_AutoUpdatePolicy =
                     (case Shr_AutoUpdatePolicy req of None \<Rightarrow> HostAutoUpdatePolicy_UNSPECIFIED | Some p \<Rightarrow> p),
                   Start_Memo = getter (Shr_Memo req), Start_GroupID = groupID\<rparr> in
     bindS (HeadlessHostStart con (je_newHostId env) c caller params (Job_CreatedBy job)) (\<lambda>hostID c.
     (Inr (\<lparr>Result_HostID = hostID, Result_SessionID = []\<rparr>, HostStarted (Shr_Name req)), c))))"

definition dispatch_shutdownHost ::
  "'w HostConnector \<Rightarrow> job_env \<Rightarrow> 'w ctl \<Rightarrow> claims \<Rightarrow> AsyncJob \<Rightarrow> (JobResult \<times> job_message) res \<times> 'w ctl" where
  "dispatch_shutdownHost con env c caller job =
     checkS (cd_UnmarshalShutdownHost (je_codec env) (Job_Payload job)) c (\<lambda>hostID.
     bindS (HeadlessHostShutdown con c caller hostID) (\<lambda>_ c.
     (Inr (\<lparr>Result_HostID = hostID, Result_SessionID = []\<rparr>, HostStopped hostID), c)))"

definition defaultRestartTimeoutSeconds :: int where
  "defaultRestartTimeoutSeconds = 10 * 60"

definition dispatch_restartHost ::
  "'w HostConnector \<Rightarrow> job_env \<Rightarrow> 'w ctl \<Rightarrow> claims \<Rightarrow> AsyncJob \<Rightarrow> (JobResult \<times> job_message) res \<times> 'w ctl" where
  "dispatch_restartHost con env c caller job =
     checkS (cd_UnmarshalRestartHost (je_codec env) (Job_Payload job)) c (\<lambda>req.
     let newTag = (if Rhr_WithUpdate req then Some ''latestRelease''
                   else if getter (Rhr_WithImageTag req) \<noteq> [] then Some (getter (Rhr_WithImageTag req)) else None);
         timeout = (case Rhr_TimeoutSeconds req of None \<Rightarrow> defaultRestartTimeoutSeconds | Some t \<Rightarrow> t) in
     bindS (HeadlessHostRestart con c caller (Rhr_HostId req) newTag (Rhr_WithWorldRestart req) timeout) (\<lambda>_ c.
     (Inr (\<lparr>Result_HostID = Rhr_HostId req, Result_SessionID = []\<rparr>, HostRestarted (Rhr_HostId req)), c)))"

definition dispatch_startSession ::
  "'w HostConnector \<Rightarrow> job_env \<Rightarrow> 'w ctl \<Rightarrow> claims \<Rightarrow> AsyncJob \<Rightarrow> (JobResult \<times> job_message) res \<times> 'w ctl" where
  "dispatch_startSession con env c caller job =
     checkS (cd_UnmarshalStartWorld (je_codec env) (Job_Payload job)) c (\<lambda>req.
     let memo = (if Swr_Memo req \<noteq> [] then Some (Swr_Memo req) else None) in
     bindS (StartSession con (je_session env) c caller (Swr_HostId req) (getter (Swr_GroupId req)) (Job_CreatedBy job)
              (Swr_Parameters req) memo) (\<lambda>s c.
     let name = (case Swr_Parameters req of None \<Rightarrow> [] | Some p \<Rightarrow> getter (Wsp_Name p));
         name = (if name = [] then Session_ID s else name) in
     (Inr (\<lparr>Result_HostID = Swr_HostId req, Result_SessionID = Session_ID s\<rparr>, SessionStartedMsg name), c)))"

definition dispatch_stopSession ::
  "'w HostConnector \<Rightarrow> job_env \<Rightarrow> 'w ctl \<Rightarrow> claims \<Rightarrow> AsyncJob \<Rightarrow> (JobResult \<times> job_message) res \<times> 'w ctl" where
  "dispatch_stopSession con env c caller job =
     checkS (cd_UnmarshalStopSession (je_codec env) (Job_Payload job)) c (\<lambda>sessionID.
     bindS (StopSession con c caller sessionID) (\<lambda>_ c.
     (Inr (\<lparr>Result_HostID = [], Result_SessionID = sessionID\<rparr>, SessionStoppedMsg sessionID), c)))"

definition Dispatch ::
  "'w HostConnector \<Rightarrow> job_env \<Rightarrow> 'w ctl \<Rightarrow> claims \<Rightarrow> AsyncJob \<Rightarrow> (JobResult \<times> job_message) res \<times> 'w ctl" where
  "Dispatch con env c caller job =
     (case Job_Type job of
        AsyncJobType_START_HOST \<Rightarrow> dispatch_startHost con env c caller job
      | AsyncJobType_SHUTDOWN_HOST \<Rightarrow> dispatch_shutdownHost con env c caller job
      | AsyncJobType_RESTART_HOST \<Rightarrow> dispatch_restartHost con env c caller job
      | AsyncJobType_START_SESSION \<Rightarrow> dispatch_startSession con env c caller job
      | AsyncJobType_STOP_SESSION \<Rightarrow> dispatch_stopSession con env c caller job
      | AsyncJobType_UNKNOWN \<Rightarrow> (Inl (ErrMsg ''unknown job type''), c)
      | AsyncJobType_Other _ \<Rightarrow> (Inl (ErrMsg ''unsupported job type''), c))"

section \<open>The executor\<close>

record AsyncJobExecutor =
  exec_instanceID :: string
  exec_tickInterval :: time
  exec_staleAfter :: time
  exec_staleSweepEvry :: time
  exec_batchSize :: int32
  exec_concurrency :: int
  exec_actionTimeout :: time

text \<open>Options that are not positive are replaced by the defaults; \<open>hostname\<close> is what \<open>os.Hostname\<close> returned.\<close>

definition NewAsyncJobExecutor :: "string option \<Rightarrow> AsyncJobExecutor \<Rightarrow> AsyncJobExecutor" where
  "NewAsyncJobExecutor hostname opts = \<lparr>
     exec_instanceID = (if exec_instanceID opts = [] then (if blank_ptr hostname then ''controller'' else getter hostname)
                        else exec_instanceID opts),
     exec_tickInterval = (if exec_tickInterval opts \<le> 0 then 5 * Second else exec_tickInterval opts),
     exec_staleAfter = (if exec_staleAfter opts \<le> 0 then 30 * Minute else exec_staleAfter opts),
     exec_staleSweepEvry = (if exec_staleSweepEvry opts \<le> 0 then 1 * Minute else exec_staleSweepEvry opts),
     exec_batchSize = (if exec_batchSize opts \<le> 0 then 8 else exec_batchSize opts),
     exec_concurrency = (if exec_concurrency opts \<le> 0 then 4 else exec_concurrency opts),
     exec_actionTimeout = (if exec_actionTimeout opts \<le> 0 then 20 * Minute else exec_actionTimeout opts)\<rparr>"

definition UserExistsByID :: "db \<Rightarrow> string \<Rightarrow> bool res" where
  "UserExistsByID d userID =
     (case q_GetUser d userID of
        Inl e \<Rightarrow> if e = ErrNoRows then Inr False else Inl e
      | Inr _ \<Rightarrow> Inr True)"

definition publishCompletion :: "AsyncJob \<Rightarrow> job_message \<Rightarrow> job_level \<Rightarrow> JobCompletedEvent list" where
  "publishCompletion job message level =
     (if blank_ptr (Job_CreatedBy job) then []
      else [\<lparr>Completed_User = getter (Job_CreatedBy job), Completed_JobId = Job_ID job,
             Completed_Message = message, Completed_Level = level\<rparr>])"

definition job_markFailed :: "job_env \<Rightarrow> 'w ctl \<Rightarrow> AsyncJob \<Rightarrow> err \<Rightarrow> JobCompletedEvent list \<times> 'w ctl" where
  "job_markFailed env c job runErr =
     (let msg = je_errText env runErr in
      (publishCompletion job (ErrorText msg) LEVEL_ERROR,
       snd (onDb c (AsyncJobRepository_MarkFailed (je_pg env) (lv_db c) (Job_ID job) msg))))"

definition job_executeOne ::
  "'w HostConnector \<Rightarrow> job_env \<Rightarrow> 'w ctl \<Rightarrow> AsyncJob \<Rightarrow> JobCompletedEvent list \<times> 'w ctl" where
  "job_executeOne con env c job =
     (if blank_ptr (Job_CreatedBy job) then job_markFailed env c job (ErrMsg ''job has no created_by'')
      else
        let user = getter (Job_CreatedBy job) in
        case UserExistsByID (lv_db c) user of
          Inl e \<Rightarrow> if e = ErrCanceled then ([], c) else job_markFailed env c job e
        | Inr False \<Rightarrow> job_markFailed env c job (ErrMsg ''created_by user does not exist'')
        | Inr True \<Rightarrow>
            (case Dispatch con env c (Some user) job of
               (Inl runErr, c) \<Rightarrow> job_markFailed env c job runErr
             | (Inr (result, message), c) \<Rightarrow>
                 (publishCompletion job message LEVEL_SUCCESS,
                  snd (onDb c (AsyncJobRepository_MarkSucceeded (je_pg env) (lv_db c) (Job_ID job) (MarshalResult result))))))"

text \<open>\<open>dispatchOnce\<close> claims a batch; the items are then executed concurrently, each by \<open>job_executeOne\<close>.\<close>

definition job_dispatchOnce :: "AsyncJobExecutor \<Rightarrow> 'w ctl \<Rightarrow> AsyncJob list \<times> 'w ctl" where
  "job_dispatchOnce e c =
     (case onDb c (AsyncJobRepository_ClaimDue (lv_db c) (exec_instanceID e) (exec_batchSize e)) of
        (Inl _, c) \<Rightarrow> ([], c) | (Inr jobs, c) \<Rightarrow> (jobs, c))"

definition job_sweep :: "AsyncJobExecutor \<Rightarrow> 'w ctl \<Rightarrow> 'w ctl" where
  "job_sweep e c = snd (onDb c (AsyncJobRepository_ReleaseStaleClaims (lv_db c) (exec_staleAfter e)))"

text \<open>
  The executors of any number of instances at work: the controller's state with the jobs in flight, each
  with the instance that runs it. A crash loses the flights of an instance; anything else the controller
  does leaves the jobs alone, except for new ones.
\<close>

type_synonym 'w jobs_state = "'w ctl \<times> (string \<times> AsyncJob) list"

definition untouched_jobs :: "db \<Rightarrow> db \<Rightarrow> bool" where
  "untouched_jobs d d' \<longleftrightarrow> db_jobs d' = db_jobs d \<and> db_now d \<le> db_now d'"

inductive job_step :: "'w HostConnector \<Rightarrow> pg_env \<Rightarrow> time \<Rightarrow> 'w jobs_state \<Rightarrow> 'w jobs_state \<Rightarrow> bool"
  for con pg staleAfter where
  create: "length newId = 16 \<Longrightarrow> onDb c (AsyncJobRepository_Create pg newId (lv_db c) params) = (r, c') \<Longrightarrow>
    job_step con pg staleAfter (c, F) (c', F)"
| claim: "job_dispatchOnce e c = (jobs, c') \<Longrightarrow>
    job_step con pg staleAfter (c, F) (c', F @ map (Pair (exec_instanceID e)) jobs)"
| execute: "f \<in> set F \<Longrightarrow> je_pg env = pg \<Longrightarrow> job_executeOne con env c (snd f) = (ev, c') \<Longrightarrow>
    job_step con pg staleAfter (c, F) (c', remove1 f F)"
| crash: "job_step con pg staleAfter (c, F) (c, filter (\<lambda>f. fst f \<noteq> w) F)"
| sweep: "exec_staleAfter e = staleAfter \<Longrightarrow> job_step con pg staleAfter (c, F) (job_sweep e c, F)"
| other: "untouched_jobs (lv_db c) (lv_db c') \<Longrightarrow> job_step con pg staleAfter (c, F) (c', F)"

section \<open>Lemmas\<close>

text \<open>pgx reads the canonical text of a UUID as that UUID, and the ids of the table are such texts.\<close>

definition lawful_scan :: "pg_env \<Rightarrow> bool" where
  "lawful_scan pg \<longleftrightarrow> (\<forall>b. length b = 16 \<longrightarrow> pg_Scan pg (formatUUID b) = Some (formatUUID b))"

definition jobs_table_ok :: "db \<Rightarrow> bool" where
  "jobs_table_ok d \<longleftrightarrow> jobs_ok d \<and> (\<forall>i \<in> set (map Job_ID (db_jobs d)). \<exists>b. length b = 16 \<and> i = formatUUID b)"

lemma jobs_frame:
  assumes "db_jobs d' = db_jobs d"
  shows "jobs_ok d' = jobs_ok d" "job_of d' i = job_of d i" "jobs_table_ok d' = jobs_table_ok d"
    "job_held d' i = job_held d i" "job_held_since d' i = job_held_since d i" "job_finished d' j = job_finished d j"
  using assms by (simp_all add: jobs_ok_def job_of_def jobs_table_ok_def job_held_def job_held_since_def job_finished_def)

lemma exclusive_frame: "db_jobs d' = db_jobs d \<Longrightarrow> jobs.exclusive d' fs = jobs.exclusive d fs"
  by (simp add: jobs.exclusive_def jobs_frame(4,5)[of d' d])

lemma jobs_table_ok_update: "(\<And>j. Job_ID (f j) = Job_ID j) \<Longrightarrow> jobs_table_ok (update_jobs p f d) = jobs_table_ok d"
  by (simp add: jobs_table_ok_def jobs_ok_update map_key_tbl_update del: set_map)

lemma settle_job_frame:
  "db_now (settle_job pg m i d) = db_now d" "db_fault (settle_job pg m i d) = db_fault d"
  "jobs_table_ok (settle_job pg m i d) = jobs_table_ok d"
  using settle_job_cases[of pg m i d] by (auto simp: jobs_table_ok_update)

lemma scan_ok:
  assumes "lawful_scan pg" "jobs_table_ok d" "j \<in> set (db_jobs d)"
  shows "parseUUID pg (Job_ID j) = Inr (Job_ID j)"
  using assms by (force simp: lawful_scan_def jobs_table_ok_def parseUUID_def)

text \<open>Marking a job is settling its row.\<close>

lemma mark_settles:
  assumes "parseUUID pg i = Inr i"
  shows "snd (AsyncJobRepository_MarkFailed pg d i msg) = settle_job pg (JobFailed msg) i d"
    and "res \<noteq> [] \<Longrightarrow> snd (AsyncJobRepository_MarkSucceeded pg d i res) = settle_job pg (JobSucceeded res) i d"
  using assms
  by (auto simp: AsyncJobRepository_MarkFailed_def AsyncJobRepository_MarkSucceeded_def bindS_def map_errS_def Let_def
      split: prod.split sum.split)

lemma MarshalResult_ne [simp]: "MarshalResult r \<noteq> []"
  by (simp add: MarshalResult_def)

lemma Dispatch_frame: "frame c (snd (Dispatch con env c caller job))"
  unfolding Dispatch_def dispatch_startHost_def dispatch_shutdownHost_def dispatch_restartHost_def
    dispatch_startSession_def dispatch_stopSession_def Let_def
  by (auto split: AsyncJobType.split intro!: frame_intros)

text \<open>
  What a run does to the table: with the operation's own writes elsewhere, it settles the row of its job,
  unless the look-up of the user was cancelled, which changes nothing.
\<close>

definition job_outcome_of :: "'w HostConnector \<Rightarrow> job_env \<Rightarrow> 'w ctl \<Rightarrow> AsyncJob \<Rightarrow> job_outcome option \<times> 'w ctl" where
  "job_outcome_of con env c job =
     (if blank_ptr (Job_CreatedBy job) then (Some (JobFailed (je_errText env (ErrMsg ''job has no created_by''))), c)
      else case UserExistsByID (lv_db c) (getter (Job_CreatedBy job)) of
          Inl e \<Rightarrow> if e = ErrCanceled then (None, c) else (Some (JobFailed (je_errText env e)), c)
        | Inr False \<Rightarrow> (Some (JobFailed (je_errText env (ErrMsg ''created_by user does not exist''))), c)
        | Inr True \<Rightarrow>
            (case Dispatch con env c (Some (getter (Job_CreatedBy job))) job of
               (Inl e, c) \<Rightarrow> (Some (JobFailed (je_errText env e)), c)
             | (Inr (result, message), c) \<Rightarrow> (Some (JobSucceeded (MarshalResult result)), c)))"

lemma executeOne_settle:
  assumes scan: "parseUUID (je_pg env) (Job_ID job) = Inr (Job_ID job)"
    and run: "job_executeOne con env c job = (ev, c')" and out: "job_outcome_of con env c job = (m, c1)"
  shows "frame c c1" "c' = (case m of None \<Rightarrow> c1 | Some o' \<Rightarrow> c1\<lparr>lv_db := settle_job (je_pg env) o' (Job_ID job) (lv_db c1)\<rparr>)"
proof -
  have "frame c (snd (job_outcome_of con env c job))"
    using Dispatch_frame[of c con env "Some (getter (Job_CreatedBy job))" job] unfolding job_outcome_of_def
    by (auto split: sum.split prod.split bool.split)
  then show "frame c c1" using out by simp
  show "c' = (case m of None \<Rightarrow> c1 | Some o' \<Rightarrow> c1\<lparr>lv_db := settle_job (je_pg env) o' (Job_ID job) (lv_db c1)\<rparr>)"
    using run out mark_settles[OF scan]
    by (auto simp: job_executeOne_def job_outcome_of_def job_markFailed_def Let_def onDb_def
        split: if_splits sum.splits bool.splits prod.splits)
qed

text \<open>The claim of the repository is the claim of the queue.\<close>

lemma dispatchOnce_claim:
  assumes "job_dispatchOnce e c = (jobs, c')"
  shows "claim_jobs (exec_instanceID e, exec_batchSize e) (lv_db c) = (map Job_ID jobs, lv_db c')"
    and "j \<in> set jobs \<Longrightarrow> Job_ClaimedAt j = Some (db_now (lv_db c)) \<and> Job_ClaimedBy j = Some (exec_instanceID e)"
    and "db_now (lv_db c') = db_now (lv_db c)" "jobs_table_ok (lv_db c') = jobs_table_ok (lv_db c)"
  using assms
  by (auto simp: job_dispatchOnce_def onDb_def AsyncJobRepository_ClaimDue_def map_errS_def q_ClaimDueAsyncJobs_def writeQ_def
      Let_def jobs_table_ok_update split: prod.splits sum.splits option.splits if_splits)

lemma job_sweep_eq:
  "in32 (exec_staleAfter e div Second) \<Longrightarrow> job_sweep e c = c\<lparr>lv_db := sweep_jobs (exec_staleAfter e div Second) (lv_db c)\<rparr>"
  by (simp add: job_sweep_def onDb_def AsyncJobRepository_ReleaseStaleClaims_def sweep_jobs_def)

lemma sweep_jobs_frame: "jobs_table_ok (sweep_jobs st d) = jobs_table_ok d"
  using sweep_jobs_cases[of st d] by (auto simp: jobs_table_ok_update)

lemma Create_cases:
  assumes "length newId = 16" "AsyncJobRepository_Create pg newId d params = (r, d')"
  shows "d' = d \<or> (\<exists>j. db_jobs d' = db_jobs d @ [j] \<and> job_of d (Job_ID j) = None \<and> Job_ID j = formatUUID newId)"
proof -
  obtain q where q: "q_CreateAsyncJob pg newId d params = (q, d')"
    using assms(2) by (cases "q_CreateAsyncJob pg newId d params") (simp add: AsyncJobRepository_Create_def map_errS_def)
  then show ?thesis
    by (auto simp: q_CreateAsyncJob_def writeQ_def Let_def job_of_def tbl_get_None_iff tbl_exists_iff split: option.splits if_splits)
qed

lemma job_of_append:
  "db_jobs d' = db_jobs d @ [j] \<Longrightarrow> job_of d' i = (case job_of d i of None \<Rightarrow> if Job_ID j = i then Some j else None | Some k \<Rightarrow> Some k)"
  by (simp add: job_of_def tbl_get_append split: option.split)

lemma create_keeps:
  assumes "length newId = 16" "onDb c (AsyncJobRepository_Create pg newId (lv_db c) params) = (r, c')"
  shows "jobs_table_ok (lv_db c) \<Longrightarrow> jobs_table_ok (lv_db c')" "jobs.exclusive (lv_db c) fs \<Longrightarrow> jobs.exclusive (lv_db c') fs"
    "job_finished (lv_db c) k \<Longrightarrow> job_finished (lv_db c') k"
proof -
  obtain d' where d': "AsyncJobRepository_Create pg newId (lv_db c) params = (r, d')" "lv_db c' = d'"
    using assms(2) by (cases "AsyncJobRepository_Create pg newId (lv_db c) params") (auto simp: onDb_def)
  note cases = Create_cases[OF assms(1) d'(1)]
  have fresh: "Job_ID j \<notin> set (map Job_ID (db_jobs (lv_db c)))" if "job_of (lv_db c) (Job_ID j) = None" for j
    using that by (auto simp: job_of_def tbl_get_None_iff)
  show "jobs_table_ok (lv_db c')" if ok: "jobs_table_ok (lv_db c)"
  proof (cases "d' = lv_db c")
    case False
    then obtain j where j: "db_jobs d' = db_jobs (lv_db c) @ [j]" "job_of (lv_db c) (Job_ID j) = None" "Job_ID j = formatUUID newId"
      using cases by blast
    show ?thesis using ok fresh[OF j(2)] assms(1) j unfolding d'(2) by (simp add: jobs_table_ok_def jobs_ok_def) blast
  qed (use ok d' in simp)
  show "job_finished (lv_db c) k \<Longrightarrow> job_finished (lv_db c') k"
    using cases unfolding d'(2) by (auto simp: job_finished_def)
  have "job_held d' i \<and> job_held_since d' i = Some t" if "job_held (lv_db c) i" "job_held_since (lv_db c) i = Some t" for i t
    using cases that by (auto simp: job_held_def job_held_since_def job_of_append)
  then show "jobs.exclusive (lv_db c) fs \<Longrightarrow> jobs.exclusive (lv_db c') fs"
    unfolding d'(2) by (auto simp: jobs.exclusive_def)
qed

section \<open>Properties\<close>

text \<open>The flights of a state as the queue sees them, and a state in which no claim is overdue.\<close>

definition flights :: "(string \<times> AsyncJob) list \<Rightarrow> (string \<times> time) list" where
  "flights F = map (\<lambda>f. (Job_ID (snd f), case Job_ClaimedAt (snd f) of Some t \<Rightarrow> t | None \<Rightarrow> 0)) F"

definition timely :: "time \<Rightarrow> 'w jobs_state \<Rightarrow> bool" where
  "timely staleAfter s \<longleftrightarrow> (\<forall>(i, t) \<in> set (flights (snd s)). db_now (lv_db (fst s)) - staleAfter div Second * Second \<le> t)"

definition jobs_inv :: "'w jobs_state \<Rightarrow> bool" where
  "jobs_inv s \<longleftrightarrow> jobs_table_ok (lv_db (fst s)) \<and> jobs.exclusive (lv_db (fst s)) (flights (snd s))"

lemma flights_simps [simp]:
  "flights [] = []" "flights (xs @ ys) = flights xs @ flights ys" "map fst (flights F) = map (\<lambda>f. Job_ID (snd f)) F"
  by (simp_all add: flights_def)

lemma flights_remove1:
  assumes "distinct (map fst (flights F))" "f \<in> set F"
  shows "\<exists>g \<in> set (flights F). fst g = Job_ID (snd f) \<and> flights (remove1 f F) = remove1 g (flights F)"
proof -
  define h where "h = (\<lambda>f :: string \<times> AsyncJob. (Job_ID (snd f), case Job_ClaimedAt (snd f) of Some t \<Rightarrow> t | None \<Rightarrow> 0))"
  have fl: "flights G = map h G" for G by (simp add: flights_def h_def)
  have "map h (remove1 f F) = remove1 (h f) (map h F)" by (rule map_remove1_distinct) (use assms in \<open>simp_all add: fl comp_def\<close>)
  then show ?thesis using assms(2) by (intro bexI[of _ "h f"]) (simp_all add: fl, simp add: h_def)
qed

lemma flights_filter: "distinct (map fst (flights F)) \<Longrightarrow> distinct (map fst (flights (filter P F)))"
  by (simp add: distinct_map_filter)

lemma jobs_inv_mono:
  assumes "jobs_inv (c, F)" "distinct (map fst (flights F'))" "set (flights F') \<subseteq> set (flights F)"
    "db_jobs (lv_db c') = db_jobs (lv_db c)"
  shows "jobs_inv (c', F')"
  using assms jobs.exclusive_mono[of "lv_db c" "flights F" "flights F'" "lv_db c"]
  by (simp add: jobs_inv_def jobs_frame(3)[OF assms(4)] exclusive_frame[OF assms(4)])

lemma job_step_inv:
  assumes scan: "lawful_scan pg" and st: "in32 (staleAfter div Second)"
    and step: "job_step con pg staleAfter s t" and tm: "timely staleAfter s" and inv: "jobs_inv s"
  shows "jobs_inv t"
  using step inv tm
proof cases
  case (create newId c params r c' F)
  then show ?thesis using inv create_keeps[OF create(3,4)] by (simp add: jobs_inv_def)
next
  case (claim e c jobs c' F)
  note cl = dispatchOnce_claim[OF claim(3)]
  have ok: "jobs_ok (lv_db c)" using inv claim by (simp add: jobs_inv_def jobs_table_ok_def)
  have "flights (map (Pair (exec_instanceID e)) jobs) = map (\<lambda>i. (i, db_now (lv_db c))) (map Job_ID jobs)"
    using cl(2) by (simp add: flights_def)
  then show ?thesis
    using jobs.exclusive_claim[OF ok _ cl(1), of "flights F"] inv cl(4) claim by (simp add: jobs_inv_def)
next
  case (execute f F env c ev c')
  have ex: "jobs.exclusive (lv_db c) (flights F)" and ok: "jobs_table_ok (lv_db c)"
    using inv execute by (simp_all add: jobs_inv_def)
  obtain g where g: "g \<in> set (flights F)" "fst g = Job_ID (snd f)" "flights (remove1 f F) = remove1 g (flights F)"
    using flights_remove1[OF _ execute(3)] ex by (auto simp: jobs.exclusive_def)
  have "job_held (lv_db c) (Job_ID (snd f))" using ex g by (auto simp: jobs.exclusive_def)
  then obtain j where "j \<in> set (db_jobs (lv_db c))" "Job_ID j = Job_ID (snd f)"
    using job_ID_of[of "lv_db c" "Job_ID (snd f)"] by (auto simp: job_held_def)
  then have sc: "parseUUID (je_pg env) (Job_ID (snd f)) = Inr (Job_ID (snd f))"
    using scan_ok[OF scan ok, of j] execute(4) by simp
  obtain m c1 where out: "job_outcome_of con env c (snd f) = (m, c1)" by force
  note eff = executeOne_settle[OF sc execute(5) out]
  have jobs: "db_jobs (lv_db c1) = db_jobs (lv_db c)" using eff(1) by (simp add: frame_def host_frame_simps)
  have ex1: "jobs.exclusive (lv_db c1) (flights F)" and ok1: "jobs_table_ok (lv_db c1)"
    using ex ok jobs by (simp_all add: exclusive_frame[OF jobs] jobs_frame(3)[OF jobs])
  show ?thesis
  proof (cases m)
    case None
    then show ?thesis
      using jobs.exclusive_remove1[OF ex1, of g] ok1 eff(2) execute by (simp add: jobs_inv_def g(3))
  next
    case (Some out)
    have "jobs.exclusive (settle_job pg out (Job_ID (snd f)) (lv_db c1)) (flights (remove1 f F))"
      using jobs.exclusive_settle[OF _ ex1 g(1), of pg out] ok1 by (simp add: g jobs_table_ok_def)
    then show ?thesis using eff(2) execute Some ok1 by (simp add: jobs_inv_def settle_job_frame)
  qed
next
  case (crash c F w)
  show ?thesis unfolding crash(2)
    by (rule jobs_inv_mono[OF inv[unfolded crash(1)]]) (use inv crash in \<open>auto simp: jobs_inv_def jobs.exclusive_def flights_def distinct_map_filter\<close>)
next
  case (sweep e c F)
  show ?thesis
  proof -
    have ok: "jobs_table_ok (lv_db c)" and ex: "jobs.exclusive (lv_db c) (flights F)" using inv sweep by (simp_all add: jobs_inv_def)
    have "jobs.exclusive (sweep_jobs (staleAfter div Second) (lv_db c)) (flights F)"
      by (rule jobs.exclusive_sweep[OF _ ex]) (use ok tm sweep in \<open>simp_all add: jobs_table_ok_def timely_def\<close>)
    then show ?thesis using ok st sweep by (simp add: jobs_inv_def job_sweep_eq sweep_jobs_frame)
  qed
next
  case (other c c' F)
  show ?thesis unfolding other(2)
    by (rule jobs_inv_mono[OF inv[unfolded other(1)]]) (use inv other in \<open>auto simp: jobs_inv_def jobs.exclusive_def untouched_jobs_def\<close>)
qed

text \<open>
  C24: a job is never executed by two workers at once, as long as no claim is overdue. In every history of
  claims, executions, crashes, sweeps and new jobs by any number of instances in which no job is in
  flight for longer than \<open>staleAfter\<close>, the jobs in flight are all different, and each of them still holds
  its row under the claim it was taken with.
\<close>

theorem job_exclusive:
  assumes "lawful_scan pg" "in32 (staleAfter div Second)" "jobs_table_ok (lv_db c0)"
    and "(\<lambda>s t. job_step con pg staleAfter s t \<and> timely staleAfter s)\<^sup>*\<^sup>* (c0, []) (c, F)"
  shows "distinct (map (\<lambda>f. Job_ID (snd f)) F) \<and>
     (\<forall>f \<in> set F. job_held (lv_db c) (Job_ID (snd f)) \<and>
        (\<forall>t. Job_ClaimedAt (snd f) = Some t \<longrightarrow> job_held_since (lv_db c) (Job_ID (snd f)) = Some t))"
proof -
  have "step_invariant (\<lambda>s t. job_step con pg staleAfter s t \<and> timely staleAfter s) jobs_inv"
    by unfold_locales (use job_step_inv[OF assms(1,2)] in blast)
  then have "jobs_inv (c, F)"
    by (rule step_invariant.reach_inv[OF _ assms(4)]) (simp add: jobs_inv_def assms(3))
  then have d: "distinct (map fst (flights F))"
    and h: "\<And>g. g \<in> set (flights F) \<Longrightarrow> job_held (lv_db c) (fst g) \<and> job_held_since (lv_db c) (fst g) = Some (snd g)"
    by (auto simp: jobs_inv_def jobs.exclusive_def)
  show ?thesis
  proof (intro conjI ballI allI impI)
    fix f assume "f \<in> set F"
    then have g: "(Job_ID (snd f), case Job_ClaimedAt (snd f) of Some t \<Rightarrow> t | None \<Rightarrow> 0) \<in> set (flights F)" by (auto simp: flights_def)
    show "job_held (lv_db c) (Job_ID (snd f))" using h[OF g] by simp
    show "job_held_since (lv_db c) (Job_ID (snd f)) = Some t" if "Job_ClaimedAt (snd f) = Some t" for t
      using h[OF g] that by simp
  qed (use d in simp)
qed

lemma mark_cases:
  "snd (AsyncJobRepository_MarkFailed pg d i msg) = d \<or> (\<exists>u. snd (AsyncJobRepository_MarkFailed pg d i msg) = settle_job pg (JobFailed msg) u d)"
  "snd (AsyncJobRepository_MarkSucceeded pg d i res) = d \<or> (\<exists>u r. snd (AsyncJobRepository_MarkSucceeded pg d i res) = settle_job pg (JobSucceeded r) u d)"
  by (auto simp: AsyncJobRepository_MarkFailed_def AsyncJobRepository_MarkSucceeded_def checkS_def bindS_def map_errS_def Let_def
      split: prod.split sum.split)

text \<open>What every step keeps: the keys of the table and the finished rows.\<close>

definition kept :: "AsyncJob \<Rightarrow> db \<Rightarrow> bool" where
  "kept r d \<longleftrightarrow> jobs_table_ok d \<and> job_finished d r"

lemma kept_settle: "kept r d \<Longrightarrow> kept r (settle_job pg m i d)"
  using jobs.settle_finished[of d r pg m i] settle_job_frame(3)[of pg m i d] unfolding kept_def
  by (metis jobs_table_ok_def)

lemma kept_mark:
  "kept r d \<Longrightarrow> kept r (snd (AsyncJobRepository_MarkFailed pg d i msg))"
  "kept r d \<Longrightarrow> kept r (snd (AsyncJobRepository_MarkSucceeded pg d i res))"
  using mark_cases[of pg d i] kept_settle by metis+

lemma executeOne_kept:
  assumes "job_executeOne con env c job = (ev, c')" "kept r (lv_db c)"
  shows "kept r (lv_db c')"
proof -
  have fr: "kept r (lv_db c1)" if "frame c c1" for c1
    using assms(2) that by (simp add: kept_def frame_def host_frame_simps jobs_frame(3,6)[of "lv_db c1" "lv_db c"])
  have D: "frame c c1" if "Dispatch con env c (Some u) job = (x, c1)" for u x c1
    using Dispatch_frame[of c con env "Some u" job] that by simp
  have c': "c' = snd (job_executeOne con env c job)" using assms(1) by simp
  show ?thesis
    using assms(2) fr[OF D] kept_mark unfolding c' job_executeOne_def job_markFailed_def Let_def
    by (auto split: sum.split prod.split bool.split)
qed

lemma job_step_kept:
  assumes "job_step con pg staleAfter s t" "in32 (staleAfter div Second)" "kept r (lv_db (fst s))"
  shows "kept r (lv_db (fst t))"
  using assms(1)
proof cases
  case (create newId c params rr c' F)
  then show ?thesis using create_keeps(1,3)[OF create(3,4)] assms(3) by (simp add: kept_def)
next
  case (claim e c jobs c' F)
  then show ?thesis
    using jobs.claim_finished[OF _ dispatchOnce_claim(1)[OF claim(3)]] dispatchOnce_claim(4)[OF claim(3)] assms(3)
    by (simp add: kept_def jobs_table_ok_def)
next
  case (execute f F env c ev c')
  then show ?thesis using executeOne_kept[OF execute(5)] assms(3) by simp
next
  case (sweep e c F)
  then show ?thesis using assms(2,3) jobs.sweep_finished sweep_jobs_frame by (simp add: job_sweep_eq kept_def jobs_table_ok_def)
next
  case (other c c' F)
  then show ?thesis using assms(3) by (simp add: untouched_jobs_def kept_def jobs_frame(3,6)[of "lv_db c'" "lv_db c"])
qed (use assms in simp)

text \<open>
  The result of a job is final. In every history, also with overdue claims, crashes and jobs that are
  executed twice, a row that says SUCCEEDED or FAILED is never changed again: status, result, error
  and time stay as they were written first.
\<close>

theorem job_results_final:
  assumes "in32 (staleAfter div Second)" "jobs_table_ok (lv_db c)" "job_finished (lv_db c) r"
    and "(job_step con pg staleAfter)\<^sup>*\<^sup>* (c, F) (c', F')"
  shows "job_of (lv_db c') (Job_ID r) = Some r"
proof -
  have "step_invariant (job_step con pg staleAfter) (\<lambda>s. kept r (lv_db (fst s)))"
    by unfold_locales (use job_step_kept[OF _ assms(1)] in blast)
  then have "kept r (lv_db c')"
    using step_invariant.reach_inv[OF _ assms(4)] assms(2,3) by (fastforce simp: kept_def)
  then show ?thesis using job_of_row by (auto simp: kept_def jobs_table_ok_def job_finished_def)
qed

text \<open>A settled row, on a database that answers.\<close>

lemma settled_row:
  assumes "no_faults d" "job_of d i = Some row" "Job_Status row = AsyncJobStatus_RUNNING"
    and "\<forall>res. m = JobSucceeded res \<longrightarrow> pg_Jsonb pg res \<noteq> None"
  shows "\<exists>row'. job_of (settle_job pg m i d) i = Some row' \<and> Job_ExecutedAt row' = Some (db_now d) \<and> Job_ClaimedBy row' = None
     \<and> (case m of
          JobSucceeded res \<Rightarrow> Job_Status row' = AsyncJobStatus_SUCCEEDED \<and> pg_Jsonb pg res = Some (Job_ResultPayload row')
        | JobFailed msg \<Rightarrow> Job_Status row' = AsyncJobStatus_FAILED \<and> Job_LastError row' = Some msg)"
    and "k \<noteq> i \<Longrightarrow> job_of (settle_job pg m i d) k = job_of d k"
proof -
  have i: "Job_ID row = i" using job_ID_of[OF assms(2)] by simp
  show "\<exists>row'. job_of (settle_job pg m i d) i = Some row' \<and> Job_ExecutedAt row' = Some (db_now d) \<and> Job_ClaimedBy row' = None
     \<and> (case m of
          JobSucceeded res \<Rightarrow> Job_Status row' = AsyncJobStatus_SUCCEEDED \<and> pg_Jsonb pg res = Some (Job_ResultPayload row')
        | JobFailed msg \<Rightarrow> Job_Status row' = AsyncJobStatus_FAILED \<and> Job_LastError row' = Some msg)"
    using assms i by (cases m) (auto simp: q_MarkAsyncJobSucceeded_def q_MarkAsyncJobFailed_def job_of_update)
  have id: "map_option (\<lambda>j. if Job_ID j = i \<and> q j then g j else j) (job_of d k) = job_of d k" if "k \<noteq> i" for q g
    using that job_ID_of[of d k] by (cases "job_of d k") auto
  show "job_of (settle_job pg m i d) k = job_of d k" if "k \<noteq> i"
    using assms(1,4) id[OF that] by (cases m) (auto simp: q_MarkAsyncJobSucceeded_def q_MarkAsyncJobFailed_def job_of_update)
qed

text \<open>The user a job runs as, when there still is one.\<close>

definition creator :: "db \<Rightarrow> AsyncJob \<Rightarrow> string option" where
  "creator d job = (case Job_CreatedBy job of
      Some u \<Rightarrow> if u \<noteq> [] \<and> tbl_exists (\<lambda>x. User_ID x = u) (db_users d) then Some u else None | None \<Rightarrow> None)"

lemma UserExistsByID_nf: "no_faults d \<Longrightarrow> UserExistsByID d u = Inr (tbl_exists (\<lambda>x. User_ID x = u) (db_users d))"
  using tbl_get_exists[of "\<lambda>x. User_ID x = u" "db_users d"]
  by (auto simp: UserExistsByID_def q_GetUser_def split: option.split)

lemma outcome_nf:
  assumes "no_faults (lv_db c)"
  shows "case creator (lv_db c) job of
       None \<Rightarrow> \<exists>msg. job_outcome_of con env c job = (Some (JobFailed msg), c)
     | Some u \<Rightarrow> Job_CreatedBy job = Some u \<and>
         (case Dispatch con env c (Some u) job of
            (Inl e, c1) \<Rightarrow> job_outcome_of con env c job = (Some (JobFailed (je_errText env e)), c1)
          | (Inr (res, msg), c1) \<Rightarrow> job_outcome_of con env c job = (Some (JobSucceeded (MarshalResult res)), c1))"
  by (auto simp: creator_def job_outcome_of_def UserExistsByID_nf[OF assms] getter_def split: option.split prod.split sum.split)

lemma executeOne_events:
  assumes "no_faults (lv_db c)" "job_executeOne con env c job = (ev, c')" "e \<in> set ev"
  shows "Job_CreatedBy job = Some (Completed_User e) \<and> Completed_JobId e = Job_ID job \<and>
     (Completed_Level e = LEVEL_SUCCESS \<longleftrightarrow> (\<exists>res c1. job_outcome_of con env c job = (Some (JobSucceeded res), c1)))"
  using assms(2,3)
  by (auto simp: job_executeOne_def job_outcome_of_def UserExistsByID_nf[OF assms(1)] job_markFailed_def publishCompletion_def
      getter_def Let_def split: if_splits option.splits prod.splits sum.splits bool.splits)

text \<open>
  C25: a run settles its job, as the user who asked for it. On a working database, executing a job whose
  row is RUNNING leaves the row SUCCEEDED with the result or FAILED with an error, unclaimed and stamped
  with the time, and no other job changes. It is SUCCEEDED exactly when the creator still exists and the
  operation, called with the creator's permissions, succeeded; without a creator nothing but the row
  changes. Notifications go to the creator only and report the outcome.
\<close>

theorem executeOne_settles:
  assumes "no_faults (lv_db c)" "lawful_scan (je_pg env)" "\<forall>r. pg_Jsonb (je_pg env) (MarshalResult r) \<noteq> None"
    "jobs_table_ok (lv_db c)" "job_of (lv_db c) (Job_ID job) = Some row" "Job_Status row = AsyncJobStatus_RUNNING"
    and run: "job_executeOne con env c job = (ev, c')"
  shows "\<exists>row' ok. job_of (lv_db c') (Job_ID job) = Some row'
     \<and> Job_ExecutedAt row' = Some (db_now (lv_db c)) \<and> Job_ClaimedBy row' = None
     \<and> Job_Status row' = (if ok then AsyncJobStatus_SUCCEEDED else AsyncJobStatus_FAILED)
     \<and> (ok \<longleftrightarrow> (\<exists>u res msg c1. creator (lv_db c) job = Some u \<and> Dispatch con env c (Some u) job = (Inr (res, msg), c1)
                  \<and> pg_Jsonb (je_pg env) (MarshalResult res) = Some (Job_ResultPayload row')))
     \<and> (\<forall>i. i \<noteq> Job_ID job \<longrightarrow> job_of (lv_db c') i = job_of (lv_db c) i)
     \<and> (creator (lv_db c) job = None \<longrightarrow> db_sessions (lv_db c') = db_sessions (lv_db c) \<and> db_hosts (lv_db c') = db_hosts (lv_db c)
          \<and> ct_world c' = ct_world c)
     \<and> (\<forall>e \<in> set ev. Job_CreatedBy job = Some (Completed_User e) \<and> (Completed_Level e = LEVEL_SUCCESS \<longleftrightarrow> ok))"
proof -
  note run_out = outcome_nf[OF assms(1), of con env job] executeOne_events[OF assms(1) run]
  obtain m c1 where out: "job_outcome_of con env c job = (m, c1)" by force
  have sc: "parseUUID (je_pg env) (Job_ID job) = Inr (Job_ID job)"
    using scan_ok[OF assms(2,4), of row] job_ID_of[OF assms(5)] by simp
  note eff = executeOne_settle[OF sc run out]
  have jobs: "db_jobs (lv_db c1) = db_jobs (lv_db c)" and now: "db_now (lv_db c1) = db_now (lv_db c)"
    and nf: "no_faults (lv_db c1)"
    using eff(1) assms(1) by (simp_all add: frame_def host_frame_simps no_faults_def)
  have row: "job_of (lv_db c1) (Job_ID job) = Some row" using assms(5) by (simp add: jobs_frame(2)[OF jobs])
  obtain o' where m: "m = Some o'" "\<forall>res. o' = JobSucceeded res \<longrightarrow> pg_Jsonb (je_pg env) res \<noteq> None"
    using run_out(1) out assms(3) by (auto split: option.splits prod.splits sum.splits)
  note st = settled_row[where m = o' and pg = "je_pg env", OF nf row assms(6) m(2)]
  have db: "lv_db c' = settle_job (je_pg env) o' (Job_ID job) (lv_db c1)" "ct_world c' = ct_world c1" using eff(2) m(1) by auto
  have none: "c1 = c" if "creator (lv_db c) job = None" using run_out(1) out that by auto
  let ?ok = "\<exists>res. o' = JobSucceeded res"
  obtain row' where row': "job_of (lv_db c') (Job_ID job) = Some row'" "Job_ExecutedAt row' = Some (db_now (lv_db c))"
    "Job_ClaimedBy row' = None" "case o' of JobSucceeded res \<Rightarrow> Job_Status row' = AsyncJobStatus_SUCCEEDED
         \<and> pg_Jsonb (je_pg env) res = Some (Job_ResultPayload row') | JobFailed msg \<Rightarrow> Job_Status row' = AsyncJobStatus_FAILED"
    using st(1) now db(1) by (cases o') auto
  have ok: "?ok \<longleftrightarrow> (\<exists>u res msg c1. creator (lv_db c) job = Some u \<and> Dispatch con env c (Some u) job = (Inr (res, msg), c1)
                  \<and> pg_Jsonb (je_pg env) (MarshalResult res) = Some (Job_ResultPayload row'))"
    using run_out(1) out m(1) row'(4) by (auto split: option.splits prod.splits sum.splits)
  have rest: "db_sessions (settle_job pg o' i d) = db_sessions d \<and> db_hosts (settle_job pg o' i d) = db_hosts d" for pg i d
    using settle_job_cases[of pg o' i d] by (auto simp: update_jobs_def)
  show ?thesis
  proof (intro exI[of _ row'] exI[of _ ?ok] conjI allI ballI impI)
    show "Job_Status row' = (if ?ok then AsyncJobStatus_SUCCEEDED else AsyncJobStatus_FAILED)"
      using row'(4) by (auto split: job_outcome.splits)
    show "job_of (lv_db c') i = job_of (lv_db c) i" if "i \<noteq> Job_ID job" for i
      using st(2)[OF that] by (simp add: db(1) jobs_frame(2)[OF jobs])
    fix e assume e: "e \<in> set ev"
    show "Job_CreatedBy job = Some (Completed_User e)" "Completed_Level e = LEVEL_SUCCESS \<longleftrightarrow> ?ok"
      using run_out(2)[OF e] out m(1) by auto
  qed (use row' ok none db rest in auto)
qed

text \<open>A codec that carries a request through the database: what is read back is what was written.\<close>

definition carries :: "job_codec \<Rightarrow> pg_env \<Rightarrow> job_request \<Rightarrow> bool" where
  "carries cd pg r = (case cd_Marshal cd r of Inl _ \<Rightarrow> False | Inr t \<Rightarrow>
     (case pg_Jsonb pg t of None \<Rightarrow> False | Some p \<Rightarrow>
        (case r of
           StartHeadlessHostReq x \<Rightarrow> cd_UnmarshalStartHost cd p = Inr x
         | ShutdownHeadlessHostReq x \<Rightarrow> cd_UnmarshalShutdownHost cd p = Inr x
         | RestartHeadlessHostReq x \<Rightarrow> cd_UnmarshalRestartHost cd p = Inr x
         | StartWorldReq x \<Rightarrow> cd_UnmarshalStartWorld cd p = Inr x
         | StopSessionReq x \<Rightarrow> cd_UnmarshalStopSession cd p = Inr x)))"

lemma enqueue_nf:
  assumes "no_faults d" "job_of d (formatUUID newId) = None" "pg_Jsonb pg t = Some p"
  shows "\<exists>j d'. enqueue pg newId d ty t h s by_user = (Inr (formatUUID newId), d') \<and> job_of d' (formatUUID newId) = Some j
     \<and> Job_Status j = AsyncJobStatus_PENDING \<and> Job_Type j = ty \<and> Job_Payload j = p \<and> Job_CreatedBy j = by_user"
proof -
  have "\<not> tbl_exists (job_row (formatUUID newId)) (db_jobs d)"
    using assms(2) by (simp add: job_of_def tbl_exists_iff tbl_get_None_iff)
  then show ?thesis using assms
    by (simp add: enqueue_def AsyncJobRepository_Create_def q_CreateAsyncJob_def map_errS_def Let_def job_of_def tbl_get_append)
qed

lemma snd_bindS_pure: "snd (bindS m (\<lambda>x c. (Inr (f x), c))) = snd m"
  by (simp add: bindS_def split: prod.split sum.split)

text \<open>A row that waits for an executor and does, when dispatched, what \<open>op\<close> does to the state.\<close>

definition waits_for ::
  "'w HostConnector \<Rightarrow> job_env \<Rightarrow> 'w ctl \<Rightarrow> claims \<Rightarrow> string option \<Rightarrow> string \<Rightarrow> string res \<times> db \<Rightarrow> 'w ctl \<Rightarrow> bool" where
  "waits_for con env c caller by_user i r c' \<longleftrightarrow> (\<exists>j. fst r = Inr i \<and> job_of (snd r) i = Some j
     \<and> Job_Status j = AsyncJobStatus_PENDING \<and> Job_CreatedBy j = by_user \<and> snd (Dispatch con env c caller j) = c')"

text \<open>
  C26: what is enqueued is what is run. For every kind of request that the codec carries, enqueueing stores
  one PENDING row for the caller under the new id, and dispatching that row has the effect of calling the
  operation with the arguments of the request, in whatever state it is dispatched.
\<close>

theorem enqueue_dispatch:
  assumes nf: "no_faults d" "job_of d (formatUUID newId) = None"
    and carry: "carries (je_codec env) (je_pg env) (StopSessionReq sid)" "carries (je_codec env) (je_pg env) (ShutdownHeadlessHostReq hid)"
      "carries (je_codec env) (je_pg env) (RestartHeadlessHostReq restart)" "carries (je_codec env) (je_pg env) (StartWorldReq world)" "carries (je_codec env) (je_pg env) (StartHeadlessHostReq host)"
    and acc: "GetHeadlessAccount (lv_db c) (Shr_HeadlessAccountId host) = Inr account"
  shows "waits_for con env c caller u (formatUUID newId) (EnqueueStopSession (je_codec env) (je_pg env) newId d sid u) (snd (StopSession con c caller sid))
     \<and> waits_for con env c caller u (formatUUID newId) (EnqueueShutdownHost (je_codec env) (je_pg env) newId d hid u)
       (snd (HeadlessHostShutdown con c caller hid))
     \<and> waits_for con env c caller u (formatUUID newId) (EnqueueRestartHost (je_codec env) (je_pg env) newId d restart u)
       (snd (HeadlessHostRestart con c caller (Rhr_HostId restart)
          (if Rhr_WithUpdate restart then Some ''latestRelease''
           else if getter (Rhr_WithImageTag restart) \<noteq> [] then Rhr_WithImageTag restart else None)
          (Rhr_WithWorldRestart restart) (case Rhr_TimeoutSeconds restart of None \<Rightarrow> 600 | Some t \<Rightarrow> t)))
     \<and> waits_for con env c caller u (formatUUID newId) (EnqueueStartSession (je_codec env) (je_pg env) newId d world u)
       (snd (StartSession con (je_session env) c caller (Swr_HostId world) (getter (Swr_GroupId world)) u (Swr_Parameters world)
          (if Swr_Memo world = [] then None else Some (Swr_Memo world))))
     \<and> waits_for con env c caller u (formatUUID newId) (EnqueueStartHost (je_codec env) (je_pg env) newId d host u)
       (snd (HeadlessHostStart con (je_newHostId env) c caller
          \<lparr>Start_Name = Shr_Name host, Start_ContainerImageTag = getter (Shr_ImageTag host), Start_HeadlessAccount = account,
           Start_StartupConfig = Shr_StartupConfig host,
           Start_AutoUpdatePolicy = (case Shr_AutoUpdatePolicy host of None \<Rightarrow> HostAutoUpdatePolicy_UNSPECIFIED | Some p \<Rightarrow> p),
           Start_Memo = getter (Shr_Memo host),
           Start_GroupID = (if getter (Shr_GroupId host) = [] then Account_GroupID account else getter (Shr_GroupId host))\<rparr> u))"
proof -
  have put: "waits_for con env c caller u (formatUUID newId)
      (checkS (marshalPayload (je_codec env) r) d (\<lambda>t. enqueue (je_pg env) newId d ty t h s u)) c'"
    if "cd_Marshal (je_codec env) r = Inr t" "pg_Jsonb (je_pg env) t = Some p"
      and "\<And>j. Job_Type j = ty \<Longrightarrow> Job_Payload j = p \<Longrightarrow> Job_CreatedBy j = u \<Longrightarrow> snd (Dispatch con env c caller j) = c'"
    for r t p ty h s c'
    using enqueue_nf[OF nf that(2), of ty h s u] that by (fastforce simp: waits_for_def marshalPayload_def)
  show ?thesis
  proof (intro conjI, goal_cases)
    case 1
    then show ?case using carry(1) unfolding EnqueueStopSession_def
      by (auto simp: carries_def Dispatch_def dispatch_stopSession_def snd_bindS_pure split: sum.splits option.splits intro!: put)
  next
    case 2
    then show ?case using carry(2) unfolding EnqueueShutdownHost_def
      by (auto simp: carries_def Dispatch_def dispatch_shutdownHost_def snd_bindS_pure split: sum.splits option.splits intro!: put)
  next
    case 3
    then show ?case using carry(3) unfolding EnqueueRestartHost_def
      by (auto simp: carries_def Dispatch_def dispatch_restartHost_def snd_bindS_pure Let_def getter_def
          defaultRestartTimeoutSeconds_def split: sum.splits option.splits intro!: put)
  next
    case 4
    then show ?case using carry(4) unfolding EnqueueStartSession_def
      by (auto simp: carries_def Dispatch_def dispatch_startSession_def snd_bindS_pure Let_def split: sum.splits option.splits intro!: put)
  next
    case 5
    then show ?case using carry(5) acc unfolding EnqueueStartHost_def
      by (auto simp: carries_def Dispatch_def dispatch_startHost_def snd_bindS_pure Let_def split: sum.splits option.splits intro!: put)
  qed
qed

section \<open>Instances\<close>

definition plain_pg :: pg_env where
  "plain_pg = \<lparr>pg_Scan = Some, pg_Jsonb = Some\<rparr>"

definition sample_restart :: RestartHeadlessHostRequest where
  "sample_restart = \<lparr>Rhr_HostId = ''h1'', Rhr_WithUpdate = True, Rhr_WithImageTag = None, Rhr_WithWorldRestart = True,
     Rhr_TimeoutSeconds = None\<rparr>"

definition sample_world :: StartWorldRequest where
  "sample_world = \<lparr>Swr_HostId = ''h1'', Swr_Parameters = None, Swr_Memo = [], Swr_GroupId = None\<rparr>"

definition sample_start :: StartHeadlessHostRequest where
  "sample_start = \<lparr>Shr_Name = ''new'', Shr_HeadlessAccountId = ''U-acc'', Shr_ImageTag = None, Shr_StartupConfig = None,
     Shr_AutoUpdatePolicy = None, Shr_Memo = None, Shr_GroupId = None\<rparr>"

definition plain_codec :: job_codec where
  "plain_codec = \<lparr>cd_Marshal = (\<lambda>r. Inr (case r of StopSessionReq s \<Rightarrow> s | ShutdownHeadlessHostReq s \<Rightarrow> s | _ \<Rightarrow> ''{}'')),
     cd_UnmarshalStartHost = (\<lambda>_. Inr sample_start), cd_UnmarshalShutdownHost = Inr,
     cd_UnmarshalRestartHost = (\<lambda>_. Inr sample_restart), cd_UnmarshalStartWorld = (\<lambda>_. Inr sample_world),
     cd_UnmarshalStopSession = Inr\<rparr>"

definition plain_env :: job_env where
  "plain_env = \<lparr>je_pg = plain_pg, je_codec = plain_codec,
     je_session = \<lparr>env_IsHostDraining = (\<lambda>_. False), env_isPortAvailable = (\<lambda>_. True), env_nano = 0, env_portMin = 0, env_portMax = 0\<rparr>,
     je_newHostId = ''h9'', je_errText = (\<lambda>_. ''error'')\<rparr>"

definition sample_uuid :: "8 word list" where
  "sample_uuid = replicate 16 0"

definition sample_job :: AsyncJob where
  "sample_job = \<lparr>Job_ID = formatUUID sample_uuid, Job_Type = AsyncJobType_STOP_SESSION, Job_Payload = ''s1'',
     Job_Status = AsyncJobStatus_PENDING, Job_ResultPayload = [], Job_LastError = None, Job_ClaimedBy = None, Job_ClaimedAt = None,
     Job_ExecutedAt = None, Job_HostID = None, Job_SessionID = Some ''s1'', Job_CreatedBy = Some SystemUserID, Job_CreatedAt = 0\<rparr>"

definition job_ctl :: "AsyncJob list \<Rightarrow> string set ctl" where
  "job_ctl js = host_ctl\<lparr>lv_db := (lv_db host_ctl)\<lparr>db_jobs := js\<rparr>\<rparr>"

text \<open>An executor with the default settings.\<close>

definition default_executor :: "string \<Rightarrow> AsyncJobExecutor" where
  "default_executor w = NewAsyncJobExecutor None \<lparr>exec_instanceID = w, exec_tickInterval = 0, exec_staleAfter = 0,
     exec_staleSweepEvry = 0, exec_batchSize = 0, exec_concurrency = 0, exec_actionTimeout = 0\<rparr>"

lemma plain_pg_lawful: "lawful_scan plain_pg"
  by (simp add: lawful_scan_def plain_pg_def)

lemma job_ctl_ok:
  "no_faults (lv_db (job_ctl js))" "Job_ID ` set js \<subseteq> {formatUUID sample_uuid} \<Longrightarrow> distinct (map Job_ID js) \<Longrightarrow> jobs_table_ok (lv_db (job_ctl js))"
  using host_ctl_ok(1) by (auto simp: job_ctl_def no_faults_def jobs_table_ok_def jobs_ok_def sample_uuid_def intro!: exI[of _ "replicate 16 0"])

lemma default_executor_simps [simp]:
  "exec_instanceID (default_executor (x # w)) = x # w" "exec_staleAfter (default_executor w) = 30 * Minute"
  "exec_batchSize (default_executor w) = 8" "exec_concurrency (default_executor w) = 4"
  "exec_actionTimeout (default_executor w) = 20 * Minute"
  by (simp_all add: default_executor_def NewAsyncJobExecutor_def)



theorem job_exclusive_witness:
  "\<exists>c F. F \<noteq> [] \<and> distinct (map (\<lambda>f. Job_ID (snd f)) F)
     \<and> (\<lambda>s t. job_step set_runtime plain_pg (30 * Minute) s t \<and> timely (30 * Minute) s)\<^sup>*\<^sup>* (job_ctl [sample_job], []) (c, F)"
proof -
  let ?A = "default_executor ''A''" and ?c0 = "job_ctl [sample_job]"
  have "map Job_ID (fst (job_dispatchOnce ?A ?c0)) = [formatUUID sample_uuid]" by code_simp
  then obtain j where j: "fst (job_dispatchOnce ?A ?c0) = [j]" by auto
  have "job_step set_runtime plain_pg (30 * Minute) (?c0, []) (snd (job_dispatchOnce ?A ?c0), [] @ map (Pair (exec_instanceID ?A)) [j])"
    by (rule job_step.claim) (simp add: prod_eq_iff j)
  then have run: "(\<lambda>s t. job_step set_runtime plain_pg (30 * Minute) s t \<and> timely (30 * Minute) s)\<^sup>*\<^sup>* (?c0, [])
      (snd (job_dispatchOnce ?A ?c0), [(''A'', j)])"
    by (auto simp: timely_def intro: r_into_rtranclp)
  have "jobs_table_ok (lv_db ?c0)" by (rule job_ctl_ok(2)) (simp_all add: sample_job_def)
  then show ?thesis using job_exclusive[OF plain_pg_lawful _ _ run] run by (intro exI conjI) (auto simp: in32_def)
qed

definition done_job :: AsyncJob where
  "done_job = sample_job\<lparr>Job_Status := AsyncJobStatus_FAILED, Job_LastError := Some ''x''\<rparr>"

theorem job_results_final_witness:
  "job_of (lv_db (job_sweep (default_executor ''A'') (job_ctl [done_job]))) (Job_ID done_job) = Some done_job"
proof -
  let ?A = "default_executor ''A''" and ?c0 = "job_ctl [done_job]"
  have ok: "jobs_table_ok (lv_db ?c0)" by (rule job_ctl_ok(2)) (simp_all add: done_job_def sample_job_def)
  have fin: "job_finished (lv_db ?c0) done_job" by (simp add: job_finished_def job_ctl_def done_job_def)
  have run: "(job_step set_runtime plain_pg (30 * Minute))\<^sup>*\<^sup>* (?c0, []) (job_sweep ?A ?c0, [])"
    by (intro r_into_rtranclp job_step.sweep) simp
  have "in32 (30 * Minute div Second)" by (simp add: in32_def)
  then show ?thesis by (rule job_results_final[OF _ ok fin run])
qed

definition held_job :: AsyncJob where
  "held_job = claim_job ''A'' 0 sample_job"

theorem executeOne_settles_witness:
  "\<exists>ev c' row. job_executeOne set_runtime plain_env (job_ctl [held_job]) held_job = (ev, c')
     \<and> job_of (lv_db c') (Job_ID held_job) = Some row \<and> Job_Status row = AsyncJobStatus_FAILED"
proof -
  let ?c = "job_ctl [held_job]"
  obtain ev c' where run: "job_executeOne set_runtime plain_env ?c held_job = (ev, c')" by force
  have ok: "jobs_table_ok (lv_db ?c)" by (rule job_ctl_ok(2)) (simp_all add: held_job_def sample_job_def)
  have js: "\<forall>r. pg_Jsonb (je_pg plain_env) (MarshalResult r) \<noteq> None" by (simp add: plain_env_def plain_pg_def)
  have sc: "lawful_scan (je_pg plain_env)" using plain_pg_lawful by (simp add: plain_env_def)
  have row: "job_of (lv_db ?c) (Job_ID held_job) = Some held_job" by (simp add: job_of_def job_ctl_def)
  have st: "Job_Status held_job = AsyncJobStatus_RUNNING" by (simp add: held_job_def)
  have "\<not> isl (fst (Dispatch set_runtime plain_env ?c (Some SystemUserID) held_job)) \<longleftrightarrow> False" by code_simp
  then have no: "\<not> (\<exists>u res msg c1. creator (lv_db ?c) held_job = Some u \<and> Dispatch set_runtime plain_env ?c (Some u) held_job = (Inr (res, msg), c1)
                  \<and> P res)" for P
    by (auto simp: creator_def held_job_def sample_job_def split: if_splits)
  obtain row' good where r: "job_of (lv_db c') (Job_ID held_job) = Some row'"
    "Job_Status row' = (if good then AsyncJobStatus_SUCCEEDED else AsyncJobStatus_FAILED)"
    "good \<longleftrightarrow> (\<exists>u res msg c1. creator (lv_db ?c) held_job = Some u \<and> Dispatch set_runtime plain_env ?c (Some u) held_job = (Inr (res, msg), c1)
                  \<and> pg_Jsonb (je_pg plain_env) (MarshalResult res) = Some (Job_ResultPayload row'))"
    using executeOne_settles[OF job_ctl_ok(1) sc js ok row st run] by blast
  have "\<not> good" unfolding r(3) by (rule no)
  then show ?thesis using run r(1,2) by auto
qed

theorem enqueue_dispatch_witness:
  "waits_for set_runtime plain_env (job_ctl []) (Some SystemUserID) None (formatUUID sample_uuid)
     (EnqueueStopSession plain_codec plain_pg sample_uuid (lv_db (job_ctl [])) ''s1'' None)
     (snd (StopSession set_runtime (job_ctl []) (Some SystemUserID) ''s1''))"
proof -
  have env: "je_codec plain_env = plain_codec" "je_pg plain_env = plain_pg" by (simp_all add: plain_env_def)
  have c: "carries plain_codec plain_pg (StopSessionReq ''s1'')" "carries plain_codec plain_pg (ShutdownHeadlessHostReq ''h1'')"
    "carries plain_codec plain_pg (RestartHeadlessHostReq sample_restart)" "carries plain_codec plain_pg (StartWorldReq sample_world)"
    "carries plain_codec plain_pg (StartHeadlessHostReq sample_start)"
    by (simp_all add: carries_def plain_codec_def plain_pg_def)
  have free: "job_of (lv_db (job_ctl [])) (formatUUID sample_uuid) = None" by (simp add: job_of_def job_ctl_def)
  have acc: "GetHeadlessAccount (lv_db (job_ctl [])) (Shr_HeadlessAccountId sample_start) = Inr sample_account" by code_simp
  show ?thesis
    using enqueue_dispatch[where env = plain_env, unfolded env, OF job_ctl_ok(1) free c acc, of set_runtime "Some SystemUserID" None]
    by (rule conjunct1)
qed

end
