(* ===== verification/ScheduledOps.thy ===== *)
theory ScheduledOps
  imports JobExecutor
begin

text \<open>
  Scheduled session operations: the queries (\<open>db/scheduled_session_operations.sql.go\<close>), the repository
  (\<open>adapter/scheduled_session_operation_repository.go\<close>), the triggers and actions
  (\<open>usecase/scheduled_op\<close>) and the usecase (\<open>usecase/scheduled_session_operation_usecase.go\<close>). The JSON
  texts of actions, triggers and protobuf messages are written and read by a codec that is an argument
  of the model; the checks the decoders make on what they read are modelled. The zero time of Go is
  \<open>None\<close>. The registries of triggers and actions, which the packages fill when they are loaded, are the
  case distinctions of \<open>DecodeTrigger\<close> and \<open>DecodeAction\<close>.
\<close>

section \<open>Queries\<close>

abbreviation op_row :: "string \<Rightarrow> ScheduledSessionOperation \<Rightarrow> bool" where
  "op_row i \<equiv> \<lambda>p. Op_ID p = i"

definition op_of :: "db \<Rightarrow> string \<Rightarrow> ScheduledSessionOperation option" where
  "op_of d i = tbl_get (op_row i) (db_ops d)"

definition update_ops ::
  "(ScheduledSessionOperation \<Rightarrow> bool) \<Rightarrow> (ScheduledSessionOperation \<Rightarrow> ScheduledSessionOperation) \<Rightarrow> db \<Rightarrow> db" where
  "update_ops p f d = d\<lparr>db_ops := tbl_update p f (db_ops d)\<rparr>"

text \<open>The statements of the form \<open>UPDATE ... WHERE id = $1 AND status = ...\<close>, which report how many rows they hit.\<close>

definition op_in :: "string \<Rightarrow> ScheduledOperationStatus \<Rightarrow> ScheduledSessionOperation \<Rightarrow> bool" where
  "op_in i st p \<longleftrightarrow> Op_ID p = i \<and> Op_Status p = st"

definition update_op_in ::
  "string \<Rightarrow> string \<Rightarrow> ScheduledOperationStatus \<Rightarrow> (ScheduledSessionOperation \<Rightarrow> ScheduledSessionOperation) \<Rightarrow> db \<Rightarrow> nat res \<times> db" where
  "update_op_in q i st f d = writeQ d q [i] (Inr (length (filter (op_in i st) (db_ops d))), update_ops (op_in i st) f d)"

definition q_CancelScheduledSessionOperation :: "db \<Rightarrow> string \<Rightarrow> nat res \<times> db" where
  "q_CancelScheduledSessionOperation d i =
     update_op_in ''CancelScheduledSessionOperation'' i ScheduledOperationStatus_PENDING
       (\<lambda>p. p\<lparr>Op_Status := ScheduledOperationStatus_CANCELED\<rparr>) d"

definition due_ops :: "db \<Rightarrow> int32 \<Rightarrow> ScheduledSessionOperation list" where
  "due_ops d batchSize = take (nat batchSize) (sort_key Op_NextFireAt
     (filter (\<lambda>p. Op_Status p = ScheduledOperationStatus_PENDING \<and> Op_NextFireAt p \<le> db_now d) (db_ops d)))"

definition claim_op :: "string \<Rightarrow> time \<Rightarrow> ScheduledSessionOperation \<Rightarrow> ScheduledSessionOperation" where
  "claim_op instanceID t p =
     p\<lparr>Op_Status := ScheduledOperationStatus_RUNNING, Op_ClaimedBy := Some instanceID, Op_ClaimedAt := Some t\<rparr>"

definition q_ClaimDueScheduledSessionOperations ::
  "db \<Rightarrow> string \<Rightarrow> int32 \<Rightarrow> ScheduledSessionOperation list res \<times> db" where
  "q_ClaimDueScheduledSessionOperations d instanceID batchSize = writeQ d ''ClaimDueScheduledSessionOperations'' [instanceID]
     (if batchSize < 0 then (Inl ErrDB, d)
      else let hit = (\<lambda>p. Op_ID p \<in> set (map Op_ID (due_ops d batchSize)))
           in (Inr (map (claim_op instanceID (db_now d)) (filter hit (db_ops d))),
               update_ops hit (claim_op instanceID (db_now d)) d))"

record ScheduledSessionOperationCreateParams =
  OpCreate_OperationType :: ScheduledOperationType
  OpCreate_OperationPayload :: string
  OpCreate_TriggerType :: ScheduledTriggerType
  OpCreate_TriggerConfig :: string
  OpCreate_NextFireAt :: time
  OpCreate_HostID :: "string option"
  OpCreate_SessionID :: "string option"
  OpCreate_CreatedBy :: "string option"

definition q_CreateScheduledSessionOperation ::
  "pg_env \<Rightarrow> 8 word list \<Rightarrow> db \<Rightarrow> ScheduledSessionOperationCreateParams \<Rightarrow> ScheduledSessionOperation res \<times> db" where
  "q_CreateScheduledSessionOperation pg newId d arg = writeQ d ''CreateScheduledSessionOperation'' []
     (case (pg_Jsonb pg (OpCreate_OperationPayload arg), pg_Jsonb pg (OpCreate_TriggerConfig arg)) of
        (Some payload, Some config) \<Rightarrow>
          if tbl_exists (op_row (formatUUID newId)) (db_ops d) then (Inl ErrDB, d)
          else let p = \<lparr>Op_ID = formatUUID newId, Op_OperationType = OpCreate_OperationType arg, Op_OperationPayload = payload,
                        Op_TriggerType = OpCreate_TriggerType arg, Op_TriggerConfig = config,
                        Op_NextFireAt = OpCreate_NextFireAt arg, Op_HostID = OpCreate_HostID arg,
                        Op_SessionID = OpCreate_SessionID arg, Op_Status = ScheduledOperationStatus_PENDING,
                        Op_LastError = None, Op_ClaimedBy = None, Op_ClaimedAt = None, Op_ExecutedAt = None,
                        Op_CreatedBy = OpCreate_CreatedBy arg, Op_CreatedAt = db_now d\<rparr>
               in (Inr p, d\<lparr>db_ops := db_ops d @ [p]\<rparr>)
      | _ \<Rightarrow> (Inl ErrDB, d))"

definition q_GetScheduledSessionOperation :: "db \<Rightarrow> string \<Rightarrow> ScheduledSessionOperation res" where
  "q_GetScheduledSessionOperation d i = readQ d ''GetScheduledSessionOperation'' [i]
     (case op_of d i of None \<Rightarrow> Inl ErrNoRows | Some p \<Rightarrow> Inr p)"

definition op_order :: "ScheduledSessionOperation \<Rightarrow> int \<times> string" where
  "op_order p = (Op_NextFireAt p, Op_ID p)"

definition op_matches :: "string option \<Rightarrow> string option \<Rightarrow> ScheduledOperationStatus option \<Rightarrow> ScheduledSessionOperation \<Rightarrow> bool" where
  "op_matches sid hid st p \<longleftrightarrow> (sid = None \<or> Op_SessionID p = sid) \<and> (hid = None \<or> Op_HostID p = hid)
     \<and> (case st of None \<Rightarrow> True | Some s \<Rightarrow> Op_Status p = s)"

definition q_ListScheduledSessionOperations ::
  "db \<Rightarrow> string option \<Rightarrow> string option \<Rightarrow> ScheduledOperationStatus option \<Rightarrow> int32 \<Rightarrow> int32
     \<Rightarrow> (ScheduledSessionOperation \<times> nat) list res" where
  "q_ListScheduledSessionOperations d sid hid st pageOffset pageSize = readQ d ''ListScheduledSessionOperations'' []
     (if pageOffset < 0 \<or> pageSize < 0 then Inl ErrDB
      else let rows = filter (op_matches sid hid st) (db_ops d) in
           Inr (map (\<lambda>p. (p, length rows)) (take (nat pageSize) (drop (nat pageOffset) (sort_key op_order rows)))))"

definition q_MarkScheduledSessionOperationFailed :: "db \<Rightarrow> string \<Rightarrow> string \<Rightarrow> nat res \<times> db" where
  "q_MarkScheduledSessionOperationFailed d i msg =
     update_op_in ''MarkScheduledSessionOperationFailed'' i ScheduledOperationStatus_RUNNING
       (\<lambda>p. p\<lparr>Op_Status := ScheduledOperationStatus_FAILED, Op_ExecutedAt := Some (db_now d), Op_LastError := Some msg,
               Op_ClaimedBy := None, Op_ClaimedAt := None\<rparr>) d"

definition q_MarkScheduledSessionOperationSucceeded :: "db \<Rightarrow> string \<Rightarrow> nat res \<times> db" where
  "q_MarkScheduledSessionOperationSucceeded d i =
     update_op_in ''MarkScheduledSessionOperationSucceeded'' i ScheduledOperationStatus_RUNNING
       (\<lambda>p. p\<lparr>Op_Status := ScheduledOperationStatus_SUCCEEDED, Op_ExecutedAt := Some (db_now d), Op_LastError := None,
               Op_ClaimedBy := None, Op_ClaimedAt := None\<rparr>) d"

definition stale_op :: "time \<Rightarrow> ScheduledSessionOperation \<Rightarrow> bool" where
  "stale_op before p \<longleftrightarrow> Op_Status p = ScheduledOperationStatus_RUNNING \<and>
     (case Op_ClaimedAt p of None \<Rightarrow> False | Some t \<Rightarrow> t < before)"

definition q_ReleaseStaleScheduledSessionOperationClaims :: "db \<Rightarrow> int32 \<Rightarrow> nat res \<times> db" where
  "q_ReleaseStaleScheduledSessionOperationClaims d staleAfterSeconds = writeQ d ''ReleaseStaleScheduledSessionOperationClaims'' []
     (let hit = stale_op (db_now d - staleAfterSeconds * Second)
      in (Inr (length (filter hit (db_ops d))),
          update_ops hit (\<lambda>p. p\<lparr>Op_Status := ScheduledOperationStatus_PENDING, Op_ClaimedBy := None, Op_ClaimedAt := None\<rparr>) d))"

definition q_RequeueScheduledSessionOperation :: "db \<Rightarrow> string \<Rightarrow> time \<Rightarrow> nat res \<times> db" where
  "q_RequeueScheduledSessionOperation d i nextFireAt =
     update_op_in ''RequeueScheduledSessionOperation'' i ScheduledOperationStatus_RUNNING
       (\<lambda>p. p\<lparr>Op_Status := ScheduledOperationStatus_PENDING, Op_NextFireAt := nextFireAt, Op_ClaimedBy := None,
               Op_ClaimedAt := None\<rparr>) d"

section \<open>The repository\<close>

definition OpRepository_Create ::
  "pg_env \<Rightarrow> 8 word list \<Rightarrow> db \<Rightarrow> ScheduledSessionOperationCreateParams \<Rightarrow> ScheduledSessionOperation res \<times> db" where
  "OpRepository_Create pg newId d params = map_errS convertDBErr (q_CreateScheduledSessionOperation pg newId d params)"

definition OpRepository_Get :: "pg_env \<Rightarrow> db \<Rightarrow> string \<Rightarrow> ScheduledSessionOperation res" where
  "OpRepository_Get pg d i = bindR (parseUUID pg i) (\<lambda>uid. map_err convertDBErr (q_GetScheduledSessionOperation d uid))"

record ScheduledSessionOperationListFilter =
  OpFilter_SessionID :: "string option"
  OpFilter_HostID :: "string option"
  OpFilter_Status :: "ScheduledOperationStatus option"
  OpFilter_PageIndex :: int32
  OpFilter_PageSize :: int32
  OpFilter_GroupID :: "string option"

record ScheduledSessionOperationListResult =
  OpList_Items :: "ScheduledSessionOperation list"
  OpList_TotalCount :: int32

definition OpRepository_List ::
  "db \<Rightarrow> ScheduledSessionOperationListFilter \<Rightarrow> ScheduledSessionOperationListResult res" where
  "OpRepository_List d flt =
     (let pageSize = (if OpFilter_PageSize flt \<le> 0 then 100 else OpFilter_PageSize flt) in
      bindR (map_err convertDBErr (q_ListScheduledSessionOperations d (OpFilter_SessionID flt) (OpFilter_HostID flt)
               (OpFilter_Status flt) (wrap32 (OpFilter_PageIndex flt * pageSize)) pageSize)) (\<lambda>rows.
      Inr \<lparr>OpList_Items = map fst rows, OpList_TotalCount = (case rows of [] \<Rightarrow> 0 | r # _ \<Rightarrow> wrap32 (int (snd r)))\<rparr>))"

definition OpRepository_ClaimDue :: "db \<Rightarrow> string \<Rightarrow> int32 \<Rightarrow> ScheduledSessionOperation list res \<times> db" where
  "OpRepository_ClaimDue d instanceID batchSize = map_errS convertDBErr (q_ClaimDueScheduledSessionOperations d instanceID batchSize)"

definition OpRepository_ReleaseStaleClaims :: "db \<Rightarrow> time \<Rightarrow> nat res \<times> db" where
  "OpRepository_ReleaseStaleClaims d staleAfter =
     map_errS convertDBErr (q_ReleaseStaleScheduledSessionOperationClaims d (wrap32 (staleAfter div Second)))"

definition done_unit :: "'a res \<times> 's \<Rightarrow> unit res \<times> 's" where
  "done_unit r = bindS (map_errS convertDBErr r) (\<lambda>_ d. (Inr (), d))"

definition OpRepository_MarkSucceeded :: "pg_env \<Rightarrow> db \<Rightarrow> string \<Rightarrow> unit res \<times> db" where
  "OpRepository_MarkSucceeded pg d i =
     checkS (parseUUID pg i) d (\<lambda>uid. done_unit (q_MarkScheduledSessionOperationSucceeded d uid))"

definition OpRepository_MarkFailed :: "pg_env \<Rightarrow> db \<Rightarrow> string \<Rightarrow> string \<Rightarrow> unit res \<times> db" where
  "OpRepository_MarkFailed pg d i errMessage =
     checkS (parseUUID pg i) d (\<lambda>uid. done_unit (q_MarkScheduledSessionOperationFailed d uid errMessage))"

definition OpRepository_Requeue :: "pg_env \<Rightarrow> db \<Rightarrow> string \<Rightarrow> time \<Rightarrow> unit res \<times> db" where
  "OpRepository_Requeue pg d i nextFireAt =
     checkS (parseUUID pg i) d (\<lambda>uid. done_unit (q_RequeueScheduledSessionOperation d uid nextFireAt))"

definition OpRepository_Cancel :: "pg_env \<Rightarrow> db \<Rightarrow> string \<Rightarrow> bool res \<times> db" where
  "OpRepository_Cancel pg d i =
     checkS (parseUUID pg i) d (\<lambda>uid.
     bindS (map_errS convertDBErr (q_CancelScheduledSessionOperation d uid)) (\<lambda>rows d. (Inr (0 < rows), d)))"

section \<open>Triggers\<close>

datatype SessionUserCountComparator =
    SessionUserCountComparator_LESS_OR_EQUAL | SessionUserCountComparator_GREATER_OR_EQUAL | SessionUserCountComparator_Other int32

record SessionUserCountTrigger =
  Suc_SessionID :: string
  Suc_Comparator :: SessionUserCountComparator
  Suc_Threshold :: int32

datatype Trigger = TimeTrigger "time option" | UserCountTrigger SessionUserCountTrigger

fun Trigger_Type :: "Trigger \<Rightarrow> ScheduledTriggerType" where
  "Trigger_Type (TimeTrigger _) = ScheduledTriggerType_TIME"
| "Trigger_Type (UserCountTrigger _) = ScheduledTriggerType_SESSION_USER_COUNT"

text \<open>
  What \<open>Evaluate\<close> gets: the clock, and, when an executor calls it, the cache and the session repository.
  The result is whether the trigger is ready and when to look again.
\<close>

definition TimeTrigger_Evaluate :: "time \<Rightarrow> time option \<Rightarrow> (bool \<times> time option) res" where
  "TimeTrigger_Evaluate now scheduledAt =
     (case scheduledAt of
        Some t \<Rightarrow> if now < t then Inr (False, Some t) else Inr (True, None)
      | None \<Rightarrow> Inr (True, None))"

definition sessionUserCountMissBackoff :: time where
  "sessionUserCountMissBackoff = Minute"

definition SessionUserCountTrigger_Evaluate ::
  "time \<Rightarrow> (MemoryCache \<times> db) option \<Rightarrow> SessionUserCountTrigger \<Rightarrow> (bool \<times> time option) res" where
  "SessionUserCountTrigger_Evaluate now deps t =
     (case deps of
        None \<Rightarrow> Inr (False, None)
      | Some (cache, d) \<Rightarrow>
          (case Cache_Get cache (Suc_SessionID t) of
             None \<Rightarrow>
               (case SessionRepository_Get d (Suc_SessionID t) of
                  Inr s \<Rightarrow> if Session_Status s = SessionStatus_ENDED
                           then Inl (ErrMsg ''session has ended; trigger will never fire'')
                           else Inr (False, Some (now + sessionUserCountMissBackoff))
                | Inl _ \<Rightarrow> Inr (False, Some (now + sessionUserCountMissBackoff)))
           | Some snapshot \<Rightarrow>
               (case Suc_Comparator t of
                  SessionUserCountComparator_LESS_OR_EQUAL \<Rightarrow>
                    Inr (Snap_UsersCount snapshot \<le> Suc_Threshold t, None)
                | SessionUserCountComparator_GREATER_OR_EQUAL \<Rightarrow>
                    Inr (Suc_Threshold t \<le> Snap_UsersCount snapshot, None)
                | SessionUserCountComparator_Other _ \<Rightarrow>
                    Inl (ErrMsg ''session_user_count trigger: invalid comparator''))))"

fun Trigger_Evaluate :: "time \<Rightarrow> (MemoryCache \<times> db) option \<Rightarrow> Trigger \<Rightarrow> (bool \<times> time option) res" where
  "Trigger_Evaluate now deps (TimeTrigger at) = TimeTrigger_Evaluate now at"
| "Trigger_Evaluate now deps (UserCountTrigger t) = SessionUserCountTrigger_Evaluate now deps t"

section \<open>Actions\<close>

record StartSessionAction =
  Ssa_HostID :: string
  Ssa_GroupID :: string
  Ssa_UserID :: "string option"
  Ssa_Memo :: "string option"
  Ssa_StartupParamsJSON :: string

datatype Action =
    StartAction StartSessionAction
  | StopAction string
  | UpdateParametersAction string string
  | UpdateExtraSettingsAction string "bool option" "string option"

fun Action_Type :: "Action \<Rightarrow> ScheduledOperationType" where
  "Action_Type (StartAction _) = ScheduledOperationType_START_SESSION"
| "Action_Type (StopAction _) = ScheduledOperationType_STOP_SESSION"
| "Action_Type (UpdateParametersAction _ _) = ScheduledOperationType_UPDATE_PARAMETERS"
| "Action_Type (UpdateExtraSettingsAction _ _ _) = ScheduledOperationType_UPDATE_EXTRA_SETTINGS"

text \<open>The codec: \<open>encoding/json\<close> for actions and triggers, \<open>protojson\<close> for the messages inside them.\<close>

record op_codec =
  oc_MarshalAction :: "Action \<Rightarrow> string res"
  oc_MarshalTrigger :: "Trigger \<Rightarrow> string res"
  oc_UnmarshalStart :: "string \<Rightarrow> StartSessionAction res"
  oc_UnmarshalStop :: "string \<Rightarrow> string res"
  oc_UnmarshalUpdateParameters :: "string \<Rightarrow> (string \<times> string) res"
  oc_UnmarshalUpdateExtra :: "string \<Rightarrow> (string \<times> bool option \<times> string option) res"
  oc_UnmarshalTime :: "string \<Rightarrow> time option res"
  oc_UnmarshalUserCount :: "string \<Rightarrow> SessionUserCountTrigger res"
  oc_StartupParameters :: "string \<Rightarrow> WorldStartupParameters res"
  oc_UpdateRequest :: "string \<Rightarrow> UpdateSessionParametersRequest res"

definition decodeTimeTrigger :: "op_codec \<Rightarrow> string \<Rightarrow> Trigger res" where
  "decodeTimeTrigger oc cfg =
     bindR (oc_UnmarshalTime oc cfg) (\<lambda>at.
     if at = None then Inl (ErrMsg ''time trigger: scheduled_at is required'') else Inr (TimeTrigger at))"

definition decodeSessionUserCountTrigger :: "op_codec \<Rightarrow> string \<Rightarrow> Trigger res" where
  "decodeSessionUserCountTrigger oc cfg =
     bindR (oc_UnmarshalUserCount oc cfg) (\<lambda>t.
     if Suc_SessionID t = [] then Inl (ErrMsg ''session_user_count trigger: session_id is required'')
     else case Suc_Comparator t of
            SessionUserCountComparator_Other _ \<Rightarrow> Inl (ErrMsg ''session_user_count trigger: invalid comparator'')
          | _ \<Rightarrow> if Suc_Threshold t < 0 then Inl (ErrMsg ''session_user_count trigger: threshold must be >= 0'')
                 else Inr (UserCountTrigger t))"

fun DecodeTrigger :: "op_codec \<Rightarrow> ScheduledTriggerType \<Rightarrow> string \<Rightarrow> Trigger res" where
  "DecodeTrigger oc ScheduledTriggerType_TIME cfg = decodeTimeTrigger oc cfg"
| "DecodeTrigger oc ScheduledTriggerType_SESSION_USER_COUNT cfg = decodeSessionUserCountTrigger oc cfg"
| "DecodeTrigger oc _ cfg = Inl (ErrMsg ''unknown trigger type'')"

definition decodeStartSession :: "op_codec \<Rightarrow> string \<Rightarrow> Action res" where
  "decodeStartSession oc payload =
     bindR (oc_UnmarshalStart oc payload) (\<lambda>a.
     if Ssa_HostID a = [] then Inl (ErrMsg ''start session action: host_id is required'') else Inr (StartAction a))"

definition decodeStopSession :: "op_codec \<Rightarrow> string \<Rightarrow> Action res" where
  "decodeStopSession oc payload =
     bindR (oc_UnmarshalStop oc payload) (\<lambda>sid.
     if sid = [] then Inl (ErrMsg ''stop session action: session_id is required'') else Inr (StopAction sid))"

definition decodeUpdateParameters :: "op_codec \<Rightarrow> string \<Rightarrow> Action res" where
  "decodeUpdateParameters oc payload =
     bindR (oc_UnmarshalUpdateParameters oc payload) (\<lambda>(sid, params).
     if sid = [] then Inl (ErrMsg ''update parameters action: session_id is required'')
     else Inr (UpdateParametersAction sid params))"

definition decodeUpdateExtra :: "op_codec \<Rightarrow> string \<Rightarrow> Action res" where
  "decodeUpdateExtra oc payload =
     bindR (oc_UnmarshalUpdateExtra oc payload) (\<lambda>(sid, autoUpgrade, memo).
     if sid = [] then Inl (ErrMsg ''update extra settings action: session_id is required'')
     else if autoUpgrade = None \<and> memo = None
       then Inl (ErrMsg ''update extra settings action: at least one field is required'')
     else Inr (UpdateExtraSettingsAction sid autoUpgrade memo))"

fun DecodeAction :: "op_codec \<Rightarrow> ScheduledOperationType \<Rightarrow> string \<Rightarrow> Action res" where
  "DecodeAction oc ScheduledOperationType_START_SESSION payload = decodeStartSession oc payload"
| "DecodeAction oc ScheduledOperationType_STOP_SESSION payload = decodeStopSession oc payload"
| "DecodeAction oc ScheduledOperationType_UPDATE_PARAMETERS payload = decodeUpdateParameters oc payload"
| "DecodeAction oc ScheduledOperationType_UPDATE_EXTRA_SETTINGS payload = decodeUpdateExtra oc payload"
| "DecodeAction oc _ payload = Inl (ErrMsg ''unknown action type'')"

definition StartSessionAction_Execute ::
  "'w HostConnector \<Rightarrow> session_env \<Rightarrow> op_codec \<Rightarrow> 'w ctl \<Rightarrow> claims \<Rightarrow> StartSessionAction \<Rightarrow> unit res \<times> 'w ctl" where
  "StartSessionAction_Execute con env oc c caller a =
     checkS (if Ssa_StartupParamsJSON a = [] then Inr empty_parameters
             else oc_StartupParameters oc (Ssa_StartupParamsJSON a)) c (\<lambda>params.
     bindS (StartSession con env c caller (Ssa_HostID a) (Ssa_GroupID a) (Ssa_UserID a) (Some params) (Ssa_Memo a)) (\<lambda>_ c.
     (Inr (), c)))"

definition UpdateParametersAction_Execute ::
  "'w HostConnector \<Rightarrow> op_codec \<Rightarrow> 'w ctl \<Rightarrow> claims \<Rightarrow> string \<Rightarrow> string \<Rightarrow> unit res \<times> 'w ctl" where
  "UpdateParametersAction_Execute con oc c caller sid params =
     checkS (oc_UpdateRequest oc params) c (\<lambda>req.
     UpdateSessionParameters con c caller sid (req\<lparr>Usp_SessionId := sid\<rparr>))"

fun Action_Execute ::
  "'w HostConnector \<Rightarrow> session_env \<Rightarrow> op_codec \<Rightarrow> 'w ctl \<Rightarrow> claims \<Rightarrow> Action \<Rightarrow> unit res \<times> 'w ctl" where
  "Action_Execute con env oc c caller (StartAction a) = StartSessionAction_Execute con env oc c caller a"
| "Action_Execute con env oc c caller (StopAction sid) = StopSession con c caller sid"
| "Action_Execute con env oc c caller (UpdateParametersAction sid params) =
     UpdateParametersAction_Execute con oc c caller sid params"
| "Action_Execute con env oc c caller (UpdateExtraSettingsAction sid autoUpgrade memo) =
     UpdateSessionExtraSettings con c caller sid autoUpgrade memo"

section \<open>The usecase\<close>

definition resolveTargetGroupID :: "db \<Rightarrow> string option \<Rightarrow> string option \<Rightarrow> string res" where
  "resolveTargetGroupID d hostID sessionID =
     (if \<not> blank_ptr sessionID then bindR (SessionRepository_Get d (getter sessionID)) (\<lambda>s. Inr (Session_GroupID s))
      else if \<not> blank_ptr hostID then HostRepository_GetGroupID d (getter hostID)
      else Inl (ErrMsg ''either host_id or session_id is required''))"

record CreateScheduledSessionOperationParams =
  OpParams_Action :: "Action option"
  OpParams_Trigger :: "Trigger option"
  OpParams_HostID :: "string option"
  OpParams_SessionID :: "string option"
  OpParams_CreatedBy :: "string option"

definition ScheduledOp_Create ::
  "op_codec \<Rightarrow> pg_env \<Rightarrow> 8 word list \<Rightarrow> db \<Rightarrow> claims \<Rightarrow> CreateScheduledSessionOperationParams
     \<Rightarrow> ScheduledSessionOperation res \<times> db" where
  "ScheduledOp_Create oc pg newId d caller params =
     (case OpParams_Action params of
        None \<Rightarrow> (Inl (ErrMsg ''create scheduled operation: action is required''), d)
      | Some action \<Rightarrow>
          (case OpParams_Trigger params of
             None \<Rightarrow> (Inl (ErrMsg ''create scheduled operation: trigger is required''), d)
           | Some trigger \<Rightarrow>
               checkS (resolveTargetGroupID d (OpParams_HostID params) (OpParams_SessionID params)) d (\<lambda>groupID.
               checkS (RequirePermissionForGroup d caller groupID PermKey_SessionWrite) d (\<lambda>_.
               checkS (oc_MarshalAction oc action) d (\<lambda>actionPayload.
               checkS (oc_MarshalTrigger oc trigger) d (\<lambda>triggerConfig.
               checkS (Trigger_Evaluate (db_now d) None trigger) d (\<lambda>(_, nextFire).
               let nextFire = (case nextFire of None \<Rightarrow> db_now d | Some t \<Rightarrow> t) in
               OpRepository_Create pg newId d
                 \<lparr>OpCreate_OperationType = Action_Type action, OpCreate_OperationPayload = actionPayload,
                  OpCreate_TriggerType = Trigger_Type trigger, OpCreate_TriggerConfig = triggerConfig,
                  OpCreate_NextFireAt = nextFire, OpCreate_HostID = OpParams_HostID params,
                  OpCreate_SessionID = OpParams_SessionID params, OpCreate_CreatedBy = OpParams_CreatedBy params\<rparr>)))))))"

definition ScheduledOp_Get :: "pg_env \<Rightarrow> db \<Rightarrow> string \<Rightarrow> ScheduledSessionOperation res" where
  "ScheduledOp_Get pg d i = OpRepository_Get pg d i"

text \<open>Slicing with bounds out of range is a run-time panic.\<close>

definition listFilteredByGroups ::
  "db \<Rightarrow> ScheduledSessionOperationListFilter \<Rightarrow> string list \<Rightarrow> ScheduledSessionOperationListResult res" where
  "listFilteredByGroups d flt accessible =
     bindR (OpRepository_List d (flt\<lparr>OpFilter_PageIndex := 0, OpFilter_PageSize := 0\<rparr>)) (\<lambda>result.
     let filtered = filter (\<lambda>p. case resolveTargetGroupID d (Op_HostID p) (Op_SessionID p) of
                                  Inl _ \<Rightarrow> False | Inr gid \<Rightarrow> gid \<in> set accessible) (OpList_Items result);
         total = wrap32 (int (length filtered));
         start = wrap32 (OpFilter_PageIndex flt * OpFilter_PageSize flt) in
     if start < 0 \<or> total \<le> start then Inr \<lparr>OpList_Items = [], OpList_TotalCount = total\<rparr>
     else
       let stop = wrap32 (start + OpFilter_PageSize flt);
           stop = (if OpFilter_PageSize flt = 0 \<or> total < stop then total else stop) in
       if stop < start then Inl (panic ''slice bounds out of range'')
       else Inr \<lparr>OpList_Items = take (nat (stop - start)) (drop (nat start) filtered), OpList_TotalCount = total\<rparr>)"

definition ScheduledOp_List ::
  "db \<Rightarrow> claims \<Rightarrow> ScheduledSessionOperationListFilter \<Rightarrow> ScheduledSessionOperationListResult res" where
  "ScheduledOp_List d caller flt =
     (if \<not> blank_ptr (OpFilter_GroupID flt) then
        bindR (RequirePermissionForGroup d caller (getter (OpFilter_GroupID flt)) PermKey_SessionRead) (\<lambda>_.
        listFilteredByGroups d flt [getter (OpFilter_GroupID flt)])
      else if OpFilter_HostID flt \<noteq> None \<or> OpFilter_SessionID flt \<noteq> None then
        (case resolveTargetGroupID d (OpFilter_HostID flt) (OpFilter_SessionID flt) of
           Inl e \<Rightarrow> if e = ErrNotFound then Inr \<lparr>OpList_Items = [], OpList_TotalCount = 0\<rparr> else Inl e
         | Inr groupID \<Rightarrow>
             bindR (RequirePermissionForGroup d caller groupID PermKey_SessionRead) (\<lambda>_. OpRepository_List d flt))
      else
        bindR (CurrentUserID caller) (\<lambda>userID.
        bindR (ResolveListGroupFilter d userID PermKey_SessionRead) (\<lambda>(groupIDs, listAll).
        if listAll then OpRepository_List d flt else listFilteredByGroups d flt groupIDs)))"

definition ScheduledOp_Cancel :: "pg_env \<Rightarrow> db \<Rightarrow> claims \<Rightarrow> string \<Rightarrow> unit res \<times> db" where
  "ScheduledOp_Cancel pg d caller i =
     checkS (OpRepository_Get pg d i) d (\<lambda>op.
     checkS (resolveTargetGroupID d (Op_HostID op) (Op_SessionID op)) d (\<lambda>groupID.
     checkS (RequirePermissionForGroup d caller groupID PermKey_SessionWrite) d (\<lambda>_.
     bindS (OpRepository_Cancel pg d i) (\<lambda>ok d.
     if ok then (Inr (), d) else (Inl ErrScheduledOperationNotCancelable, d)))))"

section \<open>Lemmas: the table as a work queue\<close>

lemma op_of_update:
  "(\<And>p. Op_ID (f p) = Op_ID p) \<Longrightarrow> op_of (update_ops q f d) i = map_option (\<lambda>p. if q p then f p else p) (op_of d i)"
  by (simp add: op_of_def update_ops_def tbl_get_update_key)

lemma update_ops_simps [simp]:
  "db_ops (update_ops q f d) = tbl_update q f (db_ops d)" "db_now (update_ops q f d) = db_now d"
  "db_fault (update_ops q f d) = db_fault d" "no_faults (update_ops q f d) = no_faults d"
  by (simp_all add: update_ops_def no_faults_def)

lemma claim_op_simps [simp]:
  "Op_ID (claim_op w t p) = Op_ID p" "Op_Status (claim_op w t p) = ScheduledOperationStatus_RUNNING"
  "Op_ClaimedAt (claim_op w t p) = Some t" "Op_ClaimedBy (claim_op w t p) = Some w"
  "Op_NextFireAt (claim_op w t p) = Op_NextFireAt p" "Op_CreatedBy (claim_op w t p) = Op_CreatedBy p"
  "Op_TriggerType (claim_op w t p) = Op_TriggerType p" "Op_TriggerConfig (claim_op w t p) = Op_TriggerConfig p"
  "Op_OperationType (claim_op w t p) = Op_OperationType p" "Op_OperationPayload (claim_op w t p) = Op_OperationPayload p"
  by (simp_all add: claim_op_def)

definition ops_ok :: "db \<Rightarrow> bool" where
  "ops_ok d \<longleftrightarrow> distinct (map Op_ID (db_ops d)) \<and> (\<forall>i \<in> set (map Op_ID (db_ops d)). \<exists>b. length b = 16 \<and> i = formatUUID b)"

definition op_queued :: "db \<Rightarrow> string \<Rightarrow> bool" where
  "op_queued d i \<longleftrightarrow> map_option Op_Status (op_of d i) = Some ScheduledOperationStatus_PENDING"

definition op_held :: "db \<Rightarrow> string \<Rightarrow> bool" where
  "op_held d i \<longleftrightarrow> map_option Op_Status (op_of d i) = Some ScheduledOperationStatus_RUNNING"

definition op_held_since :: "db \<Rightarrow> string \<Rightarrow> time option" where
  "op_held_since d i = (case op_of d i of None \<Rightarrow> None | Some p \<Rightarrow> Op_ClaimedAt p)"

definition op_finished :: "db \<Rightarrow> ScheduledSessionOperation \<Rightarrow> bool" where
  "op_finished d p \<longleftrightarrow> p \<in> set (db_ops d) \<and> Op_Status p \<in> {ScheduledOperationStatus_SUCCEEDED,
     ScheduledOperationStatus_FAILED, ScheduledOperationStatus_CANCELED}"

datatype op_outcome = OpSucceeded | OpFailed string | OpRequeue time

fun claim_ops :: "string \<times> int32 \<Rightarrow> db \<Rightarrow> string list \<times> db" where
  "claim_ops (w, n) d = (case OpRepository_ClaimDue d w n of
      (Inr ps, d') \<Rightarrow> (map Op_ID ps, d') | (Inl _, d') \<Rightarrow> ([], d'))"

fun settle_op :: "op_outcome \<Rightarrow> string \<Rightarrow> db \<Rightarrow> db" where
  "settle_op OpSucceeded i d = snd (q_MarkScheduledSessionOperationSucceeded d i)"
| "settle_op (OpFailed msg) i d = snd (q_MarkScheduledSessionOperationFailed d i msg)"
| "settle_op (OpRequeue t) i d = snd (q_RequeueScheduledSessionOperation d i t)"

definition sweep_ops :: "int32 \<Rightarrow> db \<Rightarrow> db" where
  "sweep_ops secs d = snd (q_ReleaseStaleScheduledSessionOperationClaims d secs)"

lemma op_of_row: "ops_ok d \<Longrightarrow> p \<in> set (db_ops d) \<Longrightarrow> op_of d (Op_ID p) = Some p"
  by (simp add: ops_ok_def op_of_def tbl_get_key_unique)

lemma op_ID_of: "op_of d i = Some p \<Longrightarrow> Op_ID p = i \<and> p \<in> set (db_ops d)"
  using tbl_get_SomeD[of "op_row i"] by (auto simp: op_of_def)

lemma due_ops_pending:
  assumes "p \<in> set (due_ops d n)"
  shows "p \<in> set (db_ops d) \<and> Op_Status p = ScheduledOperationStatus_PENDING \<and> Op_NextFireAt p \<le> db_now d"
  using set_take_subset[THEN subsetD, OF assms[unfolded due_ops_def]] by simp

lemma claim_ops_cases:
  assumes "claim_ops (w, n) d = (is, d')"
  shows "is = [] \<and> d' = d \<or>
     is = map Op_ID (filter (\<lambda>p. Op_ID p \<in> set (map Op_ID (due_ops d n))) (db_ops d))
       \<and> d' = update_ops (\<lambda>p. Op_ID p \<in> set (map Op_ID (due_ops d n))) (claim_op w (db_now d)) d"
  using assms
  by (auto simp: OpRepository_ClaimDue_def q_ClaimDueScheduledSessionOperations_def map_errS_def writeQ_def Let_def comp_def
      split: option.splits if_splits)

lemma update_op_in_cases:
  "snd (update_op_in q i st f d) = d \<or> snd (update_op_in q i st f d) = update_ops (op_in i st) f d"
  by (auto simp: update_op_in_def writeQ_def split: option.split)

lemma settle_op_cases:
  "settle_op m i d = d \<or> (\<exists>f. settle_op m i d = update_ops (op_in i ScheduledOperationStatus_RUNNING) f d \<and> (\<forall>p. Op_ID (f p) = Op_ID p))"
proof -
  have "(\<exists>q f. settle_op m i d = snd (update_op_in q i ScheduledOperationStatus_RUNNING f d) \<and> (\<forall>p. Op_ID (f p) = Op_ID p))"
    by (cases m) (auto simp: q_MarkScheduledSessionOperationSucceeded_def q_MarkScheduledSessionOperationFailed_def
        q_RequeueScheduledSessionOperation_def intro!: exI)
  then show ?thesis using update_op_in_cases by metis
qed

lemma sweep_ops_cases:
  "sweep_ops st d = d \<or> sweep_ops st d = update_ops (stale_op (db_now d - st * Second))
     (\<lambda>p. p\<lparr>Op_Status := ScheduledOperationStatus_PENDING, Op_ClaimedBy := None, Op_ClaimedAt := None\<rparr>) d"
  by (auto simp: sweep_ops_def q_ReleaseStaleScheduledSessionOperationClaims_def writeQ_def Let_def split: option.split)

lemma ops_ok_update: "(\<And>p. Op_ID (f p) = Op_ID p) \<Longrightarrow> ops_ok (update_ops q f d) = ops_ok d"
  by (simp add: ops_ok_def map_key_tbl_update del: set_map)

lemma op_finished_update: "op_finished d p \<Longrightarrow> \<not> q p \<Longrightarrow> op_finished (update_ops q f d) p"
  by (force simp: op_finished_def)

lemma due_op_queued:
  assumes "ops_ok d" "i \<in> set (map Op_ID (due_ops d n))"
  shows "op_queued d i"
proof -
  obtain p where "p \<in> set (due_ops d n)" "Op_ID p = i" using assms(2) by auto
  then show ?thesis using due_ops_pending op_of_row[OF assms(1), of p] by (auto simp: op_queued_def)
qed

interpretation ops: work_queue ops_ok op_queued op_held op_held_since db_now claim_ops settle_op sweep_ops "\<lambda>secs. secs * Second" op_finished
proof unfold_locales
  fix d i assume "ops_ok d" "op_queued d i" then show "\<not> op_held d i" by (auto simp: op_queued_def op_held_def)
next
  fix d :: db and w :: "string \<times> int32" and is' d' assume ok: "ops_ok d" and run: "claim_ops w d = (is', d')"
  obtain u n where w: "w = (u, n)" by force
  note cases = claim_ops_cases[OF run[unfolded w]]
  let ?due = "\<lambda>p. Op_ID p \<in> set (map Op_ID (due_ops d n))"
  have "distinct (map Op_ID (filter ?due (db_ops d)))" using ok by (simp add: ops_ok_def distinct_map_filter)
  moreover have "op_queued d i" if "i \<in> set (map Op_ID (filter ?due (db_ops d)))" for i
    using that due_op_queued[OF ok, of i n] by auto
  ultimately show "distinct is' \<and> (\<forall>i \<in> set is'. op_queued d i)" using cases by auto
  have member: "\<exists>p. op_of d i = Some p \<and> ?due p" if "i \<in> set (map Op_ID (filter ?due (db_ops d)))" for i
    using that op_of_row[OF ok] by auto
  have of: "op_of d' i = map_option (\<lambda>p. if ?due p then claim_op u (db_now d) p else p) (op_of d i)"
    if "d' = update_ops ?due (claim_op u (db_now d)) d" for i
    using that by (simp add: op_of_update)
  show "op_held d' i \<and> op_held_since d' i = Some (db_now d)" if mem: "i \<in> set is'" for i
  proof -
    have c: "is' = map Op_ID (filter ?due (db_ops d))" "d' = update_ops ?due (claim_op u (db_now d)) d"
      using cases mem by auto
    obtain p where "op_of d i = Some p" "?due p" using member[OF mem[unfolded c(1)]] by blast
    then have "op_of d' i = Some (claim_op u (db_now d) p)" using of[OF c(2), of i] by simp
    then show ?thesis by (simp add: op_held_def op_held_since_def)
  qed
  show "op_held d' i = op_held d i \<and> op_held_since d' i = op_held_since d i" if "i \<notin> set is'" for i
  proof (cases "d' = d")
    case False
    then have c: "is' = map Op_ID (filter ?due (db_ops d))" "d' = update_ops ?due (claim_op u (db_now d)) d" using cases by auto
    have "\<not> ?due p" if "op_of d i = Some p" for p
      using that \<open>i \<notin> set is'\<close> op_ID_of[OF that] unfolding c(1) by auto
    then show ?thesis using of[OF c(2), of i] by (auto simp: op_held_def op_held_since_def split: option.split)
  qed simp
  show "op_finished d' r" if "op_finished d r" for r
  proof -
    have "\<not> ?due r" using that op_of_row[OF ok, of r] due_op_queued[OF ok, of "Op_ID r" n]
      by (auto simp: op_finished_def op_queued_def)
    then show ?thesis using cases that op_finished_update[of d r ?due] by auto
  qed
  show "ops_ok d'" using cases ok by (auto simp: ops_ok_update)
next
  fix d m and i j :: string assume "ops_ok d" "i \<noteq> j"
  then show "op_held (settle_op m j d) i = op_held d i \<and> op_held_since (settle_op m j d) i = op_held_since d i"
    using settle_op_cases[of m j d] op_ID_of[of d i]
    by (auto simp: op_held_def op_held_since_def op_of_update op_in_def split: option.splits)
next
  fix d i u st assume h: "op_held d i" "op_held_since d i = Some u" "db_now d - st * Second \<le> u"
  then have "\<not> stale_op (db_now d - st * Second) p" if "op_of d i = Some p" for p
    using that by (simp add: stale_op_def op_held_since_def)
  then show "op_held (sweep_ops st d) i \<and> op_held_since (sweep_ops st d) i = Some u"
    using h sweep_ops_cases[of st d] by (auto simp: op_held_def op_held_since_def op_of_update split: option.splits)
next
  fix d r m and j :: string assume "op_finished d r"
  then show "op_finished (settle_op m j d) r"
    using settle_op_cases[of m j d] op_finished_update[of d r "op_in j ScheduledOperationStatus_RUNNING"]
    by (auto simp: op_finished_def op_in_def)
next
  fix d r st assume "op_finished d r"
  then show "op_finished (sweep_ops st d) r"
    using sweep_ops_cases[of st d] op_finished_update[of d r "stale_op (db_now d - st * Second)"]
    by (auto simp: op_finished_def stale_op_def)
next
  fix d m and j :: string assume "ops_ok d" then show "ops_ok (settle_op m j d)"
    using settle_op_cases[of m j d] by (auto simp: ops_ok_update)
next
  fix d st assume "ops_ok d" then show "ops_ok (sweep_ops st d)"
    using sweep_ops_cases[of st d] by (auto simp: ops_ok_update)
qed

section \<open>Lemmas: the usecase\<close>

lemma readable_groups_sound:
  "readable_groups d u k ms = Inr gs \<Longrightarrow> g \<in> set gs \<Longrightarrow> k \<noteq> [] \<Longrightarrow> allowed d u g k"
  by (induction ms arbitrary: gs) (auto simp: ctrl_simps dest!: HasPermission_answer split: if_splits)

lemma list_filter_sound:
  assumes "ResolveListGroupFilter d u k = Inr (gs, all)" "k \<noteq> []"
  shows "if all then holds d u SystemGroupID PermKey_SystemGroupList else (\<forall>g \<in> set gs. allowed d u g k)"
  using assms by (auto simp: ResolveListGroupFilter_def ctrl_simps dest: HasSystemPermission_answer readable_groups_sound split: if_splits)

lemma List_items:
  assumes "OpRepository_List d flt = Inr r"
  shows "set (OpList_Items r) \<subseteq> {p \<in> set (db_ops d). op_matches (OpFilter_SessionID flt) (OpFilter_HostID flt) (OpFilter_Status flt) p}"
  using assms
  by (auto simp: OpRepository_List_def Let_def ctrl_simps q_ListScheduledSessionOperations_def split: if_splits
      dest!: set_take_subset[THEN subsetD] set_drop_subset[THEN subsetD])

definition op_accessible :: "db \<Rightarrow> string list \<Rightarrow> ScheduledSessionOperation \<Rightarrow> bool" where
  "op_accessible d acc p = (case resolveTargetGroupID d (Op_HostID p) (Op_SessionID p) of Inl _ \<Rightarrow> False | Inr gid \<Rightarrow> gid \<in> set acc)"

lemma listFiltered_shape:
  assumes "listFilteredByGroups d flt acc = Inr r"
  shows "\<exists>raw m n. OpRepository_List d (flt\<lparr>OpFilter_PageIndex := 0, OpFilter_PageSize := 0\<rparr>) = Inr raw
     \<and> OpList_Items r = take m (drop n (filter (op_accessible d acc) (OpList_Items raw)))
     \<and> OpList_TotalCount r = wrap32 (int (length (filter (op_accessible d acc) (OpList_Items raw))))"
proof -
  obtain raw where raw: "OpRepository_List d (flt\<lparr>OpFilter_PageIndex := 0, OpFilter_PageSize := 0\<rparr>) = Inr raw"
    using assms by (auto simp: listFilteredByGroups_def ctrl_simps)
  have f: "(\<lambda>p. case resolveTargetGroupID d (Op_HostID p) (Op_SessionID p) of Inl _ \<Rightarrow> False | Inr gid \<Rightarrow> gid \<in> set acc) = op_accessible d acc"
    by (simp add: op_accessible_def fun_eq_iff)
  have "\<exists>m n. OpList_Items r = take m (drop n (filter (op_accessible d acc) (OpList_Items raw)))
     \<and> OpList_TotalCount r = wrap32 (int (length (filter (op_accessible d acc) (OpList_Items raw))))"
    using assms unfolding listFilteredByGroups_def raw bindR_simps f Let_def
    by (auto split: if_splits) (metis take_0, (intro exI, rule refl)+)
  then show ?thesis using raw by blast
qed

lemma List_all_items:
  assumes "OpRepository_List d (flt\<lparr>OpFilter_PageIndex := 0, OpFilter_PageSize := 0\<rparr>) = Inr raw"
  shows "OpList_Items raw = take 100 (sort_key op_order
     (filter (op_matches (OpFilter_SessionID flt) (OpFilter_HostID flt) (OpFilter_Status flt)) (db_ops d)))"
  using assms by (auto simp: OpRepository_List_def ctrl_simps q_ListScheduledSessionOperations_def Let_def comp_def in32_def)

lemma listFiltered_empty:
  assumes "no_faults d" "filter (op_accessible d acc) (take 100 (sort_key op_order
     (filter (op_matches (OpFilter_SessionID flt) (OpFilter_HostID flt) (OpFilter_Status flt)) (db_ops d)))) = []"
  shows "listFilteredByGroups d flt acc = Inr \<lparr>OpList_Items = [], OpList_TotalCount = 0\<rparr>"
proof -
  obtain raw where raw: "OpRepository_List d (flt\<lparr>OpFilter_PageIndex := 0, OpFilter_PageSize := 0\<rparr>) = Inr raw"
    using assms(1) by (simp add: OpRepository_List_def q_ListScheduledSessionOperations_def Let_def in32_def)
  have "filter (op_accessible d acc) (OpList_Items raw) = []" using assms(2) List_all_items[OF raw] by simp
  then show ?thesis
    by (simp add: listFilteredByGroups_def raw op_accessible_def[symmetric] Let_def in32_def) linarith
qed

lemma op_accessible_iff: "op_accessible d acc p \<longleftrightarrow> (\<exists>gid \<in> set acc. resolveTargetGroupID d (Op_HostID p) (Op_SessionID p) = Inr gid)"
  by (auto simp: op_accessible_def split: sum.split)

section \<open>Properties\<close>

text \<open>The group an operation belongs to: that of its session, or of its host.\<close>

definition op_belongs :: "db \<Rightarrow> ScheduledSessionOperation \<Rightarrow> string \<Rightarrow> bool" where
  "op_belongs d p gid \<longleftrightarrow> (\<exists>s. session_of d (getter (Op_SessionID p)) = Some s \<and> Session_GroupID s = gid)
     \<or> (\<exists>h. host_of d (getter (Op_HostID p)) = Some h \<and> Host_GroupID h = gid)"

lemma resolveTarget_belongs:
  "resolveTargetGroupID d (Op_HostID p) (Op_SessionID p) = Inr gid \<Longrightarrow> op_belongs d p gid"
  by (auto simp: resolveTargetGroupID_def op_belongs_def ctrl_simps HostRepository_GetGroupID_def
      dest!: SessionRepository_Get_Inr q_GetHost_Inr split: if_splits)

lemma resolveTarget_filter:
  assumes "resolveTargetGroupID d hid sid = Inr gid" "op_matches sid hid st p"
  shows "op_belongs d p gid"
  using assms
  by (auto simp: resolveTargetGroupID_def op_belongs_def op_matches_def ctrl_simps HostRepository_GetGroupID_def
      dest!: SessionRepository_Get_Inr q_GetHost_Inr split: if_splits)

text \<open>
  Listing operations reveals only what the caller may read. Whatever filter is given, every operation
  in the result belongs to a group in which the caller is allowed \<open>session:read\<close>, unless the caller
  holds \<open>system:group.list\<close> and asked without a filter.
\<close>

theorem List_scoped:
  assumes "ScheduledOp_List d caller flt = Inr r" "p \<in> set (OpList_Items r)"
  shows "\<exists>u. caller = Some u \<and>
     ((\<exists>gid. op_belongs d p gid \<and> allowed d u gid PermKey_SessionRead)
      \<or> (holds d u SystemGroupID PermKey_SystemGroupList
          \<and> blank_ptr (OpFilter_GroupID flt) \<and> OpFilter_HostID flt = None \<and> OpFilter_SessionID flt = None))"
proof -
  have scoped: "\<exists>gid. op_belongs d p gid \<and> allowed d u gid PermKey_SessionRead"
    if lst: "listFilteredByGroups d flt acc = Inr r" and acc: "\<forall>g \<in> set acc. allowed d u g PermKey_SessionRead" for acc u
  proof -
    obtain raw :: ScheduledSessionOperationListResult and m n where "OpList_Items r = take m (drop n (filter (op_accessible d acc) (OpList_Items raw)))"
      using listFiltered_shape[OF lst] by blast
    then have "op_accessible d acc p" using assms(2) by (auto dest!: in_set_takeD in_set_dropD)
    then show ?thesis using acc resolveTarget_belongs[of d p] unfolding op_accessible_iff by metis
  qed
  consider (group) "\<not> blank_ptr (OpFilter_GroupID flt)"
    | (target) "blank_ptr (OpFilter_GroupID flt)" "OpFilter_HostID flt \<noteq> None \<or> OpFilter_SessionID flt \<noteq> None"
    | (free) "blank_ptr (OpFilter_GroupID flt)" "OpFilter_HostID flt = None" "OpFilter_SessionID flt = None" by blast
  then show ?thesis
  proof cases
    case group
    let ?g = "getter (OpFilter_GroupID flt)"
    have q: "RequirePermissionForGroup d caller ?g PermKey_SessionRead = Inr ()" "listFilteredByGroups d flt [?g] = Inr r"
      using group assms(1) by (auto simp: ScheduledOp_List_def ctrl_simps)
    obtain u where u: "caller = Some u" "allowed d u ?g PermKey_SessionRead" using RequirePermissionForGroup_Inr[OF q(1)] by blast
    then show ?thesis using scoped[OF q(2), of u] by simp
  next
    case target
    show ?thesis
    proof (cases "resolveTargetGroupID d (OpFilter_HostID flt) (OpFilter_SessionID flt)")
      case (Inl e)
      then show ?thesis using target assms by (auto simp: ScheduledOp_List_def split: if_splits)
    next
      case (Inr gid)
      then have q: "RequirePermissionForGroup d caller gid PermKey_SessionRead = Inr ()" "OpRepository_List d flt = Inr r"
        using target assms(1) by (auto simp: ScheduledOp_List_def ctrl_simps)
      have "op_belongs d p gid" using List_items[OF q(2)] assms(2) resolveTarget_filter[OF Inr] by blast
      then show ?thesis using RequirePermissionForGroup_Inr[OF q(1)] by blast
    qed
  next
    case free
    then obtain u gs all where q: "CurrentUserID caller = Inr u" "ResolveListGroupFilter d u PermKey_SessionRead = Inr (gs, all)"
      and run: "(if all then OpRepository_List d flt else listFilteredByGroups d flt gs) = Inr r"
      using assms(1) by (auto simp: ScheduledOp_List_def ctrl_simps)
    have u: "caller = Some u" using q(1) by (auto simp: CurrentUserID_def split: option.splits if_splits)
    show ?thesis
    proof (cases all)
      case True
      then show ?thesis using u free list_filter_sound[OF q(2)] by simp
    next
      case False
      then show ?thesis using u run scoped[of gs u] list_filter_sound[OF q(2)] by auto
    qed
  qed
qed

text \<open>
  Listing by group looks at the first hundred operations only. The usecase asks the repository for all
  operations with page size 0, which the repository reads as 100, and filters what it gets; an operation
  that comes later in the order of firing times is on no page, and the total count leaves it out.
\<close>

theorem list_by_group_truncated:
  assumes "ScheduledOp_List d caller flt = Inr r" "\<not> blank_ptr (OpFilter_GroupID flt)"
    and "earliest = take 100 (sort_key op_order
           (filter (op_matches (OpFilter_SessionID flt) (OpFilter_HostID flt) (OpFilter_Status flt)) (db_ops d)))"
  shows "set (OpList_Items r) \<subseteq> set earliest
     \<and> OpList_TotalCount r = int (length (filter (op_accessible d [getter (OpFilter_GroupID flt)]) earliest))"
proof -
  have "listFilteredByGroups d flt [getter (OpFilter_GroupID flt)] = Inr r"
    using assms(1,2) by (auto simp: ScheduledOp_List_def ctrl_simps)
  then obtain raw m n where raw: "OpRepository_List d (flt\<lparr>OpFilter_PageIndex := 0, OpFilter_PageSize := 0\<rparr>) = Inr raw"
    and r: "OpList_Items r = take m (drop n (filter (op_accessible d [getter (OpFilter_GroupID flt)]) (OpList_Items raw)))"
     "OpList_TotalCount r = wrap32 (int (length (filter (op_accessible d [getter (OpFilter_GroupID flt)]) (OpList_Items raw))))"
    using listFiltered_shape by blast
  have e: "OpList_Items raw = earliest" using List_all_items[OF raw] assms(3) by simp
  have "in32 (int (length (filter P earliest)))" for P
  proof -
    have "length (filter P earliest) \<le> 100" using length_filter_le[of P earliest] assms(3) by simp
    then show ?thesis by (simp add: in32_def)
  qed
  then show ?thesis using r unfolding e by (auto dest!: in_set_takeD in_set_dropD)
qed

text \<open>What the codec must carry: the texts of an action and a trigger, through the database.\<close>

definition carries_op :: "op_codec \<Rightarrow> pg_env \<Rightarrow> Action \<Rightarrow> Trigger \<Rightarrow> bool" where
  "carries_op oc pg a t \<longleftrightarrow> (\<exists>x y x' y'. oc_MarshalAction oc a = Inr x \<and> pg_Jsonb pg x = Some x' \<and> oc_MarshalTrigger oc t = Inr y
     \<and> pg_Jsonb pg y = Some y'
     \<and> (case a of
          StartAction s \<Rightarrow> oc_UnmarshalStart oc x' = Inr s
        | StopAction sid \<Rightarrow> oc_UnmarshalStop oc x' = Inr sid
        | UpdateParametersAction sid ps \<Rightarrow> oc_UnmarshalUpdateParameters oc x' = Inr (sid, ps)
        | UpdateExtraSettingsAction sid au m \<Rightarrow> oc_UnmarshalUpdateExtra oc x' = Inr (sid, au, m))
     \<and> (case t of TimeTrigger at \<Rightarrow> oc_UnmarshalTime oc y' = Inr at | UserCountTrigger u \<Rightarrow> oc_UnmarshalUserCount oc y' = Inr u))"

text \<open>What the decoders accept.\<close>

fun valid_action :: "Action \<Rightarrow> bool" where
  "valid_action (StartAction a) \<longleftrightarrow> Ssa_HostID a \<noteq> []"
| "valid_action (StopAction sid) \<longleftrightarrow> sid \<noteq> []"
| "valid_action (UpdateParametersAction sid _) \<longleftrightarrow> sid \<noteq> []"
| "valid_action (UpdateExtraSettingsAction sid au m) \<longleftrightarrow> sid \<noteq> [] \<and> \<not> (au = None \<and> m = None)"

fun valid_trigger :: "Trigger \<Rightarrow> bool" where
  "valid_trigger (TimeTrigger at) \<longleftrightarrow> at \<noteq> None"
| "valid_trigger (UserCountTrigger t) \<longleftrightarrow> Suc_SessionID t \<noteq> [] \<and> 0 \<le> Suc_Threshold t
     \<and> (case Suc_Comparator t of SessionUserCountComparator_Other _ \<Rightarrow> False | _ \<Rightarrow> True)"

lemma decode_carried:
  assumes "carries_op oc pg a t" "valid_action a" "valid_trigger t" "oc_MarshalAction oc a = Inr x" "oc_MarshalTrigger oc t = Inr y"
    "pg_Jsonb pg x = Some x'" "pg_Jsonb pg y = Some y'"
  shows "DecodeAction oc (Action_Type a) x' = Inr a" "DecodeTrigger oc (Trigger_Type t) y' = Inr t"
  using assms
  by (cases a; auto simp: carries_op_def decodeStartSession_def decodeStopSession_def decodeUpdateParameters_def decodeUpdateExtra_def)
     (cases t; use assms in \<open>auto simp: carries_op_def decodeTimeTrigger_def decodeSessionUserCountTrigger_def
        split: SessionUserCountComparator.splits\<close>)

text \<open>
  Scheduling stores what was asked, for callers who may. A failing \<open>Create\<close> changes nothing; a
  successful one was called by someone allowed \<open>session:write\<close> in the group of the target, appends one
  PENDING row that decodes to the action and the trigger given, and makes it due at its scheduled time,
  or at once when that has passed or the trigger is a condition.
\<close>

theorem Create_effect:
  assumes run: "ScheduledOp_Create oc pg newId d caller params = (r, d')"
    and given: "OpParams_Action params = Some a" "OpParams_Trigger params = Some t" "valid_action a" "valid_trigger t" "carries_op oc pg a t"
  shows "case r of
       Inl _ \<Rightarrow> d' = d
     | Inr p \<Rightarrow> (\<exists>u gid. caller = Some u \<and> resolveTargetGroupID d (OpParams_HostID params) (OpParams_SessionID params) = Inr gid
            \<and> allowed d u gid PermKey_SessionWrite)
         \<and> d' = d\<lparr>db_ops := db_ops d @ [p]\<rparr> \<and> op_of d (Op_ID p) = None \<and> Op_Status p = ScheduledOperationStatus_PENDING
         \<and> DecodeAction oc (Op_OperationType p) (Op_OperationPayload p) = Inr a
         \<and> DecodeTrigger oc (Op_TriggerType p) (Op_TriggerConfig p) = Inr t
         \<and> Op_NextFireAt p = (case t of TimeTrigger (Some at) \<Rightarrow> max at (db_now d) | _ \<Rightarrow> db_now d)
         \<and> Op_CreatedBy p = OpParams_CreatedBy params"
proof -
  have create: "case r of Inl _ \<Rightarrow> d' = d | Inr p \<Rightarrow> d' = d\<lparr>db_ops := db_ops d @ [p]\<rparr> \<and> op_of d (Op_ID p) = None
       \<and> Op_Status p = ScheduledOperationStatus_PENDING \<and> Op_NextFireAt p = OpCreate_NextFireAt q
       \<and> Op_CreatedBy p = OpCreate_CreatedBy q \<and> Op_OperationType p = OpCreate_OperationType q \<and> Op_TriggerType p = OpCreate_TriggerType q
       \<and> pg_Jsonb pg (OpCreate_OperationPayload q) = Some (Op_OperationPayload p)
       \<and> pg_Jsonb pg (OpCreate_TriggerConfig q) = Some (Op_TriggerConfig p)"
    if "OpRepository_Create pg newId d q = (r, d')" for q
  proof -
    have "(map_err convertDBErr (fst (q_CreateScheduledSessionOperation pg newId d q)), snd (q_CreateScheduledSessionOperation pg newId d q)) = (r, d')"
      using that by (simp add: OpRepository_Create_def map_errS_def)
    then obtain x where "q_CreateScheduledSessionOperation pg newId d q = (x, d')" "r = map_err convertDBErr x"
      by (metis prod.collapse prod.inject)
    then show ?thesis
      by (auto simp: q_CreateScheduledSessionOperation_def writeQ_def Let_def op_of_def tbl_get_None_iff tbl_exists_iff
          split: option.splits if_splits)
  qed
  show ?thesis
  proof (cases r)
    case (Inl e)
    then show ?thesis using run create given
      by (force simp: ScheduledOp_Create_def ctrl_simps Let_def)
  next
    case (Inr p)
    obtain gid u' x y z nf where s: "resolveTargetGroupID d (OpParams_HostID params) (OpParams_SessionID params) = Inr gid"
      "RequirePermissionForGroup d caller gid PermKey_SessionWrite = Inr u'" "oc_MarshalAction oc a = Inr x" "oc_MarshalTrigger oc t = Inr y"
      "Trigger_Evaluate (db_now d) None t = Inr (z, nf)"
      and c: "OpRepository_Create pg newId d
                 \<lparr>OpCreate_OperationType = Action_Type a, OpCreate_OperationPayload = x,
                  OpCreate_TriggerType = Trigger_Type t, OpCreate_TriggerConfig = y,
                  OpCreate_NextFireAt = (case nf of None \<Rightarrow> db_now d | Some t \<Rightarrow> t), OpCreate_HostID = OpParams_HostID params,
                  OpCreate_SessionID = OpParams_SessionID params, OpCreate_CreatedBy = OpParams_CreatedBy params\<rparr> = (r, d')"
      using run given Inr by (auto simp: ScheduledOp_Create_def ctrl_simps Let_def)
    note eff = create[OF c, unfolded Inr, simplified]
    have fire: "(case nf of None \<Rightarrow> db_now d | Some t \<Rightarrow> t) = (case t of TimeTrigger (Some at) \<Rightarrow> max at (db_now d) | _ \<Rightarrow> db_now d)"
      using s(5) by (cases t) (auto simp: TimeTrigger_Evaluate_def SessionUserCountTrigger_Evaluate_def split: option.splits if_splits)
    obtain u where u: "caller = Some u" "allowed d u gid PermKey_SessionWrite" using RequirePermissionForGroup_Inr[OF s(2)] by blast
    have "DecodeAction oc (Op_OperationType p) (Op_OperationPayload p) = Inr a" "DecodeTrigger oc (Op_TriggerType p) (Op_TriggerConfig p) = Inr t"
      using decode_carried[OF given(5,3,4) s(3,4)] eff by auto
    then show ?thesis unfolding Inr sum.case using eff fire s(1) u by (intro conjI exI[of _ u] exI[of _ gid]) simp_all
  qed
qed

text \<open>
  Only a waiting operation can be cancelled, by someone who may. On a working database a cancel that
  succeeds was called by someone allowed \<open>session:write\<close> in the group of the target, found the operation
  PENDING and made exactly that one CANCELED; one that fails changed nothing, and on an operation that is
  not PENDING it fails for every caller.
\<close>

theorem Cancel_effect:
  assumes "no_faults d" "lawful_scan pg" "ops_ok d" "op_of d i = Some p"
    and run: "ScheduledOp_Cancel pg d caller i = (r, d')"
  shows "case r of
       Inl _ \<Rightarrow> d' = d
     | Inr _ \<Rightarrow> Op_Status p = ScheduledOperationStatus_PENDING
         \<and> (\<exists>u gid. caller = Some u \<and> op_belongs d p gid \<and> allowed d u gid PermKey_SessionWrite)
         \<and> op_of d' i = Some (p\<lparr>Op_Status := ScheduledOperationStatus_CANCELED\<rparr>) \<and> (\<forall>j. j \<noteq> i \<longrightarrow> op_of d' j = op_of d j)"
proof -
  have row: "p \<in> set (db_ops d)" "Op_ID p = i" using op_ID_of[OF assms(4)] by auto
  then have "i \<in> set (map Op_ID (db_ops d))" by force
  then obtain b where "length b = 16" "i = formatUUID b" using assms(3) by (auto simp: ops_ok_def)
  then have scan: "parseUUID pg i = Inr i" using assms(2) by (simp add: lawful_scan_def parseUUID_def)
  have get: "OpRepository_Get pg d i = Inr p"
    using assms(1,4) scan by (simp add: OpRepository_Get_def q_GetScheduledSessionOperation_def)
  let ?hit = "op_in i ScheduledOperationStatus_PENDING"
  let ?d = "update_ops ?hit (\<lambda>p. p\<lparr>Op_Status := ScheduledOperationStatus_CANCELED\<rparr>) d"
  have cancel: "OpRepository_Cancel pg d i = (Inr (0 < length (filter ?hit (db_ops d))), ?d)"
    using assms(1) scan by (simp add: OpRepository_Cancel_def q_CancelScheduledSessionOperation_def update_op_in_def map_errS_def)
  have hit: "0 < length (filter ?hit (db_ops d)) \<longleftrightarrow> Op_Status p = ScheduledOperationStatus_PENDING"
  proof -
    have "q = p" if "q \<in> set (db_ops d)" "Op_ID q = i" for q using op_of_row[OF assms(3) that(1)] that(2) assms(4) by simp
    then have "(\<exists>q \<in> set (db_ops d). ?hit q) \<longleftrightarrow> Op_Status p = ScheduledOperationStatus_PENDING"
      using row unfolding op_in_def by blast
    then show ?thesis by (simp add: filter_empty_conv)
  qed
  have same: "?d = d" if "Op_Status p \<noteq> ScheduledOperationStatus_PENDING"
  proof -
    have "\<not> ?hit q" if "q \<in> set (db_ops d)" for q
      using op_of_row[OF assms(3) that] assms(4) \<open>Op_Status p \<noteq> _\<close> by (auto simp: op_in_def)
    then have "tbl_update ?hit f (db_ops d) = db_ops d" for f by (simp add: tbl_update_def map_idI)
    then show ?thesis by (simp add: update_ops_def)
  qed
  show ?thesis
  proof (cases r)
    case (Inl e)
    then show ?thesis using run get cancel hit same by (auto simp: ScheduledOp_Cancel_def ctrl_simps split: if_splits)
  next
    case (Inr x)
    obtain gid y where g: "resolveTargetGroupID d (Op_HostID p) (Op_SessionID p) = Inr gid"
      "RequirePermissionForGroup d caller gid PermKey_SessionWrite = Inr y"
      and st: "Op_Status p = ScheduledOperationStatus_PENDING" "d' = ?d"
      using run get cancel hit Inr by (auto simp: ScheduledOp_Cancel_def ctrl_simps split: if_splits)
    have "op_of d' j = op_of d j" if "j \<noteq> i" for j
      using that op_ID_of[of d j] by (cases "op_of d j") (auto simp: st(2) op_of_update op_in_def)
    then show ?thesis unfolding Inr sum.case
      using st assms(4) row resolveTarget_belongs[OF g(1)] RequirePermissionForGroup_Inr[OF g(2)]
      by (auto simp: op_of_update op_in_def)
  qed
qed

section \<open>Instances\<close>

text \<open>Operations of two groups: the sessions of \<open>session_db\<close> belong to \<open>team\<close>, one more belongs to Bob alone.\<close>

definition plain_op :: "8 word list \<Rightarrow> string \<Rightarrow> time \<Rightarrow> ScheduledSessionOperation" where
  "plain_op b sid t = \<lparr>Op_ID = formatUUID b, Op_OperationType = ScheduledOperationType_STOP_SESSION, Op_OperationPayload = sid,
     Op_TriggerType = ScheduledTriggerType_TIME, Op_TriggerConfig = ''t'', Op_NextFireAt = t, Op_HostID = None,
     Op_SessionID = Some sid, Op_Status = ScheduledOperationStatus_PENDING, Op_LastError = None, Op_ClaimedBy = None,
     Op_ClaimedAt = None, Op_ExecutedAt = None, Op_CreatedBy = Some ''alice'', Op_CreatedAt = 0\<rparr>"

definition op_db :: "ScheduledSessionOperation list \<Rightarrow> db" where
  "op_db ps = session_db\<lparr>db_ops := ps, db_sessions := db_sessions session_db
     @ [(plain_session ''b1'' ''h9'' SessionStatus_RUNNING 5)\<lparr>Session_GroupID := ''bob-personal''\<rparr>]\<rparr>"

definition group_filter :: "string \<Rightarrow> ScheduledSessionOperationListFilter" where
  "group_filter g = \<lparr>OpFilter_SessionID = None, OpFilter_HostID = None, OpFilter_Status = None, OpFilter_PageIndex = 0,
     OpFilter_PageSize = 20, OpFilter_GroupID = Some g\<rparr>"

definition plain_op_codec :: op_codec where
  "plain_op_codec = \<lparr>oc_MarshalAction = (\<lambda>a. Inr (case a of StopAction s \<Rightarrow> s | _ \<Rightarrow> ''{}'')), oc_MarshalTrigger = (\<lambda>_. Inr ''t''),
     oc_UnmarshalStart = (\<lambda>_. Inl ErrDB), oc_UnmarshalStop = Inr, oc_UnmarshalUpdateParameters = (\<lambda>_. Inl ErrDB),
     oc_UnmarshalUpdateExtra = (\<lambda>_. Inl ErrDB), oc_UnmarshalTime = (\<lambda>_. Inr (Some 40)), oc_UnmarshalUserCount = (\<lambda>_. Inl ErrDB),
     oc_StartupParameters = (\<lambda>_. Inl ErrDB), oc_UpdateRequest = (\<lambda>_. Inl ErrDB)\<rparr>"

definition other_uuid :: "8 word list" where
  "other_uuid = replicate 15 0 @ [1]"

lemma no_faults_op_db [simp]: "no_faults (op_db ps)"
  using no_faults_session_db by (simp add: op_db_def no_faults_def)

definition two_ops :: db where
  "two_ops = op_db [plain_op sample_uuid ''s1'' 40, plain_op other_uuid ''b1'' 30]"

theorem List_scoped_witness:
  "\<exists>r. ScheduledOp_List two_ops (Some ''alice'') (group_filter ''team'') = Inr r
     \<and> OpList_Items r = [plain_op sample_uuid ''s1'' 40]
     \<and> (\<exists>gid. op_belongs two_ops (plain_op sample_uuid ''s1'' 40) gid \<and> allowed two_ops ''alice'' gid PermKey_SessionRead)"
proof -
  have "map_sum id OpList_Items (ScheduledOp_List two_ops (Some ''alice'') (group_filter ''team'')) = Inr [plain_op sample_uuid ''s1'' 40]"
    by code_simp
  then obtain r where r: "ScheduledOp_List two_ops (Some ''alice'') (group_filter ''team'') = Inr r"
    "OpList_Items r = [plain_op sample_uuid ''s1'' 40]"
    by (cases "ScheduledOp_List two_ops (Some ''alice'') (group_filter ''team'')") auto
  show ?thesis using List_scoped[OF r(1), of "plain_op sample_uuid ''s1'' 40"] r by (auto simp: group_filter_def)
qed

text \<open>A hundred operations of Bob's that fire before the one of the team.\<close>

definition many_ops :: db where
  "many_ops = op_db (map (\<lambda>n. plain_op [word_of_nat n] ''b1'' (int n)) [0..<100] @ [plain_op sample_uuid ''s1'' 200])"

theorem list_by_group_truncated_witness:
  "\<exists>r. ScheduledOp_List many_ops (Some ''alice'') (group_filter ''team'') = Inr r
     \<and> op_accessible many_ops [''team''] (plain_op sample_uuid ''s1'' 200) \<and> plain_op sample_uuid ''s1'' 200 \<in> set (db_ops many_ops)
     \<and> OpList_TotalCount r = 0"
proof -
  let ?b = "\<lambda>n. plain_op [word_of_nat n] ''b1'' (int n)" and ?f = "group_filter ''team''"
  have flt: "OpFilter_SessionID ?f = None" "OpFilter_HostID ?f = None" "OpFilter_Status ?f = None" "OpFilter_GroupID ?f = Some ''team''"
    by (simp_all add: group_filter_def)
  have rows: "db_ops many_ops = map ?b [0..<100] @ [plain_op sample_uuid ''s1'' 200]" by (simp only: many_ops_def op_db_def) simp
  have "sorted_wrt (\<lambda>m n. op_order (?b m) \<le> op_order (?b n)) [0..<100]"
    by (rule sorted_wrt_mono_rel[OF _ sorted_wrt_upt]) (simp add: op_order_def plain_op_def)
  then have "sorted (map op_order (db_ops many_ops))"
    by (simp add: rows sorted_append sorted_wrt_map comp_def op_order_def plain_op_def del: upt_rec_numeral)
  then have earliest: "take 100 (sort_key op_order (filter (op_matches None None None) (db_ops many_ops))) = map ?b [0..<100]"
    by (simp add: op_matches_def sort_key_id_if_sorted rows del: upt_rec_numeral)
  have "resolveTargetGroupID many_ops None (Some ''b1'') = Inr ''bob-personal''"
    by (simp add: resolveTargetGroupID_def SessionRepository_Get_def q_GetSession_def many_ops_def op_db_def session_db_def
        plain_session_def getter_def readQ_def sample_db_def seed_db_def)
  then have none: "filter (op_accessible many_ops [''team'']) (map ?b [0..<100]) = []"
    by (auto simp: op_accessible_def plain_op_def filter_empty_conv simp del: upt_rec_numeral)
  have nf: "no_faults many_ops" by (simp add: many_ops_def)
  have "RequirePermissionForGroup many_ops (Some ''alice'') ''team'' PermKey_SessionRead = Inr ()" by code_simp
  then obtain r where r: "ScheduledOp_List many_ops (Some ''alice'') ?f = Inr r" 
    using listFiltered_empty[OF nf, of "[''team'']" ?f] none by (simp add: ScheduledOp_List_def flt getter_def earliest)
  have f: "\<not> blank_ptr (OpFilter_GroupID ?f)" by (simp add: flt)
  have acc: "op_accessible many_ops [''team''] (plain_op sample_uuid ''s1'' 200)" by code_simp
  have mem: "plain_op sample_uuid ''s1'' 200 \<in> set (db_ops many_ops)" unfolding rows by simp
  have "OpList_TotalCount r = 0"
    using list_by_group_truncated[OF r f refl] none unfolding flt earliest getter_def by simp
  then show ?thesis using r acc mem by blast
qed

definition stop_at :: CreateScheduledSessionOperationParams where
  "stop_at = \<lparr>OpParams_Action = Some (StopAction ''s1''), OpParams_Trigger = Some (TimeTrigger (Some 40)), OpParams_HostID = None,
     OpParams_SessionID = Some ''s1'', OpParams_CreatedBy = Some ''alice''\<rparr>"

theorem Create_effect_witness:
  "\<exists>p d'. ScheduledOp_Create plain_op_codec plain_pg sample_uuid (op_db []) (Some ''alice'') stop_at = (Inr p, d')
     \<and> Op_NextFireAt p = 40 \<and> DecodeAction plain_op_codec (Op_OperationType p) (Op_OperationPayload p) = Inr (StopAction ''s1'')"
proof -
  obtain r d' where run: "ScheduledOp_Create plain_op_codec plain_pg sample_uuid (op_db []) (Some ''alice'') stop_at = (r, d')" by force
  have "\<not> isl (fst (ScheduledOp_Create plain_op_codec plain_pg sample_uuid (op_db []) (Some ''alice'') stop_at))" by code_simp
  then obtain p where p: "r = Inr p" using run by (cases r) auto
  have given: "OpParams_Action stop_at = Some (StopAction ''s1'')" "OpParams_Trigger stop_at = Some (TimeTrigger (Some 40))"
    "valid_action (StopAction ''s1'')" "valid_trigger (TimeTrigger (Some 40))"
    "carries_op plain_op_codec plain_pg (StopAction ''s1'') (TimeTrigger (Some 40))"
    by (simp_all add: stop_at_def carries_op_def plain_op_codec_def plain_pg_def)
  have now: "db_now (op_db []) = 0" by code_simp
  show ?thesis using Create_effect[OF run given] run p now by auto
qed

theorem Cancel_effect_witness:
  "\<exists>d'. ScheduledOp_Cancel plain_pg two_ops (Some ''alice'') (formatUUID sample_uuid) = (Inr (), d')
     \<and> map_option Op_Status (op_of d' (formatUUID sample_uuid)) = Some ScheduledOperationStatus_CANCELED"
proof -
  let ?i = "formatUUID sample_uuid"
  obtain r d' where run: "ScheduledOp_Cancel plain_pg two_ops (Some ''alice'') ?i = (r, d')" by force
  have "fst (ScheduledOp_Cancel plain_pg two_ops (Some ''alice'') ?i) = Inr ()" by code_simp
  then have r: "r = Inr ()" using run by simp
  have "distinct (map Op_ID (db_ops two_ops))" by code_simp
  moreover have "map Op_ID (db_ops two_ops) = [formatUUID sample_uuid, formatUUID other_uuid]"
    by (simp add: two_ops_def op_db_def plain_op_def)
  ultimately have ok: "ops_ok two_ops"
    by (auto simp: ops_ok_def simp del: set_map intro: exI[of _ sample_uuid] exI[of _ other_uuid])
       (auto simp: sample_uuid_def other_uuid_def intro!: exI)
  have row: "op_of two_ops ?i = Some (plain_op sample_uuid ''s1'' 40)" by (simp add: two_ops_def op_db_def op_of_def plain_op_def)
  have nf: "no_faults two_ops" by (simp add: two_ops_def)
  show ?thesis using Cancel_effect[OF nf plain_pg_lawful ok row run] run r by auto
qed

end
