(* ===== verification/ScheduledExecutor.thy ===== *)
theory ScheduledExecutor
  imports ScheduledOps
begin

text \<open>
  Running scheduled operations (\<open>worker/scheduled_operation_executor.go\<close>): an operation that is due is
  claimed, its trigger is evaluated, and when it is ready its action is run as the user who scheduled it.
  This executor does not recover from a Go panic in an action: the process stops and the row stays
  claimed until a sweep.
\<close>

record op_env =
  oe_pg :: pg_env
  oe_codec :: op_codec
  oe_session :: session_env
  oe_errText :: "err \<Rightarrow> string"

record ScheduledOperationExecutor =
  sexec_instanceID :: string
  sexec_tickInterval :: time
  sexec_staleAfter :: time
  sexec_staleSweepEvry :: time
  sexec_batchSize :: int32
  sexec_concurrency :: int

definition defaultExecutorActionTimeout :: time where
  "defaultExecutorActionTimeout = 2 * Minute"

definition persistTimeout :: time where
  "persistTimeout = 10 * Second"

definition NewScheduledOperationExecutor :: "string option \<Rightarrow> ScheduledOperationExecutor \<Rightarrow> ScheduledOperationExecutor" where
  "NewScheduledOperationExecutor hostname opts = \<lparr>
     sexec_instanceID = (if sexec_instanceID opts = [] then (if blank_ptr hostname then ''controller'' else getter hostname)
                         else sexec_instanceID opts),
     sexec_tickInterval = (if sexec_tickInterval opts \<le> 0 then 10 * Second else sexec_tickInterval opts),
     sexec_staleAfter = (if sexec_staleAfter opts \<le> 0 then 10 * Minute else sexec_staleAfter opts),
     sexec_staleSweepEvry = (if sexec_staleSweepEvry opts \<le> 0 then 1 * Minute else sexec_staleSweepEvry opts),
     sexec_batchSize = (if sexec_batchSize opts \<le> 0 then 16 else sexec_batchSize opts),
     sexec_concurrency = (if sexec_concurrency opts \<le> 0 then 4 else sexec_concurrency opts)\<rparr>"

definition op_markFailed :: "op_env \<Rightarrow> 'w ctl \<Rightarrow> string \<Rightarrow> err \<Rightarrow> 'w ctl" where
  "op_markFailed env c i runErr =
     snd (onDb c (OpRepository_MarkFailed (oe_pg env) (lv_db c) i (oe_errText env runErr)))"

definition is_panic :: "err \<Rightarrow> bool" where
  "is_panic e = (case e of ErrMsg m \<Rightarrow> HasPrefix m ''runtime error: '' | _ \<Rightarrow> False)"

definition op_executeOne ::
  "'w HostConnector \<Rightarrow> op_env \<Rightarrow> ScheduledOperationExecutor \<Rightarrow> 'w ctl \<Rightarrow> ScheduledSessionOperation \<Rightarrow> 'w ctl" where
  "op_executeOne con env e c op =
     (if blank_ptr (Op_CreatedBy op) then op_markFailed env c (Op_ID op) (ErrMsg ''scheduled operation has no created_by'')
      else
        let user = getter (Op_CreatedBy op) in
        case UserExistsByID (lv_db c) user of
          Inl err \<Rightarrow> if err = ErrCanceled then c else op_markFailed env c (Op_ID op) err
        | Inr False \<Rightarrow> op_markFailed env c (Op_ID op) (ErrMsg ''created_by user does not exist'')
        | Inr True \<Rightarrow>
            (case DecodeTrigger (oe_codec env) (Op_TriggerType op) (Op_TriggerConfig op) of
               Inl err \<Rightarrow> op_markFailed env c (Op_ID op) err
             | Inr trig \<Rightarrow>
                 (case Trigger_Evaluate (db_now (lv_db c)) (Some (lv_cache c, lv_db c)) trig of
                    Inl err \<Rightarrow> op_markFailed env c (Op_ID op) err
                  | Inr (ready, nextCheck) \<Rightarrow>
                      if \<not> ready then
                        let nextCheck = (case nextCheck of None \<Rightarrow> db_now (lv_db c) + sexec_tickInterval e | Some t \<Rightarrow> t) in
                        snd (onDb c (OpRepository_Requeue (oe_pg env) (lv_db c) (Op_ID op) nextCheck))
                      else
                        (case DecodeAction (oe_codec env) (Op_OperationType op) (Op_OperationPayload op) of
                           Inl err \<Rightarrow> op_markFailed env c (Op_ID op) err
                         | Inr act \<Rightarrow>
                             (case Action_Execute con (oe_session env) (oe_codec env) c (Some user) act of
                                (Inl err, c) \<Rightarrow> if is_panic err then c else op_markFailed env c (Op_ID op) err
                              | (Inr _, c) \<Rightarrow>
                                  snd (onDb c (OpRepository_MarkSucceeded (oe_pg env) (lv_db c) (Op_ID op))))))))"

definition op_dispatchOnce :: "ScheduledOperationExecutor \<Rightarrow> 'w ctl \<Rightarrow> ScheduledSessionOperation list \<times> 'w ctl" where
  "op_dispatchOnce e c =
     (case onDb c (OpRepository_ClaimDue (lv_db c) (sexec_instanceID e) (sexec_batchSize e)) of
        (Inl _, c) \<Rightarrow> ([], c) | (Inr ops, c) \<Rightarrow> (ops, c))"

definition op_sweep :: "ScheduledOperationExecutor \<Rightarrow> 'w ctl \<Rightarrow> 'w ctl" where
  "op_sweep e c = snd (onDb c (OpRepository_ReleaseStaleClaims (lv_db c) (sexec_staleAfter e)))"

text \<open>The executors of any number of instances, with the operations in flight, beside callers who schedule and cancel.\<close>

type_synonym 'w ops_state = "'w ctl \<times> (string \<times> ScheduledSessionOperation) list"

inductive op_step :: "'w HostConnector \<Rightarrow> pg_env \<Rightarrow> time \<Rightarrow> 'w ops_state \<Rightarrow> 'w ops_state \<Rightarrow> bool"
  for con pg staleAfter where
  create: "length newId = 16 \<Longrightarrow> onDb c (ScheduledOp_Create oc pg newId (lv_db c) caller params) = (r, c') \<Longrightarrow>
    op_step con pg staleAfter (c, F) (c', F)"
| cancel: "onDb c (ScheduledOp_Cancel pg (lv_db c) caller i) = (r', c') \<Longrightarrow> op_step con pg staleAfter (c, F) (c', F)"
| claim: "op_dispatchOnce e c = (ops, c') \<Longrightarrow>
    op_step con pg staleAfter (c, F) (c', F @ map (Pair (sexec_instanceID e)) ops)"
| execute: "f \<in> set F \<Longrightarrow> oe_pg env = pg \<Longrightarrow> op_step con pg staleAfter (c, F) (op_executeOne con env e c (snd f), remove1 f F)"
| crash: "op_step con pg staleAfter (c, F) (c, filter (\<lambda>f. fst f \<noteq> w) F)"
| sweep: "sexec_staleAfter e = staleAfter \<Longrightarrow> op_step con pg staleAfter (c, F) (op_sweep e c, F)"
| other: "db_ops (lv_db c') = db_ops (lv_db c) \<Longrightarrow> db_now (lv_db c) \<le> db_now (lv_db c') \<Longrightarrow> op_step con pg staleAfter (c, F) (c', F)"

section \<open>Lemmas\<close>

lemma ops_frame:
  assumes "db_ops d' = db_ops d"
  shows "ops_ok d' = ops_ok d" "op_of d' i = op_of d i" "op_held d' i = op_held d i" "op_held_since d' i = op_held_since d i"
    "op_finished d' p = op_finished d p"
  using assms by (simp_all add: ops_ok_def op_of_def op_held_def op_held_since_def op_finished_def)

lemma op_exclusive_frame: "db_ops d' = db_ops d \<Longrightarrow> ops.exclusive d' fs = ops.exclusive d fs"
  by (simp add: ops.exclusive_def ops_frame(3,4)[of d' d])

lemma settle_op_frame: "ops_ok (settle_op m i d) = ops_ok d"
  using settle_op_cases[of m i d] by (auto simp: ops_ok_update)

lemma op_mark_settles:
  assumes "parseUUID pg i = Inr u"
  shows "snd (OpRepository_MarkFailed pg d i msg) = settle_op (OpFailed msg) u d"
    "snd (OpRepository_MarkSucceeded pg d i) = settle_op OpSucceeded u d"
    "snd (OpRepository_Requeue pg d i t) = settle_op (OpRequeue t) u d"
  using assms
  by (auto simp: OpRepository_MarkFailed_def OpRepository_MarkSucceeded_def OpRepository_Requeue_def done_unit_def bindS_def map_errS_def
      split: prod.split sum.split)

lemma Action_Execute_frame: "frame c (snd (Action_Execute con env oc c caller act))"
  by (cases act) (auto simp: StartSessionAction_Execute_def UpdateParametersAction_Execute_def intro!: frame_intros)

text \<open>
  The outcome of a run and the state in which it is recorded: \<open>None\<close> when nothing is recorded, because the
  look-up of the user was cancelled or the action panicked.
\<close>

definition op_fail :: "op_env \<Rightarrow> err \<Rightarrow> 'w ctl \<Rightarrow> op_outcome option \<times> 'w ctl" where
  "op_fail env err c = (Some (OpFailed (oe_errText env err)), c)"

definition op_act :: "'w HostConnector \<Rightarrow> op_env \<Rightarrow> 'w ctl \<Rightarrow> ScheduledSessionOperation \<Rightarrow> op_outcome option \<times> 'w ctl" where
  "op_act con env c op =
     (case DecodeAction (oe_codec env) (Op_OperationType op) (Op_OperationPayload op) of
        Inl err \<Rightarrow> op_fail env err c
      | Inr act \<Rightarrow>
          (case Action_Execute con (oe_session env) (oe_codec env) c (Some (getter (Op_CreatedBy op))) act of
             (Inl err, c) \<Rightarrow> if is_panic err then (None, c) else op_fail env err c
           | (Inr _, c) \<Rightarrow> (Some OpSucceeded, c)))"

definition op_check :: "op_env \<Rightarrow> 'w ctl \<Rightarrow> ScheduledSessionOperation \<Rightarrow> (bool \<times> time option) res" where
  "op_check env c op =
     bindR (DecodeTrigger (oe_codec env) (Op_TriggerType op) (Op_TriggerConfig op))
       (Trigger_Evaluate (db_now (lv_db c)) (Some (lv_cache c, lv_db c)))"

definition op_outcome_of ::
  "'w HostConnector \<Rightarrow> op_env \<Rightarrow> ScheduledOperationExecutor \<Rightarrow> 'w ctl \<Rightarrow> ScheduledSessionOperation \<Rightarrow> op_outcome option \<times> 'w ctl" where
  "op_outcome_of con env e c op =
     (if blank_ptr (Op_CreatedBy op) then op_fail env (ErrMsg ''scheduled operation has no created_by'') c
      else case UserExistsByID (lv_db c) (getter (Op_CreatedBy op)) of
          Inl err \<Rightarrow> if err = ErrCanceled then (None, c) else op_fail env err c
        | Inr exists \<Rightarrow>
            if \<not> exists then op_fail env (ErrMsg ''created_by user does not exist'') c
            else case op_check env c op of
                   Inl err \<Rightarrow> op_fail env err c
                 | Inr (ready, nextCheck) \<Rightarrow>
                     if ready then op_act con env c op
                     else (Some (OpRequeue (case nextCheck of None \<Rightarrow> db_now (lv_db c) + sexec_tickInterval e | Some t \<Rightarrow> t)), c))"

text \<open>Recording an outcome under the id that pgx reads; without a readable id nothing is recorded.\<close>

definition record_op :: "pg_env \<Rightarrow> string \<Rightarrow> op_outcome option \<times> 'w ctl \<Rightarrow> 'w ctl" where
  "record_op pg i r = (case (fst r, parseUUID pg i) of
      (Some m, Inr u) \<Rightarrow> (snd r)\<lparr>lv_db := settle_op m u (lv_db (snd r))\<rparr> | _ \<Rightarrow> snd r)"

lemma record_op_simps:
  "record_op (oe_pg env) i (op_fail env err c) = op_markFailed env c i err"
  "record_op pg i (Some OpSucceeded, c) = snd (onDb c (OpRepository_MarkSucceeded pg (lv_db c) i))"
  "record_op pg i (Some (OpRequeue t), c) = snd (onDb c (OpRepository_Requeue pg (lv_db c) i t))"
  "record_op pg i (None, c) = c"
  by (cases "parseUUID pg i"; cases "parseUUID (oe_pg env) i";
      simp add: record_op_def op_fail_def op_markFailed_def onDb_def op_mark_settles del: settle_op.simps;
      simp add: OpRepository_MarkFailed_def OpRepository_MarkSucceeded_def OpRepository_Requeue_def)+

lemma op_act_record:
  "record_op (oe_pg env) (Op_ID op) (op_act con env c op) =
     (case DecodeAction (oe_codec env) (Op_OperationType op) (Op_OperationPayload op) of
        Inl err \<Rightarrow> op_markFailed env c (Op_ID op) err
      | Inr act \<Rightarrow>
          (case Action_Execute con (oe_session env) (oe_codec env) c (Some (getter (Op_CreatedBy op))) act of
             (Inl err, c) \<Rightarrow> if is_panic err then c else op_markFailed env c (Op_ID op) err
           | (Inr _, c) \<Rightarrow> snd (onDb c (OpRepository_MarkSucceeded (oe_pg env) (lv_db c) (Op_ID op)))))"
  by (simp add: op_act_def record_op_simps split: sum.split prod.split)

lemma op_executeOne_record: "op_executeOne con env e c op = record_op (oe_pg env) (Op_ID op) (op_outcome_of con env e c op)"
proof (cases "blank_ptr (Op_CreatedBy op) \<or> (\<exists>x. UserExistsByID (lv_db c) (getter (Op_CreatedBy op)) = Inl x)
    \<or> UserExistsByID (lv_db c) (getter (Op_CreatedBy op)) = Inr False")
  case True
  then show ?thesis by (auto simp: op_executeOne_def op_outcome_of_def record_op_simps Let_def)
next
  case False
  then have u: "\<not> blank_ptr (Op_CreatedBy op)" "UserExistsByID (lv_db c) (getter (Op_CreatedBy op)) = Inr True"
    by (auto, metis (full_types) old.sum.exhaust)
  show ?thesis
    unfolding op_executeOne_def op_outcome_of_def Let_def u(2) op_check_def
    using u(1) by (simp add: op_act_record record_op_simps split: sum.split prod.split)
qed

lemma op_act_frame: "frame c (snd (op_act con env c op))"
proof (cases "DecodeAction (oe_codec env) (Op_OperationType op) (Op_OperationPayload op)")
  case (Inr act)
  obtain x c2 where a: "Action_Execute con (oe_session env) (oe_codec env) c (Some (getter (Op_CreatedBy op))) act = (x, c2)" by force
  have "frame c c2" using Action_Execute_frame[of c con "oe_session env" "oe_codec env" "Some (getter (Op_CreatedBy op))" act] a by simp
  then show ?thesis by (cases x) (simp_all add: op_act_def op_fail_def Inr a)
qed (simp add: op_act_def op_fail_def)

lemma op_outcome_frame: "frame c (snd (op_outcome_of con env e c op))"
  using op_act_frame[of c con env op] by (simp add: op_outcome_of_def op_fail_def split: sum.split prod.split)

section \<open>What a step keeps\<close>

lemma OpRepository_Create_cases:
  assumes "length newId = 16" "OpRepository_Create pg newId d q = (r, d')"
  shows "d' = d \<or> (\<exists>p. db_ops d' = db_ops d @ [p] \<and> op_of d (Op_ID p) = None \<and> Op_ID p = formatUUID newId)"
proof -
  obtain x where "q_CreateScheduledSessionOperation pg newId d q = (x, d')"
    using assms(2) by (cases "q_CreateScheduledSessionOperation pg newId d q") (simp add: OpRepository_Create_def map_errS_def)
  then show ?thesis
    by (auto simp: q_CreateScheduledSessionOperation_def writeQ_def Let_def op_of_def tbl_get_None_iff tbl_exists_iff
        split: option.splits if_splits)
qed

lemma ScheduledOp_Create_cases:
  assumes "length newId = 16" "ScheduledOp_Create oc pg newId d caller params = (r, d')"
  shows "d' = d \<or> (\<exists>p. db_ops d' = db_ops d @ [p] \<and> op_of d (Op_ID p) = None \<and> Op_ID p = formatUUID newId)"
proof -
  have "d' = d \<or> (\<exists>q. OpRepository_Create pg newId d q = (r, d'))"
    using assms(2) by (auto simp: ScheduledOp_Create_def checkS_def Let_def split: option.splits sum.splits)
  then show ?thesis using OpRepository_Create_cases[OF assms(1)] by blast
qed

lemma ScheduledOp_Cancel_cases:
  assumes "ScheduledOp_Cancel pg d caller i = (r, d')"
  shows "d' = d \<or> (\<exists>u. d' = update_ops (op_in u ScheduledOperationStatus_PENDING) (\<lambda>p. p\<lparr>Op_Status := ScheduledOperationStatus_CANCELED\<rparr>) d)"
proof -
  have "snd (OpRepository_Cancel pg d i) = d \<or> (\<exists>u. snd (OpRepository_Cancel pg d i)
      = update_ops (op_in u ScheduledOperationStatus_PENDING) (\<lambda>p. p\<lparr>Op_Status := ScheduledOperationStatus_CANCELED\<rparr>) d)"
    using update_op_in_cases[of "''CancelScheduledSessionOperation''" _ ScheduledOperationStatus_PENDING _ d]
    by (fastforce simp: OpRepository_Cancel_def q_CancelScheduledSessionOperation_def checkS_def bindS_def map_errS_def
        split: sum.split prod.split)
  then show ?thesis using assms
    by (auto simp: ScheduledOp_Cancel_def checkS_def bindS_def split: sum.splits prod.splits if_splits)
qed

lemma op_of_append:
  "db_ops d' = db_ops d @ [p] \<Longrightarrow> op_of d' i = (case op_of d i of None \<Rightarrow> if Op_ID p = i then Some p else None | Some q \<Rightarrow> Some q)"
  by (simp add: op_of_def tbl_get_append split: option.split)

text \<open>A write that leaves claimed and finished rows alone, as scheduling and cancelling do.\<close>

definition op_calm :: "db \<Rightarrow> db \<Rightarrow> bool" where
  "op_calm d d' \<longleftrightarrow> (ops_ok d \<longrightarrow> ops_ok d') \<and> (\<forall>p. op_finished d p \<longrightarrow> op_finished d' p)
     \<and> (\<forall>i t. op_held d i \<and> op_held_since d i = Some t \<longrightarrow> op_held d' i \<and> op_held_since d' i = Some t)"

lemma op_calm_create:
  assumes "length newId = 16" "db_ops d' = db_ops d @ [p]" "op_of d (Op_ID p) = None" "Op_ID p = formatUUID newId"
  shows "op_calm d d'"
proof -
  have "Op_ID p \<notin> set (map Op_ID (db_ops d))" using assms(3) by (auto simp: op_of_def tbl_get_None_iff)
  then have "ops_ok d \<longrightarrow> ops_ok d'" using assms(1,2,4) by (simp add: ops_ok_def) blast
  then show ?thesis using assms(2)
    by (auto simp: op_calm_def op_finished_def op_held_def op_held_since_def op_of_append[OF assms(2)] split: option.splits)
qed

lemma op_calm_cancel: "op_calm d (update_ops (op_in u ScheduledOperationStatus_PENDING) (\<lambda>p. p\<lparr>Op_Status := ScheduledOperationStatus_CANCELED\<rparr>) d)"
proof -
  have "op_finished (update_ops (op_in u ScheduledOperationStatus_PENDING) (\<lambda>p. p\<lparr>Op_Status := ScheduledOperationStatus_CANCELED\<rparr>) d) p"
    if "op_finished d p" for p
    by (rule op_finished_update[OF that]) (use that in \<open>auto simp: op_finished_def op_in_def\<close>)
  moreover have "op_of (update_ops (op_in u ScheduledOperationStatus_PENDING) (\<lambda>p. p\<lparr>Op_Status := ScheduledOperationStatus_CANCELED\<rparr>) d) i = op_of d i"
    if "op_held d i" for i
    using that by (cases "op_of d i") (auto simp: op_of_update op_in_def op_held_def)
  ultimately show ?thesis by (simp add: op_calm_def ops_ok_update op_held_def op_held_since_def)
qed

lemma op_calm_refl: "db_ops d' = db_ops d \<Longrightarrow> op_calm d d'"
  by (simp add: op_calm_def ops_frame[of d' d])

lemma op_calm_exclusive: "op_calm d d' \<Longrightarrow> ops.exclusive d fs \<Longrightarrow> ops.exclusive d' fs"
  by (auto simp: op_calm_def ops.exclusive_def)

lemma op_create_calm:
  "length newId = 16 \<Longrightarrow> onDb c (ScheduledOp_Create oc pg newId (lv_db c) caller params) = (r, c') \<Longrightarrow> op_calm (lv_db c) (lv_db c')"
  using ScheduledOp_Create_cases[of newId oc pg "lv_db c" caller params] op_calm_create[of newId] op_calm_refl
  by (cases "ScheduledOp_Create oc pg newId (lv_db c) caller params") (fastforce simp: onDb_def)

lemma op_cancel_calm: "onDb c (ScheduledOp_Cancel pg (lv_db c) caller i) = (r, c') \<Longrightarrow> op_calm (lv_db c) (lv_db c')"
  using ScheduledOp_Cancel_cases[of pg "lv_db c" caller i] op_calm_cancel op_calm_refl
  by (cases "ScheduledOp_Cancel pg (lv_db c) caller i") (fastforce simp: onDb_def)

lemma op_dispatchOnce_claim:
  assumes "op_dispatchOnce e c = (ops, c')"
  shows "claim_ops (sexec_instanceID e, sexec_batchSize e) (lv_db c) = (map Op_ID ops, lv_db c')"
    and "p \<in> set ops \<Longrightarrow> Op_ClaimedAt p = Some (db_now (lv_db c))"
proof -
  show "claim_ops (sexec_instanceID e, sexec_batchSize e) (lv_db c) = (map Op_ID ops, lv_db c')"
    using assms by (auto simp: op_dispatchOnce_def onDb_def split: prod.splits sum.splits)
  show "Op_ClaimedAt p = Some (db_now (lv_db c))" if "p \<in> set ops"
    using assms that by (auto simp: op_dispatchOnce_def onDb_def OpRepository_ClaimDue_def map_errS_def
      q_ClaimDueScheduledSessionOperations_def writeQ_def Let_def split: prod.splits sum.splits option.splits if_splits)
qed

lemma op_sweep_eq:
  "in32 (sexec_staleAfter e div Second) \<Longrightarrow> op_sweep e c = c\<lparr>lv_db := sweep_ops (sexec_staleAfter e div Second) (lv_db c)\<rparr>"
  by (simp add: op_sweep_def onDb_def OpRepository_ReleaseStaleClaims_def sweep_ops_def)

lemma op_scan_ok:
  assumes "lawful_scan pg" "ops_ok d" "op_held d i"
  shows "parseUUID pg i = Inr i"
proof -
  obtain p where "op_of d i = Some p" using assms(3) by (auto simp: op_held_def)
  then show ?thesis using assms(1,2) op_ID_of[of d i p] by (force simp: lawful_scan_def ops_ok_def parseUUID_def)
qed

text \<open>The flights of a state as the queue sees them, and a state in which no claim is overdue.\<close>

definition op_flight :: "string \<times> ScheduledSessionOperation \<Rightarrow> string \<times> time" where
  "op_flight f = (Op_ID (snd f), case Op_ClaimedAt (snd f) of Some t \<Rightarrow> t | None \<Rightarrow> 0)"

definition op_timely :: "time \<Rightarrow> 'w ops_state \<Rightarrow> bool" where
  "op_timely staleAfter s \<longleftrightarrow> (\<forall>f \<in> set (snd s). db_now (lv_db (fst s)) - staleAfter div Second * Second \<le> snd (op_flight f))"

definition ops_inv :: "'w ops_state \<Rightarrow> bool" where
  "ops_inv s \<longleftrightarrow> ops_ok (lv_db (fst s)) \<and> ops.exclusive (lv_db (fst s)) (map op_flight (snd s))"

lemma op_flight_simps [simp]: "fst (op_flight f) = Op_ID (snd f)"
  by (simp add: op_flight_def)

lemma op_record_inv:
  assumes scan: "lawful_scan pg" and fr: "frame c (snd r)" and inv: "ops_inv (c, F)" and f: "f \<in> set F"
  shows "ops_inv (record_op pg (Op_ID (snd f)) r, remove1 f F)"
proof -
  have same: "db_ops (lv_db (snd r)) = db_ops (lv_db c)" using fr by (simp add: frame_def host_frame_simps)
  have ok: "ops_ok (lv_db (snd r))" and ex: "ops.exclusive (lv_db (snd r)) (map op_flight F)"
    using inv by (simp_all add: ops_inv_def ops_frame(1)[OF same] op_exclusive_frame[OF same])
  have g: "op_flight f \<in> set (map op_flight F)" using f by simp
  have rem: "map op_flight (remove1 f F) = remove1 (op_flight f) (map op_flight F)"
    using ex f by (intro map_remove1_distinct) (simp_all add: ops.exclusive_def)
  have held: "op_held (lv_db (snd r)) (Op_ID (snd f))" using ex g by (auto simp: ops.exclusive_def op_flight_def)
  show ?thesis
  proof (cases "fst r")
    case None
    then show ?thesis using ok ops.exclusive_remove1[OF ex] by (simp add: record_op_def ops_inv_def rem)
  next
    case (Some m)
    then show ?thesis
      using ok ops.exclusive_settle[OF ok ex g, of m] op_scan_ok[OF scan ok held]
      by (simp add: record_op_def ops_inv_def rem settle_op_frame del: settle_op.simps)
  qed
qed

lemma op_step_inv:
  assumes scan: "lawful_scan pg" and st: "in32 (staleAfter div Second)"
    and step: "op_step con pg staleAfter s t" and tm: "op_timely staleAfter s" and inv: "ops_inv s"
  shows "ops_inv t"
  using step
proof cases
  case (create newId c oc caller params r c' F)
  then show ?thesis using inv op_create_calm[OF create(3,4)] op_calm_exclusive by (auto simp: ops_inv_def op_calm_def)
next
  case (cancel c caller i r c' F)
  then show ?thesis using inv op_cancel_calm[OF cancel(3)] op_calm_exclusive by (auto simp: ops_inv_def op_calm_def)
next
  case (claim e c ops c' F)
  note cl = op_dispatchOnce_claim[OF claim(3)]
  have ok: "ops_ok (lv_db c)" and ex: "ops.exclusive (lv_db c) (map op_flight F)" using inv claim by (simp_all add: ops_inv_def)
  have "map op_flight (map (Pair (sexec_instanceID e)) ops) = map (\<lambda>i. (i, db_now (lv_db c))) (map Op_ID ops)"
    using cl(2) by (simp add: op_flight_def)
  then have "ops.exclusive (lv_db c') (map op_flight (F @ map (Pair (sexec_instanceID e)) ops))"
    using ops.exclusive_claim[OF ok ex cl(1)] by (simp only: map_append)
  then show ?thesis using ops.claim_ok[OF ok cl(1)] claim by (simp add: ops_inv_def)
next
  case (execute f F env c e)
  have "ops_inv (record_op pg (Op_ID (snd f)) (op_outcome_of con env e c (snd f)), remove1 f F)"
    by (rule op_record_inv[OF scan op_outcome_frame _ execute(3)]) (use inv execute in simp)
  then show ?thesis using execute(2,4) by (simp add: op_executeOne_record)
next
  case (crash c F w)
  have "ops.exclusive (lv_db c) (map op_flight (filter (\<lambda>f. fst f \<noteq> w) F))"
    by (rule ops.exclusive_mono[of _ "map op_flight F"]) (use inv crash in \<open>auto simp: ops_inv_def ops.exclusive_def distinct_map_filter comp_def\<close>)
  then show ?thesis using inv crash by (simp add: ops_inv_def)
next
  case (sweep e c F)
  have ok: "ops_ok (lv_db c)" and ex: "ops.exclusive (lv_db c) (map op_flight F)" using inv sweep by (simp_all add: ops_inv_def)
  have "ops.exclusive (sweep_ops (staleAfter div Second) (lv_db c)) (map op_flight F)"
    by (rule ops.exclusive_sweep[OF ok ex]) (use tm sweep in \<open>auto simp: op_timely_def\<close>)
  then show ?thesis using ops.sweep_ok[OF ok] sweep st by (simp add: ops_inv_def op_sweep_eq)
next
  case (other c' c F)
  then show ?thesis using inv by (simp add: ops_inv_def ops_frame(1)[of "lv_db c'" "lv_db c"] op_exclusive_frame[of "lv_db c'" "lv_db c"])
qed

lemma op_step_finished:
  assumes st: "in32 (staleAfter div Second)" and step: "op_step con pg staleAfter s t"
    and ok: "ops_ok (lv_db (fst s))" and fin: "op_finished (lv_db (fst s)) r"
  shows "ops_ok (lv_db (fst t)) \<and> op_finished (lv_db (fst t)) r"
  using step
proof cases
  case (create newId c oc caller params r c' F)
  then show ?thesis using op_create_calm[OF create(3,4)] ok fin by (simp add: op_calm_def)
next
  case (cancel c caller i r c' F)
  then show ?thesis using op_cancel_calm[OF cancel(3)] ok fin by (simp add: op_calm_def)
next
  case (claim e c ops c' F)
  note cl = op_dispatchOnce_claim(1)[OF claim(3)]
  show ?thesis using ops.claim_ok[OF _ cl] ops.claim_finished[OF _ cl] claim ok fin by simp
next
  case (execute f F env c e)
  define x where "x = op_outcome_of con env e c (snd f)"
  have same: "db_ops (lv_db (snd x)) = db_ops (lv_db c)"
    using op_outcome_frame[of c con env e "snd f"] by (simp add: x_def frame_def host_frame_simps)
  then have "ops_ok (lv_db (snd x))" "op_finished (lv_db (snd x)) r" using ok fin execute by (simp_all add: ops_frame(1,5)[OF same])
  then show ?thesis using execute ops.settle_ok ops.settle_finished
    by (simp add: op_executeOne_record x_def[symmetric] record_op_def del: settle_op.simps split: option.split sum.split)
next
  case (sweep e c F)
  then show ?thesis using st ok fin ops.sweep_ok ops.sweep_finished by (simp add: op_sweep_eq)
next
  case (other c' c F)
  then show ?thesis using ok fin by (simp add: ops_frame(1,5)[of "lv_db c'" "lv_db c"])
qed (use ok fin in simp)

lemma ops_finished_star:
  assumes "in32 (staleAfter div Second)" "(op_step con pg staleAfter)\<^sup>*\<^sup>* s t" "ops_ok (lv_db (fst s))" "op_finished (lv_db (fst s)) r"
  shows "op_of (lv_db (fst t)) (Op_ID r) = Some r"
proof -
  have "step_invariant (op_step con pg staleAfter) (\<lambda>s. ops_ok (lv_db (fst s)) \<and> op_finished (lv_db (fst s)) r)"
    by unfold_locales (use op_step_finished[OF assms(1)] in blast)
  then have "ops_ok (lv_db (fst t)) \<and> op_finished (lv_db (fst t)) r"
    by (rule step_invariant.reach_inv[OF _ assms(2)]) (use assms in simp)
  then show ?thesis using op_of_row by (auto simp: op_finished_def)
qed

section \<open>Properties\<close>

text \<open>
  C28: an operation is executed by at most one worker, and never once it is settled or cancelled. In every
  history of scheduling, cancelling, claims, executions, crashes and sweeps by any number of instances in
  which no operation is in flight for longer than \<open>staleAfter\<close>, the operations in flight are all
  different and RUNNING, and a row that was SUCCEEDED, FAILED or CANCELED before is still exactly as it
  was and is not in flight.
\<close>

theorem op_exclusive:
  assumes "lawful_scan pg" "in32 (staleAfter div Second)" "ops_ok (lv_db c0)"
    and "(\<lambda>s t. op_step con pg staleAfter s t \<and> op_timely staleAfter s)\<^sup>*\<^sup>* (c0, []) (c, F)"
  shows "distinct (map (\<lambda>f. Op_ID (snd f)) F) \<and> (\<forall>f \<in> set F. op_held (lv_db c) (Op_ID (snd f))) \<and>
     (\<forall>r. op_finished (lv_db c0) r \<longrightarrow> op_of (lv_db c) (Op_ID r) = Some r \<and> (\<forall>f \<in> set F. Op_ID (snd f) \<noteq> Op_ID r))"
proof -
  have "step_invariant (\<lambda>s t. op_step con pg staleAfter s t \<and> op_timely staleAfter s) ops_inv"
    by unfold_locales (use op_step_inv[OF assms(1,2)] in blast)
  then have inv: "ops_inv (c, F)"
    by (rule step_invariant.reach_inv[OF _ assms(4)]) (simp add: ops_inv_def assms(3))
  have d: "distinct (map (\<lambda>f. Op_ID (snd f)) F)" using inv by (simp add: ops_inv_def ops.exclusive_def comp_def)
  have h: "op_held (lv_db c) (Op_ID (snd f))" if "f \<in> set F" for f
    using inv that by (force simp: ops_inv_def ops.exclusive_def op_flight_def)
  have run: "(op_step con pg staleAfter)\<^sup>*\<^sup>* (c0, []) (c, F)" by (rule rtranclp_mono[THEN predicate2D, OF _ assms(4)]) auto
  have fin: "op_of (lv_db c) (Op_ID r) = Some r" "Op_Status r \<noteq> ScheduledOperationStatus_RUNNING" if "op_finished (lv_db c0) r" for r
    using ops_finished_star[OF assms(2) run] assms(3) that by (auto simp: op_finished_def)
  have "Op_ID (snd f) \<noteq> Op_ID r" if "op_finished (lv_db c0) r" "f \<in> set F" for f r
    using h[OF that(2)] fin[OF that(1)] by (auto simp: op_held_def)
  then show ?thesis using d h fin(1) by blast
qed

text \<open>The user an operation runs as, when there still is one.\<close>

definition op_creator :: "db \<Rightarrow> ScheduledSessionOperation \<Rightarrow> string option" where
  "op_creator d op = (case Op_CreatedBy op of
      Some u \<Rightarrow> if u \<noteq> [] \<and> tbl_exists (\<lambda>x. User_ID x = u) (db_users d) then Some u else None | None \<Rightarrow> None)"

text \<open>A row as an outcome leaves it.\<close>

fun op_settled :: "time \<Rightarrow> op_outcome \<Rightarrow> ScheduledSessionOperation \<Rightarrow> ScheduledSessionOperation" where
  "op_settled now OpSucceeded p = p\<lparr>Op_Status := ScheduledOperationStatus_SUCCEEDED, Op_ExecutedAt := Some now,
     Op_LastError := None, Op_ClaimedBy := None, Op_ClaimedAt := None\<rparr>"
| "op_settled now (OpFailed msg) p = p\<lparr>Op_Status := ScheduledOperationStatus_FAILED, Op_ExecutedAt := Some now,
     Op_LastError := Some msg, Op_ClaimedBy := None, Op_ClaimedAt := None\<rparr>"
| "op_settled now (OpRequeue t) p = p\<lparr>Op_Status := ScheduledOperationStatus_PENDING, Op_NextFireAt := t,
     Op_ClaimedBy := None, Op_ClaimedAt := None\<rparr>"

lemma settle_op_rows:
  assumes "no_faults d" "op_of d i = Some row" "Op_Status row = ScheduledOperationStatus_RUNNING"
  shows "op_of (settle_op m i d) k = (if k = i then Some (op_settled (db_now d) m row) else op_of d k)"
proof -
  have i: "Op_ID row = i" using op_ID_of[OF assms(2)] by simp
  have k: "map_option (\<lambda>p. if op_in i st p then f p else p) (op_of d k) = op_of d k" if "k \<noteq> i" for st f
    using that op_ID_of[of d k] by (cases "op_of d k") (auto simp: op_in_def)
  show ?thesis using assms i k
    by (cases m) (auto simp: q_MarkScheduledSessionOperationSucceeded_def q_MarkScheduledSessionOperationFailed_def
        q_RequeueScheduledSessionOperation_def update_op_in_def op_of_update op_in_def)
qed

lemma op_outcome_nf:
  assumes "no_faults (lv_db c)"
  shows "op_outcome_of con env e c op = (case op_creator (lv_db c) op of
       None \<Rightarrow> op_fail env (ErrMsg (if blank_ptr (Op_CreatedBy op) then ''scheduled operation has no created_by''
                                     else ''created_by user does not exist'')) c
     | Some u \<Rightarrow> (case op_check env c op of
           Inl err \<Rightarrow> op_fail env err c
         | Inr (ready, next) \<Rightarrow> if ready then op_act con env c op
             else (Some (OpRequeue (case next of None \<Rightarrow> db_now (lv_db c) + sexec_tickInterval e | Some t \<Rightarrow> t)), c)))"
  by (auto simp: op_outcome_of_def op_creator_def UserExistsByID_nf[OF assms] getter_def split: option.split)

text \<open>
  C29: what a run of an operation does. On a working database, a run of an operation whose row is RUNNING
  changes no other operation, and: without a living creator, or when the trigger cannot be read or will
  never fire, the row is FAILED and nothing else changes; when the trigger is not ready the row waits
  again until the next look and nothing else changes; when it is ready the action runs with the
  permissions of the creator and the row is SUCCEEDED or FAILED as the action says (a panic leaves it as it
  is). In particular an operation with a time in the future does nothing but wait for that time.
\<close>

theorem op_executeOne_effect:
  assumes "no_faults (lv_db c)" "lawful_scan (oe_pg env)" "ops_ok (lv_db c)"
    "op_of (lv_db c) (Op_ID op) = Some row" "Op_Status row = ScheduledOperationStatus_RUNNING"
    and run: "op_executeOne con env e c op = c'"
  shows "(\<exists>m c1. (case op_creator (lv_db c) op of
          None \<Rightarrow> c1 = c \<and> (\<exists>msg. m = Some (OpFailed msg))
        | Some u \<Rightarrow>
            (case DecodeTrigger (oe_codec env) (Op_TriggerType op) (Op_TriggerConfig op) of
               Inl err \<Rightarrow> c1 = c \<and> m = Some (OpFailed (oe_errText env err))
             | Inr trig \<Rightarrow>
                 (case Trigger_Evaluate (db_now (lv_db c)) (Some (lv_cache c, lv_db c)) trig of
                    Inl err \<Rightarrow> c1 = c \<and> m = Some (OpFailed (oe_errText env err))
                  | Inr (False, next) \<Rightarrow> c1 = c \<and> (\<exists>t. m = Some (OpRequeue t) \<and> (next = Some t \<or> next = None))
                  | Inr (True, _) \<Rightarrow>
                      (case DecodeAction (oe_codec env) (Op_OperationType op) (Op_OperationPayload op) of
                         Inl err \<Rightarrow> c1 = c \<and> m = Some (OpFailed (oe_errText env err))
                       | Inr act \<Rightarrow>
                           (case Action_Execute con (oe_session env) (oe_codec env) c (Some u) act of
                              (Inl err, c2) \<Rightarrow> c1 = c2 \<and> m = (if is_panic err then None else Some (OpFailed (oe_errText env err)))
                            | (Inr _, c2) \<Rightarrow> c1 = c2 \<and> m = Some OpSucceeded)))))
      \<and> op_of (lv_db c') (Op_ID op) = Some (case m of None \<Rightarrow> row | Some out \<Rightarrow> op_settled (db_now (lv_db c)) out row)
      \<and> ct_world c' = ct_world c1 \<and> lv_cache c' = lv_cache c1
      \<and> db_sessions (lv_db c') = db_sessions (lv_db c1) \<and> db_hosts (lv_db c') = db_hosts (lv_db c1))
    \<and> (\<forall>i. i \<noteq> Op_ID op \<longrightarrow> op_of (lv_db c') i = op_of (lv_db c) i)
    \<and> (\<forall>u at. op_creator (lv_db c) op = Some u \<longrightarrow>
         DecodeTrigger (oe_codec env) (Op_TriggerType op) (Op_TriggerConfig op) = Inr (TimeTrigger (Some at)) \<longrightarrow> db_now (lv_db c) < at \<longrightarrow>
         op_of (lv_db c') (Op_ID op) = Some (op_settled (db_now (lv_db c)) (OpRequeue at) row) \<and> ct_world c' = ct_world c)"
proof -
  obtain m c1 where out: "op_outcome_of con env e c op = (m, c1)" by force
  have fr: "frame c c1" using op_outcome_frame[of c con env e op] out by simp
  then have same: "db_ops (lv_db c1) = db_ops (lv_db c)" and now: "db_now (lv_db c1) = db_now (lv_db c)" and nf: "no_faults (lv_db c1)"
    using assms(1) by (simp_all add: frame_def host_frame_simps no_faults_def)
  have row: "op_of (lv_db c1) (Op_ID op) = Some row" using assms(4) by (simp add: ops_frame(2)[OF same])
  have sc: "parseUUID (oe_pg env) (Op_ID op) = Inr (Op_ID op)"
    using op_scan_ok[OF assms(2,3)] assms(4,5) by (simp add: op_held_def)
  have c': "c' = (case m of None \<Rightarrow> c1 | Some x \<Rightarrow> c1\<lparr>lv_db := settle_op x (Op_ID op) (lv_db c1)\<rparr>)"
    using run sc out by (cases m) (simp_all add: op_executeOne_record record_op_def)
  have rows: "op_of (lv_db c') i = (if i = Op_ID op then Some (case m of None \<Rightarrow> row | Some x \<Rightarrow> op_settled (db_now (lv_db c)) x row)
      else op_of (lv_db c) i)" for i
    using settle_op_rows[OF nf row assms(5), of _ i] row now
    by (cases m) (simp_all add: c' ops_frame(2)[OF same] del: settle_op.simps)
  have rest: "db_sessions (settle_op x i d) = db_sessions d \<and> db_hosts (settle_op x i d) = db_hosts d" for x i d
    using settle_op_cases[of x i d] by (auto simp: update_ops_def simp del: settle_op.simps)
  have world: "ct_world c' = ct_world c1" "lv_cache c' = lv_cache c1" "db_sessions (lv_db c') = db_sessions (lv_db c1)"
    "db_hosts (lv_db c') = db_hosts (lv_db c1)"
    using rest by (cases m; simp add: c' del: settle_op.simps)+
  have cr: "op_creator (lv_db c) op = Some u \<Longrightarrow> getter (Op_CreatedBy op) = u" for u
    by (auto simp: op_creator_def getter_def split: option.splits if_splits)
  note eqn = out[unfolded op_outcome_nf[OF assms(1)]]
  show ?thesis
  proof (intro conjI exI[of _ m] exI[of _ c1], goal_cases)
    case 1
    show ?case
      using eqn cr by (auto simp: op_fail_def op_check_def op_act_def bindR_def split: option.splits sum.splits prod.splits if_splits bool.splits)
  next
    case 8
    show ?case
      using eqn rows world by (auto simp: op_check_def TimeTrigger_Evaluate_def)
  qed (use rows world in auto)
qed

text \<open>
  With the default settings the claims of a batch outlive its runs: sixteen operations behind a semaphore
  of four, each within the action timeout and the time allowed for recording its outcome, are done before
  any of their claims goes stale.
\<close>

definition default_op_executor :: "string \<Rightarrow> ScheduledOperationExecutor" where
  "default_op_executor w = NewScheduledOperationExecutor None \<lparr>sexec_instanceID = w, sexec_tickInterval = 0, sexec_staleAfter = 0,
     sexec_staleSweepEvry = 0, sexec_batchSize = 0, sexec_concurrency = 0\<rparr>"

lemma default_op_executor_simps [simp]:
  "sexec_instanceID (default_op_executor (x # w)) = x # w" "sexec_staleAfter (default_op_executor w) = 10 * Minute"
  "sexec_batchSize (default_op_executor w) = 16" "sexec_concurrency (default_op_executor w) = 4"
  by (simp_all add: default_op_executor_def NewScheduledOperationExecutor_def)

lemma default_op_batch_within_claims:
  assumes "length ds \<le> nat (sexec_batchSize (default_op_executor w))"
    "\<forall>d \<in> set ds. d \<le> defaultExecutorActionTimeout + persistTimeout" "n < length ds"
  shows "batch_finish (nat (sexec_concurrency (default_op_executor w))) ds ! n < sexec_staleAfter (default_op_executor w)"
proof -
  have "batch_finish 4 ds ! n \<le> (int (n div 4) + 1) * (2 * Minute + 10 * Second)"
    by (rule batch_finish_bound) (use assms in \<open>auto simp: defaultExecutorActionTimeout_def persistTimeout_def\<close>)
  also have "\<dots> \<le> 4 * (2 * Minute + 10 * Second)" using assms(1,3) by simp
  finally show ?thesis by simp
qed

section \<open>Instances\<close>

definition op_ctl :: "ScheduledSessionOperation list \<Rightarrow> string set ctl" where
  "op_ctl ps = host_ctl\<lparr>lv_db := (lv_db host_ctl)\<lparr>db_ops := ps\<rparr>\<rparr>"

definition plain_op_env :: op_env where
  "plain_op_env = \<lparr>oe_pg = plain_pg, oe_codec = plain_op_codec, oe_session = je_session plain_env, oe_errText = (\<lambda>_. ''error'')\<rparr>"

definition waiting_op :: ScheduledSessionOperation where
  "waiting_op = (plain_op sample_uuid ''s1'' 0)\<lparr>Op_CreatedBy := Some SystemUserID\<rparr>"

definition cancelled_op :: ScheduledSessionOperation where
  "cancelled_op = (plain_op other_uuid ''s1'' 0)\<lparr>Op_Status := ScheduledOperationStatus_CANCELED\<rparr>"

lemma op_ctl_ok:
  "no_faults (lv_db (op_ctl ps))" "db_ops (lv_db (op_ctl ps)) = ps"
  "set (map Op_ID ps) \<subseteq> {formatUUID sample_uuid, formatUUID other_uuid} \<Longrightarrow> distinct (map Op_ID ps) \<Longrightarrow> ops_ok (lv_db (op_ctl ps))"
proof -
  show "no_faults (lv_db (op_ctl ps))" "db_ops (lv_db (op_ctl ps)) = ps" using host_ctl_ok(1) by (simp_all add: op_ctl_def no_faults_def)
  have len: "length sample_uuid = 16" "length other_uuid = 16" by (simp_all add: sample_uuid_def other_uuid_def)
  show "ops_ok (lv_db (op_ctl ps))" if "set (map Op_ID ps) \<subseteq> {formatUUID sample_uuid, formatUUID other_uuid}" "distinct (map Op_ID ps)"
    unfolding ops_ok_def op_ctl_def using that len by (auto simp del: set_map)
qed

theorem op_exclusive_witness:
  "\<exists>c F. F \<noteq> [] \<and> distinct (map (\<lambda>f. Op_ID (snd f)) F) \<and> op_of (lv_db c) (formatUUID other_uuid) = Some cancelled_op
     \<and> (\<lambda>s t. op_step set_runtime plain_pg (10 * Minute) s t \<and> op_timely (10 * Minute) s)\<^sup>*\<^sup>* (op_ctl [waiting_op, cancelled_op], []) (c, F)"
proof -
  let ?A = "default_op_executor ''A''" and ?c0 = "op_ctl [waiting_op, cancelled_op]"
  have "map Op_ID (fst (op_dispatchOnce ?A ?c0)) = [formatUUID sample_uuid]" by code_simp
  then obtain p where p: "fst (op_dispatchOnce ?A ?c0) = [p]" by auto
  have "op_step set_runtime plain_pg (10 * Minute) (?c0, []) (snd (op_dispatchOnce ?A ?c0), [] @ map (Pair (sexec_instanceID ?A)) [p])"
    by (rule op_step.claim) (simp add: prod_eq_iff p)
  then have run: "(\<lambda>s t. op_step set_runtime plain_pg (10 * Minute) s t \<and> op_timely (10 * Minute) s)\<^sup>*\<^sup>* (?c0, [])
      (snd (op_dispatchOnce ?A ?c0), [(''A'', p)])"
    by (auto simp: op_timely_def intro: r_into_rtranclp)
  have "formatUUID sample_uuid \<noteq> formatUUID other_uuid" by code_simp
  then have ok: "ops_ok (lv_db ?c0)" by (intro op_ctl_ok(3)) (simp_all add: waiting_op_def cancelled_op_def plain_op_def)
  have fin: "op_finished (lv_db ?c0) cancelled_op" by (simp add: op_finished_def op_ctl_ok(2)) (simp add: cancelled_op_def)
  have i: "Op_ID cancelled_op = formatUUID other_uuid" by (simp add: cancelled_op_def plain_op_def)
  have st: "in32 (10 * Minute div Second)" by (simp add: in32_def)
  note ex = op_exclusive[OF plain_pg_lawful st ok run]
  show ?thesis
    by (intro exI[of _ "snd (op_dispatchOnce ?A ?c0)"] exI[of _ "[(''A'', p)]"]) (use ex fin i run in auto)
qed

definition future_op :: ScheduledSessionOperation where
  "future_op = claim_op ''A'' 0 waiting_op"

theorem op_executeOne_effect_witness:
  "op_of (lv_db (op_executeOne set_runtime plain_op_env (default_op_executor ''A'') (op_ctl [future_op]) future_op)) (formatUUID sample_uuid)
     = Some (op_settled 0 (OpRequeue 40) future_op)"
proof -
  let ?c = "op_ctl [future_op]"
  have i: "Op_ID future_op = formatUUID sample_uuid" by (simp add: future_op_def waiting_op_def plain_op_def)
  have ok: "ops_ok (lv_db ?c)" by (rule op_ctl_ok(3)) (simp_all add: i)
  have row: "op_of (lv_db ?c) (Op_ID future_op) = Some future_op" by (simp add: op_of_def op_ctl_ok(2))
  have st: "Op_Status future_op = ScheduledOperationStatus_RUNNING" by (simp add: future_op_def)
  have sc: "lawful_scan (oe_pg plain_op_env)" using plain_pg_lawful by (simp add: plain_op_env_def)
  have cr: "op_creator (lv_db ?c) future_op = Some SystemUserID" by code_simp
  have tr: "DecodeTrigger (oe_codec plain_op_env) (Op_TriggerType future_op) (Op_TriggerConfig future_op) = Inr (TimeTrigger (Some 40))"
    by code_simp
  have now: "db_now (lv_db ?c) = 0" by code_simp
  show ?thesis
    using op_executeOne_effect[OF op_ctl_ok(1) sc ok row st refl, of set_runtime "default_op_executor ''A''"] cr tr now i by simp
qed

end
