(* ===== verification/Orchestrator.thy ===== *)
theory Orchestrator
  imports Frames SessionEvents "HOL-Library.AList"
begin

text \<open>
  The rollout of new container images: \<open>worker/image_checker.go\<close>, which polls the registry, and
  \<open>worker/host_upgrade_orchestrator.go\<close>, which drains the hosts that opted in and restarts them on the
  new tag. The per-host lock makes a reconciliation atomic for its host, so it is one step here; the
  goroutine of \<open>OnNewImage\<close> is its body. A response without a configuration is an error of the call. The
  pull of an image warms a cache of the runtime and is left out.
\<close>

section \<open>State\<close>

record drainState =
  drain_targetTag :: string
  drain_restartParms :: HeadlessHostStartParams
  drain_attempts :: nat

record HostUpgradeOrchestrator =
  orc_drainTargets :: "(string \<times> drainState) list"
  orc_sessionUsers :: "(string \<times> (string \<times> int32) list) list"
  orc_sessionStopper :: bool

record 'w fleet =
  fl_ctl :: "'w ctl"
  fl_orc :: HostUpgradeOrchestrator

definition defaultRestartStopTimeoutSeconds :: int where "defaultRestartStopTimeoutSeconds = 180"
definition defaultMaxRestartAttempts :: nat where "defaultMaxRestartAttempts = 5"

definition NewHostUpgradeOrchestrator :: HostUpgradeOrchestrator where
  "NewHostUpgradeOrchestrator = \<lparr>orc_drainTargets = [], orc_sessionUsers = [], orc_sessionStopper = False\<rparr>"

definition SetSessionStopper :: "HostUpgradeOrchestrator \<Rightarrow> HostUpgradeOrchestrator" where
  "SetSessionStopper orc = orc\<lparr>orc_sessionStopper := True\<rparr>"

definition IsHostDraining :: "HostUpgradeOrchestrator \<Rightarrow> string \<Rightarrow> bool" where
  "IsHostDraining orc hostID \<longleftrightarrow> map_of (orc_drainTargets orc) hostID \<noteq> None"

section \<open>User counts\<close>

definition host_counts :: "HostUpgradeOrchestrator \<Rightarrow> string \<Rightarrow> (string \<times> int32) list" where
  "host_counts orc hostID = (case map_of (orc_sessionUsers orc) hostID of None \<Rightarrow> [] | Some m \<Rightarrow> m)"

definition bumpUserCount :: "HostUpgradeOrchestrator \<Rightarrow> string \<Rightarrow> string \<Rightarrow> int32 \<Rightarrow> HostUpgradeOrchestrator" where
  "bumpUserCount orc hostID sessionID delta =
     (if hostID = [] \<or> sessionID = [] then orc
      else
        let hostMap = host_counts orc hostID;
            old = (case map_of hostMap sessionID of None \<Rightarrow> 0 | Some n \<Rightarrow> n)
        in orc\<lparr>orc_sessionUsers := AList.update hostID (AList.update sessionID (max (wrap32 (old + delta)) 0) hostMap) (orc_sessionUsers orc)\<rparr>)"

definition forgetSession :: "HostUpgradeOrchestrator \<Rightarrow> string \<Rightarrow> string \<Rightarrow> HostUpgradeOrchestrator" where
  "forgetSession orc hostID sessionID =
     (case map_of (orc_sessionUsers orc) hostID of
        None \<Rightarrow> orc
      | Some hostMap \<Rightarrow>
          let hostMap = AList.delete sessionID hostMap
          in orc\<lparr>orc_sessionUsers := (if hostMap = [] then AList.delete hostID (orc_sessionUsers orc)
                                      else AList.update hostID hostMap (orc_sessionUsers orc))\<rparr>)"

definition seedSessionUserCache :: "'w HostConnector \<Rightarrow> 'w ctl \<Rightarrow> HostUpgradeOrchestrator \<Rightarrow> string \<Rightarrow> unit res \<times> HostUpgradeOrchestrator" where
  "seedSessionUserCache con c orc hostID =
     checkS (HostRepository_GetRpcClient con (ct_world c) (lv_db c) hostID) orc (\<lambda>client.
     checkS (rpc_ListSessions client) orc (\<lambda>sessions.
     (Inr (), orc\<lparr>orc_sessionUsers := AList.update hostID
        (fold (\<lambda>s. AList.update (Snap_Id s) (Snap_UsersCount s)) sessions []) (orc_sessionUsers orc)\<rparr>)))"

text \<open>\<open>resp.GetSession().GetUsersCount()\<close> is 0 on a response without a session.\<close>

definition snap_UsersCount :: "SessionSnapshot option \<Rightarrow> int32" where
  "snap_UsersCount x = (case x of None \<Rightarrow> 0 | Some s \<Rightarrow> Snap_UsersCount s)"

definition fetchUserCountRPC ::
  "'w HostConnector \<Rightarrow> 'w ctl \<Rightarrow> HostUpgradeOrchestrator \<Rightarrow> string \<Rightarrow> string \<Rightarrow> int32 res \<times> HostUpgradeOrchestrator" where
  "fetchUserCountRPC con c orc hostID sessionID =
     checkS (HostRepository_GetRpcClient con (ct_world c) (lv_db c) hostID) orc (\<lambda>client.
     checkS (rpc_GetSession client sessionID) orc (\<lambda>resp.
     (Inr (snap_UsersCount resp), orc\<lparr>orc_sessionUsers :=
        AList.update hostID (AList.update sessionID (snap_UsersCount resp) (host_counts orc hostID)) (orc_sessionUsers orc)\<rparr>)))"

definition userCountForSession ::
  "'w HostConnector \<Rightarrow> 'w ctl \<Rightarrow> HostUpgradeOrchestrator \<Rightarrow> string \<Rightarrow> string \<Rightarrow> int32 res \<times> HostUpgradeOrchestrator" where
  "userCountForSession con c orc hostID sessionID =
     (case map_of (host_counts orc hostID) sessionID of
        Some cached \<Rightarrow> if cached > 0 then (Inr cached, orc) else fetchUserCountRPC con c orc hostID sessionID
      | None \<Rightarrow> fetchUserCountRPC con c orc hostID sessionID)"

section \<open>Reconciliation\<close>

definition runningSessionsForHost :: "db \<Rightarrow> string \<Rightarrow> Session list res" where
  "runningSessionsForHost d hostID =
     bindR (SessionRepository_ListByStatus d SessionStatus_RUNNING) (\<lambda>all. Inr (filter (\<lambda>s. Session_HostID s = hostID) all))"

definition stopSession :: "'w HostConnector \<Rightarrow> 'w fleet \<Rightarrow> string \<Rightarrow> unit res \<times> 'w ctl" where
  "stopSession con f sessionID =
     (if \<not> orc_sessionStopper (fl_orc f) then (Inl (ErrMsg ''upgrade-orchestrator: SessionStopper not wired''), fl_ctl f)
      else StopSession con (fl_ctl f) (Some SystemUserID) sessionID)"

definition restartHost :: "'w HostConnector \<Rightarrow> 'w ctl \<Rightarrow> string \<Rightarrow> drainState \<Rightarrow> unit res \<times> 'w ctl" where
  "restartHost con c hostID st =
     HostRepository_Restart con c hostID (drain_restartParms st) defaultRestartStopTimeoutSeconds"

definition leave :: "HostUpgradeOrchestrator \<Rightarrow> string \<Rightarrow> HostUpgradeOrchestrator" where
  "leave orc hostID = orc\<lparr>orc_drainTargets := AList.delete hostID (orc_drainTargets orc),
     orc_sessionUsers := AList.delete hostID (orc_sessionUsers orc)\<rparr>"

definition recordRestartFailure :: "HostUpgradeOrchestrator \<Rightarrow> string \<Rightarrow> HostUpgradeOrchestrator" where
  "recordRestartFailure orc hostID =
     (case map_of (orc_drainTargets orc) hostID of
        None \<Rightarrow> orc
      | Some st \<Rightarrow>
          let attempts = Suc (drain_attempts st) in
          if attempts \<ge> defaultMaxRestartAttempts then leave orc hostID
          else orc\<lparr>orc_drainTargets := AList.update hostID (st\<lparr>drain_attempts := attempts\<rparr>) (orc_drainTargets orc)\<rparr>)"

text \<open>The body of the loop over the running sessions: whether the session remains, and the new state.\<close>

definition drain_one :: "'w HostConnector \<Rightarrow> string \<Rightarrow> Session \<Rightarrow> 'w fleet \<Rightarrow> bool \<times> 'w fleet" where
  "drain_one con hostID s f =
     (let (count, orc) = userCountForSession con (fl_ctl f) (fl_orc f) hostID (Session_ID s);
          f = f\<lparr>fl_orc := orc\<rparr> in
      case count of
        Inl _ \<Rightarrow> (True, f)
      | Inr n \<Rightarrow>
          if n > 0 then (True, f)
          else (case stopSession con f (Session_ID s) of
                  (Inl _, c) \<Rightarrow> (True, f\<lparr>fl_ctl := c\<rparr>)
                | (Inr _, c) \<Rightarrow> (False, f\<lparr>fl_ctl := c, fl_orc := forgetSession (fl_orc f) hostID (Session_ID s)\<rparr>)))"

fun drain_sessions :: "'w HostConnector \<Rightarrow> string \<Rightarrow> Session list \<Rightarrow> 'w fleet \<Rightarrow> nat \<times> 'w fleet" where
  "drain_sessions con hostID [] f = (0, f)"
| "drain_sessions con hostID (s # ss) f =
     (let (remains, f) = drain_one con hostID s f; (remaining, f) = drain_sessions con hostID ss f
      in ((if remains then 1 else 0) + remaining, f))"

definition reconcileHost :: "'w HostConnector \<Rightarrow> 'w fleet \<Rightarrow> string \<Rightarrow> 'w fleet" where
  "reconcileHost con f hostID =
     (case map_of (orc_drainTargets (fl_orc f)) hostID of
        None \<Rightarrow> f
      | Some st \<Rightarrow>
          (case runningSessionsForHost (lv_db (fl_ctl f)) hostID of
             Inl _ \<Rightarrow> f
           | Inr sessions \<Rightarrow>
               let (remaining, f) = drain_sessions con hostID sessions f in
               if remaining > 0 then f
               else (case restartHost con (fl_ctl f) hostID st of
                       (Inl _, c) \<Rightarrow> f\<lparr>fl_ctl := c, fl_orc := recordRestartFailure (fl_orc f) hostID\<rparr>
                     | (Inr _, c) \<Rightarrow> f\<lparr>fl_ctl := c, fl_orc := leave (fl_orc f) hostID\<rparr>)))"

definition drainingHostIDs :: "HostUpgradeOrchestrator \<Rightarrow> string list" where
  "drainingHostIDs orc = map fst (orc_drainTargets orc)"

definition reconcileAllDraining :: "(string list \<Rightarrow> string list) \<Rightarrow> 'w HostConnector \<Rightarrow> 'w fleet \<Rightarrow> 'w fleet" where
  "reconcileAllDraining ord con f = fold (\<lambda>hid f. reconcileHost con f hid) (ord (drainingHostIDs (fl_orc f))) f"

section \<open>Events\<close>

definition Upgrade_HandleHostEvent :: "'w HostConnector \<Rightarrow> 'w fleet \<Rightarrow> string \<Rightarrow> HostEvent \<Rightarrow> 'w fleet" where
  "Upgrade_HandleHostEvent con f hostID ev =
     (let update = (case Event_Payload ev of
                      UserJoinedSession sid _ \<Rightarrow> Some (bumpUserCount (fl_orc f) hostID sid 1)
                    | UserLeftSession sid _ \<Rightarrow> Some (bumpUserCount (fl_orc f) hostID sid (- 1))
                    | SessionEnded sid \<Rightarrow> Some (forgetSession (fl_orc f) hostID sid)
                    | _ \<Rightarrow> None)
      in case update of
           None \<Rightarrow> f
         | Some orc \<Rightarrow> if IsHostDraining orc hostID then reconcileHost con (f\<lparr>fl_orc := orc\<rparr>) hostID else f\<lparr>fl_orc := orc\<rparr>)"

definition Upgrade_HandleHostEventStreamReset :: "'w HostConnector \<Rightarrow> 'w fleet \<Rightarrow> string \<Rightarrow> 'w fleet" where
  "Upgrade_HandleHostEventStreamReset con f hostID =
     (let orc = (fl_orc f)\<lparr>orc_sessionUsers := AList.delete hostID (orc_sessionUsers (fl_orc f))\<rparr> in
      if IsHostDraining orc hostID
      then reconcileHost con (f\<lparr>fl_orc := snd (seedSessionUserCache con (fl_ctl f) orc hostID)\<rparr>) hostID
      else f\<lparr>fl_orc := orc\<rparr>)"

section \<open>Enrolment\<close>

definition enroll_state :: "HeadlessHost \<Rightarrow> string \<Rightarrow> StartupConfig \<Rightarrow> HeadlessAccount \<Rightarrow> drainState" where
  "enroll_state host targetTag startupConfig account = \<lparr>drain_targetTag = targetTag,
     drain_restartParms = \<lparr>Start_Name = HH_Name host, Start_ContainerImageTag = targetTag, Start_HeadlessAccount = account,
       Start_StartupConfig = Some startupConfig, Start_AutoUpdatePolicy = HH_AutoUpdatePolicy host, Start_Memo = HH_Memo host,
       Start_GroupID = []\<rparr>,
     drain_attempts = 0\<rparr>"

definition snapshot_host :: "'w HostConnector \<Rightarrow> 'w ctl \<Rightarrow> HeadlessHost \<Rightarrow> string \<Rightarrow> drainState res" where
  "snapshot_host con c host targetTag =
     bindR (HostRepository_GetRpcClient con (ct_world c) (lv_db c) (HH_ID host)) (\<lambda>client.
     bindR (rpc_GetStartupConfigToRestore client True) (\<lambda>startupConfig.
     bindR (GetHeadlessAccount (lv_db c) (HH_AccountId host)) (\<lambda>account.
     Inr (enroll_state host targetTag startupConfig account))))"

definition enrollHost :: "'w HostConnector \<Rightarrow> HeadlessHost \<Rightarrow> string \<Rightarrow> 'w fleet \<Rightarrow> 'w fleet" where
  "enrollHost con host targetTag f =
     (case snapshot_host con (fl_ctl f) host targetTag of
        Inl _ \<Rightarrow> f
      | Inr st \<Rightarrow>
          if IsHostDraining (fl_orc f) (HH_ID host) then f
          else
            let orc = (fl_orc f)\<lparr>orc_drainTargets := AList.update (HH_ID host) st (orc_drainTargets (fl_orc f))\<rparr>;
                orc = snd (seedSessionUserCache con (fl_ctl f) orc (HH_ID host))
            in reconcileHost con (f\<lparr>fl_orc := orc\<rparr>) (HH_ID host))"

definition consider_host :: "'w HostConnector \<Rightarrow> ContainerImage \<Rightarrow> HeadlessHost \<Rightarrow> 'w fleet \<Rightarrow> 'w fleet" where
  "consider_host con latest h f =
     (if HH_Status h \<noteq> HeadlessHostStatus_RUNNING then f
      else if HH_AutoUpdatePolicy h \<noteq> HostAutoUpdatePolicy_USERS_EMPTY then f
      else if HH_AppVersion h = Image_AppVersion latest \<and> HH_ResoniteVersion h = Image_ResoniteVersion latest then f
      else if IsHostDraining (fl_orc f) (HH_ID h) then f
      else enrollHost con h (Image_Tag latest) f)"

definition handleNewImage :: "'w HostConnector \<Rightarrow> 'w fleet \<Rightarrow> ContainerImage option \<Rightarrow> 'w fleet" where
  "handleNewImage con f latest =
     (case latest of
        None \<Rightarrow> f
      | Some latest \<Rightarrow>
          if Image_IsPreRelease latest then f
          else (case HostRepository_ListAll con (ct_world (fl_ctl f)) (lv_db (fl_ctl f)) False of
                  Inl _ \<Rightarrow> f
                | Inr hosts \<Rightarrow> fold (consider_host con latest) hosts f))"

definition OnNewImage :: "'w HostConnector \<Rightarrow> 'w fleet \<Rightarrow> ContainerImage option \<Rightarrow> 'w fleet" where
  "OnNewImage con f latest =
     (case latest of None \<Rightarrow> f | Some img \<Rightarrow> if Image_IsPreRelease img then f else handleNewImage con f latest)"

section \<open>Polling the registry\<close>

text \<open>The orchestrator is the observer that is subscribed.\<close>

record ImageChecker =
  ic_lastTag :: "ContainerImage option"

definition checkNewImages :: "'w HostConnector \<Rightarrow> ImageChecker \<times> 'w fleet \<Rightarrow> ImageChecker \<times> 'w fleet" where
  "checkNewImages con = (\<lambda>(ic, f).
     case con_ListContainerTags con (ct_world (fl_ctl f)) (map_option Image_Tag (ic_lastTag ic)) of
       Inl _ \<Rightarrow> (ic, f)
     | Inr tags \<Rightarrow>
         if tags = [] then (ic, f)
         else
           let newestTag = last tags in
           if map_option Image_Tag (ic_lastTag ic) = Some (Image_Tag newestTag) then (ic, f)
           else (ic\<lparr>ic_lastTag := Some newestTag\<rparr>, OnNewImage con f (Some newestTag)))"

section \<open>Lemmas\<close>

lemma same_sessions: "\<exists>ss. d = d\<lparr>db_sessions := ss\<rparr>" for d :: db
  by (rule exI[of _ "db_sessions d"]) simp

lemma GetRpcClient_sessions [simp]:
  "HostRepository_GetRpcClient con w (d\<lparr>db_sessions := ss\<rparr>) hid = HostRepository_GetRpcClient con w d hid"
  by (simp add: HostRepository_GetRpcClient_def q_GetHost_def readQ_def host_of_def)

definition session_ended :: "db \<Rightarrow> string \<Rightarrow> bool" where
  "session_ended d sid \<longleftrightarrow> (\<exists>e. session_of d sid = Some e \<and> Session_Status e = SessionStatus_ENDED)"

lemma StopSession_cases:
  assumes run: "StopSession con c caller sid = (r, c')" and s: "session_of (lv_db c) sid = Some s"
  shows "c' = c \<and> (\<exists>e. r = Inl e) \<or> r = Inr () \<and> ct_world c' = ct_world c \<and> (\<exists>ss. lv_db c' = (lv_db c)\<lparr>db_sessions := ss\<rparr>)
     \<and> session_ended (lv_db c') sid
     \<and> (\<forall>x. x \<noteq> sid \<longrightarrow> session_of (lv_db c') x = session_of (lv_db c) x)"
proof (cases r)
  case (Inl e)
  then show ?thesis using run by (auto simp: StopSession_def ctrl_simps Let_def dest: onDb_Upsert_Inl)
next
  case (Inr u)
  define e where "e = (with_world_url (Cache_Get (lv_cache c) sid) s)\<lparr>Session_EndedAt := Some (db_now (lv_db c)), Session_Status := SessionStatus_ENDED\<rparr>"
  obtain c1 where up: "onDb c (SessionRepository_Upsert (lv_db c) e) = (Inr (), c1)"
    and c': "c' = c1\<lparr>lv_cache := Cache_Delete (lv_cache c1) sid\<rparr>"
    using run s unfolding Inr StopSession_def e_def
    by (auto simp: ctrl_simps Let_def dest!: SessionRepository_Get_Inr)
  have e: "Session_ID e = sid" "Session_Status (upserted (lv_db c) e) = SessionStatus_ENDED"
    using session_ID_of[OF s] by (auto simp: e_def upserted_def with_world_url_def split: option.split)
  note up1 = onDb_Upsert_Inr[OF up]
  have "ct_world c1 = ct_world c" using up by (auto simp: onDb_def)
  then show ?thesis
    using Upsert_Inr[OF conjunct1[OF up1]] up1 e Inr by (auto simp: c' session_ended_def)
qed

text \<open>What a reconciliation knows about a session it stopped: its container reported nobody in it.\<close>

definition reported_empty :: "'w HostConnector \<Rightarrow> 'w ctl \<Rightarrow> string \<Rightarrow> string \<Rightarrow> bool" where
  "reported_empty con c hid sid \<longleftrightarrow> (\<exists>client x. HostRepository_GetRpcClient con (ct_world c) (lv_db c) hid = Inr client
     \<and> rpc_GetSession client sid = Inr x \<and> snap_UsersCount x \<le> 0)"

lemma userCount_zero:
  assumes "userCountForSession con c orc hid sid = (Inr n, orc')" "n \<le> 0"
  shows "reported_empty con c hid sid"
  using assms
  by (auto simp: userCountForSession_def fetchUserCountRPC_def reported_empty_def ctrl_simps split: option.splits if_splits)

lemma userCount_orc:
  "\<exists>us. snd (userCountForSession con c orc hid sid) = orc\<lparr>orc_sessionUsers := us\<rparr>"
proof -
  have "\<exists>us. orc = orc\<lparr>orc_sessionUsers := us\<rparr>" by (rule exI[of _ "orc_sessionUsers orc"]) simp
  then show ?thesis
    by (auto simp: userCountForSession_def fetchUserCountRPC_def checkS_def split: option.split sum.split)
qed

lemma forgetSession_simps [simp]:
  "orc_drainTargets (forgetSession orc hid sid) = orc_drainTargets orc" "orc_sessionStopper (forgetSession orc hid sid) = orc_sessionStopper orc"
  by (simp_all add: forgetSession_def Let_def split: option.split)

lemma userCount_simps [simp]:
  "orc_drainTargets (snd (userCountForSession con c orc hid sid)) = orc_drainTargets orc"
  "orc_sessionStopper (snd (userCountForSession con c orc hid sid)) = orc_sessionStopper orc"
  using userCount_orc[of con c orc hid sid] by auto

text \<open>One session of a draining host: either it remains and nothing happened to the rows, or it was reported empty and ended.\<close>

lemma drain_one_cases:
  assumes run: "drain_one con hid s f = (remains, f')" and s: "session_of (lv_db (fl_ctl f)) (Session_ID s) = Some s"
  shows "orc_drainTargets (fl_orc f') = orc_drainTargets (fl_orc f) \<and> orc_sessionStopper (fl_orc f') = orc_sessionStopper (fl_orc f)
     \<and> ct_world (fl_ctl f') = ct_world (fl_ctl f) \<and> (\<exists>ss. lv_db (fl_ctl f') = (lv_db (fl_ctl f))\<lparr>db_sessions := ss\<rparr>)
     \<and> (\<forall>x. x \<noteq> Session_ID s \<longrightarrow> session_of (lv_db (fl_ctl f')) x = session_of (lv_db (fl_ctl f)) x)
     \<and> (if remains then fl_ctl f' = fl_ctl f
        else reported_empty con (fl_ctl f) hid (Session_ID s)
          \<and> session_ended (lv_db (fl_ctl f')) (Session_ID s))"
proof -
  obtain count orc where u: "userCountForSession con (fl_ctl f) (fl_orc f) hid (Session_ID s) = (count, orc)" by force
  have orc: "orc_drainTargets orc = orc_drainTargets (fl_orc f)" "orc_sessionStopper orc = orc_sessionStopper (fl_orc f)"
    using userCount_simps[of con "fl_ctl f" "fl_orc f" hid "Session_ID s"] u by simp_all
  show ?thesis
  proof (cases "remains \<and> fl_ctl f' = fl_ctl f \<and> orc_drainTargets (fl_orc f') = orc_drainTargets (fl_orc f)
      \<and> orc_sessionStopper (fl_orc f') = orc_sessionStopper (fl_orc f)")
    case True
    then show ?thesis using same_sessions[of "lv_db (fl_ctl f)"] by simp
  next
    case False
    obtain r c where stop: "stopSession con (f\<lparr>fl_orc := orc\<rparr>) (Session_ID s) = (r, c)" by force
    obtain n where n: "count = Inr n" "n \<le> 0"
      using run False orc by (cases count) (auto simp: drain_one_def u Let_def not_less split: if_splits)
    have rest: "(remains, f') = (case r of Inl _ \<Rightarrow> (True, f\<lparr>fl_orc := orc, fl_ctl := c\<rparr>)
         | Inr _ \<Rightarrow> (False, f\<lparr>fl_ctl := c, fl_orc := forgetSession orc hid (Session_ID s)\<rparr>))"
      using run n by (simp add: drain_one_def u Let_def stop split: sum.splits)
    have keep: "c = fl_ctl f" if "r = Inl e" for e
      using stop that s StopSession_cases[of con "fl_ctl f" "Some SystemUserID" "Session_ID s" r c s]
      by (auto simp: stopSession_def split: if_splits)
    obtain v where v: "r = Inr v"
      using False rest keep orc by (cases r) auto
    have stop': "StopSession con (fl_ctl f) (Some SystemUserID) (Session_ID s) = (r, c)"
      using stop v by (auto simp: stopSession_def split: if_splits)
    show ?thesis
      using rest v StopSession_cases[OF stop' s] orc userCount_zero[OF u[unfolded n(1)] n(2)] by auto
  qed
qed

lemma reported_empty_cong:
  "ct_world c' = ct_world c \<Longrightarrow> \<exists>ss. lv_db c' = (lv_db c)\<lparr>db_sessions := ss\<rparr> \<Longrightarrow> reported_empty con c' hid = reported_empty con c hid"
  by (auto simp: reported_empty_def fun_eq_iff)

lemma drain_sessions_cases:
  assumes "drain_sessions con hid ss f = (n, f')" "distinct (map Session_ID ss)"
    "\<And>s. s \<in> set ss \<Longrightarrow> session_of (lv_db (fl_ctl f)) (Session_ID s) = Some s"
  shows "orc_drainTargets (fl_orc f') = orc_drainTargets (fl_orc f) \<and> ct_world (fl_ctl f') = ct_world (fl_ctl f)
     \<and> (\<exists>ss. lv_db (fl_ctl f') = (lv_db (fl_ctl f))\<lparr>db_sessions := ss\<rparr>)
     \<and> (\<forall>x. session_of (lv_db (fl_ctl f')) x = session_of (lv_db (fl_ctl f)) x \<or>
          x \<in> Session_ID ` set ss \<and> reported_empty con (fl_ctl f) hid x
          \<and> session_ended (lv_db (fl_ctl f')) x)
     \<and> (n = 0 \<longrightarrow> (\<forall>x \<in> Session_ID ` set ss. session_ended (lv_db (fl_ctl f')) x))"
  using assms
proof (induction ss arbitrary: f n)
  case Nil
  then have f': "f' = f" by simp
  show ?case unfolding f' using same_sessions[of "lv_db (fl_ctl f)"] by (intro conjI) simp_all
next
  case (Cons s ss)
  obtain remains f1 where one: "drain_one con hid s f = (remains, f1)" by force
  obtain m where rest: "drain_sessions con hid ss f1 = (m, f')" and n: "n = (if remains then 1 else 0) + m"
    using Cons.prems(1) by (auto simp: one Let_def split: prod.splits)
  note o1 = drain_one_cases[OF one Cons.prems(3)[of s, simplified]]
  have rows1: "session_of (lv_db (fl_ctl f1)) (Session_ID t) = Some t" if "t \<in> set ss" for t
  proof -
    have "Session_ID t \<noteq> Session_ID s" using imageI[OF that, of Session_ID] Cons.prems(2) by auto
    then show ?thesis using o1 Cons.prems(3)[of t] that by simp
  qed
  have dist: "distinct (map Session_ID ss)" and fresh: "Session_ID s \<notin> Session_ID ` set ss" using Cons.prems(2) by simp_all
  let ?d = "\<lambda>f. lv_db (fl_ctl f)"
  obtain ss1 where fields: "orc_drainTargets (fl_orc f') = orc_drainTargets (fl_orc f1)" "ct_world (fl_ctl f') = ct_world (fl_ctl f1)"
      "?d f' = (?d f1)\<lparr>db_sessions := ss1\<rparr>"
    and ih: "\<And>x. session_of (?d f') x = session_of (?d f1) x
        \<or> x \<in> Session_ID ` set ss \<and> reported_empty con (fl_ctl f1) hid x \<and> session_ended (?d f') x"
      "\<And>x. m = 0 \<Longrightarrow> x \<in> Session_ID ` set ss \<Longrightarrow> session_ended (?d f') x"
    using Cons.IH[OF rest dist rows1] by blast
  have re: "reported_empty con (fl_ctl f1) hid = reported_empty con (fl_ctl f) hid"
    using reported_empty_cong[of "fl_ctl f1" "fl_ctl f" con hid] o1 by blast
  have ne: "session_of (?d f') (Session_ID s) = session_of (?d f1) (Session_ID s)" using ih(1) fresh by blast
  have s1: "if remains then fl_ctl f1 = fl_ctl f else reported_empty con (fl_ctl f) hid (Session_ID s) \<and> session_ended (?d f1) (Session_ID s)"
    and other: "\<And>x. x \<noteq> Session_ID s \<Longrightarrow> session_of (?d f1) x = session_of (?d f) x" using o1 by blast+
  have rows: "session_of (?d f') x = session_of (?d f) x \<or> x \<in> Session_ID ` set (s # ss) \<and> reported_empty con (fl_ctl f) hid x \<and> session_ended (?d f') x" for x
  proof (cases "x = Session_ID s")
    case True
    then show ?thesis using ne s1 by (cases remains) (simp_all add: session_ended_def)
  next
    case False
    then show ?thesis using other[of x] ih(1)[of x] re by auto
  qed
  have "session_ended (?d f') x" if "n = 0" "x \<in> Session_ID ` set (s # ss)" for x
  proof (cases "x = Session_ID s")
    case True
    then show ?thesis using ne s1 that(1) by (cases remains) (simp_all add: session_ended_def n)
  next
    case False
    then show ?thesis using ih(2)[of x] that by (simp add: n)
  qed
  moreover have "\<exists>ss. ?d f' = (?d f)\<lparr>db_sessions := ss\<rparr>" using o1 fields(3) by auto
  ultimately show ?case using rows o1 fields(1,2) by simp
qed

text \<open>A restart touches no session.\<close>

definition session_rows :: "Session list \<Rightarrow> 'w ctl \<Rightarrow> bool" where
  "session_rows ss c \<longleftrightarrow> db_sessions (lv_db c) = ss"

lemma session_rows_steps:
  "session_rows ss c \<Longrightarrow> (\<And>x. session_rows ss (snd (k x))) \<Longrightarrow> session_rows ss (snd (checkS m c k))"
  "session_rows ss (snd p) \<Longrightarrow> (\<And>x c. session_rows ss c \<Longrightarrow> session_rows ss (snd (l x c))) \<Longrightarrow> session_rows ss (snd (bindS p l))"
  "session_rows ss (snd p) \<Longrightarrow> session_rows ss (snd (map_errS e p))"
  "session_rows ss c \<Longrightarrow> session_rows ss (snd (onWorld c w))"
  "session_rows ss c \<Longrightarrow> db_sessions (snd q) = db_sessions (lv_db c) \<Longrightarrow> session_rows ss (snd (onDb c q))"
  "session_rows ss (snd p) \<Longrightarrow> session_rows ss c \<Longrightarrow> session_rows ss (snd (if b then p else (r, c)))"
  by (cases m; simp)
     (auto simp: session_rows_def onWorld_def onDb_def bindS_def split: prod.splits sum.splits)

lemma host_queries_sessions:
  "db_sessions (snd (q_UpdateHostStatus d hid st)) = db_sessions d" "db_sessions (snd (q_UpdateHostMemo d hid mm)) = db_sessions d"
  "db_sessions (snd (q_UpdateHostAutoUpdatePolicy d hid p)) = db_sessions d" "db_sessions (snd (q_UpdateHostConnectString d hid cs)) = db_sessions d"
  "db_sessions (snd (q_UpdateHostLastStartupConfig d hid cfg)) = db_sessions d" "db_sessions (snd (q_IncrementHostInstanceCount d hid)) = db_sessions d"
  by (simp_all add: q_UpdateHostStatus_def host_query_defs q_IncrementHostInstanceCount_def writeQ_def update_host_def split: option.split)

lemma set_host_status_rows: "session_rows ss c \<Longrightarrow> session_rows ss (set_host_status hid st c)"
  unfolding set_host_status_def by (intro session_rows_steps host_queries_sessions)

lemma Restart_rows: "session_rows ss c \<Longrightarrow> session_rows ss (snd (HostRepository_Restart con c hid p t))"
  unfolding HostRepository_Restart_def Let_def
  by (intro session_rows_steps host_queries_sessions set_host_status_rows)

lemma Restart_session_of: "session_of (lv_db (snd (HostRepository_Restart con c hid p t))) x = session_of (lv_db c) x"
  using Restart_rows[of "db_sessions (lv_db c)" c con hid p t] by (simp add: session_rows_def session_of_def)

lemma runningSessions_Inr:
  assumes "runningSessionsForHost d hid = Inr ss" "distinct (map Session_ID (db_sessions d))"
  shows "distinct (map Session_ID ss)" "s \<in> set ss \<Longrightarrow> session_of d (Session_ID s) = Some s"
    "s \<in> set ss \<longleftrightarrow> s \<in> set (db_sessions d) \<and> Session_HostID s = hid \<and> Session_Status s = SessionStatus_RUNNING"
proof -
  have ss: "ss = filter (\<lambda>s. Session_HostID s = hid) (sort_key started_desc (filter (\<lambda>s. Session_Status s = SessionStatus_RUNNING) (db_sessions d)))"
    using assms(1) by (auto simp: runningSessionsForHost_def SessionRepository_ListByStatus_def q_ListSessionsByStatus_def ctrl_simps)
  show "distinct (map Session_ID ss)" using assms(2) unfolding ss by (simp add: distinct_map_filter)
  show "s \<in> set ss \<longleftrightarrow> s \<in> set (db_sessions d) \<and> Session_HostID s = hid \<and> Session_Status s = SessionStatus_RUNNING"
    by (auto simp: ss)
  show "s \<in> set ss \<Longrightarrow> session_of d (Session_ID s) = Some s"
    using assms(2) by (auto simp: ss session_of_def intro: tbl_get_key_unique)
qed

lemma drain_running:
  assumes ss: "runningSessionsForHost (lv_db (fl_ctl f)) hid = Inr ss" and tbl: "distinct (map Session_ID (db_sessions (lv_db (fl_ctl f))))"
    and run: "drain_sessions con hid ss f = (n, f1)"
  shows "orc_drainTargets (fl_orc f1) = orc_drainTargets (fl_orc f)" "ct_world (fl_ctl f1) = ct_world (fl_ctl f)"
    "\<exists>rows. lv_db (fl_ctl f1) = (lv_db (fl_ctl f))\<lparr>db_sessions := rows\<rparr>"
    "session_of (lv_db (fl_ctl f1)) sid \<noteq> session_of (lv_db (fl_ctl f)) sid \<Longrightarrow>
       reported_empty con (fl_ctl f) hid sid \<and> session_ended (lv_db (fl_ctl f1)) sid
       \<and> (\<exists>s. session_of (lv_db (fl_ctl f)) sid = Some s \<and> Session_HostID s = hid \<and> Session_Status s = SessionStatus_RUNNING)"
    "n = 0 \<Longrightarrow> session_of (lv_db (fl_ctl f1)) sid = Some s \<Longrightarrow> Session_HostID s = hid \<Longrightarrow> Session_Status s \<noteq> SessionStatus_RUNNING"
proof -
  note rs = runningSessions_Inr[OF ss tbl]
  note dr = drain_sessions_cases[OF run rs(1,2)]
  show "orc_drainTargets (fl_orc f1) = orc_drainTargets (fl_orc f)" "ct_world (fl_ctl f1) = ct_world (fl_ctl f)"
    "\<exists>rows. lv_db (fl_ctl f1) = (lv_db (fl_ctl f))\<lparr>db_sessions := rows\<rparr>" using dr by blast+
  have changed: "session_of (lv_db (fl_ctl f1)) x = session_of (lv_db (fl_ctl f)) x
      \<or> x \<in> Session_ID ` set ss \<and> reported_empty con (fl_ctl f) hid x \<and> session_ended (lv_db (fl_ctl f1)) x" for x using dr by blast
  have all: "n = 0 \<Longrightarrow> x \<in> Session_ID ` set ss \<Longrightarrow> session_ended (lv_db (fl_ctl f1)) x" for x using dr by blast
  show "reported_empty con (fl_ctl f) hid sid \<and> session_ended (lv_db (fl_ctl f1)) sid
       \<and> (\<exists>s. session_of (lv_db (fl_ctl f)) sid = Some s \<and> Session_HostID s = hid \<and> Session_Status s = SessionStatus_RUNNING)"
    if "session_of (lv_db (fl_ctl f1)) sid \<noteq> session_of (lv_db (fl_ctl f)) sid"
    using changed[of sid] that rs(2,3) by auto
  show "Session_Status s \<noteq> SessionStatus_RUNNING" if n: "n = 0" and s: "session_of (lv_db (fl_ctl f1)) sid = Some s" "Session_HostID s = hid"
  proof
    assume run: "Session_Status s = SessionStatus_RUNNING"
    then have ne: "\<not> session_ended (lv_db (fl_ctl f1)) sid" using s(1) by (simp add: session_ended_def)
    then have old: "session_of (lv_db (fl_ctl f)) sid = Some s" using changed[of sid] s(1) by simp
    then have "s \<in> set ss" using rs(3)[of s] session_ID_of[OF old] run s(2) by blast
    then show False using all[OF n imageI[of s "set ss" Session_ID]] ne session_ID_of[OF old] by simp
  qed
qed

text \<open>A reconciliation in three parts: nothing to do, sessions remain, or a restart was tried.\<close>

lemma reconcile_cases:
  obtains (idle) "reconcileHost con f hid = f"
  | (remaining) st ss n f1 where "map_of (orc_drainTargets (fl_orc f)) hid = Some st"
      "runningSessionsForHost (lv_db (fl_ctl f)) hid = Inr ss" "drain_sessions con hid ss f = (n, f1)" "reconcileHost con f hid = f1"
  | (restart) st ss f1 r c where "map_of (orc_drainTargets (fl_orc f)) hid = Some st"
      "runningSessionsForHost (lv_db (fl_ctl f)) hid = Inr ss" "drain_sessions con hid ss f = (0, f1)"
      "restartHost con (fl_ctl f1) hid st = (r, c)"
      "reconcileHost con f hid = f1\<lparr>fl_ctl := c, fl_orc := (case r of Inl _ \<Rightarrow> recordRestartFailure (fl_orc f1) hid | Inr _ \<Rightarrow> leave (fl_orc f1) hid)\<rparr>"
proof (cases "map_of (orc_drainTargets (fl_orc f)) hid")
  case None
  then show ?thesis using idle by (simp add: reconcileHost_def)
next
  case st: (Some st)
  show ?thesis
  proof (cases "runningSessionsForHost (lv_db (fl_ctl f)) hid")
    case (Inl e)
    then show ?thesis using idle st by (simp add: reconcileHost_def)
  next
    case ss: (Inr ss)
    obtain n f1 where d: "drain_sessions con hid ss f = (n, f1)" by force
    obtain r c where rc: "restartHost con (fl_ctl f1) hid st = (r, c)" by force
    show ?thesis
    proof (cases "n = 0")
      case True
      then show ?thesis using restart[OF st ss d[unfolded True] rc] st ss d rc by (cases r) (simp_all add: reconcileHost_def)
    next
      case False
      then show ?thesis using remaining[OF st ss d] st ss d by (simp add: reconcileHost_def)
    qed
  qed
qed

section \<open>Properties\<close>

text \<open>
  C18: a rollout disturbs nobody. Whatever the cached counts say and whatever fails, a reconciliation
  changes the row of a session only if its host is draining, the session is RUNNING there and the
  container itself reports no user in it; the session is then ENDED. The host and its container are
  touched only when no session of the host is RUNNING any more.
\<close>

theorem reconcile_spares_users:
  assumes tbl: "distinct (map Session_ID (db_sessions (lv_db (fl_ctl f))))"
  shows "let d = lv_db (fl_ctl f); d' = lv_db (fl_ctl (reconcileHost con f hid)) in
     (\<forall>sid. session_of d' sid \<noteq> session_of d sid \<longrightarrow> IsHostDraining (fl_orc f) hid \<and> reported_empty con (fl_ctl f) hid sid
        \<and> (\<exists>s. session_of d sid = Some s \<and> Session_HostID s = hid \<and> Session_Status s = SessionStatus_RUNNING) \<and> session_ended d' sid)
     \<and> (db_hosts d' \<noteq> db_hosts d \<or> ct_world (fl_ctl (reconcileHost con f hid)) \<noteq> ct_world (fl_ctl f) \<longrightarrow> IsHostDraining (fl_orc f) hid
        \<and> (\<forall>sid s. session_of d' sid = Some s \<longrightarrow> Session_HostID s = hid \<longrightarrow> Session_Status s \<noteq> SessionStatus_RUNNING))"
proof (cases rule: reconcile_cases[of con f hid])
  case idle
  then show ?thesis by simp
next
  case (remaining st ss n f1)
  note dr = drain_running[OF remaining(2) tbl remaining(3)]
  have hosts: "db_hosts (lv_db (fl_ctl f1)) = db_hosts (lv_db (fl_ctl f))" using dr(3) by auto
  have "IsHostDraining (fl_orc f) hid" using remaining(1) by (simp add: IsHostDraining_def)
  then show ?thesis unfolding remaining(4) Let_def hosts dr(2) using dr(4) by simp
next
  case (restart st ss f1 r c)
  note dr = drain_running[OF restart(2) tbl restart(3)]
  have drain: "IsHostDraining (fl_orc f) hid" using restart(1) by (simp add: IsHostDraining_def)
  have same: "session_of (lv_db c) x = session_of (lv_db (fl_ctl f1)) x" for x
    using Restart_session_of[of con "fl_ctl f1" hid "drain_restartParms st" defaultRestartStopTimeoutSeconds x] restart(4)
    by (simp add: restartHost_def)
  have ended: "session_ended (lv_db c) x = session_ended (lv_db (fl_ctl f1)) x" for x by (simp add: session_ended_def same)
  have ctl: "fl_ctl (reconcileHost con f hid) = c" unfolding restart(5) by simp
  show ?thesis unfolding ctl Let_def same ended using drain dr(4) dr(5)[OF refl] by simp
qed

text \<open>A host on which nothing runs.\<close>

definition nothing_running :: "db \<Rightarrow> string \<Rightarrow> bool" where
  "nothing_running d hid \<longleftrightarrow> runningSessionsForHost d hid = Inr []"

lemma nothing_running_cong:
  "db_sessions d' = db_sessions d \<Longrightarrow> db_fault d' = db_fault d \<Longrightarrow> nothing_running d' hid = nothing_running d hid"
  by (simp add: nothing_running_def runningSessionsForHost_def SessionRepository_ListByStatus_def q_ListSessionsByStatus_def readQ_def)

lemma reconcile_nothing_running:
  assumes "nothing_running (lv_db (fl_ctl f)) hid" "map_of (orc_drainTargets (fl_orc f)) hid = Some st"
    "restartHost con (fl_ctl f) hid st = (r, c)"
  shows "reconcileHost con f hid = f\<lparr>fl_ctl := c,
     fl_orc := (case r of Inl _ \<Rightarrow> recordRestartFailure (fl_orc f) hid | Inr _ \<Rightarrow> leave (fl_orc f) hid)\<rparr>"
  using assms by (cases r) (simp_all add: reconcileHost_def nothing_running_def)

lemma restartHost_rows:
  assumes "restartHost con c hid st = (r, c')"
  shows "db_sessions (lv_db c') = db_sessions (lv_db c)" "db_fault (lv_db c') = db_fault (lv_db c)"
  using assms Restart_rows[of "db_sessions (lv_db c)" c con hid "drain_restartParms st" defaultRestartStopTimeoutSeconds]
    Restart_frame[OF frame_refl, of c con hid "drain_restartParms st" defaultRestartStopTimeoutSeconds]
  by (auto simp: restartHost_def session_rows_def frame_def host_frame_simps)

lemma leave_simps [simp]: "map_of (orc_drainTargets (leave orc hid)) x = (if x = hid then None else map_of (orc_drainTargets orc) x)"
  by (simp add: leave_def delete_conv')

lemma recordRestartFailure_draining:
  assumes "map_of (orc_drainTargets (recordRestartFailure orc hid)) hid = Some st'" "map_of (orc_drainTargets orc) hid = Some st"
  shows "drain_attempts st' = Suc (drain_attempts st) \<and> drain_attempts st' < defaultMaxRestartAttempts"
  using assms by (auto simp: recordRestartFailure_def Let_def update_conv' not_le split: if_splits)

lemma reconcile_empty_step:
  assumes "nothing_running (lv_db (fl_ctl f)) hid"
  shows "nothing_running (lv_db (fl_ctl (reconcileHost con f hid))) hid \<and>
     (case map_of (orc_drainTargets (fl_orc (reconcileHost con f hid))) hid of None \<Rightarrow> True
      | Some st' \<Rightarrow> drain_attempts st' < defaultMaxRestartAttempts \<and>
          (\<exists>st. map_of (orc_drainTargets (fl_orc f)) hid = Some st \<and> drain_attempts st' = Suc (drain_attempts st)))"
proof (cases "map_of (orc_drainTargets (fl_orc f)) hid")
  case None
  then have "reconcileHost con f hid = f" by (simp add: reconcileHost_def)
  then show ?thesis using assms None by simp
next
  case st: (Some st)
  obtain r c where rc: "restartHost con (fl_ctl f) hid st = (r, c)" by force
  have "nothing_running (lv_db c) hid" using nothing_running_cong[OF restartHost_rows[OF rc]] assms by simp
  moreover have "case map_of (orc_drainTargets (case r of Inl _ \<Rightarrow> recordRestartFailure (fl_orc f) hid | Inr _ \<Rightarrow> leave (fl_orc f) hid)) hid of
      None \<Rightarrow> True | Some st' \<Rightarrow> drain_attempts st' < defaultMaxRestartAttempts \<and> drain_attempts st' = Suc (drain_attempts st)"
    using recordRestartFailure_draining[OF _ st] by (auto split: option.split sum.split)
  ultimately show ?thesis
    unfolding reconcile_nothing_running[OF assms st rc] using st by (auto split: option.split)
qed

text \<open>
  C19: draining ends. Once no session runs on a host, five reconciliations are enough to take it out of
  the draining set, whatever the runtime does and whatever fails in the restarts, so a broken host does
  not refuse new sessions for ever.
\<close>

theorem drain_bounded:
  assumes "nothing_running (lv_db (fl_ctl f)) hid" "5 \<le> n"
  shows "\<not> IsHostDraining (fl_orc (((\<lambda>f. reconcileHost con f hid) ^^ n) f)) hid"
proof -
  let ?f = "\<lambda>k. ((\<lambda>f. reconcileHost con f hid) ^^ k) f"
  have "nothing_running (lv_db (fl_ctl (?f k))) hid \<and> (\<forall>st. map_of (orc_drainTargets (fl_orc (?f k))) hid = Some st \<longrightarrow>
      k \<le> drain_attempts st \<and> (0 < k \<longrightarrow> drain_attempts st < defaultMaxRestartAttempts))" for k
  proof (induction k)
    case (Suc k)
    then have run: "nothing_running (lv_db (fl_ctl (?f k))) hid" by blast
    show ?case using reconcile_empty_step[OF run, of con] Suc.IH by (auto split: option.splits)
  qed (use assms in simp)
  from this[of n] show ?thesis
    using assms(2) by (cases "map_of (orc_drainTargets (fl_orc (?f n))) hid") (auto simp: IsHostDraining_def defaultMaxRestartAttempts_def)
qed

text \<open>What a restart with given parameters leaves in the row of the host.\<close>

definition restarted_row :: "HeadlessHostStartParams \<Rightarrow> Host \<Rightarrow> Host \<Rightarrow> bool" where
  "restarted_row p h h' \<longleftrightarrow> Host_Status h' = HeadlessHostStatus_RUNNING \<and> Host_InstanceCount h' = Host_InstanceCount h + 1
     \<and> Host_Name h' = Host_Name h \<and> Host_GroupID h' = Host_GroupID h \<and> Host_AccountID h' = Host_AccountID h
     \<and> Host_Memo h' = Some (Start_Memo p) \<and> Host_AutoUpdatePolicy h' = Start_AutoUpdatePolicy p
     \<and> Host_LastStartupConfig h' = config_json (Start_StartupConfig p)"

lemma reconcile_restarts:
  assumes nf: "no_faults (lv_db (fl_ctl f))" and con: "able_runtime con"
    and h: "host_of (lv_db (fl_ctl f)) hid = Some h" "Host_ConnectorType h = HostConnectorType_DOCKER" "in32 (Host_InstanceCount h + 1)"
    and idle: "nothing_running (lv_db (fl_ctl f)) hid" and st: "map_of (orc_drainTargets (fl_orc f)) hid = Some st"
  shows "let f' = reconcileHost con f hid in \<not> IsHostDraining (fl_orc f') hid
     \<and> (\<exists>h'. host_of (lv_db (fl_ctl f')) hid = Some h' \<and> restarted_row (drain_restartParms st) h h')
     \<and> (\<forall>x. session_of (lv_db (fl_ctl f')) x = session_of (lv_db (fl_ctl f)) x)"
proof -
  obtain r c where rc: "restartHost con (fl_ctl f) hid st = (r, c)" by force
  have r: "r = Inr ()"
    using Restart_ok[OF nf con h, of "drain_restartParms st" defaultRestartStopTimeoutSeconds] rc by (simp add: restartHost_def)
  have f': "reconcileHost con f hid = f\<lparr>fl_ctl := c, fl_orc := leave (fl_orc f) hid\<rparr>"
    using reconcile_nothing_running[OF idle st rc] by (simp add: r)
  obtain cs where d: "lv_db c = update_host hid (\<lambda>h. h\<lparr>Host_Memo := Some (Start_Memo (drain_restartParms st)),
      Host_AutoUpdatePolicy := Start_AutoUpdatePolicy (drain_restartParms st), Host_InstanceCount := Host_InstanceCount h + 1,
      Host_ConnectString := cs, Host_Status := HeadlessHostStatus_RUNNING,
      Host_LastStartupConfig := config_json (Start_StartupConfig (drain_restartParms st))\<rparr>) (lv_db (fl_ctl f))"
    using Restart_Inr[OF nf rc[unfolded restartHost_def r]] by blast
  have "host_of (lv_db c) hid = map_option (\<lambda>h. h\<lparr>Host_Memo := Some (Start_Memo (drain_restartParms st)),
      Host_AutoUpdatePolicy := Start_AutoUpdatePolicy (drain_restartParms st), Host_InstanceCount := Host_InstanceCount h + 1,
      Host_ConnectString := cs, Host_Status := HeadlessHostStatus_RUNNING,
      Host_LastStartupConfig := config_json (Start_StartupConfig (drain_restartParms st))\<rparr>) (host_of (lv_db (fl_ctl f)) hid)"
    unfolding d by (subst host_of_update) simp_all
  moreover have "session_of (lv_db c) x = session_of (lv_db (fl_ctl f)) x" for x by (simp add: d)
  ultimately show ?thesis unfolding f' Let_def by (simp add: IsHostDraining_def h(1) restarted_row_def)
qed

lemma seed_simps [simp]: "orc_drainTargets (snd (seedSessionUserCache con c orc hid)) = orc_drainTargets orc"
  by (simp add: seedSessionUserCache_def checkS_def split: sum.split)

lemma snapshot_host_Inr:
  "snapshot_host con c host tag = Inr st \<longleftrightarrow> (\<exists>client cfg account.
     HostRepository_GetRpcClient con (ct_world c) (lv_db c) (HH_ID host) = Inr client \<and> rpc_GetStartupConfigToRestore client True = Inr cfg
     \<and> GetHeadlessAccount (lv_db c) (HH_AccountId host) = Inr account \<and> st = enroll_state host tag cfg account)"
  by (auto simp: snapshot_host_def ctrl_simps)

text \<open>
  An idle host is upgraded, and keeps what it was. On a working database and runtime, a host on
  which nothing runs and whose container gives its configuration is restarted as soon as it is
  enrolled: it leaves the draining set, its row is RUNNING as the next instance, and memo, policy and
  the configuration with the worlds of the live container are those read at enrolment.
\<close>

theorem enroll_upgrades_idle:
  assumes nf: "no_faults (lv_db (fl_ctl f))" and con: "able_runtime con"
    and h: "host_of (lv_db (fl_ctl f)) (HH_ID host) = Some h" "Host_ConnectorType h = HostConnectorType_DOCKER" "in32 (Host_InstanceCount h + 1)"
    and idle: "nothing_running (lv_db (fl_ctl f)) (HH_ID host)" and new: "\<not> IsHostDraining (fl_orc f) (HH_ID host)"
    and client: "HostRepository_GetRpcClient con (ct_world (fl_ctl f)) (lv_db (fl_ctl f)) (HH_ID host) = Inr client"
    and cfg: "rpc_GetStartupConfigToRestore client True = Inr cfg"
    and account: "GetHeadlessAccount (lv_db (fl_ctl f)) (HH_AccountId host) = Inr account"
  shows "let f' = enrollHost con host tag f in \<not> IsHostDraining (fl_orc f') (HH_ID host)
     \<and> (\<exists>h'. host_of (lv_db (fl_ctl f')) (HH_ID host) = Some h' \<and> Host_Status h' = HeadlessHostStatus_RUNNING
          \<and> Host_InstanceCount h' = Host_InstanceCount h + 1 \<and> Host_Name h' = Host_Name h \<and> Host_GroupID h' = Host_GroupID h
          \<and> Host_Memo h' = Some (HH_Memo host) \<and> Host_AutoUpdatePolicy h' = HH_AutoUpdatePolicy host
          \<and> Host_LastStartupConfig h' = cfg)
     \<and> (\<forall>x. session_of (lv_db (fl_ctl f')) x = session_of (lv_db (fl_ctl f)) x)"
proof -
  let ?st = "enroll_state host tag cfg account"
  have snap: "snapshot_host con (fl_ctl f) host tag = Inr ?st" using client cfg account by (auto simp: snapshot_host_Inr)
  define f1 where "f1 = f\<lparr>fl_orc := snd (seedSessionUserCache con (fl_ctl f)
      ((fl_orc f)\<lparr>orc_drainTargets := AList.update (HH_ID host) ?st (orc_drainTargets (fl_orc f))\<rparr>) (HH_ID host))\<rparr>"
  have run: "enrollHost con host tag f = reconcileHost con f1 (HH_ID host)"
    using new by (simp add: enrollHost_def snap f1_def)
  have "map_of (orc_drainTargets (fl_orc f1)) (HH_ID host) = Some ?st" "fl_ctl f1 = fl_ctl f" by (simp_all add: f1_def update_conv')
  from reconcile_restarts[of f1 con "HH_ID host" h, OF _ con _ h(2,3) _ this(1)] this(2) nf h(1) idle
  show ?thesis unfolding run Let_def by (auto simp: restarted_row_def enroll_state_def config_json_def)
qed

text \<open>
  A host that is draining does not stay down. The orchestrator does not look at the status of the
  host, so a host that somebody shut down or killed while it was draining - which ends its sessions - is
  started again, on the new tag, by the next reconciliation.
\<close>

theorem drain_revives_stopped_host:
  assumes "no_faults (lv_db (fl_ctl f))" "able_runtime con"
    "host_of (lv_db (fl_ctl f)) hid = Some h" "Host_ConnectorType h = HostConnectorType_DOCKER" "in32 (Host_InstanceCount h + 1)"
    "Host_Status h = HeadlessHostStatus_EXITED" "nothing_running (lv_db (fl_ctl f)) hid" "IsHostDraining (fl_orc f) hid"
  shows "map_option Host_Status (host_of (lv_db (fl_ctl (reconcileHost con f hid))) hid) = Some HeadlessHostStatus_RUNNING"
proof -
  obtain st where "map_of (orc_drainTargets (fl_orc f)) hid = Some st" using assms(8) by (auto simp: IsHostDraining_def)
  from reconcile_restarts[OF assms(1-5,7) this] show ?thesis by (auto simp: Let_def restarted_row_def)
qed

text \<open>
  A release that could not be rolled out when it appeared is not tried again. If the containers do
  not answer at the poll that finds a new tag, or a newer pre-release is found with it, no host is
  enrolled; and as long as no tag newer than that one is published, no later poll enrols any host,
  in whatever state the hosts are then.
\<close>

theorem missed_release_not_retried:
  assumes tags: "con_ListContainerTags con (ct_world (fl_ctl f)) (map_option Image_Tag (ic_lastTag ic)) = Inr tags" "tags \<noteq> []"
      "map_option Image_Tag (ic_lastTag ic) \<noteq> Some (Image_Tag (last tags))"
    and hosts: "HostRepository_ListAll con (ct_world (fl_ctl f)) (lv_db (fl_ctl f)) False = Inr hosts"
    and missed: "Image_IsPreRelease (last tags) \<or> (\<forall>h \<in> set hosts. \<exists>e. snapshot_host con (fl_ctl f) h (Image_Tag (last tags)) = Inl e)"
    and newest: "\<And>w. con_ListContainerTags con w (Some (Image_Tag (last tags))) = Inr []"
  shows "\<exists>ic'. checkNewImages con (ic, f) = (ic', f) \<and> (\<forall>f2. checkNewImages con (ic', f2) = (ic', f2))"
proof -
  have skip: "fold (consider_host con (last tags)) hs f = f" if "\<forall>h \<in> set hs. \<exists>e. snapshot_host con (fl_ctl f) h (Image_Tag (last tags)) = Inl e" for hs
    using that by (induction hs) (auto simp: consider_host_def enrollHost_def)
  have "OnNewImage con f (Some (last tags)) = f"
    using missed skip by (auto simp: OnNewImage_def handleNewImage_def hosts)
  then have "checkNewImages con (ic, f) = (ic\<lparr>ic_lastTag := Some (last tags)\<rparr>, f)"
    using tags by (auto simp: checkNewImages_def Let_def)
  moreover have "checkNewImages con (ic\<lparr>ic_lastTag := Some (last tags)\<rparr>, f2) = (ic\<lparr>ic_lastTag := Some (last tags)\<rparr>, f2)" for f2
    by (simp add: checkNewImages_def newest)
  ultimately show ?thesis by blast
qed

section \<open>Instances\<close>

text \<open>A container that gives its configuration, a registry with two releases, and a fleet with one draining host.\<close>

definition fleet_client :: RpcClient where
  "fleet_client = lively_client\<lparr>rpc_GetStartupConfigToRestore := (\<lambda>_. Inr (empty_config\<lparr>Sc_TickRate := Some 60\<rparr>)), rpc_ListSessions := Inr []\<rparr>"

definition fleet_runtime :: "string set HostConnector" where
  "fleet_runtime = set_runtime\<lparr>con_GetRpcClient := (\<lambda>w cs. if cs \<in> w then Inr fleet_client else Inl (ErrMsg ''unreachable'')),
     con_ListContainerTags := (\<lambda>_ l. Inr (if l = Some ''2.0'' then [] else [plain_image ''1.0'' False, plain_image ''2.0'' False]))\<rparr>"

definition h1_entity :: HeadlessHost where
  "h1_entity = base_entity ((plain_host ''h1'')\<lparr>Host_Memo := Some ''keep me'', Host_AutoUpdatePolicy := HostAutoUpdatePolicy_USERS_EMPTY\<rparr>) HeadlessHostStatus_RUNNING"

definition draining_orc :: HostUpgradeOrchestrator where
  "draining_orc = (SetSessionStopper NewHostUpgradeOrchestrator)\<lparr>orc_drainTargets := [(''h1'', enroll_state h1_entity ''2.0'' empty_config sample_account)]\<rparr>"

definition fleet_of :: "string set ctl \<Rightarrow> HostUpgradeOrchestrator \<Rightarrow> string set fleet" where
  "fleet_of c orc = \<lparr>fl_ctl = c, fl_orc = orc\<rparr>"

lemma fleet_of_simps [simp]: "fl_ctl (fleet_of c orc) = c" "fl_orc (fleet_of c orc) = orc"
  by (simp_all add: fleet_of_def)

definition quiet_ctl :: "string set ctl" where
  "quiet_ctl = host_ctl\<lparr>lv_db := (lv_db host_ctl)\<lparr>db_sessions := []\<rparr>\<rparr>"

lemma fleet_runtime_able: "able_runtime fleet_runtime"
  using set_runtime_able by (simp add: able_runtime_def fleet_runtime_def)

lemma quiet_ctl_ok:
  "no_faults (lv_db quiet_ctl)" "nothing_running (lv_db quiet_ctl) hid"
  "\<exists>h. host_of (lv_db quiet_ctl) ''h1'' = Some h \<and> Host_ConnectorType h = HostConnectorType_DOCKER \<and> in32 (Host_InstanceCount h + 1)"
proof -
  show nf: "no_faults (lv_db quiet_ctl)" using host_ctl_ok(1) by (simp add: quiet_ctl_def no_faults_def)
  then show "nothing_running (lv_db quiet_ctl) hid"
    by (simp add: nothing_running_def runningSessionsForHost_def SessionRepository_ListByStatus_def q_ListSessionsByStatus_def)
       (simp add: quiet_ctl_def)
  show "\<exists>h. host_of (lv_db quiet_ctl) ''h1'' = Some h \<and> Host_ConnectorType h = HostConnectorType_DOCKER \<and> in32 (Host_InstanceCount h + 1)"
    using host_ctl_restart_ready(5)[of "''h1''"] by (simp add: quiet_ctl_def)
qed

theorem reconcile_spares_users_witness:
  "let f' = reconcileHost fleet_runtime (fleet_of host_ctl draining_orc) ''h1'' in
     reported_empty fleet_runtime host_ctl ''h1'' ''s1'' \<and> session_ended (lv_db (fl_ctl f')) ''s1''"
proof -
  let ?f = "fleet_of host_ctl draining_orc"
  have tbl: "distinct (map Session_ID (db_sessions (lv_db (fl_ctl ?f))))" using host_ctl_ok(2) by (simp add: session_table_ok_def)
  let ?s1 = "plain_session ''s1'' ''h1'' SessionStatus_RUNNING 10"
  have ss: "runningSessionsForHost (lv_db (fl_ctl ?f)) ''h1'' = Inr [?s1]" by code_simp
  have "fst (drain_sessions fleet_runtime ''h1'' [?s1] ?f) = 0" by code_simp
  then obtain f1 where run: "drain_sessions fleet_runtime ''h1'' [?s1] ?f = (0, f1)" by (metis prod.collapse)
  have st: "map_of (orc_drainTargets (fl_orc ?f)) ''h1'' = Some (enroll_state h1_entity ''2.0'' empty_config sample_account)" by code_simp
  obtain r c where rc: "restartHost fleet_runtime (fl_ctl f1) ''h1'' (enroll_state h1_entity ''2.0'' empty_config sample_account) = (r, c)" by force
  have "fl_ctl (reconcileHost fleet_runtime ?f ''h1'') = c"
    unfolding reconcileHost_def st ss option.case sum.case run Let_def prod.case rc by (cases r) simp_all
  moreover have "session_of (lv_db c) ''s1'' = session_of (lv_db (fl_ctl f1)) ''s1''"
    using Restart_session_of[of fleet_runtime "fl_ctl f1" "''h1''"] rc by (metis restartHost_def snd_conv)
  moreover have "session_of (lv_db (fl_ctl ?f)) ''s1'' = Some ?s1" by code_simp
  moreover have "session_of (lv_db (fl_ctl f1)) ''s1'' \<noteq> Some ?s1"
    using drain_running(5)[OF ss tbl run refl, of "''s1''" ?s1] by (auto simp: plain_session_def)
  ultimately have "session_of (lv_db (fl_ctl (reconcileHost fleet_runtime ?f ''h1''))) ''s1'' \<noteq> session_of (lv_db (fl_ctl ?f)) ''s1''" by simp
  then show ?thesis using reconcile_spares_users[OF tbl, of fleet_runtime "''h1''"] by (simp add: Let_def)
qed

theorem drain_bounded_witness:
  "IsHostDraining draining_orc ''h1'' \<and>
     \<not> IsHostDraining (fl_orc (((\<lambda>f. reconcileHost (fleet_runtime\<lparr>con_Start := (\<lambda>w p. (Inl ErrCanceled, w))\<rparr>) f ''h1'') ^^ 5)
          (fleet_of quiet_ctl draining_orc))) ''h1''"
proof -
  have "IsHostDraining draining_orc ''h1''" by code_simp
  moreover have "nothing_running (lv_db (fl_ctl (fleet_of quiet_ctl draining_orc))) ''h1''" by (simp add: quiet_ctl_ok(2))
  ultimately show ?thesis using drain_bounded[of "fleet_of quiet_ctl draining_orc" "''h1''" 5] by blast
qed

theorem enroll_upgrades_idle_witness:
  "let f' = enrollHost fleet_runtime h1_entity ''2.0'' (fleet_of quiet_ctl NewHostUpgradeOrchestrator) in
     \<exists>h'. host_of (lv_db (fl_ctl f')) ''h1'' = Some h' \<and> Host_Memo h' = Some ''keep me''
       \<and> Host_AutoUpdatePolicy h' = HostAutoUpdatePolicy_USERS_EMPTY \<and> Sc_TickRate (Host_LastStartupConfig h') = Some 60"
proof -
  let ?f = "fleet_of quiet_ctl NewHostUpgradeOrchestrator"
  have e: "HH_ID h1_entity = ''h1''" "HH_Memo h1_entity = ''keep me''" "HH_AutoUpdatePolicy h1_entity = HostAutoUpdatePolicy_USERS_EMPTY"
    by (simp_all add: h1_entity_def base_entity_def plain_host_def)
  obtain h where h: "host_of (lv_db quiet_ctl) ''h1'' = Some h" "Host_ConnectorType h = HostConnectorType_DOCKER" "in32 (Host_InstanceCount h + 1)"
    using quiet_ctl_ok(3) by blast
  have new: "\<not> IsHostDraining (fl_orc ?f) ''h1''" by code_simp
  have "con_GetRpcClient fleet_runtime (ct_world quiet_ctl) (Host_ConnectString h) = Inr fleet_client"
    using h(1) by (simp add: quiet_ctl_def host_ctl_def host_of_def plain_host_def sample_ctl_def fleet_runtime_def) force
  then have client: "HostRepository_GetRpcClient fleet_runtime (ct_world quiet_ctl) (lv_db quiet_ctl) ''h1'' = Inr fleet_client"
    using quiet_ctl_ok(1) h(1,2) by (simp add: HostRepository_GetRpcClient_def q_GetHost_total getConnector_def)
  have cfg: "rpc_GetStartupConfigToRestore fleet_client True = Inr (empty_config\<lparr>Sc_TickRate := Some 60\<rparr>)" by (simp add: fleet_client_def)
  have account: "GetHeadlessAccount (lv_db quiet_ctl) (HH_AccountId h1_entity) = Inr sample_account" by code_simp
  show ?thesis
    using enroll_upgrades_idle[of ?f fleet_runtime h1_entity h fleet_client "empty_config\<lparr>Sc_TickRate := Some 60\<rparr>" sample_account "''2.0''",
        unfolded e fleet_of_simps, OF quiet_ctl_ok(1) fleet_runtime_able h quiet_ctl_ok(2) new[unfolded fleet_of_simps] client cfg account]
    by (auto simp: Let_def)
qed

theorem drain_revives_stopped_host_witness:
  "let c = snd (HeadlessHostShutdown fleet_runtime host_ctl (Some SystemUserID) ''h1'') in
     map_option Host_Status (host_of (lv_db c) ''h1'') = Some HeadlessHostStatus_EXITED
     \<and> map_option Host_Status (host_of (lv_db (fl_ctl (reconcileHost fleet_runtime (fleet_of c draining_orc) ''h1''))) ''h1'')
         = Some HeadlessHostStatus_RUNNING"
proof -
  let ?c = "snd (HeadlessHostShutdown fleet_runtime host_ctl (Some SystemUserID) ''h1'')"
  have nf: "no_faults (lv_db ?c)"
    using host_ctl_ok(1) host_frame_simps(4)[of "lv_db host_ctl" "lv_db ?c"] host_usecase_frame[OF frame_refl, of host_ctl]
    by (simp add: no_faults_def frame_def)
  have row: "map_option (\<lambda>h. (Host_Status h, Host_ConnectorType h, Host_InstanceCount h)) (host_of (lv_db ?c) ''h1'')
      = Some (HeadlessHostStatus_EXITED, HostConnectorType_DOCKER, 1)" by code_simp
  then obtain h where h: "host_of (lv_db ?c) ''h1'' = Some h" "Host_ConnectorType h = HostConnectorType_DOCKER" "in32 (Host_InstanceCount h + 1)"
    "Host_Status h = HeadlessHostStatus_EXITED" by (auto simp: in32_def)
  have idle: "nothing_running (lv_db ?c) ''h1''" unfolding nothing_running_def by code_simp
  have dr: "IsHostDraining draining_orc ''h1''" by code_simp
  show ?thesis
    using drain_revives_stopped_host[of "fleet_of ?c draining_orc" fleet_runtime "''h1''" h, unfolded fleet_of_simps,
        OF nf fleet_runtime_able h idle dr] h by (simp add: Let_def)
qed

theorem missed_release_not_retried_witness:
  "\<exists>ic'. checkNewImages fleet_runtime (\<lparr>ic_lastTag = None\<rparr>, fleet_of (host_ctl\<lparr>ct_world := {}\<rparr>) NewHostUpgradeOrchestrator)
       = (ic', fleet_of (host_ctl\<lparr>ct_world := {}\<rparr>) NewHostUpgradeOrchestrator)
     \<and> checkNewImages fleet_runtime (ic', fleet_of host_ctl NewHostUpgradeOrchestrator) = (ic', fleet_of host_ctl NewHostUpgradeOrchestrator)"
proof -
  let ?f = "fleet_of (host_ctl\<lparr>ct_world := {}\<rparr>) NewHostUpgradeOrchestrator"
  obtain hosts where hosts: "HostRepository_ListAll fleet_runtime (ct_world (fl_ctl ?f)) (lv_db (fl_ctl ?f)) False = Inr hosts"
    using host_ctl_ok(1) by (simp add: HostRepository_ListAll_def q_ListHosts_def)
  have con: "con_GetRpcClient fleet_runtime {} cs \<noteq> Inr client" for cs client by (simp add: fleet_runtime_def)
  have "snapshot_host fleet_runtime (fl_ctl ?f) h t \<noteq> Inr st" for h t st
    unfolding snapshot_host_Inr by (auto simp: HostRepository_GetRpcClient_def ctrl_simps con)
  then have off: "\<exists>e. snapshot_host fleet_runtime (fl_ctl ?f) h t = Inl e" for h t by (metis sum.exhaust)
  show ?thesis
    using missed_release_not_retried[of fleet_runtime ?f "\<lparr>ic_lastTag = None\<rparr>" "[plain_image ''1.0'' False, plain_image ''2.0'' False]", OF _ _ _ hosts] off
    by (auto simp: fleet_runtime_def plain_image_def)
qed

end
