(* ===== verification/Notifications.thy ===== *)
theory Notifications
  imports WorkQueue PermissionUsecase HostStore SessionEvents "HOL-Library.AList"
begin

text \<open>
  Notifications to the web clients: the bus (\<open>usecase/notification/bus.go\<close>, \<open>events.go\<close>), the handler that
  turns host events into notifications (\<open>worker/notification_dispatcher.go\<close>) and the stream that filters
  them by permission (\<open>adapter/rpc/notification_service.go\<close>). A channel is the list of its pending events.
  The interface \<open>Bus\<close> is a locale, interpreted on \<open>MemoryBus\<close>; the interleaving of publishers and a
  subscriber inside \<open>busSend\<close> is a step relation of its own. The current time is the clock of the database.
\<close>

section \<open>Events\<close>

datatype user_change = KIND_JOINED | KIND_LEFT
datatype lifecycle_change = KIND_STARTED | KIND_ENDED
datatype completion_level = COMPLETED_SUCCESS | COMPLETED_ERROR

datatype NotificationPayload =
    HostUpdatedEvent string
  | HostListChangedEvent
  | SessionUpdatedEvent string string
  | SessionUserChangedEvent string string user_change string
  | SessionLifecycleEvent string string lifecycle_change
  | JobCompletedPayload string completion_level string
  | KeepAliveEvent
  | UnknownEvent

record NotificationEvent =
  Note_Id :: string
  Note_OccurredAt :: time
  Note_Payload :: NotificationPayload

definition occurredOrNow :: "time \<Rightarrow> time option \<Rightarrow> time" where
  "occurredOrNow now t = (case t of Some t \<Rightarrow> t | None \<Rightarrow> now)"

definition HostUpdated :: "time \<Rightarrow> string \<Rightarrow> string \<Rightarrow> time option \<Rightarrow> NotificationEvent" where
  "HostUpdated now hostID eid occurredAt =
     \<lparr>Note_Id = eid, Note_OccurredAt = occurredOrNow now occurredAt, Note_Payload = HostUpdatedEvent hostID\<rparr>"

definition HostListChanged :: "time \<Rightarrow> NotificationEvent" where
  "HostListChanged now = \<lparr>Note_Id = [], Note_OccurredAt = now, Note_Payload = HostListChangedEvent\<rparr>"

definition SessionUpdated :: "time \<Rightarrow> string \<Rightarrow> string \<Rightarrow> string \<Rightarrow> time option \<Rightarrow> NotificationEvent" where
  "SessionUpdated now sessionID hostID eid occurredAt =
     \<lparr>Note_Id = eid, Note_OccurredAt = occurredOrNow now occurredAt, Note_Payload = SessionUpdatedEvent sessionID hostID\<rparr>"

definition SessionUserChanged ::
  "time \<Rightarrow> string \<Rightarrow> string \<Rightarrow> string \<Rightarrow> string \<Rightarrow> user_change \<Rightarrow> time option \<Rightarrow> NotificationEvent" where
  "SessionUserChanged now sessionID hostID userName eid kind occurredAt =
     \<lparr>Note_Id = eid, Note_OccurredAt = occurredOrNow now occurredAt, Note_Payload = SessionUserChangedEvent sessionID hostID kind userName\<rparr>"

definition SessionLifecycle :: "time \<Rightarrow> string \<Rightarrow> string \<Rightarrow> string \<Rightarrow> lifecycle_change \<Rightarrow> time option \<Rightarrow> NotificationEvent" where
  "SessionLifecycle now sessionID hostID eid kind occurredAt =
     \<lparr>Note_Id = eid, Note_OccurredAt = occurredOrNow now occurredAt, Note_Payload = SessionLifecycleEvent sessionID hostID kind\<rparr>"

definition JobCompleted :: "time \<Rightarrow> string \<Rightarrow> string \<Rightarrow> completion_level \<Rightarrow> NotificationEvent" where
  "JobCompleted now jobID message level =
     \<lparr>Note_Id = [], Note_OccurredAt = now, Note_Payload = JobCompletedPayload jobID level message\<rparr>"

definition KeepAlive :: "time \<Rightarrow> NotificationEvent" where
  "KeepAlive now = \<lparr>Note_Id = [], Note_OccurredAt = now, Note_Payload = KeepAliveEvent\<rparr>"

section \<open>The bus\<close>

record subscriber =
  sub_userID :: string
  sub_ch :: "NotificationEvent list"

record MemoryBus =
  bus_nextID :: nat
  bus_subs :: "(nat \<times> subscriber) list"

definition subscriberBufferSize :: nat where "subscriberBufferSize = 64"

definition NewBus :: MemoryBus where
  "NewBus = \<lparr>bus_nextID = 0, bus_subs = []\<rparr>"

definition busSend :: "subscriber \<Rightarrow> NotificationEvent \<Rightarrow> subscriber" where
  "busSend sub ev =
     (if length (sub_ch sub) < subscriberBufferSize then sub\<lparr>sub_ch := sub_ch sub @ [ev]\<rparr>
      else sub\<lparr>sub_ch := tl (sub_ch sub) @ [ev]\<rparr>)"

definition Publish :: "MemoryBus \<Rightarrow> NotificationEvent option \<Rightarrow> MemoryBus" where
  "Publish b ev =
     (case ev of
        None \<Rightarrow> b
      | Some ev \<Rightarrow> b\<lparr>bus_subs := map (\<lambda>(i, sub). (i, busSend sub ev)) (bus_subs b)\<rparr>)"

definition PublishTo :: "MemoryBus \<Rightarrow> string \<Rightarrow> NotificationEvent option \<Rightarrow> MemoryBus" where
  "PublishTo b userID ev =
     (case ev of
        None \<Rightarrow> b
      | Some ev \<Rightarrow>
          if userID = [] then b
          else b\<lparr>bus_subs := map (\<lambda>(i, sub). (i, if sub_userID sub = userID then busSend sub ev else sub)) (bus_subs b)\<rparr>)"

text \<open>The ids are 64-bit; the clean-up function of a subscription is \<open>Unsubscribe\<close>.\<close>

definition Subscribe :: "MemoryBus \<Rightarrow> string \<Rightarrow> nat \<times> MemoryBus" where
  "Subscribe b userID =
     (let i = (bus_nextID b + 1) mod 2 ^ 64
      in (i, b\<lparr>bus_nextID := i, bus_subs := AList.update i \<lparr>sub_userID = userID, sub_ch = []\<rparr> (bus_subs b)\<rparr>))"

definition Unsubscribe :: "MemoryBus \<Rightarrow> nat \<Rightarrow> MemoryBus" where
  "Unsubscribe b i = b\<lparr>bus_subs := AList.delete i (bus_subs b)\<rparr>"

section \<open>From host events to notifications\<close>

definition Dispatcher_event :: "time \<Rightarrow> string \<Rightarrow> HostEvent \<Rightarrow> NotificationEvent option" where
  "Dispatcher_event now hostID ev =
     (let eid = Event_Id ev; occurredAt = Event_OccurredAt ev in
      case Event_Payload ev of
        SessionParametersChanged sid _ \<Rightarrow> Some (SessionUpdated now sid hostID eid occurredAt)
      | WorldSaved sid _ \<Rightarrow> Some (SessionUpdated now sid hostID eid occurredAt)
      | UserJoinedSession sid name \<Rightarrow> Some (SessionUserChanged now sid hostID name eid KIND_JOINED occurredAt)
      | UserLeftSession sid name \<Rightarrow> Some (SessionUserChanged now sid hostID name eid KIND_LEFT occurredAt)
      | SessionStarted sid _ \<Rightarrow> Some (SessionLifecycle now sid hostID eid KIND_STARTED occurredAt)
      | SessionEnded sid \<Rightarrow> Some (SessionLifecycle now sid hostID eid KIND_ENDED occurredAt)
      | OtherPayload \<Rightarrow> None)"

definition Dispatcher_HandleHostEvent :: "time \<Rightarrow> MemoryBus \<Rightarrow> string \<Rightarrow> HostEvent \<Rightarrow> MemoryBus" where
  "Dispatcher_HandleHostEvent now b hostID ev =
     (case Dispatcher_event now hostID ev of None \<Rightarrow> b | Some n \<Rightarrow> Publish b (Some n))"

definition Dispatcher_HandleHostEventStreamReset :: "time \<Rightarrow> MemoryBus \<Rightarrow> string \<Rightarrow> MemoryBus" where
  "Dispatcher_HandleHostEventStreamReset now b hostID = Publish b (Some (HostUpdated now hostID [] None))"

section \<open>The stream to a client\<close>

definition notificationPermCacheTTL :: time where "notificationPermCacheTTL = 30 * Second"

record notificationPermCacheEntry =
  pce_allowed :: bool
  pce_expiresAt :: time

type_synonym perm_cache = "(string \<times> notificationPermCacheEntry) list"

definition notificationEventScope :: "NotificationEvent \<Rightarrow> string \<times> string list \<times> bool" where
  "notificationEventScope ev =
     (case Note_Payload ev of
        HostUpdatedEvent hid \<Rightarrow> (hid, [PermKey_HostRead, PermKey_HostWrite], True)
      | SessionUpdatedEvent _ hid \<Rightarrow> (hid, [PermKey_SessionRead, PermKey_SessionWrite], True)
      | SessionUserChangedEvent _ hid _ _ \<Rightarrow> (hid, [PermKey_SessionRead, PermKey_SessionWrite], True)
      | SessionLifecycleEvent _ hid _ \<Rightarrow> (hid, [PermKey_SessionRead, PermKey_SessionWrite], True)
      | KeepAliveEvent \<Rightarrow> ([], [], False)
      | HostListChangedEvent \<Rightarrow> ([], [], False)
      | JobCompletedPayload _ _ _ \<Rightarrow> ([], [], False)
      | UnknownEvent \<Rightarrow> ([], [], True))"

definition cache_key :: "string \<Rightarrow> string list \<Rightarrow> string" where
  "cache_key hostID permKeys = hostID @ CHR 0x00 # hd permKeys"

definition lookup_access :: "db \<Rightarrow> string \<Rightarrow> string \<Rightarrow> string list \<Rightarrow> bool res" where
  "lookup_access d userID hostID permKeys =
     bindR (HostRepository_GetGroupID d hostID) (\<lambda>groupID. CanReadGroupAny d userID groupID permKeys)"

definition canReceiveEvent :: "db \<Rightarrow> string \<Rightarrow> NotificationEvent \<Rightarrow> perm_cache \<Rightarrow> bool \<times> perm_cache" where
  "canReceiveEvent d userID ev cache =
     (let (hostID, permKeys, gated) = notificationEventScope ev in
      if \<not> gated then (True, cache)
      else if hostID = [] then (False, cache)
      else
        let key = cache_key hostID permKeys;
            fresh = (case lookup_access d userID hostID permKeys of
                       Inl _ \<Rightarrow> (False, cache)
                     | Inr ok \<Rightarrow> (ok, AList.update key \<lparr>pce_allowed = ok, pce_expiresAt = db_now d + notificationPermCacheTTL\<rparr> cache))
        in case map_of cache key of
             Some e \<Rightarrow> if db_now d < pce_expiresAt e then (pce_allowed e, cache) else fresh
           | None \<Rightarrow> fresh)"

text \<open>The loop of a stream: what it takes from its channel (\<open>None\<close> is a tick of the keep-alive timer) and what it sends.\<close>

fun SubscribeNotifications :: "string \<Rightarrow> perm_cache \<Rightarrow> (db \<times> NotificationEvent option) list \<Rightarrow> (db \<times> NotificationEvent) list" where
  "SubscribeNotifications userID cache [] = []"
| "SubscribeNotifications userID cache ((d, None) # ins) = (d, KeepAlive (db_now d)) # SubscribeNotifications userID cache ins"
| "SubscribeNotifications userID cache ((d, Some ev) # ins) =
     (let (ok, cache) = canReceiveEvent d userID ev cache
      in (if ok then [(d, ev)] else []) @ SubscribeNotifications userID cache ins)"

section \<open>Concurrent publishers\<close>

text \<open>
  \<open>Publish\<close> holds a read lock, so several publishers may be inside \<open>busSend\<close> at once. For one subscriber:
  a publisher takes the lock (\<open>lock\<close>; a waiting writer keeps new readers out), sends if there is room,
  and otherwise receives one event and then sends, blocking where the channel is empty or full. The
  stream of the subscriber reads, and when it ends its clean-up waits for the write lock.
\<close>

datatype pub_state = PIdle | PSelect NotificationEvent | PDrain NotificationEvent | PRefill NotificationEvent
datatype sub_state = Reading | WantsLock | Released

record bus_conc =
  bc_ch :: "NotificationEvent list"
  bc_pubs :: "pub_state list"
  bc_sub :: sub_state

inductive bus_step :: "bus_conc \<Rightarrow> bus_conc \<Rightarrow> bool" where
  lock: "i < length (bc_pubs s) \<Longrightarrow> bc_pubs s ! i = PIdle \<Longrightarrow> bc_sub s = Reading \<Longrightarrow>
     bus_step s (s\<lparr>bc_pubs := (bc_pubs s)[i := PSelect ev]\<rparr>)"
| send: "i < length (bc_pubs s) \<Longrightarrow> bc_pubs s ! i = PSelect ev \<Longrightarrow> length (bc_ch s) < subscriberBufferSize \<Longrightarrow>
     bus_step s (s\<lparr>bc_ch := bc_ch s @ [ev], bc_pubs := (bc_pubs s)[i := PIdle]\<rparr>)"
| full: "i < length (bc_pubs s) \<Longrightarrow> bc_pubs s ! i = PSelect ev \<Longrightarrow> \<not> length (bc_ch s) < subscriberBufferSize \<Longrightarrow>
     bus_step s (s\<lparr>bc_pubs := (bc_pubs s)[i := PDrain ev]\<rparr>)"
| drain: "i < length (bc_pubs s) \<Longrightarrow> bc_pubs s ! i = PDrain ev \<Longrightarrow> bc_ch s \<noteq> [] \<Longrightarrow>
     bus_step s (s\<lparr>bc_ch := tl (bc_ch s), bc_pubs := (bc_pubs s)[i := PRefill ev]\<rparr>)"
| refill: "i < length (bc_pubs s) \<Longrightarrow> bc_pubs s ! i = PRefill ev \<Longrightarrow> length (bc_ch s) < subscriberBufferSize \<Longrightarrow>
     bus_step s (s\<lparr>bc_ch := bc_ch s @ [ev], bc_pubs := (bc_pubs s)[i := PIdle]\<rparr>)"
| read: "bc_sub s = Reading \<Longrightarrow> bc_ch s \<noteq> [] \<Longrightarrow> bus_step s (s\<lparr>bc_ch := tl (bc_ch s)\<rparr>)"
| quit: "bc_sub s = Reading \<Longrightarrow> bus_step s (s\<lparr>bc_sub := WantsLock\<rparr>)"
| release: "bc_sub s = WantsLock \<Longrightarrow> list_all (\<lambda>p. p = PIdle) (bc_pubs s) \<Longrightarrow> bus_step s (s\<lparr>bc_sub := Released\<rparr>)"

inductive_cases bus_stepE: "bus_step s t"

definition idle_bus :: "nat \<Rightarrow> bus_conc" where
  "idle_bus n = \<lparr>bc_ch = [], bc_pubs = replicate n PIdle, bc_sub = Reading\<rparr>"

section \<open>The contract of a bus\<close>

definition newest :: "nat \<Rightarrow> 'a list \<Rightarrow> 'a list" where
  "newest n xs = drop (length xs - n) xs"

lemma newest_all [simp]: "length xs \<le> n \<Longrightarrow> newest n xs = xs"
  by (simp add: newest_def)

lemma length_newest [simp]: "length (newest n xs) = min n (length xs)"
  by (auto simp: newest_def)

lemma newest_snoc: "0 < n \<Longrightarrow> length q = n \<Longrightarrow> newest n (q @ [e]) = tl q @ [e]"
  by (cases q) (auto simp: newest_def)

lemma newest_newest: "newest n (newest n xs @ ys) = newest n (xs @ ys)"
proof (cases "length xs \<le> n")
  case False
  have "newest n (drop (length xs - n) xs @ ys) = drop (length ys) (drop (length xs - n) xs @ ys)"
    using False by (simp add: newest_def)
  also have "\<dots> = newest n (xs @ ys)" using False by (simp add: newest_def add.commute)
  finally show ?thesis by (simp add: newest_def)
qed simp

text \<open>A sequence of publications, each to everybody (\<open>None\<close>) or to one user, and what is addressed to a user.\<close>

definition addressed :: "string \<Rightarrow> (string option \<times> 'e) list \<Rightarrow> 'e list" where
  "addressed u ps = map snd (filter (\<lambda>(to, _). to = None \<or> to = Some u \<and> u \<noteq> []) ps)"

fun deliver :: "('b \<Rightarrow> 'e option \<Rightarrow> 'b) \<Rightarrow> ('b \<Rightarrow> string \<Rightarrow> 'e option \<Rightarrow> 'b) \<Rightarrow> 'b \<Rightarrow> (string option \<times> 'e) list \<Rightarrow> 'b" where
  "deliver publish publish_to b [] = b"
| "deliver publish publish_to b ((None, e) # ps) = deliver publish publish_to (publish b (Some e)) ps"
| "deliver publish publish_to b ((Some u, e) # ps) = deliver publish publish_to (publish_to b u (Some e)) ps"

locale notification_bus =
  fixes publish :: "'b \<Rightarrow> 'e option \<Rightarrow> 'b" and publish_to :: "'b \<Rightarrow> string \<Rightarrow> 'e option \<Rightarrow> 'b"
    and pending :: "'b \<Rightarrow> 'i \<Rightarrow> (string \<times> 'e list) option" and cap :: nat
  assumes pending_publish: "length q \<le> cap \<Longrightarrow> pending b i = Some (u, q) \<Longrightarrow> pending (publish b (Some e)) i = Some (u, newest cap (q @ [e]))"
    and pending_publish_to: "length q \<le> cap \<Longrightarrow> pending b i = Some (u, q) \<Longrightarrow>
          pending (publish_to b v (Some e)) i = Some (u, if v = u \<and> u \<noteq> [] then newest cap (q @ [e]) else q)"
begin

lemma pending_deliver:
  "length q \<le> cap \<Longrightarrow> pending b i = Some (u, q) \<Longrightarrow> pending (deliver publish publish_to b ps) i = Some (u, newest cap (q @ addressed u ps))"
proof (induction ps arbitrary: b q)
  case (Cons p ps)
  obtain to e where p: "p = (to, e)" by force
  show ?case
  proof (cases "to = None \<or> to = Some u \<and> u \<noteq> []")
    case True
    have "pending (case to of None \<Rightarrow> publish b (Some e) | Some v \<Rightarrow> publish_to b v (Some e)) i = Some (u, newest cap (q @ [e]))"
      using True Cons.prems by (auto simp: pending_publish pending_publish_to)
    from Cons.IH[OF _ this] show ?thesis using True by (cases to) (auto simp: p addressed_def newest_newest)
  next
    case False
    then have "pending (case to of None \<Rightarrow> publish b (Some e) | Some v \<Rightarrow> publish_to b v (Some e)) i = Some (u, q)"
      using Cons.prems by (auto simp: pending_publish_to split: option.split)
    from Cons.IH[OF Cons.prems(1) this] show ?thesis using False by (cases to) (auto simp: p addressed_def)
  qed
qed (simp add: addressed_def)

end

definition bus_pending :: "MemoryBus \<Rightarrow> nat \<Rightarrow> (string \<times> NotificationEvent list) option" where
  "bus_pending b i = map_option (\<lambda>s. (sub_userID s, sub_ch s)) (map_of (bus_subs b) i)"

lemma map_of_map_values: "map_of (map (\<lambda>(i, s). (i, f s)) xs) i = map_option f (map_of xs i)"
  by (induction xs) auto

lemma busSend_newest:
  "length (sub_ch s) \<le> subscriberBufferSize \<Longrightarrow> busSend s e = s\<lparr>sub_ch := newest subscriberBufferSize (sub_ch s @ [e])\<rparr>"
  by (auto simp: busSend_def newest_snoc subscriberBufferSize_def not_less)

interpretation memory_bus: notification_bus Publish PublishTo bus_pending subscriberBufferSize
proof
  fix q b i u e v assume "length q \<le> subscriberBufferSize" "bus_pending b i = Some (u, q)"
  then obtain s where s: "map_of (bus_subs b) i = Some s" "sub_userID s = u" "sub_ch s = q" "length (sub_ch s) \<le> subscriberBufferSize"
    by (auto simp: bus_pending_def)
  then show "bus_pending (Publish b (Some e)) i = Some (u, newest subscriberBufferSize (q @ [e]))"
    by (simp add: bus_pending_def Publish_def map_of_map_values busSend_newest)
  show "bus_pending (PublishTo b v (Some e)) i = Some (u, if v = u \<and> u \<noteq> [] then newest subscriberBufferSize (q @ [e]) else q)"
    using s by (simp add: bus_pending_def PublishTo_def map_of_map_values busSend_newest)
qed

text \<open>Subscriptions come and go without touching the channels of others.\<close>

lemma pending_subscriptions:
  "bus_pending (snd (Subscribe b u)) i = (if i = fst (Subscribe b u) then Some (u, []) else bus_pending b i)"
  "bus_pending (Unsubscribe b j) i = (if i = j then None else bus_pending b i)"
  by (simp_all add: bus_pending_def Subscribe_def Unsubscribe_def Let_def update_conv' delete_conv')

section \<open>Lemmas\<close>

lemma split_at_first: "x \<notin> set xs \<Longrightarrow> x \<notin> set xs' \<Longrightarrow> xs @ x # ys = xs' @ x # ys' \<Longrightarrow> xs = xs' \<and> ys = ys'"
proof (induction xs arbitrary: xs')
  case Nil
  then show ?case by (cases xs') auto
next
  case (Cons a xs)
  then show ?case by (cases xs') auto
qed

lemma cache_key_inj:
  assumes "cache_key h ks = cache_key h' ks'" "CHR 0x00 \<notin> set (hd ks)" "CHR 0x00 \<notin> set (hd ks')"
  shows "h = h' \<and> hd ks = hd ks'"
proof -
  have "rev (hd ks) @ CHR 0x00 # rev h = rev (hd ks') @ CHR 0x00 # rev h'"
    using arg_cong[OF assms(1), of rev] by (simp add: cache_key_def)
  then have "rev (hd ks) = rev (hd ks') \<and> rev h = rev h'"
    using assms(2,3) split_at_first[of "CHR 0x00" "rev (hd ks)" "rev (hd ks')" "rev h" "rev h'"] by simp
  then show ?thesis by simp
qed

lemma scope_keys:
  assumes "notificationEventScope ev = (h, ks, True)" "h \<noteq> []"
  shows "ks \<in> {[PermKey_HostRead, PermKey_HostWrite], [PermKey_SessionRead, PermKey_SessionWrite]}" "CHR 0x00 \<notin> set (hd ks)"
  using assms
  by (auto simp: notificationEventScope_def split: NotificationPayload.splits)

text \<open>What a permitted lookup means for the membership rule.\<close>

lemma CanReadGroupAny_True:
  "CanReadGroupAny d u g ks = Inr True \<Longrightarrow> (\<exists>k \<in> set ks. allowed d u g k) \<or> holds d u SystemGroupID PermKey_SystemGroupList"
proof (induction ks)
  case (Cons k ks)
  from Cons.prems obtain ok where ok: "CanReadGroup d u g k = Inr ok" "ok \<or> CanReadGroupAny d u g ks = Inr True"
    by (auto simp: ctrl_simps split: if_splits)
  then show ?case
    using Cons.IH HasSystemPermission_answer[of d u PermKey_SystemGroupList] HasPermission_answer[of d u g k]
    by (auto simp: CanReadGroup_def ctrl_simps split: if_splits)
qed simp

definition may_watch :: "db \<Rightarrow> string \<Rightarrow> string \<Rightarrow> string list \<Rightarrow> bool" where
  "may_watch d u h ks \<longleftrightarrow> (\<exists>g. HostRepository_GetGroupID d h = Inr g
     \<and> ((\<exists>k \<in> set ks. allowed d u g k) \<or> holds d u SystemGroupID PermKey_SystemGroupList))"

lemma lookup_access_True: "lookup_access d u h ks = Inr True \<Longrightarrow> may_watch d u h ks"
  by (auto simp: lookup_access_def may_watch_def ctrl_simps dest: CanReadGroupAny_True)

text \<open>
  The invariant of the cache: an entry that allows was written by a lookup that allowed, one lifetime
  before the entry expires. \<open>ds\<close> are the databases seen so far.
\<close>

definition perm_cache_ok :: "db set \<Rightarrow> string \<Rightarrow> perm_cache \<Rightarrow> bool" where
  "perm_cache_ok ds u cache \<longleftrightarrow> (\<forall>h ks e. CHR 0x00 \<notin> set (hd ks) \<longrightarrow> map_of cache (cache_key h ks) = Some e \<longrightarrow> pce_allowed e \<longrightarrow>
     (\<exists>d ks'. d \<in> ds \<and> hd ks' = hd ks \<and> ks' \<in> {[PermKey_HostRead, PermKey_HostWrite], [PermKey_SessionRead, PermKey_SessionWrite]}
        \<and> may_watch d u h ks' \<and> pce_expiresAt e = db_now d + notificationPermCacheTTL))"

lemma perm_cache_ok_hit:
  assumes inv: "perm_cache_ok ds u cache" and e: "map_of cache (cache_key h ks) = Some e" "pce_allowed e"
    and ks: "ks \<in> {[PermKey_HostRead, PermKey_HostWrite], [PermKey_SessionRead, PermKey_SessionWrite]}" "CHR 0x00 \<notin> set (hd ks)"
  shows "\<exists>d0 \<in> ds. may_watch d0 u h ks \<and> pce_expiresAt e = db_now d0 + notificationPermCacheTTL"
proof -
  obtain d0 ks' where w: "d0 \<in> ds" "hd ks' = hd ks" "ks' \<in> {[PermKey_HostRead, PermKey_HostWrite], [PermKey_SessionRead, PermKey_SessionWrite]}"
    "may_watch d0 u h ks'" "pce_expiresAt e = db_now d0 + notificationPermCacheTTL"
    using inv e ks(2) unfolding perm_cache_ok_def by blast
  have "ks' = ks" using w(2,3) ks(1) by auto
  then show ?thesis using w by auto
qed

lemma perm_cache_ok_update:
  assumes inv: "perm_cache_ok ds u cache" and d: "d \<in> ds" and w: "b \<Longrightarrow> may_watch d u h ks"
    and ks: "ks \<in> {[PermKey_HostRead, PermKey_HostWrite], [PermKey_SessionRead, PermKey_SessionWrite]}" "CHR 0x00 \<notin> set (hd ks)"
  shows "perm_cache_ok ds u (AList.update (cache_key h ks) \<lparr>pce_allowed = b, pce_expiresAt = db_now d + notificationPermCacheTTL\<rparr> cache)"
    (is "perm_cache_ok ds u ?cache")
  unfolding perm_cache_ok_def
proof (intro allI impI)
  fix h1 ks1 e assume k1: "CHR 0x00 \<notin> set (hd ks1)" and e: "map_of ?cache (cache_key h1 ks1) = Some e" "pce_allowed e"
  show "\<exists>d ks'. d \<in> ds \<and> hd ks' = hd ks1 \<and> ks' \<in> {[PermKey_HostRead, PermKey_HostWrite], [PermKey_SessionRead, PermKey_SessionWrite]}
      \<and> may_watch d u h1 ks' \<and> pce_expiresAt e = db_now d + notificationPermCacheTTL"
  proof (cases "cache_key h1 ks1 = cache_key h ks")
    case True
    then have "h1 = h" "hd ks1 = hd ks" using cache_key_inj[OF True k1 ks(2)] by simp_all
    moreover have "e = \<lparr>pce_allowed = b, pce_expiresAt = db_now d + notificationPermCacheTTL\<rparr>" using e(1) True by (simp add: update_conv')
    ultimately show ?thesis using d ks(1) w e(2) by auto
  next
    case False
    then have "map_of cache (cache_key h1 ks1) = Some e" using e(1) by (simp add: update_conv')
    then show ?thesis using inv k1 e(2) unfolding perm_cache_ok_def by blast
  qed
qed

lemma canReceive_sound:
  assumes run: "canReceiveEvent d u ev cache = (ok, cache')" and inv: "perm_cache_ok ds u cache" and d: "d \<in> ds"
    and sc: "notificationEventScope ev = (h, ks, gated)"
  shows "perm_cache_ok ds u cache' \<and> (ok \<and> gated \<longrightarrow>
       (\<exists>d0 \<in> ds. (d0 = d \<or> db_now d < db_now d0 + notificationPermCacheTTL) \<and> may_watch d0 u h ks))"
proof (cases "gated \<and> h \<noteq> []")
  case False
  then show ?thesis using run inv by (cases gated) (simp_all add: canReceiveEvent_def sc)
next
  case True
  have ks: "ks \<in> {[PermKey_HostRead, PermKey_HostWrite], [PermKey_SessionRead, PermKey_SessionWrite]}" "CHR 0x00 \<notin> set (hd ks)"
    using scope_keys[of ev h ks] True by (simp_all add: sc)
  show ?thesis
  proof (cases "\<exists>e. map_of cache (cache_key h ks) = Some e \<and> db_now d < pce_expiresAt e")
    case hit: True
    then obtain e where e: "map_of cache (cache_key h ks) = Some e" "db_now d < pce_expiresAt e" by blast
    have res: "ok = pce_allowed e" "cache' = cache" using run True e by (simp_all add: canReceiveEvent_def sc)
    show ?thesis using inv perm_cache_ok_hit[OF inv e(1) _ ks] e(2) by (fastforce simp: res)
  next
    case miss: False
    have res: "(ok, cache') = (case lookup_access d u h ks of Inl _ \<Rightarrow> (False, cache)
        | Inr b \<Rightarrow> (b, AList.update (cache_key h ks) \<lparr>pce_allowed = b, pce_expiresAt = db_now d + notificationPermCacheTTL\<rparr> cache))"
      using run True miss by (auto simp: canReceiveEvent_def sc Let_def split: option.splits)
    show ?thesis
    proof (cases "lookup_access d u h ks")
      case (Inr b)
      have w: "may_watch d u h ks" if b using lookup_access_True[of d u h ks] Inr that by simp
      show ?thesis using res Inr w d perm_cache_ok_update[OF inv d w ks] by auto
    qed (use res inv in simp)
  qed
qed

text \<open>The cache of a stream after some input.\<close>

fun stream_cache :: "string \<Rightarrow> perm_cache \<Rightarrow> (db \<times> NotificationEvent option) list \<Rightarrow> perm_cache" where
  "stream_cache u cache [] = cache"
| "stream_cache u cache ((d, None) # ins) = stream_cache u cache ins"
| "stream_cache u cache ((d, Some ev) # ins) = stream_cache u (snd (canReceiveEvent d u ev cache)) ins"

lemma SubscribeNotifications_append:
  "SubscribeNotifications u cache (xs @ ys) = SubscribeNotifications u cache xs @ SubscribeNotifications u (stream_cache u cache xs) ys"
  by (induction u cache xs rule: stream_cache.induct) (simp_all add: Let_def split_beta)

lemma perm_cache_ok_stream: "perm_cache_ok ds u cache \<Longrightarrow> fst ` set ins \<subseteq> ds \<Longrightarrow> perm_cache_ok ds u (stream_cache u cache ins)"
proof (induction u cache ins rule: stream_cache.induct)
  case (3 u cache d ev ins)
  obtain h ks g where "notificationEventScope ev = (h, ks, g)" by (metis prod.collapse)
  then have "perm_cache_ok ds u (snd (canReceiveEvent d u ev cache))"
    using canReceive_sound[OF prod.collapse[symmetric] 3(2)] 3(3) by simp
  then show ?case using 3(1,3) by simp
qed auto

section \<open>Properties\<close>

text \<open>
  C20: a client sees only the groups it may read, and a revoked permission stops the stream within 30
  seconds. Every event about a host or a session that the stream of a user sends was preceded, at that
  moment or less than 30 seconds before it, by a database in which the user could read the group of
  the host - through a read or write key there or through \<open>system:group.list\<close>.
\<close>

theorem delivered_events_authorised:
  assumes sent: "SubscribeNotifications u [] (before @ [(d, Some ev)]) = SubscribeNotifications u [] before @ [(d, ev)]"
    and scope: "notificationEventScope ev = (h, ks, True)"
  shows "\<exists>d0 \<in> insert d (fst ` set before). (d0 = d \<or> db_now d < db_now d0 + notificationPermCacheTTL) \<and> may_watch d0 u h ks"
proof -
  let ?ds = "insert d (fst ` set before)" and ?cache = "stream_cache u [] before"
  obtain ok cache' where run: "canReceiveEvent d u ev ?cache = (ok, cache')" by force
  have "ok" using sent by (simp add: SubscribeNotifications_append run split: if_splits)
  moreover have "perm_cache_ok ?ds u ?cache" by (rule perm_cache_ok_stream) (auto simp: perm_cache_ok_def)
  ultimately show ?thesis using canReceive_sound[OF run _ _ scope, of ?ds] by simp
qed

text \<open>
  The bus keeps the newest events. Whatever is published, the channel of a subscriber holds the
  last 64 of what was there and was addressed to it since, in the order of publication; events for one
  user reach the streams of that user only.
\<close>

theorem bus_keeps_newest:
  assumes "bus_pending b i = Some (u, q)" "length q \<le> subscriberBufferSize"
  shows "bus_pending (deliver Publish PublishTo b ps) i = Some (u, newest subscriberBufferSize (q @ addressed u ps))"
  by (rule memory_bus.pending_deliver[OF assms(2,1)])

lemma bus_step_at:
  "bus_step \<lparr>bc_ch = ch, bc_pubs = us @ PIdle # vs, bc_sub = Reading\<rparr> \<lparr>bc_ch = ch, bc_pubs = us @ PSelect ev # vs, bc_sub = Reading\<rparr>"
  "length ch < subscriberBufferSize \<Longrightarrow>
   bus_step \<lparr>bc_ch = ch, bc_pubs = us @ PSelect ev # vs, bc_sub = st\<rparr> \<lparr>bc_ch = ch @ [ev], bc_pubs = us @ PIdle # vs, bc_sub = st\<rparr>"
  "\<not> length ch < subscriberBufferSize \<Longrightarrow>
   bus_step \<lparr>bc_ch = ch, bc_pubs = us @ PSelect ev # vs, bc_sub = st\<rparr> \<lparr>bc_ch = ch, bc_pubs = us @ PDrain ev # vs, bc_sub = st\<rparr>"
  "ch \<noteq> [] \<Longrightarrow>
   bus_step \<lparr>bc_ch = ch, bc_pubs = us @ PDrain ev # vs, bc_sub = st\<rparr> \<lparr>bc_ch = tl ch, bc_pubs = us @ PRefill ev # vs, bc_sub = st\<rparr>"
  using lock[of "length us" "\<lparr>bc_ch = ch, bc_pubs = us @ PIdle # vs, bc_sub = Reading\<rparr>" ev]
    send[of "length us" "\<lparr>bc_ch = ch, bc_pubs = us @ PSelect ev # vs, bc_sub = st\<rparr>" ev]
    full[of "length us" "\<lparr>bc_ch = ch, bc_pubs = us @ PSelect ev # vs, bc_sub = st\<rparr>" ev]
    drain[of "length us" "\<lparr>bc_ch = ch, bc_pubs = us @ PDrain ev # vs, bc_sub = st\<rparr>" ev]
  by simp_all

lemma fill_channel:
  "length ch \<le> subscriberBufferSize \<Longrightarrow>
   bus_step\<^sup>*\<^sup>* \<lparr>bc_ch = [], bc_pubs = PIdle # vs, bc_sub = Reading\<rparr> \<lparr>bc_ch = ch, bc_pubs = PIdle # vs, bc_sub = Reading\<rparr>"
proof (induction ch rule: rev_induct)
  case (snoc e ch)
  have "bus_step \<lparr>bc_ch = ch, bc_pubs = PIdle # vs, bc_sub = Reading\<rparr> \<lparr>bc_ch = ch, bc_pubs = PSelect e # vs, bc_sub = Reading\<rparr>"
    using bus_step_at(1)[of ch "[]"] by simp
  moreover have "bus_step \<lparr>bc_ch = ch, bc_pubs = PSelect e # vs, bc_sub = Reading\<rparr> \<lparr>bc_ch = ch @ [e], bc_pubs = PIdle # vs, bc_sub = Reading\<rparr>"
    using bus_step_at(2)[of ch "[]"] snoc.prems by simp
  ultimately show ?case using snoc by (auto intro: rtranclp.rtrancl_into_rtrancl)
qed simp

text \<open>A publisher that waits for room in a full channel whose reader waits for the lock: nobody can move.\<close>

lemma deadlock:
  assumes "length ch = subscriberBufferSize"
  shows "\<not> bus_step \<lparr>bc_ch = ch, bc_pubs = PRefill ev # replicate n PIdle, bc_sub = WantsLock\<rparr> t"
proof
  assume "bus_step \<lparr>bc_ch = ch, bc_pubs = PRefill ev # replicate n PIdle, bc_sub = WantsLock\<rparr> t"
  then show False using assms by (cases rule: bus_stepE) (auto simp: nth_Cons split: nat.splits)
qed

text \<open>
  C22: publishing can deadlock. With two or more publishers there is an interleaving after which one of
  them waits, inside \<open>busSend\<close> and holding the read lock, for room in a full channel, while the stream
  that would have emptied the channel has ended and waits for the write lock; then nobody can make
  a step any more, so no notification is delivered to anybody again.
\<close>

theorem publish_can_deadlock:
  "\<exists>s. bus_step\<^sup>*\<^sup>* (idle_bus (n + 2)) s \<and> bc_sub s = WantsLock \<and> \<not> list_all (\<lambda>p. p = PIdle) (bc_pubs s) \<and> (\<nexists>t. bus_step s t)"
proof -
  define e where "e = HostListChanged 0"
  define ch where "ch = replicate subscriberBufferSize e"
  let ?s = "\<lambda>ch p q st. \<lparr>bc_ch = ch, bc_pubs = p # q # replicate n PIdle, bc_sub = st\<rparr>"
  have len: "length ch = subscriberBufferSize" "ch \<noteq> []" by (simp_all add: ch_def subscriberBufferSize_def)
  have room: "length (tl ch) < subscriberBufferSize" "length (tl ch @ [e]) = subscriberBufferSize" using len by (auto simp: subscriberBufferSize_def)
  have "bus_step\<^sup>*\<^sup>* (?s [] PIdle PIdle Reading) (?s ch PIdle PIdle Reading)"
    using fill_channel[of ch "PIdle # replicate n PIdle"] len by simp
  also have "bus_step (?s ch PIdle PIdle Reading) (?s ch (PSelect e) PIdle Reading)"
    using bus_step_at(1)[of ch "[]"] by simp
  also have "bus_step (?s ch (PSelect e) PIdle Reading) (?s ch (PDrain e) PIdle Reading)"
    using bus_step_at(3)[of ch "[]"] len by simp
  also have "bus_step (?s ch (PDrain e) PIdle Reading) (?s (tl ch) (PRefill e) PIdle Reading)"
    using bus_step_at(4)[of ch "[]"] len by simp
  also have "bus_step (?s (tl ch) (PRefill e) PIdle Reading) (?s (tl ch) (PRefill e) (PSelect e) Reading)"
    using bus_step_at(1)[of "tl ch" "[PRefill e]"] by simp
  also have "bus_step (?s (tl ch) (PRefill e) (PSelect e) Reading) (?s (tl ch @ [e]) (PRefill e) PIdle Reading)"
    using bus_step_at(2)[of "tl ch" "[PRefill e]"] room by simp
  also have "bus_step (?s (tl ch @ [e]) (PRefill e) PIdle Reading) (?s (tl ch @ [e]) (PRefill e) PIdle WantsLock)"
    using quit[of "?s (tl ch @ [e]) (PRefill e) PIdle Reading"] by simp
  finally have "bus_step\<^sup>*\<^sup>* (idle_bus (n + 2)) (?s (tl ch @ [e]) (PRefill e) PIdle WantsLock)" by (simp add: idle_bus_def)
  moreover have "\<nexists>t. bus_step (?s (tl ch @ [e]) (PRefill e) PIdle WantsLock) t"
    using deadlock[OF room(2), of e "Suc n"] by simp
  ultimately show ?thesis by fastforce
qed

section \<open>Instances\<close>

text \<open>An event about a host of the team, and the same database ten seconds later without any member.\<close>

definition team_event :: NotificationEvent where
  "team_event = SessionUpdated 5 ''s1'' ''h1'' ''e1'' None"

definition later_db :: db where
  "later_db = session_db\<lparr>db_members := [], db_now := db_now session_db + 10 * Second\<rparr>"

theorem delivered_events_authorised_witness:
  "SubscribeNotifications SystemUserID [] [(later_db, Some team_event)] = []
     \<and> (\<exists>d0 \<in> {later_db, session_db}. (d0 = later_db \<or> db_now later_db < db_now d0 + notificationPermCacheTTL)
          \<and> may_watch d0 SystemUserID ''h1'' [PermKey_SessionRead, PermKey_SessionWrite])"
proof -
  have ok: "fst (canReceiveEvent session_db SystemUserID team_event [])"
    "fst (canReceiveEvent later_db SystemUserID team_event (snd (canReceiveEvent session_db SystemUserID team_event [])))"
    "\<not> fst (canReceiveEvent later_db SystemUserID team_event [])" by code_simp+
  have sent: "SubscribeNotifications SystemUserID [] ([(session_db, Some team_event)] @ [(later_db, Some team_event)])
      = SubscribeNotifications SystemUserID [] [(session_db, Some team_event)] @ [(later_db, team_event)]"
    using ok by (simp add: split_beta)
  have scope: "notificationEventScope team_event = (''h1'', [PermKey_SessionRead, PermKey_SessionWrite], True)"
    by (simp add: team_event_def SessionUpdated_def notificationEventScope_def)
  show ?thesis using delivered_events_authorised[OF sent scope] ok(3) by (simp add: split_beta)
qed

theorem bus_keeps_newest_witness:
  "bus_pending (deliver Publish PublishTo (snd (Subscribe NewBus ''alice''))
      [(None, HostListChanged 1), (Some ''bob'', HostListChanged 2), (Some ''alice'', HostListChanged 3)]) 1
     = Some (''alice'', [HostListChanged 1, HostListChanged 3])"
proof -
  have "bus_pending (snd (Subscribe NewBus ''alice'')) 1 = Some (''alice'', [])"
    by (simp add: pending_subscriptions) (simp add: Subscribe_def NewBus_def Let_def)
  from bus_keeps_newest[OF this, of "[(None, HostListChanged 1), (Some ''bob'', HostListChanged 2), (Some ''alice'', HostListChanged 3)]"]
  show ?thesis by (simp add: addressed_def subscriberBufferSize_def del: deliver.simps)
qed

end
