(* ===== verification/EventWatcher.thy ===== *)
theory EventWatcher
  imports Orchestrator Notifications
begin

text \<open>
  The event streams of the hosts: \<open>worker/host_event_watcher.go\<close> with its checkpoints
  (\<open>worker/host_event_checkpoint_store.go\<close>, \<open>db/host_event_checkpoints.sql.go\<close>), the handlers in the order in
  which \<open>app/wire.go\<close> registers them, and the retry loop of \<open>worker/loop.go\<close>. The stream of a host is an argument:
  the list of what \<open>Recv\<close> returns; a list that ends without an error is a connection that was cut.
\<close>

section \<open>Checkpoints\<close>

definition q_GetHostEventCheckpoint :: "db \<Rightarrow> string \<Rightarrow> string res" where
  "q_GetHostEventCheckpoint d hid = readQ d ''GetHostEventCheckpoint'' [hid]
     (case map_of (db_checkpoints d) hid of None \<Rightarrow> Inl ErrNoRows | Some i \<Rightarrow> Inr i)"

definition q_UpsertHostEventCheckpoint :: "db \<Rightarrow> string \<Rightarrow> string \<Rightarrow> unit res \<times> db" where
  "q_UpsertHostEventCheckpoint d hid eid = writeQ d ''UpsertHostEventCheckpoint'' [hid]
     (if \<not> tbl_exists (host_row hid) (db_hosts d) then (Inl ErrDB, d)
      else (Inr (), d\<lparr>db_checkpoints := AList.update hid eid (db_checkpoints d)\<rparr>))"

definition q_DeleteHostEventCheckpoint :: "db \<Rightarrow> string \<Rightarrow> unit res \<times> db" where
  "q_DeleteHostEventCheckpoint d hid = writeQ d ''DeleteHostEventCheckpoint'' [hid]
     (Inr (), d\<lparr>db_checkpoints := AList.delete hid (db_checkpoints d)\<rparr>)"

definition ListRunningHostIDs :: "db \<Rightarrow> string list res" where
  "ListRunningHostIDs d = bindR (q_ListHostsByStatus d HeadlessHostStatus_RUNNING) (\<lambda>hosts. Inr (map Host_ID hosts))"

definition GetCheckpoint :: "db \<Rightarrow> string \<Rightarrow> string res" where
  "GetCheckpoint d hid =
     (case q_GetHostEventCheckpoint d hid of
        Inl e \<Rightarrow> if e = ErrNoRows then Inr [] else Inl e
      | Inr i \<Rightarrow> Inr i)"

definition UpsertCheckpoint :: "db \<Rightarrow> string \<Rightarrow> string \<Rightarrow> unit res \<times> db" where
  "UpsertCheckpoint d hid eid = q_UpsertHostEventCheckpoint d hid eid"

definition DeleteCheckpoint :: "db \<Rightarrow> string \<Rightarrow> unit res \<times> db" where
  "DeleteCheckpoint d hid = q_DeleteHostEventCheckpoint d hid"

section \<open>The handlers\<close>

record 'w station =
  sn_fleet :: "'w fleet"
  sn_bus :: MemoryBus

abbreviation station_db :: "'w station \<Rightarrow> db" where
  "station_db s \<equiv> lv_db (fl_ctl (sn_fleet s))"

definition on_live :: "(live \<Rightarrow> live) \<Rightarrow> 'w ctl \<Rightarrow> 'w ctl" where
  "on_live g c = (let l = g \<lparr>lv_db = lv_db c, lv_cache = lv_cache c\<rparr> in c\<lparr>lv_db := lv_db l, lv_cache := lv_cache l\<rparr>)"

text \<open>The last handler, which writes a log line, is left out.\<close>

definition watcher_dispatch :: "'w HostConnector \<Rightarrow> string \<Rightarrow> HostEvent \<Rightarrow> 'w station \<Rightarrow> 'w station" where
  "watcher_dispatch con hostID ev s =
     (let f = sn_fleet s;
          c = on_live (\<lambda>l. Sync_HandleHostEvent l hostID ev) (fl_ctl f);
          c = c\<lparr>lv_db := Lifecycle_HandleHostEvent (lv_db c) hostID ev\<rparr>;
          f = Upgrade_HandleHostEvent con (f\<lparr>fl_ctl := c\<rparr>) hostID ev
      in \<lparr>sn_fleet = f, sn_bus = Dispatcher_HandleHostEvent (db_now (lv_db (fl_ctl f))) (sn_bus s) hostID ev\<rparr>)"

definition list_sessions_of :: "'w HostConnector \<Rightarrow> 'w ctl \<Rightarrow> string \<Rightarrow> SessionSnapshot list res" where
  "list_sessions_of con c hid =
     bindR (HostRepository_GetRpcClient con (ct_world c) (lv_db c) hid) (\<lambda>client. rpc_ListSessions client)"

definition notifyReset :: "(string list \<Rightarrow> string list) \<Rightarrow> 'w HostConnector \<Rightarrow> string \<Rightarrow> 'w station \<Rightarrow> 'w station" where
  "notifyReset ord con hostID s =
     (let f = sn_fleet s;
          c = on_live (\<lambda>l. Sync_HandleHostEventStreamReset ord (list_sessions_of con (fl_ctl f)) l hostID) (fl_ctl f);
          c = c\<lparr>lv_db := Lifecycle_HandleHostEventStreamReset (lv_db c) hostID\<rparr>;
          f = Upgrade_HandleHostEventStreamReset con (f\<lparr>fl_ctl := c\<rparr>) hostID
      in \<lparr>sn_fleet = f, sn_bus = Dispatcher_HandleHostEventStreamReset (db_now (lv_db (fl_ctl f))) (sn_bus s) hostID\<rparr>)"

definition with_station_db :: "(db \<Rightarrow> db) \<Rightarrow> 'w station \<Rightarrow> 'w station" where
  "with_station_db g s = s\<lparr>sn_fleet := (sn_fleet s)\<lparr>fl_ctl := (fl_ctl (sn_fleet s))\<lparr>lv_db := g (station_db s)\<rparr>\<rparr>\<rparr>"

definition persistCheckpoint :: "string \<Rightarrow> string \<Rightarrow> 'w station \<Rightarrow> 'w station" where
  "persistCheckpoint hostID eventID = with_station_db (\<lambda>d. snd (UpsertCheckpoint d hostID eventID))"

definition deleteCheckpoint :: "string \<Rightarrow> 'w station \<Rightarrow> 'w station" where
  "deleteCheckpoint hostID = with_station_db (\<lambda>d. snd (DeleteCheckpoint d hostID))"

section \<open>One connection\<close>

datatype stream_item = Recv HostEvent | RecvEOF | RecvOutOfRange | RecvError
datatype stream_end = StreamCut | StreamEOF | StreamOutOfRange | StreamFailed

definition receive :: "'w HostConnector \<Rightarrow> string \<Rightarrow> HostEvent \<Rightarrow> 'w station \<Rightarrow> 'w station" where
  "receive con hostID ev s = persistCheckpoint hostID (Event_Id ev) (watcher_dispatch con hostID ev s)"

fun stream_loop ::
  "(string list \<Rightarrow> string list) \<Rightarrow> 'w HostConnector \<Rightarrow> string \<Rightarrow> stream_item list \<Rightarrow> string \<Rightarrow> 'w station \<Rightarrow> stream_end \<times> string \<times> 'w station" where
  "stream_loop ord con hostID [] lastEventID s = (StreamCut, lastEventID, s)"
| "stream_loop ord con hostID (Recv ev # items) lastEventID s = stream_loop ord con hostID items (Event_Id ev) (receive con hostID ev s)"
| "stream_loop ord con hostID (RecvEOF # _) lastEventID s = (StreamEOF, lastEventID, s)"
| "stream_loop ord con hostID (RecvOutOfRange # _) lastEventID s =
     (StreamOutOfRange, [], notifyReset ord con hostID (deleteCheckpoint hostID s))"
| "stream_loop ord con hostID (RecvError # _) lastEventID s = (StreamFailed, lastEventID, s)"

definition streamOnce ::
  "(string list \<Rightarrow> string list) \<Rightarrow> 'w HostConnector \<Rightarrow> string \<Rightarrow> stream_item list \<Rightarrow> string \<Rightarrow> 'w station \<Rightarrow> stream_end \<times> string \<times> 'w station" where
  "streamOnce ord con hostID items lastEventID s =
     (case HostRepository_GetRpcClient con (ct_world (fl_ctl (sn_fleet s))) (station_db s) hostID of
        Inl _ \<Rightarrow> (StreamFailed, lastEventID, s)
      | Inr _ \<Rightarrow> stream_loop ord con hostID items lastEventID s)"

text \<open>Where \<open>runHostStream\<close> starts: without a readable checkpoint, with events from now on only.\<close>

definition start_cursor :: "db \<Rightarrow> string \<Rightarrow> string" where
  "start_cursor d hostID = (case GetCheckpoint d hostID of Inl _ \<Rightarrow> [] | Inr i \<Rightarrow> i)"

section \<open>Retrying\<close>

datatype attempt = Returned | CanceledErr | FailedErr

text \<open>
  For each call of the function how it ended and how long it ran; the result are the waits between them.
\<close>

fun RetryWithBackoff :: "time \<Rightarrow> time \<Rightarrow> time \<Rightarrow> time \<Rightarrow> (attempt \<times> time) list \<Rightarrow> time list" where
  "RetryWithBackoff baseDelay maxDelay resetAfter delay [] = []"
| "RetryWithBackoff baseDelay maxDelay resetAfter delay ((r, elapsed) # rest) =
     (if r = CanceledErr then []
      else
        let delay = (if elapsed \<ge> resetAfter then baseDelay else delay) in
        if r = Returned then RetryWithBackoff baseDelay maxDelay resetAfter delay rest
        else delay # RetryWithBackoff baseDelay maxDelay resetAfter (min (delay * 2) maxDelay) rest)"

section \<open>The set of streams\<close>

text \<open>A stream is known by the number of the goroutine that runs it; new ones get the numbers from \<open>fresh\<close> on.\<close>

definition watcher_reconcile :: "nat \<Rightarrow> db \<Rightarrow> (string \<times> nat) list \<Rightarrow> (string \<times> nat) list" where
  "watcher_reconcile fresh d streams =
     (case ListRunningHostIDs d of
        Inl _ \<Rightarrow> streams
      | Inr ids \<Rightarrow>
          let kept = filter (\<lambda>(i, _). i \<in> set ids) streams;
              new = filter (\<lambda>i. map_of kept i = None) (remdups ids)
          in kept @ zip new [fresh ..< fresh + length new])"

section \<open>What the handlers leave alone\<close>

lemma Lifecycle_checkpoints [simp]: "db_checkpoints (Lifecycle_HandleHostEvent d hid ev) = db_checkpoints d"
  by (simp add: Lifecycle_HandleHostEvent_def handleSessionStarted_def handleSessionEnded_def Let_def SessionRepository_InsertFromEvent_def
      q_InsertSessionFromEvent_def SessionRepository_ApplySessionStarted_def q_ApplySessionStarted_def SessionRepository_ApplySessionEnded_def
      q_ApplySessionEnded_def writeQ_def map_errS_def split: option.split HostEventPayload.split prod.split sum.split)

lemma Sync_checkpoints [simp]: "db_checkpoints (lv_db (Sync_HandleHostEvent l hid ev)) = db_checkpoints (lv_db l)"
  by (simp add: Sync_HandleHostEvent_def applySessionParametersChanged_def applyWorldSaved_def bumpUsersCount_def applySessionEnded_def
      SessionRepository_ApplySessionParametersChanged_def q_ApplySessionParametersChanged_def SessionRepository_UpdateAfterWorldSaved_def
      q_UpdateSessionAfterWorldSaved_def writeQ_def map_errS_def Let_def split: option.split HostEventPayload.split)

lemma drain_one_frame: "frame c (fl_ctl f) \<Longrightarrow> frame c (fl_ctl (snd (drain_one con hid s f)))"
  using session_usecase_frame[of c "fl_ctl f"]
  by (auto simp: drain_one_def stopSession_def Let_def split: prod.split sum.split) (metis snd_conv)+

lemma drain_sessions_frame: "frame c (fl_ctl f) \<Longrightarrow> frame c (fl_ctl (snd (drain_sessions con hid ss f)))"
proof (induction ss arbitrary: f)
  case (Cons s ss)
  show ?case using Cons.IH[OF drain_one_frame[OF Cons.prems]] by (simp add: split_beta Let_def)
qed simp

lemma reconcile_frame: "frame (fl_ctl f) (fl_ctl (reconcileHost con f hid))"
proof (cases rule: reconcile_cases[of con f hid])
  case (remaining st ss n f1)
  then show ?thesis using drain_sessions_frame[OF frame_refl, of f con hid ss] by simp
next
  case (restart st ss f1 r c)
  have "frame (fl_ctl f) (fl_ctl f1)" using drain_sessions_frame[OF frame_refl, of f con hid ss] restart(3) by simp
  from Restart_frame[OF this, of con hid "drain_restartParms st" defaultRestartStopTimeoutSeconds]
  show ?thesis using restart(4) unfolding restart(5) by (simp add: restartHost_def)
qed simp

lemma reconcile_checkpoints [simp]: "db_checkpoints (lv_db (fl_ctl (reconcileHost con f hid))) = db_checkpoints (lv_db (fl_ctl f))"
  using reconcile_frame[of f con hid] by (simp add: frame_def host_frame_simps)

lemma dispatch_checkpoints [simp]: "db_checkpoints (station_db (watcher_dispatch con hid ev s)) = db_checkpoints (station_db s)"
  by (simp add: watcher_dispatch_def Let_def Upgrade_HandleHostEvent_def on_live_def split: option.split)

section \<open>Histories of one host\<close>

text \<open>
  The host appends events with new ids to its log. A stream asked for the events after an id delivers the
  log from the event behind it on; asked with the empty id it delivers what comes from now on. The
  controller may lose the connection, or die at any point: also between handling an event and writing
  its checkpoint, and then its memory is gone but the database stays. Other parts of the controller
  change the rest of the state (\<open>other\<close>). \<open>ws_last\<close> is the variable \<open>lastEventID\<close> of the goroutine, \<open>ws_stream\<close>
  the position of an open stream in the log, \<open>ws_handled\<close> what was given to the handlers.
\<close>

record 'w watch =
  ws_station :: "'w station"
  ws_log :: "HostEvent list"
  ws_last :: "string option"
  ws_stream :: "nat option"
  ws_handled :: "HostEvent list"

inductive watch_step :: "'w HostConnector \<Rightarrow> string \<Rightarrow> 'w watch \<Rightarrow> 'w watch \<Rightarrow> bool" for con hid where
  emit: "Event_Id e \<noteq> [] \<Longrightarrow> Event_Id e \<notin> Event_Id ` set (ws_log s) \<Longrightarrow> watch_step con hid s (s\<lparr>ws_log := ws_log s @ [e]\<rparr>)"
| start: "ws_last s = None \<Longrightarrow> GetCheckpoint (station_db (ws_station s)) hid = Inr i \<Longrightarrow>
     watch_step con hid s (s\<lparr>ws_last := Some (start_cursor (station_db (ws_station s)) hid)\<rparr>)"
| connect_live: "ws_stream s = None \<Longrightarrow> ws_last s = Some [] \<Longrightarrow> watch_step con hid s (s\<lparr>ws_stream := Some (length (ws_log s))\<rparr>)"
| connect_after: "ws_stream s = None \<Longrightarrow> i < length (ws_log s) \<Longrightarrow> ws_last s = Some (Event_Id (ws_log s ! i)) \<Longrightarrow>
     watch_step con hid s (s\<lparr>ws_stream := Some (Suc i)\<rparr>)"
| deliver_one: "ws_stream s = Some i \<Longrightarrow> i < length (ws_log s) \<Longrightarrow> e = ws_log s ! i \<Longrightarrow>
     stream_loop ord con hid [Recv e] l (ws_station s) = (fin, l', st') \<Longrightarrow>
     watch_step con hid s (s\<lparr>ws_station := st', ws_last := Some l', ws_stream := Some (Suc i), ws_handled := ws_handled s @ [e]\<rparr>)"
| disconnect: "watch_step con hid s (s\<lparr>ws_stream := None\<rparr>)"
| crash: "station_db st' = station_db (ws_station s) \<Longrightarrow>
     watch_step con hid s (s\<lparr>ws_station := st', ws_last := None, ws_stream := None\<rparr>)"
| crash_before_checkpoint: "ws_stream s = Some i \<Longrightarrow> i < length (ws_log s) \<Longrightarrow> e = ws_log s ! i \<Longrightarrow>
     station_db st' = station_db (watcher_dispatch con hid e (ws_station s)) \<Longrightarrow>
     watch_step con hid s (s\<lparr>ws_station := st', ws_last := None, ws_stream := None, ws_handled := ws_handled s @ [e]\<rparr>)"
| other: "map_of (db_checkpoints (station_db st')) hid = map_of (db_checkpoints (station_db (ws_station s))) hid \<Longrightarrow>
     watch_step con hid s (s\<lparr>ws_station := st'\<rparr>)"

abbreviation ckpt :: "string \<Rightarrow> 'w station \<Rightarrow> string option" where
  "ckpt hid s \<equiv> map_of (db_checkpoints (station_db s)) hid"

text \<open>
  Everything behind event \<open>i0\<close> and before some position \<open>k\<close> was handled, and neither the checkpoint nor
  the variable nor an open stream is beyond \<open>k\<close>.
\<close>

definition watch_inv :: "string \<Rightarrow> nat \<Rightarrow> 'w watch \<Rightarrow> bool" where
  "watch_inv hid i0 s \<longleftrightarrow> distinct (map Event_Id (ws_log s)) \<and> [] \<notin> Event_Id ` set (ws_log s) \<and>
     (\<exists>k. i0 < k \<and> k \<le> length (ws_log s) \<and> (\<forall>j. i0 < j \<and> j < k \<longrightarrow> ws_log s ! j \<in> set (ws_handled s))
       \<and> (\<exists>c. i0 \<le> c \<and> c < k \<and> ckpt hid (ws_station s) = Some (Event_Id (ws_log s ! c)))
       \<and> (\<forall>l. ws_last s = Some l \<longrightarrow> (\<exists>c. i0 \<le> c \<and> c < k \<and> l = Event_Id (ws_log s ! c)))
       \<and> (\<forall>p. ws_stream s = Some p \<longrightarrow> i0 < p \<and> p \<le> k))"

lemma persist_ckpt:
  "ckpt hid (persistCheckpoint hid eid s) = Some eid \<or> ckpt hid (persistCheckpoint hid eid s) = ckpt hid s"
  by (auto simp: persistCheckpoint_def with_station_db_def UpsertCheckpoint_def q_UpsertHostEventCheckpoint_def writeQ_def update_conv' split: option.split)

lemma receive_ckpt: "ckpt hid (receive con hid ev s) = Some (Event_Id ev) \<or> ckpt hid (receive con hid ev s) = ckpt hid s"
  using persist_ckpt[of hid "Event_Id ev" "watcher_dispatch con hid ev s"] by (simp add: receive_def)

lemma start_cursor_ckpt: "GetCheckpoint (station_db s) hid = Inr i \<Longrightarrow> ckpt hid s = Some c \<Longrightarrow> start_cursor (station_db s) hid = c"
  by (auto simp: start_cursor_def GetCheckpoint_def q_GetHostEventCheckpoint_def readQ_def split: option.splits sum.splits if_splits)

lemma watch_invI:
  assumes "distinct (map Event_Id (ws_log s))" "[] \<notin> Event_Id ` set (ws_log s)" "i0 < k" "k \<le> length (ws_log s)"
    "\<And>j. i0 < j \<Longrightarrow> j < k \<Longrightarrow> ws_log s ! j \<in> set (ws_handled s)"
    "i0 \<le> c" "c < k" "ckpt hid (ws_station s) = Some (Event_Id (ws_log s ! c))"
    "\<And>l. ws_last s = Some l \<Longrightarrow> \<exists>c. i0 \<le> c \<and> c < k \<and> l = Event_Id (ws_log s ! c)"
    "\<And>p. ws_stream s = Some p \<Longrightarrow> i0 < p \<and> p \<le> k"
  shows "watch_inv hid i0 s"
  unfolding watch_inv_def using assms by blast

lemma watch_inv_handle:
  assumes inv: "watch_inv hid i0 s" and at: "ws_stream s = Some i" "i < length (ws_log s)"
    and ck: "ckpt hid st' = Some (Event_Id (ws_log s ! i)) \<or> ckpt hid st' = ckpt hid (ws_station s)"
    and t: "t = s\<lparr>ws_station := st', ws_last := l, ws_stream := p, ws_handled := ws_handled s @ [ws_log s ! i]\<rparr>"
    and l: "l = None \<or> l = Some (Event_Id (ws_log s ! i))" and p: "p = None \<or> p = Some (Suc i)"
  shows "watch_inv hid i0 t"
proof -
  obtain k c where k: "i0 < k" "k \<le> length (ws_log s)" "\<And>j. i0 < j \<Longrightarrow> j < k \<Longrightarrow> ws_log s ! j \<in> set (ws_handled s)"
    and c: "i0 \<le> c" "c < k" "ckpt hid (ws_station s) = Some (Event_Id (ws_log s ! c))" and i: "i0 < i" "i \<le> k"
    using inv at(1) unfolding watch_inv_def by blast
  obtain c' where c': "i0 \<le> c'" "c' < max k (Suc i)" "ckpt hid st' = Some (Event_Id (ws_log s ! c'))"
    using ck c i by (metis less_Suc_eq_le less_imp_le_nat max.strict_coboundedI1 max.strict_coboundedI2 order_refl)
  show ?thesis
  proof (rule watch_invI[where k = "max k (Suc i)" and c = c'])
    show "ws_log t ! j \<in> set (ws_handled t)" if "i0 < j" "j < max k (Suc i)" for j
      using k(3)[of j] that i by (cases "j = i") (auto simp: t)
    show "\<exists>c. i0 \<le> c \<and> c < max k (Suc i) \<and> x = Event_Id (ws_log t ! c)" if "ws_last t = Some x" for x
      using that l i by (intro exI[of _ i]) (auto simp: t)
  qed (use inv c' k i at l p in \<open>auto simp: t watch_inv_def\<close>)
qed

lemma watch_step_inv:
  assumes "watch_step con hid s t" "watch_inv hid i0 s"
  shows "watch_inv hid i0 t"
  using assms
proof (cases rule: watch_step.cases)
  case (emit e)
  obtain k c where k: "i0 < k" "k \<le> length (ws_log s)" "\<And>j. i0 < j \<Longrightarrow> j < k \<Longrightarrow> ws_log s ! j \<in> set (ws_handled s)"
    and c: "i0 \<le> c" "c < k" "ckpt hid (ws_station s) = Some (Event_Id (ws_log s ! c))"
    and r: "\<And>l. ws_last s = Some l \<Longrightarrow> \<exists>c. i0 \<le> c \<and> c < k \<and> l = Event_Id (ws_log s ! c)" "\<And>p. ws_stream s = Some p \<Longrightarrow> i0 < p \<and> p \<le> k"
    using assms(2) unfolding watch_inv_def by blast
  have at: "ws_log t ! j = ws_log s ! j" if "j < k" for j using that k(2) by (simp add: emit nth_append)
  show ?thesis
  proof (rule watch_invI[where k = k and c = c])
    show "\<exists>c. i0 \<le> c \<and> c < k \<and> l = Event_Id (ws_log t ! c)" if "ws_last t = Some l" for l
      using r(1)[of l] that at by (auto simp: emit(1))
  qed (use assms(2) k c r at emit in \<open>auto simp: watch_inv_def\<close>)
next
  case (start i)
  then show ?thesis using assms(2) start_cursor_ckpt[OF start(3)] by (auto simp: watch_inv_def)
next
  case connect_live
  obtain k c where "k \<le> length (ws_log s)" "c < k" "[] = Event_Id (ws_log s ! c)" "[] \<notin> Event_Id ` set (ws_log s)"
    using assms(2) connect_live(3) unfolding watch_inv_def by blast
  then have False by (metis image_eqI less_le_trans nth_mem)
  then show ?thesis ..
next
  case (connect_after i)
  obtain k c where k: "i0 < k" "k \<le> length (ws_log s)" "\<And>j. i0 < j \<Longrightarrow> j < k \<Longrightarrow> ws_log s ! j \<in> set (ws_handled s)"
    and c: "i0 \<le> c" "c < k" "ckpt hid (ws_station s) = Some (Event_Id (ws_log s ! c))"
    and r: "\<And>l. ws_last s = Some l \<Longrightarrow> \<exists>c. i0 \<le> c \<and> c < k \<and> l = Event_Id (ws_log s ! c)"
    and d: "distinct (map Event_Id (ws_log s))" "[] \<notin> Event_Id ` set (ws_log s)"
    using assms(2) unfolding watch_inv_def by blast
  obtain c1 where c1: "i0 \<le> c1" "c1 < k" "Event_Id (ws_log s ! i) = Event_Id (ws_log s ! c1)" using r[OF connect_after(4)] by blast
  have "i = c1" using nth_eq_iff_index_eq[OF d(1), of i c1] c1 k(2) connect_after(3) by simp
  then show ?thesis
    by (intro watch_invI[where k = k and c = c]) (use d k c c1 r in \<open>simp_all add: connect_after(1)\<close>)
next
  case (deliver_one i e ord l fin l' st')
  show ?thesis
    by (rule watch_inv_handle[OF assms(2) deliver_one(2,3), where st' = st' and l = "Some l'" and p = "Some (Suc i)"])
       (use deliver_one receive_ckpt[where hid = hid and con = con and ev = e and s = "ws_station s"] in auto)
next
  case (crash_before_checkpoint i e st')
  show ?thesis
    by (rule watch_inv_handle[OF assms(2) crash_before_checkpoint(2,3), where st' = st' and l = None and p = None])
       (use crash_before_checkpoint in auto)
qed (auto simp: watch_inv_def)

interpretation watch: step_invariant "watch_step con hid" "watch_inv hid i0" for con hid i0
  by unfold_locales (rule watch_step_inv)

section \<open>Properties\<close>


text \<open>
  The waits of the retry loop. They are never below the base delay nor above the maximum; \<open>n\<close> quick
  failures in a row wait for the base delay, twice, four times and so on up to the maximum; and
  a connection that was stable long enough makes the next wait the base delay again.
\<close>

theorem backoff_delays:
  assumes "0 < base" "base \<le> maxd" "base \<le> delay" "delay \<le> maxd" "0 < resetAfter"
  shows "list_all (\<lambda>w. base \<le> w \<and> w \<le> maxd) (RetryWithBackoff base maxd resetAfter delay as)
     \<and> RetryWithBackoff base maxd resetAfter base (replicate n (FailedErr, 0)) = map (\<lambda>k. min (base * 2 ^ k) maxd) [0..<n]
     \<and> RetryWithBackoff base maxd resetAfter delay ((FailedErr, resetAfter) # as)
          = base # RetryWithBackoff base maxd resetAfter (min (base * 2) maxd) as"
proof (intro conjI)
  have "base \<le> dl \<Longrightarrow> dl \<le> maxd \<Longrightarrow> list_all (\<lambda>w. base \<le> w \<and> w \<le> maxd) (RetryWithBackoff base maxd resetAfter dl xs)" for dl xs
  proof (induction xs arbitrary: dl)
    case (Cons x xs)
    have "base \<le> min (y * 2) maxd" if "base \<le> y" for y using that assms(1,2) by (simp add: min_def)
    then show ?case using Cons assms by (cases x) (simp add: Let_def)
  qed simp
  then show "list_all (\<lambda>w. base \<le> w \<and> w \<le> maxd) (RetryWithBackoff base maxd resetAfter delay as)" using assms by blast
  have "RetryWithBackoff base maxd resetAfter (min (base * 2 ^ m) maxd) (replicate n (FailedErr, 0))
      = map (\<lambda>k. min (base * 2 ^ k) maxd) [m..<m + n]" for m
  proof (induction n arbitrary: m)
    case (Suc n)
    have "min (min (base * 2 ^ m) maxd * 2) maxd = min (base * 2 ^ Suc m) maxd" using assms by (auto simp: min_def)
    then show ?case using Suc[of "Suc m"] assms(5) by (simp add: upt_conv_Cons del: upt_Suc)
  qed simp
  from this[of 0] show "RetryWithBackoff base maxd resetAfter base (replicate n (FailedErr, 0)) = map (\<lambda>k. min (base * 2 ^ k) maxd) [0..<n]"
    using assms by simp
qed simp

text \<open>
  Streams follow the hosts. When the hosts can be listed, after a reconciliation exactly the RUNNING
  hosts have a stream, each one stream, and the stream of a host that keeps running is not restarted.
\<close>

theorem reconcile_streams_exact:
  assumes "no_faults d" "distinct (map fst streams)" "list_all (\<lambda>(_, g). g < fresh) streams"
  shows "let streams' = watcher_reconcile fresh d streams; running = Host_ID ` {h \<in> set (db_hosts d). Host_Status h = HeadlessHostStatus_RUNNING} in
     fst ` set streams' = running \<and> distinct (map fst streams') \<and> distinct (map snd (filter (\<lambda>(_, g). fresh \<le> g) streams'))
     \<and> (\<forall>i. i \<in> running \<longrightarrow> map_of streams i \<noteq> None \<longrightarrow> map_of streams' i = map_of streams i)"
proof -
  define ids where "ids = map Host_ID (sort_key host_started_desc (filter (\<lambda>h. Host_Status h = HeadlessHostStatus_RUNNING) (db_hosts d)))"
  define kept where "kept = filter (\<lambda>(i, _). i \<in> set ids) streams"
  define new where "new = filter (\<lambda>i. map_of kept i = None) (remdups ids)"
  have "ListRunningHostIDs d = Inr ids" using assms(1) by (simp add: ListRunningHostIDs_def q_ListHostsByStatus_def ids_def)
  then have run: "watcher_reconcile fresh d streams = kept @ zip new [fresh ..< fresh + length new]"
    by (simp add: watcher_reconcile_def kept_def new_def Let_def)
  have running: "set ids = Host_ID ` {h \<in> set (db_hosts d). Host_Status h = HeadlessHostStatus_RUNNING}" by (auto simp: ids_def)
  have keys: "fst ` set kept = fst ` set streams \<inter> set ids" by (auto simp: kept_def image_iff)
  have news: "set new = set ids - fst ` set streams" using keys by (auto simp: new_def map_of_eq_None_iff)
  have dk: "distinct (map fst kept)" using assms(2) by (simp add: kept_def distinct_map_filter)
  have old: "filter (\<lambda>(_, g). fresh \<le> g) kept = []" using assms(3) by (auto simp: kept_def list_all_iff filter_empty_conv)
  have all: "filter (\<lambda>(_, g). fresh \<le> g) (zip new [fresh ..< fresh + length new]) = zip new [fresh ..< fresh + length new]"
    by (rule filter_True) (auto dest: set_zip_rightD)
  have lookup: "map_of kept i = (if i \<in> set ids then map_of streams i else None)" for i
    unfolding kept_def by (induction streams) auto
  have "fst ` set (kept @ zip new [fresh ..< fresh + length new]) = set ids"
    unfolding set_append image_Un set_map[symmetric] by (simp add: keys[unfolded set_map[symmetric]] news) (auto simp: keys)
  moreover have "distinct (map fst (kept @ zip new [fresh ..< fresh + length new]))"
    using dk keys news by (auto simp: new_def)
  ultimately show ?thesis
    unfolding Let_def run running[symmetric] filter_append old all
    by (auto simp: map_add_def lookup split: option.split)
qed
section \<open>Instances\<close>

definition joined_event :: "string \<Rightarrow> HostEvent" where
  "joined_event i = \<lparr>Event_Id = i, Event_OccurredAt = Some 5, Event_Payload = UserJoinedSession ''s1'' ''alice''\<rparr>"

definition watch_station :: "string set station" where
  "watch_station = \<lparr>sn_fleet = fleet_of (host_ctl\<lparr>lv_db := (lv_db host_ctl)\<lparr>db_checkpoints := [(''h1'', ''e0'')]\<rparr>\<rparr>) NewHostUpgradeOrchestrator,
     sn_bus = NewBus\<rparr>"

definition watch_start :: "string set watch" where
  "watch_start = \<lparr>ws_station = watch_station, ws_log = [joined_event ''e0''], ws_last = None, ws_stream = None, ws_handled = []\<rparr>"


theorem backoff_delays_witness:
  "RetryWithBackoff 1 60 30 1 (replicate 7 (FailedErr, 0)) = [1, 2, 4, 8, 16, 32, 60]
     \<and> RetryWithBackoff 1 60 30 8 [(FailedErr, 30), (Returned, 0)] = [1]"
  using backoff_delays[of 1 60 1 30 "[]" 7] backoff_delays[of 1 60 8 30 "[(Returned, 0)]" 0] by (simp add: upt_rec)

theorem reconcile_streams_exact_witness:
  "fst ` set (watcher_reconcile 5 (lv_db host_ctl) [(''gone'', 1), (''h1'', 2)]) = {''h1'', ''h2''}
     \<and> map_of (watcher_reconcile 5 (lv_db host_ctl) [(''gone'', 1), (''h1'', 2)]) ''h1'' = Some 2"
proof -
  have "Host_ID ` set (filter (\<lambda>h. Host_Status h = HeadlessHostStatus_RUNNING) (db_hosts (lv_db host_ctl))) = {''h1'', ''h2''}"
    by (simp add: host_ctl_def plain_host_def)
  then have "Host_ID ` {h \<in> set (db_hosts (lv_db host_ctl)). Host_Status h = HeadlessHostStatus_RUNNING} = {''h1'', ''h2''}"
    unfolding set_filter .
  then show ?thesis
    using reconcile_streams_exact[OF host_ctl_ok(1), of "[(''gone'', 1), (''h1'', 2)]" 5] by (simp add: Let_def)
qed

end
