(* ===== verification/Auth.thy ===== *)
theory Auth
  imports WorkQueue PermissionUsecase "HOL-Library.Countable"
begin

text \<open>
  Authentication (\<open>lib/auth/auth.go\<close>): tokens, the interceptors that read them, and the claims they put
  into the context of a request. The JWT library is a parameter: \<open>SignedString\<close> turns the JSON of the
  claims into a token, \<open>ParseWithClaims\<close> verifies a token at a time, for an audience if one is asked for.
  A context is the claims it carries, if any. \<open>NewNumericDate\<close> keeps whole seconds.
\<close>

section \<open>Results of a request\<close>

text \<open>A connect error is a code and what caused it; an error without a code is sent as \<open>CodeUnknown\<close>.\<close>

datatype Code = CodeUnknown | CodeInvalidArgument | CodeNotFound | CodePermissionDenied | CodeFailedPrecondition
  | CodeInternal | CodeUnauthenticated

type_synonym 'a rpc = "(Code \<times> err) + 'a"

section \<open>Claims and tokens\<close>

text \<open>The JSON object inside a token; a key that is not there is \<open>None\<close>.\<close>

datatype jwt_payload = Payload
  (pl_user_id: "string option") (pl_resonite_id: "string option") (pl_icon_url: "string option") (pl_session_id: "string option")
  (pl_aud: "string list") (pl_exp: "int option") (pl_iat: "int option")

record jwt_lib =
  jwt_SignedString :: "string \<Rightarrow> jwt_payload \<Rightarrow> string res"
  jwt_ParseWithClaims :: "string \<Rightarrow> time \<Rightarrow> string option \<Rightarrow> string \<Rightarrow> jwt_payload res"

record auth_env =
  ae_jwt :: jwt_lib
  ae_secretKey :: string

record AuthClaims =
  Auth_UserID :: string
  Auth_ResoniteID :: string
  Auth_IconUrl :: string
  Auth_Audience :: "string list"
  Auth_ExpiresAt :: "time option"
  Auth_IssuedAt :: "time option"

record ResoniteLinkClaims =
  Link_UserID :: string
  Link_SessionID :: string
  Link_Audience :: "string list"
  Link_ExpiresAt :: "time option"
  Link_IssuedAt :: "time option"

type_synonym ctx = "AuthClaims option"

definition minSecretKeyLength :: nat where "minSecretKeyLength = 10"
definition defaultTokenTTL :: time where "defaultTokenTTL = 30 * Minute"
definition defaultRefreshTTL :: time where "defaultRefreshTTL = 3 * 24 * 60 * Minute"
definition ResoniteLinkAudience :: string where "ResoniteLinkAudience = ''resonite-link-ws''"

definition NewNumericDate :: "time \<Rightarrow> time" where
  "NewNumericDate t = t div Second * Second"

definition json_field :: "string option \<Rightarrow> string" where
  "json_field f = (case f of None \<Rightarrow> [] | Some s \<Rightarrow> s)"

definition AuthClaims_json :: "AuthClaims \<Rightarrow> jwt_payload" where
  "AuthClaims_json c = Payload (Some (Auth_UserID c)) (Some (Auth_ResoniteID c)) (Some (Auth_IconUrl c)) None
     (Auth_Audience c) (Auth_ExpiresAt c) (Auth_IssuedAt c)"

definition json_AuthClaims :: "jwt_payload \<Rightarrow> AuthClaims" where
  "json_AuthClaims p = \<lparr>Auth_UserID = json_field (pl_user_id p), Auth_ResoniteID = json_field (pl_resonite_id p),
     Auth_IconUrl = json_field (pl_icon_url p), Auth_Audience = pl_aud p, Auth_ExpiresAt = pl_exp p, Auth_IssuedAt = pl_iat p\<rparr>"

definition ResoniteLinkClaims_json :: "ResoniteLinkClaims \<Rightarrow> jwt_payload" where
  "ResoniteLinkClaims_json c = Payload (Some (Link_UserID c)) None None (Some (Link_SessionID c))
     (Link_Audience c) (Link_ExpiresAt c) (Link_IssuedAt c)"

definition json_ResoniteLinkClaims :: "jwt_payload \<Rightarrow> ResoniteLinkClaims" where
  "json_ResoniteLinkClaims p = \<lparr>Link_UserID = json_field (pl_user_id p), Link_SessionID = json_field (pl_session_id p),
     Link_Audience = pl_aud p, Link_ExpiresAt = pl_exp p, Link_IssuedAt = pl_iat p\<rparr>"

definition signJWT :: "auth_env \<Rightarrow> jwt_payload \<Rightarrow> string res" where
  "signJWT env p =
     (if length (ae_secretKey env) < minSecretKeyLength then Inl (ErrMsg ''invalid jwt secret key'')
      else jwt_SignedString (ae_jwt env) (ae_secretKey env) p)"

definition parseJWT :: "auth_env \<Rightarrow> time \<Rightarrow> string option \<Rightarrow> string \<Rightarrow> jwt_payload res" where
  "parseJWT env now aud tok =
     (if length (ae_secretKey env) < minSecretKeyLength then Inl (ErrMsg ''invalid jwt secret key'')
      else jwt_ParseWithClaims (ae_jwt env) (ae_secretKey env) now aud tok)"

definition GenerateToken :: "auth_env \<Rightarrow> time \<Rightarrow> AuthClaims \<Rightarrow> time \<Rightarrow> string res" where
  "GenerateToken env now claims tokenTTL =
     signJWT env (AuthClaims_json (claims\<lparr>Auth_ExpiresAt := Some (NewNumericDate (now + tokenTTL)),
                                          Auth_IssuedAt := Some (NewNumericDate now)\<rparr>))"

definition GenerateTokensWithDefaultTTL :: "auth_env \<Rightarrow> time \<Rightarrow> AuthClaims \<Rightarrow> (string \<times> string) res" where
  "GenerateTokensWithDefaultTTL env now claims =
     bindR (GenerateToken env now claims defaultTokenTTL) (\<lambda>token.
     bindR (GenerateToken env now claims defaultRefreshTTL) (\<lambda>refreshToken. Inr (token, refreshToken)))"

definition ParseToken :: "auth_env \<Rightarrow> time \<Rightarrow> string \<Rightarrow> AuthClaims res" where
  "ParseToken env now tok = bindR (parseJWT env now None tok) (\<lambda>p. Inr (json_AuthClaims p))"

definition validateAuthHeader :: "auth_env \<Rightarrow> time \<Rightarrow> string \<Rightarrow> AuthClaims rpc" where
  "validateAuthHeader env now token =
     (if length token \<le> length ''Bearer '' then Inl (CodeUnauthenticated, ErrMsg ''token required'')
      else case ParseToken env now (drop (length ''Bearer '') token) of
             Inl err \<Rightarrow> Inl (CodeUnauthenticated, err)
           | Inr claims \<Rightarrow> Inr claims)"

definition GetAuthClaimsFromContext :: "ctx \<Rightarrow> AuthClaims res" where
  "GetAuthClaimsFromContext c = (case c of None \<Rightarrow> Inl (ErrMsg ''not authenticated'') | Some claims \<Rightarrow> Inr claims)"

definition WithActAsUser :: "ctx \<Rightarrow> string \<Rightarrow> ctx" where
  "WithActAsUser c userID =
     (if userID = [] then c
      else Some \<lparr>Auth_UserID = userID, Auth_ResoniteID = [], Auth_IconUrl = [], Auth_Audience = [],
                 Auth_ExpiresAt = None, Auth_IssuedAt = None\<rparr>)"

definition GenerateResoniteLinkToken :: "auth_env \<Rightarrow> time \<Rightarrow> string \<Rightarrow> string \<Rightarrow> time \<Rightarrow> (string \<times> time) res" where
  "GenerateResoniteLinkToken env now userID sessionID ttl =
     (let expiresAt = now + ttl;
          claims = \<lparr>Link_UserID = userID, Link_SessionID = sessionID, Link_Audience = [ResoniteLinkAudience],
                    Link_ExpiresAt = Some (NewNumericDate expiresAt), Link_IssuedAt = Some (NewNumericDate now)\<rparr>
      in bindR (signJWT env (ResoniteLinkClaims_json claims)) (\<lambda>ss. Inr (ss, expiresAt)))"

definition ParseResoniteLinkToken :: "auth_env \<Rightarrow> time \<Rightarrow> string \<Rightarrow> ResoniteLinkClaims res" where
  "ParseResoniteLinkToken env now tok =
     bindR (parseJWT env now (Some ResoniteLinkAudience) tok) (\<lambda>p. Inr (json_ResoniteLinkClaims p))"

section \<open>Interceptors\<close>

text \<open>
  A handler gets the context and the request; an interceptor wraps one. \<open>authorization\<close> reads the header
  of a request. The header that the first one adds to a response is not part of the model.
\<close>

definition authInterceptor_WrapUnary ::
  "auth_env \<Rightarrow> time \<Rightarrow> ('q \<Rightarrow> string) \<Rightarrow> (ctx \<Rightarrow> 'q \<Rightarrow> 'r rpc) \<Rightarrow> ctx \<Rightarrow> 'q \<Rightarrow> 'r rpc" where
  "authInterceptor_WrapUnary env now authorization next c req =
     bindR (validateAuthHeader env now (authorization req)) (\<lambda>claims. next (Some claims) req)"

definition NewOptionalAuthInterceptor ::
  "auth_env \<Rightarrow> time \<Rightarrow> ('q \<Rightarrow> string) \<Rightarrow> (ctx \<Rightarrow> 'q \<Rightarrow> 'r rpc) \<Rightarrow> ctx \<Rightarrow> 'q \<Rightarrow> 'r rpc" where
  "NewOptionalAuthInterceptor env now authorization next c req =
     (let token = authorization req;
          c = (if length ''Bearer '' < length token
               then (case ParseToken env now (drop (length ''Bearer '') token) of Inl _ \<Rightarrow> c | Inr claims \<Rightarrow> Some claims)
               else c)
      in next c req)"

section \<open>What the library promises\<close>

text \<open>
  A token that was signed with a key is accepted with that key exactly until the time it expires, and for
  an audience only when it names it; what is read is what was signed.
\<close>

definition pl_valid :: "time \<Rightarrow> string option \<Rightarrow> jwt_payload \<Rightarrow> bool" where
  "pl_valid now aud p \<longleftrightarrow> (case pl_exp p of None \<Rightarrow> False | Some e \<Rightarrow> now < e) \<and> (case aud of None \<Rightarrow> True | Some a \<Rightarrow> a \<in> set (pl_aud p))"

definition lawful_jwt :: "jwt_lib \<Rightarrow> bool" where
  "lawful_jwt lib \<longleftrightarrow> (\<forall>key p. \<exists>tok. jwt_SignedString lib key p = Inr tok \<and> tok \<noteq> []
     \<and> (\<forall>now aud. case jwt_ParseWithClaims lib key now aud tok of Inl _ \<Rightarrow> \<not> pl_valid now aud p | Inr q \<Rightarrow> pl_valid now aud p \<and> q = p))"

definition working_env :: "auth_env \<Rightarrow> bool" where
  "working_env env \<longleftrightarrow> lawful_jwt (ae_jwt env) \<and> minSecretKeyLength \<le> length (ae_secretKey env)"

lemma signJWT_total:
  assumes "working_env env"
  obtains tok where "signJWT env p = Inr tok" "tok \<noteq> []"
    "\<And>now aud. pl_valid now aud p \<Longrightarrow> parseJWT env now aud tok = Inr p"
    "\<And>now aud. \<not> pl_valid now aud p \<Longrightarrow> isl (parseJWT env now aud tok)"
proof -
  obtain tok where t: "jwt_SignedString (ae_jwt env) (ae_secretKey env) p = Inr tok" "tok \<noteq> []"
    and v: "\<And>now aud. case jwt_ParseWithClaims (ae_jwt env) (ae_secretKey env) now aud tok of
      Inl _ \<Rightarrow> \<not> pl_valid now aud p | Inr q \<Rightarrow> pl_valid now aud p \<and> q = p"
    using assms unfolding working_env_def lawful_jwt_def by blast
  show ?thesis
  proof (rule that[of tok])
    show "signJWT env p = Inr tok" using t(1) assms by (simp add: signJWT_def working_env_def)
    show "parseJWT env now aud tok = Inr p" if "pl_valid now aud p" for now aud
      using v[of now aud] that assms by (simp add: parseJWT_def working_env_def split: sum.splits)
    show "isl (parseJWT env now aud tok)" if "\<not> pl_valid now aud p" for now aud
      using v[of now aud] that assms by (simp add: parseJWT_def working_env_def split: sum.splits)
  qed (rule t(2))
qed

text \<open>A header with a token is read as the token.\<close>

lemma validateAuthHeader_bearer:
  "tok \<noteq> [] \<Longrightarrow> validateAuthHeader env now (''Bearer '' @ tok) =
     (case ParseToken env now tok of Inl err \<Rightarrow> Inl (CodeUnauthenticated, err) | Inr claims \<Rightarrow> Inr claims)"
  by (simp add: validateAuthHeader_def)

lemma json_AuthClaims_json [simp]: "json_AuthClaims (AuthClaims_json c) = c"
  by (simp add: json_AuthClaims_def AuthClaims_json_def json_field_def)

lemma json_LinkClaims_json [simp]: "json_ResoniteLinkClaims (ResoniteLinkClaims_json c) = c"
  by (simp add: json_ResoniteLinkClaims_def ResoniteLinkClaims_json_def json_field_def)

text \<open>A token authenticates as \<open>claims\<close> at the times before \<open>until\<close> and at no other.\<close>

definition authenticates :: "auth_env \<Rightarrow> string \<Rightarrow> AuthClaims \<Rightarrow> time \<Rightarrow> bool" where
  "authenticates env tok claims until \<longleftrightarrow>
     (\<forall>now. if now < until then validateAuthHeader env now (''Bearer '' @ tok) = Inr claims
            else isl (validateAuthHeader env now (''Bearer '' @ tok)))"

lemma authenticatesI:
  assumes tok: "tok \<noteq> []"
    and good: "\<And>n. n < until \<Longrightarrow> parseJWT env n None tok = Inr p" and bad: "\<And>n. \<not> n < until \<Longrightarrow> isl (parseJWT env n None tok)"
  shows "authenticates env tok (json_AuthClaims p) until"
proof -
  have "if n < until then validateAuthHeader env n (''Bearer '' @ tok) = Inr (json_AuthClaims p)
        else isl (validateAuthHeader env n (''Bearer '' @ tok))" for n
    unfolding validateAuthHeader_bearer[OF tok]
    using good[of n] bad[of n] by (cases "parseJWT env n None tok") (auto simp: ParseToken_def)
  then show ?thesis unfolding authenticates_def by (rule allI)
qed

lemma GenerateToken_authenticates:
  assumes "working_env env"
  shows "\<exists>tok. GenerateToken env now claims ttl = Inr tok
     \<and> authenticates env tok (claims\<lparr>Auth_ExpiresAt := Some (NewNumericDate (now + ttl)), Auth_IssuedAt := Some (NewNumericDate now)\<rparr>)
         (NewNumericDate (now + ttl))"
proof -
  let ?c = "claims\<lparr>Auth_ExpiresAt := Some (NewNumericDate (now + ttl)), Auth_IssuedAt := Some (NewNumericDate now)\<rparr>"
  obtain tok where t: "signJWT env (AuthClaims_json ?c) = Inr tok" "tok \<noteq> []"
    "\<And>now aud. pl_valid now aud (AuthClaims_json ?c) \<Longrightarrow> parseJWT env now aud tok = Inr (AuthClaims_json ?c)"
    "\<And>now aud. \<not> pl_valid now aud (AuthClaims_json ?c) \<Longrightarrow> isl (parseJWT env now aud tok)"
    using signJWT_total[OF assms] by metis
  have v: "pl_valid n None (AuthClaims_json ?c) \<longleftrightarrow> n < NewNumericDate (now + ttl)" for n
    by (simp add: pl_valid_def AuthClaims_json_def)
  have "authenticates env tok (json_AuthClaims (AuthClaims_json ?c)) (NewNumericDate (now + ttl))"
    by (rule authenticatesI[OF t(2)]) (simp_all add: t(3,4) v)
  then show ?thesis using t(1) by (simp add: GenerateToken_def)
qed

lemma ResoniteLinkToken_authenticates:
  assumes "working_env env"
  shows "\<exists>tok claims. GenerateResoniteLinkToken env now userID sessionID ttl = Inr (tok, now + ttl)
     \<and> (\<forall>n < NewNumericDate (now + ttl). ParseResoniteLinkToken env n tok = Inr claims)
     \<and> Link_UserID claims = userID \<and> Link_SessionID claims = sessionID
     \<and> authenticates env tok \<lparr>Auth_UserID = userID, Auth_ResoniteID = [], Auth_IconUrl = [], Auth_Audience = [ResoniteLinkAudience],
          Auth_ExpiresAt = Some (NewNumericDate (now + ttl)), Auth_IssuedAt = Some (NewNumericDate now)\<rparr> (NewNumericDate (now + ttl))"
proof -
  define lc where "lc = \<lparr>Link_UserID = userID, Link_SessionID = sessionID, Link_Audience = [ResoniteLinkAudience],
    Link_ExpiresAt = Some (NewNumericDate (now + ttl)), Link_IssuedAt = Some (NewNumericDate now)\<rparr>"
  let ?p = "ResoniteLinkClaims_json lc"
  obtain tok where t: "signJWT env ?p = Inr tok" "tok \<noteq> []"
    "\<And>now aud. pl_valid now aud ?p \<Longrightarrow> parseJWT env now aud tok = Inr ?p"
    "\<And>now aud. \<not> pl_valid now aud ?p \<Longrightarrow> isl (parseJWT env now aud tok)"
    using signJWT_total[OF assms] by metis
  have v: "pl_valid n None ?p \<longleftrightarrow> n < NewNumericDate (now + ttl)" "pl_valid n (Some ResoniteLinkAudience) ?p \<longleftrightarrow> n < NewNumericDate (now + ttl)" for n
    by (simp_all add: pl_valid_def ResoniteLinkClaims_json_def lc_def)
  have a: "json_AuthClaims ?p = \<lparr>Auth_UserID = userID, Auth_ResoniteID = [], Auth_IconUrl = [], Auth_Audience = [ResoniteLinkAudience],
      Auth_ExpiresAt = Some (NewNumericDate (now + ttl)), Auth_IssuedAt = Some (NewNumericDate now)\<rparr>"
    by (simp add: json_AuthClaims_def ResoniteLinkClaims_json_def lc_def json_field_def)
  have "authenticates env tok (json_AuthClaims ?p) (NewNumericDate (now + ttl))"
    by (rule authenticatesI[OF t(2)]) (simp_all add: t(3,4) v)
  moreover have "ParseResoniteLinkToken env n tok = Inr lc" if "n < NewNumericDate (now + ttl)" for n
    using t(3)[of n "Some ResoniteLinkAudience"] v(2)[of n] that by (simp add: ParseResoniteLinkToken_def)
  moreover have "GenerateResoniteLinkToken env now userID sessionID ttl = Inr (tok, now + ttl)"
    using t(1) by (simp add: GenerateResoniteLinkToken_def Let_def lc_def)
  ultimately show ?thesis unfolding a by (intro exI[of _ tok] exI[of _ lc]) (simp add: lc_def)
qed

section \<open>Instances\<close>

text \<open>A library that keeps the laws: a token is the number of its payload, in unary, after the key.\<close>

instance jwt_payload :: countable
  by countable_datatype

definition unary_jwt :: jwt_lib where
  "unary_jwt = \<lparr>jwt_SignedString = (\<lambda>key p. Inr (replicate (Suc (to_nat p)) CHR ''x'')),
     jwt_ParseWithClaims = (\<lambda>key now aud tok.
       let p = from_nat (length tok - 1) in if pl_valid now aud p then Inr p else Inl (ErrMsg ''invalid token''))\<rparr>"

lemma lawful_unary_jwt: "lawful_jwt unary_jwt"
  by (simp add: lawful_jwt_def unary_jwt_def Let_def)

definition sample_auth :: auth_env where
  "sample_auth = \<lparr>ae_jwt = unary_jwt, ae_secretKey = ''0123456789''\<rparr>"

lemma working_sample_auth: "working_env sample_auth"
  by (simp add: working_env_def sample_auth_def lawful_unary_jwt minSecretKeyLength_def)

end
