(* ===== verification/Interceptor.thy ===== *)
theory Interceptor
  imports Auth HostUsecase
begin

text \<open>
  The permission interceptor (\<open>adapter/rpc/permission_interceptor.go\<close>, \<open>permission_extractors.go\<close>): every
  procedure has a rule, declared beside its handler, which finds the group that owns the target of the
  request and asks for a permission there. A rule is a value of a data type and \<open>run_check\<close> says what each
  does; the generic \<open>check...[T]\<close> functions name the request type they cast to and the field they read.
  The controller, group and role services put the authenticating interceptor in front, the user service
  the optional one.
\<close>

section \<open>Requests\<close>

text \<open>
  A procedure is an operation of a service, \<open>/hdlctrl.v1.ControllerService/GetHeadlessHost\<close> for instance. Of the
  request messages the model has the fields that rules read; a field a message does not have is empty.
\<close>

datatype procedure =
    Controller (proc_method: string) | GroupProc (proc_method: string) | RoleProc (proc_method: string) | UserProc (proc_method: string)

record AnyRequest =
  req_Procedure :: procedure
  req_Authorization :: string
  req_Type :: string
  req_HostId :: string
  req_SessionId :: string
  req_AccountId :: string
  req_HeadlessAccountId :: string
  req_GroupId :: "string option"
  req_RoleId :: string
  req_ParametersSessionId :: string

definition GetGroupId :: "AnyRequest \<Rightarrow> string" where
  "GetGroupId req = json_field (req_GroupId req)"

datatype idExtractor = HostId | SessionId | AccountId | HeadlessAccountId | GroupId

fun extract_id :: "idExtractor \<Rightarrow> AnyRequest \<Rightarrow> string" where
  "extract_id HostId req = req_HostId req"
| "extract_id SessionId req = req_SessionId req"
| "extract_id AccountId req = req_AccountId req"
| "extract_id HeadlessAccountId req = req_HeadlessAccountId req"
| "extract_id GroupId req = GetGroupId req"

section \<open>Helpers\<close>

definition convertErr :: "err \<Rightarrow> Code \<times> err" where
  "convertErr e =
     (if e = ErrNotFound then (CodeNotFound, e)
      else if e = ErrUnauthenticated then (CodeUnauthenticated, e)
      else if e = ErrPermissionDenied then (CodePermissionDenied, e)
      else if e = ErrHostDraining then (CodeFailedPrecondition, e)
      else (CodeInternal, e))"

definition extractClaims :: "ctx \<Rightarrow> AuthClaims rpc" where
  "extractClaims c = map_err (Pair CodeUnauthenticated) (GetAuthClaimsFromContext c)"

definition permissionDenied :: "string \<Rightarrow> Code \<times> err" where
  "permissionDenied key = (CodePermissionDenied, ErrMsg (''permission required: '' @ key))"

definition demand :: "bool res \<Rightarrow> string \<Rightarrow> unit rpc" where
  "demand r key = bindR (map_err (Pair CodeInternal) r) (\<lambda>ok. if ok then Inr () else Inl (permissionDenied key))"

definition requirePerm :: "db \<Rightarrow> string \<Rightarrow> string \<Rightarrow> string \<Rightarrow> unit rpc" where
  "requirePerm d userID groupID key = demand (HasPermission d userID groupID key) key"

definition requireSystemPerm :: "string \<Rightarrow> db \<Rightarrow> ctx \<Rightarrow> AnyRequest \<Rightarrow> unit rpc" where
  "requireSystemPerm permKey d c req =
     bindR (extractClaims c) (\<lambda>claims. demand (HasSystemPermission d (Auth_UserID claims) permKey) permKey)"

definition requireAuthenticated :: "db \<Rightarrow> ctx \<Rightarrow> AnyRequest \<Rightarrow> unit rpc" where
  "requireAuthenticated d c req = bindR (extractClaims c) (\<lambda>_. Inr ())"

definition requireAuthOnly :: "db \<Rightarrow> ctx \<Rightarrow> AnyRequest \<Rightarrow> unit rpc" where
  "requireAuthOnly d c req = Inr ()"

definition publicRPC :: "db \<Rightarrow> ctx \<Rightarrow> AnyRequest \<Rightarrow> unit rpc" where
  "publicRPC d c req = Inr ()"

section \<open>Rules\<close>

text \<open>The common beginning of the generic rules: cast, claims, and an id that is not blank.\<close>

definition with_id ::
  "string \<Rightarrow> string \<Rightarrow> idExtractor \<Rightarrow> ctx \<Rightarrow> AnyRequest \<Rightarrow> (AuthClaims \<Rightarrow> string \<Rightarrow> unit rpc) \<Rightarrow> unit rpc" where
  "with_id T missing ext c req k =
     (if req_Type req \<noteq> T then Inl (CodeInternal, ErrMsg ''unexpected request type in permission rule'')
      else
        bindR (extractClaims c) (\<lambda>claims.
        let i = TrimSpace (extract_id ext req) in
        if i = [] then Inl (CodeInvalidArgument, ErrMsg (missing @ '' is required'')) else k claims i))"

definition checkHostPermission :: "string \<Rightarrow> string \<Rightarrow> idExtractor \<Rightarrow> db \<Rightarrow> ctx \<Rightarrow> AnyRequest \<Rightarrow> unit rpc" where
  "checkHostPermission permKey T ext d c req =
     with_id T ''host_id'' ext c req (\<lambda>claims hostID.
     bindR (map_err convertErr (HostRepository_GetGroupID d hostID)) (\<lambda>groupID.
     requirePerm d (Auth_UserID claims) groupID permKey))"

definition checkSessionPermission :: "string \<Rightarrow> string \<Rightarrow> idExtractor \<Rightarrow> db \<Rightarrow> ctx \<Rightarrow> AnyRequest \<Rightarrow> unit rpc" where
  "checkSessionPermission permKey T ext d c req =
     with_id T ''session_id'' ext c req (\<lambda>claims sessionID.
     bindR (map_err convertErr (SessionRepository_Get d sessionID)) (\<lambda>s.
     requirePerm d (Auth_UserID claims) (Session_GroupID s) permKey))"

definition checkAccountPermission :: "string \<Rightarrow> string \<Rightarrow> idExtractor \<Rightarrow> db \<Rightarrow> ctx \<Rightarrow> AnyRequest \<Rightarrow> unit rpc" where
  "checkAccountPermission permKey T ext d c req =
     with_id T ''account_id'' ext c req (\<lambda>claims accountID.
     bindR (map_err convertErr (GetHeadlessAccount d accountID)) (\<lambda>a.
     requirePerm d (Auth_UserID claims) (Account_GroupID a) permKey))"

definition checkGroupReadable :: "db \<Rightarrow> string \<Rightarrow> string \<Rightarrow> string \<Rightarrow> unit rpc" where
  "checkGroupReadable d userID groupID permKey =
     bindR (map_err (Pair CodeInternal) (HasSystemPermission d userID PermKey_SystemGroupList)) (\<lambda>canList.
     if canList then Inr ()
     else
       bindR (map_err (Pair CodeInternal) (HasPermission d userID groupID PermKey_GroupEdit)) (\<lambda>memberPerms.
       if memberPerms then Inr ()
       else
         bindR (map_err (Pair CodeInternal) (GroupRepository_ListByUser d userID)) (\<lambda>groups.
         if list_ex (\<lambda>g. Group_ID g = groupID) groups then Inr () else Inl (permissionDenied permKey))))"

definition checkGroupPermission :: "string \<Rightarrow> string \<Rightarrow> idExtractor \<Rightarrow> bool \<Rightarrow> db \<Rightarrow> ctx \<Rightarrow> AnyRequest \<Rightarrow> unit rpc" where
  "checkGroupPermission permKey T ext readOnly d c req =
     with_id T ''group_id'' ext c req (\<lambda>claims groupID.
     if readOnly then checkGroupReadable d (Auth_UserID claims) groupID permKey
     else requirePerm d (Auth_UserID claims) groupID permKey)"

definition unexpected_type :: "Code \<times> err" where
  "unexpected_type = (CodeInternal, ErrMsg ''unexpected request type'')"

definition checkStartHeadlessHost :: "db \<Rightarrow> ctx \<Rightarrow> AnyRequest \<Rightarrow> unit rpc" where
  "checkStartHeadlessHost d c req =
     (if req_Type req \<noteq> ''StartHeadlessHostRequest'' then Inl unexpected_type
      else
        bindR (extractClaims c) (\<lambda>claims.
        if req_HeadlessAccountId req = [] then Inl (CodeInvalidArgument, ErrMsg ''headless_account_id is required'')
        else
          bindR (map_err convertErr (GetHeadlessAccount d (req_HeadlessAccountId req))) (\<lambda>acc.
          if GetGroupId req \<noteq> [] \<and> Account_GroupID acc \<noteq> GetGroupId req
          then Inl (CodeFailedPrecondition, ErrMsg ''account group does not match requested host group'')
          else
            bindR (requirePerm d (Auth_UserID claims) (Account_GroupID acc) PermKey_HostWrite) (\<lambda>_.
            requirePerm d (Auth_UserID claims) (Account_GroupID acc) PermKey_AccountUse))))"

definition checkCreateHeadlessAccount :: "db \<Rightarrow> ctx \<Rightarrow> AnyRequest \<Rightarrow> unit rpc" where
  "checkCreateHeadlessAccount d c req =
     (if req_Type req \<noteq> ''CreateHeadlessAccountRequest'' then Inl unexpected_type
      else
        bindR (extractClaims c) (\<lambda>claims.
        bindR (map_err convertErr (ResolveGroupIDForUser d (Auth_UserID claims) (GetGroupId req))) (\<lambda>groupID.
        requirePerm d (Auth_UserID claims) groupID PermKey_AccountWrite)))"

definition checkStartWorld :: "db \<Rightarrow> ctx \<Rightarrow> AnyRequest \<Rightarrow> unit rpc" where
  "checkStartWorld d c req =
     (if req_Type req \<noteq> ''StartWorldRequest'' then Inl unexpected_type
      else
        bindR (extractClaims c) (\<lambda>claims.
        if req_HostId req = [] then Inl (CodeInvalidArgument, ErrMsg ''host_id is required'')
        else
          bindR (map_err convertErr (HostRepository_GetGroupID d (req_HostId req))) (\<lambda>hostGroupID.
          if GetGroupId req \<noteq> [] \<and> GetGroupId req \<noteq> hostGroupID
          then Inl (CodeFailedPrecondition, ErrMsg ''session group must equal host group'')
          else forR (requirePerm d (Auth_UserID claims) hostGroupID) [PermKey_HostUse, PermKey_AccountUse, PermKey_SessionWrite])))"

definition checkUpdateSessionParameters :: "db \<Rightarrow> ctx \<Rightarrow> AnyRequest \<Rightarrow> unit rpc" where
  "checkUpdateSessionParameters d c req =
     (if req_Type req \<noteq> ''UpdateSessionParametersRequest'' then Inl unexpected_type
      else if req_ParametersSessionId req = [] then Inl (CodeInvalidArgument, ErrMsg ''session_id is required'')
      else
        bindR (extractClaims c) (\<lambda>claims.
        bindR (map_err convertErr (SessionRepository_Get d (req_ParametersSessionId req))) (\<lambda>s.
        requirePerm d (Auth_UserID claims) (Session_GroupID s) PermKey_SessionWrite)))"

definition checkUpdateGroupMemberRole :: "db \<Rightarrow> ctx \<Rightarrow> AnyRequest \<Rightarrow> unit rpc" where
  "checkUpdateGroupMemberRole d c req =
     (if req_Type req \<noteq> ''UpdateGroupMemberRoleRequest'' then Inl unexpected_type
      else
        bindR (extractClaims c) (\<lambda>claims.
        if GetGroupId req = [] then Inl (CodeInvalidArgument, ErrMsg ''group_id is required'')
        else
          bindR (map_err convertErr (GroupRepository_Get d (GetGroupId req))) (\<lambda>g.
          if Group_Type g = GroupType_Personal
          then demand (HasSystemPermission d (Auth_UserID claims) PermKey_SystemGroupManage) PermKey_SystemGroupManage
          else requirePerm d (Auth_UserID claims) (GetGroupId req) PermKey_GroupMembersManage)))"

definition checkListRoles :: "db \<Rightarrow> ctx \<Rightarrow> AnyRequest \<Rightarrow> unit rpc" where
  "checkListRoles d c req =
     (if req_Type req \<noteq> ''ListRolesRequest'' then Inl unexpected_type
      else
        bindR (extractClaims c) (\<lambda>claims.
        let groupID = TrimSpace (GetGroupId req) in
        if groupID = [] then Inr () else checkGroupReadable d (Auth_UserID claims) groupID PermKey_GroupEdit))"

definition checkCreateRole :: "db \<Rightarrow> ctx \<Rightarrow> AnyRequest \<Rightarrow> unit rpc" where
  "checkCreateRole d c req =
     (if req_Type req \<noteq> ''CreateRoleRequest'' then Inl unexpected_type
      else
        bindR (extractClaims c) (\<lambda>claims.
        if req_GroupId req = None \<or> GetGroupId req = []
        then demand (HasSystemPermission d (Auth_UserID claims) PermKey_SystemRoleManage) PermKey_SystemRoleManage
        else requirePerm d (Auth_UserID claims) (GetGroupId req) PermKey_GroupMembersManage))"

definition checkRoleMutation :: "db \<Rightarrow> ctx \<Rightarrow> string \<Rightarrow> unit rpc" where
  "checkRoleMutation d c roleID =
     (if roleID = [] then Inl (CodeInvalidArgument, ErrMsg ''role_id is required'')
      else
        bindR (extractClaims c) (\<lambda>claims.
        bindR (map_err convertErr (RoleRepository_Get d roleID)) (\<lambda>role.
        if blank_ptr (Role_GroupID role)
        then demand (HasSystemPermission d (Auth_UserID claims) PermKey_SystemRoleManage) PermKey_SystemRoleManage
        else requirePerm d (Auth_UserID claims) (json_field (Role_GroupID role)) PermKey_GroupMembersManage)))"

definition checkUpdateRole :: "db \<Rightarrow> ctx \<Rightarrow> AnyRequest \<Rightarrow> unit rpc" where
  "checkUpdateRole d c req = (if req_Type req \<noteq> ''UpdateRoleRequest'' then Inl unexpected_type else checkRoleMutation d c (req_RoleId req))"

definition checkDeleteRole :: "db \<Rightarrow> ctx \<Rightarrow> AnyRequest \<Rightarrow> unit rpc" where
  "checkDeleteRole d c req = (if req_Type req \<noteq> ''DeleteRoleRequest'' then Inl unexpected_type else checkRoleMutation d c (req_RoleId req))"

section \<open>The table\<close>

datatype permissionCheck =
    PublicRPC | RequireAuthOnly | RequireAuthenticated | RequireSystem string
  | CheckHost string string idExtractor | CheckSession string string idExtractor | CheckAccount string string idExtractor
  | CheckGroup string string idExtractor bool
  | CheckStartHeadlessHost | CheckCreateHeadlessAccount | CheckStartWorld | CheckUpdateSessionParameters
  | CheckUpdateGroupMemberRole | CheckListRoles | CheckCreateRole | CheckUpdateRole | CheckDeleteRole

fun run_check :: "permissionCheck \<Rightarrow> db \<Rightarrow> ctx \<Rightarrow> AnyRequest \<Rightarrow> unit rpc" where
  "run_check PublicRPC = publicRPC"
| "run_check RequireAuthOnly = requireAuthOnly"
| "run_check RequireAuthenticated = requireAuthenticated"
| "run_check (RequireSystem k) = requireSystemPerm k"
| "run_check (CheckHost k T ext) = checkHostPermission k T ext"
| "run_check (CheckSession k T ext) = checkSessionPermission k T ext"
| "run_check (CheckAccount k T ext) = checkAccountPermission k T ext"
| "run_check (CheckGroup k T ext ro) = checkGroupPermission k T ext ro"
| "run_check CheckStartHeadlessHost = checkStartHeadlessHost"
| "run_check CheckCreateHeadlessAccount = checkCreateHeadlessAccount"
| "run_check CheckStartWorld = checkStartWorld"
| "run_check CheckUpdateSessionParameters = checkUpdateSessionParameters"
| "run_check CheckUpdateGroupMemberRole = checkUpdateGroupMemberRole"
| "run_check CheckListRoles = checkListRoles"
| "run_check CheckCreateRole = checkCreateRole"
| "run_check CheckUpdateRole = checkUpdateRole"
| "run_check CheckDeleteRole = checkDeleteRole"

text \<open>The declarations of the service files, in the order of the files.\<close>

definition declared_rules :: "(procedure \<times> permissionCheck) list" where
  "declared_rules =
    [(Controller ''CreateHeadlessAccount'', CheckCreateHeadlessAccount),
     (Controller ''ListHeadlessAccounts'', RequireAuthOnly),
     (Controller ''DeleteHeadlessAccount'', CheckAccount PermKey_AccountWrite ''DeleteHeadlessAccountRequest'' AccountId),
     (Controller ''UpdateHeadlessAccountCredentials'', CheckAccount PermKey_AccountWrite ''UpdateHeadlessAccountCredentialsRequest'' AccountId),
     (Controller ''GetHeadlessAccountStorageInfo'', CheckAccount PermKey_AccountRead ''GetHeadlessAccountStorageInfoRequest'' AccountId),
     (Controller ''RefetchHeadlessAccountInfo'', CheckAccount PermKey_AccountWrite ''RefetchHeadlessAccountInfoRequest'' AccountId),
     (Controller ''UpdateHeadlessAccountIcon'', CheckAccount PermKey_AccountWrite ''UpdateHeadlessAccountIconRequest'' AccountId),
     (Controller ''AcceptFriendRequests'', CheckAccount PermKey_AccountUse ''AcceptFriendRequestsRequest'' HeadlessAccountId),
     (Controller ''GetFriendRequests'', CheckAccount PermKey_AccountUse ''GetFriendRequestsRequest'' HeadlessAccountId),
     (Controller ''SearchUserInfo'', CheckHost PermKey_HostUse ''SearchUserInfoRequest'' HostId),
     (Controller ''FetchWorldInfo'', CheckHost PermKey_HostUse ''FetchWorldInfoRequest'' HostId),
     (Controller ''GetResoniteUser'', RequireAuthOnly),
     (Controller ''GetOwnWorlds'', CheckHost PermKey_HostUse ''GetOwnWorldsRequest'' HostId),
     (Controller ''SearchWorlds'', RequireAuthOnly),
     (Controller ''ListContacts'', CheckAccount PermKey_AccountRead ''ListContactsRequest'' HeadlessAccountId),
     (Controller ''GetContactMessages'', CheckAccount PermKey_AccountUse ''GetContactMessagesRequest'' HeadlessAccountId),
     (Controller ''SendContactMessage'', CheckAccount PermKey_AccountUse ''SendContactMessageRequest'' HeadlessAccountId),
     (Controller ''ListHeadlessHostImageTags'', RequireAuthOnly),
     (Controller ''StartHeadlessHost'', CheckStartHeadlessHost),
     (Controller ''RestartHeadlessHost'', CheckHost PermKey_HostWrite ''RestartHeadlessHostRequest'' HostId),
     (Controller ''UpdateHeadlessHostSettings'', CheckHost PermKey_HostWrite ''UpdateHeadlessHostSettingsRequest'' HostId),
     (Controller ''GetHeadlessHostLogs'', CheckHost PermKey_HostRead ''GetHeadlessHostLogsRequest'' HostId),
     (Controller ''ListHeadlessHostInstances'', CheckHost PermKey_HostRead ''ListHeadlessHostInstancesRequest'' HostId),
     (Controller ''ShutdownHeadlessHost'', CheckHost PermKey_HostWrite ''ShutdownHeadlessHostRequest'' HostId),
     (Controller ''KillHeadlessHost'', CheckHost PermKey_HostWrite ''KillHeadlessHostRequest'' HostId),
     (Controller ''AllowHostAccess'', CheckHost PermKey_HostWrite ''AllowHostAccessRequest'' HostId),
     (Controller ''DenyHostAccess'', CheckHost PermKey_HostWrite ''DenyHostAccessRequest'' HostId),
     (Controller ''GetHeadlessHost'', CheckHost PermKey_HostRead ''GetHeadlessHostRequest'' HostId),
     (Controller ''ListHeadlessHost'', RequireAuthOnly),
     (Controller ''DeleteHeadlessHost'', CheckHost PermKey_HostWrite ''DeleteHeadlessHostRequest'' HostId),
     (Controller ''BanUser'', CheckHost PermKey_SessionWrite ''BanUserRequest'' HostId),
     (Controller ''KickUser'', CheckHost PermKey_SessionWrite ''KickUserRequest'' HostId),
     (Controller ''GetSessionDetails'', CheckSession PermKey_SessionRead ''GetSessionDetailsRequest'' SessionId),
     (Controller ''ListUsersInSession'', CheckHost PermKey_SessionRead ''ListUsersInSessionRequest'' HostId),
     (Controller ''SaveSessionWorld'', CheckSession PermKey_SessionWrite ''SaveSessionWorldRequest'' SessionId),
     (Controller ''PrepareSessionWorldDownload'', CheckSession PermKey_SessionRead ''PrepareSessionWorldDownloadRequest'' SessionId),
     (Controller ''UpdateSessionParameters'', CheckUpdateSessionParameters),
     (Controller ''UpdateUserRole'', CheckHost PermKey_SessionWrite ''UpdateUserRoleRequest'' HostId),
     (Controller ''StartWorld'', CheckStartWorld),
     (Controller ''InviteUser'', CheckHost PermKey_SessionWrite ''InviteUserRequest'' HostId),
     (Controller ''IssueResoniteLinkConnection'', CheckSession PermKey_SessionWrite ''IssueResoniteLinkConnectionRequest'' SessionId),
     (Controller ''StopSession'', CheckSession PermKey_SessionWrite ''StopSessionRequest'' SessionId),
     (Controller ''SearchSessions'', RequireAuthOnly),
     (Controller ''DeleteEndedSession'', CheckSession PermKey_SessionWrite ''DeleteEndedSessionRequest'' SessionId),
     (Controller ''UpdateSessionExtraSettings'', CheckSession PermKey_SessionWrite ''UpdateSessionExtraSettingsRequest'' SessionId),
     (GroupProc ''CreateGroup'', RequireSystem PermKey_SystemGroupManage),
     (GroupProc ''GetGroup'', CheckGroup PermKey_GroupEdit ''GetGroupRequest'' GroupId True),
     (GroupProc ''ListGroups'', RequireAuthOnly),
     (GroupProc ''UpdateGroup'', CheckGroup PermKey_GroupEdit ''UpdateGroupRequest'' GroupId False),
     (GroupProc ''DeleteGroup'', CheckGroup PermKey_GroupEdit ''DeleteGroupRequest'' GroupId False),
     (GroupProc ''ListGroupMembers'', CheckGroup PermKey_GroupEdit ''ListGroupMembersRequest'' GroupId True),
     (GroupProc ''AddGroupMember'', CheckGroup PermKey_GroupMembersManage ''AddGroupMemberRequest'' GroupId False),
     (GroupProc ''RemoveGroupMember'', CheckGroup PermKey_GroupMembersManage ''RemoveGroupMemberRequest'' GroupId False),
     (GroupProc ''UpdateGroupMemberRole'', CheckUpdateGroupMemberRole),
     (RoleProc ''ListRoles'', CheckListRoles),
     (RoleProc ''CreateRole'', CheckCreateRole),
     (RoleProc ''UpdateRole'', CheckUpdateRole),
     (RoleProc ''DeleteRole'', CheckDeleteRole),
     (RoleProc ''ListPermissions'', RequireAuthOnly),
     (RoleProc ''GetMyPermissions'', RequireAuthOnly),
     (Controller ''CreateScheduledSessionOperation'', RequireAuthOnly),
     (Controller ''ListScheduledSessionOperations'', RequireAuthOnly),
     (Controller ''CancelScheduledSessionOperation'', RequireAuthOnly),
     (UserProc ''GetTokenByPassword'', PublicRPC),
     (UserProc ''ValidateRegistrationToken'', PublicRPC),
     (UserProc ''RegisterWithToken'', PublicRPC),
     (UserProc ''RefreshToken'', PublicRPC),
     (UserProc ''ChangePassword'', RequireAuthenticated),
     (UserProc ''ListUsers'', RequireAuthenticated),
     (UserProc ''GetUser'', RequireAuthenticated),
     (UserProc ''CreateRegistrationToken'', RequireSystem PermKey_SystemUserCreate),
     (UserProc ''DeleteUser'', RequireSystem PermKey_SystemUserDelete)]"

definition allKnownProcedures :: "procedure list" where
  "allKnownProcedures =
    [Controller ''ListHeadlessHost'',
     Controller ''GetHeadlessHost'',
     Controller ''GetHeadlessHostLogs'',
     Controller ''ListHeadlessHostInstances'',
     Controller ''ShutdownHeadlessHost'',
     Controller ''KillHeadlessHost'',
     Controller ''UpdateHeadlessHostSettings'',
     Controller ''RestartHeadlessHost'',
     Controller ''DeleteHeadlessHost'',
     Controller ''AllowHostAccess'',
     Controller ''DenyHostAccess'',
     Controller ''ListHeadlessHostImageTags'',
     Controller ''StartHeadlessHost'',
     Controller ''ListHeadlessAccounts'',
     Controller ''CreateHeadlessAccount'',
     Controller ''DeleteHeadlessAccount'',
     Controller ''UpdateHeadlessAccountCredentials'',
     Controller ''GetHeadlessAccountStorageInfo'',
     Controller ''RefetchHeadlessAccountInfo'',
     Controller ''UpdateHeadlessAccountIcon'',
     Controller ''FetchWorldInfo'',
     Controller ''SearchUserInfo'',
     Controller ''SearchWorlds'',
     Controller ''GetOwnWorlds'',
     Controller ''GetResoniteUser'',
     Controller ''GetFriendRequests'',
     Controller ''AcceptFriendRequests'',
     Controller ''ListContacts'',
     Controller ''GetContactMessages'',
     Controller ''SendContactMessage'',
     Controller ''SearchSessions'',
     Controller ''GetSessionDetails'',
     Controller ''StartWorld'',
     Controller ''StopSession'',
     Controller ''DeleteEndedSession'',
     Controller ''SaveSessionWorld'',
     Controller ''PrepareSessionWorldDownload'',
     Controller ''InviteUser'',
     Controller ''UpdateUserRole'',
     Controller ''UpdateSessionParameters'',
     Controller ''UpdateSessionExtraSettings'',
     Controller ''ListUsersInSession'',
     Controller ''KickUser'',
     Controller ''BanUser'',
     Controller ''IssueResoniteLinkConnection'',
     Controller ''CreateScheduledSessionOperation'',
     Controller ''ListScheduledSessionOperations'',
     Controller ''CancelScheduledSessionOperation'',
     GroupProc ''CreateGroup'',
     GroupProc ''GetGroup'',
     GroupProc ''ListGroups'',
     GroupProc ''UpdateGroup'',
     GroupProc ''DeleteGroup'',
     GroupProc ''ListGroupMembers'',
     GroupProc ''AddGroupMember'',
     GroupProc ''RemoveGroupMember'',
     GroupProc ''UpdateGroupMemberRole'',
     RoleProc ''ListRoles'',
     RoleProc ''CreateRole'',
     RoleProc ''UpdateRole'',
     RoleProc ''DeleteRole'',
     RoleProc ''ListPermissions'',
     RoleProc ''GetMyPermissions'',
     UserProc ''ListUsers'',
     UserProc ''GetUser'',
     UserProc ''CreateRegistrationToken'',
     UserProc ''DeleteUser'',
     UserProc ''GetTokenByPassword'',
     UserProc ''ValidateRegistrationToken'',
     UserProc ''RegisterWithToken'',
     UserProc ''RefreshToken'',
     UserProc ''ChangePassword'']"

text \<open>Registration stops the program when a procedure is registered twice, \<open>init\<close> when one has no rule.\<close>

definition registerRPCPermission :: "(procedure \<times> permissionCheck) list \<Rightarrow> procedure \<times> permissionCheck \<Rightarrow> (procedure \<times> permissionCheck) list res" where
  "registerRPCPermission rules r =
     (if map_of rules (fst r) \<noteq> None then Inl (ErrMsg (''duplicate rpc permission registration: '' @ proc_method (fst r))) else Inr (rules @ [r]))"

fun register_all :: "(procedure \<times> permissionCheck) list \<Rightarrow> (procedure \<times> permissionCheck) list \<Rightarrow> (procedure \<times> permissionCheck) list res" where
  "register_all rules [] = Inr rules"
| "register_all rules (r # rs) = bindR (registerRPCPermission rules r) (\<lambda>rules. register_all rules rs)"

definition rpc_init :: "(procedure \<times> permissionCheck) list \<Rightarrow> unit res" where
  "rpc_init rules = forR (\<lambda>p. if map_of rules p = None then Inl (ErrMsg (''missing rpc permission registration: '' @ proc_method p)) else Inr ())
     allKnownProcedures"

definition rpcPermissionRules :: "(procedure \<times> permissionCheck) list" where
  "rpcPermissionRules = (case register_all [] declared_rules of Inl _ \<Rightarrow> [] | Inr rules \<Rightarrow> rules)"

definition permissionInterceptor_WrapUnary ::
  "(procedure \<times> permissionCheck) list \<Rightarrow> db \<Rightarrow> (ctx \<Rightarrow> AnyRequest \<Rightarrow> 'r rpc) \<Rightarrow> ctx \<Rightarrow> AnyRequest \<Rightarrow> 'r rpc" where
  "permissionInterceptor_WrapUnary rules d next c req =
     (case map_of rules (req_Procedure req) of
        None \<Rightarrow> Inl (CodePermissionDenied, ErrMsg (''rpc has no permission rule: '' @ proc_method (req_Procedure req)))
      | Some check \<Rightarrow> bindR (run_check check d c req) (\<lambda>_. next c req))"

text \<open>
  The handlers of a service behind its interceptors; a request arrives with an empty context.
\<close>

definition serve :: "auth_env \<Rightarrow> time \<Rightarrow> db \<Rightarrow> (ctx \<Rightarrow> AnyRequest \<Rightarrow> 'r rpc) \<Rightarrow> AnyRequest \<Rightarrow> 'r rpc" where
  "serve env now d handler req =
     (if is_UserProc (req_Procedure req)
      then NewOptionalAuthInterceptor env now req_Authorization (permissionInterceptor_WrapUnary rpcPermissionRules d handler) None req
      else authInterceptor_WrapUnary env now req_Authorization (permissionInterceptor_WrapUnary rpcPermissionRules d handler) None req)"

section \<open>The rules are complete\<close>

text \<open>What the context of an admitted request is.\<close>

abbreviation admit :: "auth_env \<Rightarrow> time \<Rightarrow> db \<Rightarrow> AnyRequest \<Rightarrow> ctx rpc" where
  "admit env now d req \<equiv> serve env now d (\<lambda>c _. Inr c) req"

lemma wrap_admit:
  "permissionInterceptor_WrapUnary rules d h c req = bindR (permissionInterceptor_WrapUnary rules d (\<lambda>c _. Inr c) c req) (\<lambda>c. h c req)"
  by (simp add: permissionInterceptor_WrapUnary_def bindR_def split: option.split sum.split)

text \<open>A handler runs exactly when the request is admitted, with the context it was admitted with.\<close>

lemma serve_admit: "serve env now d h req = bindR (admit env now d req) (\<lambda>c. h c req)"
  unfolding serve_def NewOptionalAuthInterceptor_def authInterceptor_WrapUnary_def Let_def
  by (subst (1 2) wrap_admit) (simp add: bindR_def split: sum.split)

lemma admit_Inr:
  "admit env now d req = Inr c \<longleftrightarrow>
     (\<exists>chk. map_of rpcPermissionRules (req_Procedure req) = Some chk \<and> run_check chk d c req = Inr ())
     \<and> (if is_UserProc (req_Procedure req) then
          c = (if length ''Bearer '' < length (req_Authorization req)
               then (case ParseToken env now (drop (length ''Bearer '') (req_Authorization req)) of Inl _ \<Rightarrow> None | Inr claims \<Rightarrow> Some claims) else None)
        else \<exists>claims. validateAuthHeader env now (req_Authorization req) = Inr claims \<and> c = Some claims)"
  unfolding serve_def NewOptionalAuthInterceptor_def authInterceptor_WrapUnary_def permissionInterceptor_WrapUnary_def Let_def
  by (auto simp: ctrl_simps split: option.splits)

lemma declared_rules_load: "register_all [] declared_rules = Inr declared_rules"
  by code_simp

lemma rpcPermissionRules_eq: "rpcPermissionRules = declared_rules"
  by (simp add: rpcPermissionRules_def declared_rules_load)

lemma rules_known: "set (map fst declared_rules) = set allKnownProcedures"
  by code_simp


section \<open>Who gets through without a token\<close>

definition public_procedures :: "procedure list" where
  "public_procedures = [UserProc ''GetTokenByPassword'', UserProc ''ValidateRegistrationToken'', UserProc ''RegisterWithToken'',
     UserProc ''RefreshToken'']"

lemma unauthenticated_checks:
  "list_all (\<lambda>(p, chk). (chk = PublicRPC \<longrightarrow> p \<in> set public_procedures) \<and> (chk = RequireAuthOnly \<longrightarrow> \<not> is_UserProc p)) declared_rules"
  by code_simp

lemma run_check_unauthenticated: "run_check chk d None req = Inr () \<Longrightarrow> chk = PublicRPC \<or> chk = RequireAuthOnly"
  by (cases chk)
     (auto simp: requireAuthenticated_def requireSystemPerm_def checkHostPermission_def checkSessionPermission_def
       checkAccountPermission_def checkGroupPermission_def with_id_def extractClaims_def GetAuthClaimsFromContext_def ctrl_simps
       checkStartHeadlessHost_def checkCreateHeadlessAccount_def checkStartWorld_def checkUpdateSessionParameters_def
       checkUpdateGroupMemberRole_def checkListRoles_def checkCreateRole_def checkUpdateRole_def checkDeleteRole_def checkRoleMutation_def
       split: if_splits)

text \<open>
  Without a valid token only the four public procedures of the user service run. Whatever a handler
  answers, it was called with the claims of a token in the header that was valid at the time, or it is
  the handler of one of those procedures; a procedure without a rule never runs.
\<close>

theorem unauthenticated_only_public:
  assumes "serve env now d handler req = Inr r"
  shows "\<exists>c. handler c req = Inr r \<and> req_Procedure req \<in> set allKnownProcedures \<and>
     (case c of None \<Rightarrow> req_Procedure req \<in> set public_procedures
      | Some claims \<Rightarrow> validateAuthHeader env now (req_Authorization req) = Inr claims)"
proof -
  obtain c where c: "admit env now d req = Inr c" "handler c req = Inr r"
    using assms by (subst (asm) serve_admit) (auto simp: ctrl_simps)
  obtain chk where chk: "map_of declared_rules (req_Procedure req) = Some chk" "run_check chk d c req = Inr ()"
    using c(1) unfolding admit_Inr rpcPermissionRules_eq by blast
  have mem: "(req_Procedure req, chk) \<in> set declared_rules" using chk(1) by (rule map_of_SomeD)
  then have known: "req_Procedure req \<in> set allKnownProcedures"
    using rules_known by force
  show ?thesis
  proof (cases c)
    case None
    then have "\<not> is_UserProc (req_Procedure req) \<Longrightarrow> False" using c(1) unfolding admit_Inr by auto
    then have "req_Procedure req \<in> set public_procedures"
      using run_check_unauthenticated[OF chk(2)[unfolded None]] unauthenticated_checks mem by (auto simp: list_all_iff)
    then show ?thesis using None c(2) known by auto
  next
    case (Some claims)
    have "validateAuthHeader env now (req_Authorization req) = Inr claims"
      using c(1) Some unfolding admit_Inr by (auto simp: validateAuthHeader_def not_less split: if_splits sum.splits)
    then show ?thesis using Some c(2) known by auto
  qed
qed

section \<open>The access guide\<close>

text \<open>
  The guide of \<open>docs/permissions.md\<close> 5.2, per procedure: the group in question is the one that owns the
  target, and the keys are what the caller needs there.
\<close>

datatype target = TheHost | HostToStartOn | AccountToStart | TheSession | SessionOfParameters | TheAccount | TheHeadlessAccount
  | GroupForAccount | TheGroup | TheSystem

definition access_guide :: "(procedure \<times> target \<times> string list) list" where
  "access_guide =
    [(Controller ''ShutdownHeadlessHost'', (TheHost, [PermKey_HostWrite])),
     (Controller ''KillHeadlessHost'', (TheHost, [PermKey_HostWrite])),
     (Controller ''RestartHeadlessHost'', (TheHost, [PermKey_HostWrite])),
     (Controller ''UpdateHeadlessHostSettings'', (TheHost, [PermKey_HostWrite])),
     (Controller ''DeleteHeadlessHost'', (TheHost, [PermKey_HostWrite])),
     (Controller ''AllowHostAccess'', (TheHost, [PermKey_HostWrite])),
     (Controller ''DenyHostAccess'', (TheHost, [PermKey_HostWrite])),
     (Controller ''StartHeadlessHost'', (AccountToStart, [PermKey_HostWrite, PermKey_AccountUse])),
     (Controller ''GetHeadlessHost'', (TheHost, [PermKey_HostRead])),
     (Controller ''GetHeadlessHostLogs'', (TheHost, [PermKey_HostRead])),
     (Controller ''ListHeadlessHostInstances'', (TheHost, [PermKey_HostRead])),
     (Controller ''SearchUserInfo'', (TheHost, [PermKey_HostUse])),
     (Controller ''FetchWorldInfo'', (TheHost, [PermKey_HostUse])),
     (Controller ''GetOwnWorlds'', (TheHost, [PermKey_HostUse])),
     (Controller ''StartWorld'', (HostToStartOn, [PermKey_HostUse, PermKey_AccountUse, PermKey_SessionWrite])),
     (Controller ''StopSession'', (TheSession, [PermKey_SessionWrite])),
     (Controller ''DeleteEndedSession'', (TheSession, [PermKey_SessionWrite])),
     (Controller ''SaveSessionWorld'', (TheSession, [PermKey_SessionWrite])),
     (Controller ''UpdateSessionExtraSettings'', (TheSession, [PermKey_SessionWrite])),
     (Controller ''IssueResoniteLinkConnection'', (TheSession, [PermKey_SessionWrite])),
     (Controller ''UpdateSessionParameters'', (SessionOfParameters, [PermKey_SessionWrite])),
     (Controller ''KickUser'', (TheHost, [PermKey_SessionWrite])),
     (Controller ''BanUser'', (TheHost, [PermKey_SessionWrite])),
     (Controller ''InviteUser'', (TheHost, [PermKey_SessionWrite])),
     (Controller ''UpdateUserRole'', (TheHost, [PermKey_SessionWrite])),
     (Controller ''ListUsersInSession'', (TheHost, [PermKey_SessionRead])),
     (Controller ''GetSessionDetails'', (TheSession, [PermKey_SessionRead])),
     (Controller ''PrepareSessionWorldDownload'', (TheSession, [PermKey_SessionRead])),
     (Controller ''CreateHeadlessAccount'', (GroupForAccount, [PermKey_AccountWrite])),
     (Controller ''DeleteHeadlessAccount'', (TheAccount, [PermKey_AccountWrite])),
     (Controller ''UpdateHeadlessAccountCredentials'', (TheAccount, [PermKey_AccountWrite])),
     (Controller ''RefetchHeadlessAccountInfo'', (TheAccount, [PermKey_AccountWrite])),
     (Controller ''UpdateHeadlessAccountIcon'', (TheAccount, [PermKey_AccountWrite])),
     (Controller ''GetHeadlessAccountStorageInfo'', (TheAccount, [PermKey_AccountRead])),
     (Controller ''ListContacts'', (TheHeadlessAccount, [PermKey_AccountRead])),
     (Controller ''GetContactMessages'', (TheHeadlessAccount, [PermKey_AccountUse])),
     (Controller ''SendContactMessage'', (TheHeadlessAccount, [PermKey_AccountUse])),
     (Controller ''GetFriendRequests'', (TheHeadlessAccount, [PermKey_AccountUse])),
     (Controller ''AcceptFriendRequests'', (TheHeadlessAccount, [PermKey_AccountUse])),
     (GroupProc ''UpdateGroup'', (TheGroup, [PermKey_GroupEdit])),
     (GroupProc ''DeleteGroup'', (TheGroup, [PermKey_GroupEdit])),
     (GroupProc ''AddGroupMember'', (TheGroup, [PermKey_GroupMembersManage])),
     (GroupProc ''RemoveGroupMember'', (TheGroup, [PermKey_GroupMembersManage])),
     (GroupProc ''CreateGroup'', (TheSystem, [PermKey_SystemGroupManage])),
     (UserProc ''CreateRegistrationToken'', (TheSystem, [PermKey_SystemUserCreate])),
     (UserProc ''DeleteUser'', (TheSystem, [PermKey_SystemUserDelete]))]"

definition given_id :: "string \<Rightarrow> (string \<Rightarrow> 'a res) \<Rightarrow> 'a res" where
  "given_id i f = (if i = [] then Inl ErrNotFound else f i)"

fun owner_group :: "target \<Rightarrow> db \<Rightarrow> string \<Rightarrow> AnyRequest \<Rightarrow> string res" where
  "owner_group TheHost d u req = given_id (TrimSpace (req_HostId req)) (HostRepository_GetGroupID d)"
| "owner_group HostToStartOn d u req = given_id (req_HostId req) (HostRepository_GetGroupID d)"
| "owner_group TheSession d u req = given_id (TrimSpace (req_SessionId req)) (\<lambda>i. bindR (SessionRepository_Get d i) (Inr \<circ> Session_GroupID))"
| "owner_group SessionOfParameters d u req = given_id (req_ParametersSessionId req) (\<lambda>i. bindR (SessionRepository_Get d i) (Inr \<circ> Session_GroupID))"
| "owner_group TheAccount d u req = given_id (TrimSpace (req_AccountId req)) (\<lambda>i. bindR (GetHeadlessAccount d i) (Inr \<circ> Account_GroupID))"
| "owner_group TheHeadlessAccount d u req = given_id (TrimSpace (req_HeadlessAccountId req)) (\<lambda>i. bindR (GetHeadlessAccount d i) (Inr \<circ> Account_GroupID))"
| "owner_group AccountToStart d u req = given_id (req_HeadlessAccountId req) (\<lambda>i. bindR (GetHeadlessAccount d i) (Inr \<circ> Account_GroupID))"
| "owner_group GroupForAccount d u req = ResolveGroupIDForUser d u (GetGroupId req)"
| "owner_group TheGroup d u req = given_id (TrimSpace (GetGroupId req)) Inr"
| "owner_group TheSystem d u req = Inr SystemGroupID"

text \<open>Starting something in a group that the request names needs that group to be the owner's.\<close>

definition group_agrees :: "target \<Rightarrow> AnyRequest \<Rightarrow> string \<Rightarrow> bool" where
  "group_agrees t req g \<longleftrightarrow> (t \<in> {HostToStartOn, AccountToStart} \<longrightarrow> GetGroupId req = [] \<or> GetGroupId req = g)"

definition entitled :: "db \<Rightarrow> string \<Rightarrow> target \<Rightarrow> string list \<Rightarrow> AnyRequest \<Rightarrow> bool" where
  "entitled d u t ks req \<longleftrightarrow> (\<exists>g. owner_group t d u req = Inr g \<and> group_agrees t req g \<and>
     (\<forall>k \<in> set ks. if t = TheSystem then holds d u SystemGroupID k else allowed d u g k))"

text \<open>Which rule enforces which line of the guide, for requests of type \<open>T\<close>.\<close>

definition enforces :: "permissionCheck \<Rightarrow> string \<Rightarrow> target \<Rightarrow> string list \<Rightarrow> bool" where
  "enforces chk T t ks =
     (case chk of
        CheckHost k T' ext \<Rightarrow> (T' = T \<and> ext = HostId \<and> t = TheHost \<and> ks = [k])
      | CheckSession k T' ext \<Rightarrow> (T' = T \<and> ext = SessionId \<and> t = TheSession \<and> ks = [k])
      | CheckAccount k T' ext \<Rightarrow> (T' = T \<and> (ext = AccountId \<and> t = TheAccount \<or> ext = HeadlessAccountId \<and> t = TheHeadlessAccount) \<and> ks = [k])
      | CheckGroup k T' ext readOnly \<Rightarrow> (T' = T \<and> ext = GroupId \<and> \<not> readOnly \<and> t = TheGroup \<and> ks = [k])
      | RequireSystem k \<Rightarrow> (t = TheSystem \<and> ks = [k])
      | CheckStartWorld \<Rightarrow> (T = ''StartWorldRequest'' \<and> t = HostToStartOn \<and> ks = [PermKey_HostUse, PermKey_AccountUse, PermKey_SessionWrite])
      | CheckStartHeadlessHost \<Rightarrow> (T = ''StartHeadlessHostRequest'' \<and> t = AccountToStart \<and> ks = [PermKey_HostWrite, PermKey_AccountUse])
      | CheckUpdateSessionParameters \<Rightarrow> (T = ''UpdateSessionParametersRequest'' \<and> t = SessionOfParameters \<and> ks = [PermKey_SessionWrite])
      | CheckCreateHeadlessAccount \<Rightarrow> (T = ''CreateHeadlessAccountRequest'' \<and> t = GroupForAccount \<and> ks = [PermKey_AccountWrite])
      | _ \<Rightarrow> False)"

text \<open>The request type of a procedure is its operation with \<open>Request\<close> at the end.\<close>

definition request_type :: "procedure \<Rightarrow> string" where
  "request_type p = proc_method p @ ''Request''"

lemma guide_enforced:
  "list_all (\<lambda>(p, t, ks). case map_of declared_rules p of None \<Rightarrow> False | Some chk \<Rightarrow> enforces chk (request_type p) t ks) access_guide"
  by code_simp

lemma demand_Inr: "demand r k = Inr () \<longleftrightarrow> r = Inr True"
  by (auto simp: demand_def ctrl_simps)

lemma requirePerm_Inr: "requirePerm d u g k = Inr () \<Longrightarrow> allowed d u g k"
  using HasPermission_answer by (auto simp: requirePerm_def demand_Inr)

lemma requirePerm_total: "no_faults d \<Longrightarrow> requirePerm d u g k = Inr () \<longleftrightarrow> allowed d u g k"
  by (simp add: requirePerm_def demand_Inr HasPermission_total)

lemma extractClaims_Some [simp]: "extractClaims (Some claims) = Inr claims"
  by (simp add: extractClaims_def GetAuthClaimsFromContext_def)

lemmas check_defs = checkHostPermission_def checkSessionPermission_def checkAccountPermission_def checkGroupPermission_def with_id_def
  checkStartWorld_def checkStartHeadlessHost_def checkUpdateSessionParameters_def checkCreateHeadlessAccount_def requireSystemPerm_def

lemma enforces_sound:
  assumes "enforces chk T t ks" "req_Type req = T" "run_check chk d (Some claims) req = Inr ()"
  shows "entitled d (Auth_UserID claims) t ks req"
  using assms
  by (cases chk)
     (auto simp: enforces_def check_defs entitled_def group_agrees_def given_id_def Let_def ctrl_simps demand_Inr forR_Inr_iff
       dest!: requirePerm_Inr HasSystemPermission_answer split: if_splits)

lemma enforces_complete:
  assumes "enforces chk T t ks" "req_Type req = T" "no_faults d" "entitled d (Auth_UserID claims) t ks req"
  shows "run_check chk d (Some claims) req = Inr ()"
  using assms
  by (cases chk)
     (auto simp: enforces_def check_defs entitled_def group_agrees_def given_id_def Let_def ctrl_simps demand_Inr forR_Inr_iff requirePerm_total
       HasSystemPermission_total split: if_splits)


text \<open>
  Reading a group does not tell whether it exists. On a working database the rule for reading a group
  lets members, holders of \<open>group:edit\<close> there and holders of \<open>system:group.list\<close> pass, and answers everyone
  else with the same denial, whether the group exists or not.
\<close>

theorem checkGroupReadable_uniform:
  assumes "no_faults d"
  shows "checkGroupReadable d u g key =
     (if holds d u SystemGroupID PermKey_SystemGroupList \<or> allowed d u g PermKey_GroupEdit \<or> (\<exists>grp \<in> set (db_groups d). Group_ID grp = g \<and> is_member d u g)
      then Inr () else Inl (permissionDenied key))"
  using assms
  by (auto simp: checkGroupReadable_def HasSystemPermission_total HasPermission_total GroupRepository_ListByUser_def q_ListGroupsByUser_def
      list_ex_iff map_err_def split: sum.splits)

section \<open>Instances\<close>

definition plain_request :: "procedure \<Rightarrow> string \<Rightarrow> AnyRequest" where
  "plain_request p header = \<lparr>req_Procedure = p, req_Authorization = header, req_Type = request_type p, req_HostId = [], req_SessionId = ''s1'',
     req_AccountId = [], req_HeadlessAccountId = [], req_GroupId = None, req_RoleId = [], req_ParametersSessionId = []\<rparr>"

theorem unauthenticated_only_public_witness:
  "serve sample_auth 0 session_db (\<lambda>c _. Inr c) (plain_request (UserProc ''RefreshToken'') []) = Inr None
     \<and> UserProc ''RefreshToken'' \<in> set public_procedures"
proof -
  let ?req = "plain_request (UserProc ''RefreshToken'') []"
  have "map_of declared_rules (UserProc ''RefreshToken'') = Some PublicRPC" by code_simp
  then have adm: "serve sample_auth 0 session_db (\<lambda>c _. Inr c) ?req = Inr None"
    by (simp add: admit_Inr rpcPermissionRules_eq plain_request_def publicRPC_def)
  then show ?thesis using unauthenticated_only_public[OF adm] by (auto simp: plain_request_def)
qed


theorem checkGroupReadable_uniform_witness:
  "checkGroupReadable session_db ''nobody'' ''team'' PermKey_GroupEdit = checkGroupReadable session_db ''nobody'' ''ghost'' PermKey_GroupEdit
     \<and> checkGroupReadable session_db ''nobody'' ''team'' PermKey_GroupEdit = Inl (permissionDenied PermKey_GroupEdit)"
proof -
  have no: "\<not> holds session_db ''nobody'' SystemGroupID PermKey_SystemGroupList" "\<not> allowed session_db ''nobody'' ''team'' PermKey_GroupEdit"
    "\<not> allowed session_db ''nobody'' ''ghost'' PermKey_GroupEdit" "\<not> is_member session_db ''nobody'' ''team''"
    "\<not> is_member session_db ''nobody'' ''ghost''"
    by code_simp+
  show ?thesis using checkGroupReadable_uniform[OF no_faults_session_db, of "''nobody''"] no by simp
qed

end
