(* ===== verification/UserService.thy ===== *)
theory UserService
  imports Interceptor UserUsecase
begin

text \<open>
  The user service (\<open>adapter/rpc/user_service.go\<close>) and the issue of ResoniteLink connections
  (\<open>usecase/session_usecase.go\<close>, \<open>adapter/rpc/controller_service_session.go\<close>): the handlers that turn
  credentials, invitations and tokens into tokens. A handler returns its result and the new database; an
  error that is not a connect error is sent as \<open>CodeUnknown\<close>. Field-by-field conversion to wire messages is
  left out: the handlers return the entities.
\<close>

section \<open>Tokens\<close>

definition internal :: "'a res \<Rightarrow> 'a rpc" where
  "internal r = map_err (Pair CodeUnknown) r"

definition UserService_RefreshToken :: "auth_env \<Rightarrow> time \<Rightarrow> AnyRequest \<Rightarrow> (string \<times> string) rpc" where
  "UserService_RefreshToken env now req =
     bindR (validateAuthHeader env now (req_Authorization req)) (\<lambda>claims.
     internal (GenerateTokensWithDefaultTTL env now claims))"

definition user_claims :: "User \<Rightarrow> AuthClaims" where
  "user_claims u = \<lparr>Auth_UserID = User_ID u, Auth_ResoniteID = json_field (User_ResoniteID u), Auth_IconUrl = json_field (User_IconUrl u),
     Auth_Audience = [], Auth_ExpiresAt = None, Auth_IssuedAt = None\<rparr>"

definition UserService_GetTokenByPassword ::
  "auth_env \<Rightarrow> time \<Rightarrow> user_env \<Rightarrow> db \<Rightarrow> string \<Rightarrow> string \<Rightarrow> (string \<times> string) rpc" where
  "UserService_GetTokenByPassword env now uenv d uid password =
     (case GetUserWithPassword uenv d uid password of
        Inl _ \<Rightarrow> Inl (CodeInvalidArgument, ErrMsg ''invalid id or password'')
      | Inr user \<Rightarrow> internal (GenerateTokensWithDefaultTTL env now (user_claims user)))"

record ValidateRegistrationTokenResponse =
  Vrt_Valid :: bool
  Vrt_ResoniteId :: string
  Vrt_ResoniteUserName :: string
  Vrt_IconUrl :: string

definition UserService_ValidateRegistrationToken :: "user_env \<Rightarrow> db \<Rightarrow> string \<Rightarrow> ValidateRegistrationTokenResponse rpc" where
  "UserService_ValidateRegistrationToken uenv d token =
     (case ValidateRegistrationToken uenv d token of
        Inl _ \<Rightarrow> Inr \<lparr>Vrt_Valid = False, Vrt_ResoniteId = [], Vrt_ResoniteUserName = [], Vrt_IconUrl = []\<rparr>
      | Inr info \<Rightarrow> Inr \<lparr>Vrt_Valid = True, Vrt_ResoniteId = UserInfo_ID info, Vrt_ResoniteUserName = UserInfo_UserName info,
                       Vrt_IconUrl = UserInfo_IconUrl info\<rparr>)"

definition UserService_RegisterWithToken ::
  "auth_env \<Rightarrow> time \<Rightarrow> user_env \<Rightarrow> db \<Rightarrow> string \<Rightarrow> string \<Rightarrow> string \<Rightarrow> (string \<times> string) rpc \<times> db" where
  "UserService_RegisterWithToken env now uenv d token userId password =
     (case RegisterWithToken uenv d token userId password of
        (Inl _, d) \<Rightarrow> (Inl (CodeInvalidArgument, ErrMsg ''registration failed: invalid token or user already exists''), d)
      | (Inr user, d) \<Rightarrow> (internal (GenerateTokensWithDefaultTTL env now (user_claims user)), d))"

section \<open>Users\<close>

definition UserService_ChangePassword :: "user_env \<Rightarrow> db \<Rightarrow> ctx \<Rightarrow> string \<Rightarrow> string \<Rightarrow> unit rpc \<times> db" where
  "UserService_ChangePassword uenv d c current new =
     checkS (map_err (Pair CodeUnauthenticated) (GetAuthClaimsFromContext c)) d (\<lambda>claims.
     map_errS (Pair CodeInvalidArgument) (ChangePassword uenv d (Auth_UserID claims) current new))"

definition UserService_ListUsers :: "db \<Rightarrow> User list rpc" where
  "UserService_ListUsers d = map_err convertErr (ListUsers d)"

definition UserService_GetUser :: "db \<Rightarrow> string \<Rightarrow> User rpc" where
  "UserService_GetUser d uid =
     (if uid = [] then Inl (CodeInvalidArgument, ErrMsg ''user_id is required'') else map_err convertErr (GetUser d uid))"

definition UserService_CreateRegistrationToken ::
  "user_env \<Rightarrow> db \<Rightarrow> ctx \<Rightarrow> string \<Rightarrow> string \<Rightarrow> RegistrationTokenWithInfo rpc \<times> db" where
  "UserService_CreateRegistrationToken uenv d c resoniteId personalRoleId =
     (if resoniteId = [] then (Inl (CodeInvalidArgument, ErrMsg ''resonite_id is required''), d)
      else map_errS (Pair CodeInvalidArgument)
             (CreateRegistrationTokenWithInfo uenv d (map_option Auth_UserID c) resoniteId personalRoleId))"

section \<open>ResoniteLink connections\<close>

definition IssueResoniteLinkToken ::
  "auth_env \<Rightarrow> time \<Rightarrow> time \<Rightarrow> db \<Rightarrow> string \<Rightarrow> string \<Rightarrow> (string \<times> time) res" where
  "IssueResoniteLinkToken env now resoniteLinkTTL d sessionID userID =
     bindR (SessionRepository_Get d sessionID) (\<lambda>_. GenerateResoniteLinkToken env now userID sessionID resoniteLinkTTL)"

text \<open>The answer of the handler is the token, which \<open>BuildWSPath\<close> puts into a URL, and its expiry.\<close>

definition IssueResoniteLinkConnection ::
  "auth_env \<Rightarrow> time \<Rightarrow> time \<Rightarrow> db \<Rightarrow> ctx \<Rightarrow> AnyRequest \<Rightarrow> (string \<times> time) rpc" where
  "IssueResoniteLinkConnection env now resoniteLinkTTL d c req =
     bindR (map_err (Pair CodeUnauthenticated) (GetAuthClaimsFromContext c)) (\<lambda>claims.
     if req_SessionId req = [] then Inl (CodeInvalidArgument, ErrMsg ''session_id is required'')
     else map_err convertErr (IssueResoniteLinkToken env now resoniteLinkTTL d (req_SessionId req) (Auth_UserID claims)))"

section \<open>Properties\<close>

lemma GenerateTokens_authenticate:
  assumes "working_env env"
  shows "\<exists>t r c1 c2. GenerateTokensWithDefaultTTL env now claims = Inr (t, r) \<and> Auth_UserID c1 = Auth_UserID claims \<and> Auth_UserID c2 = Auth_UserID claims
     \<and> authenticates env t c1 (NewNumericDate (now + defaultTokenTTL)) \<and> authenticates env r c2 (NewNumericDate (now + defaultRefreshTTL))"
proof -
  have one: "\<exists>tok c. GenerateToken env now claims ttl = Inr tok \<and> Auth_UserID c = Auth_UserID claims
      \<and> authenticates env tok c (NewNumericDate (now + ttl))" for ttl
    using GenerateToken_authenticates[OF assms, of now claims ttl] by (metis AuthClaims.select_convs(1) AuthClaims.surjective AuthClaims.update_convs(5,6))
  obtain t c1 where t: "GenerateToken env now claims defaultTokenTTL = Inr t" "Auth_UserID c1 = Auth_UserID claims"
    "authenticates env t c1 (NewNumericDate (now + defaultTokenTTL))" using one by blast
  obtain r c2 where r: "GenerateToken env now claims defaultRefreshTTL = Inr r" "Auth_UserID c2 = Auth_UserID claims"
    "authenticates env r c2 (NewNumericDate (now + defaultRefreshTTL))" using one by blast
  have "GenerateTokensWithDefaultTTL env now claims = Inr (t, r)" by (simp add: GenerateTokensWithDefaultTTL_def t(1) r(1))
  then show ?thesis using t(2,3) r(2,3) by blast
qed

text \<open>
  C11: a link token is worth a login. The token that \<open>IssueResoniteLinkConnection\<close> puts into a URL, meant only
  for the WebSocket of one session, is accepted as an access token of the caller until it expires, and
  until then \<open>RefreshToken\<close> exchanges it for a token that is accepted as the caller's for three more days.
\<close>

theorem link_token_escalates:
  assumes "working_env env" "IssueResoniteLinkConnection env now ttl d (Some claims) req = Inr (tok, expiry)"
    and "n < NewNumericDate (now + ttl)" "req_Authorization refresh = ''Bearer '' @ tok"
  shows "\<exists>t r c1 c2. validateAuthHeader env n (''Bearer '' @ tok) = Inr c1 \<and> Auth_UserID c1 = Auth_UserID claims
     \<and> UserService_RefreshToken env n refresh = Inr (t, r) \<and> Auth_UserID c2 = Auth_UserID claims
     \<and> authenticates env r c2 (NewNumericDate (n + defaultRefreshTTL))"
proof -
  have "GenerateResoniteLinkToken env now (Auth_UserID claims) (req_SessionId req) ttl = Inr (tok, expiry)"
    using assms(2) by (auto simp: IssueResoniteLinkConnection_def IssueResoniteLinkToken_def GetAuthClaimsFromContext_def ctrl_simps split: if_splits)
  then obtain c1 where c1: "authenticates env tok c1 (NewNumericDate (now + ttl))" "Auth_UserID c1 = Auth_UserID claims"
    using ResoniteLinkToken_authenticates[OF assms(1), of now "Auth_UserID claims" "req_SessionId req" ttl] by auto
  have v: "validateAuthHeader env n (''Bearer '' @ tok) = Inr c1"
    using c1(1) assms(3) unfolding authenticates_def by presburger
  obtain t r c2 where g: "GenerateTokensWithDefaultTTL env n c1 = Inr (t, r)" "Auth_UserID c2 = Auth_UserID c1"
    "authenticates env r c2 (NewNumericDate (n + defaultRefreshTTL))"
    using GenerateTokens_authenticate[OF assms(1), of n c1] by auto
  have "UserService_RefreshToken env n refresh = Inr (t, r)"
    unfolding UserService_RefreshToken_def assms(4) v by (simp add: internal_def g(1))
  then show ?thesis using v c1(2) g(2,3) by auto
qed

text \<open>
  C10: whoever registers can log in. When a registration answers with tokens, they are accepted as those of
  the new user, and from then on the password gives, and no password that does not match the hash
  gives, tokens of that user.
\<close>

theorem register_then_login:
  assumes "working_env env" "\<forall>p h. Env_HashPassword uenv p = Inr h \<longrightarrow> Env_ComparePasswordAndHash uenv p h"
    and "rbac_inv d" "uid \<noteq> SystemUserID"
    and run: "UserService_RegisterWithToken env now uenv d token uid pw = (Inr (t, r), d')"
  shows "(\<exists>c. Auth_UserID c = uid \<and> authenticates env t c (NewNumericDate (now + defaultTokenTTL)))
     \<and> (\<exists>t' r' c. UserService_GetTokenByPassword env n uenv d' uid pw = Inr (t', r') \<and> Auth_UserID c = uid
          \<and> authenticates env t' c (NewNumericDate (n + defaultTokenTTL)))
     \<and> (\<exists>h. Env_HashPassword uenv pw = Inr h \<and> (\<forall>p. \<not> Env_ComparePasswordAndHash uenv p h \<longrightarrow>
          UserService_GetTokenByPassword env n uenv d' uid p = Inl (CodeInvalidArgument, ErrMsg ''invalid id or password'')))"
proof -
  obtain u where u: "RegisterWithToken uenv d token uid pw = (Inr u, d')" "internal (GenerateTokensWithDefaultTTL env now (user_claims u)) = Inr (t, r)"
    using run by (auto simp: UserService_RegisterWithToken_def split: prod.splits sum.splits)
  note eff = RegisterWithToken_result[OF u(1) assms(3), simplified]
  have get: "q_GetUser d' uid = Inr u"
    using u(1) by (auto simp: RegisterWithToken_def ctrl_simps elim: RegisterWithToken_tx_Inr)
  have id: "Auth_UserID (user_claims u) = uid" using eff by (simp add: user_claims_def)
  have login: "UserService_GetTokenByPassword env n uenv d' uid p =
      (if Env_ComparePasswordAndHash uenv p (User_Password u) then internal (GenerateTokensWithDefaultTTL env n (user_claims u))
       else Inl (CodeInvalidArgument, ErrMsg ''invalid id or password''))" for p
    using get assms(4) by (simp add: UserService_GetTokenByPassword_def GetUserWithPassword_def)
  have first: "\<exists>c. Auth_UserID c = uid \<and> authenticates env t c (NewNumericDate (now + defaultTokenTTL))"
    using GenerateTokens_authenticate[OF assms(1), of now "user_claims u"] u(2) id by (auto simp: internal_def)
  obtain t' r' c where g: "GenerateTokensWithDefaultTTL env n (user_claims u) = Inr (t', r')" "Auth_UserID c = uid"
    "authenticates env t' c (NewNumericDate (n + defaultTokenTTL))"
    using GenerateTokens_authenticate[OF assms(1), of n "user_claims u"] id by auto
  have "UserService_GetTokenByPassword env n uenv d' uid pw = Inr (t', r')"
    unfolding login using assms(2) eff g(1) by (simp add: internal_def)
  then show ?thesis using first g(2,3) eff login by (intro conjI) auto
qed

section \<open>Instances\<close>

theorem link_token_escalates_witness:
  "\<exists>tok expiry t r c. IssueResoniteLinkConnection sample_auth 0 Minute session_db
        (Some (user_claims \<lparr>User_ID = ''alice'', User_Password = [], User_ResoniteID = None, User_IconUrl = None\<rparr>))
        (plain_request (Controller ''IssueResoniteLinkConnection'') []) = Inr (tok, expiry)
     \<and> UserService_RefreshToken sample_auth 0 (plain_request (UserProc ''RefreshToken'') (''Bearer '' @ tok)) = Inr (t, r)
     \<and> Auth_UserID c = ''alice'' \<and> authenticates sample_auth r c (NewNumericDate (0 + defaultRefreshTTL))"
proof -
  let ?c = "user_claims \<lparr>User_ID = ''alice'', User_Password = [], User_ResoniteID = None, User_IconUrl = None\<rparr>"
  let ?req = "plain_request (Controller ''IssueResoniteLinkConnection'') []"
  have a: "Auth_UserID ?c = ''alice''" by (simp add: user_claims_def)
  have "\<not> isl (SessionRepository_Get session_db ''s1'')" by code_simp
  then obtain x where x: "SessionRepository_Get session_db ''s1'' = Inr x" by (cases "SessionRepository_Get session_db ''s1''") auto
  obtain tok where g: "GenerateResoniteLinkToken sample_auth 0 ''alice'' ''s1'' Minute = Inr (tok, 0 + Minute)"
    using ResoniteLinkToken_authenticates[OF working_sample_auth, of 0 "''alice''" "''s1''" Minute] by blast
  have issue: "IssueResoniteLinkConnection sample_auth 0 Minute session_db (Some ?c) ?req = Inr (tok, 0 + Minute)"
    using x g a by (simp add: IssueResoniteLinkConnection_def IssueResoniteLinkToken_def GetAuthClaimsFromContext_def plain_request_def)
  have n: "(0 :: int) < NewNumericDate (0 + Minute)" by code_simp
  have h: "req_Authorization (plain_request (UserProc ''RefreshToken'') (''Bearer '' @ tok)) = ''Bearer '' @ tok" by (simp add: plain_request_def)
  show ?thesis using link_token_escalates[OF working_sample_auth issue n h] issue a by auto
qed

theorem register_then_login_witness:
  "\<exists>d' t r. UserService_GetTokenByPassword sample_auth 0 toy_env d' ''dave'' ''secret'' = Inr (t, r)"
proof -
  obtain u d' where u: "dave_registers = (Inr u, d')" using is_ok_pair[OF dave_registers_ok] by blast
  obtain t r where g: "GenerateTokensWithDefaultTTL sample_auth 0 (user_claims u) = Inr (t, r)"
    using GenerateTokens_authenticate[OF working_sample_auth] by blast
  have run: "UserService_RegisterWithToken sample_auth 0 toy_env invited_db ''tok'' ''dave'' ''secret'' = (Inr (t, r), d')"
    using u g by (simp add: UserService_RegisterWithToken_def dave_registers_def internal_def)
  have law: "\<forall>p h. Env_HashPassword toy_env p = Inr h \<longrightarrow> Env_ComparePasswordAndHash toy_env p h" by (simp add: toy_env_def)
  have "''dave'' \<noteq> SystemUserID" by (simp add: SystemUserID_def)
  then show ?thesis using register_then_login[OF working_sample_auth law invited_db_inv _ run, of 0] by blast
qed

end
