(* ===== verification/ControllerService.thy ===== *)
theory ControllerService
  imports UserService ScheduledOps Notifications
begin

text \<open>
  The handlers of the controller service (\<open>adapter/rpc/controller_service.go\<close> and its files for hosts, sessions,
  accounts, contacts and the cloud) and the download of worlds (\<open>usecase/blob_usecase.go\<close>). The handlers of
  scheduled operations have a theory of their own. A handler gets the claims of the caller from the
  interceptors; lists are answered as entities with their page. Calls to a container that other
  components do not make are arguments: functions of the client and the message. The messages of the
  errors that the source writes in Japanese are translated.
\<close>

section \<open>Pages and groups\<close>

abbreviation user_of :: "ctx \<Rightarrow> claims" where
  "user_of \<equiv> map_option Auth_UserID"

record PageRequest =
  Pr_PageIndex :: int32
  Pr_PageSize :: int32

record PageResponse =
  Prs_TotalCount :: int32
  Prs_PageIndex :: int32
  Prs_PageSize :: int32

definition defaultPageSize :: int32 where "defaultPageSize = 20"
definition maxPageSize :: int32 where "maxPageSize = 100"

definition normalizePageRequest :: "PageRequest option \<Rightarrow> (int32 \<times> int32) rpc" where
  "normalizePageRequest p =
     (case p of
        None \<Rightarrow> Inr (0, defaultPageSize)
      | Some p \<Rightarrow>
          if Pr_PageIndex p < 0 then Inl (CodeInvalidArgument, ErrMsg ''page_index must be >= 0'')
          else Inr (Pr_PageIndex p,
                    if Pr_PageSize p \<le> 0 then defaultPageSize
                    else if maxPageSize < Pr_PageSize p then maxPageSize else Pr_PageSize p))"

definition convertRpcClientErr :: "err \<Rightarrow> Code \<times> err" where
  "convertRpcClientErr e = (CodeInternal, e)"

text \<open>\<open>None\<close> is the nil slice, which the queries read as no restriction.\<close>

definition resolveListGroupFilter :: "db \<Rightarrow> ctx \<Rightarrow> string \<Rightarrow> string \<Rightarrow> string list option rpc" where
  "resolveListGroupFilter d c requestedGroupID permKey =
     bindR (extractClaims c) (\<lambda>claims.
     let gid = TrimSpace requestedGroupID in
     if gid \<noteq> [] then
       bindR (map_err convertErr (CanReadGroup d (Auth_UserID claims) gid permKey)) (\<lambda>ok.
       if ok then Inr (Some [gid]) else Inl (permissionDenied permKey))
     else
       bindR (map_err convertErr (ResolveListGroupFilter d (Auth_UserID claims) permKey)) (\<lambda>(groupIDs, listAll).
       Inr (if listAll then None else Some groupIDs)))"

definition publishHostUpdated :: "time \<Rightarrow> MemoryBus \<Rightarrow> string \<Rightarrow> MemoryBus" where
  "publishHostUpdated now bus hostID = Publish bus (Some (HostUpdated now hostID [] None))"

definition publishHostListChanged :: "time \<Rightarrow> MemoryBus \<Rightarrow> MemoryBus" where
  "publishHostListChanged now bus = Publish bus (Some (HostListChanged now))"

text \<open>The common part of the handlers that pass a call on to the container of a host.\<close>

definition delegate :: "'w HostConnector \<Rightarrow> 'w ctl \<Rightarrow> string \<Rightarrow> (RpcClient \<Rightarrow> 'r res) \<Rightarrow> 'r rpc" where
  "delegate con c hostID call =
     bindR (map_err convertRpcClientErr (HostRepository_GetRpcClient con (ct_world c) (lv_db c) hostID)) (\<lambda>conn.
     map_err convertRpcClientErr (call conn))"

definition acknowledged :: "'e + 'r \<Rightarrow> 'e + unit" where
  "acknowledged r = bindR r (\<lambda>_. Inr ())"

section \<open>Hosts\<close>

definition Svc_ListHeadlessHostImageTags :: "'w HostConnector \<Rightarrow> 'w ctl \<Rightarrow> ContainerImage list rpc" where
  "Svc_ListHeadlessHostImageTags con c = map_err convertErr (HostRepository_ListContainerTags con (ct_world c) None)"

definition Svc_StartHeadlessHost ::
  "job_codec \<Rightarrow> pg_env \<Rightarrow> 8 word list \<Rightarrow> db \<Rightarrow> ctx \<Rightarrow> StartHeadlessHostRequest \<Rightarrow> string rpc \<times> db" where
  "Svc_StartHeadlessHost cd pg newId d c req =
     checkS (extractClaims c) d (\<lambda>claims.
     checkS (map_err convertErr (GetHeadlessAccount d (Shr_HeadlessAccountId req))) d (\<lambda>account.
     let req = (if blank_ptr (Shr_GroupId req) then req\<lparr>Shr_GroupId := Some (Account_GroupID account)\<rparr> else req) in
     map_errS convertErr (EnqueueStartHost cd pg newId d req (Some (Auth_UserID claims)))))"

definition Svc_RestartHeadlessHost ::
  "'w HostConnector \<Rightarrow> job_codec \<Rightarrow> pg_env \<Rightarrow> 8 word list \<Rightarrow> 'w \<Rightarrow> db \<Rightarrow> ctx \<Rightarrow> RestartHeadlessHostRequest \<Rightarrow> string rpc \<times> db" where
  "Svc_RestartHeadlessHost con cd pg newId w d c req =
     checkS (extractClaims c) d (\<lambda>claims.
     checkS (map_err convertErr (HostRepository_Find con w d (Rhr_HostId req) False)) d (\<lambda>_.
     map_errS convertErr (EnqueueRestartHost cd pg newId d req (Some (Auth_UserID claims)))))"

definition Svc_ShutdownHeadlessHost ::
  "'w HostConnector \<Rightarrow> job_codec \<Rightarrow> pg_env \<Rightarrow> 8 word list \<Rightarrow> 'w \<Rightarrow> db \<Rightarrow> ctx \<Rightarrow> string \<Rightarrow> string rpc \<times> db" where
  "Svc_ShutdownHeadlessHost con cd pg newId w d c hostID =
     checkS (extractClaims c) d (\<lambda>claims.
     checkS (map_err convertErr (HostRepository_Find con w d hostID False)) d (\<lambda>_.
     map_errS convertErr (EnqueueShutdownHost cd pg newId d hostID (Some (Auth_UserID claims)))))"

record UpdateHeadlessHostSettingsRequest =
  Uhs_HostId :: string
  Uhs_Name :: "string option"
  Uhs_AutoUpdatePolicy :: "HostAutoUpdatePolicy option"
  Uhs_TickRate :: "float32 option"
  Uhs_MaxConcurrentAssetTransfers :: "int32 option"
  Uhs_UsernameOverride :: "string option"
  Uhs_UpdateAutoSpawnItems :: bool
  Uhs_AutoSpawnItems :: "string list"
  Uhs_UniverseId :: "string option"

record UpdateHostSettingsRequest =
  Uhr_TickRate :: "float32 option"
  Uhr_MaxConcurrentAssetTransfers :: "int32 option"
  Uhr_UsernameOverride :: "string option"
  Uhr_UpdateAutoSpawnItems :: bool
  Uhr_AutoSpawnItems :: "string list"

text \<open>What the request asks of a running container, and the settings of a host that is not running.\<close>

definition hasUpdateReq :: "UpdateHeadlessHostSettingsRequest \<Rightarrow> bool" where
  "hasUpdateReq req \<longleftrightarrow> Uhs_TickRate req \<noteq> None \<or> Uhs_MaxConcurrentAssetTransfers req \<noteq> None
     \<or> Uhs_UsernameOverride req \<noteq> None \<or> Uhs_UpdateAutoSpawnItems req \<or> Uhs_UniverseId req \<noteq> None"

definition updateReq :: "UpdateHeadlessHostSettingsRequest \<Rightarrow> UpdateHostSettingsRequest" where
  "updateReq req = \<lparr>Uhr_TickRate = Uhs_TickRate req, Uhr_MaxConcurrentAssetTransfers = Uhs_MaxConcurrentAssetTransfers req,
     Uhr_UsernameOverride = Uhs_UsernameOverride req, Uhr_UpdateAutoSpawnItems = Uhs_UpdateAutoSpawnItems req,
     Uhr_AutoSpawnItems = (if Uhs_UpdateAutoSpawnItems req then Uhs_AutoSpawnItems req else [])\<rparr>"

definition changed_settings :: "UpdateHeadlessHostSettingsRequest \<Rightarrow> HeadlessHostSettings \<Rightarrow> HeadlessHostSettings" where
  "changed_settings req s = s\<lparr>
     Settings_TickRate := or_else (Uhs_TickRate req) (Settings_TickRate s),
     Settings_MaxConcurrentAssetTransfers := or_else (Uhs_MaxConcurrentAssetTransfers req) (Settings_MaxConcurrentAssetTransfers s),
     Settings_UsernameOverride := (if Uhs_UsernameOverride req \<noteq> None then Uhs_UsernameOverride req else Settings_UsernameOverride s),
     Settings_AutoSpawnItems := (if Uhs_UpdateAutoSpawnItems req then Uhs_AutoSpawnItems req else Settings_AutoSpawnItems s),
     Settings_UniverseID := (if Uhs_UniverseId req \<noteq> None then Uhs_UniverseId req else Settings_UniverseID s)\<rparr>"

text \<open>
  \<open>UpdateHostSettings\<close> of a container answers, and both the client and the runtime may behave differently
  afterwards. The handler is split before its last step, the notification.
\<close>

type_synonym 'w host_settings_call = "'w \<Rightarrow> RpcClient \<Rightarrow> UpdateHostSettingsRequest \<Rightarrow> (unit res \<times> RpcClient) \<times> 'w"

definition store_host_settings ::
  "'w host_settings_call \<Rightarrow> 'w HostConnector \<Rightarrow> 'w ctl \<Rightarrow> HeadlessHost \<Rightarrow> UpdateHeadlessHostSettingsRequest \<Rightarrow> unit rpc \<times> 'w ctl" where
  "store_host_settings call con c host req =
     (if HH_Status host = HeadlessHostStatus_RUNNING then
        checkS (map_err convertRpcClientErr (HostRepository_GetRpcClient con (ct_world c) (lv_db c) (Uhs_HostId req))) c (\<lambda>conn.
        case call (ct_world c) conn (updateReq req) of ((answer, conn), w) \<Rightarrow>
        let c = c\<lparr>ct_world := w\<rparr> in
        checkS (map_err convertRpcClientErr answer) c (\<lambda>_.
        checkS (map_err convertRpcClientErr (rpc_GetStartupConfigToRestore conn False)) c (\<lambda>updated.
        map_errS convertErr (onDb c (HostRepository_UpdateHostSettings (lv_db c) (Uhs_HostId req)
          (HeadlessHostSettingsProtoToEntity updated))))))
      else
        map_errS convertErr (onDb c (HostRepository_UpdateHostSettings (lv_db c) (Uhs_HostId req)
          (changed_settings req (HH_HostSettings host)))))"

definition change_host ::
  "'w host_settings_call \<Rightarrow> 'w HostConnector \<Rightarrow> 'w ctl \<Rightarrow> ctx \<Rightarrow> UpdateHeadlessHostSettingsRequest \<Rightarrow> unit rpc \<times> 'w ctl" where
  "change_host call con c cx req =
     checkS (map_err convertErr (HeadlessHostGet con c (user_of cx) (Uhs_HostId req))) c (\<lambda>host.
     bindS (case Uhs_Name req of
              None \<Rightarrow> (Inr (), c)
            | Some name \<Rightarrow> map_errS convertErr (onDb c (HostRepository_Rename (lv_db c) (Uhs_HostId req) name))) (\<lambda>_ c.
     bindS (case Uhs_AutoUpdatePolicy req of
              None \<Rightarrow> (Inr (), c)
            | Some policy \<Rightarrow>
                if policy = HostAutoUpdatePolicy_UNSPECIFIED then (Inr (), c)
                else map_errS convertErr (onDb c (HostRepository_UpdateAutoUpdatePolicy (lv_db c) (Uhs_HostId req) policy))) (\<lambda>_ c.
     if hasUpdateReq req then store_host_settings call con c host req else (Inr (), c))))"

definition Svc_UpdateHeadlessHostSettings ::
  "'w host_settings_call \<Rightarrow> 'w HostConnector \<Rightarrow> 'w ctl \<Rightarrow> MemoryBus \<Rightarrow> ctx \<Rightarrow> UpdateHeadlessHostSettingsRequest
     \<Rightarrow> unit rpc \<times> 'w ctl \<times> MemoryBus" where
  "Svc_UpdateHeadlessHostSettings call con c bus cx req =
     (case change_host call con c cx req of
        (Inl e, c) \<Rightarrow> (Inl e, c, bus)
      | (Inr _, c) \<Rightarrow> (Inr (), c, publishHostUpdated (db_now (lv_db c)) bus (Uhs_HostId req)))"

datatype log_cursor = BeforeId int | AfterId int

definition Svc_GetHeadlessHostLogs ::
  "'w ctl \<Rightarrow> ctx \<Rightarrow> string \<Rightarrow> int32 \<Rightarrow> int32 \<Rightarrow> log_cursor option \<Rightarrow> HeadlessHostGetLogsResult rpc" where
  "Svc_GetHeadlessHostLogs c cx hostID instanceID limit cursor =
     map_err convertErr (HeadlessHostGetLogs c (user_of cx)
       \<lparr>Logs_HostID = hostID, Logs_InstanceID = instanceID, Logs_Limit = limit,
        Logs_BeforeID = (case cursor of Some (BeforeId i) \<Rightarrow> i | _ \<Rightarrow> 0),
        Logs_AfterID = (case cursor of Some (AfterId i) \<Rightarrow> i | _ \<Rightarrow> 0)\<rparr>)"

definition Svc_KillHeadlessHost :: "'w HostConnector \<Rightarrow> 'w ctl \<Rightarrow> ctx \<Rightarrow> string \<Rightarrow> unit rpc \<times> 'w ctl" where
  "Svc_KillHeadlessHost con c cx hostID = map_errS convertErr (HeadlessHostKill con c (user_of cx) hostID)"

definition Svc_AllowHostAccess :: "(RpcClient \<Rightarrow> 'p \<Rightarrow> 'r res) \<Rightarrow> 'w HostConnector \<Rightarrow> 'w ctl \<Rightarrow> string \<Rightarrow> 'p \<Rightarrow> unit rpc" where
  "Svc_AllowHostAccess call con c hostID request = acknowledged (delegate con c hostID (\<lambda>conn. call conn request))"

definition Svc_DenyHostAccess :: "(RpcClient \<Rightarrow> 'p \<Rightarrow> 'r res) \<Rightarrow> 'w HostConnector \<Rightarrow> 'w ctl \<Rightarrow> string \<Rightarrow> 'p \<Rightarrow> unit rpc" where
  "Svc_DenyHostAccess call con c hostID request = acknowledged (delegate con c hostID (\<lambda>conn. call conn request))"

definition Svc_GetHeadlessHost :: "'w HostConnector \<Rightarrow> 'w ctl \<Rightarrow> ctx \<Rightarrow> string \<Rightarrow> HeadlessHost rpc" where
  "Svc_GetHeadlessHost con c cx hostID = map_err convertErr (HeadlessHostGet con c (user_of cx) hostID)"

definition Svc_ListHeadlessHost ::
  "'w HostConnector \<Rightarrow> 'w ctl \<Rightarrow> ctx \<Rightarrow> PageRequest option \<Rightarrow> string \<Rightarrow> (HeadlessHost list \<times> PageResponse) rpc" where
  "Svc_ListHeadlessHost con c cx page groupID =
     bindR (normalizePageRequest page) (\<lambda>(pageIndex, pageSize).
     bindR (resolveListGroupFilter (lv_db c) cx groupID PermKey_HostRead) (\<lambda>groupIDs.
     bindR (map_err convertErr (HeadlessHostListPaged con c pageIndex pageSize groupIDs)) (\<lambda>result.
     Inr (HostPage_Hosts result,
          \<lparr>Prs_TotalCount = HostPage_TotalCount result, Prs_PageIndex = pageIndex, Prs_PageSize = pageSize\<rparr>))))"

definition Svc_DeleteHeadlessHost ::
  "'w HostConnector \<Rightarrow> 'w ctl \<Rightarrow> MemoryBus \<Rightarrow> ctx \<Rightarrow> string \<Rightarrow> unit rpc \<times> 'w ctl \<times> MemoryBus" where
  "Svc_DeleteHeadlessHost con c bus cx hostID =
     (case HeadlessHostDelete con c (user_of cx) hostID of
        (Inl e, c) \<Rightarrow> (Inl (convertErr e), c, bus)
      | (Inr _, c) \<Rightarrow> (Inr (), c, publishHostListChanged (db_now (lv_db c)) bus))"

section \<open>World downloads\<close>

text \<open>
  The stream of a download is the list of its chunks and the error it ends with, if it does not end with
  \<open>io.EOF\<close>. The temporary file and the blob store are arguments; the uuid drawn for the key is one too.
\<close>

datatype WorldBinaryFormat =
    WORLD_BINARY_FORMAT_UNSPECIFIED | WORLD_BINARY_FORMAT_7ZBSON | WORLD_BINARY_FORMAT_BRSON
  | WORLD_BINARY_FORMAT_RESONITEPACKAGE | WORLD_BINARY_FORMAT_Other int32

record 'b blob_env =
  blob_DownloadSessionWorld :: "RpcClient \<Rightarrow> string \<Rightarrow> WorldBinaryFormat \<Rightarrow> (string list \<times> err option) res"
  blob_CreateTemp :: "unit res"
  blob_Write :: "string \<Rightarrow> unit res"
  blob_Stat :: "string \<Rightarrow> int res"
  blob_Seek :: "unit res"
  blob_NewString :: string
  blob_Upload :: "'b \<Rightarrow> string \<Rightarrow> string \<Rightarrow> int \<Rightarrow> string \<Rightarrow> string \<Rightarrow> unit res \<times> 'b"

fun copy_stream :: "'b blob_env \<Rightarrow> string list \<Rightarrow> err option \<Rightarrow> string \<Rightarrow> string res" where
  "copy_stream env [] None content = Inr content"
| "copy_stream env [] (Some recvErr) content = Inl recvErr"
| "copy_stream env (chunk # chunks) e content = bindR (blob_Write env chunk) (\<lambda>_. copy_stream env chunks e (content @ chunk))"

definition unsafeFilenameChar :: "char \<Rightarrow> bool" where
  "unsafeFilenameChar c \<longleftrightarrow> c \<in> set ''<>:/|?*'' \<or> c = CHR 0x22 \<or> c = CHR 0x5C \<or> (of_char c :: nat) < 32"

definition sanitizeFilename :: "string \<Rightarrow> string" where
  "sanitizeFilename name =
     (let cleaned = map (\<lambda>c. if unsafeFilenameChar c then CHR ''_'' else c) name in
      if cleaned = [] then ''world'' else cleaned)"

fun worldBinaryFormatExtension :: "WorldBinaryFormat \<Rightarrow> string" where
  "worldBinaryFormatExtension WORLD_BINARY_FORMAT_7ZBSON = ''7zbson''"
| "worldBinaryFormatExtension WORLD_BINARY_FORMAT_BRSON = ''brson''"
| "worldBinaryFormatExtension WORLD_BINARY_FORMAT_RESONITEPACKAGE = ''resonitepackage''"
| "worldBinaryFormatExtension _ = ''bin''"

definition download_name :: "Session \<Rightarrow> string \<Rightarrow> string" where
  "download_name s sessionID =
     (let displayName = (case Session_CurrentState s of
                           Some cs \<Rightarrow> if Snap_Name cs \<noteq> [] then Snap_Name cs else Session_Name s
                         | None \<Rightarrow> Session_Name s) in
      if displayName = [] then sessionID else displayName)"

definition PrepareSessionWorldDownload ::
  "'b blob_env \<Rightarrow> 'w HostConnector \<Rightarrow> 'w ctl \<Rightarrow> 'b \<Rightarrow> string \<Rightarrow> WorldBinaryFormat \<Rightarrow> (string \<times> string) res \<times> 'b" where
  "PrepareSessionWorldDownload env con c store sessionID format =
     checkS (SessionRepository_Get (lv_db c) sessionID) store (\<lambda>dbSession.
     checkS (HostRepository_GetRpcClient con (ct_world c) (lv_db c) (Session_HostID dbSession)) store (\<lambda>client.
     checkS (blob_DownloadSessionWorld env client sessionID format) store (\<lambda>(chunks, ending).
     checkS (blob_CreateTemp env) store (\<lambda>_.
     checkS (copy_stream env chunks ending []) store (\<lambda>content.
     checkS (blob_Stat env content) store (\<lambda>size.
     checkS (blob_Seek env) store (\<lambda>_.
     let filename = sanitizeFilename (download_name dbSession sessionID) @ ''.'' @ worldBinaryFormatExtension format;
         key = blob_NewString env in
     bindS (blob_Upload env store key content size filename ''application/octet-stream'') (\<lambda>_ store.
     (Inr (''/blobs/'' @ key, filename), store)))))))))"

definition Svc_PrepareSessionWorldDownload ::
  "'b blob_env \<Rightarrow> 'w HostConnector \<Rightarrow> 'w ctl \<Rightarrow> 'b \<Rightarrow> string \<Rightarrow> WorldBinaryFormat \<Rightarrow> (string \<times> string) rpc \<times> 'b" where
  "Svc_PrepareSessionWorldDownload env con c store sessionID format =
     (if format = WORLD_BINARY_FORMAT_UNSPECIFIED then (Inl (CodeInvalidArgument, ErrMsg ''format is required''), store)
      else map_errS convertErr (PrepareSessionWorldDownload env con c store sessionID format))"

section \<open>Sessions\<close>

definition Svc_BanUser :: "(RpcClient \<Rightarrow> 'p \<Rightarrow> 'r res) \<Rightarrow> 'w HostConnector \<Rightarrow> 'w ctl \<Rightarrow> string \<Rightarrow> 'p \<Rightarrow> unit rpc" where
  "Svc_BanUser call con c hostID parameters = acknowledged (delegate con c hostID (\<lambda>conn. call conn parameters))"

definition Svc_KickUser :: "(RpcClient \<Rightarrow> 'p \<Rightarrow> 'r res) \<Rightarrow> 'w HostConnector \<Rightarrow> 'w ctl \<Rightarrow> string \<Rightarrow> 'p \<Rightarrow> unit rpc" where
  "Svc_KickUser call con c hostID parameters = acknowledged (delegate con c hostID (\<lambda>conn. call conn parameters))"

definition Svc_GetSessionDetails :: "'w HostConnector \<Rightarrow> 'w ctl \<Rightarrow> string \<Rightarrow> Session rpc \<times> 'w ctl" where
  "Svc_GetSessionDetails con c sessionID = map_errS convertErr (GetSession con c sessionID)"

definition Svc_ListUsersInSession ::
  "(RpcClient \<Rightarrow> string \<Rightarrow> 'u list res) \<Rightarrow> 'w HostConnector \<Rightarrow> 'w ctl \<Rightarrow> string \<Rightarrow> string \<Rightarrow> 'u list rpc" where
  "Svc_ListUsersInSession call con c hostID sessionID = delegate con c hostID (\<lambda>conn. call conn sessionID)"

datatype SaveSessionWorldMode = SAVE_MODE_UNKNOWN | SAVE_MODE_OVERWRITE | SAVE_MODE_SAVE_AS | SAVE_MODE_COPY | SAVE_MODE_Other int32

text \<open>A number that the switch does not name leaves \<open>saveMode\<close> zero.\<close>

fun save_mode_of :: "SaveSessionWorldMode \<Rightarrow> SaveMode rpc" where
  "save_mode_of SAVE_MODE_OVERWRITE = Inr SaveMode_OVERWRITE"
| "save_mode_of SAVE_MODE_SAVE_AS = Inr SaveMode_SAVE_AS"
| "save_mode_of SAVE_MODE_COPY = Inr SaveMode_COPY"
| "save_mode_of SAVE_MODE_UNKNOWN = Inl (CodeInvalidArgument, ErrMsg ''invalid save mode'')"
| "save_mode_of (SAVE_MODE_Other _) = Inr (SaveMode_Other 0)"

definition Svc_SaveSessionWorld ::
  "'w HostConnector \<Rightarrow> 'w ctl \<Rightarrow> ctx \<Rightarrow> string \<Rightarrow> SaveSessionWorldMode \<Rightarrow> string rpc \<times> 'w ctl" where
  "Svc_SaveSessionWorld con c cx sessionID mode =
     checkS (save_mode_of mode) c (\<lambda>saveMode.
     map_errS (Pair CodeInternal) (SaveSessionWorld con c (user_of cx) sessionID saveMode))"

text \<open>The interceptor has turned away requests without parameters.\<close>

definition Svc_UpdateSessionParameters ::
  "'w HostConnector \<Rightarrow> 'w ctl \<Rightarrow> ctx \<Rightarrow> UpdateSessionParametersRequest \<Rightarrow> unit rpc \<times> 'w ctl" where
  "Svc_UpdateSessionParameters con c cx parameters =
     map_errS (Pair CodeInvalidArgument) (UpdateSessionParameters con c (user_of cx) (Usp_SessionId parameters) parameters)"

definition Svc_UpdateUserRole :: "(RpcClient \<Rightarrow> 'p \<Rightarrow> 'r res) \<Rightarrow> 'w HostConnector \<Rightarrow> 'w ctl \<Rightarrow> string \<Rightarrow> 'p \<Rightarrow> 'r rpc" where
  "Svc_UpdateUserRole call con c hostID parameters = delegate con c hostID (\<lambda>conn. call conn parameters)"

definition Svc_StartWorld ::
  "job_codec \<Rightarrow> pg_env \<Rightarrow> 8 word list \<Rightarrow> db \<Rightarrow> ctx \<Rightarrow> StartWorldRequest \<Rightarrow> string rpc \<times> db" where
  "Svc_StartWorld cd pg newId d c req =
     checkS (extractClaims c) d (\<lambda>claims.
     checkS (map_err convertErr (HostRepository_GetGroupID d (Swr_HostId req))) d (\<lambda>hostGroupID.
     let req = (if blank_ptr (Swr_GroupId req) then req\<lparr>Swr_GroupId := Some hostGroupID\<rparr> else req) in
     map_errS convertErr (EnqueueStartSession cd pg newId d req (Some (Auth_UserID claims)))))"

datatype InviteUserTarget = InviteUserRequest_UserId string | InviteUserRequest_UserName string

definition Svc_InviteUser ::
  "(RpcClient \<Rightarrow> string \<times> InviteUserTarget \<Rightarrow> 'r res) \<Rightarrow> 'w HostConnector \<Rightarrow> 'w ctl \<Rightarrow> string \<Rightarrow> string \<Rightarrow> string \<Rightarrow> string \<Rightarrow> unit rpc" where
  "Svc_InviteUser call con c hostID sessionID userId userName =
     acknowledged (delegate con c hostID (\<lambda>conn.
       call conn (sessionID, if userId \<noteq> [] then InviteUserRequest_UserId userId else InviteUserRequest_UserName userName)))"

definition Svc_StopSession ::
  "job_codec \<Rightarrow> pg_env \<Rightarrow> 8 word list \<Rightarrow> db \<Rightarrow> ctx \<Rightarrow> string \<Rightarrow> string rpc \<times> db" where
  "Svc_StopSession cd pg newId d c sessionID =
     checkS (extractClaims c) d (\<lambda>claims.
     checkS (map_err convertErr (SessionRepository_Get d sessionID)) d (\<lambda>_.
     map_errS convertErr (EnqueueStopSession cd pg newId d sessionID (Some (Auth_UserID claims)))))"

record SearchSessionsParameters =
  Ssp_HostId :: "string option"
  Ssp_Status :: "SessionStatus option"
  Ssp_GroupId :: "string option"

definition Svc_SearchSessions ::
  "'w ctl \<Rightarrow> ctx \<Rightarrow> PageRequest option \<Rightarrow> SearchSessionsParameters option \<Rightarrow> (Session list \<times> PageResponse) rpc" where
  "Svc_SearchSessions c cx page params =
     bindR (normalizePageRequest page) (\<lambda>(pageIndex, pageSize).
     bindR (resolveListGroupFilter (lv_db c) cx (case params of None \<Rightarrow> [] | Some p \<Rightarrow> getter (Ssp_GroupId p)) PermKey_SessionRead) (\<lambda>groupIDs.
     bindR (map_err (Pair CodeInvalidArgument) (SearchSessions c
              \<lparr>Filter_HostID = Option.bind params Ssp_HostId, Filter_Status = Option.bind params Ssp_Status,
               Filter_PageIndex = pageIndex, Filter_PageSize = pageSize, Filter_GroupIDs = groupIDs\<rparr>)) (\<lambda>(sessions, total).
     Inr (sessions, \<lparr>Prs_TotalCount = total, Prs_PageIndex = pageIndex, Prs_PageSize = pageSize\<rparr>))))"

definition Svc_DeleteEndedSession :: "'w ctl \<Rightarrow> ctx \<Rightarrow> string \<Rightarrow> unit rpc \<times> 'w ctl" where
  "Svc_DeleteEndedSession c cx sessionID = map_errS convertErr (DeleteSession c (user_of cx) sessionID)"

definition Svc_UpdateSessionExtraSettings ::
  "'w HostConnector \<Rightarrow> 'w ctl \<Rightarrow> ctx \<Rightarrow> string \<Rightarrow> bool option \<Rightarrow> string option \<Rightarrow> unit rpc \<times> 'w ctl" where
  "Svc_UpdateSessionExtraSettings con c cx sessionID autoUpgrade memo =
     map_errS convertErr (UpdateSessionExtraSettings con c (user_of cx) sessionID autoUpgrade memo)"

section \<open>Accounts\<close>

definition Svc_CreateHeadlessAccount ::
  "skyfrost \<Rightarrow> db \<Rightarrow> ctx \<Rightarrow> string \<Rightarrow> string \<Rightarrow> string \<Rightarrow> unit rpc \<times> db" where
  "Svc_CreateHeadlessAccount sky d c credential password groupID =
     checkS (extractClaims c) d (\<lambda>claims.
     checkS (map_err convertErr (ResolveGroupIDForUser d (Auth_UserID claims) groupID)) d (\<lambda>groupID.
     map_errS convertErr (CreateHeadlessAccount sky d (user_of c) credential password groupID (Some (Auth_UserID claims)))))"

text \<open>What a list shows of an account: neither its credential nor its password.\<close>

record HeadlessAccountView =
  Hav_UserId :: string
  Hav_GroupId :: string
  Hav_CreatedBy :: "string option"
  Hav_UserName :: string
  Hav_IconUrl :: string

definition account_view :: "HeadlessAccount \<Rightarrow> HeadlessAccountView" where
  "account_view a = \<lparr>Hav_UserId = Account_ResoniteID a, Hav_GroupId = Account_GroupID a, Hav_CreatedBy = Account_CreatedBy a,
     Hav_UserName = getter (Account_LastDisplayName a), Hav_IconUrl = getter (Account_LastIconUrl a)\<rparr>"

definition Svc_ListHeadlessAccounts ::
  "db \<Rightarrow> ctx \<Rightarrow> PageRequest option \<Rightarrow> string \<Rightarrow> (HeadlessAccountView list \<times> PageResponse) rpc" where
  "Svc_ListHeadlessAccounts d c page groupID =
     bindR (normalizePageRequest page) (\<lambda>(pageIndex, pageSize).
     bindR (resolveListGroupFilter d c groupID PermKey_AccountRead) (\<lambda>groupIDs.
     bindR (map_err convertErr (ListHeadlessAccountsPaged d pageIndex pageSize groupIDs)) (\<lambda>(accounts, total).
     Inr (map account_view accounts, \<lparr>Prs_TotalCount = total, Prs_PageIndex = pageIndex, Prs_PageSize = pageSize\<rparr>))))"

definition Svc_DeleteHeadlessAccount :: "db \<Rightarrow> ctx \<Rightarrow> string \<Rightarrow> unit rpc \<times> db" where
  "Svc_DeleteHeadlessAccount d c accountID = map_errS convertErr (DeleteHeadlessAccount d (user_of c) accountID)"

definition Svc_UpdateHeadlessAccountCredentials ::
  "skyfrost \<Rightarrow> db \<Rightarrow> ctx \<Rightarrow> string \<Rightarrow> string \<Rightarrow> string \<Rightarrow> unit rpc \<times> db" where
  "Svc_UpdateHeadlessAccountCredentials sky d c accountID credential password =
     map_errS convertErr (UpdateHeadlessAccountCredentials sky d (user_of c) accountID credential password)"

definition Svc_GetHeadlessAccountStorageInfo ::
  "(string \<Rightarrow> string \<Rightarrow> string \<Rightarrow> (int \<times> int) res) \<Rightarrow> db \<Rightarrow> string \<Rightarrow> (int \<times> int) rpc" where
  "Svc_GetHeadlessAccountStorageInfo getStorageInfo d accountID =
     bindR (map_err convertErr (GetHeadlessAccount d accountID)) (\<lambda>account.
     map_err (\<lambda>_. (CodeInternal, ErrMsg ''failed to get storage info for user''))
       (getStorageInfo (Account_Credential account) (Account_Password account) (Account_ResoniteID account)))"

definition Svc_RefetchHeadlessAccountInfo :: "skyfrost \<Rightarrow> db \<Rightarrow> ctx \<Rightarrow> string \<Rightarrow> unit rpc \<times> db" where
  "Svc_RefetchHeadlessAccountInfo sky d c accountID = map_errS convertErr (RefetchHeadlessAccountInfo sky d (user_of c) accountID)"

definition Svc_UpdateHeadlessAccountIcon :: "skyfrost \<Rightarrow> db \<Rightarrow> ctx \<Rightarrow> string \<Rightarrow> string \<Rightarrow> string rpc \<times> db" where
  "Svc_UpdateHeadlessAccountIcon sky d c accountID iconData =
     map_errS convertErr (UpdateHeadlessAccountIcon sky d (user_of c) accountID iconData)"

section \<open>Contacts and the cloud\<close>

text \<open>These calls go through the first running host of the account.\<close>

definition no_running_host :: "Code \<times> err" where
  "no_running_host = (CodeInvalidArgument, ErrMsg ''a running headless host of this account is required'')"

definition delegate_account :: "'w HostConnector \<Rightarrow> 'w ctl \<Rightarrow> string \<Rightarrow> (RpcClient \<Rightarrow> 'r res) \<Rightarrow> 'r rpc" where
  "delegate_account con c accountID call =
     bindR (map_err convertErr (HostRepository_ListRunningByAccount (lv_db c) accountID)) (\<lambda>hosts.
     case hosts of [] \<Rightarrow> Inl no_running_host | h # _ \<Rightarrow> delegate con c (HH_ID h) call)"

record contact_user =
  Contact_Id :: string
  Contact_Name :: string
  Contact_IconUrl :: string

definition Svc_ListContacts ::
  "(RpcClient \<Rightarrow> int32 \<times> string option \<Rightarrow> (contact_user list \<times> string option) res) \<Rightarrow> 'w HostConnector \<Rightarrow> 'w ctl
     \<Rightarrow> string \<Rightarrow> int32 \<Rightarrow> string option \<Rightarrow> (contact_user list \<times> string option) rpc" where
  "Svc_ListContacts call con c accountID limit cursor = delegate_account con c accountID (\<lambda>conn. call conn (limit, cursor))"

record contact_message =
  Cm_Id :: string
  Cm_Type :: int32
  Cm_Content :: string
  Cm_SendTime :: "time option"
  Cm_ReadTime :: "time option"
  Cm_SenderId :: string

record contact_messages_query =
  Cq_UserId :: string
  Cq_Limit :: int32
  Cq_BeforeId :: "string option"
  Cq_AfterId :: "string option"

text \<open>A message is shown with whether the account itself sent it.\<close>

definition Svc_GetContactMessages ::
  "(RpcClient \<Rightarrow> contact_messages_query \<Rightarrow> (contact_message list \<times> bool \<times> bool) res) \<Rightarrow> 'w HostConnector \<Rightarrow> 'w ctl
     \<Rightarrow> string \<Rightarrow> contact_messages_query \<Rightarrow> ((contact_message \<times> bool) list \<times> bool \<times> bool) rpc" where
  "Svc_GetContactMessages call con c accountID q =
     bindR (map_err convertErr (GetHeadlessAccount (lv_db c) accountID)) (\<lambda>account.
     bindR (delegate_account con c accountID (\<lambda>conn. call conn q)) (\<lambda>(messages, before, after).
     Inr (map (\<lambda>m. (m, Cm_SenderId m = Account_ResoniteID account)) messages, before, after)))"

definition Svc_SendContactMessage ::
  "(RpcClient \<Rightarrow> string \<times> string \<Rightarrow> 'r res) \<Rightarrow> 'w HostConnector \<Rightarrow> 'w ctl \<Rightarrow> string \<Rightarrow> string \<Rightarrow> string \<Rightarrow> unit rpc" where
  "Svc_SendContactMessage call con c accountID contactUserId message =
     acknowledged (delegate_account con c accountID (\<lambda>conn. call conn (contactUserId, message)))"

definition Svc_AcceptFriendRequests ::
  "(RpcClient \<Rightarrow> string list \<Rightarrow> 'r res) \<Rightarrow> 'w HostConnector \<Rightarrow> 'w ctl \<Rightarrow> string \<Rightarrow> string \<Rightarrow> unit rpc" where
  "Svc_AcceptFriendRequests call con c accountID targetUserId =
     acknowledged (delegate_account con c accountID (\<lambda>conn. call conn [targetUserId]))"

text \<open>A contact of the cloud: its user and its status.\<close>

definition Svc_GetFriendRequests ::
  "(string \<Rightarrow> string \<Rightarrow> (contact_user \<times> string) list res) \<Rightarrow> db \<Rightarrow> string \<Rightarrow> contact_user list rpc" where
  "Svc_GetFriendRequests getContacts d accountID =
     bindR (map_err convertErr (GetHeadlessAccount d accountID)) (\<lambda>account.
     bindR (map_err (\<lambda>_. (CodeInternal, ErrMsg ''failed to get friend requests''))
              (getContacts (Account_Credential account) (Account_Password account))) (\<lambda>contacts.
     Inr (map fst (filter (\<lambda>(_, status). status = ''Requested'') contacts))))"

definition Svc_SearchUserInfo :: "(RpcClient \<Rightarrow> 'p \<Rightarrow> 'r res) \<Rightarrow> 'w HostConnector \<Rightarrow> 'w ctl \<Rightarrow> string \<Rightarrow> 'p \<Rightarrow> 'r rpc" where
  "Svc_SearchUserInfo call con c hostID parameters = delegate con c hostID (\<lambda>conn. call conn parameters)"

definition Svc_FetchWorldInfo :: "(RpcClient \<Rightarrow> string \<Rightarrow> 'r res) \<Rightarrow> 'w HostConnector \<Rightarrow> 'w ctl \<Rightarrow> string \<Rightarrow> string \<Rightarrow> 'r rpc" where
  "Svc_FetchWorldInfo call con c hostID url =
     bindR (map_err convertRpcClientErr (HostRepository_GetRpcClient con (ct_world c) (lv_db c) hostID)) (\<lambda>conn.
     map_err (Pair CodeNotFound) (call conn url))"

definition Svc_GetResoniteUser :: "skyfrost \<Rightarrow> string \<Rightarrow> AccountUsecase.UserInfo rpc" where
  "Svc_GetResoniteUser sky resoniteId = map_err (Pair CodeNotFound) (sky_FetchUserInfo sky resoniteId)"

definition Svc_GetOwnWorlds ::
  "(string \<Rightarrow> string \<Rightarrow> int32 \<Rightarrow> ('r list \<times> bool) res) \<Rightarrow> 'w HostConnector \<Rightarrow> 'w ctl \<Rightarrow> string \<Rightarrow> int32 \<Rightarrow> ('r list \<times> bool) rpc" where
  "Svc_GetOwnWorlds getOwnWorlds con c hostID pageIndex =
     bindR (map_err convertErr (HostRepository_Find con (ct_world c) (lv_db c) hostID False)) (\<lambda>host.
     bindR (map_err convertErr (GetHeadlessAccount (lv_db c) (HH_AccountId host))) (\<lambda>account.
     map_err (\<lambda>_. (CodeInternal, ErrMsg ''failed to get own worlds''))
       (getOwnWorlds (Account_Credential account) (Account_Password account) pageIndex)))"

section \<open>Lists show what the caller may read\<close>

text \<open>
  What a list handler relies on: a page of the provider stays within the groups it was given and within
  its size. The three lists of hosts, sessions and accounts are instances.
\<close>

locale group_listing =
  fixes list_page :: "'s \<Rightarrow> string list option \<Rightarrow> int32 \<Rightarrow> int32 \<Rightarrow> ('i list \<times> int32) res"
    and group_of :: "'i \<Rightarrow> string"
  assumes in_groups: "list_page s (Some gs) i n = Inr (xs, tot) \<Longrightarrow> x \<in> set xs \<Longrightarrow> group_of x \<in> set gs"
    and in_page: "list_page s flt i n = Inr (xs, tot) \<Longrightarrow> 0 < n \<Longrightarrow> int (length xs) \<le> n"

text \<open>What a list may show to a caller: entries of readable groups, of the one asked for if there is one, in pages of 1 to 100.\<close>

definition readable :: "db \<Rightarrow> string \<Rightarrow> string \<Rightarrow> string \<Rightarrow> bool" where
  "readable d u g k \<longleftrightarrow> holds d u SystemGroupID PermKey_SystemGroupList \<or> allowed d u g k"

definition listing_ok :: "db \<Rightarrow> ctx \<Rightarrow> string \<Rightarrow> string \<Rightarrow> string list \<Rightarrow> int32 \<Rightarrow> int32 \<Rightarrow> bool" where
  "listing_ok d cx requested k groups pageIndex pageSize \<longleftrightarrow>
     (\<exists>u. user_of cx = Some u \<and> (\<forall>g \<in> set groups. readable d u g k \<and> (TrimSpace requested \<noteq> [] \<longrightarrow> g = TrimSpace requested)))
     \<and> 0 \<le> pageIndex \<and> 0 < pageSize \<and> pageSize \<le> 100 \<and> int (length groups) \<le> pageSize"

lemma normalizePageRequest_bounds:
  "normalizePageRequest p = Inr (i, n) \<Longrightarrow> 0 \<le> i \<and> 0 < n \<and> n \<le> 100"
  by (auto simp: normalizePageRequest_def defaultPageSize_def maxPageSize_def split: option.splits if_splits)

lemma resolveListGroupFilter_sound:
  assumes "resolveListGroupFilter d cx requested k = Inr gs" "k \<noteq> []"
  shows "\<exists>u. user_of cx = Some u \<and> (case gs of
       None \<Rightarrow> holds d u SystemGroupID PermKey_SystemGroupList \<and> TrimSpace requested = []
     | Some gs \<Rightarrow> \<forall>g \<in> set gs. readable d u g k \<and> (TrimSpace requested \<noteq> [] \<longrightarrow> g = TrimSpace requested))"
  using assms
  by (cases cx) (auto simp: resolveListGroupFilter_def extractClaims_def GetAuthClaimsFromContext_def ctrl_simps Let_def CanReadGroup_def readable_def
      dest!: list_filter_sound HasSystemPermission_answer HasPermission_answer split: if_splits)

context group_listing
begin

lemma listing_scoped:
  assumes "normalizePageRequest page = Inr (i, n)" "resolveListGroupFilter d cx requested k = Inr gs" "k \<noteq> []"
    and "list_page s gs i n = Inr (xs, tot)"
  shows "listing_ok d cx requested k (map group_of xs) i n"
proof -
  obtain u where u: "user_of cx = Some u" "case gs of
       None \<Rightarrow> holds d u SystemGroupID PermKey_SystemGroupList \<and> TrimSpace requested = []
     | Some gs \<Rightarrow> \<forall>g \<in> set gs. readable d u g k \<and> (TrimSpace requested \<noteq> [] \<longrightarrow> g = TrimSpace requested)"
    using resolveListGroupFilter_sound[OF assms(2,3)] by blast
  have "readable d u (group_of x) k \<and> (TrimSpace requested \<noteq> [] \<longrightarrow> group_of x = TrimSpace requested)" if "x \<in> set xs" for x
    using u(2) in_groups[of s _ i n xs tot x] assms(4) that by (cases gs) (auto simp: readable_def)
  then show ?thesis using u(1) normalizePageRequest_bounds[OF assms(1)] in_page[OF assms(4)] by (auto simp: listing_ok_def)
qed

end

lemma fetchHostInfo_group: "HH_GroupID (snd (fetchHostInfo e client)) = HH_GroupID e"
  by (auto simp: fetchHostInfo_def Let_def split: sum.split prod.split)

lemma dbToEntity_group: "dbToEntity con w d h iw = Inr e \<Longrightarrow> HH_GroupID e = Host_GroupID h"
  using fetchHostInfo_group[of "base_entity h (Host_Status h)"]
  by (auto simp: dbToEntity_def Let_def ctrl_simps base_entity_def split: sum.splits prod.splits if_splits)
     (metis snd_conv)+

lemma dbHostsToEntities_group: "map HH_GroupID (dbHostsToEntities con w d hs iw) = map Host_GroupID hs"
  by (auto simp: dbHostsToEntities_def base_entity_def dest: dbToEntity_group split: sum.split)

definition host_page :: "'w HostConnector \<times> 'w ctl \<Rightarrow> string list option \<Rightarrow> int32 \<Rightarrow> int32 \<Rightarrow> (HeadlessHost list \<times> int32) res" where
  "host_page s gs i n = bindR (HeadlessHostListPaged (fst s) (snd s) i n gs) (\<lambda>r. Inr (HostPage_Hosts r, HostPage_TotalCount r))"

lemma host_page_rows:
  assumes "host_page s gs i n = Inr (xs, tot)"
  shows "\<exists>rows. q_ListHostsPaged (lv_db (snd s)) gs (wrap32 (i * n)) n = Inr rows \<and> map HH_GroupID xs = map (Host_GroupID \<circ> fst) rows"
  using assms by (auto simp: host_page_def HeadlessHostListPaged_def HostRepository_ListPaged_def ctrl_simps dbHostsToEntities_group)

lemma host_query_rows:
  assumes "q_ListHostsPaged d gs off n = Inr rows"
  shows "\<forall>r \<in> set rows. case gs of None \<Rightarrow> True | Some gs \<Rightarrow> Host_GroupID (fst r) \<in> set gs" "int (length rows) \<le> n"
  using assms by (auto simp: q_ListHostsPaged_def readQ_def Let_def split: if_splits option.splits dest!: in_set_takeD in_set_dropD)

interpretation host_list: group_listing host_page HH_GroupID
proof
  fix s :: "'a HostConnector \<times> 'a ctl" and gs i n xs tot and x :: HeadlessHost
  assume p: "host_page s (Some gs) i n = Inr (xs, tot)" and x: "x \<in> set xs"
  obtain rows where r: "q_ListHostsPaged (lv_db (snd s)) (Some gs) (wrap32 (i * n)) n = Inr rows" "map HH_GroupID xs = map (Host_GroupID \<circ> fst) rows"
    using host_page_rows[OF p] by blast
  have "HH_GroupID x \<in> set (map HH_GroupID xs)" using x by simp
  then show "HH_GroupID x \<in> set gs" unfolding r(2) using host_query_rows(1)[OF r(1)] by auto
next
  fix s :: "'a HostConnector \<times> 'a ctl" and gs i n and xs :: "HeadlessHost list" and tot
  assume p: "host_page s gs i n = Inr (xs, tot)"
  then obtain rows where r: "q_ListHostsPaged (lv_db (snd s)) gs (wrap32 (i * n)) n = Inr rows" "map HH_GroupID xs = map (Host_GroupID \<circ> fst) rows"
    using host_page_rows by blast
  show "int (length xs) \<le> n" using host_query_rows(2)[OF r(1)] arg_cong[OF r(2), of length] by simp
qed

definition session_page ::
  "'w ctl \<times> string option \<times> SessionStatus option \<Rightarrow> string list option \<Rightarrow> int32 \<Rightarrow> int32 \<Rightarrow> (Session list \<times> int32) res" where
  "session_page s gs i n = (if n \<le> 0 then Inl ErrDB else SearchSessions (fst s)
     \<lparr>Filter_HostID = fst (snd s), Filter_Status = snd (snd s), Filter_PageIndex = i, Filter_PageSize = n, Filter_GroupIDs = gs\<rparr>)"

lemma hydrate_group: "map Session_GroupID (hydrateCurrentState cache ss) = map Session_GroupID ss"
  by (auto simp: hydrateCurrentState_def split: option.split)

lemma session_page_rows:
  assumes "session_page s gs i n = Inr (xs, tot)"
  shows "\<exists>rows. map Session_GroupID xs = map (Session_GroupID \<circ> fst) rows
     \<and> q_ListSessionsPaged (lv_db (fst s)) (snd (snd s)) (fst (snd s)) gs (wrap32 (i * n)) n = Inr rows"
  using assms by (auto simp: session_page_def SearchSessions_def SessionRepository_ListPaged_def ctrl_simps hydrate_group split: if_splits)

lemma session_query_rows:
  assumes "q_ListSessionsPaged d st hid gs off n = Inr rows"
  shows "\<forall>r \<in> set rows. case gs of None \<Rightarrow> True | Some gs \<Rightarrow> Session_GroupID (fst r) \<in> set gs" "int (length rows) \<le> n"
  using assms by (auto simp: q_ListSessionsPaged_def readQ_def Let_def split: if_splits option.splits dest!: in_set_takeD in_set_dropD)

interpretation session_list: group_listing session_page Session_GroupID
proof
  fix s :: "'a ctl \<times> string option \<times> SessionStatus option" and gs i n xs tot and x :: Session
  assume p: "session_page s (Some gs) i n = Inr (xs, tot)" and x: "x \<in> set xs"
  obtain rows where r: "q_ListSessionsPaged (lv_db (fst s)) (snd (snd s)) (fst (snd s)) (Some gs) (wrap32 (i * n)) n = Inr rows"
    "map Session_GroupID xs = map (Session_GroupID \<circ> fst) rows"
    using session_page_rows[OF p] by blast
  have "Session_GroupID x \<in> set (map Session_GroupID xs)" using x by simp
  then show "Session_GroupID x \<in> set gs" unfolding r(2) using session_query_rows(1)[OF r(1)] by auto
next
  fix s :: "'a ctl \<times> string option \<times> SessionStatus option" and gs i n and xs :: "Session list" and tot
  assume p: "session_page s gs i n = Inr (xs, tot)"
  then show "int (length xs) \<le> n" using session_page_rows[OF p] session_query_rows(2) by (metis length_map)
qed

definition account_page :: "db \<Rightarrow> string list option \<Rightarrow> int32 \<Rightarrow> int32 \<Rightarrow> (HeadlessAccountView list \<times> int32) res" where
  "account_page d gs i n = bindR (ListHeadlessAccountsPaged d i n gs) (\<lambda>(xs, tot). Inr (map account_view xs, tot))"

lemma account_query_rows:
  assumes "q_ListHeadlessAccountsPaged d gs off n = Inr rows"
  shows "\<forall>r \<in> set rows. case gs of None \<Rightarrow> True | Some gs \<Rightarrow> Account_GroupID (fst r) \<in> set gs" "int (length rows) \<le> n"
  using assms by (auto simp: q_ListHeadlessAccountsPaged_def readQ_def Let_def split: if_splits option.splits dest!: in_set_takeD in_set_dropD)

interpretation account_list: group_listing account_page Hav_GroupId
proof
  fix d gs i n xs tot and x :: HeadlessAccountView
  assume p: "account_page d (Some gs) i n = Inr (xs, tot)" and x: "x \<in> set xs"
  then obtain rows where r: "q_ListHeadlessAccountsPaged d (Some gs) (wrap32 (i * n)) n = Inr rows" "xs = map account_view (map fst rows)"
    by (auto simp: account_page_def ListHeadlessAccountsPaged_def ctrl_simps)
  then show "Hav_GroupId x \<in> set gs" using account_query_rows(1)[OF r(1)] x by (auto simp: account_view_def)
qed (auto simp: account_page_def ListHeadlessAccountsPaged_def ctrl_simps dest: account_query_rows(2))

text \<open>
  C30: lists show only what the caller may read. The interceptor lets every caller with a token list hosts,
  sessions and accounts; whatever group, page and filter is asked for, every entry of an answer belongs to
  a group in which the caller is allowed to read that kind of entry, unless the caller holds
  \<open>system:group.list\<close>, and to the group asked for when there is one. A page holds 1 to 100 entries at most.
\<close>

theorem lists_scoped:
  "(Svc_ListHeadlessHost con c cx page g = Inr (hosts, pr)
       \<longrightarrow> listing_ok (lv_db c) cx g PermKey_HostRead (map HH_GroupID hosts) (Prs_PageIndex pr) (Prs_PageSize pr))
     \<and> (Svc_SearchSessions c cx page params = Inr (sessions, pr)
       \<longrightarrow> listing_ok (lv_db c) cx (getter (Option.bind params Ssp_GroupId)) PermKey_SessionRead (map Session_GroupID sessions)
             (Prs_PageIndex pr) (Prs_PageSize pr))
     \<and> (Svc_ListHeadlessAccounts (lv_db c) cx page g = Inr (accounts, pr)
       \<longrightarrow> listing_ok (lv_db c) cx g PermKey_AccountRead (map Hav_GroupId accounts) (Prs_PageIndex pr) (Prs_PageSize pr))"
proof (intro conjI impI)
  have keys: "PermKey_HostRead \<noteq> []" "PermKey_SessionRead \<noteq> []" "PermKey_AccountRead \<noteq> []" by code_simp+
  {
    assume "Svc_ListHeadlessHost con c cx page g = Inr (hosts, pr)"
    then obtain i n gs tot where "normalizePageRequest page = Inr (i, n)" "resolveListGroupFilter (lv_db c) cx g PermKey_HostRead = Inr gs"
      "host_page (con, c) gs i n = Inr (hosts, tot)" "Prs_PageIndex pr = i" "Prs_PageSize pr = n"
      by (auto simp: Svc_ListHeadlessHost_def host_page_def ctrl_simps)
    then show "listing_ok (lv_db c) cx g PermKey_HostRead (map HH_GroupID hosts) (Prs_PageIndex pr) (Prs_PageSize pr)"
      using host_list.listing_scoped keys(1) by blast
  next
    assume "Svc_SearchSessions c cx page params = Inr (sessions, pr)"
    then obtain i n gs tot where q: "normalizePageRequest page = Inr (i, n)"
      "resolveListGroupFilter (lv_db c) cx (getter (Option.bind params Ssp_GroupId)) PermKey_SessionRead = Inr gs"
      "SearchSessions c \<lparr>Filter_HostID = Option.bind params Ssp_HostId, Filter_Status = Option.bind params Ssp_Status,
               Filter_PageIndex = i, Filter_PageSize = n, Filter_GroupIDs = gs\<rparr> = Inr (sessions, tot)"
      "Prs_PageIndex pr = i" "Prs_PageSize pr = n"
      by (auto simp: Svc_SearchSessions_def ctrl_simps getter_def split: option.splits)
    then have "session_page (c, Option.bind params Ssp_HostId, Option.bind params Ssp_Status) gs i n = Inr (sessions, tot)"
      using normalizePageRequest_bounds[OF q(1)] by (simp add: session_page_def)
    then show "listing_ok (lv_db c) cx (getter (Option.bind params Ssp_GroupId)) PermKey_SessionRead (map Session_GroupID sessions)
         (Prs_PageIndex pr) (Prs_PageSize pr)"
      using session_list.listing_scoped[OF q(1,2) keys(2)] q(4,5) by blast
  next
    assume "Svc_ListHeadlessAccounts (lv_db c) cx page g = Inr (accounts, pr)"
    then obtain i n gs tot where "normalizePageRequest page = Inr (i, n)" "resolveListGroupFilter (lv_db c) cx g PermKey_AccountRead = Inr gs"
      "account_page (lv_db c) gs i n = Inr (accounts, tot)" "Prs_PageIndex pr = i" "Prs_PageSize pr = n"
      by (auto simp: Svc_ListHeadlessAccounts_def account_page_def ctrl_simps)
    then show "listing_ok (lv_db c) cx g PermKey_AccountRead (map Hav_GroupId accounts) (Prs_PageIndex pr) (Prs_PageSize pr)"
      using account_list.listing_scoped keys(3) by blast
  }
qed

section \<open>Queued work\<close>

lemma tbl_exists_get: "tbl_exists p xs \<longleftrightarrow> tbl_get p xs \<noteq> None"
  by (auto simp: tbl_exists_iff tbl_get_None_iff)

lemma enqueue_Inr:
  assumes "enqueue pg newId d ty t h s u = (Inr i, d')"
  shows "\<exists>j p. pg_Jsonb pg t = Some p \<and> job_of d' i = Some j \<and> Job_Status j = AsyncJobStatus_PENDING \<and> Job_Type j = ty
     \<and> Job_Payload j = p \<and> Job_CreatedBy j = u"
  using assms
  by (auto simp: enqueue_def AsyncJobRepository_Create_def q_CreateAsyncJob_def map_errS_def ctrl_simps writeQ_def Let_def job_of_def
      tbl_get_append tbl_exists_get split: option.splits if_splits)

lemma checkStartWorld_Inr:
  assumes "checkStartWorld d cx req = Inr ()"
  shows "\<exists>u g. user_of cx = Some u \<and> HostRepository_GetGroupID d (req_HostId req) = Inr g
     \<and> (GetGroupId req = [] \<or> GetGroupId req = g) \<and> (\<forall>k \<in> {PermKey_HostUse, PermKey_AccountUse, PermKey_SessionWrite}. allowed d u g k)"
  using assms
  by (cases cx) (auto simp: checkStartWorld_def extractClaims_def GetAuthClaimsFromContext_def ctrl_simps dest!: requirePerm_Inr split: if_splits)

lemma admit_StartWorld:
  assumes "admit env now d req = Inr cx" "req_Procedure req = Controller ''StartWorld''"
  shows "checkStartWorld d cx req = Inr ()"
proof -
  have "map_of declared_rules (Controller ''StartWorld'') = Some CheckStartWorld" by code_simp
  then show ?thesis using assms unfolding admit_Inr rpcPermissionRules_eq by auto
qed

text \<open>
  Starting a world, from the request to the session. When the interceptor admits a \<open>StartWorld\<close> request and
  the handler answers with a job, the caller is allowed \<open>host:use\<close>, \<open>account:use\<close> and \<open>session:write\<close> in the
  group of the host; the job waits under the caller's name, and dispatching it, in whatever state, starts a
  session of that host in exactly that group, whether the request named the group or not.
\<close>

theorem start_world_queued:
  assumes admitted: "admit aenv now d areq = Inr cx" "req_Procedure areq = Controller ''StartWorld''"
    and same: "req_HostId areq = Swr_HostId req" "req_GroupId areq = Swr_GroupId req"
    and run: "Svc_StartWorld (je_codec env) (je_pg env) newId d cx req = (Inr jobID, d')"
    and group: "HostRepository_GetGroupID d (Swr_HostId req) = Inr g"
    and carry: "carries (je_codec env) (je_pg env) (StartWorldReq (req\<lparr>Swr_GroupId := Some g\<rparr>))"
  shows "\<exists>u j. user_of cx = Some u \<and> (\<forall>k \<in> {PermKey_HostUse, PermKey_AccountUse, PermKey_SessionWrite}. allowed d u g k)
     \<and> job_of d' jobID = Some j \<and> Job_Status j = AsyncJobStatus_PENDING \<and> Job_CreatedBy j = Some u
     \<and> snd (Dispatch con env c caller j) = snd (StartSession con (je_session env) c caller (Swr_HostId req) g (Some u) (Swr_Parameters req)
          (if Swr_Memo req = [] then None else Some (Swr_Memo req)))"
proof -
  let ?world = "req\<lparr>Swr_GroupId := Some g\<rparr>"
  obtain u where u: "user_of cx = Some u" "GetGroupId areq = [] \<or> GetGroupId areq = g"
    and perms: "\<forall>k \<in> {PermKey_HostUse, PermKey_AccountUse, PermKey_SessionWrite}. allowed d u g k"
    using checkStartWorld_Inr[OF admit_StartWorld[OF admitted]] group unfolding same(1) by auto
  have world: "(if blank_ptr (Swr_GroupId req) then req\<lparr>Swr_GroupId := Some g\<rparr> else req) = ?world"
    using u(2) same(2) by (cases "Swr_GroupId req") (auto simp: GetGroupId_def json_field_def blank_ptr_def)
  obtain claims where cx: "cx = Some claims" "Auth_UserID claims = u" using u(1) by auto
  obtain t where t: "cd_Marshal (je_codec env) (StartWorldReq ?world) = Inr t"
    and q: "enqueue (je_pg env) newId d AsyncJobType_START_SESSION t (Some (Swr_HostId req)) None (Some u) = (Inr jobID, d')"
    using run by (auto simp: Svc_StartWorld_def EnqueueStartSession_def marshalPayload_def map_errS_def Let_def world group cx ctrl_simps
        checkS_def prod_eq_iff split: sum.splits)
  obtain j p where j: "pg_Jsonb (je_pg env) t = Some p" "job_of d' jobID = Some j" "Job_Status j = AsyncJobStatus_PENDING"
    "Job_Type j = AsyncJobType_START_SESSION" "Job_Payload j = p" "Job_CreatedBy j = Some u"
    using enqueue_Inr[OF q] by blast
  have "cd_UnmarshalStartWorld (je_codec env) p = Inr ?world" using carry t j(1) by (simp add: carries_def)
  then have "snd (Dispatch con env c caller j) = snd (StartSession con (je_session env) c caller (Swr_HostId req) g (Some u) (Swr_Parameters req)
          (if Swr_Memo req = [] then None else Some (Swr_Memo req)))"
    by (simp add: Dispatch_def dispatch_startSession_def snd_bindS_pure Let_def j getter_def)
  then show ?thesis using u(1) perms j by blast
qed

section \<open>Host settings\<close>

text \<open>What a request changes of a row, apart from the configuration.\<close>

definition renamed_host :: "UpdateHeadlessHostSettingsRequest \<Rightarrow> Host \<Rightarrow> Host" where
  "renamed_host req h = h\<lparr>Host_Name := or_else (Uhs_Name req) (Host_Name h),
     Host_AutoUpdatePolicy := (case Uhs_AutoUpdatePolicy req of
        None \<Rightarrow> Host_AutoUpdatePolicy h
      | Some p \<Rightarrow> if p = HostAutoUpdatePolicy_UNSPECIFIED then Host_AutoUpdatePolicy h else p)\<rparr>"

lemma fetchHostInfo_status:
  "HH_Status (snd (fetchHostInfo e client)) = HH_Status e" "HH_HostSettings (snd (fetchHostInfo e client)) = HH_HostSettings e"
  by (auto simp: fetchHostInfo_def Let_def split: sum.split prod.split)

lemma dbToEntity_settings:
  assumes "dbToEntity con w d h iw = Inr e"
  shows "HH_Status e = Host_Status h"
    and "Host_Status h \<noteq> HeadlessHostStatus_RUNNING \<Longrightarrow> HH_HostSettings e = HeadlessHostSettingsProtoToEntity (Host_LastStartupConfig h)"
proof -
  show "HH_Status e = Host_Status h"
    using assms fetchHostInfo_status[of "base_entity h (Host_Status h)"]
    by (auto simp: dbToEntity_def Let_def ctrl_simps base_entity_def split: sum.splits prod.splits if_splits) (metis snd_conv)+
  show "HH_HostSettings e = HeadlessHostSettingsProtoToEntity (Host_LastStartupConfig h)" if "Host_Status h \<noteq> HeadlessHostStatus_RUNNING"
    using assms that by (auto simp: dbToEntity_def Let_def ctrl_simps split: sum.splits)
qed

text \<open>The two writes before the settings, on a working database.\<close>

lemma change_host_nf:
  assumes nf: "no_faults (lv_db c)" and h: "host_of (lv_db c) (Uhs_HostId req) = Some h"
    and get: "HeadlessHostGet con c (user_of cx) (Uhs_HostId req) = Inr host"
  shows "\<exists>c1. change_host call con c cx req = (if hasUpdateReq req then store_host_settings call con c1 host req else (Inr (), c1))
     \<and> no_faults (lv_db c1) \<and> ct_world c1 = ct_world c \<and> db_now (lv_db c1) = db_now (lv_db c)
     \<and> (\<forall>x. host_of (lv_db c1) x = (if x = Uhs_HostId req then Some (renamed_host req h) else host_of (lv_db c) x))"
proof -
  let ?d1 = "case Uhs_Name req of None \<Rightarrow> lv_db c | Some n \<Rightarrow> update_host (Uhs_HostId req) (\<lambda>h. h\<lparr>Host_Name := n\<rparr>) (lv_db c)"
  let ?d2 = "case Uhs_AutoUpdatePolicy req of None \<Rightarrow> ?d1 | Some p \<Rightarrow> if p = HostAutoUpdatePolicy_UNSPECIFIED then ?d1
       else update_host (Uhs_HostId req) (\<lambda>h. h\<lparr>Host_AutoUpdatePolicy := p\<rparr>) ?d1"
  let ?c1 = "c\<lparr>lv_db := ?d2\<rparr>"
  have now: "db_now (update_host i f d) = db_now d" for i f d by (simp add: update_host_def)
  have "change_host call con c cx req = (if hasUpdateReq req then store_host_settings call con ?c1 host req else (Inr (), ?c1))"
    using nf by (auto simp: change_host_def get HostRepository_Rename_def q_UpdateHostName_def HostRepository_UpdateAutoUpdatePolicy_def
        q_UpdateHostAutoUpdatePolicy_def map_errS_def onDb_def split: option.split)
  moreover have "host_of ?d2 x = (if x = Uhs_HostId req then Some (renamed_host req h) else host_of (lv_db c) x)" for x
    using h by (auto simp: host_of_update renamed_host_def or_else_def split: option.split)
  ultimately show ?thesis using nf now by (intro exI[of _ ?c1]) (auto split: option.split)
qed

lemma requireHostRead_Inr:
  assumes "requireHostRead d caller hid = Inr ()" "host_of d hid = Some h"
  shows "\<exists>u. caller = Some u \<and> (allowed d u (Host_GroupID h) PermKey_HostRead \<or> allowed d u (Host_GroupID h) PermKey_HostWrite)"
proof (cases caller)
  case (Some u)
  then have "require_any (HasPermission d u (Host_GroupID h)) [PermKey_HostRead, PermKey_HostWrite] = Inr ()"
    using assms by (auto simp: requireHostRead_def HostRepository_GetGroupID_def RequireAnyPermissionForGroup_def CurrentUserID_def bindR_Inr_iff
        simp del: require_any.simps dest!: q_GetHost_Inr split: if_splits)
  then obtain k where "k \<in> set [PermKey_HostRead, PermKey_HostWrite]" "HasPermission d u (Host_GroupID h) k = Inr True"
    using perm.require_any_Inr by blast
  then show ?thesis using Some HasPermission_answer[of d u "Host_GroupID h" k True] by auto
qed (use assms in \<open>auto simp: requireHostRead_def RequireAnyPermissionForGroup_def CurrentUserID_def ctrl_simps\<close>)

lemma store_host_settings_cases:
  "(\<exists>e c2. store_host_settings call con c host req = (Inl e, c2) \<and> lv_db c2 = lv_db c)
   \<or> (\<exists>c0 st. store_host_settings call con c host req = map_errS convertErr (onDb c0 (HostRepository_UpdateHostSettings (lv_db c0) (Uhs_HostId req) st))
        \<and> lv_db c0 = lv_db c \<and> (HH_Status host \<noteq> HeadlessHostStatus_RUNNING \<longrightarrow> st = changed_settings req (HH_HostSettings host)))"
proof (cases "HH_Status host = HeadlessHostStatus_RUNNING")
  case running: True
  show ?thesis
  proof (cases "HostRepository_GetRpcClient con (ct_world c) (lv_db c) (Uhs_HostId req)")
    case (Inr conn)
    obtain answer conn' w where call: "call (ct_world c) conn (updateReq req) = ((answer, conn'), w)" by (metis prod.collapse)
    show ?thesis
    proof (cases answer)
      case Inl
      then show ?thesis using running Inr call by (auto simp: store_host_settings_def)
    next
      case ok: (Inr x)
      show ?thesis
      proof (cases "rpc_GetStartupConfigToRestore conn' False")
        case Inl
        then show ?thesis using running Inr call ok by (auto simp: store_host_settings_def)
      next
        case (Inr cfg)
        then have "store_host_settings call con c host req = map_errS convertErr (onDb (c\<lparr>ct_world := w\<rparr>)
             (HostRepository_UpdateHostSettings (lv_db (c\<lparr>ct_world := w\<rparr>)) (Uhs_HostId req) (HeadlessHostSettingsProtoToEntity cfg)))"
          using running call ok \<open>HostRepository_GetRpcClient con (ct_world c) (lv_db c) (Uhs_HostId req) = Inr conn\<close>
          by (simp add: store_host_settings_def)
        then show ?thesis using running
          by (intro disjI2 exI[of _ "c\<lparr>ct_world := w\<rparr>"] exI[of _ "HeadlessHostSettingsProtoToEntity cfg"]) simp
      qed
    qed
  qed (use running in \<open>auto simp: store_host_settings_def\<close>)
next
  case False
  then show ?thesis by (intro disjI2 exI[of _ c] exI[of _ "changed_settings req (HH_HostSettings host)"]) (simp add: store_host_settings_def)
qed

text \<open>
  What a change of host settings does. On a working database an answer of success means that the caller may
  read the host, the name and the policy asked for are stored, clients are told, and the stored configuration is
  the old one when no setting was asked for; otherwise, for a host that is not running, the old one with
  the settings asked for, and in every case one without items to spawn, even when the request gave some.
  A failure tells nobody, and may leave the new name and policy stored with the old configuration.
\<close>

theorem host_settings_effect:
  assumes nf: "no_faults (lv_db c)" and h: "host_of (lv_db c) (Uhs_HostId req) = Some h"
    and run: "Svc_UpdateHeadlessHostSettings call con c bus cx req = (r, c', bus')"
  shows "case r of
       Inl _ \<Rightarrow> bus' = bus \<and> host_of (lv_db c') (Uhs_HostId req) \<in> {Some h, Some (renamed_host req h)}
     | Inr _ \<Rightarrow> (\<exists>u. user_of cx = Some u \<and> (allowed (lv_db c) u (Host_GroupID h) PermKey_HostRead \<or> allowed (lv_db c) u (Host_GroupID h) PermKey_HostWrite))
         \<and> bus' = Publish bus (Some (HostUpdated (db_now (lv_db c)) (Uhs_HostId req) [] None))
         \<and> (\<exists>cfg. host_of (lv_db c') (Uhs_HostId req) = Some ((renamed_host req h)\<lparr>Host_LastStartupConfig := cfg\<rparr>)
              \<and> (if hasUpdateReq req then Sc_AutoSpawnItems cfg = []
                   \<and> (Host_Status h \<noteq> HeadlessHostStatus_RUNNING \<longrightarrow> cfg = HeadlessHostSettingsToStartupConfigProto
                        (changed_settings req (HeadlessHostSettingsProtoToEntity (Host_LastStartupConfig h))))
                 else cfg = Host_LastStartupConfig h))
         \<and> (\<forall>x. x \<noteq> Uhs_HostId req \<longrightarrow> host_of (lv_db c') x = host_of (lv_db c) x)"
proof (cases "HeadlessHostGet con c (user_of cx) (Uhs_HostId req)")
  case (Inl e)
  then show ?thesis using run h by (auto simp: Svc_UpdateHeadlessHostSettings_def change_host_def)
next
  case (Inr host)
  let ?id = "Uhs_HostId req"
  obtain c1 where c1: "change_host call con c cx req = (if hasUpdateReq req then store_host_settings call con c1 host req else (Inr (), c1))"
    "no_faults (lv_db c1)" "ct_world c1 = ct_world c" "db_now (lv_db c1) = db_now (lv_db c)"
    and rows: "\<And>x. host_of (lv_db c1) x = (if x = ?id then Some (renamed_host req h) else host_of (lv_db c) x)"
    using change_host_nf[OF nf h Inr] by blast
  have find: "HostRepository_Find con (ct_world c) (lv_db c) ?id False = Inr host" "requireHostRead (lv_db c) (user_of cx) ?id = Inr ()"
    using Inr by (auto simp: HeadlessHostGet_def ctrl_simps)
  have ent: "HH_Status host = Host_Status h"
    "Host_Status h \<noteq> HeadlessHostStatus_RUNNING \<longrightarrow> HH_HostSettings host = HeadlessHostSettingsProtoToEntity (Host_LastStartupConfig h)"
    using Find_Inr[OF find(1)] h by (auto dest: dbToEntity_settings)
  have may: "\<exists>u. user_of cx = Some u \<and> (allowed (lv_db c) u (Host_GroupID h) PermKey_HostRead \<or> allowed (lv_db c) u (Host_GroupID h) PermKey_HostWrite)"
    using requireHostRead_Inr[OF find(2) h] .
  have put: "\<exists>c2. map_errS convertErr (onDb c0 (HostRepository_UpdateHostSettings (lv_db c0) ?id st)) = (Inr (), c2) \<and> db_now (lv_db c2) = db_now (lv_db c)
      \<and> (\<forall>x. host_of (lv_db c2) x = (if x = ?id then Some ((renamed_host req h)\<lparr>Host_LastStartupConfig := HeadlessHostSettingsToStartupConfigProto st\<rparr>)
           else host_of (lv_db c) x))" if "lv_db c0 = lv_db c1" for c0 :: "'a ctl" and st
  proof -
    let ?d = "update_host ?id (\<lambda>h. h\<lparr>Host_LastStartupConfig := HeadlessHostSettingsToStartupConfigProto st\<rparr>) (lv_db c1)"
    have "map_errS convertErr (onDb c0 (HostRepository_UpdateHostSettings (lv_db c0) ?id st)) = (Inr (), c0\<lparr>lv_db := ?d\<rparr>)"
      using c1(2) by (simp add: HostRepository_UpdateHostSettings_def q_UpdateHostLastStartupConfig_def map_errS_def onDb_def that)
    moreover have "db_now ?d = db_now (lv_db c)" using c1(4) by (simp add: update_host_def)
    moreover have "host_of ?d x = (if x = ?id then Some ((renamed_host req h)\<lparr>Host_LastStartupConfig := HeadlessHostSettingsToStartupConfigProto st\<rparr>)
           else host_of (lv_db c) x)" for x
      by (simp add: host_of_update rows)
    ultimately show ?thesis by (intro exI[of _ "c0\<lparr>lv_db := ?d\<rparr>"]) simp
  qed
  have spawnless: "Sc_AutoSpawnItems (HeadlessHostSettingsToStartupConfigProto st) = []" for st
    by (simp add: HeadlessHostSettingsToStartupConfigProto_def)
  show ?thesis
  proof (cases "hasUpdateReq req")
    case False
    then have "r = Inr ()" "c' = c1" "bus' = Publish bus (Some (HostUpdated (db_now (lv_db c)) ?id [] None))"
      using run c1(1,4) by (auto simp: Svc_UpdateHeadlessHostSettings_def publishHostUpdated_def)
    moreover have "renamed_host req h = (renamed_host req h)\<lparr>Host_LastStartupConfig := Host_LastStartupConfig h\<rparr>" by (simp add: renamed_host_def)
    ultimately show ?thesis using may rows False by (auto intro!: exI[of _ "Host_LastStartupConfig h"])
  next
    case True
    have store: "change_host call con c cx req = store_host_settings call con c1 host req" using c1(1) True by simp
    consider (failed) e c2 where "change_host call con c cx req = (Inl e, c2)" "lv_db c2 = lv_db c1"
      | (stored) c0 st where "change_host call con c cx req = map_errS convertErr (onDb c0 (HostRepository_UpdateHostSettings (lv_db c0) ?id st))"
          "lv_db c0 = lv_db c1" "Host_Status h \<noteq> HeadlessHostStatus_RUNNING \<longrightarrow> st = changed_settings req (HH_HostSettings host)"
      using store_host_settings_cases[of call con c1 host req] unfolding store ent(1) by blast
    then show ?thesis
    proof cases
      case failed
      then show ?thesis using run rows by (auto simp: Svc_UpdateHeadlessHostSettings_def)
    next
      case stored
      obtain c2 where c2: "change_host call con c cx req = (Inr (), c2)" "db_now (lv_db c2) = db_now (lv_db c)"
        and all: "\<And>x. host_of (lv_db c2) x = (if x = ?id then Some ((renamed_host req h)\<lparr>Host_LastStartupConfig := HeadlessHostSettingsToStartupConfigProto st\<rparr>)
           else host_of (lv_db c) x)"
        using put[OF stored(2), of st] stored(1) by auto
      have "r = Inr ()" "c' = c2" "bus' = Publish bus (Some (HostUpdated (db_now (lv_db c)) ?id [] None))"
        using run c2 by (auto simp: Svc_UpdateHeadlessHostSettings_def publishHostUpdated_def)
      then show ?thesis using may all True spawnless stored(3) ent(2)
        by (auto intro!: exI[of _ "HeadlessHostSettingsToStartupConfigProto st"])
    qed
  qed
qed

section \<open>Downloads\<close>

lemma copy_stream_Inr: "copy_stream env chunks e acc = Inr content \<Longrightarrow> e = None \<and> content = acc @ concat chunks"
  by (induction env chunks e acc rule: copy_stream.induct) (auto simp: ctrl_simps)

lemma sanitizeFilename_safe: "\<forall>c \<in> set (sanitizeFilename name). \<not> unsafeFilenameChar c" and sanitizeFilename_nonempty: "sanitizeFilename name \<noteq> []"
proof -
  have "\<not> unsafeFilenameChar CHR ''_''" "\<forall>c \<in> set ''world''. \<not> unsafeFilenameChar c" by code_simp+
  then show "\<forall>c \<in> set (sanitizeFilename name). \<not> unsafeFilenameChar c" by (auto simp: sanitizeFilename_def Let_def)
qed (simp add: sanitizeFilename_def Let_def)

lemma extension_safe: "\<forall>c \<in> set (''.'' @ worldBinaryFormatExtension f). \<not> unsafeFilenameChar c"
proof -
  have "\<forall>c \<in> set (''.7zbson'' @ ''.brson'' @ ''.resonitepackage'' @ ''.bin''). \<not> unsafeFilenameChar c" by code_simp
  then show ?thesis by (cases f) auto
qed

text \<open>
  A download is complete or refused. When a download is prepared, what was uploaded under the answered URL is
  the whole stream of the container in order, the stream ended properly, and the suggested file name has no
  character that a path or a shell gives a meaning; when it is refused before the upload, nothing was uploaded.
\<close>

theorem world_download_exact:
  assumes "Svc_PrepareSessionWorldDownload env con c store sid format = (Inr (url, name), store')"
  shows "\<exists>s client chunks size. SessionRepository_Get (lv_db c) sid = Inr s
     \<and> HostRepository_GetRpcClient con (ct_world c) (lv_db c) (Session_HostID s) = Inr client
     \<and> blob_DownloadSessionWorld env client sid format = Inr (chunks, None) \<and> url = ''/blobs/'' @ blob_NewString env
     \<and> blob_Upload env store (blob_NewString env) (concat chunks) size name ''application/octet-stream'' = (Inr (), store')
     \<and> (\<forall>c \<in> set name. \<not> unsafeFilenameChar c)"
proof -
  obtain s client chunks e content size where p: "SessionRepository_Get (lv_db c) sid = Inr s"
    "HostRepository_GetRpcClient con (ct_world c) (lv_db c) (Session_HostID s) = Inr client"
    "blob_DownloadSessionWorld env client sid format = Inr (chunks, e)" "copy_stream env chunks e [] = Inr content"
    and u: "blob_Upload env store (blob_NewString env) content size name ''application/octet-stream'' = (Inr (), store')"
    and n: "name = sanitizeFilename (download_name s sid) @ ''.'' @ worldBinaryFormatExtension format" "url = ''/blobs/'' @ blob_NewString env"
    using assms by (auto simp: Svc_PrepareSessionWorldDownload_def PrepareSessionWorldDownload_def ctrl_simps Let_def
        split: if_splits)
  have "\<forall>c \<in> set name. \<not> unsafeFilenameChar c" using sanitizeFilename_safe extension_safe[of format] unfolding n(1) by fastforce
  then show ?thesis using p u n(2) copy_stream_Inr[OF p(4)] by auto
qed

section \<open>Instances\<close>

definition alice :: AuthClaims where
  "alice = \<lparr>Auth_UserID = ''alice'', Auth_ResoniteID = [], Auth_IconUrl = [], Auth_Audience = [], Auth_ExpiresAt = None, Auth_IssuedAt = None\<rparr>"

theorem lists_scoped_witness:
  "\<exists>ss pr. Svc_SearchSessions sample_ctl (Some alice) None None = Inr (ss, pr) \<and> map Session_ID ss = [''s3'', ''s2'', ''s1'']
     \<and> listing_ok (lv_db sample_ctl) (Some alice) [] PermKey_SessionRead (map Session_GroupID ss) (Prs_PageIndex pr) (Prs_PageSize pr)"
proof -
  have "map_sum id (\<lambda>(ss, pr). map Session_ID ss) (Svc_SearchSessions sample_ctl (Some alice) None None) = Inr [''s3'', ''s2'', ''s1'']"
    by code_simp
  then obtain ss pr where r: "Svc_SearchSessions sample_ctl (Some alice) None None = Inr (ss, pr)" "map Session_ID ss = [''s3'', ''s2'', ''s1'']"
    by (cases "Svc_SearchSessions sample_ctl (Some alice) None None") auto
  then show ?thesis using lists_scoped[of set_runtime sample_ctl "Some alice" None "[]" "[]" pr None ss "[]"] by (simp add: getter_def)
qed

definition world_codec :: job_codec where
  "world_codec = plain_codec\<lparr>cd_UnmarshalStartWorld := (\<lambda>_. Inr (sample_world\<lparr>Swr_GroupId := Some ''team''\<rparr>))\<rparr>"

definition world_request :: "string \<Rightarrow> AnyRequest" where
  "world_request header = (plain_request (Controller ''StartWorld'') header)\<lparr>req_HostId := ''h1''\<rparr>"

theorem start_world_queued_witness:
  "\<exists>claims j d'. Auth_UserID claims = ''alice''
     \<and> Svc_StartWorld world_codec plain_pg sample_uuid session_db (Some claims) sample_world = (Inr (formatUUID sample_uuid), d')
     \<and> job_of d' (formatUUID sample_uuid) = Some j \<and> Job_CreatedBy j = Some ''alice''
     \<and> snd (Dispatch set_runtime (plain_env\<lparr>je_codec := world_codec\<rparr>) sample_ctl None j)
         = snd (StartSession set_runtime (je_session plain_env) sample_ctl None ''h1'' ''team'' (Some ''alice'') None None)"
proof -
  obtain tok claims where t: "authenticates sample_auth tok claims (NewNumericDate (0 + defaultTokenTTL))" "Auth_UserID claims = ''alice''"
    using GenerateToken_authenticates[OF working_sample_auth, of 0 alice defaultTokenTTL] by (auto simp: alice_def)
  let ?req = "world_request (''Bearer '' @ tok)" and ?env = "plain_env\<lparr>je_codec := world_codec\<rparr>"
  have "(0 :: int) < NewNumericDate (0 + defaultTokenTTL)" by code_simp
  then have v: "validateAuthHeader sample_auth 0 (req_Authorization ?req) = Inr claims"
    using t(1) unfolding authenticates_def world_request_def plain_request_def by (auto dest: spec[of _ 0])
  have rule: "map_of declared_rules (Controller ''StartWorld'') = Some CheckStartWorld" by code_simp
  have g: "HostRepository_GetGroupID session_db ''h1'' = Inr ''team''" by code_simp
  have "list_all (\<lambda>k. HasPermission session_db ''alice'' ''team'' k = Inr True) [PermKey_HostUse, PermKey_AccountUse, PermKey_SessionWrite]" by code_simp
  then have chk: "checkStartWorld session_db (Some claims) ?req = Inr ()"
    by (simp add: checkStartWorld_def world_request_def plain_request_def request_type_def g t(2) GetGroupId_def json_field_def requirePerm_def demand_def)
  have req: "req_Procedure ?req = Controller ''StartWorld''" "req_HostId ?req = Swr_HostId sample_world" "req_GroupId ?req = Swr_GroupId sample_world"
    by (simp_all add: world_request_def plain_request_def sample_world_def)
  have adm: "admit sample_auth 0 session_db ?req = Inr (Some claims)"
    unfolding admit_Inr rpcPermissionRules_eq using rule chk v req(1) by simp
  have free: "\<not> tbl_exists (job_row (formatUUID sample_uuid)) (db_jobs session_db)" by code_simp
  obtain d' where run: "Svc_StartWorld world_codec plain_pg sample_uuid session_db (Some claims) sample_world = (Inr (formatUUID sample_uuid), d')"
    using free no_faults_session_db
    by (simp add: Svc_StartWorld_def sample_world_def g t(2) EnqueueStartSession_def marshalPayload_def world_codec_def plain_codec_def enqueue_def
        AsyncJobRepository_Create_def q_CreateAsyncJob_def plain_pg_def map_errS_def Let_def)
  have env: "je_codec ?env = world_codec" "je_pg ?env = plain_pg" "je_session ?env = je_session plain_env" by (simp_all add: plain_env_def)
  have carry: "carries (je_codec ?env) (je_pg ?env) (StartWorldReq (sample_world\<lparr>Swr_GroupId := Some ''team''\<rparr>))"
    unfolding env by (simp add: carries_def world_codec_def plain_codec_def plain_pg_def)
  have g': "HostRepository_GetGroupID session_db (Swr_HostId sample_world) = Inr ''team''" using g by (simp add: sample_world_def)
  show ?thesis
    using start_world_queued[where env = ?env and con = set_runtime and c = sample_ctl and caller = None, unfolded env, OF adm req run g' carry[unfolded env]] t(2) run
    by (auto simp: sample_world_def)
qed

definition spawn_request :: UpdateHeadlessHostSettingsRequest where
  "spawn_request = \<lparr>Uhs_HostId = ''h1'', Uhs_Name = Some ''fresh name'', Uhs_AutoUpdatePolicy = None, Uhs_TickRate = None,
     Uhs_MaxConcurrentAssetTransfers = None, Uhs_UsernameOverride = None, Uhs_UpdateAutoSpawnItems = True,
     Uhs_AutoSpawnItems = [''item''], Uhs_UniverseId = None\<rparr>"

definition exited_ctl :: "string set ctl" where
  "exited_ctl = sample_ctl\<lparr>lv_db := exited_db\<rparr>"

theorem host_settings_effect_witness:
  "\<exists>h c' bus'. Svc_UpdateHeadlessHostSettings (\<lambda>w conn _. ((Inl ErrCanceled, conn), w)) set_runtime exited_ctl NewBus (Some alice) spawn_request
       = (Inr (), c', bus')
     \<and> host_of (lv_db c') ''h1'' = Some h \<and> Host_Name h = ''fresh name'' \<and> Sc_AutoSpawnItems (Host_LastStartupConfig h) = []"
proof -
  let ?call = "\<lambda>(w :: string set) conn _. ((Inl ErrCanceled, conn), w)"
  obtain r c' bus' where run: "Svc_UpdateHeadlessHostSettings ?call set_runtime exited_ctl NewBus (Some alice) spawn_request = (r, c', bus')"
    by (metis prod.collapse)
  have "fst (Svc_UpdateHeadlessHostSettings ?call set_runtime exited_ctl NewBus (Some alice) spawn_request) = Inr ()" by code_simp
  then have r: "r = Inr ()" using run by simp
  have h: "host_of (lv_db exited_ctl) (Uhs_HostId spawn_request) = Some ((plain_host ''h1'')\<lparr>Host_Status := HeadlessHostStatus_EXITED\<rparr>)"
    by (simp add: exited_ctl_def exited_db_def host_of_def plain_host_def spawn_request_def)
  have nf: "no_faults (lv_db exited_ctl)" by (simp add: exited_ctl_def exited_db_def)
  have has: "hasUpdateReq spawn_request" "Uhs_HostId spawn_request = ''h1''" by code_simp+
  show ?thesis using host_settings_effect[OF nf h run] run r has
    by (auto simp: renamed_host_def or_else_def spawn_request_def)
qed

end
