(* ===== verification/OpService.thy ===== *)
theory OpService
  imports ControllerService
begin

text \<open>
  The handlers of scheduled operations (\<open>adapter/rpc/scheduled_session_operation_service.go\<close>): the wire messages of
  operations and triggers, their conversion to actions and triggers and back, and the three procedures. The
  codec of \<open>protojson\<close> is an argument, with what it leaves in a message when it fails. The source keeps one
  empty \<open>UpdateSessionParametersRequest\<close> for all answers, which it writes to: an answer therefore holds either a
  message of its own or a pointer to that one, and is read when the handlers are done. The time of the last
  update, which the entity of the model leaves out, is not shown.
\<close>

section \<open>Messages\<close>

record UpdateSessionExtraSettingsRequest =
  Use_SessionId :: string
  Use_AutoUpgrade :: "bool option"
  Use_Memo :: "string option"

text \<open>The parameter is what the message of an update of parameters holds.\<close>

datatype 'p ScheduledOperation =
    ScheduledOperation_StartSession StartWorldRequest
  | ScheduledOperation_StopSession string
  | ScheduledOperation_UpdateParameters 'p
  | ScheduledOperation_UpdateExtraSettings UpdateSessionExtraSettingsRequest

datatype Comparator =
    COMPARATOR_UNSPECIFIED | COMPARATOR_LESS_OR_EQUAL | COMPARATOR_GREATER_OR_EQUAL | COMPARATOR_Other int32

text \<open>The time of a time trigger may be missing; the inner option is the zero time of Go, as everywhere.\<close>

datatype ScheduledTrigger =
    ScheduledTrigger_Time "time option option"
  | ScheduledTrigger_SessionUserCount string Comparator int32

datatype ScheduledOperationStatusPb =
    SCHEDULED_OPERATION_STATUS_UNSPECIFIED | SCHEDULED_OPERATION_STATUS_PENDING | SCHEDULED_OPERATION_STATUS_RUNNING
  | SCHEDULED_OPERATION_STATUS_SUCCEEDED | SCHEDULED_OPERATION_STATUS_FAILED | SCHEDULED_OPERATION_STATUS_CANCELED
  | SCHEDULED_OPERATION_STATUS_Other int32

record 'p ScheduledSessionOperationPb =
  Pb_Id :: string
  Pb_NextFireAt :: time
  Pb_Status :: ScheduledOperationStatusPb
  Pb_CreatedAt :: time
  Pb_HostId :: "string option"
  Pb_SessionId :: "string option"
  Pb_LastError :: "string option"
  Pb_ExecutedAt :: "time option"
  Pb_CreatedBy :: "string option"
  Pb_Trigger :: ScheduledTrigger
  Pb_Operation :: "'p ScheduledOperation"

record proto_codec =
  pc_MarshalStartup :: "WorldStartupParameters \<Rightarrow> string res"
  pc_MarshalUpdate :: "UpdateSessionParametersRequest \<Rightarrow> string res"
  pc_PartialStartup :: "string \<Rightarrow> WorldStartupParameters"

section \<open>The shared message\<close>

definition zero_update_request :: UpdateSessionParametersRequest where
  "zero_update_request = \<lparr>Usp_SessionId = [], Usp_Name = None, Usp_Description = None, Usp_MaxUsers = None, Usp_AccessLevel = None,
     Usp_AwayKickMinutes = None, Usp_IdleRestartIntervalSeconds = None, Usp_SaveOnExit = None, Usp_AutoSaveIntervalSeconds = None,
     Usp_AutoSleep = None, Usp_HideFromPublicListing = None, Usp_UpdateTags = False, Usp_Tags = []\<rparr>"

text \<open>The variable \<open>headlessUpdateParamsZero\<close> is the state of the package; a pointer is to it or to a message made for the answer.\<close>

datatype params_ptr = Own UpdateSessionParametersRequest | HeadlessUpdateParamsZero

fun deref :: "UpdateSessionParametersRequest \<Rightarrow> params_ptr \<Rightarrow> UpdateSessionParametersRequest" where
  "deref shared (Own m) = m"
| "deref shared HeadlessUpdateParamsZero = shared"

text \<open>What the client gets: the pointers are followed when the answer is written.\<close>

definition sent :: "UpdateSessionParametersRequest \<Rightarrow> params_ptr ScheduledSessionOperationPb \<Rightarrow> UpdateSessionParametersRequest ScheduledSessionOperationPb" where
  "sent shared p = \<lparr>Pb_Id = Pb_Id p, Pb_NextFireAt = Pb_NextFireAt p, Pb_Status = Pb_Status p, Pb_CreatedAt = Pb_CreatedAt p,
     Pb_HostId = Pb_HostId p, Pb_SessionId = Pb_SessionId p, Pb_LastError = Pb_LastError p, Pb_ExecutedAt = Pb_ExecutedAt p,
     Pb_CreatedBy = Pb_CreatedBy p, Pb_Trigger = Pb_Trigger p, Pb_Operation = map_ScheduledOperation (deref shared) (Pb_Operation p)\<rparr>"

section \<open>Conversion\<close>

definition startupParamsFromJSON :: "op_codec \<Rightarrow> proto_codec \<Rightarrow> string \<Rightarrow> WorldStartupParameters" where
  "startupParamsFromJSON oc pc raw =
     (if raw = [] then empty_parameters
      else case oc_StartupParameters oc raw of Inr p \<Rightarrow> p | Inl _ \<Rightarrow> pc_PartialStartup pc raw)"

definition updateParamsFromJSON :: "op_codec \<Rightarrow> string \<Rightarrow> UpdateSessionParametersRequest option" where
  "updateParamsFromJSON oc raw =
     (if raw = [] then None else case oc_UpdateRequest oc raw of Inr r \<Rightarrow> Some r | Inl _ \<Rightarrow> None)"

text \<open>
  The action of an operation, and the host or session that it is listed under. A nil message is marshalled
  as an empty one.
\<close>

fun buildActionFromProto ::
  "proto_codec \<Rightarrow> UpdateSessionParametersRequest option ScheduledOperation option \<Rightarrow> (Action \<times> string option \<times> string option) res" where
  "buildActionFromProto pc (Some (ScheduledOperation_StartSession start)) =
     (if Swr_HostId start = [] then Inl (ErrMsg ''start_session: host_id is required'')
      else
        bindR (pc_MarshalStartup pc (case Swr_Parameters start of None \<Rightarrow> empty_parameters | Some p \<Rightarrow> p)) (\<lambda>paramsJSON.
        Inr (StartAction \<lparr>Ssa_HostID = Swr_HostId start, Ssa_GroupID = getter (Swr_GroupId start), Ssa_UserID = None,
               Ssa_Memo = (if Swr_Memo start = [] then None else Some (Swr_Memo start)), Ssa_StartupParamsJSON = paramsJSON\<rparr>,
             Some (Swr_HostId start), None)))"
| "buildActionFromProto pc (Some (ScheduledOperation_StopSession sid)) =
     (if sid = [] then Inl (ErrMsg ''stop_session: session_id is required'') else Inr (StopAction sid, None, Some sid))"
| "buildActionFromProto pc (Some (ScheduledOperation_UpdateParameters None)) =
     Inl (ErrMsg ''update_parameters: parameters is required'')"
| "buildActionFromProto pc (Some (ScheduledOperation_UpdateParameters (Some inner))) =
     (if Usp_SessionId inner = [] then Inl (ErrMsg ''update_parameters: parameters.session_id is required'')
      else
        bindR (pc_MarshalUpdate pc inner) (\<lambda>paramsJSON.
        Inr (UpdateParametersAction (Usp_SessionId inner) paramsJSON, None, Some (Usp_SessionId inner))))"
| "buildActionFromProto pc (Some (ScheduledOperation_UpdateExtraSettings upd)) =
     (if Use_SessionId upd = [] then Inl (ErrMsg ''update_extra_settings: session_id is required'')
      else Inr (UpdateExtraSettingsAction (Use_SessionId upd) (Use_AutoUpgrade upd) (Use_Memo upd), None, Some (Use_SessionId upd)))"
| "buildActionFromProto pc None = Inl (ErrMsg ''operation oneof is not set'')"

fun buildTriggerFromProto :: "ScheduledTrigger option \<Rightarrow> Trigger res" where
  "buildTriggerFromProto (Some (ScheduledTrigger_Time None)) = Inl (ErrMsg ''time trigger: scheduled_at is required'')"
| "buildTriggerFromProto (Some (ScheduledTrigger_Time (Some ts))) = Inr (TimeTrigger ts)"
| "buildTriggerFromProto (Some (ScheduledTrigger_SessionUserCount sid cmp threshold)) =
     (if sid = [] then Inl (ErrMsg ''session_user_count trigger: session_id is required'')
      else
        bindR (case cmp of
                 COMPARATOR_LESS_OR_EQUAL \<Rightarrow> Inr SessionUserCountComparator_LESS_OR_EQUAL
               | COMPARATOR_GREATER_OR_EQUAL \<Rightarrow> Inr SessionUserCountComparator_GREATER_OR_EQUAL
               | COMPARATOR_UNSPECIFIED \<Rightarrow> Inl (ErrMsg ''session_user_count trigger: comparator is required'')
               | COMPARATOR_Other _ \<Rightarrow> Inl (ErrMsg ''session_user_count trigger: unknown comparator'')) (\<lambda>cmp.
        if threshold < 0 then Inl (ErrMsg ''session_user_count trigger: threshold must be >= 0'')
        else Inr (UserCountTrigger \<lparr>Suc_SessionID = sid, Suc_Comparator = cmp, Suc_Threshold = threshold\<rparr>)))"
| "buildTriggerFromProto None = Inl (ErrMsg ''trigger oneof is not set'')"

fun triggerToProto :: "Trigger \<Rightarrow> ScheduledTrigger" where
  "triggerToProto (TimeTrigger at) = ScheduledTrigger_Time (Some at)"
| "triggerToProto (UserCountTrigger t) =
     ScheduledTrigger_SessionUserCount (Suc_SessionID t)
       (case Suc_Comparator t of
          SessionUserCountComparator_LESS_OR_EQUAL \<Rightarrow> COMPARATOR_LESS_OR_EQUAL
        | SessionUserCountComparator_GREATER_OR_EQUAL \<Rightarrow> COMPARATOR_GREATER_OR_EQUAL
        | SessionUserCountComparator_Other _ \<Rightarrow> COMPARATOR_UNSPECIFIED) (Suc_Threshold t)"

fun actionToProto ::
  "op_codec \<Rightarrow> proto_codec \<Rightarrow> UpdateSessionParametersRequest \<Rightarrow> Action \<Rightarrow> params_ptr ScheduledOperation \<times> UpdateSessionParametersRequest" where
  "actionToProto oc pc shared (StartAction v) =
     (ScheduledOperation_StartSession
        \<lparr>Swr_HostId = Ssa_HostID v,
         Swr_Parameters = (if Ssa_StartupParamsJSON v = [] then None else Some (startupParamsFromJSON oc pc (Ssa_StartupParamsJSON v))),
         Swr_Memo = getter (Ssa_Memo v), Swr_GroupId = None\<rparr>, shared)"
| "actionToProto oc pc shared (StopAction sid) = (ScheduledOperation_StopSession sid, shared)"
| "actionToProto oc pc shared (UpdateParametersAction sid params) =
     (case updateParamsFromJSON oc params of
        Some inner \<Rightarrow> (ScheduledOperation_UpdateParameters (Own (inner\<lparr>Usp_SessionId := sid\<rparr>)), shared)
      | None \<Rightarrow> (ScheduledOperation_UpdateParameters HeadlessUpdateParamsZero, shared\<lparr>Usp_SessionId := sid\<rparr>))"
| "actionToProto oc pc shared (UpdateExtraSettingsAction sid autoUpgrade memo) =
     (ScheduledOperation_UpdateExtraSettings \<lparr>Use_SessionId = sid, Use_AutoUpgrade = autoUpgrade, Use_Memo = memo\<rparr>, shared)"

fun protoStatusToDomain :: "ScheduledOperationStatusPb \<Rightarrow> ScheduledOperationStatus" where
  "protoStatusToDomain SCHEDULED_OPERATION_STATUS_PENDING = ScheduledOperationStatus_PENDING"
| "protoStatusToDomain SCHEDULED_OPERATION_STATUS_RUNNING = ScheduledOperationStatus_RUNNING"
| "protoStatusToDomain SCHEDULED_OPERATION_STATUS_SUCCEEDED = ScheduledOperationStatus_SUCCEEDED"
| "protoStatusToDomain SCHEDULED_OPERATION_STATUS_FAILED = ScheduledOperationStatus_FAILED"
| "protoStatusToDomain SCHEDULED_OPERATION_STATUS_CANCELED = ScheduledOperationStatus_CANCELED"
| "protoStatusToDomain SCHEDULED_OPERATION_STATUS_UNSPECIFIED = ScheduledOperationStatus_PENDING"
| "protoStatusToDomain (SCHEDULED_OPERATION_STATUS_Other _) = ScheduledOperationStatus_PENDING"

fun domainStatusToProto :: "ScheduledOperationStatus \<Rightarrow> ScheduledOperationStatusPb" where
  "domainStatusToProto ScheduledOperationStatus_PENDING = SCHEDULED_OPERATION_STATUS_PENDING"
| "domainStatusToProto ScheduledOperationStatus_RUNNING = SCHEDULED_OPERATION_STATUS_RUNNING"
| "domainStatusToProto ScheduledOperationStatus_SUCCEEDED = SCHEDULED_OPERATION_STATUS_SUCCEEDED"
| "domainStatusToProto ScheduledOperationStatus_FAILED = SCHEDULED_OPERATION_STATUS_FAILED"
| "domainStatusToProto ScheduledOperationStatus_CANCELED = SCHEDULED_OPERATION_STATUS_CANCELED"

definition scheduledOperationToProto ::
  "op_codec \<Rightarrow> proto_codec \<Rightarrow> UpdateSessionParametersRequest \<Rightarrow> ScheduledSessionOperation
     \<Rightarrow> params_ptr ScheduledSessionOperationPb res \<times> UpdateSessionParametersRequest" where
  "scheduledOperationToProto oc pc shared e =
     checkS (DecodeTrigger oc (Op_TriggerType e) (Op_TriggerConfig e)) shared (\<lambda>trig.
     checkS (DecodeAction oc (Op_OperationType e) (Op_OperationPayload e)) shared (\<lambda>act.
     case actionToProto oc pc shared act of (operation, shared) \<Rightarrow>
     (Inr \<lparr>Pb_Id = Op_ID e, Pb_NextFireAt = Op_NextFireAt e, Pb_Status = domainStatusToProto (Op_Status e), Pb_CreatedAt = Op_CreatedAt e,
           Pb_HostId = Op_HostID e, Pb_SessionId = Op_SessionID e, Pb_LastError = Op_LastError e, Pb_ExecutedAt = Op_ExecutedAt e,
           Pb_CreatedBy = Op_CreatedBy e, Pb_Trigger = triggerToProto trig, Pb_Operation = operation\<rparr>, shared)))"

section \<open>Handlers\<close>

definition callerUserIDOrNil :: "ctx \<Rightarrow> string option" where
  "callerUserIDOrNil c =
     (case GetAuthClaimsFromContext c of
        Inl _ \<Rightarrow> None
      | Inr claims \<Rightarrow> if Auth_UserID claims = [] then None else Some (Auth_UserID claims))"

record CreateScheduledSessionOperationRequest =
  Csr_Operation :: "UpdateSessionParametersRequest option ScheduledOperation option option"
  Csr_Trigger :: "ScheduledTrigger option option"

definition Svc_CreateScheduledSessionOperation ::
  "op_codec \<Rightarrow> proto_codec \<Rightarrow> pg_env \<Rightarrow> 8 word list \<Rightarrow> db \<Rightarrow> UpdateSessionParametersRequest \<Rightarrow> ctx \<Rightarrow> CreateScheduledSessionOperationRequest
     \<Rightarrow> UpdateSessionParametersRequest ScheduledSessionOperationPb rpc \<times> db \<times> UpdateSessionParametersRequest" where
  "Svc_CreateScheduledSessionOperation oc pc pg newId d shared c req =
     (case Csr_Operation req of
        None \<Rightarrow> (Inl (CodeInvalidArgument, ErrMsg ''operation is required''), d, shared)
      | Some op \<Rightarrow>
     (case Csr_Trigger req of
        None \<Rightarrow> (Inl (CodeInvalidArgument, ErrMsg ''trigger is required''), d, shared)
      | Some trigger \<Rightarrow>
     (case buildActionFromProto pc op of
        Inl e \<Rightarrow> (Inl (CodeInvalidArgument, e), d, shared)
      | Inr (action, hostID, sessionID) \<Rightarrow>
     (case buildTriggerFromProto trigger of
        Inl e \<Rightarrow> (Inl (CodeInvalidArgument, e), d, shared)
      | Inr trig \<Rightarrow>
     (case ScheduledOp_Create oc pg newId d (user_of c)
             \<lparr>OpParams_Action = Some action, OpParams_Trigger = Some trig, OpParams_HostID = hostID, OpParams_SessionID = sessionID,
              OpParams_CreatedBy = callerUserIDOrNil c\<rparr> of
        (Inl e, d) \<Rightarrow> (Inl (convertErr e), d, shared)
      | (Inr created, d) \<Rightarrow>
     (case scheduledOperationToProto oc pc shared created of
        (Inl e, shared) \<Rightarrow> (Inl (CodeInternal, e), d, shared)
      | (Inr out, shared) \<Rightarrow> (Inr (sent shared out), d, shared)))))))"

fun operationsToProto ::
  "op_codec \<Rightarrow> proto_codec \<Rightarrow> UpdateSessionParametersRequest \<Rightarrow> ScheduledSessionOperation list
     \<Rightarrow> params_ptr ScheduledSessionOperationPb list res \<times> UpdateSessionParametersRequest" where
  "operationsToProto oc pc shared [] = (Inr [], shared)"
| "operationsToProto oc pc shared (e # es) =
     bindS (scheduledOperationToProto oc pc shared e) (\<lambda>p shared.
     bindS (operationsToProto oc pc shared es) (\<lambda>ps shared. (Inr (p # ps), shared)))"

record ListScheduledSessionOperationsRequest =
  Lsr_Page :: "PageRequest option"
  Lsr_SessionId :: "string option"
  Lsr_HostId :: "string option"
  Lsr_Status :: "ScheduledOperationStatusPb option"
  Lsr_GroupId :: "string option"

definition list_filter_of :: "ListScheduledSessionOperationsRequest \<Rightarrow> int32 \<Rightarrow> int32 \<Rightarrow> ScheduledSessionOperationListFilter" where
  "list_filter_of req pageIndex pageSize =
     \<lparr>OpFilter_SessionID = Lsr_SessionId req, OpFilter_HostID = Lsr_HostId req, OpFilter_Status = map_option protoStatusToDomain (Lsr_Status req),
      OpFilter_PageIndex = pageIndex, OpFilter_PageSize = pageSize, OpFilter_GroupID = Lsr_GroupId req\<rparr>"

definition Svc_ListScheduledSessionOperations ::
  "op_codec \<Rightarrow> proto_codec \<Rightarrow> db \<Rightarrow> UpdateSessionParametersRequest \<Rightarrow> ctx \<Rightarrow> ListScheduledSessionOperationsRequest
     \<Rightarrow> (UpdateSessionParametersRequest ScheduledSessionOperationPb list \<times> PageResponse) rpc \<times> UpdateSessionParametersRequest" where
  "Svc_ListScheduledSessionOperations oc pc d shared c req =
     checkS (normalizePageRequest (Lsr_Page req)) shared (\<lambda>(pageIndex, pageSize).
     checkS (map_err convertErr (ScheduledOp_List d (user_of c) (list_filter_of req pageIndex pageSize))) shared (\<lambda>result.
     bindS (map_errS (Pair CodeInternal) (operationsToProto oc pc shared (OpList_Items result))) (\<lambda>protoList shared.
     (Inr (map (sent shared) protoList,
           \<lparr>Prs_TotalCount = OpList_TotalCount result, Prs_PageIndex = pageIndex, Prs_PageSize = pageSize\<rparr>), shared))))"

definition Svc_CancelScheduledSessionOperation :: "pg_env \<Rightarrow> db \<Rightarrow> ctx \<Rightarrow> string \<Rightarrow> unit rpc \<times> db" where
  "Svc_CancelScheduledSessionOperation pg d c i =
     (if i = [] then (Inl (CodeInvalidArgument, ErrMsg ''id is required''), d)
      else map_errS (\<lambda>e. if e = ErrScheduledOperationNotCancelable then (CodeFailedPrecondition, e) else convertErr e)
             (ScheduledOp_Cancel pg d (user_of c) i))"

section \<open>What is scheduled is what is shown\<close>

text \<open>
  What the codec must carry. The database rewrites JSON texts, so a JSON text inside an action need only mean
  the same to \<open>protojson\<close> afterwards.
\<close>

definition same_start :: "op_codec \<Rightarrow> StartSessionAction \<Rightarrow> StartSessionAction \<Rightarrow> bool" where
  "same_start oc a b \<longleftrightarrow> b = a\<lparr>Ssa_StartupParamsJSON := Ssa_StartupParamsJSON b\<rparr> \<and> Ssa_StartupParamsJSON b \<noteq> []
     \<and> oc_StartupParameters oc (Ssa_StartupParamsJSON b) = oc_StartupParameters oc (Ssa_StartupParamsJSON a)"

definition stores_action :: "op_codec \<Rightarrow> pg_env \<Rightarrow> Action \<Rightarrow> bool" where
  "stores_action oc pg a \<longleftrightarrow> (\<exists>x x'. oc_MarshalAction oc a = Inr x \<and> pg_Jsonb pg x = Some x' \<and>
     (case a of
        StartAction s \<Rightarrow> \<exists>s'. oc_UnmarshalStart oc x' = Inr s' \<and> same_start oc s s'
      | StopAction sid \<Rightarrow> oc_UnmarshalStop oc x' = Inr sid
      | UpdateParametersAction sid ps \<Rightarrow> \<exists>ps'. oc_UnmarshalUpdateParameters oc x' = Inr (sid, ps') \<and> ps' \<noteq> []
          \<and> oc_UpdateRequest oc ps' = oc_UpdateRequest oc ps
      | UpdateExtraSettingsAction sid au m \<Rightarrow> oc_UnmarshalUpdateExtra oc x' = Inr (sid, au, m)))"

definition stores_trigger :: "op_codec \<Rightarrow> pg_env \<Rightarrow> Trigger \<Rightarrow> bool" where
  "stores_trigger oc pg t \<longleftrightarrow> (\<exists>y y'. oc_MarshalTrigger oc t = Inr y \<and> pg_Jsonb pg y = Some y' \<and>
     (case t of TimeTrigger at \<Rightarrow> oc_UnmarshalTime oc y' = Inr at | UserCountTrigger u \<Rightarrow> oc_UnmarshalUserCount oc y' = Inr u))"

text \<open>\<open>protojson\<close> reads back the messages of an operation that it wrote.\<close>

fun carries_messages :: "op_codec \<Rightarrow> proto_codec \<Rightarrow> UpdateSessionParametersRequest option ScheduledOperation \<Rightarrow> bool" where
  "carries_messages oc pc (ScheduledOperation_StartSession s) \<longleftrightarrow>
     (let p = (case Swr_Parameters s of None \<Rightarrow> empty_parameters | Some p \<Rightarrow> p) in
      \<forall>j. pc_MarshalStartup pc p = Inr j \<longrightarrow> oc_StartupParameters oc j = Inr p)"
| "carries_messages oc pc (ScheduledOperation_UpdateParameters (Some m)) \<longleftrightarrow>
     (\<forall>j. pc_MarshalUpdate pc m = Inr j \<longrightarrow> oc_UpdateRequest oc j = Inr m)"
| "carries_messages oc pc _ \<longleftrightarrow> True"

text \<open>What a client should see of an operation: all of it, but for the group of a session to start.\<close>

fun shown :: "UpdateSessionParametersRequest option ScheduledOperation \<Rightarrow> UpdateSessionParametersRequest ScheduledOperation" where
  "shown (ScheduledOperation_StartSession s) = ScheduledOperation_StartSession (s\<lparr>Swr_GroupId := None,
     Swr_Parameters := Some (case Swr_Parameters s of None \<Rightarrow> empty_parameters | Some p \<Rightarrow> p)\<rparr>)"
| "shown (ScheduledOperation_StopSession sid) = ScheduledOperation_StopSession sid"
| "shown (ScheduledOperation_UpdateParameters m) = ScheduledOperation_UpdateParameters (case m of None \<Rightarrow> zero_update_request | Some m \<Rightarrow> m)"
| "shown (ScheduledOperation_UpdateExtraSettings u) = ScheduledOperation_UpdateExtraSettings u"

lemma trigger_roundtrip:
  "buildTriggerFromProto (Some trigger) = Inr t \<Longrightarrow> triggerToProto t = trigger"
  by (cases "Some trigger" rule: buildTriggerFromProto.cases) (auto simp: ctrl_simps split: if_splits Comparator.splits)

lemma DecodeTrigger_stored:
  assumes "stores_trigger oc pg t" "oc_MarshalTrigger oc t = Inr y" "pg_Jsonb pg y = Some y'" "DecodeTrigger oc (Trigger_Type t) y' = Inr t'"
  shows "t' = t"
  using assms
  by (cases t) (auto simp: stores_trigger_def decodeTimeTrigger_def decodeSessionUserCountTrigger_def ctrl_simps split: if_splits SessionUserCountComparator.splits)

text \<open>An action that is stored and read back is shown as the operation it was built from.\<close>

lemma action_roundtrip:
  assumes b: "buildActionFromProto pc (Some op) = Inr (a, h, s)" and st: "stores_action oc pg a" and m: "carries_messages oc pc op"
    and x: "oc_MarshalAction oc a = Inr x" "pg_Jsonb pg x = Some x'" and dec: "DecodeAction oc (Action_Type a) x' = Inr a'"
  shows "map_ScheduledOperation (deref (snd (actionToProto oc pc shared a'))) (fst (actionToProto oc pc shared a')) = shown op"
proof (cases op)
  case (ScheduledOperation_StartSession q)
  obtain j where j: "pc_MarshalStartup pc (case Swr_Parameters q of None \<Rightarrow> empty_parameters | Some p \<Rightarrow> p) = Inr j"
    and a: "a = StartAction \<lparr>Ssa_HostID = Swr_HostId q, Ssa_GroupID = getter (Swr_GroupId q), Ssa_UserID = None,
               Ssa_Memo = (if Swr_Memo q = [] then None else Some (Swr_Memo q)), Ssa_StartupParamsJSON = j\<rparr>"
    using b ScheduledOperation_StartSession by (auto simp: ctrl_simps split: if_splits)
  have jp: "oc_StartupParameters oc j = Inr (case Swr_Parameters q of None \<Rightarrow> empty_parameters | Some p \<Rightarrow> p)"
    using m j ScheduledOperation_StartSession by (simp add: Let_def)
  obtain s' where s': "a' = StartAction s'" "same_start oc \<lparr>Ssa_HostID = Swr_HostId q, Ssa_GroupID = getter (Swr_GroupId q), Ssa_UserID = None,
               Ssa_Memo = (if Swr_Memo q = [] then None else Some (Swr_Memo q)), Ssa_StartupParamsJSON = j\<rparr> s'"
    using dec st x unfolding a by (auto simp: stores_action_def decodeStartSession_def ctrl_simps split: if_splits)
  then have f: "Ssa_HostID s' = Swr_HostId q" "Ssa_Memo s' = (if Swr_Memo q = [] then None else Some (Swr_Memo q))"
    "Ssa_StartupParamsJSON s' \<noteq> []" "oc_StartupParameters oc (Ssa_StartupParamsJSON s') = Inr (case Swr_Parameters q of None \<Rightarrow> empty_parameters | Some p \<Rightarrow> p)"
    by (auto simp: same_start_def jp dest: arg_cong[of _ _ Ssa_HostID] arg_cong[of _ _ Ssa_Memo])
  then show ?thesis by (simp add: s'(1) ScheduledOperation_StartSession startupParamsFromJSON_def getter_def)
next
  case (ScheduledOperation_StopSession sid)
  then show ?thesis using b dec st x by (auto simp: stores_action_def decodeStopSession_def ctrl_simps split: if_splits)
next
  case (ScheduledOperation_UpdateParameters mm)
  then show ?thesis using b dec st x m
    by (cases mm) (auto simp: stores_action_def decodeUpdateParameters_def updateParamsFromJSON_def ctrl_simps split: if_splits)
next
  case (ScheduledOperation_UpdateExtraSettings u)
  then show ?thesis using b dec st x by (auto simp: stores_action_def decodeUpdateExtra_def ctrl_simps split: if_splits)
qed

lemma OpRepository_Create_Inr:
  assumes "OpRepository_Create pg newId d q = (Inr p, d')"
  shows "pg_Jsonb pg (OpCreate_OperationPayload q) = Some (Op_OperationPayload p) \<and> pg_Jsonb pg (OpCreate_TriggerConfig q) = Some (Op_TriggerConfig p)
     \<and> Op_OperationType p = OpCreate_OperationType q \<and> Op_TriggerType p = OpCreate_TriggerType q
     \<and> op_of d' (Op_ID p) = Some p \<and> Op_ID p = formatUUID newId \<and> Op_Status p = ScheduledOperationStatus_PENDING
     \<and> Op_CreatedBy p = OpCreate_CreatedBy q \<and> Op_HostID p = OpCreate_HostID q \<and> Op_SessionID p = OpCreate_SessionID q"
  using assms
  by (auto simp: OpRepository_Create_def q_CreateScheduledSessionOperation_def writeQ_def Let_def op_of_def tbl_get_append tbl_exists_get
      split: option.splits if_splits)

lemma ScheduledOp_Create_Inr:
  assumes "ScheduledOp_Create oc pg newId d caller params = (Inr p, d')" "OpParams_Action params = Some a" "OpParams_Trigger params = Some t"
  shows "\<exists>x y u gid. oc_MarshalAction oc a = Inr x \<and> oc_MarshalTrigger oc t = Inr y
     \<and> pg_Jsonb pg x = Some (Op_OperationPayload p) \<and> pg_Jsonb pg y = Some (Op_TriggerConfig p)
     \<and> Op_OperationType p = Action_Type a \<and> Op_TriggerType p = Trigger_Type t
     \<and> op_of d' (Op_ID p) = Some p \<and> Op_ID p = formatUUID newId \<and> Op_Status p = ScheduledOperationStatus_PENDING
     \<and> Op_CreatedBy p = OpParams_CreatedBy params \<and> Op_HostID p = OpParams_HostID params \<and> Op_SessionID p = OpParams_SessionID params
     \<and> caller = Some u \<and> resolveTargetGroupID d (OpParams_HostID params) (OpParams_SessionID params) = Inr gid \<and> allowed d u gid PermKey_SessionWrite"
proof -
  obtain gid y0 x y z nf where s: "resolveTargetGroupID d (OpParams_HostID params) (OpParams_SessionID params) = Inr gid"
    "RequirePermissionForGroup d caller gid PermKey_SessionWrite = Inr y0" "oc_MarshalAction oc a = Inr x" "oc_MarshalTrigger oc t = Inr y"
    and c: "OpRepository_Create pg newId d
               \<lparr>OpCreate_OperationType = Action_Type a, OpCreate_OperationPayload = x,
                OpCreate_TriggerType = Trigger_Type t, OpCreate_TriggerConfig = y,
                OpCreate_NextFireAt = (case nf of None \<Rightarrow> db_now d | Some t \<Rightarrow> t), OpCreate_HostID = OpParams_HostID params,
                OpCreate_SessionID = OpParams_SessionID params, OpCreate_CreatedBy = OpParams_CreatedBy params\<rparr> = (Inr p, d')"
    using assms by (auto simp: ScheduledOp_Create_def ctrl_simps Let_def)
  show ?thesis using OpRepository_Create_Inr[OF c] s RequirePermissionForGroup_Inr[OF s(2)] by auto
qed

text \<open>
  C31: what is scheduled is what is shown. When scheduling answers with an operation, that operation waits in the
  database for the caller, who is allowed \<open>session:write\<close> in the group of its target, and the answer shows
  the trigger and the operation of the request, except that the group of a session to start is not shown.
\<close>

theorem create_answer_roundtrip:
  assumes run: "Svc_CreateScheduledSessionOperation oc pc pg newId d shared c req = (Inr out, d', shared')"
    and req: "Csr_Operation req = Some (Some op)" "Csr_Trigger req = Some (Some trigger)"
    and build: "buildActionFromProto pc (Some op) = Inr (a, hostID, sessionID)" "buildTriggerFromProto (Some trigger) = Inr t"
    and codec: "stores_action oc pg a" "stores_trigger oc pg t" "carries_messages oc pc op"
  shows "Pb_Trigger out = trigger \<and> Pb_Operation out = shown op \<and> Pb_Status out = SCHEDULED_OPERATION_STATUS_PENDING
     \<and> (\<exists>u gid. user_of c = Some u \<and> resolveTargetGroupID d hostID sessionID = Inr gid \<and> allowed d u gid PermKey_SessionWrite
          \<and> Pb_CreatedBy out = Some u)
     \<and> (\<exists>p. op_of d' (Pb_Id out) = Some p \<and> Op_Status p = ScheduledOperationStatus_PENDING \<and> Op_OperationType p = Action_Type a)"
proof -
  let ?params = "\<lparr>OpParams_Action = Some a, OpParams_Trigger = Some t, OpParams_HostID = hostID, OpParams_SessionID = sessionID,
              OpParams_CreatedBy = callerUserIDOrNil c\<rparr>"
  obtain p o' where cr: "ScheduledOp_Create oc pg newId d (user_of c) ?params = (Inr p, d')"
    and pb: "scheduledOperationToProto oc pc shared p = (Inr o', shared')" "out = sent shared' o'"
    using run by (auto simp: Svc_CreateScheduledSessionOperation_def req build split: sum.splits prod.splits)
  obtain x y u gid where s: "oc_MarshalAction oc a = Inr x" "oc_MarshalTrigger oc t = Inr y"
    "pg_Jsonb pg x = Some (Op_OperationPayload p)" "pg_Jsonb pg y = Some (Op_TriggerConfig p)"
    and ty: "Op_OperationType p = Action_Type a" "Op_TriggerType p = Trigger_Type t"
    and row: "op_of d' (Op_ID p) = Some p" "Op_Status p = ScheduledOperationStatus_PENDING" "Op_CreatedBy p = callerUserIDOrNil c"
    and may: "user_of c = Some u" "resolveTargetGroupID d hostID sessionID = Inr gid" "allowed d u gid PermKey_SessionWrite"
    using ScheduledOp_Create_Inr[OF cr, of a t] by auto
  obtain t' a' where dec: "DecodeTrigger oc (Trigger_Type t) (Op_TriggerConfig p) = Inr t'" "DecodeAction oc (Action_Type a) (Op_OperationPayload p) = Inr a'"
    and o': "Pb_Trigger o' = triggerToProto t'" "Pb_Operation o' = fst (actionToProto oc pc shared a')" "shared' = snd (actionToProto oc pc shared a')"
      "Pb_Id o' = Op_ID p" "Pb_Status o' = domainStatusToProto (Op_Status p)" "Pb_CreatedBy o' = Op_CreatedBy p"
    using pb(1) by (auto simp: scheduledOperationToProto_def ty ctrl_simps case_prod_unfold)
  have "u \<noteq> []" using cr may by (auto simp: ScheduledOp_Create_def RequirePermissionForGroup_def CurrentUserID_def ctrl_simps split: if_splits)
  then have "callerUserIDOrNil c = Some u" using may(1) by (cases c) (auto simp: callerUserIDOrNil_def GetAuthClaimsFromContext_def)
  moreover have "Pb_Trigger out = trigger"
    using DecodeTrigger_stored[OF codec(2) s(2,4) dec(1)] trigger_roundtrip[OF build(2)] by (simp add: pb(2) sent_def o'(1))
  moreover have "Pb_Operation out = shown op"
    using action_roundtrip[OF build(1) codec(1,3) s(1,3) dec(2), of shared] by (simp add: pb(2) sent_def o'(2,3))
  ultimately show ?thesis using may row ty(1) by (simp add: pb(2) sent_def o'(4-6))
qed

section \<open>An operation that cannot be shown\<close>

lemma operationsToProto_bad:
  assumes "q \<in> set es" "DecodeAction oc (Op_OperationType q) (Op_OperationPayload q) = Inl e"
  shows "\<exists>e' shared'. operationsToProto oc pc shared es = (Inl e', shared')"
  using assms
proof (induction es arbitrary: shared)
  case (Cons x es)
  show ?case
  proof (cases "q = x")
    case True
    then show ?thesis using Cons.prems by (cases "DecodeTrigger oc (Op_TriggerType x) (Op_TriggerConfig x)") (auto simp: scheduledOperationToProto_def)
  next
    case False
    then have "\<And>shared. \<exists>e' shared'. operationsToProto oc pc shared es = (Inl e', shared')" using Cons by auto
    then show ?thesis by (cases "scheduledOperationToProto oc pc shared x"; cases "fst (scheduledOperationToProto oc pc shared x)") (auto, metis bindS_simps(1))
  qed
qed simp

definition empty_update :: "string \<Rightarrow> ScheduledTrigger \<Rightarrow> CreateScheduledSessionOperationRequest" where
  "empty_update sid trigger = \<lparr>Csr_Operation = Some (Some (ScheduledOperation_UpdateExtraSettings
     \<lparr>Use_SessionId = sid, Use_AutoUpgrade = None, Use_Memo = None\<rparr>)), Csr_Trigger = Some (Some trigger)\<rparr>"

text \<open>
  C32: one empty update spoils the lists. A caller who may write to a session and schedules an update of its extra
  settings that changes nothing is told of an internal error, yet the operation is stored and waits; and as
  long as its row exists, whatever its status, every list whose page reaches it fails, for every caller.
\<close>

theorem empty_update_spoils_lists:
  assumes nf: "no_faults d" and target: "SessionRepository_Get d sid = Inr s" "sid \<noteq> []"
    and caller: "user_of c = Some u" "u \<noteq> []" "allowed d u (Session_GroupID s) PermKey_SessionWrite"
    and fresh: "op_of d (formatUUID newId) = None"
    and trig: "buildTriggerFromProto (Some trigger) = Inr t" "valid_trigger t"
    and codec: "stores_action oc pg (UpdateExtraSettingsAction sid None None)" "stores_trigger oc pg t"
  shows "\<exists>d' p e. Svc_CreateScheduledSessionOperation oc pc pg newId d shared c (empty_update sid trigger) = (Inl (CodeInternal, e), d', shared)
     \<and> op_of d' (formatUUID newId) = Some p \<and> Op_Status p = ScheduledOperationStatus_PENDING
     \<and> (\<forall>d2 q c2 lreq i n r shared2. normalizePageRequest (Lsr_Page lreq) = Inr (i, n)
          \<and> ScheduledOp_List d2 (user_of c2) (list_filter_of lreq i n) = Inr r \<and> q \<in> set (OpList_Items r)
          \<and> Op_OperationType q = Op_OperationType p \<and> Op_OperationPayload q = Op_OperationPayload p
          \<longrightarrow> (\<exists>e2. fst (Svc_ListScheduledSessionOperations oc pc d2 shared2 c2 lreq) = Inl (CodeInternal, e2)))"
proof -
  let ?a = "UpdateExtraSettingsAction sid None None"
  let ?params = "\<lparr>OpParams_Action = Some ?a, OpParams_Trigger = Some t, OpParams_HostID = None, OpParams_SessionID = Some sid,
              OpParams_CreatedBy = callerUserIDOrNil c\<rparr>"
  obtain x x' where x: "oc_MarshalAction oc ?a = Inr x" "pg_Jsonb pg x = Some x'" "oc_UnmarshalUpdateExtra oc x' = Inr (sid, None, None)"
    using codec(1) by (auto simp: stores_action_def)
  obtain y y' where y: "oc_MarshalTrigger oc t = Inr y" "pg_Jsonb pg y = Some y'" "DecodeTrigger oc (Trigger_Type t) y' = Inr t"
    using codec(2) trig(2) by (cases t) (auto simp: stores_trigger_def decodeTimeTrigger_def decodeSessionUserCountTrigger_def split: SessionUserCountComparator.splits)
  have "\<exists>z nfire. Trigger_Evaluate (db_now d) None t = Inr (z, nfire)"
    by (cases t) (auto simp: TimeTrigger_Evaluate_def SessionUserCountTrigger_Evaluate_def split: option.splits)
  then obtain z nfire where ev: "Trigger_Evaluate (db_now d) None t = Inr (z, nfire)" by blast
  have perm: "RequirePermissionForGroup d (Some u) (Session_GroupID s) PermKey_SessionWrite = Inr ()"
    using caller nf by (simp add: RequirePermissionForGroup_def CurrentUserID_def HasPermission_total require_def)
  have free: "\<not> tbl_exists (op_row (formatUUID newId)) (db_ops d)" using fresh by (simp add: op_of_def tbl_exists_get)
  obtain p d' where cr: "ScheduledOp_Create oc pg newId d (user_of c) ?params = (Inr p, d')"
    using nf free by (simp add: ScheduledOp_Create_def resolveTargetGroupID_def blank_ptr_def target getter_def caller(1) perm x y ev Let_def
        OpRepository_Create_def q_CreateScheduledSessionOperation_def map_errS_def)
  note eff = ScheduledOp_Create_Inr[OF cr, of ?a t, simplified]
  have row: "Op_OperationPayload p = x'" "Op_TriggerConfig p = y'" "Op_OperationType p = ScheduledOperationType_UPDATE_EXTRA_SETTINGS"
    "Op_TriggerType p = Trigger_Type t" "op_of d' (formatUUID newId) = Some p" "Op_Status p = ScheduledOperationStatus_PENDING"
    using eff x y by auto
  have bad: "DecodeAction oc (Op_OperationType p) (Op_OperationPayload p) = Inl (ErrMsg ''update extra settings action: at least one field is required'')"
    using x(3) target(2) by (simp add: row decodeUpdateExtra_def)
  have ans: "Svc_CreateScheduledSessionOperation oc pc pg newId d shared c (empty_update sid trigger)
      = (Inl (CodeInternal, ErrMsg ''update extra settings action: at least one field is required''), d', shared)"
    using bad target(2) cr by (simp add: Svc_CreateScheduledSessionOperation_def empty_update_def trig scheduledOperationToProto_def row(2,4) y)
  have spoils: "\<exists>e2. fst (Svc_ListScheduledSessionOperations oc pc d2 shared2 c2 lreq) = Inl (CodeInternal, e2)"
    if l: "normalizePageRequest (Lsr_Page lreq) = Inr (i, n)" "ScheduledOp_List d2 (user_of c2) (list_filter_of lreq i n) = Inr r"
      "q \<in> set (OpList_Items r)" "Op_OperationType q = Op_OperationType p" "Op_OperationPayload q = Op_OperationPayload p"
    for d2 q c2 lreq i n r shared2
  proof -
    obtain e' sh where "operationsToProto oc pc shared2 (OpList_Items r) = (Inl e', sh)"
      using operationsToProto_bad[of q "OpList_Items r" oc] bad l(3-5) by metis
    then show ?thesis using l(1,2) by (simp add: Svc_ListScheduledSessionOperations_def map_errS_def)
  qed
  show ?thesis using ans row(5,6) spoils by blast
qed

section \<open>The shared message is shared\<close>

definition unreadable :: "op_codec \<Rightarrow> ScheduledSessionOperation \<Rightarrow> bool" where
  "unreadable oc p = (case DecodeAction oc (Op_OperationType p) (Op_OperationPayload p) of
     Inr (UpdateParametersAction _ params) \<Rightarrow> updateParamsFromJSON oc params = None | _ \<Rightarrow> False)"

lemma toProto_points:
  assumes "scheduledOperationToProto oc pc shared e = (Inr p, shared')"
  shows "Pb_Id p = Op_ID e \<and> (unreadable oc e \<longrightarrow> Pb_Operation p = ScheduledOperation_UpdateParameters HeadlessUpdateParamsZero)"
proof -
  obtain a where "DecodeAction oc (Op_OperationType e) (Op_OperationPayload e) = Inr a" "Pb_Operation p = fst (actionToProto oc pc shared a)" "Pb_Id p = Op_ID e"
    using assms by (auto simp: scheduledOperationToProto_def ctrl_simps case_prod_unfold)
  then show ?thesis by (cases a) (auto simp: unreadable_def)
qed

lemma operationsToProto_points:
  "operationsToProto oc pc shared es = (Inr ps, shared') \<Longrightarrow> list_all2 (\<lambda>e p. Pb_Id p = Op_ID e
     \<and> (unreadable oc e \<longrightarrow> Pb_Operation p = ScheduledOperation_UpdateParameters HeadlessUpdateParamsZero)) es ps"
proof (induction es arbitrary: shared ps)
  case (Cons e es)
  then show ?case by (auto simp: ctrl_simps dest: toProto_points)
qed simp

text \<open>
  All updates whose parameters cannot be read back are answered with the one shared message, so in a list they
  show the same session, whichever sessions they are for: the one of the last of them.
\<close>

theorem unreadable_updates_alias:
  assumes "Svc_ListScheduledSessionOperations oc pc d shared c req = (Inr (outs, pr), shared')"
  shows "\<exists>i n r. ScheduledOp_List d (user_of c) (list_filter_of req i n) = Inr r
     \<and> list_all2 (\<lambda>e p. Pb_Id p = Op_ID e \<and> (unreadable oc e \<longrightarrow> Pb_Operation p = ScheduledOperation_UpdateParameters shared')) (OpList_Items r) outs"
proof -
  obtain i n r ps where r: "ScheduledOp_List d (user_of c) (list_filter_of req i n) = Inr r"
    and p: "operationsToProto oc pc shared (OpList_Items r) = (Inr ps, shared')" and outs: "outs = map (sent shared') ps"
    using assms unfolding Svc_ListScheduledSessionOperations_def by (auto simp: ctrl_simps)
  have "list_all2 (\<lambda>e p. Pb_Id p = Op_ID e \<and> (unreadable oc e \<longrightarrow> Pb_Operation p = ScheduledOperation_UpdateParameters shared')) (OpList_Items r) outs"
    unfolding outs list_all2_map2 by (rule list_all2_mono[OF operationsToProto_points[OF p]]) (auto simp: sent_def)
  then show ?thesis using r by blast
qed

section \<open>Instances\<close>

definition start_request :: StartWorldRequest where
  "start_request = sample_world\<lparr>Swr_GroupId := Some ''team''\<rparr>"

definition start_action :: StartSessionAction where
  "start_action = \<lparr>Ssa_HostID = ''h1'', Ssa_GroupID = ''team'', Ssa_UserID = None, Ssa_Memo = None, Ssa_StartupParamsJSON = ''{}''\<rparr>"

definition start_op_codec :: op_codec where
  "start_op_codec = plain_op_codec\<lparr>oc_UnmarshalStart := (\<lambda>_. Inr start_action), oc_UnmarshalUpdateExtra := (\<lambda>_. Inr (''s1'', None, None)),
     oc_StartupParameters := (\<lambda>_. Inr empty_parameters)\<rparr>"

definition plain_proto :: proto_codec where
  "plain_proto = \<lparr>pc_MarshalStartup = (\<lambda>_. Inr ''{}''), pc_MarshalUpdate = (\<lambda>_. Inl ErrDB), pc_PartialStartup = (\<lambda>_. empty_parameters)\<rparr>"

definition at_40 :: ScheduledTrigger where
  "at_40 = ScheduledTrigger_Time (Some (Some 40))"

definition schedule_start :: CreateScheduledSessionOperationRequest where
  "schedule_start = \<lparr>Csr_Operation = Some (Some (ScheduledOperation_StartSession start_request)), Csr_Trigger = Some (Some at_40)\<rparr>"

lemma stores_at_40: "stores_trigger start_op_codec plain_pg (TimeTrigger (Some 40))"
  by (simp add: stores_trigger_def start_op_codec_def plain_op_codec_def plain_pg_def)

theorem create_answer_roundtrip_witness:
  "\<exists>out d' shared'. Svc_CreateScheduledSessionOperation start_op_codec plain_proto plain_pg sample_uuid (op_db []) zero_update_request (Some alice)
       schedule_start = (Inr out, d', shared')
     \<and> Pb_Trigger out = at_40 \<and> Pb_Operation out = ScheduledOperation_StartSession
          (start_request\<lparr>Swr_GroupId := None, Swr_Parameters := Some empty_parameters\<rparr>)"
proof -
  let ?run = "Svc_CreateScheduledSessionOperation start_op_codec plain_proto plain_pg sample_uuid (op_db []) zero_update_request (Some alice) schedule_start"
  have "\<not> isl (fst ?run)" by code_simp
  then obtain out where "fst ?run = Inr out" by (cases "fst ?run") auto
  then obtain d' shared' where run: "?run = (Inr out, d', shared')" by (metis prod.collapse)
  have req: "Csr_Operation schedule_start = Some (Some (ScheduledOperation_StartSession start_request))" "Csr_Trigger schedule_start = Some (Some at_40)"
    by (simp_all add: schedule_start_def)
  have build: "buildActionFromProto plain_proto (Some (ScheduledOperation_StartSession start_request)) = Inr (StartAction start_action, Some ''h1'', None)"
    "buildTriggerFromProto (Some at_40) = Inr (TimeTrigger (Some 40))"
    by (simp_all add: plain_proto_def start_request_def sample_world_def getter_def start_action_def at_40_def)
  have st: "stores_action start_op_codec plain_pg (StartAction start_action)"
    by (simp add: stores_action_def start_op_codec_def plain_op_codec_def plain_pg_def same_start_def start_action_def)
  have msg: "carries_messages start_op_codec plain_proto (ScheduledOperation_StartSession start_request)"
    by (simp add: start_op_codec_def plain_proto_def start_request_def sample_world_def)
  show ?thesis using create_answer_roundtrip[OF run req build st stores_at_40 msg] run
    by (auto simp: start_request_def sample_world_def)
qed

theorem empty_update_spoils_lists_witness:
  "\<exists>d' p e. Svc_CreateScheduledSessionOperation start_op_codec plain_proto plain_pg sample_uuid (op_db []) zero_update_request (Some alice)
       (empty_update ''s1'' at_40) = (Inl (CodeInternal, e), d', zero_update_request)
     \<and> op_of d' (formatUUID sample_uuid) = Some p \<and> Op_Status p = ScheduledOperationStatus_PENDING"
proof -
  have "map_sum id Session_GroupID (SessionRepository_Get (op_db []) ''s1'') = Inr ''team''" by code_simp
  then obtain s where s: "SessionRepository_Get (op_db []) ''s1'' = Inr s" "Session_GroupID s = ''team''"
    by (cases "SessionRepository_Get (op_db []) ''s1''") auto
  have "HasPermission (op_db []) ''alice'' ''team'' PermKey_SessionWrite = Inr True" by code_simp
  then have al: "allowed (op_db []) ''alice'' (Session_GroupID s) PermKey_SessionWrite" unfolding s(2) using HasPermission_answer by blast
  have u: "user_of (Some alice) = Some ''alice''" by (simp add: alice_def)
  have fresh: "op_of (op_db []) (formatUUID sample_uuid) = None" by (simp add: op_of_def op_db_def)
  have t: "buildTriggerFromProto (Some at_40) = Inr (TimeTrigger (Some 40))" "valid_trigger (TimeTrigger (Some 40))" by (simp_all add: at_40_def)
  have st: "stores_action start_op_codec plain_pg (UpdateExtraSettingsAction ''s1'' None None)"
    by (simp add: stores_action_def start_op_codec_def plain_op_codec_def plain_pg_def)
  show ?thesis
    using empty_update_spoils_lists[OF no_faults_op_db s(1) _ u _ al fresh t st stores_at_40, of plain_proto zero_update_request] by auto
qed

end
