(* ===== verification/RbacService.thy ===== *)
theory RbacService
  imports UserService
begin

text \<open>
  The group and role services (\<open>adapter/rpc/group_service.go\<close>, \<open>adapter/rpc/role_service.go\<close>): what their handlers add to
  the usecases, which is the caller, the reading of optional fields and the codes of errors. Groups, members
  and roles are answered as entities; their times, which the entities of the model leave out, are not shown.
\<close>

section \<open>Groups\<close>

definition forbidden_as :: "Code \<Rightarrow> err \<Rightarrow> Code \<times> err" where
  "forbidden_as code e = (if e = ErrGroupOperationForbidden then (code, e) else convertErr e)"

definition Svc_CreateGroup :: "string \<Rightarrow> db \<Rightarrow> ctx \<Rightarrow> string \<Rightarrow> Group rpc \<times> db" where
  "Svc_CreateGroup fresh d c name =
     checkS (extractClaims c) d (\<lambda>claims.
     map_errS convertErr (CreateGroup fresh d (map_option Auth_UserID c) name (Auth_UserID claims)))"

definition Svc_GetGroup :: "db \<Rightarrow> string \<Rightarrow> Group rpc" where
  "Svc_GetGroup d gid = map_err convertErr (GetGroup d gid)"

definition Svc_ListGroups :: "db \<Rightarrow> ctx \<Rightarrow> Group list rpc" where
  "Svc_ListGroups d c =
     bindR (extractClaims c) (\<lambda>claims. map_err convertErr (ListGroupsForUser d (Auth_UserID claims)))"

definition Svc_UpdateGroup :: "db \<Rightarrow> ctx \<Rightarrow> string \<Rightarrow> string option \<Rightarrow> Group rpc \<times> db" where
  "Svc_UpdateGroup d c gid name =
     (case name of
        None \<Rightarrow> (map_err convertErr (GetGroup d gid), d)
      | Some name \<Rightarrow> map_errS (forbidden_as CodeFailedPrecondition) (UpdateGroupName d (map_option Auth_UserID c) gid name))"

definition Svc_DeleteGroup :: "db \<Rightarrow> ctx \<Rightarrow> string \<Rightarrow> unit rpc \<times> db" where
  "Svc_DeleteGroup d c gid = map_errS (forbidden_as CodeFailedPrecondition) (DeleteGroup d (map_option Auth_UserID c) gid)"

definition Svc_ListGroupMembers :: "db \<Rightarrow> string \<Rightarrow> GroupMember list rpc" where
  "Svc_ListGroupMembers d gid = map_err convertErr (ListGroupMembers d gid)"

definition Svc_AddGroupMember :: "db \<Rightarrow> ctx \<Rightarrow> string \<Rightarrow> string \<Rightarrow> string \<Rightarrow> GroupMember rpc \<times> db" where
  "Svc_AddGroupMember d c gid userID roleID =
     checkS (extractClaims c) d (\<lambda>claims.
     map_errS (forbidden_as CodeFailedPrecondition)
       (AddGroupMember d (map_option Auth_UserID c) gid userID roleID (Some (Auth_UserID claims))))"

definition Svc_RemoveGroupMember :: "db \<Rightarrow> ctx \<Rightarrow> string \<Rightarrow> string \<Rightarrow> unit rpc \<times> db" where
  "Svc_RemoveGroupMember d c gid userID =
     map_errS (forbidden_as CodeFailedPrecondition) (RemoveGroupMember d (map_option Auth_UserID c) gid userID)"

definition Svc_UpdateGroupMemberRole :: "db \<Rightarrow> ctx \<Rightarrow> string \<Rightarrow> string \<Rightarrow> string \<Rightarrow> GroupMember rpc \<times> db" where
  "Svc_UpdateGroupMemberRole d c gid userID roleID =
     map_errS (forbidden_as CodePermissionDenied) (UpdateGroupMemberRole d (map_option Auth_UserID c) gid userID roleID)"

datatype GroupTypePb = GROUP_TYPE_UNSPECIFIED | GROUP_TYPE_PERSONAL | GROUP_TYPE_NORMAL | GROUP_TYPE_SYSTEM

fun groupTypeToProto :: "GroupType \<Rightarrow> GroupTypePb" where
  "groupTypeToProto GroupType_Personal = GROUP_TYPE_PERSONAL"
| "groupTypeToProto GroupType_Normal = GROUP_TYPE_NORMAL"
| "groupTypeToProto GroupType_System = GROUP_TYPE_SYSTEM"
| "groupTypeToProto _ = GROUP_TYPE_UNSPECIFIED"

section \<open>Roles\<close>

datatype RoleScopePb = ROLE_SCOPE_UNSPECIFIED | ROLE_SCOPE_NORMAL | ROLE_SCOPE_SYSTEM | ROLE_SCOPE_Other int

fun entityRoleScopeToProto :: "RoleScope \<Rightarrow> RoleScopePb" where
  "entityRoleScopeToProto RoleScope_Normal = ROLE_SCOPE_NORMAL"
| "entityRoleScopeToProto RoleScope_System = ROLE_SCOPE_SYSTEM"
| "entityRoleScopeToProto (RoleScope_Other _) = ROLE_SCOPE_UNSPECIFIED"

fun protoRoleScopeToEntity :: "RoleScopePb \<Rightarrow> RoleScope" where
  "protoRoleScopeToEntity ROLE_SCOPE_NORMAL = RoleScope_Normal"
| "protoRoleScopeToEntity ROLE_SCOPE_SYSTEM = RoleScope_System"
| "protoRoleScopeToEntity _ = RoleScope_Other []"

definition Svc_ListRoles :: "db \<Rightarrow> string option \<Rightarrow> Role list rpc" where
  "Svc_ListRoles d groupId = map_err convertErr (ListRoles d (if blank_ptr groupId then None else groupId))"

definition Svc_CreateRole ::
  "(string list \<Rightarrow> string list) \<Rightarrow> string \<Rightarrow> db \<Rightarrow> ctx \<Rightarrow> string option \<Rightarrow> string \<Rightarrow> RoleScopePb \<Rightarrow> string list \<Rightarrow> Role rpc \<times> db" where
  "Svc_CreateRole ord fresh d c groupId name scope keys =
     map_errS (\<lambda>e. if e = ErrInvalidPermissionKey then (CodeInvalidArgument, e) else convertErr e)
       (CreateRole ord fresh d (map_option Auth_UserID c)
          \<lparr>CreateRole_GroupID = (if blank_ptr groupId then None else groupId), CreateRole_Name = name,
           CreateRole_Scope = protoRoleScopeToEntity scope, CreateRole_PermissionKeys = keys\<rparr>)"

definition Svc_UpdateRole ::
  "(string list \<Rightarrow> string list) \<Rightarrow> db \<Rightarrow> ctx \<Rightarrow> string \<Rightarrow> string option \<Rightarrow> string list option \<Rightarrow> Role rpc \<times> db" where
  "Svc_UpdateRole ord d c roleId name permissionKeys =
     map_errS (\<lambda>e. if e = ErrCannotModifyBuiltinRole then (CodeFailedPrecondition, e)
                   else if e = ErrInvalidPermissionKey then (CodeInvalidArgument, e) else convertErr e)
       (UpdateRole ord d (map_option Auth_UserID c)
          \<lparr>UpdateRole_ID = roleId, UpdateRole_Name = name, UpdateRole_PermissionKeys = permissionKeys,
           UpdateRole_OverwritePermKeys = (permissionKeys \<noteq> None)\<rparr>)"

definition Svc_DeleteRole :: "db \<Rightarrow> ctx \<Rightarrow> string \<Rightarrow> unit rpc \<times> db" where
  "Svc_DeleteRole d c roleId =
     map_errS (\<lambda>e. if e = ErrCannotModifyBuiltinRole then (CodeFailedPrecondition, e) else convertErr e)
       (DeleteRole d (map_option Auth_UserID c) roleId)"

text \<open>The scope that is not given is the empty one, which selects every key.\<close>

definition Svc_ListPermissions :: "RoleScopePb \<Rightarrow> (string \<times> RoleScopePb) list rpc" where
  "Svc_ListPermissions scope =
     (let scope = protoRoleScopeToEntity scope in
      Inr (map (\<lambda>p. (KeyDef_Key p, entityRoleScopeToProto (KeyDef_Scope p)))
             (filter (\<lambda>p. \<not> (scope \<noteq> RoleScope_Other [] \<and> KeyDef_Scope p \<noteq> scope)) AllPermissionKeys)))"

definition Svc_GetMyPermissions :: "db \<Rightarrow> ctx \<Rightarrow> MyPermissionsSummary rpc" where
  "Svc_GetMyPermissions d c =
     bindR (extractClaims c) (\<lambda>claims. map_err convertErr (GetMyPermissionsSummary d (Auth_UserID claims)))"

section \<open>Properties\<close>

text \<open>Whatever the handlers answer, the permission tables stay well formed.\<close>

lemma group_handlers_keep_inv:
  assumes "rbac_inv d"
  shows "rbac_inv (snd (Svc_CreateGroup fresh d c name))" "rbac_inv (snd (Svc_UpdateGroup d c gid name'))" "rbac_inv (snd (Svc_DeleteGroup d c gid))"
    "rbac_inv (snd (Svc_AddGroupMember d c gid uid rid))" "rbac_inv (snd (Svc_RemoveGroupMember d c gid uid))"
    "rbac_inv (snd (Svc_UpdateGroupMemberRole d c gid uid rid))"
  using assms
  by (auto simp: Svc_CreateGroup_def Svc_UpdateGroup_def Svc_DeleteGroup_def Svc_AddGroupMember_def Svc_RemoveGroupMember_def
      Svc_UpdateGroupMemberRole_def intro!: inv_checkS rbac_CreateGroup_op rbac_UpdateGroupName_op rbac_DeleteGroup_op rbac_AddGroupMember_op
      rbac_RemoveGroupMember_op rbac_UpdateGroupMemberRole_op split: option.split)

lemma checkGroupReadable_Inr:
  assumes "checkGroupReadable d u g k = Inr ()"
  shows "holds d u SystemGroupID PermKey_SystemGroupList \<or> allowed d u g PermKey_GroupEdit \<or> is_member d u g"
  using assms
  by (auto simp: checkGroupReadable_def ctrl_simps list_ex_iff GroupRepository_ListByUser_def q_ListGroupsByUser_def readQ_def
      dest!: HasSystemPermission_answer HasPermission_answer split: if_splits option.splits)

lemma attached_groups:
  "RoleRepository_attachPermissionsToRoles d rows = Inr rs \<Longrightarrow> map Role_GroupID rs = map Role_GroupID rows"
  by (auto simp: RoleRepository_attachPermissionsToRoles_def ctrl_simps split: if_splits)

lemma ListRoles_groups:
  assumes "ListRoles d gid = Inr rs" "r \<in> set rs"
  shows "Role_GroupID r = None \<or> (\<not> blank_ptr gid \<and> Role_GroupID r = gid \<and> (\<exists>g. GroupRepository_Get d (the gid) = Inr g))"
proof -
  obtain rows where rows: "RoleRepository_attachPermissionsToRoles d rows = Inr rs"
    and q: "q_ListGlobalRoles d = Inr rows \<or> (\<exists>scope g. \<not> blank_ptr gid \<and> GroupRepository_Get d (the gid) = Inr g \<and> q_ListAssignableRoles d gid scope = Inr rows)"
    using assms(1) by (auto simp: ListRoles_def RoleRepository_ListGlobal_def RoleRepository_ListAssignable_def ctrl_simps blank_ptr_def split: option.splits if_splits)
  have "Role_GroupID r \<in> set (map Role_GroupID rows)" using assms(2) attached_groups[OF rows] by (metis image_eqI set_map)
  then show ?thesis using q
    by (auto simp: q_ListGlobalRoles_def q_ListAssignableRoles_def readQ_def split: option.splits)
qed

text \<open>
  Lists of groups and roles show only what the caller may see. A list of groups holds groups of which the caller is
  a member, unless the caller holds \<open>system:group.list\<close>. A list of roles that the interceptor admits holds
  global roles and roles of the group asked for, and then the caller is a member of that group, may edit it or
  may list all groups. The rule looks at the group id without the blanks around it and the handler at the id as
  given: that no stored id has such blanks is what makes the two agree.
\<close>

theorem rbac_lists_scoped:
  assumes trim: "\<forall>gid g. GroupRepository_Get d gid = Inr g \<longrightarrow> TrimSpace gid = gid" and u: "Auth_UserID claims = u"
  shows "(Svc_ListGroups d (Some claims) = Inr gs \<and> g \<in> set gs \<longrightarrow> is_member d u (Group_ID g) \<or> holds d u SystemGroupID PermKey_SystemGroupList)
     \<and> (checkListRoles d (Some claims) req = Inr () \<and> Svc_ListRoles d (req_GroupId req) = Inr rs \<and> r \<in> set rs
          \<longrightarrow> Role_GroupID r = None \<or> (\<exists>gid. Role_GroupID r = Some gid \<and> req_GroupId req = Some gid
                \<and> (holds d u SystemGroupID PermKey_SystemGroupList \<or> allowed d u gid PermKey_GroupEdit \<or> is_member d u gid)))"
proof (intro conjI impI)
  assume "Svc_ListGroups d (Some claims) = Inr gs \<and> g \<in> set gs"
  then show "is_member d u (Group_ID g) \<or> holds d u SystemGroupID PermKey_SystemGroupList"
    using u by (auto simp: Svc_ListGroups_def ListGroupsForUser_def ctrl_simps GroupRepository_ListByUser_def q_ListGroupsByUser_def readQ_def
        dest!: HasSystemPermission_answer split: if_splits option.splits)
next
  assume l: "checkListRoles d (Some claims) req = Inr () \<and> Svc_ListRoles d (req_GroupId req) = Inr rs \<and> r \<in> set rs"
  then have "Role_GroupID r = None \<or> (\<not> blank_ptr (req_GroupId req) \<and> Role_GroupID r = req_GroupId req \<and> (\<exists>g. GroupRepository_Get d (the (req_GroupId req)) = Inr g))"
    using ListRoles_groups[of d "if blank_ptr (req_GroupId req) then None else req_GroupId req" rs r]
    by (auto simp: Svc_ListRoles_def blank_ptr_def split: if_splits)
  moreover have "holds d u SystemGroupID PermKey_SystemGroupList \<or> allowed d u gid PermKey_GroupEdit \<or> is_member d u gid"
    if "req_GroupId req = Some gid" "gid \<noteq> []" "TrimSpace gid = gid" for gid
    using l that u by (intro checkGroupReadable_Inr[of _ _ _ PermKey_GroupEdit])
      (auto simp: checkListRoles_def Let_def GetGroupId_def json_field_def split: if_splits)
  ultimately show "Role_GroupID r = None \<or> (\<exists>gid. Role_GroupID r = Some gid \<and> req_GroupId req = Some gid
                \<and> (holds d u SystemGroupID PermKey_SystemGroupList \<or> allowed d u gid PermKey_GroupEdit \<or> is_member d u gid))"
    using trim by (cases "req_GroupId req") (auto simp: blank_ptr_def)
qed

text \<open>Scopes survive the way to the client and back.\<close>

lemma scope_roundtrip: "s = RoleScope_Normal \<or> s = RoleScope_System \<Longrightarrow> protoRoleScopeToEntity (entityRoleScopeToProto s) = s"
  by auto

end
