(* ===== verification/Golib.thy ===== *)
theory Golib
  imports HostStore
begin

text \<open>
  Functions of the Go standard library on strings that the Docker connector and the cloud client use
  (\<open>strings\<close>, \<open>strconv\<close>, \<open>encoding/base64\<close>), 64-bit arithmetic, and what is known about them.
\<close>

section \<open>Strings of the standard library\<close>

fun split_on :: "char \<Rightarrow> string \<Rightarrow> string list" where
  "split_on c [] = [[]]"
| "split_on c (x # xs) =
     (if x = c then [] # split_on c xs
      else case split_on c xs of [] \<Rightarrow> [[x]] | t # ts \<Rightarrow> (x # t) # ts)"

fun join_with :: "char \<Rightarrow> string list \<Rightarrow> string" where
  "join_with c [] = []"
| "join_with c [s] = s"
| "join_with c (s # t # ts) = s @ [c] @ join_with c (t # ts)"

fun Contains :: "string \<Rightarrow> string \<Rightarrow> bool" where
  "Contains [] sub = (sub = [])"
| "Contains (x # xs) sub = (HasPrefix (x # xs) sub \<or> Contains xs sub)"

definition TrimPrefix :: "string \<Rightarrow> string \<Rightarrow> string" where
  "TrimPrefix s p = (if HasPrefix s p then drop (length p) s else s)"

definition is_digit :: "char \<Rightarrow> bool" where
  "is_digit c \<longleftrightarrow> 48 \<le> (of_char c :: nat) \<and> (of_char c :: nat) \<le> 57"

definition digits_value :: "string \<Rightarrow> nat" where
  "digits_value s = foldl (\<lambda>n c. 10 * n + (of_char c - 48)) 0 s"

text \<open>\<open>strconv.Atoi\<close> on a 64-bit machine: an optional sign, at least one digit, a value in range.\<close>

definition Atoi :: "string \<Rightarrow> int option" where
  "Atoi s =
     (let neg = (s \<noteq> [] \<and> hd s = CHR ''-'');
          ds = (if s \<noteq> [] \<and> (hd s = CHR ''-'' \<or> hd s = CHR ''+'') then tl s else s);
          v = (if neg then - int (digits_value ds) else int (digits_value ds))
      in if ds \<noteq> [] \<and> list_all is_digit ds \<and> - 9223372036854775808 \<le> v \<and> v \<le> 9223372036854775807 then Some v else None)"

text \<open>\<open>base64.StdEncoding\<close>: three bytes become four characters, the last group is padded.\<close>

definition base64_char :: "nat \<Rightarrow> char" where
  "base64_char n = (if n < 26 then char_of (65 + n) else if n < 52 then char_of (71 + n)
     else if n < 62 then char_of (n - 4) else if n = 62 then CHR ''+'' else CHR ''/'')"

fun base64 :: "string \<Rightarrow> string" where
  "base64 [] = []"
| "base64 [a] = (let n = of_char a * 16 in [base64_char (n div 64), base64_char (n mod 64), CHR ''='', CHR ''=''])"
| "base64 [a, b] = (let n = (of_char a * 256 + of_char b) * 4 in
     [base64_char (n div 4096), base64_char (n div 64 mod 64), base64_char (n mod 64), CHR ''=''])"
| "base64 (a # b # c # s) = (let n = of_char a * 65536 + of_char b * 256 + of_char c in
     [base64_char (n div 262144), base64_char (n div 4096 mod 64), base64_char (n div 64 mod 64), base64_char (n mod 64)] @ base64 s)"

text \<open>\<open>strings.Fields\<close>, with the blanks of \<open>TrimSpace\<close>.\<close>

fun fields_from :: "string \<Rightarrow> string \<Rightarrow> string list" where
  "fields_from word [] = (if word = [] then [] else [word])"
| "fields_from word (c # s) =
     (if is_blank c then (if word = [] then [] else [word]) @ fields_from [] s else fields_from (word @ [c]) s)"

definition Fields :: "string \<Rightarrow> string list" where
  "Fields s = fields_from [] s"

definition wrap64 :: "int \<Rightarrow> int" where
  "wrap64 x = (x + 9223372036854775808) mod 18446744073709551616 - 9223372036854775808"

section \<open>Facts about strings\<close>

lemma split_on_ne [simp]: "split_on c s \<noteq> []"
  by (induction s) (auto split: list.splits)

lemma split_on_plain: "c \<notin> set s \<Longrightarrow> split_on c s = [s]"
  by (induction s) auto

lemma split_on_append: "c \<notin> set a \<Longrightarrow> split_on c (a @ c # b) = a # split_on c b"
  by (induction a) auto

lemma digit_of_char: "n < 10 \<Longrightarrow> is_digit (char_of (48 + n)) \<and> of_char (char_of (48 + n) :: char) = 48 + (n :: nat)"
  by (simp add: is_digit_def of_char_of)

lemma show_nat_digits: "list_all is_digit (show_nat n) \<and> show_nat n \<noteq> [] \<and> digits_value (show_nat n) = n"
proof (induction n rule: show_nat.induct)
  case (1 n)
  show ?case
  proof (cases "n < 10")
    case True
    then show ?thesis using digit_of_char[of n] by (simp add: digits_value_def)
  next
    case False
    then show ?thesis using 1 digit_of_char[of "n mod 10"] by (subst (1 2 3) show_nat.simps) (simp add: digits_value_def)
  qed
qed

declare show_nat.simps [simp del]

lemma digit_not_sign: "is_digit c \<Longrightarrow> c \<noteq> CHR '':'' \<and> c \<noteq> CHR ''-'' \<and> c \<noteq> CHR ''+''"
  by (auto simp: is_digit_def)

lemma show_int_nonneg: "0 \<le> p \<Longrightarrow> show_int p = show_nat (nat p)"
  by (simp add: show_int_def)

lemma Atoi_show_int: "0 \<le> p \<Longrightarrow> p \<le> 65535 \<Longrightarrow> Atoi (show_int p) = Some p"
proof -
  assume p: "0 \<le> p" "p \<le> 65535"
  have "show_nat (nat p) \<noteq> []" "list_all is_digit (show_nat (nat p))" "digits_value (show_nat (nat p)) = nat p"
    using show_nat_digits by blast+
  moreover from this have "hd (show_nat (nat p)) \<noteq> CHR ''-''" "hd (show_nat (nat p)) \<noteq> CHR ''+''"
    using digit_not_sign by (metis list.pred_set list.set_sel(1))+
  ultimately show ?thesis using p by (simp add: Atoi_def show_int_nonneg)
qed

lemma show_int_no_colon: "0 \<le> p \<Longrightarrow> CHR '':'' \<notin> set (show_int p)"
  using show_nat_digits[of "nat p"] digit_not_sign by (auto simp: show_int_nonneg list_all_iff)

lemma show_int_inj: "0 \<le> p \<Longrightarrow> 0 \<le> q \<Longrightarrow> show_int p = show_int q \<longleftrightarrow> p = q"
  by (metis show_int_nonneg show_nat_digits nat_eq_iff2 int_nat_eq)

lemma wrap64_id [simp]: "- 9223372036854775808 \<le> x \<Longrightarrow> x \<le> 9223372036854775807 \<Longrightarrow> wrap64 x = x"
  by (simp add: wrap64_def)

lemma fields_from_nonempty: "t \<in> set (fields_from word s) \<Longrightarrow> t \<noteq> []"
  by (induction word s rule: fields_from.induct) (auto split: if_splits)

lemma fields_from_words: "filter (\<lambda>c. \<not> is_blank c) word = word \<Longrightarrow> concat (fields_from word s) = word @ filter (\<lambda>c. \<not> is_blank c) s"
  by (induction word s rule: fields_from.induct) auto

end
