(* ===== verification/Docker.thy ===== *)
theory Docker
  imports Golib
begin

text \<open>
  \<open>adapter/hostconnector/docker_connector.go\<close>: the connector that runs hosts as Docker containers, and the
  version strings of \<open>lib/validater.go\<close>. The Docker daemon, the image registry, the free TCP ports and the
  dialling of a container are parameters; every call of the daemon is made with a client of its own,
  whose creation may fail. The connector is an instance of the interface \<open>HostConnector\<close> of \<open>HostStore\<close>.
\<close>

section \<open>The daemon and the configuration\<close>

record DockerConfig =
  HeadlessImageName :: string
  FluentdAddress :: string
  GHCRAuthToken :: string
  HeadlessRegistryAuth :: string

record Summary =
  Sum_ID :: string
  Sum_Image :: string
  Sum_State :: string
  Sum_Status :: string

record ContainerCreateOptions =
  Cco_Env :: "string list"
  Cco_Image :: string
  Cco_NetworkMode :: string
  Cco_LogType :: string
  Cco_LogConfig :: "(string \<times> string) list"

text \<open>
  \<open>dk_ContainerList\<close> lists all containers, of one id when it is given; \<open>dk_ImageList\<close> gives the repository tags
  of the images of a reference; \<open>dk_ImagePull\<close> answers with what can be read of its progress and how
  reading ends; \<open>dk_Get\<close> is a GET request with an authorization header to the registry, answered by a
  status and a body that decodes to tags or not.
\<close>

record 'w docker =
  dk_New :: "'w \<Rightarrow> unit res"
  dk_ContainerList :: "'w \<Rightarrow> string option \<Rightarrow> Summary list res"
  dk_ImageList :: "'w \<Rightarrow> string \<Rightarrow> string list list res"
  dk_ImagePull :: "'w \<Rightarrow> string \<Rightarrow> string \<Rightarrow> (string \<times> err option) res \<times> 'w"
  dk_ContainerCreate :: "'w \<Rightarrow> ContainerCreateOptions \<Rightarrow> string res \<times> 'w"
  dk_ContainerStart :: "'w \<Rightarrow> string \<Rightarrow> unit res \<times> 'w"
  dk_ContainerStop :: "'w \<Rightarrow> string \<Rightarrow> int \<Rightarrow> unit res \<times> 'w"
  dk_ContainerKill :: "'w \<Rightarrow> string \<Rightarrow> string \<Rightarrow> unit res \<times> 'w"
  dk_ContainerRemove :: "'w \<Rightarrow> string \<Rightarrow> bool \<Rightarrow> unit res \<times> 'w"
  dk_FreePort :: "'w \<Rightarrow> int res"
  dk_Dial :: "'w \<Rightarrow> string \<Rightarrow> RpcClient res"
  dk_MarshalConfig :: "StartupConfig \<Rightarrow> string res"
  dk_NewRequest :: "string \<Rightarrow> unit res"
  dk_Get :: "'w \<Rightarrow> string \<Rightarrow> string option \<Rightarrow> (int \<times> string list res) res"

section \<open>Tags and connect strings\<close>

definition ValidateResoniteVersionString :: "string \<Rightarrow> bool" where
  "ValidateResoniteVersionString s =
     (case split_on CHR ''.'' s of
        [y, m, d, n] \<Rightarrow> list_all (list_all is_digit) [y, m, d, n] \<and> length y = 4 \<and> HasPrefix y ''20''
          \<and> length m \<in> {1, 2} \<and> length d \<in> {1, 2} \<and> n \<noteq> []
      | _ \<Rightarrow> False)"

record TagInfo =
  Ti_Tag :: string
  Ti_IsVersioned :: bool
  Ti_IsPreRelease :: bool
  Ti_ResoniteVersion :: string
  Ti_AppVersion :: string

definition parseTag :: "string \<Rightarrow> TagInfo" where
  "parseTag tag =
     (let splitted = split_on CHR ''-'' (TrimPrefix tag ''prerelease-'');
          appVersion = (if length splitted = 2 then splitted ! 1 else ''v0.0.0'')
      in if length splitted > 0 \<and> ValidateResoniteVersionString (splitted ! 0)
         then \<lparr>Ti_Tag = tag, Ti_IsVersioned = True, Ti_IsPreRelease = HasPrefix tag ''prerelease-'',
               Ti_ResoniteVersion = splitted ! 0, Ti_AppVersion = appVersion\<rparr>
         else \<lparr>Ti_Tag = tag, Ti_IsVersioned = False, Ti_IsPreRelease = False, Ti_ResoniteVersion = [], Ti_AppVersion = []\<rparr>)"

definition parseConnectString :: "string \<Rightarrow> (string \<times> int) res" where
  "parseConnectString s =
     (case split_on CHR '':'' s of
        [i, p] \<Rightarrow> (case Atoi p of None \<Rightarrow> Inl (ErrMsg (''invalid port format: '' @ p)) | Some port \<Rightarrow> Inr (i, port))
      | _ \<Rightarrow> Inl (ErrMsg (''invalid connect string format: '' @ s)))"

definition containerStatusToEntityStatus :: "string \<Rightarrow> string \<Rightarrow> HeadlessHostStatus" where
  "containerStatusToEntityStatus state status =
     (if state = ''running'' then HeadlessHostStatus_RUNNING
      else if state = ''exited'' then
        (if Contains status ''Exited (0)'' then HeadlessHostStatus_EXITED else HeadlessHostStatus_CRASHED)
      else if state = ''dead'' then HeadlessHostStatus_CRASHED
      else HeadlessHostStatus_UNKNOWN)"
section \<open>The connector\<close>

text \<open>\<open>getContainer\<close> answers with nothing where the code returns \<open>ErrContainerNotFound\<close>.\<close>

definition getContainer :: "'w docker \<Rightarrow> 'w \<Rightarrow> string \<Rightarrow> Summary option res" where
  "getContainer dk w cid =
     bindR (dk_New dk w) (\<lambda>_.
     bindR (dk_ContainerList dk w (Some cid)) (\<lambda>items.
     case items of
       [] \<Rightarrow> Inr None
     | [c] \<Rightarrow> Inr (Some c)
     | _ \<Rightarrow> Inl (ErrMsg ''found several containers'')))"

definition Docker_GetStatus :: "'w docker \<Rightarrow> 'w \<Rightarrow> string \<Rightarrow> HeadlessHostStatus" where
  "Docker_GetStatus dk w connect_string =
     (case bindR (parseConnectString connect_string) (\<lambda>(cid, _). getContainer dk w cid) of
        Inr (Some c) \<Rightarrow> containerStatusToEntityStatus (Sum_State c) (Sum_Status c)
      | _ \<Rightarrow> HeadlessHostStatus_UNKNOWN)"

definition Docker_GetRpcClient :: "'w docker \<Rightarrow> 'w \<Rightarrow> string \<Rightarrow> RpcClient res" where
  "Docker_GetRpcClient dk w connect_string =
     bindR (parseConnectString connect_string) (\<lambda>(cid, port).
     bindR (getContainer dk w cid) (\<lambda>found.
     case found of
       None \<Rightarrow> Inl ErrNotFound
     | Some c \<Rightarrow>
         if Sum_State c \<noteq> ''running'' then Inl (ErrMsg ''specific container is not running'')
         else dk_Dial dk w (''localhost:'' @ show_int port)))"

definition versioned_images :: "string list \<Rightarrow> ContainerImage list" where
  "versioned_images tags = map (\<lambda>info. \<lparr>Image_Tag = Ti_Tag info, Image_ResoniteVersion = Ti_ResoniteVersion info,
       Image_IsPreRelease = Ti_IsPreRelease info, Image_AppVersion = Ti_AppVersion info\<rparr>)
     (filter Ti_IsVersioned (map parseTag tags))"

definition tags_url :: "string \<Rightarrow> string \<Rightarrow> string option \<Rightarrow> string" where
  "tags_url registryName userImagePair lastTag =
     ''https://'' @ registryName @ ''/v2/'' @ userImagePair @ ''/tags/list''
       @ (case lastTag of None \<Rightarrow> [] | Some t \<Rightarrow> ''?last='' @ t)"

text \<open>One request of the loop: the tags of a page.\<close>

definition tags_page :: "'w docker \<Rightarrow> DockerConfig \<Rightarrow> 'w \<Rightarrow> string \<Rightarrow> string \<Rightarrow> string option \<Rightarrow> string list res" where
  "tags_page dk cfg w registryName userImagePair lastTag =
     (let url = tags_url registryName userImagePair lastTag in
      bindR (dk_NewRequest dk url) (\<lambda>_.
      if registryName = ''ghcr.io'' \<and> GHCRAuthToken cfg = [] then Inl (ErrMsg ''GHCR_AUTH_TOKEN is not set'')
      else
        bindR (dk_Get dk w url (if registryName = ''ghcr.io'' then Some (''Bearer '' @ base64 (GHCRAuthToken cfg)) else None)) (\<lambda>(status, body).
        if status \<noteq> 200 then Inl (ErrMsg ''failed to get tags'') else body)))"

text \<open>The loop asks for the page after the last tag seen until a page is empty; \<open>None\<close> means that it never returns.\<close>

partial_function (option) list_tags ::
  "'w docker \<Rightarrow> DockerConfig \<Rightarrow> 'w \<Rightarrow> string \<Rightarrow> string \<Rightarrow> string option \<Rightarrow> ContainerImage list \<Rightarrow> ContainerImage list res option" where
  "list_tags dk cfg w registryName userImagePair lastTag allTags =
     (case tags_page dk cfg w registryName userImagePair lastTag of
        Inl e \<Rightarrow> Some (Inl e)
      | Inr tags \<Rightarrow>
          if tags = [] then Some (Inr allTags)
          else list_tags dk cfg w registryName userImagePair (Some (last tags)) (allTags @ versioned_images tags))"

definition Docker_ListContainerTags ::
  "'w docker \<Rightarrow> DockerConfig \<Rightarrow> 'w \<Rightarrow> string option \<Rightarrow> ContainerImage list res option" where
  "Docker_ListContainerTags dk cfg w lastTag =
     (let parts = split_on CHR ''/'' (HeadlessImageName cfg) in
      if length parts \<noteq> 3 then Some (Inl (ErrMsg (''invalid image name format: '' @ HeadlessImageName cfg)))
      else list_tags dk cfg w (parts ! 0) (join_with CHR ''/'' (tl parts)) lastTag [])"

definition Docker_PullContainerImage :: "'w docker \<Rightarrow> DockerConfig \<Rightarrow> 'w \<Rightarrow> string \<Rightarrow> string res \<times> 'w" where
  "Docker_PullContainerImage dk cfg w tag =
     checkS (dk_New dk w) w (\<lambda>_.
     bindS (dk_ImagePull dk w (HeadlessImageName cfg @ '':'' @ tag) (base64 (HeadlessRegistryAuth cfg))) (\<lambda>(buf, ended) w.
     (case ended of None \<Rightarrow> Inr buf | Some e \<Rightarrow> Inl e, w)))"

definition isAvailableTag :: "'w docker \<Rightarrow> DockerConfig \<Rightarrow> 'w \<Rightarrow> string \<Rightarrow> bool" where
  "isAvailableTag dk cfg w tag =
     (case bindR (dk_New dk w) (\<lambda>_. dk_ImageList dk w (HeadlessImageName cfg)) of
        Inl _ \<Rightarrow> False
      | Inr images \<Rightarrow> list_ex (list_ex (\<lambda>repoTag. HasPrefix repoTag (HeadlessImageName cfg)
            \<and> (case split_on CHR '':'' repoTag of [_, t] \<Rightarrow> t = tag | _ \<Rightarrow> False))) (rev images))"

definition create_options :: "DockerConfig \<Rightarrow> HostStartParams \<Rightarrow> int \<Rightarrow> string option \<Rightarrow> ContainerCreateOptions" where
  "create_options cfg params port startupConfig =
     \<lparr>Cco_Env = [''RpcHostUrl=http://localhost:'' @ show_int port,
                ''HeadlessUserCredential='' @ Account_Credential (Hsp_HeadlessAccount params),
                ''HeadlessUserPassword='' @ Account_Password (Hsp_HeadlessAccount params)]
               @ (case startupConfig of None \<Rightarrow> [] | Some s \<Rightarrow> [''StartupConfig='' @ s]),
      Cco_Image = HeadlessImageName cfg @ '':'' @ Hsp_ContainerImageTag params,
      Cco_NetworkMode = ''host'', Cco_LogType = ''fluentd'',
      Cco_LogConfig = [(''fluentd-address'', if FluentdAddress cfg = [] then ''localhost:24224'' else FluentdAddress cfg),
                       (''tag'', ''headless-'' @ Hsp_ID params @ ''-'' @ show_int (Hsp_InstanceId params))]\<rparr>"

definition connect_string_of :: "string \<Rightarrow> int \<Rightarrow> string" where
  "connect_string_of cid port = cid @ '':'' @ show_int port"

definition Docker_Start :: "'w docker \<Rightarrow> DockerConfig \<Rightarrow> 'w \<Rightarrow> HostStartParams \<Rightarrow> string res \<times> 'w" where
  "Docker_Start dk cfg w params =
     checkS (dk_New dk w) w (\<lambda>_.
     bindS (if isAvailableTag dk cfg w (Hsp_ContainerImageTag params) then (Inr [], w)
            else Docker_PullContainerImage dk cfg w (Hsp_ContainerImageTag params)) (\<lambda>_ w.
     checkS (dk_FreePort dk w) w (\<lambda>port.
     checkS (case Hsp_StartupConfig params of
               None \<Rightarrow> Inr None
             | Some startupConfig \<Rightarrow> bindR (dk_MarshalConfig dk startupConfig) (\<lambda>json. Inr (Some json))) w (\<lambda>startupConfig.
     bindS (dk_ContainerCreate dk w (create_options cfg params port startupConfig)) (\<lambda>cid w.
     bindS (dk_ContainerStart dk w cid) (\<lambda>_ w.
     (Inr (connect_string_of cid port), w)))))))"

definition Docker_Stop :: "'w docker \<Rightarrow> 'w \<Rightarrow> string \<Rightarrow> int \<Rightarrow> unit res \<times> 'w" where
  "Docker_Stop dk w connect_string timeoutSeconds =
     checkS (parseConnectString connect_string) w (\<lambda>(cid, _).
     checkS (dk_New dk w) w (\<lambda>_. dk_ContainerStop dk w cid timeoutSeconds))"

definition Docker_Kill :: "'w docker \<Rightarrow> 'w \<Rightarrow> string \<Rightarrow> unit res \<times> 'w" where
  "Docker_Kill dk w connect_string =
     checkS (parseConnectString connect_string) w (\<lambda>(cid, _).
     checkS (dk_New dk w) w (\<lambda>_. dk_ContainerKill dk w cid ''SIGKILL''))"

definition Docker_Remove :: "'w docker \<Rightarrow> 'w \<Rightarrow> string \<Rightarrow> unit res \<times> 'w" where
  "Docker_Remove dk w connect_string =
     checkS (parseConnectString connect_string) w (\<lambda>(cid, _).
     checkS (getContainer dk w cid) w (\<lambda>found.
     case found of
       None \<Rightarrow> (Inr (), w)
     | Some _ \<Rightarrow> checkS (dk_New dk w) w (\<lambda>_. dk_ContainerRemove dk w cid True)))"

definition ListAllContainerStatuses :: "'w docker \<Rightarrow> DockerConfig \<Rightarrow> 'w \<Rightarrow> (string \<rightharpoonup> HeadlessHostStatus) res" where
  "ListAllContainerStatuses dk cfg w =
     bindR (dk_New dk w) (\<lambda>_.
     if HeadlessImageName cfg = [] then Inl (ErrMsg ''HEADLESS_IMAGE_NAME environment variable is not set'')
     else
       bindR (dk_ContainerList dk w None) (\<lambda>items.
       Inr (foldl (\<lambda>result c.
              if \<not> HasPrefix (Sum_Image c) (HeadlessImageName cfg @ '':'') \<and> Sum_Image c \<noteq> HeadlessImageName cfg then result
              else result(Sum_ID c \<mapsto> containerStatusToEntityStatus (Sum_State c) (Sum_Status c))) Map.empty items)))"

text \<open>
  The connector as an instance of the interface. The interface asks for an answer of \<open>ListContainerTags\<close>;
  \<open>tags\<close> is that answer wherever the loop returns.
\<close>

definition DockerHostConnector ::
  "'w docker \<Rightarrow> DockerConfig \<Rightarrow> ('w \<Rightarrow> string option \<Rightarrow> ContainerImage list res) \<Rightarrow> 'w HostConnector" where
  "DockerHostConnector dk cfg tags =
     \<lparr>con_GetRpcClient = Docker_GetRpcClient dk, con_ListContainerTags = tags, con_Start = Docker_Start dk cfg,
      con_Stop = Docker_Stop dk, con_Kill = Docker_Kill dk, con_Remove = Docker_Remove dk\<rparr>"
section \<open>Connect strings and containers\<close>

text \<open>The connect string of a container names the container and its port again.\<close>

lemma parse_connect_string:
  assumes "CHR '':'' \<notin> set cid" "0 \<le> p" "p \<le> 65535"
  shows "parseConnectString (connect_string_of cid p) = Inr (cid, p)"
  using assms by (simp add: parseConnectString_def connect_string_of_def split_on_append split_on_plain show_int_no_colon Atoi_show_int)
section \<open>The daemon as the connector relies on it\<close>

text \<open>
  The documented behaviour of the daemon, for the containers it has and the options they were created
  with: creating adds a container under a fresh id of hexadecimal digits, removing removes it, starting,
  stopping, killing and pulling keep the containers, and a list by id is the list of the containers
  whose ids begin with it. Ids all have the same length. A free port is a TCP port.
\<close>

definition hex_id :: "string \<Rightarrow> bool" where
  "hex_id cid \<longleftrightarrow> length cid = 64 \<and> set cid \<subseteq> set ''0123456789abcdef''"

type_synonym 'w containers_of = "'w \<Rightarrow> string \<rightharpoonup> ContainerCreateOptions"

definition lawful_daemon :: "'w docker \<Rightarrow> 'w containers_of \<Rightarrow> bool" where
  "lawful_daemon dk cs \<longleftrightarrow>
     (\<forall>w cid. cid \<in> dom (cs w) \<longrightarrow> hex_id cid)
     \<and> (\<forall>w opts. case dk_ContainerCreate dk w opts of
           (Inr cid, w') \<Rightarrow> hex_id cid \<and> cid \<notin> dom (cs w) \<and> cs w' = (cs w)(cid \<mapsto> opts)
         | (Inl _, w') \<Rightarrow> cs w' = cs w)
     \<and> (\<forall>w cid. case dk_ContainerRemove dk w cid True of
           (Inr _, w') \<Rightarrow> cs w' = (cs w)(cid := None)
         | (Inl _, w') \<Rightarrow> cs w' = cs w)
     \<and> (\<forall>w cid. cs (snd (dk_ContainerStart dk w cid)) = cs w)
     \<and> (\<forall>w cid t. cs (snd (dk_ContainerStop dk w cid t)) = cs w)
     \<and> (\<forall>w cid sig. cs (snd (dk_ContainerKill dk w cid sig)) = cs w)
     \<and> (\<forall>w ref auth. cs (snd (dk_ImagePull dk w ref auth)) = cs w)
     \<and> (\<forall>w cid items. dk_ContainerList dk w (Some cid) = Inr items \<longrightarrow>
           distinct (map Sum_ID items) \<and> Sum_ID ` set items = {i \<in> dom (cs w). HasPrefix i cid})
     \<and> (\<forall>w p. dk_FreePort dk w = Inr p \<longrightarrow> 0 < p \<and> p \<le> 65535)"

lemma daemonD:
  assumes "lawful_daemon dk cs"
  shows daemon_ids: "cid \<in> dom (cs w) \<Longrightarrow> hex_id cid"
    and daemon_create: "dk_ContainerCreate dk w opts = (Inr cid, w') \<Longrightarrow> hex_id cid \<and> cid \<notin> dom (cs w) \<and> cs w' = (cs w)(cid \<mapsto> opts)"
    and daemon_create_fail: "dk_ContainerCreate dk w opts = (Inl e, w') \<Longrightarrow> cs w' = cs w"
    and daemon_remove: "dk_ContainerRemove dk w cid True = (Inr u, w') \<Longrightarrow> cs w' = (cs w)(cid := None)"
    and daemon_keeps: "cs (snd (dk_ContainerStart dk w cid)) = cs w" "cs (snd (dk_ContainerStop dk w cid t)) = cs w"
      "cs (snd (dk_ContainerKill dk w cid sig)) = cs w" "cs (snd (dk_ImagePull dk w ref auth)) = cs w"
    and daemon_list: "dk_ContainerList dk w (Some cid) = Inr items \<Longrightarrow>
           distinct (map Sum_ID items) \<and> Sum_ID ` set items = {i \<in> dom (cs w). HasPrefix i cid}"
    and daemon_port: "dk_FreePort dk w = Inr p \<Longrightarrow> 0 < p \<and> p \<le> 65535"
proof -
  note l = assms[unfolded lawful_daemon_def, THEN conjunct2]
  note k = l[THEN conjunct2, THEN conjunct2]
  show "cid \<in> dom (cs w) \<Longrightarrow> hex_id cid" by (rule assms[unfolded lawful_daemon_def, THEN conjunct1, rule_format])
  show "dk_ContainerCreate dk w opts = (Inr cid, w') \<Longrightarrow> hex_id cid \<and> cid \<notin> dom (cs w) \<and> cs w' = (cs w)(cid \<mapsto> opts)"
    using l[THEN conjunct1, THEN spec[of _ w], THEN spec[of _ opts]] by simp
  show "dk_ContainerCreate dk w opts = (Inl e, w') \<Longrightarrow> cs w' = cs w"
    using l[THEN conjunct1, THEN spec[of _ w], THEN spec[of _ opts]] by simp
  show "dk_ContainerRemove dk w cid True = (Inr u, w') \<Longrightarrow> cs w' = (cs w)(cid := None)"
    using l[THEN conjunct2, THEN conjunct1, THEN spec[of _ w], THEN spec[of _ cid]] by simp
  show "cs (snd (dk_ContainerStart dk w cid)) = cs w" "cs (snd (dk_ContainerStop dk w cid t)) = cs w"
    "cs (snd (dk_ContainerKill dk w cid sig)) = cs w" "cs (snd (dk_ImagePull dk w ref auth)) = cs w"
    by (simp_all add: k[THEN conjunct1] k[THEN conjunct2, THEN conjunct1] k[THEN conjunct2, THEN conjunct2, THEN conjunct1]
      k[THEN conjunct2, THEN conjunct2, THEN conjunct2, THEN conjunct1])
  note m = k[THEN conjunct2, THEN conjunct2, THEN conjunct2, THEN conjunct2]
  show "dk_ContainerList dk w (Some cid) = Inr items \<Longrightarrow>
           distinct (map Sum_ID items) \<and> Sum_ID ` set items = {i \<in> dom (cs w). HasPrefix i cid}"
    by (rule m[THEN conjunct1, rule_format])
  show "dk_FreePort dk w = Inr p \<Longrightarrow> 0 < p \<and> p \<le> 65535" by (rule m[THEN conjunct2, rule_format])
qed

lemma hex_no_colon: "hex_id cid \<Longrightarrow> CHR '':'' \<notin> set cid"
  by (auto simp: hex_id_def)

lemma HasPrefix_same_length: "length a = length b \<Longrightarrow> HasPrefix a b \<longleftrightarrow> a = b"
  by (simp add: HasPrefix_def)

lemma getContainer_found:
  assumes "lawful_daemon dk cs" "hex_id cid" "getContainer dk w cid = Inr found"
  shows "found \<noteq> None \<longleftrightarrow> cid \<in> dom (cs w)"
proof -
  obtain items where i: "dk_ContainerList dk w (Some cid) = Inr items"
    "(case items of [] \<Rightarrow> Inr None | [c] \<Rightarrow> Inr (Some c) | _ \<Rightarrow> Inl (ErrMsg ''found several containers'')) = Inr found"
    using assms(3) unfolding getContainer_def bindR_Inr_iff by blast
  have "\<forall>i \<in> dom (cs w). HasPrefix i cid \<longleftrightarrow> i = cid"
    using daemon_ids[OF assms(1)] assms(2) HasPrefix_same_length unfolding hex_id_def by metis
  then have "Sum_ID ` set items = {i \<in> dom (cs w). i = cid}" using daemon_list[OF assms(1) i(1)] by blast
  then have "set items = {} \<longleftrightarrow> cid \<notin> dom (cs w)" by (metis (mono_tags, lifting) empty_Collect_eq image_is_empty)
  then show ?thesis using i(2) by (auto split: list.splits)
qed

text \<open>The connect strings of the containers, with the port each was told to listen on.\<close>

definition rpc_url :: "int \<Rightarrow> string" where
  "rpc_url p = ''RpcHostUrl=http://localhost:'' @ show_int p"

definition connect_strings :: "(string \<rightharpoonup> ContainerCreateOptions) \<Rightarrow> string set" where
  "connect_strings m = {connect_string_of cid p | cid p opts env. hex_id cid \<and> 0 < p \<and> p \<le> 65535
     \<and> m cid = Some opts \<and> Cco_Env opts = rpc_url p # env}"
text \<open>What starting a container leaves behind, on success and on failure.\<close>

lemma pull_keeps: "lawful_daemon dk cs \<Longrightarrow> cs (snd (Docker_PullContainerImage dk cfg w tag)) = cs w"
  by (auto simp: Docker_PullContainerImage_def checkS_def bindS_def case_prod_unfold daemon_keeps split: sum.splits)

definition created :: "'w containers_of \<Rightarrow> 'w docker \<Rightarrow> DockerConfig \<Rightarrow> 'w \<Rightarrow> HostStartParams \<Rightarrow> string \<Rightarrow> int \<Rightarrow> 'w \<Rightarrow> bool" where
  "created cs dk cfg w params cid p w' \<longleftrightarrow> hex_id cid \<and> cid \<notin> dom (cs w) \<and> 0 < p \<and> p \<le> 65535
     \<and> (\<exists>json. (case Hsp_StartupConfig params of None \<Rightarrow> json = None | Some sc \<Rightarrow> \<exists>j. dk_MarshalConfig dk sc = Inr j \<and> json = Some j)
          \<and> cs w' = (cs w)(cid \<mapsto> create_options cfg params p json))"

lemma Docker_Start_cases:
  assumes law: "lawful_daemon dk cs" and run: "Docker_Start dk cfg w params = (r, w')"
  shows "case r of
       Inr s \<Rightarrow> \<exists>cid p. s = connect_string_of cid p \<and> created cs dk cfg w params cid p w'
     | Inl _ \<Rightarrow> cs w' = cs w \<or> (\<exists>cid p. created cs dk cfg w params cid p w')"
proof -
  let ?json = "case Hsp_StartupConfig params of None \<Rightarrow> Inr None
             | Some startupConfig \<Rightarrow> bindR (dk_MarshalConfig dk startupConfig) (\<lambda>json. Inr (Some json))"
  define pull where "pull = (if isAvailableTag dk cfg w (Hsp_ContainerImageTag params) then (Inr [], w)
            else Docker_PullContainerImage dk cfg w (Hsp_ContainerImageTag params))"
  define w1 where "w1 = snd pull"
  have w1: "cs w1 = cs w" by (simp add: w1_def pull_def pull_keeps[OF law])
  have body: "Docker_Start dk cfg w params = checkS (dk_New dk w) w (\<lambda>_. bindS pull (\<lambda>_ w.
     checkS (dk_FreePort dk w) w (\<lambda>port. checkS ?json w (\<lambda>startupConfig.
     bindS (dk_ContainerCreate dk w (create_options cfg params port startupConfig)) (\<lambda>cid w.
     bindS (dk_ContainerStart dk w cid) (\<lambda>_ w. (Inr (connect_string_of cid port), w)))))))"
    by (simp add: Docker_Start_def pull_def)
  show ?thesis
  proof (cases "\<exists>a p json cid w2. fst pull = Inr a \<and> dk_FreePort dk w1 = Inr p \<and> ?json = Inr json
      \<and> dk_ContainerCreate dk w1 (create_options cfg params p json) = (Inr cid, w2)")
    case True
    then obtain a p json cid w2 where t: "pull = (Inr a, w1)" "dk_FreePort dk w1 = Inr p" "?json = Inr json"
      "dk_ContainerCreate dk w1 (create_options cfg params p json) = (Inr cid, w2)"
      unfolding w1_def by (metis prod.collapse)
    have "case Hsp_StartupConfig params of None \<Rightarrow> json = None | Some sc \<Rightarrow> \<exists>j. dk_MarshalConfig dk sc = Inr j \<and> json = Some j"
      using t(3) by (auto simp: ctrl_simps split: option.splits)
    then have cr: "created cs dk cfg w params cid p w2"
      using daemon_create[OF law t(4)] daemon_port[OF law t(2)] w1 by (auto simp: created_def)
    show ?thesis
    proof (cases "dk_New dk w")
      case (Inl e)
      then show ?thesis using run by (auto simp: body)
    next
      case (Inr u)
      have w': "cs (snd (dk_ContainerStart dk w2 cid)) = cs w2" by (rule daemon_keeps(1)[OF law])
      have "(r, w') = bindS (dk_ContainerStart dk w2 cid) (\<lambda>_ w. (Inr (connect_string_of cid p), w))"
        using run by (simp add: body Inr t)
      then have "cs w' = cs w2" "case r of Inr s \<Rightarrow> s = connect_string_of cid p | Inl _ \<Rightarrow> True"
        using w' by (auto simp: bindS_def case_prod_unfold split: sum.splits)
      then show ?thesis using cr by (auto simp: created_def split: sum.splits)
    qed
  next
    case False
    then have "\<exists>e. r = Inl e \<and> cs w' = cs w"
      using run w1 daemon_create_fail[OF law] unfolding body w1_def
      by (auto simp: checkS_def bindS_def case_prod_unfold prod_eq_iff eq_commute[of "Inl x" "fst y" for x y] split: sum.splits if_splits)
    then show ?thesis by auto
  qed
qed
lemma rpc_url_inj: "0 < p \<Longrightarrow> 0 < q \<Longrightarrow> rpc_url p = rpc_url q \<longleftrightarrow> p = q"
  using show_int_inj[of p q] by (auto simp: rpc_url_def)

lemma create_options_env: "\<exists>env. Cco_Env (create_options cfg params p json) = rpc_url p # env"
  by (simp add: create_options_def rpc_url_def)

lemma connect_string_inj:
  "hex_id a \<Longrightarrow> hex_id b \<Longrightarrow> 0 < p \<Longrightarrow> p \<le> 65535 \<Longrightarrow> 0 < q \<Longrightarrow> q \<le> 65535
     \<Longrightarrow> connect_string_of a p = connect_string_of b q \<longleftrightarrow> a = b \<and> p = q"
  using parse_connect_string[of a p] parse_connect_string[of b q] hex_no_colon by (metis Inr_inject Pair_inject less_imp_le)

lemma connect_stringsI:
  "hex_id cid \<Longrightarrow> 0 < p \<Longrightarrow> p \<le> 65535 \<Longrightarrow> m cid = Some opts \<Longrightarrow> Cco_Env opts = rpc_url p # env
     \<Longrightarrow> connect_string_of cid p \<in> connect_strings m"
  unfolding connect_strings_def by blast

lemma connect_stringsE:
  assumes "s \<in> connect_strings m"
  obtains cid p opts env where "s = connect_string_of cid p" "hex_id cid" "0 < p" "p \<le> 65535" "m cid = Some opts" "Cco_Env opts = rpc_url p # env"
  using assms unfolding connect_strings_def by blast

lemma connect_strings_created:
  assumes "created cs dk cfg w params cid p w'"
  shows "connect_strings (cs w') = insert (connect_string_of cid p) (connect_strings (cs w))"
    and "connect_string_of cid p \<notin> connect_strings (cs w)"
proof -
  obtain json where c: "hex_id cid" "cid \<notin> dom (cs w)" "0 < p" "p \<le> 65535" "cs w' = (cs w)(cid \<mapsto> create_options cfg params p json)"
    using assms by (auto simp: created_def)
  obtain env where env: "Cco_Env (create_options cfg params p json) = rpc_url p # env" using create_options_env by blast
  show "connect_string_of cid p \<notin> connect_strings (cs w)"
    using c connect_string_inj by (fastforce simp: connect_strings_def)
  show "connect_strings (cs w') = insert (connect_string_of cid p) (connect_strings (cs w))"
  proof (intro set_eqI iffI)
    fix s assume "s \<in> connect_strings (cs w')"
    then obtain i q opts e where s: "s = connect_string_of i q" "hex_id i" "0 < q" "q \<le> 65535" "cs w' i = Some opts" "Cco_Env opts = rpc_url q # e"
      by (auto simp: connect_strings_def)
    then show "s \<in> insert (connect_string_of cid p) (connect_strings (cs w))"
      using c env rpc_url_inj by (cases "i = cid") (auto simp: connect_strings_def)
  next
    fix s assume "s \<in> insert (connect_string_of cid p) (connect_strings (cs w))"
    then show "s \<in> connect_strings (cs w')"
    proof
      assume "s = connect_string_of cid p"
      then show ?thesis using connect_stringsI[OF c(1,3,4) _ env] c(5) by simp
    next
      assume "s \<in> connect_strings (cs w)"
      then show ?thesis
      proof (rule connect_stringsE)
        fix i q opts e assume s: "s = connect_string_of i q" "hex_id i" "0 < q" "q \<le> 65535" "cs w i = Some opts" "Cco_Env opts = rpc_url q # e"
        then have "cs w' i = Some opts" using c(2,5) by auto
        then show ?thesis using connect_stringsI[of i q "cs w'"] s by blast
      qed
    qed
  qed
qed

lemma connect_strings_removed:
  assumes "connect_string_of cid p \<in> connect_strings m" "hex_id cid" "0 < p" "p \<le> 65535"
  shows "connect_strings (m(cid := None)) = connect_strings m - {connect_string_of cid p}"
proof -
  obtain opts e where o: "m cid = Some opts" "Cco_Env opts = rpc_url p # e"
    using assms connect_string_inj by (fastforce simp: connect_strings_def)
  show ?thesis
  proof (intro set_eqI iffI)
    fix s assume "s \<in> connect_strings (m(cid := None))"
    then show "s \<in> connect_strings m - {connect_string_of cid p}"
      using assms connect_string_inj by (fastforce simp: connect_strings_def split: if_splits)
  next
    fix s assume "s \<in> connect_strings m - {connect_string_of cid p}"
    then obtain i q opts' e' where s: "s = connect_string_of i q" "hex_id i" "0 < q" "q \<le> 65535" "m i = Some opts'" "Cco_Env opts' = rpc_url q # e'"
      "s \<noteq> connect_string_of cid p" by (auto simp: connect_strings_def)
    then have "i \<noteq> cid" using o rpc_url_inj[of p q] assms(3) by auto
    then show "s \<in> connect_strings (m(cid := None))" using s(1-6) by (auto simp: connect_strings_def)
  qed
qed

lemma connect_strings_parse:
  "s \<in> connect_strings m \<Longrightarrow> \<exists>cid p. s = connect_string_of cid p \<and> hex_id cid \<and> 0 < p \<and> p \<le> 65535
     \<and> parseConnectString s = Inr (cid, p) \<and> cid \<in> dom m"
  by (erule connect_stringsE) (metis domI hex_no_colon less_imp_le parse_connect_string)

text \<open>On a lawful daemon the connector is a lawful runtime: the contract the host repository relies on.\<close>

lemma docker_lawful:
  assumes law: "lawful_daemon dk cs"
  shows "lawful_runtime (DockerHostConnector dk cfg tags) (\<lambda>w. connect_strings (cs w))"
  unfolding lawful_runtime_def DockerHostConnector_def HostConnector.simps
proof (intro conjI allI impI)
  fix w p s
  assume "fst (Docker_Start dk cfg w p) = Inr s"
  then have "Docker_Start dk cfg w p = (Inr s, snd (Docker_Start dk cfg w p))" by (metis prod.collapse)
  then obtain cid port where s: "s = connect_string_of cid port" "created cs dk cfg w p cid port (snd (Docker_Start dk cfg w p))"
    using Docker_Start_cases[OF law] by fastforce
  then show "connect_strings (cs (snd (Docker_Start dk cfg w p))) = insert s (connect_strings (cs w))"
    using connect_strings_created(1)[OF s(2)] s(1) by simp
next
  fix w s t
  show "connect_strings (cs (snd (Docker_Stop dk w s t))) = connect_strings (cs w)"
    by (auto simp: Docker_Stop_def checkS_def case_prod_unfold daemon_keeps[OF law] split: sum.splits)
next
  fix w s
  assume a: "s \<in> connect_strings (cs w) \<and> fst (Docker_Remove dk w s) = Inr ()"
  then obtain cid p where s: "s = connect_string_of cid p" "hex_id cid" "0 < p" "p \<le> 65535" "parseConnectString s = Inr (cid, p)" "cid \<in> dom (cs w)"
    using connect_strings_parse by blast
  obtain found where f: "getContainer dk w cid = Inr found" using a s(5) by (cases "getContainer dk w cid") (auto simp: Docker_Remove_def)
  obtain c where c: "found = Some c" using getContainer_found[OF law s(2) f] s(6) by blast
  obtain w' where "dk_ContainerRemove dk w cid True = (Inr (), w')" "snd (Docker_Remove dk w s) = w'"
    using a s(5) f c by (cases "dk_New dk w"; cases "dk_ContainerRemove dk w cid True") (auto simp: Docker_Remove_def)
  then show "connect_strings (cs (snd (Docker_Remove dk w s))) = connect_strings (cs w) - {s}"
    using daemon_remove[OF law] connect_strings_removed a s by metis
qed
section \<open>Properties of the connector\<close>


text \<open>
  C34: A container that cannot be started stays behind. When the daemon creates the container but fails to
  start it, starting the host answers with the error and stores nothing, yet the container remains,
  with the credential and the password of the account in its environment, and no row refers to it.
\<close>

theorem docker_start_leaks:
  assumes law: "lawful_daemon dk cs" and w: "ct_world c = w"
    and ready: "dk_New dk w = Inr ()" "isAvailableTag dk cfg w (Start_ContainerImageTag params)" "dk_FreePort dk w = Inr p"
    and json: "(case Start_StartupConfig params of None \<Rightarrow> json = None | Some sc \<Rightarrow> \<exists>j. dk_MarshalConfig dk sc = Inr j \<and> json = Some j)"
    and hp: "hp = \<lparr>Hsp_ID = newId, Hsp_InstanceId = 1, Hsp_ContainerImageTag = Start_ContainerImageTag params,
       Hsp_HeadlessAccount = Start_HeadlessAccount params, Hsp_StartupConfig = Start_StartupConfig params\<rparr>"
    and create: "dk_ContainerCreate dk w (create_options cfg hp p json) = (Inr cid, w1)"
    and start: "dk_ContainerStart dk w1 cid = (Inl e, w2)"
  shows "\<exists>c'. HostRepository_Start (DockerHostConnector dk cfg tags) newId c HostConnectorType_DOCKER params userId = (Inl e, c')
     \<and> lv_db c' = lv_db c \<and> cid \<notin> dom (cs (ct_world c)) \<and> cs (ct_world c') = (cs (ct_world c))(cid \<mapsto> create_options cfg hp p json)
     \<and> (''HeadlessUserPassword='' @ Account_Password (Start_HeadlessAccount params)) \<in> set (Cco_Env (create_options cfg hp p json))
     \<and> (\<forall>h q. h \<in> set (db_hosts (lv_db c')) \<and> Host_ConnectString h \<in> connect_strings (cs (ct_world c))
          \<longrightarrow> parseConnectString (Host_ConnectString h) \<noteq> Inr (cid, q))"
proof -
  have marshalled: "(case Start_StartupConfig params of None \<Rightarrow> Inr None
      | Some startupConfig \<Rightarrow> bindR (dk_MarshalConfig dk startupConfig) (\<lambda>json. Inr (Some json))) = Inr json"
    using json by (auto split: option.splits)
  have run: "Docker_Start dk cfg w hp = (Inl e, w2)"
    using ready create start marshalled by (simp add: Docker_Start_def hp)
  have "cs w2 = cs w1" using daemon_keeps(1)[OF law, of w1 cid] start by simp
  then have kept: "cid \<notin> dom (cs w)" "cs w2 = (cs w)(cid \<mapsto> create_options cfg hp p json)"
    using daemon_create[OF law create] by auto
  have "HostRepository_Start (DockerHostConnector dk cfg tags) newId c HostConnectorType_DOCKER params userId = (Inl e, c\<lparr>ct_world := w2\<rparr>)"
    using run w by (simp add: HostRepository_Start_def getConnector_def DockerHostConnector_def onWorld_def hp)
  moreover have "parseConnectString s \<noteq> Inr (cid, q)" if "s \<in> connect_strings (cs w)" for s q
    using connect_strings_parse[OF that] kept(1) by auto
  ultimately show ?thesis using kept w
    by (intro exI[of _ "c\<lparr>ct_world := w2\<rparr>"]) (simp add: create_options_def hp)
qed
text \<open>The registry as the distribution specification describes it: pages of the tags after the last one seen.\<close>

definition registry_serves :: "'w docker \<Rightarrow> 'w \<Rightarrow> string \<Rightarrow> string \<Rightarrow> string list \<Rightarrow> bool" where
  "registry_serves dk w registryName userImagePair tags \<longleftrightarrow>
     (\<forall>url. dk_NewRequest dk url = Inr ())
     \<and> (\<forall>auth. \<exists>k > 0. dk_Get dk w (tags_url registryName userImagePair None) auth = Inr (200, Inr (take k tags)))
     \<and> (\<forall>seen t later auth. tags = seen @ t # later \<longrightarrow>
          (\<exists>k > 0. dk_Get dk w (tags_url registryName userImagePair (Some t)) auth = Inr (200, Inr (take k later))))"

lemma versioned_images_append: "versioned_images (a @ b) = versioned_images a @ versioned_images b"
  by (simp add: versioned_images_def)

lemma list_tags_rest:
  assumes reg: "registry_serves dk w registryName userImagePair tags" "registryName = ''ghcr.io'' \<longrightarrow> GHCRAuthToken cfg \<noteq> []"
    and rest: "(cur = None \<and> later = tags) \<or> (\<exists>seen t. cur = Some t \<and> tags = seen @ t # later)"
  shows "list_tags dk cfg w registryName userImagePair cur acc = Some (Inr (acc @ versioned_images later))"
  using rest
proof (induction "length later" arbitrary: cur later acc rule: less_induct)
  case less
  let ?auth = "if registryName = ''ghcr.io'' then Some (''Bearer '' @ base64 (GHCRAuthToken cfg)) else None"
  obtain k where k: "k > 0" "dk_Get dk w (tags_url registryName userImagePair cur) ?auth = Inr (200, Inr (take k later))"
    using less.prems reg(1) unfolding registry_serves_def by metis
  have page: "tags_page dk cfg w registryName userImagePair cur = Inr (take k later)"
    using k reg by (auto simp: tags_page_def registry_serves_def Let_def)
  show ?case
  proof (cases "later = []")
    case True
    then show ?thesis using page by (subst list_tags.simps) (simp add: versioned_images_def)
  next
    case False
    let ?p = "take k later"
    have p: "?p \<noteq> []" "?p = butlast ?p @ [last ?p]" using False k(1) by auto
    have "length (drop k later) < length later" using False k(1) by simp
    moreover have "\<exists>seen t. Some (last ?p) = Some t \<and> tags = seen @ t # drop k later"
    proof -
      obtain pre where "tags = pre @ later" using less.prems by (auto intro: that[of "[]"] that[of "_ @ [_]"])
      then have "tags = (pre @ butlast ?p) @ last ?p # drop k later" using p(2) by (metis append_Cons append_assoc append_take_drop_id self_append_conv2)
      then show ?thesis by blast
    qed
    ultimately have "list_tags dk cfg w registryName userImagePair (Some (last ?p)) (acc @ versioned_images ?p)
        = Some (Inr ((acc @ versioned_images ?p) @ versioned_images (drop k later)))"
      using less.hyps[of "drop k later" "Some (last ?p)" "acc @ versioned_images ?p"] by simp
    then show ?thesis using page p(1) versioned_images_append[of ?p "drop k later"]
      by (subst list_tags.simps) simp
  qed
qed

lemma list_tags_diverges:
  assumes "\<And>cur. \<exists>t ts. tags_page dk cfg w registryName userImagePair cur = Inr (t # ts)"
  shows "list_tags dk cfg w registryName userImagePair cur acc = None"
proof -
  define same where "same = (\<lambda>dk' cfg' w' reg img. dk' = dk \<and> cfg' = cfg \<and> w' = w \<and> reg = registryName \<and> img = userImagePair)"
  have "\<not> same dk cfg w registryName userImagePair"
    if returns: "list_tags dk cfg w registryName userImagePair cur acc = Some r" for r
  proof (rule list_tags.raw_induct[where P = "\<lambda>dk' cfg' w' reg img cur' acc' r'. \<not> same dk' cfg' w' reg img", OF _ returns])
    fix f dk' cfg' w' reg img cur' acc' r'
    assume IH: "\<And>dk' cfg' w' reg img cur' acc' r'. f dk' cfg' w' reg img cur' acc' = Some r' \<Longrightarrow> \<not> same dk' cfg' w' reg img"
      and eq: "(case tags_page dk' cfg' w' reg img cur' of
            Inl e \<Rightarrow> Some (Inl e)
          | Inr tags \<Rightarrow> if tags = [] then Some (Inr acc') else f dk' cfg' w' reg img (Some (last tags)) (acc' @ versioned_images tags)) = Some r'"
    show "\<not> same dk' cfg' w' reg img"
    proof
      assume s: "same dk' cfg' w' reg img"
      then obtain t ts where "tags_page dk' cfg' w' reg img cur' = Inr (t # ts)" using assms[of cur'] by (auto simp: same_def)
      then show False using eq IH s by auto
    qed
  qed
  then have False if "list_tags dk cfg w registryName userImagePair cur acc = Some r" for r
    using that by (auto simp: same_def)
  then show ?thesis by (cases "list_tags dk cfg w registryName userImagePair cur acc") auto
qed
text \<open>
  C35: Listing the tags ends, with all of them. When the registry serves its tags in pages as the distribution
  specification says, whatever the sizes of the pages, the loop returns exactly the versioned tags, or
  those after the tag it was given; but nothing else bounds it: with a registry that ignores the
  parameter \<open>last\<close> and always answers with the same tags it never returns.
\<close>

theorem docker_tags_listed:
  assumes name: "HeadlessImageName cfg = registryName @ ''/'' @ user @ ''/'' @ app"
      "CHR ''/'' \<notin> set registryName" "CHR ''/'' \<notin> set user" "CHR ''/'' \<notin> set app"
    and token: "registryName = ''ghcr.io'' \<longrightarrow> GHCRAuthToken cfg \<noteq> []"
  shows "(registry_serves dk w registryName (user @ ''/'' @ app) tags \<longrightarrow>
        Docker_ListContainerTags dk cfg w None = Some (Inr (versioned_images tags))
        \<and> (\<forall>seen t later. tags = seen @ t # later \<longrightarrow> Docker_ListContainerTags dk cfg w (Some t) = Some (Inr (versioned_images later))))
     \<and> ((\<forall>url. dk_NewRequest dk url = Inr ()) \<and> (\<forall>url auth. dk_Get dk w url auth = Inr (200, Inr (t # ts)))
          \<longrightarrow> Docker_ListContainerTags dk cfg w lastTag = None)"
proof -
  have split: "split_on CHR ''/'' (HeadlessImageName cfg) = [registryName, user, app]"
    using name by (simp add: split_on_append split_on_plain)
  have loop: "Docker_ListContainerTags dk cfg w cur = list_tags dk cfg w registryName (user @ ''/'' @ app) cur []" for cur
    by (simp add: Docker_ListContainerTags_def split)
  have "list_tags dk cfg w registryName (user @ ''/'' @ app) lastTag [] = None"
    if "\<forall>url. dk_NewRequest dk url = Inr ()" "\<forall>url auth. dk_Get dk w url auth = Inr (200, Inr (t # ts))"
    by (rule list_tags_diverges) (use that token in \<open>auto simp: tags_page_def Let_def\<close>)
  moreover have "list_tags dk cfg w registryName (user @ ''/'' @ app) None [] = Some (Inr (versioned_images tags))
      \<and> (\<forall>seen t later. tags = seen @ t # later
          \<longrightarrow> list_tags dk cfg w registryName (user @ ''/'' @ app) (Some t) [] = Some (Inr (versioned_images later)))"
    if reg: "registry_serves dk w registryName (user @ ''/'' @ app) tags"
    using list_tags_rest[OF reg token, of None tags "[]"] list_tags_rest[OF reg token, of "Some t" later "[]" for t later] by auto
  ultimately show ?thesis unfolding loop by blast
qed

section \<open>Instances\<close>

text \<open>
  A daemon whose state is the list of its containers and that knows one id; its registry pages by two.
  \<open>starts\<close> says whether it manages to start containers.
\<close>

type_synonym small_world = "(string \<times> ContainerCreateOptions) list"

definition small_containers :: "small_world \<Rightarrow> string \<rightharpoonup> ContainerCreateOptions" where
  "small_containers w = map_of (filter (hex_id \<circ> fst) w)"

definition small_id :: string where
  "small_id = replicate 64 CHR ''a''"

definition small_tags :: "string list" where
  "small_tags = [''2025.4.3.1346'', ''2025.4.3.1346-v1.2.0'', ''latest'', ''prerelease-2025.5.1.7-v1.2.0'']"

definition small_docker :: "bool \<Rightarrow> small_world docker" where
  "small_docker starts = \<lparr>
     dk_New = (\<lambda>_. Inr ()),
     dk_ContainerList = (\<lambda>w f. Inr (map (\<lambda>i. \<lparr>Sum_ID = i, Sum_Image = ''r/u/i:1'', Sum_State = ''running'', Sum_Status = ''Up''\<rparr>)
        (remdups (filter (\<lambda>i. case f of None \<Rightarrow> True | Some cid \<Rightarrow> HasPrefix i cid) (filter hex_id (map fst w)))))),
     dk_ImageList = (\<lambda>_ _. Inr [[''r/u/i:1'']]),
     dk_ImagePull = (\<lambda>w _ _. (Inr ([], None), w)),
     dk_ContainerCreate = (\<lambda>w opts. if small_id \<in> set (map fst w) then (Inl (ErrMsg ''full''), w) else (Inr small_id, w @ [(small_id, opts)])),
     dk_ContainerStart = (\<lambda>w _. (if starts then Inr () else Inl (ErrMsg ''cannot start''), w)),
     dk_ContainerStop = (\<lambda>w _ _. (Inr (), w)), dk_ContainerKill = (\<lambda>w _ _. (Inr (), w)),
     dk_ContainerRemove = (\<lambda>w cid _. (Inr (), filter (\<lambda>c. fst c \<noteq> cid) w)),
     dk_FreePort = (\<lambda>_. Inr 5014), dk_Dial = (\<lambda>_ _. Inr silent_client), dk_MarshalConfig = (\<lambda>_. Inr ''{}''),
     dk_NewRequest = (\<lambda>_. Inr ()),
     dk_Get = (\<lambda>_ url _. Inr (200, Inr (case List.find (\<lambda>t. url = tags_url ''r'' ''u/i'' (Some t)) small_tags of
        None \<Rightarrow> take 2 small_tags | Some t \<Rightarrow> take 2 (tl (dropWhile (\<lambda>x. x \<noteq> t) small_tags)))))\<rparr>"

definition small_config :: DockerConfig where
  "small_config = \<lparr>HeadlessImageName = ''r/u/i'', FluentdAddress = [], GHCRAuthToken = [], HeadlessRegistryAuth = []\<rparr>"

lemma hex_small_id: "hex_id small_id"
  by (simp add: hex_id_def small_id_def)

lemma small_docker_lawful: "lawful_daemon (small_docker starts) small_containers"
proof -
  have dom: "dom (small_containers w) = set (filter hex_id (map fst w))" for w
    by (force simp: small_containers_def dom_map_of_conv_image_fst)
  have snoc: "small_containers (w @ [(small_id, opts)]) = (small_containers w)(small_id \<mapsto> opts)" if "small_id \<notin> set (map fst w)" for w opts
    using that hex_small_id by (induction w) (auto simp: small_containers_def fun_eq_iff)
  have del: "small_containers (filter (\<lambda>c. fst c \<noteq> cid) w) = (small_containers w)(cid := None)" for w cid
    by (induction w) (auto simp: small_containers_def fun_eq_iff)
  have "set (filter hex_id (map fst w)) \<subseteq> Collect hex_id" for w by auto
  then show ?thesis
    unfolding lawful_daemon_def small_docker_def docker.simps dom using hex_small_id
    by (auto simp: snoc del dom image_image comp_def)
qed
definition small_params :: HostStartParams where
  "small_params = \<lparr>Hsp_ID = ''h9'', Hsp_InstanceId = 1, Hsp_ContainerImageTag = ''1'', Hsp_HeadlessAccount = sample_account, Hsp_StartupConfig = None\<rparr>"


theorem docker_start_leaks_witness:
  "\<exists>c'. HostRepository_Start (DockerHostConnector (small_docker False) small_config (\<lambda>_ _. Inr [])) ''h9''
       \<lparr>lv_db = lv_db sample_ctl, lv_cache = lv_cache sample_ctl, ct_world = []\<rparr> HostConnectorType_DOCKER
       ((start_params ''team'')\<lparr>Start_ContainerImageTag := ''1''\<rparr>) None = (Inl (ErrMsg ''cannot start''), c')
     \<and> lv_db c' = lv_db sample_ctl \<and> small_containers (ct_world c') small_id \<noteq> None"
proof -
  let ?c = "\<lparr>lv_db = lv_db sample_ctl, lv_cache = lv_cache sample_ctl, ct_world = []\<rparr> :: small_world ctl"
  let ?params = "(start_params ''team'')\<lparr>Start_ContainerImageTag := ''1''\<rparr>"
  have image: "isAvailableTag (small_docker False) small_config [] (Start_ContainerImageTag ?params)"
    by (simp add: isAvailableTag_def small_docker_def small_config_def HasPrefix_def)
  obtain c' where c': "HostRepository_Start (DockerHostConnector (small_docker False) small_config (\<lambda>_ _. Inr [])) ''h9'' ?c
       HostConnectorType_DOCKER ?params None = (Inl (ErrMsg ''cannot start''), c')" "lv_db c' = lv_db ?c"
    and k: "\<exists>opts. small_containers (ct_world c') = (small_containers (ct_world ?c))(small_id \<mapsto> opts)"
    using docker_start_leaks[OF small_docker_lawful, of ?c "[]" False small_config ?params 5014 None _ "''h9''" small_id _ "ErrMsg ''cannot start''"
        _ "\<lambda>_ _. Inr []" None, OF _ _ image]
    by (fastforce simp: small_docker_def start_params_def)
  then show ?thesis by auto
qed

theorem docker_tags_listed_witness:
  "\<exists>images. Docker_ListContainerTags (small_docker True) small_config [] None = Some (Inr images)
     \<and> map Image_Tag images = [''2025.4.3.1346'', ''2025.4.3.1346-v1.2.0'', ''prerelease-2025.5.1.7-v1.2.0'']"
proof -
  have "\<exists>k > 0. dk_Get (small_docker True) [] (tags_url ''r'' ''u/i'' (Some t)) auth = Inr (200, Inr (take k later))"
    if "small_tags = seen @ t # later" for seen t later auth
  proof -
    have "distinct small_tags" by (simp add: small_tags_def)
    then have t: "t \<notin> set seen" "tl (dropWhile (\<lambda>x. x \<noteq> t) small_tags) = later" unfolding that by (auto simp: dropWhile_append)
    have "List.find (\<lambda>x. t = x) small_tags = Some t" unfolding that using t(1) by (induction seen) auto
    then show ?thesis using t(2) by (intro exI[of _ 2]) (simp add: small_docker_def tags_url_def)
  qed
  moreover have "dk_Get (small_docker True) [] (tags_url ''r'' ''u/i'' None) auth = Inr (200, Inr (take 2 small_tags))" for auth
    by (simp add: small_docker_def small_tags_def tags_url_def)
  then have "\<exists>k > 0. dk_Get (small_docker True) [] (tags_url ''r'' ''u/i'' None) auth = Inr (200, Inr (take k small_tags))" for auth
    by (intro exI[of _ 2]) simp
  ultimately have "registry_serves (small_docker True) [] ''r'' (''u'' @ ''/'' @ ''i'') small_tags"
    unfolding registry_serves_def by (simp add: small_docker_def)
  then have "Docker_ListContainerTags (small_docker True) small_config [] None = Some (Inr (versioned_images small_tags))"
    using docker_tags_listed[of small_config "''r''" "''u''" "''i''" "small_docker True" "[]" small_tags] by (simp add: small_config_def)
  moreover have "map Image_Tag (versioned_images small_tags) = [''2025.4.3.1346'', ''2025.4.3.1346-v1.2.0'', ''prerelease-2025.5.1.7-v1.2.0'']"
    by (simp add: versioned_images_def small_tags_def parseTag_def ValidateResoniteVersionString_def TrimPrefix_def HasPrefix_def is_digit_def)
  ultimately show ?thesis by (intro exI conjI)
qed

end
