(* ===== verification/DockerEvents.thy ===== *)
theory DockerEvents
  imports Docker Notifications
begin

text \<open>
  \<open>worker/docker_event_watcher.go\<close>, which copies the state of the containers into the table of hosts: once
  from a list at the start, then from the events of the daemon, and the goroutine of \<open>SubscribeEvents\<close> that
  forwards them. The query \<open>GetHostByContainerID\<close> is here because only this watcher uses it.
\<close>

section \<open>Events and the query\<close>

record ContainerEvent =
  Ev_ContainerID :: string
  Ev_Action :: string
  Ev_ExitCode :: string

text \<open>A message of the daemon, and the event that is made of it; a missing attribute reads as the empty string.\<close>

record ContainerMessage =
  Msg_ActorID :: string
  Msg_Action :: string
  Msg_Attributes :: "(string \<times> string) list"

definition event_of :: "ContainerMessage \<Rightarrow> ContainerEvent" where
  "event_of m = \<lparr>Ev_ContainerID = Msg_ActorID m, Ev_Action = Msg_Action m,
     Ev_ExitCode = (case map_of (Msg_Attributes m) ''exitCode'' of None \<Rightarrow> [] | Some v \<Rightarrow> v)\<rparr>"

text \<open>\<open>LIKE\<close> of SQL: \<open>%\<close> stands for any characters, \<open>_\<close> for one, a backslash takes the next one literally.\<close>

fun sql_like :: "string \<Rightarrow> string \<Rightarrow> bool" where
  "sql_like [] s = (s = [])"
| "sql_like (p # ps) [] = (p = CHR ''%'' \<and> sql_like ps [])"
| "sql_like (p # ps) (x # xs) =
     (if p = CHR ''%'' then sql_like ps (x # xs) \<or> sql_like (p # ps) xs
      else if p = CHR ''_'' then sql_like ps xs
      else if p = CHR 0x5C then (case ps of [] \<Rightarrow> False | q # qs \<Rightarrow> x = q \<and> sql_like qs xs)
      else x = p \<and> sql_like ps xs)"

definition q_GetHostByContainerID :: "db \<Rightarrow> string \<Rightarrow> Host res" where
  "q_GetHostByContainerID d cid = readQ d ''GetHostByContainerID'' [cid]
     (case tbl_get (\<lambda>h. sql_like (cid @ '':%'') (Host_ConnectString h)) (db_hosts d) of None \<Rightarrow> Inl ErrNoRows | Some h \<Rightarrow> Inr h)"

section \<open>The watcher\<close>

definition eventToStatus :: "ContainerEvent \<Rightarrow> HeadlessHostStatus" where
  "eventToStatus event =
     (if Ev_Action event = ''start'' \<or> Ev_Action event = ''restart'' then HeadlessHostStatus_RUNNING
      else if Ev_Action event = ''stop'' then HeadlessHostStatus_EXITED
      else if Ev_Action event = ''die'' then
        (if Ev_ExitCode event = ''0'' then HeadlessHostStatus_EXITED else HeadlessHostStatus_CRASHED)
      else if Ev_Action event = ''kill'' \<or> Ev_Action event = ''oom'' then HeadlessHostStatus_CRASHED
      else HeadlessHostStatus_UNKNOWN)"

definition Docker_publishHostUpdated :: "time \<Rightarrow> MemoryBus \<Rightarrow> string \<Rightarrow> MemoryBus" where
  "Docker_publishHostUpdated now bus hostID = Publish bus (Some (HostUpdated now hostID [] None))"

text \<open>The update of a row and its announcement, which both handlers end with.\<close>

definition record_status :: "db \<times> MemoryBus \<Rightarrow> Host \<Rightarrow> HeadlessHostStatus \<Rightarrow> db \<times> MemoryBus" where
  "record_status s host newStatus =
     (if Host_Status host = newStatus then s
      else case q_UpdateHostStatus (fst s) (Host_ID host) newStatus of
             (Inl _, d) \<Rightarrow> (d, snd s)
           | (Inr _, d) \<Rightarrow> (d, Docker_publishHostUpdated (db_now d) (snd s) (Host_ID host)))"

definition Docker_handleEvent :: "db \<times> MemoryBus \<Rightarrow> ContainerEvent \<Rightarrow> db \<times> MemoryBus" where
  "Docker_handleEvent s event =
     (case q_GetHostByContainerID (fst s) (Ev_ContainerID event) of
        Inl _ \<Rightarrow> s
      | Inr host \<Rightarrow>
          if eventToStatus event = HeadlessHostStatus_UNKNOWN then s else record_status s host (eventToStatus event))"

definition sync_host :: "(string \<rightharpoonup> HeadlessHostStatus) \<Rightarrow> db \<times> MemoryBus \<Rightarrow> Host \<Rightarrow> db \<times> MemoryBus" where
  "sync_host statuses s host =
     (case parseConnectString (Host_ConnectString host) of
        Inl _ \<Rightarrow> s
      | Inr (containerID, _) \<Rightarrow>
          (case statuses containerID of
             Some status \<Rightarrow> record_status s host status
           | None \<Rightarrow>
               if Host_Status host = HeadlessHostStatus_RUNNING \<or> Host_Status host = HeadlessHostStatus_STARTING
               then record_status s host HeadlessHostStatus_CRASHED else s))"

definition syncAllStatuses :: "'w docker \<Rightarrow> DockerConfig \<Rightarrow> 'w \<Rightarrow> db \<times> MemoryBus \<Rightarrow> db \<times> MemoryBus" where
  "syncAllStatuses dk cfg w s =
     (case ListAllContainerStatuses dk cfg w of
        Inl _ \<Rightarrow> s
      | Inr statuses \<Rightarrow>
          (case q_ListHosts (fst s) of
             Inl _ \<Rightarrow> s
           | Inr hosts \<Rightarrow> foldl (sync_host statuses) s hosts))"

text \<open>
  One connection to the daemon. The goroutine of \<open>SubscribeEvents\<close> moves the messages of the daemon into a
  channel of 100 events; when they are used up it passes on the error with which the stream ends, if there
  is one, and closes its channels. \<open>watchOnce\<close> takes from the channel of events or from that of errors,
  whichever it likes when both are ready, and returns on an error or a closed channel. Shutting down is
  left out.
\<close>

record docker_stream =
  ds_coming :: "ContainerMessage list"
  ds_failure :: "err option"
  ds_out :: "ContainerEvent list"
  ds_outErr :: "err option"
  ds_closed :: bool
  ds_done :: bool
  ds_state :: "db \<times> MemoryBus"

definition SubscribeEvents :: "ContainerMessage list \<Rightarrow> err option \<Rightarrow> db \<times> MemoryBus \<Rightarrow> docker_stream" where
  "SubscribeEvents coming failure s = \<lparr>ds_coming = coming, ds_failure = failure, ds_out = [], ds_outErr = None,
     ds_closed = False, ds_done = False, ds_state = s\<rparr>"

inductive docker_step :: "docker_stream \<Rightarrow> docker_stream \<Rightarrow> bool" where
  Forward: "ds_coming s = m # ms \<Longrightarrow> length (ds_out s) < 100
    \<Longrightarrow> docker_step s (s\<lparr>ds_coming := ms, ds_out := ds_out s @ [event_of m]\<rparr>)"
| End_stream: "ds_coming s = [] \<Longrightarrow> \<not> ds_closed s
    \<Longrightarrow> docker_step s (s\<lparr>ds_closed := True, ds_outErr := ds_failure s\<rparr>)"
| Take_event: "\<not> ds_done s \<Longrightarrow> ds_out s = e # es
    \<Longrightarrow> docker_step s (s\<lparr>ds_out := es, ds_state := Docker_handleEvent (ds_state s) e\<rparr>)"
| Take_error: "\<not> ds_done s \<Longrightarrow> ds_outErr s = Some e \<Longrightarrow> docker_step s (s\<lparr>ds_outErr := None, ds_done := True\<rparr>)"
| Take_closed: "\<not> ds_done s \<Longrightarrow> ds_closed s \<Longrightarrow> ds_out s = [] \<or> ds_outErr s = None \<Longrightarrow> docker_step s (s\<lparr>ds_done := True\<rparr>)"

inductive_cases docker_stepE: "docker_step s t"
section \<open>Rows and their containers\<close>

definition plain_char :: "char \<Rightarrow> bool" where
  "plain_char c \<longleftrightarrow> c \<noteq> CHR ''%'' \<and> c \<noteq> CHR ''_'' \<and> c \<noteq> CHR 0x5C"

lemma sql_like_percent: "sql_like ''%'' s"
  by (induction s) auto

lemma sql_like_plain: "list_all plain_char a \<Longrightarrow> sql_like (a @ p) s \<longleftrightarrow> HasPrefix s a \<and> sql_like p (drop (length a) s)"
proof (induction a arbitrary: s)
  case (Cons c a)
  then show ?case by (cases s) (auto simp: HasPrefix_def plain_char_def)
qed (simp add: HasPrefix_def)

lemma hex_plain: "hex_id cid \<Longrightarrow> list_all plain_char (cid @ '':'')"
  by (auto simp: hex_id_def plain_char_def list_all_iff)

text \<open>The container of a host, and tables whose hosts are containers of the daemon, each of one host.\<close>

definition container_of :: "Host \<Rightarrow> string option" where
  "container_of h = (case parseConnectString (Host_ConnectString h) of Inl _ \<Rightarrow> None | Inr (cid, _) \<Rightarrow> Some cid)"

definition docker_host :: "Host \<Rightarrow> bool" where
  "docker_host h \<longleftrightarrow> (\<exists>cid p. Host_ConnectString h = connect_string_of cid p \<and> hex_id cid \<and> 0 < p \<and> p \<le> 65535)"

definition docker_rows :: "Host list \<Rightarrow> bool" where
  "docker_rows hs \<longleftrightarrow> distinct (map Host_ID hs) \<and> distinct (map container_of hs) \<and> (\<forall>h \<in> set hs. docker_host h)"

lemma container_of_docker: "Host_ConnectString h = connect_string_of cid p \<Longrightarrow> hex_id cid \<Longrightarrow> 0 < p \<Longrightarrow> p \<le> 65535 \<Longrightarrow> container_of h = Some cid"
  by (simp add: container_of_def parse_connect_string hex_no_colon)

lemma like_container:
  assumes "docker_host h" "hex_id cid"
  shows "sql_like (cid @ '':%'') (Host_ConnectString h) \<longleftrightarrow> container_of h = Some cid"
proof -
  obtain i p where h: "Host_ConnectString h = connect_string_of i p" "hex_id i" "0 < p" "p \<le> 65535" using assms(1) by (auto simp: docker_host_def)
  have "sql_like (cid @ '':%'') s \<longleftrightarrow> HasPrefix s (cid @ '':'')" for s
    using sql_like_plain[OF hex_plain[OF assms(2)], of "''%''" s] by (simp add: sql_like_percent)
  moreover have "HasPrefix (connect_string_of i p) (cid @ '':'') \<longleftrightarrow> i = cid"
    using h(2) assms(2) by (simp add: connect_string_of_def HasPrefix_def hex_id_def)
  ultimately show ?thesis using h container_of_docker by simp
qed

text \<open>What an event makes of a host.\<close>

definition next_status :: "ContainerEvent \<Rightarrow> Host \<Rightarrow> HeadlessHostStatus" where
  "next_status e h = (if container_of h = Some (Ev_ContainerID e) \<and> eventToStatus e \<noteq> HeadlessHostStatus_UNKNOWN
     then eventToStatus e else Host_Status h)"

lemma record_status_nf:
  "no_faults d \<Longrightarrow> record_status (d, bus) h st = (if Host_Status h = st then (d, bus)
     else (update_host (Host_ID h) (\<lambda>h. h\<lparr>Host_Status := st\<rparr>) d, Docker_publishHostUpdated (db_now d) bus (Host_ID h)))"
  by (simp add: record_status_def q_UpdateHostStatus_def update_host_def)

lemma update_one_row:
  assumes "distinct (map Host_ID hs)" "h \<in> set hs"
  shows "tbl_update (host_row (Host_ID h)) f hs = map (\<lambda>x. if x = h then f x else x) hs"
  using assms by (auto simp: tbl_update_def inj_on_eq_iff distinct_map)

lemma handleEvent_rows:
  assumes nf: "no_faults d" and rows: "docker_rows (db_hosts d)" and e: "hex_id (Ev_ContainerID e)"
  shows "fst (Docker_handleEvent (d, bus) e) = d\<lparr>db_hosts := map (\<lambda>h. h\<lparr>Host_Status := next_status e h\<rparr>) (db_hosts d)\<rparr>"
proof -
  let ?is = "\<lambda>h. sql_like (Ev_ContainerID e @ '':%'') (Host_ConnectString h)"
  have same: "\<forall>h \<in> set (db_hosts d). ?is h \<longleftrightarrow> container_of h = Some (Ev_ContainerID e)"
    using rows like_container e by (auto simp: docker_rows_def)
  show ?thesis
  proof (cases "tbl_get ?is (db_hosts d)")
    case None
    then have "map (\<lambda>h. h\<lparr>Host_Status := next_status e h\<rparr>) (db_hosts d) = db_hosts d"
      using same by (intro map_idI) (auto simp: tbl_get_None_iff next_status_def)
    then show ?thesis using nf None by (simp add: Docker_handleEvent_def q_GetHostByContainerID_def)
  next
    case (Some h)
    have h: "h \<in> set (db_hosts d)" "container_of h = Some (Ev_ContainerID e)" using tbl_get_SomeD[OF Some] same by auto
    have only: "x = h" if "x \<in> set (db_hosts d)" "container_of x = Some (Ev_ContainerID e)" for x
    proof -
      have "inj_on container_of (set (db_hosts d))" using rows by (simp add: docker_rows_def distinct_map)
      then show ?thesis using that h by (auto dest: inj_onD[of container_of _ x h])
    qed
    have rows': "map (\<lambda>x. x\<lparr>Host_Status := next_status e x\<rparr>) (db_hosts d)
        = map (\<lambda>x. if x = h then x\<lparr>Host_Status := next_status e x\<rparr> else x) (db_hosts d)"
    proof (rule map_cong[OF refl])
      fix x assume "x \<in> set (db_hosts d)"
      then show "x\<lparr>Host_Status := next_status e x\<rparr> = (if x = h then x\<lparr>Host_Status := next_status e x\<rparr> else x)"
        using only[of x] by (cases "x = h") (auto simp: next_status_def)
    qed
    show ?thesis
    proof (cases "next_status e h = Host_Status h")
      case True
      then have "map (\<lambda>x. x\<lparr>Host_Status := next_status e x\<rparr>) (db_hosts d) = db_hosts d"
        unfolding rows' by (intro map_idI) auto
      moreover have "fst (Docker_handleEvent (d, bus) e) = d"
        using nf Some True h by (auto simp: Docker_handleEvent_def q_GetHostByContainerID_def record_status_nf next_status_def split: if_splits)
      ultimately show ?thesis by simp
    next
      case False
      have "fst (Docker_handleEvent (d, bus) e) = update_host (Host_ID h) (\<lambda>x. x\<lparr>Host_Status := eventToStatus e\<rparr>) d"
        using nf Some False h by (auto simp: Docker_handleEvent_def q_GetHostByContainerID_def record_status_nf next_status_def split: if_splits)
      then show ?thesis using rows h False unfolding rows'
        by (auto simp: update_host_def docker_rows_def update_one_row next_status_def split: if_splits)
    qed
  qed
qed
text \<open>The event that decides about a host: the last one of its container that says anything.\<close>

definition status_after :: "ContainerEvent list \<Rightarrow> Host \<Rightarrow> HeadlessHostStatus" where
  "status_after es h =
     (case List.find (\<lambda>e. container_of h = Some (Ev_ContainerID e) \<and> eventToStatus e \<noteq> HeadlessHostStatus_UNKNOWN) (rev es) of
        None \<Rightarrow> Host_Status h | Some e \<Rightarrow> eventToStatus e)"

lemma status_after_simps [simp]: "status_after [] h = Host_Status h"
  "status_after (es @ [e]) h = next_status e (h\<lparr>Host_Status := status_after es h\<rparr>)"
  by (simp_all add: status_after_def next_status_def container_of_def)

lemma container_of_status [simp]: "container_of (h\<lparr>Host_Status := st\<rparr>) = container_of h" "docker_host (h\<lparr>Host_Status := st\<rparr>) = docker_host h"
  by (simp_all add: container_of_def docker_host_def)

lemma docker_rows_status [simp]: "docker_rows (map (\<lambda>h. h\<lparr>Host_Status := f h\<rparr>) hs) = docker_rows hs"
  by (simp add: docker_rows_def comp_def)

lemma handleEvents_rows:
  assumes nf: "no_faults d" and rows: "docker_rows (db_hosts d)"
  shows "list_all (\<lambda>e. hex_id (Ev_ContainerID e)) es
    \<Longrightarrow> fst (foldl Docker_handleEvent (d, bus) es) = d\<lparr>db_hosts := map (\<lambda>h. h\<lparr>Host_Status := status_after es h\<rparr>) (db_hosts d)\<rparr>"
proof (induction es rule: rev_induct)
  case (snoc e es)
  let ?s = "foldl Docker_handleEvent (d, bus) es"
  have s: "?s = (fst ?s, snd ?s)" by simp
  have "fst (Docker_handleEvent (fst ?s, snd ?s) e) = fst ?s\<lparr>db_hosts := map (\<lambda>h. h\<lparr>Host_Status := next_status e h\<rparr>) (db_hosts (fst ?s))\<rparr>"
    using snoc nf rows by (intro handleEvent_rows) auto
  then show ?case using snoc by (simp add: comp_def)
qed simp

text \<open>Histories of a connection: the events are handled in order, each once.\<close>

definition stream_inv :: "ContainerMessage list \<Rightarrow> db \<times> MemoryBus \<Rightarrow> docker_stream \<Rightarrow> bool" where
  "stream_inv msgs s0 s \<longleftrightarrow> (\<exists>handled. map event_of msgs = handled @ ds_out s @ map event_of (ds_coming s)
     \<and> ds_state s = foldl Docker_handleEvent s0 handled)"

interpretation docker_watch: step_invariant docker_step "stream_inv msgs s0" for msgs s0
proof
  fix s t assume st: "docker_step s t" and inv: "stream_inv msgs s0 s"
  obtain handled where h: "map event_of msgs = handled @ ds_out s @ map event_of (ds_coming s)" "ds_state s = foldl Docker_handleEvent s0 handled"
    using inv by (auto simp: stream_inv_def)
  show "stream_inv msgs s0 t"
    using st
  proof cases
    case (Take_event e es)
    then show ?thesis using h by (auto simp: stream_inv_def intro!: exI[of _ "handled @ [e]"])
  qed (use h in \<open>auto simp: stream_inv_def\<close>)
qed

lemma stream_start: "stream_inv msgs s0 (SubscribeEvents msgs failure s0)"
  by (simp add: stream_inv_def SubscribeEvents_def)

text \<open>
  C36: The table follows the daemon. Whatever the scheduling, the statuses of the hosts are at any time those after
  some of the events of the connection, in order: for each host the last event of its container that says
  anything decides, a host whose container is not concerned keeps its status, and nothing else of the
  database changes; and when nothing is left in the channels these are all events.
\<close>

theorem docker_events_converge:
  assumes nf: "no_faults d" and rows: "docker_rows (db_hosts d)" and ids: "list_all (\<lambda>m. hex_id (Msg_ActorID m)) msgs"
    and run: "docker_step\<^sup>*\<^sup>* (SubscribeEvents msgs failure (d, bus)) s"
  shows "\<exists>n. fst (ds_state s) = d\<lparr>db_hosts := map (\<lambda>h. h\<lparr>Host_Status := status_after (take n (map event_of msgs)) h\<rparr>) (db_hosts d)\<rparr>
     \<and> (ds_coming s = [] \<and> ds_out s = [] \<longrightarrow> n = length msgs)"
proof -
  obtain handled where h: "map event_of msgs = handled @ ds_out s @ map event_of (ds_coming s)" "ds_state s = foldl Docker_handleEvent (d, bus) handled"
    using docker_watch.reach_inv[OF run stream_start] by (auto simp: stream_inv_def)
  have "list_all (\<lambda>e. hex_id (Ev_ContainerID e)) (map event_of msgs)" using ids by (simp add: list.pred_map comp_def event_of_def)
  then have "list_all (\<lambda>e. hex_id (Ev_ContainerID e)) handled" by (simp add: h(1))
  moreover have "take (length handled) (map event_of msgs) = handled" by (simp add: h(1))
  moreover have "ds_coming s = [] \<and> ds_out s = [] \<longrightarrow> length handled = length msgs" using arg_cong[OF h(1), of length] by auto
  ultimately show ?thesis using handleEvents_rows[OF nf rows] h(2) by (intro exI[of _ "length handled"]) simp
qed

text \<open>
  C37: But an event can be missed, for good. When the connection fails right after the container of a running host
  has died, \<open>watchOnce\<close> may return before it has taken the event out of the channel; and since the list of
  containers is read only once, when the watcher starts, the host is shown as RUNNING from then on,
  whatever the daemon reports about other containers on the connections that follow.
\<close>

theorem docker_event_missed:
  assumes nf: "no_faults d" and rows: "docker_rows (db_hosts d)" and h: "host_of d hid = Some h" "container_of h = Some (Msg_ActorID m)"
    and later: "list_all (\<lambda>e. hex_id (Ev_ContainerID e) \<and> Ev_ContainerID e \<noteq> Msg_ActorID m) later"
  shows "\<exists>s. docker_step\<^sup>*\<^sup>* (SubscribeEvents [m] (Some e) (d, bus)) s \<and> ds_done s
     \<and> host_of (fst (foldl Docker_handleEvent (ds_state s) later)) hid = Some h"
proof -
  let ?s0 = "SubscribeEvents [m] (Some e) (d, bus)"
  let ?s1 = "?s0\<lparr>ds_coming := [], ds_out := [event_of m]\<rparr>"
  let ?s2 = "?s1\<lparr>ds_closed := True, ds_outErr := Some e\<rparr>"
  let ?s3 = "?s2\<lparr>ds_outErr := None, ds_done := True\<rparr>"
  have "docker_step ?s0 ?s1" using Forward[of ?s0 m "[]"] by (simp add: SubscribeEvents_def)
  moreover have "docker_step ?s1 ?s2" using End_stream[of ?s1] by (simp add: SubscribeEvents_def)
  moreover have "docker_step ?s2 ?s3" using Take_error[of ?s2 e] by (simp add: SubscribeEvents_def)
  ultimately have run: "docker_step\<^sup>*\<^sup>* ?s0 ?s3" by (meson converse_rtranclp_into_rtranclp r_into_rtranclp)
  have "\<not> (container_of h = Some (Ev_ContainerID e') \<and> eventToStatus e' \<noteq> HeadlessHostStatus_UNKNOWN)" if "e' \<in> set (rev later)" for e'
    using that later h(2) by (auto simp: list_all_iff)
  then have "status_after later h = Host_Status h" by (simp add: status_after_def find_None_iff[THEN iffD2])
  moreover have "fst (foldl Docker_handleEvent (d, bus) later) = d\<lparr>db_hosts := map (\<lambda>h. h\<lparr>Host_Status := status_after later h\<rparr>) (db_hosts d)\<rparr>"
    using later by (intro handleEvents_rows[OF nf rows]) (simp add: list_all_iff)
  moreover have "tbl_get (host_row hid) (map (\<lambda>h. h\<lparr>Host_Status := f h\<rparr>) hs) = map_option (\<lambda>h. h\<lparr>Host_Status := f h\<rparr>) (tbl_get (host_row hid) hs)" for f hs
    by (induction hs) auto
  ultimately have "host_of (fst (foldl Docker_handleEvent (d, bus) later)) hid = Some h" using h(1) by (simp add: host_of_def)
  then show ?thesis using run by (intro exI[of _ ?s3]) (simp add: SubscribeEvents_def)
qed
section \<open>The list at the start\<close>

definition synced :: "(string \<rightharpoonup> HeadlessHostStatus) \<Rightarrow> Host \<Rightarrow> HeadlessHostStatus" where
  "synced statuses h =
     (case container_of h of
        None \<Rightarrow> Host_Status h
      | Some cid \<Rightarrow>
          (case statuses cid of
             Some st \<Rightarrow> st
           | None \<Rightarrow> if Host_Status h \<in> {HeadlessHostStatus_RUNNING, HeadlessHostStatus_STARTING} then HeadlessHostStatus_CRASHED else Host_Status h))"

lemma sync_host_nf:
  "no_faults d \<Longrightarrow> sync_host statuses (d, bus) h = (if synced statuses h = Host_Status h then (d, bus)
     else (update_host (Host_ID h) (\<lambda>x. x\<lparr>Host_Status := synced statuses h\<rparr>) d, Docker_publishHostUpdated (db_now d) bus (Host_ID h)))"
  by (auto simp: sync_host_def synced_def container_of_def record_status_nf split: sum.splits option.splits)

lemma sync_hosts_rows:
  assumes nf: "no_faults d" and ids: "distinct (map Host_ID (db_hosts d))"
  shows "distinct hs \<Longrightarrow> set hs \<subseteq> set (db_hosts d) \<Longrightarrow> foldl (sync_host statuses) (d, bus) hs =
     (d\<lparr>db_hosts := map (\<lambda>x. if x \<in> set hs then x\<lparr>Host_Status := synced statuses x\<rparr> else x) (db_hosts d)\<rparr>,
      foldl (\<lambda>b h. if synced statuses h = Host_Status h then b else Docker_publishHostUpdated (db_now d) b (Host_ID h)) bus hs)"
proof (induction hs rule: rev_induct)
  case (snoc h hs)
  let ?rows = "\<lambda>S. map (\<lambda>x. if x \<in> S then x\<lparr>Host_Status := synced statuses x\<rparr> else x) (db_hosts d)"
  have one: "x = h" if "x \<in> set (db_hosts d)" "Host_ID x = Host_ID h" for x
    using that snoc.prems ids by (auto simp: distinct_map dest: inj_onD)
  have h: "h \<notin> set hs" using snoc.prems by simp
  show ?case
  proof (cases "synced statuses h = Host_Status h")
    case True
    then have "?rows (set hs) = ?rows (set (hs @ [h]))" by (intro map_cong) auto
    then show ?thesis using snoc nf True by (simp add: sync_host_nf)
  next
    case False
    have "tbl_update (host_row (Host_ID h)) (\<lambda>x. x\<lparr>Host_Status := synced statuses h\<rparr>) (?rows (set hs)) = ?rows (set (hs @ [h]))"
      unfolding tbl_update_def map_map using one h by (intro map_cong) auto
    then show ?thesis using snoc nf False by (simp add: sync_host_nf update_host_def)
  qed
qed simp

text \<open>
  The start repairs what was missed. When the watcher starts and the daemon answers, every host gets the status of
  its container if there is one of the configured image, a host that was RUNNING or STARTING and whose
  container is gone becomes CRASHED, every other row stays as it is, and clients are told of exactly
  the hosts whose status changed.
\<close>

theorem docker_sync_exact:
  assumes nf: "no_faults d" and ids: "distinct (map Host_ID (db_hosts d))" and answer: "ListAllContainerStatuses dk cfg w = Inr statuses"
  shows "syncAllStatuses dk cfg w (d, bus) =
     (d\<lparr>db_hosts := map (\<lambda>h. h\<lparr>Host_Status := synced statuses h\<rparr>) (db_hosts d)\<rparr>,
      foldl (\<lambda>b h. Publish b (Some (HostUpdated (db_now d) (Host_ID h) [] None))) bus
        (filter (\<lambda>h. synced statuses h \<noteq> Host_Status h) (sort_key host_started_desc (db_hosts d))))"
proof -
  have publish: "foldl (\<lambda>b h. if synced statuses h = Host_Status h then b else Docker_publishHostUpdated (db_now d) b (Host_ID h)) b hs
      = foldl (\<lambda>b h. Publish b (Some (HostUpdated (db_now d) (Host_ID h) [] None))) b (filter (\<lambda>h. synced statuses h \<noteq> Host_Status h) hs)" for b hs
    by (induction hs arbitrary: b) (auto simp: Docker_publishHostUpdated_def)
  have "distinct (sort_key host_started_desc (db_hosts d))" using ids by (simp add: distinct_map)
  then show ?thesis using sync_hosts_rows[OF nf ids, of "sort_key host_started_desc (db_hosts d)"] nf
    by (simp add: syncAllStatuses_def answer q_ListHosts_def publish cong: map_cong)
qed

section \<open>Instances\<close>

text \<open>Two hosts in two containers; one of them dies.\<close>

definition container_host :: "string \<Rightarrow> char \<Rightarrow> Host" where
  "container_host hid c = (plain_host hid)\<lparr>Host_Status := HeadlessHostStatus_RUNNING, Host_ConnectString := connect_string_of (replicate 64 c) 5014\<rparr>"

definition container_db :: db where
  "container_db = session_db\<lparr>db_hosts := [container_host ''h1'' CHR ''a'', container_host ''h2'' CHR ''b'']\<rparr>"

definition dies :: "char \<Rightarrow> string \<Rightarrow> ContainerMessage" where
  "dies c code = \<lparr>Msg_ActorID = replicate 64 c, Msg_Action = ''die'', Msg_Attributes = [(''exitCode'', code)]\<rparr>"

lemma container_host_ok: "c \<in> set ''0123456789abcdef'' \<Longrightarrow> docker_host (container_host hid c) \<and> container_of (container_host hid c) = Some (replicate 64 c)"
proof -
  assume "c \<in> set ''0123456789abcdef''"
  then have "hex_id (replicate 64 c)" by (auto simp: hex_id_def)
  moreover have "Host_ConnectString (container_host hid c) = connect_string_of (replicate 64 c) 5014" by (simp add: container_host_def)
  ultimately show ?thesis using container_of_docker[of "container_host hid c" "replicate 64 c" 5014] unfolding docker_host_def by fastforce
qed

lemma container_db_ok: "no_faults container_db" "docker_rows (db_hosts container_db)"
proof -
  show "no_faults container_db" by (simp add: container_db_def)
  have "replicate 64 CHR ''a'' \<noteq> replicate 64 CHR ''b''" by (simp add: replicate_eq_replicate)
  then show "docker_rows (db_hosts container_db)"
    using container_host_ok[of "CHR ''a''" "''h1''"] container_host_ok[of "CHR ''b''" "''h2''"]
    by (simp add: docker_rows_def container_db_def) (simp add: container_host_def plain_host_def)
qed
lemma dies_simps: "Msg_ActorID (dies c code) = replicate 64 c" "event_of (dies c code) = \<lparr>Ev_ContainerID = replicate 64 c, Ev_Action = ''die'', Ev_ExitCode = code\<rparr>"
  by (simp_all add: dies_def event_of_def)

lemma hex_ab: "hex_id (replicate 64 CHR ''a'')" "hex_id (replicate 64 CHR ''b'')"
  by (simp_all add: hex_id_def)

theorem docker_events_converge_witness:
  "\<exists>s. docker_step\<^sup>*\<^sup>* (SubscribeEvents [dies CHR ''a'' ''1''] None (container_db, NewBus)) s
     \<and> map Host_Status (db_hosts (fst (ds_state s))) = [HeadlessHostStatus_CRASHED, HeadlessHostStatus_RUNNING]"
proof -
  let ?m = "dies CHR ''a'' ''1''"
  let ?s0 = "SubscribeEvents [?m] None (container_db, NewBus)"
  let ?s1 = "?s0\<lparr>ds_coming := [], ds_out := [event_of ?m]\<rparr>"
  let ?s2 = "?s1\<lparr>ds_out := [], ds_state := Docker_handleEvent (ds_state ?s1) (event_of ?m)\<rparr>"
  have "docker_step ?s0 ?s1" using Forward[of ?s0 ?m "[]"] by (simp add: SubscribeEvents_def)
  moreover have "docker_step ?s1 ?s2" using Take_event[of ?s1 "event_of ?m" "[]"] by (simp add: SubscribeEvents_def)
  ultimately have run: "docker_step\<^sup>*\<^sup>* ?s0 ?s2" by (meson converse_rtranclp_into_rtranclp r_into_rtranclp)
  have "list_all (\<lambda>m. hex_id (Msg_ActorID m)) [?m]" by (simp add: dies_simps hex_ab)
  then have "fst (ds_state ?s2) = container_db\<lparr>db_hosts := map (\<lambda>h. h\<lparr>Host_Status := status_after [event_of ?m] h\<rparr>) (db_hosts container_db)\<rparr>"
    using docker_events_converge[OF container_db_ok _ run] by (auto simp: SubscribeEvents_def)
  moreover have "status_after [event_of ?m] (container_host ''h1'' CHR ''a'') = HeadlessHostStatus_CRASHED"
    "status_after [event_of ?m] (container_host ''h2'' CHR ''b'') = HeadlessHostStatus_RUNNING"
    using container_host_ok[of "CHR ''a''" "''h1''"] container_host_ok[of "CHR ''b''" "''h2''"]
    by (simp_all add: status_after_def dies_simps eventToStatus_def replicate_eq_replicate) (simp add: container_host_def)
  ultimately show ?thesis using run by (intro exI[of _ ?s2] conjI) (simp_all add: container_db_def)
qed

theorem docker_event_missed_witness:
  "\<exists>s. docker_step\<^sup>*\<^sup>* (SubscribeEvents [dies CHR ''a'' ''1''] (Some (ErrMsg ''EOF'')) (container_db, NewBus)) s \<and> ds_done s
     \<and> map_option Host_Status (host_of (fst (foldl Docker_handleEvent (ds_state s) [event_of (dies CHR ''b'' ''0'')])) ''h1'') = Some HeadlessHostStatus_RUNNING"
proof -
  have h: "host_of container_db ''h1'' = Some (container_host ''h1'' CHR ''a'')"
    by (simp add: host_of_def container_db_def container_host_def plain_host_def)
  moreover have "container_of (container_host ''h1'' CHR ''a'') = Some (Msg_ActorID (dies CHR ''a'' ''1''))"
    using container_host_ok by (simp add: dies_simps)
  moreover have "list_all (\<lambda>e. hex_id (Ev_ContainerID e) \<and> Ev_ContainerID e \<noteq> Msg_ActorID (dies CHR ''a'' ''1'')) [event_of (dies CHR ''b'' ''0'')]"
    by (simp add: dies_simps hex_ab replicate_eq_replicate)
  ultimately obtain s where "docker_step\<^sup>*\<^sup>* (SubscribeEvents [dies CHR ''a'' ''1''] (Some (ErrMsg ''EOF'')) (container_db, NewBus)) s" "ds_done s"
    "host_of (fst (foldl Docker_handleEvent (ds_state s) [event_of (dies CHR ''b'' ''0'')])) ''h1'' = Some (container_host ''h1'' CHR ''a'')"
    using docker_event_missed[OF container_db_ok] by blast
  then show ?thesis by (intro exI[of _ s] conjI) (simp_all add: container_host_def)
qed

theorem docker_sync_exact_witness:
  "map Host_Status (db_hosts (fst (syncAllStatuses (small_docker True) small_config [(replicate 64 CHR ''a'', create_options small_config small_params 5014 None)]
       (container_db, NewBus)))) = [HeadlessHostStatus_RUNNING, HeadlessHostStatus_CRASHED]"
proof -
  let ?w = "[(replicate 64 CHR ''a'', create_options small_config small_params 5014 None)]"
  have answer: "ListAllContainerStatuses (small_docker True) small_config ?w = Inr [replicate 64 CHR ''a'' \<mapsto> HeadlessHostStatus_RUNNING]"
    by (simp add: ListAllContainerStatuses_def small_docker_def small_config_def hex_ab HasPrefix_def containerStatusToEntityStatus_def)
  have "distinct (map Host_ID (db_hosts container_db))" using container_db_ok(2) by (simp add: docker_rows_def)
  then have "fst (syncAllStatuses (small_docker True) small_config ?w (container_db, NewBus)) = container_db\<lparr>db_hosts :=
      map (\<lambda>h. h\<lparr>Host_Status := synced [replicate 64 CHR ''a'' \<mapsto> HeadlessHostStatus_RUNNING] h\<rparr>) (db_hosts container_db)\<rparr>"
    using docker_sync_exact[OF container_db_ok(1) _ answer] by simp
  moreover have "synced [replicate 64 CHR ''a'' \<mapsto> HeadlessHostStatus_RUNNING] (container_host ''h1'' CHR ''a'') = HeadlessHostStatus_RUNNING"
    "synced [replicate 64 CHR ''a'' \<mapsto> HeadlessHostStatus_RUNNING] (container_host ''h2'' CHR ''b'') = HeadlessHostStatus_CRASHED"
    using container_host_ok[of "CHR ''a''" "''h1''"] container_host_ok[of "CHR ''b''" "''h2''"]
    by (simp_all add: synced_def replicate_eq_replicate) (simp add: container_host_def)
  ultimately show ?thesis by (simp add: container_db_def)
qed

end
