(* ===== verification/LinkBridge.thy ===== *)
theory LinkBridge
  imports UserService
begin

text \<open>
  \<open>adapter/resonitelink/ws_bridge.go\<close>: the WebSocket endpoint that connects a ResoniteLink client with the
  container of its session. Opening a connection is a function of the request, the database and the clock;
  the forwarding of frames by three goroutines is a step relation. The query strings of \<open>net/url\<close> are
  modelled; the WebSocket library, the stream of the container and the parser of origins are parameters.
\<close>

section \<open>Query strings\<close>

definition unreserved :: "char \<Rightarrow> bool" where
  "unreserved c \<longleftrightarrow> (let n = of_char c :: nat in (65 \<le> n \<and> n \<le> 90) \<or> (97 \<le> n \<and> n \<le> 122) \<or> (48 \<le> n \<and> n \<le> 57))
     \<or> c \<in> set ''-_.~''"

definition upper_hex :: "nat \<Rightarrow> char" where
  "upper_hex n = (if n < 10 then char_of (48 + n) else char_of (55 + n))"

definition escape_char :: "char \<Rightarrow> string" where
  "escape_char c = (if unreserved c then [c] else if c = CHR '' '' then ''+''
     else [CHR ''%'', upper_hex (of_char c div 16), upper_hex (of_char c mod 16)])"

definition QueryEscape :: "string \<Rightarrow> string" where
  "QueryEscape s = concat (map escape_char s)"

definition unhex :: "char \<Rightarrow> nat option" where
  "unhex c = (let n = of_char c :: nat in
     if 48 \<le> n \<and> n \<le> 57 then Some (n - 48) else if 97 \<le> n \<and> n \<le> 102 then Some (n - 87)
     else if 65 \<le> n \<and> n \<le> 70 then Some (n - 55) else None)"

fun QueryUnescape :: "string \<Rightarrow> string option" where
  "QueryUnescape [] = Some []"
| "QueryUnescape (c # s) =
     (if c = CHR ''%'' then
        (case s of
           a # b # t \<Rightarrow>
             (case (unhex a, unhex b) of
                (Some x, Some y) \<Rightarrow> map_option (Cons (char_of (16 * x + y))) (QueryUnescape t)
              | _ \<Rightarrow> None)
         | _ \<Rightarrow> None)
      else map_option (Cons (if c = CHR ''+'' then CHR '' '' else c)) (QueryUnescape s))"

text \<open>\<open>strings.Cut\<close> at a character.\<close>

definition Cut :: "string \<Rightarrow> char \<Rightarrow> string \<times> string" where
  "Cut s c = (takeWhile (\<lambda>x. x \<noteq> c) s, tl (dropWhile (\<lambda>x. x \<noteq> c) s))"

function parseQuery :: "string \<Rightarrow> (string \<times> string) list" where
  "parseQuery query =
     (if query = [] then []
      else let (key, rest) = Cut query CHR ''&'';
               (k, v) = Cut key CHR ''=''
           in (if CHR '';'' \<in> set key \<or> key = [] then []
               else case (QueryUnescape k, QueryUnescape v) of (Some k, Some v) \<Rightarrow> [(k, v)] | _ \<Rightarrow> [])
              @ parseQuery rest)"
  by pat_completeness auto
termination
proof (relation "measure length")
  fix query :: string and x key rest
  assume "query \<noteq> []" "x = Cut query CHR ''&''" "(key, rest) = x"
  moreover have "length (dropWhile (\<lambda>x. x \<noteq> CHR ''&'') query) \<le> length query" by (rule length_dropWhile_le)
  ultimately show "(rest, query) \<in> measure length" by (cases query) (auto simp: Cut_def)
qed simp

definition Query_Get :: "string \<Rightarrow> string \<Rightarrow> string" where
  "Query_Get query key = (case map_of (parseQuery query) key of None \<Rightarrow> [] | Some v \<Rightarrow> v)"

definition WSPath :: string where
  "WSPath = ''/resonite-link/ws''"

definition BuildWSPath :: "string \<Rightarrow> string" where
  "BuildWSPath token = WSPath @ ''?'' @ (''token='' @ QueryEscape token)"

section \<open>Opening a connection\<close>

datatype StreamRequest = Req_Init string | Req_TextFrame string | Req_BinaryFrame string
datatype StreamResponse = Resp_Ready | Resp_TextFrame string | Resp_BinaryFrame string | Resp_None

text \<open>
  The stream of a container: opening it, sending, and receiving, which fails when the stream is cancelled at the
  given time. \<open>lk_ParseHost\<close> is the host of a URL, \<open>lk_Upgradable\<close> says whether the request asks for a WebSocket.
\<close>

record HttpRequest =
  Http_RawQuery :: string
  Http_Origin :: string
  Http_Host :: string

record 's link_env =
  lk_Open :: "RpcClient \<Rightarrow> 's res"
  lk_Send :: "'s \<Rightarrow> StreamRequest \<Rightarrow> unit res \<times> 's"
  lk_Recv :: "'s \<Rightarrow> time \<Rightarrow> StreamResponse res \<times> 's"
  lk_ParseHost :: "string \<Rightarrow> string option"
  lk_Upgradable :: "HttpRequest \<Rightarrow> bool"

record Bridge =
  Br_readyTimeout :: time
  Br_allowedOrigins :: "string list"

text \<open>\<open>strings.EqualFold\<close> on ASCII.\<close>

definition lower :: "char \<Rightarrow> char" where
  "lower c = (let n = of_char c :: nat in if 65 \<le> n \<and> n \<le> 90 then char_of (n + 32) else c)"

definition EqualFold :: "string \<Rightarrow> string \<Rightarrow> bool" where
  "EqualFold s t \<longleftrightarrow> map lower s = map lower t"

definition checkOrigin :: "'s link_env \<Rightarrow> Bridge \<Rightarrow> HttpRequest \<Rightarrow> bool" where
  "checkOrigin lk b r =
     (if Http_Origin r = [] then True
      else if Br_allowedOrigins b = [] then
        (case lk_ParseHost lk (Http_Origin r) of None \<Rightarrow> False | Some host \<Rightarrow> EqualFold host (Http_Host r))
      else list_ex (\<lambda>allowed. allowed = ''*'' \<or> EqualFold allowed (Http_Origin r)) (Br_allowedOrigins b))"

definition waitReady :: "'s link_env \<Rightarrow> 's \<Rightarrow> time \<Rightarrow> unit res \<times> 's" where
  "waitReady lk stream cancelAt =
     bindS (lk_Recv lk stream cancelAt) (\<lambda>msg stream.
     (if msg = Resp_Ready then Inr () else Inl (ErrMsg ''expected ResoniteLinkReady as first response''), stream))"

type_synonym http_error = "nat \<times> string"

text \<open>
  \<open>ServeHTTP\<close> up to the upgrade: the status and text of an error, or the session, its stream and the time at
  which the connection ends. The library refuses an upgrade with an answer of its own; status 0 stands
  for a connection dropped because the handler panics, on a token without an expiry.
\<close>

definition ServeHTTP ::
  "auth_env \<Rightarrow> 's link_env \<Rightarrow> 'w HostConnector \<Rightarrow> Bridge \<Rightarrow> time \<Rightarrow> 'w \<Rightarrow> db \<Rightarrow> HttpRequest \<Rightarrow> http_error + (string \<times> 's \<times> time)" where
  "ServeHTTP env lk con b now w d r =
     (let token = Query_Get (Http_RawQuery r) ''token'' in
      if token = [] then Inl (401, ''token required'')
      else
      bindR (map_err (\<lambda>_. (401, ''invalid token'')) (ParseResoniteLinkToken env now token)) (\<lambda>claims.
      bindR (map_err (\<lambda>e. if e = ErrNotFound then (404, ''session not found'') else (500, ''internal error''))
              (SessionRepository_Get d (Link_SessionID claims))) (\<lambda>sess.
      bindR (case Link_ExpiresAt claims of None \<Rightarrow> Inl (0, ''panic'') | Some t \<Rightarrow> Inr t) (\<lambda>deadline.
      bindR (map_err (\<lambda>_. (502, ''headless host unavailable'')) (HostRepository_GetRpcClient con w d (Session_HostID sess))) (\<lambda>client.
      bindR (map_err (\<lambda>_. (502, ''failed to open link stream'')) (lk_Open lk client)) (\<lambda>stream.
      case lk_Send lk stream (Req_Init (Link_SessionID claims)) of
        (Inl _, _) \<Rightarrow> Inl (502, ''failed to initialize link stream'')
      | (Inr _, stream) \<Rightarrow>
          (case waitReady lk stream (min deadline (now + Br_readyTimeout b)) of
             (Inl _, _) \<Rightarrow> Inl (502, ''headless host did not become ready'')
           | (Inr _, stream) \<Rightarrow>
               if \<not> lk_Upgradable lk r then Inl (400, ''Bad Request'')
               else if \<not> checkOrigin lk b r then Inl (403, ''Forbidden'')
               else Inr (Link_SessionID claims, stream, deadline))))))))"
section \<open>Forwarding frames\<close>

datatype WsFrame = Text string | Binary string | Other | Close

fun to_request :: "WsFrame \<Rightarrow> StreamRequest option" where
  "to_request (Text s) = Some (Req_TextFrame s)"
| "to_request (Binary s) = Some (Req_BinaryFrame s)"
| "to_request _ = None"

fun to_frame :: "StreamResponse \<Rightarrow> WsFrame option" where
  "to_frame (Resp_TextFrame s) = Some (Text s)"
| "to_frame (Resp_BinaryFrame s) = Some (Binary s)"
| "to_frame _ = None"

text \<open>
  \<open>pumpFrames\<close>: the frames still to come from the client and from the container, and how their streams end
  afterwards: \<open>None\<close> when they stay silent for ever (the client answering pings), a failed read or an end
  otherwise. \<open>pf_sent\<close> and \<open>pf_written\<close> are what the two sides got. \<open>pf_connClosed\<close> and \<open>pf_cancelled\<close> are the
  two things \<open>closeAll\<close> does; the deadline of the token only cancels. Sends and writes may fail at any time.
\<close>

datatype stream_end = Ended | Failed

record pump =
  pf_fromClient :: "WsFrame list"
  pf_clientEnd :: "stream_end option"
  pf_fromHost :: "StreamResponse list"
  pf_hostEnd :: "stream_end option"
  pf_sent :: "StreamRequest list"
  pf_halfClosed :: bool
  pf_written :: "WsFrame list"
  pf_ping :: bool
  pf_up :: bool
  pf_down :: bool
  pf_connClosed :: bool
  pf_cancelled :: bool

definition pumpFrames :: "WsFrame list \<Rightarrow> stream_end option \<Rightarrow> StreamResponse list \<Rightarrow> stream_end option \<Rightarrow> pump" where
  "pumpFrames cs ce hs he = \<lparr>pf_fromClient = cs, pf_clientEnd = ce, pf_fromHost = hs, pf_hostEnd = he, pf_sent = [], pf_halfClosed = False,
     pf_written = [], pf_ping = True, pf_up = True, pf_down = True, pf_connClosed = False, pf_cancelled = False\<rparr>"

definition closeAll :: "pump \<Rightarrow> pump" where
  "closeAll s = s\<lparr>pf_connClosed := True, pf_cancelled := True\<rparr>"

inductive pump_step :: "pump \<Rightarrow> pump \<Rightarrow> bool" where
  Up_frame: "pf_up s \<Longrightarrow> pf_fromClient s = f # fs \<Longrightarrow>
    pump_step s (s\<lparr>pf_fromClient := fs, pf_sent := pf_sent s @ (case to_request f of None \<Rightarrow> [] | Some q \<Rightarrow> [q])\<rparr>)"
| Up_send_fails: "pf_up s \<Longrightarrow> pf_fromClient s = f # fs \<Longrightarrow> to_request f \<noteq> None \<Longrightarrow>
    pump_step s (closeAll (s\<lparr>pf_fromClient := fs, pf_up := False\<rparr>))"
| Up_end: "pf_up s \<Longrightarrow> pf_fromClient s = [] \<Longrightarrow> pf_clientEnd s = Some e \<Longrightarrow>
    pump_step s (closeAll (s\<lparr>pf_halfClosed := (e = Ended), pf_up := False\<rparr>))"
| Up_closed: "pf_up s \<Longrightarrow> pf_connClosed s \<Longrightarrow> pump_step s (closeAll (s\<lparr>pf_up := False\<rparr>))"
| Down_frame: "pf_down s \<Longrightarrow> pf_fromHost s = m # ms \<Longrightarrow>
    pump_step s (s\<lparr>pf_fromHost := ms, pf_written := pf_written s @ (case to_frame m of None \<Rightarrow> [] | Some f \<Rightarrow> [f])\<rparr>)"
| Down_write_fails: "pf_down s \<Longrightarrow> pf_fromHost s = m # ms \<Longrightarrow> to_frame m \<noteq> None \<Longrightarrow>
    pump_step s (closeAll (s\<lparr>pf_fromHost := ms, pf_down := False\<rparr>))"
| Down_end: "pf_down s \<Longrightarrow> pf_fromHost s = [] \<Longrightarrow> pf_hostEnd s = Some e \<Longrightarrow>
    pump_step s (closeAll (s\<lparr>pf_written := pf_written s @ (if e = Ended \<and> \<not> pf_connClosed s then [Close] else []), pf_down := False\<rparr>))"
| Down_cancelled: "pf_down s \<Longrightarrow> pf_cancelled s \<Longrightarrow> pump_step s (closeAll (s\<lparr>pf_down := False\<rparr>))"
| Ping_fails: "pf_ping s \<Longrightarrow> pump_step s (closeAll (s\<lparr>pf_ping := False\<rparr>))"
| Ping_cancelled: "pf_ping s \<Longrightarrow> pf_cancelled s \<Longrightarrow> pump_step s (closeAll (s\<lparr>pf_ping := False\<rparr>))"
| Expire: "\<not> pf_cancelled s \<Longrightarrow> pump_step s (s\<lparr>pf_cancelled := True\<rparr>)"

lemma closeAll_simps [simp]: "pf_connClosed (closeAll s)" "pf_cancelled (closeAll s)" "pf_fromClient (closeAll s) = pf_fromClient s"
  "pf_fromHost (closeAll s) = pf_fromHost s" "pf_sent (closeAll s) = pf_sent s" "pf_written (closeAll s) = pf_written s"
  "pf_ping (closeAll s) = pf_ping s" "pf_up (closeAll s) = pf_up s" "pf_down (closeAll s) = pf_down s"
  by (simp_all add: closeAll_def)

text \<open>What was forwarded is the beginning of what came in.\<close>

definition requests :: "WsFrame list \<Rightarrow> StreamRequest list" where
  "requests fs = List.map_filter to_request fs"

definition frames :: "StreamResponse list \<Rightarrow> WsFrame list" where
  "frames ms = List.map_filter to_frame ms"

definition in_order :: "WsFrame list \<Rightarrow> StreamResponse list \<Rightarrow> pump \<Rightarrow> bool" where
  "in_order cs hs s \<longleftrightarrow> (\<exists>n \<le> length cs. pf_sent s = requests (take n cs) \<and> (if pf_up s then pf_fromClient s = drop n cs else True))
     \<and> (\<exists>n \<le> length hs. (pf_written s = frames (take n hs) \<or> \<not> pf_down s \<and> pf_written s = frames (take n hs) @ [Close])
          \<and> (if pf_down s then pf_fromHost s = drop n hs else True))
     \<and> (\<not> pf_ping s \<or> \<not> pf_up s \<or> \<not> pf_down s \<longrightarrow> pf_connClosed s) \<and> (pf_connClosed s \<longrightarrow> pf_cancelled s)"

lemma take_Suc_drop: "drop n xs = x # ys \<Longrightarrow> n < length xs \<and> take (Suc n) xs = take n xs @ [x] \<and> drop (Suc n) xs = ys"
  by (metis drop_Suc drop_eq_Nil2 linorder_not_less list.distinct(1) list.sel(1) list.sel(3) take_hd_drop tl_drop)

lemma requests_snoc: "requests (fs @ [f]) = requests fs @ (case to_request f of None \<Rightarrow> [] | Some q \<Rightarrow> [q])"
  by (auto simp: requests_def map_filter_def split: option.splits)

lemma frames_snoc: "frames (ms @ [m]) = frames ms @ (case to_frame m of None \<Rightarrow> [] | Some f \<Rightarrow> [f])"
  by (auto simp: frames_def map_filter_def split: option.splits)

interpretation link_pump: step_invariant pump_step "in_order cs hs" for cs hs
proof
  fix s t assume st: "pump_step s t" and inv: "in_order cs hs s"
  obtain n k where n: "n \<le> length cs" "pf_sent s = requests (take n cs)" "pf_up s \<Longrightarrow> pf_fromClient s = drop n cs"
    and k: "k \<le> length hs" "pf_written s = frames (take k hs) \<or> \<not> pf_down s \<and> pf_written s = frames (take k hs) @ [Close]"
      "pf_down s \<Longrightarrow> pf_fromHost s = drop k hs"
    and c: "\<not> pf_ping s \<or> \<not> pf_up s \<or> \<not> pf_down s \<longrightarrow> pf_connClosed s" "pf_connClosed s \<longrightarrow> pf_cancelled s"
    using inv unfolding in_order_def by (auto split: if_splits)
  show "in_order cs hs t"
    using st
  proof cases
    case (Up_frame f fs)
    then have "n < length cs" "take (Suc n) cs = take n cs @ [f]" "drop (Suc n) cs = fs" using n(3) take_Suc_drop by fastforce+
    then have "\<exists>m \<le> length cs. pf_sent t = requests (take m cs) \<and> (if pf_up t then pf_fromClient t = drop m cs else True)"
      using Up_frame n by (intro exI[of _ "Suc n"]) (simp add: requests_snoc)
    then show ?thesis using Up_frame k c unfolding in_order_def by auto
  next
    case (Down_frame m ms)
    then have "k < length hs" "take (Suc k) hs = take k hs @ [m]" "drop (Suc k) hs = ms" using k(3) take_Suc_drop by fastforce+
    then have "\<exists>m \<le> length hs. (pf_written t = frames (take m hs) \<or> \<not> pf_down t \<and> pf_written t = frames (take m hs) @ [Close])
          \<and> (if pf_down t then pf_fromHost t = drop m hs else True)"
      using Down_frame k by (intro exI[of _ "Suc k"]) (simp add: frames_snoc)
    then show ?thesis using Down_frame n c unfolding in_order_def by auto
  qed (use n k c in \<open>auto simp: in_order_def split: if_splits\<close>)
qed
section \<open>Properties of a connection\<close>

lemma pump_start: "in_order cs hs (pumpFrames cs ce hs he)"
  by (auto simp: in_order_def pumpFrames_def requests_def frames_def map_filter_def intro: exI[of _ 0])

text \<open>
  Frames are forwarded as they are. At any time the container has received exactly the text and binary frames among
  the first so many messages of the client, in order and each once, and the client those of the container,
  followed at most by a close frame, whatever fails and however the goroutines are scheduled.
\<close>

theorem link_frames_in_order:
  assumes "pump_step\<^sup>*\<^sup>* (pumpFrames cs ce hs he) s"
  shows "\<exists>n k. pf_sent s = requests (take n cs) \<and> (pf_written s = frames (take k hs) \<or> pf_written s = frames (take k hs) @ [Close])"
  using link_pump.reach_inv[OF assms pump_start] unfolding in_order_def by blast

definition pump_measure :: "pump \<Rightarrow> nat" where
  "pump_measure s = length (pf_fromClient s) + length (pf_fromHost s) + (if pf_up s then 1 else 0) + (if pf_down s then 1 else 0)
     + (if pf_ping s then 1 else 0) + (if pf_cancelled s then 0 else 1)"

lemma pump_step_decreases: "pump_step s t \<Longrightarrow> pump_measure t < pump_measure s"
  by (induction rule: pump_step.induct) (auto simp: pump_measure_def)

text \<open>
  C39: No connection outlives its token. The bridge makes no infinite run, and it can only come to rest when its
  three goroutines have returned, the WebSocket is closed and the stream of the container is cancelled;
  the expiry of the token alone is enough for that, even when both sides stay silent for ever.
\<close>

theorem link_connection_ends:
  "wf {(t, s). pump_step s t} \<and>
   (pump_step\<^sup>*\<^sup>* (pumpFrames cs ce hs he) s \<and> (\<forall>t. \<not> pump_step s t)
      \<longrightarrow> \<not> pf_ping s \<and> \<not> pf_up s \<and> \<not> pf_down s \<and> pf_connClosed s \<and> pf_cancelled s)"
proof (intro conjI impI)
  show "wf {(t, s). pump_step s t}"
    by (rule wf_subset[OF wf_measure[of pump_measure]]) (auto intro: pump_step_decreases)
  assume a: "pump_step\<^sup>*\<^sup>* (pumpFrames cs ce hs he) s \<and> (\<forall>t. \<not> pump_step s t)"
  then have inv: "in_order cs hs s" using link_pump.reach_inv pump_start by blast
  show can: "pf_cancelled s" using a Expire by blast
  show ping: "\<not> pf_ping s" using a can Ping_cancelled by blast
  then show closed: "pf_connClosed s" using inv unfolding in_order_def by blast
  show "\<not> pf_up s" using a closed Up_closed by blast
  show "\<not> pf_down s" using a can Down_cancelled by blast
qed

section \<open>From the token to the session\<close>

lemma char_halves: "(of_char c :: nat) div 16 < 16" "(of_char c :: nat) mod 16 < 16"
  using of_char_mod_256[of c, where 'a = nat] mod_less_divisor[of 256 "of_char c :: nat"] by (simp_all add: div_less_iff_less_mult)

lemma unhex_upper_hex: "n < 16 \<Longrightarrow> unhex (upper_hex n) = Some n"
  by (auto simp: unhex_def upper_hex_def of_char_of Let_def)

lemma escape_char_cases:
  "(unreserved c \<and> escape_char c = [c]) \<or> (c = CHR '' '' \<and> escape_char c = ''+'') \<or>
   escape_char c = [CHR ''%'', upper_hex (of_char c div 16), upper_hex (of_char c mod 16)]"
  by (auto simp: escape_char_def unreserved_def)

lemma unreserved_plain: "unreserved c \<Longrightarrow> c \<noteq> CHR ''%'' \<and> c \<noteq> CHR ''+'' \<and> c \<noteq> CHR ''&'' \<and> c \<noteq> CHR ''='' \<and> c \<noteq> CHR '';'' \<and> c \<noteq> CHR ''?''"
  by (auto simp: unreserved_def Let_def)

lemma QueryUnescape_escape: "QueryUnescape (QueryEscape s) = Some s"
proof (induction s)
  case (Cons c s)
  have "QueryEscape (c # s) = escape_char c @ QueryEscape s" by (simp add: QueryEscape_def)
  moreover have "unhex (upper_hex (of_char c div 16)) = Some (of_char c div 16)" "unhex (upper_hex (of_char c mod 16)) = Some (of_char c mod 16)"
    by (simp_all add: unhex_upper_hex char_halves)
  moreover have "char_of (16 * (of_char c div 16) + of_char c mod 16 :: nat) = c" by simp
  ultimately show ?case using Cons.IH escape_char_cases[of c] unreserved_plain[of c] by auto
qed (simp add: QueryEscape_def)

lemma upper_hex_plain: "n < 16 \<Longrightarrow> upper_hex n \<notin> set ''&=;?''"
proof -
  assume "n < 16"
  then have "(of_char (upper_hex n) :: nat) \<in> {48..57} \<union> {65..70}" by (auto simp: upper_hex_def of_char_of)
  then show ?thesis by auto
qed

lemma escape_plain: "set (QueryEscape s) \<inter> set ''&=;?'' = {}"
proof -
  have "set (escape_char c) \<inter> set ''&=;?'' = {}" for c
    using escape_char_cases[of c] unreserved_plain[of c] upper_hex_plain[OF char_halves(1)[of c]] upper_hex_plain[OF char_halves(2)[of c]]
    by auto
  then show ?thesis by (fastforce simp: QueryEscape_def)
qed

lemma Cut_absent: "c \<notin> set s \<Longrightarrow> Cut s c = (s, [])"
  by (induction s) (auto simp: Cut_def)

lemma Cut_at: "c \<notin> set a \<Longrightarrow> Cut (a @ c # b) c = (a, b)"
  by (induction a) (auto simp: Cut_def)

text \<open>The token can be read back from the path it was put into.\<close>

lemma Query_Get_token: "Query_Get (''token='' @ QueryEscape token) ''token'' = token"
proof -
  have e: "CHR ''&'' \<notin> set (QueryEscape token)" "CHR '';'' \<notin> set (QueryEscape token)" using escape_plain[of token] by auto
  have "Cut (''token='' @ QueryEscape token) CHR ''&'' = (''token='' @ QueryEscape token, [])" using e by (intro Cut_absent) auto
  moreover have "Cut (''token='' @ QueryEscape token) CHR ''='' = (''token'', QueryEscape token)"
    using Cut_at[of "CHR ''=''" "''token''" "QueryEscape token"] by simp
  moreover have "QueryUnescape ''token'' = Some ''token''" by simp
  ultimately have "parseQuery (''token='' @ QueryEscape token) = [(''token'', token)]"
    using e by (simp add: QueryUnescape_escape)
  then show ?thesis by (simp add: Query_Get_def)
qed
lemma case_step_Inr [ctrl_simps]:
  "(case p of (Inl _, _) \<Rightarrow> Inl e | (Inr _, s) \<Rightarrow> k s) = Inr y \<longleftrightarrow> (\<exists>x s. p = (Inr x, s) \<and> k s = Inr y)"
  by (cases p; cases "fst p") auto

lemma link_token_read:
  assumes "working_env env" "GenerateResoniteLinkToken env t0 userID sid ttl = Inr (tok, expiry)"
  shows "\<exists>lc. tok \<noteq> [] \<and> Link_SessionID lc = sid \<and> Link_ExpiresAt lc = Some (NewNumericDate (t0 + ttl))
     \<and> (\<forall>n < NewNumericDate (t0 + ttl). ParseResoniteLinkToken env n tok = Inr lc)
     \<and> (\<forall>n \<ge> NewNumericDate (t0 + ttl). isl (ParseResoniteLinkToken env n tok))"
proof -
  define lc where "lc = \<lparr>Link_UserID = userID, Link_SessionID = sid, Link_Audience = [ResoniteLinkAudience],
    Link_ExpiresAt = Some (NewNumericDate (t0 + ttl)), Link_IssuedAt = Some (NewNumericDate t0)\<rparr>"
  let ?p = "ResoniteLinkClaims_json lc"
  obtain tok' where t: "signJWT env ?p = Inr tok'" "tok' \<noteq> []" "\<And>now aud. pl_valid now aud ?p \<Longrightarrow> parseJWT env now aud tok' = Inr ?p"
    "\<And>now aud. \<not> pl_valid now aud ?p \<Longrightarrow> isl (parseJWT env now aud tok')"
    using signJWT_total[OF assms(1)] by metis
  have tok: "tok' = tok" using assms(2) t(1) by (simp add: GenerateResoniteLinkToken_def Let_def lc_def)
  have v: "pl_valid n (Some ResoniteLinkAudience) ?p \<longleftrightarrow> n < NewNumericDate (t0 + ttl)" for n
    by (simp add: pl_valid_def ResoniteLinkClaims_json_def lc_def)
  have "ParseResoniteLinkToken env n tok = Inr lc" if "n < NewNumericDate (t0 + ttl)" for n
    using t(3)[of n "Some ResoniteLinkAudience"] v that by (simp add: ParseResoniteLinkToken_def tok)
  moreover have "isl (ParseResoniteLinkToken env n tok)" if "n \<ge> NewNumericDate (t0 + ttl)" for n
    using t(4)[of n "Some ResoniteLinkAudience"] v that by (cases "parseJWT env n (Some ResoniteLinkAudience) tok") (auto simp: ParseResoniteLinkToken_def tok)
  ultimately show ?thesis using t(2) tok by (intro exI[of _ lc]) (simp add: lc_def)
qed

text \<open>
  C38: A link opens its session, until it expires. Take a token that was issued for a session and request the path that
  was built from it. From the moment it expires the answer is 401; before, a connection that is opened is
  one to that session, it will be cut at the expiry, and its origin was allowed; and it is opened, in
  whatever state the permissions of the user are by then, as soon as the session has a row, its host can
  be reached and becomes ready.
\<close>

theorem link_opens_session:
  assumes env: "working_env env" and issue: "IssueResoniteLinkConnection env t0 ttl d0 (Some claims) req = Inr (tok, expiry)"
    and path: "Http_RawQuery r = snd (Cut (BuildWSPath tok) CHR ''?'')"
  shows "(NewNumericDate (t0 + ttl) \<le> now \<longrightarrow> ServeHTTP env lk con b now w d r = Inl (401, ''invalid token''))
     \<and> (\<forall>sid stream deadline. ServeHTTP env lk con b now w d r = Inr (sid, stream, deadline)
          \<longrightarrow> sid = req_SessionId req \<and> now < deadline \<and> deadline = NewNumericDate (t0 + ttl) \<and> checkOrigin lk b r)
     \<and> (\<forall>sess client stream stream1 stream2. now < NewNumericDate (t0 + ttl) \<and> SessionRepository_Get d (req_SessionId req) = Inr sess
            \<and> HostRepository_GetRpcClient con w d (Session_HostID sess) = Inr client \<and> lk_Open lk client = Inr stream
            \<and> lk_Send lk stream (Req_Init (req_SessionId req)) = (Inr (), stream1)
            \<and> lk_Recv lk stream1 (min (NewNumericDate (t0 + ttl)) (now + Br_readyTimeout b)) = (Inr Resp_Ready, stream2)
            \<and> lk_Upgradable lk r \<and> checkOrigin lk b r
          \<longrightarrow> ServeHTTP env lk con b now w d r = Inr (req_SessionId req, stream2, NewNumericDate (t0 + ttl)))"
proof -
  have g: "GenerateResoniteLinkToken env t0 (Auth_UserID claims) (req_SessionId req) ttl = Inr (tok, expiry)"
    using issue by (auto simp: IssueResoniteLinkConnection_def IssueResoniteLinkToken_def GetAuthClaimsFromContext_def ctrl_simps split: if_splits)
  obtain lc where lc: "tok \<noteq> []" "Link_SessionID lc = req_SessionId req" "Link_ExpiresAt lc = Some (NewNumericDate (t0 + ttl))"
    and before: "now < NewNumericDate (t0 + ttl) \<Longrightarrow> ParseResoniteLinkToken env now tok = Inr lc"
    and after: "now \<ge> NewNumericDate (t0 + ttl) \<Longrightarrow> isl (ParseResoniteLinkToken env now tok)"
    using link_token_read[OF env g] by blast
  have "CHR ''?'' \<notin> set WSPath" by (simp add: WSPath_def)
  then have "Http_RawQuery r = ''token='' @ QueryEscape tok" using path Cut_at[of "CHR ''?''" WSPath] by (simp add: BuildWSPath_def)
  then have tok: "Query_Get (Http_RawQuery r) ''token'' = tok" using Query_Get_token by simp
  have late: "ServeHTTP env lk con b now w d r = Inl (401, ''invalid token'')" if "NewNumericDate (t0 + ttl) \<le> now"
    using after[OF that] lc(1) tok by (cases "ParseResoniteLinkToken env now tok") (auto simp: ServeHTTP_def)
  have opened: "sid = req_SessionId req \<and> deadline = NewNumericDate (t0 + ttl) \<and> checkOrigin lk b r"
    if "ServeHTTP env lk con b now w d r = Inr (sid, stream, deadline)" "now < NewNumericDate (t0 + ttl)" for sid stream deadline
    using that before lc tok by (auto simp: ServeHTTP_def ctrl_simps split: if_splits)
  show ?thesis using late opened before lc tok
    by (fastforce simp: ServeHTTP_def waitReady_def not_less)
qed

section \<open>Instances\<close>

text \<open>A container that is ready at once, and whose stream keeps what it was sent.\<close>

definition ready_link :: "StreamRequest list link_env" where
  "ready_link = \<lparr>lk_Open = (\<lambda>_. Inr []), lk_Send = (\<lambda>s q. (Inr (), s @ [q])), lk_Recv = (\<lambda>s _. (Inr Resp_Ready, s)),
     lk_ParseHost = Some, lk_Upgradable = (\<lambda>_. True)\<rparr>"

theorem link_frames_in_order_witness:
  "\<exists>s. pump_step\<^sup>*\<^sup>* (pumpFrames [Text ''a'', Other] None [Resp_BinaryFrame ''b''] (Some Ended)) s \<and> pf_sent s = [Req_TextFrame ''a'']"
proof -
  let ?s0 = "pumpFrames [Text ''a'', Other] None [Resp_BinaryFrame ''b''] (Some Ended)"
  let ?s1 = "?s0\<lparr>pf_fromClient := [Other], pf_sent := [Req_TextFrame ''a'']\<rparr>"
  have "pump_step ?s0 ?s1" using Up_frame[of ?s0 "Text ''a''" "[Other]"] by (simp add: pumpFrames_def)
  then have run: "pump_step\<^sup>*\<^sup>* ?s0 ?s1" by blast
  obtain n where "pf_sent ?s1 = requests (take n [Text ''a'', Other])" using link_frames_in_order[OF run] by blast
  moreover have "n = 0 \<or> requests (take n [Text ''a'', Other]) = [Req_TextFrame ''a'']"
    by (cases n; cases "n - 1") (auto simp: requests_def map_filter_def)
  ultimately show ?thesis using run by auto
qed

theorem link_connection_ends_witness:
  "\<exists>s. pump_step\<^sup>*\<^sup>* (pumpFrames [] None [] None) s \<and> \<not> pf_ping s \<and> \<not> pf_up s \<and> \<not> pf_down s \<and> pf_connClosed s"
proof -
  have wf: "wf {(t, s). pump_step s t}" using link_connection_ends by blast
  have "\<exists>s. pump_step\<^sup>*\<^sup>* s0 s \<and> (\<forall>t. \<not> pump_step s t)" for s0
    using wf
  proof (induction s0 rule: wf_induct_rule)
    case (less s0)
    then show ?case by (metis (mono_tags, lifting) case_prodI converse_rtranclp_into_rtranclp mem_Collect_eq rtranclp.rtrancl_refl)
  qed
  then show ?thesis using link_connection_ends[of "[]" None "[]" None] by blast
qed
theorem link_opens_session_witness:
  "\<exists>tok expiry. IssueResoniteLinkConnection sample_auth 0 Minute session_db (Some (user_claims \<lparr>User_ID = ''alice'', User_Password = [], User_ResoniteID = None, User_IconUrl = None\<rparr>))
        (plain_request (Controller ''IssueResoniteLinkConnection'') []) = Inr (tok, expiry)
     \<and> ServeHTTP sample_auth ready_link set_runtime \<lparr>Br_readyTimeout = 10, Br_allowedOrigins = []\<rparr> 1 {''h1''} session_db
         \<lparr>Http_RawQuery = snd (Cut (BuildWSPath tok) CHR ''?''), Http_Origin = [], Http_Host = ''x''\<rparr>
       = Inr (''s1'', [Req_Init ''s1''], NewNumericDate (0 + Minute))"
proof -
  let ?c = "user_claims \<lparr>User_ID = ''alice'', User_Password = [], User_ResoniteID = None, User_IconUrl = None\<rparr>"
  let ?req = "plain_request (Controller ''IssueResoniteLinkConnection'') []"
  have a: "Auth_UserID ?c = ''alice''" "req_SessionId ?req = ''s1''" by (simp_all add: user_claims_def plain_request_def)
  have "map_option Session_HostID (session_of session_db ''s1'') = Some ''h1''" by code_simp
  then obtain x where x: "SessionRepository_Get session_db ''s1'' = Inr x" "Session_HostID x = ''h1''"
    using SessionRepository_Get_total[of session_db "''s1''"] by (auto split: option.splits)
  obtain tok where g: "GenerateResoniteLinkToken sample_auth 0 ''alice'' ''s1'' Minute = Inr (tok, 0 + Minute)"
    using ResoniteLinkToken_authenticates[OF working_sample_auth, of 0 "''alice''" "''s1''" Minute] by blast
  have issue: "IssueResoniteLinkConnection sample_auth 0 Minute session_db (Some ?c) ?req = Inr (tok, 0 + Minute)"
    using x g a by (simp add: IssueResoniteLinkConnection_def IssueResoniteLinkToken_def GetAuthClaimsFromContext_def)
  let ?r = "\<lparr>Http_RawQuery = snd (Cut (BuildWSPath tok) CHR ''?''), Http_Origin = [], Http_Host = ''x''\<rparr>"
  have "(1 :: int) < NewNumericDate (0 + Minute)" by code_simp
  moreover have "HostRepository_GetRpcClient set_runtime {''h1''} session_db ''h1'' = Inr silent_client"
    by (simp add: HostRepository_GetRpcClient_def q_GetHost_def session_db_def plain_host_def getConnector_def HostConnectorType_DOCKER_def set_runtime_def)
  ultimately have "ServeHTTP sample_auth ready_link set_runtime \<lparr>Br_readyTimeout = 10, Br_allowedOrigins = []\<rparr> 1 {''h1''} session_db ?r
      = Inr (req_SessionId ?req, [Req_Init ''s1''], NewNumericDate (0 + Minute))"
    using x a(2)
    by (intro link_opens_session[OF working_sample_auth issue, THEN conjunct2, THEN conjunct2, rule_format,
          of ?r 1 session_db x set_runtime "{''h1''}" silent_client ready_link "[]" "[Req_Init ''s1'']"])
       (simp_all add: ready_link_def checkOrigin_def)
  then show ?thesis using issue a(2) by auto
qed

end
