(* ===== verification/Skyfrost.thy ===== *)
theory Skyfrost
  imports Complex_Main Golib
begin

text \<open>
  The client of the Resonite cloud (\<open>lib/skyfrost\<close>): logging in with a cache of sessions, reading user
  information, contacts, storage and worlds, and uploading an icon in chunks. The network is a
  parameter: a request is answered, and the state of the cloud may change. URLs, JSON, SHA-256, the
  random ids and the codecs for images are parameters too; the code around them is modelled.
\<close>

section \<open>Requests\<close>

record HttpReq =
  Hr_Method :: string
  Hr_Url :: string
  Hr_Headers :: "(string \<times> string) list"
  Hr_Body :: "string option"

text \<open>A response: status, headers, and what can be read of the body before it ends or fails.\<close>

record HttpResp =
  Rs_StatusCode :: int
  Rs_Headers :: "(string \<times> string) list"
  Rs_Body :: string
  Rs_ReadErr :: "err option"

record RecordVersion =
  Rv_GlobalVersion :: int
  Rv_LocalVersion :: int
  Rv_LastModifyingUserId :: string
  Rv_LastModifyingMachineId :: string

record Record =
  Rec_Id :: string
  Rec_OwnerId :: string
  Rec_AssetUri :: string
  Rec_Version :: RecordVersion
  Rec_Name :: string
  Rec_Description :: string
  Rec_RecordType :: string
  Rec_OwnerName :: string
  Rec_Tags :: "string list"
  Rec_Path :: string
  Rec_ThumbnailUri :: string
  Rec_LastModificationTime :: string
  Rec_CreationTime :: string
  Rec_IsDeleted :: bool
  Rec_IsPublic :: bool
  Rec_IsForPatrons :: bool
  Rec_IsListed :: bool
  Rec_IsReadOnly :: bool
  Rec_Visits :: int
  Rec_Rating :: real
  Rec_RandomOrder :: int
  Rec_AssetManifest :: "(string \<times> int) list"

type_synonym AssetDiffState = int

record AssetDiff =
  Ad_Hash :: string
  Ad_Bytes :: int
  Ad_State :: AssetDiffState
  Ad_IsUploaded :: bool

record RecordPreprocessStatus =
  Ps_Id :: string
  Ps_OwnerId :: string
  Ps_RecordId :: string
  Ps_State :: string
  Ps_Progress :: real
  Ps_FailReason :: string
  Ps_ResultDiffs :: "AssetDiff list"

record AssetChunk =
  Ac_Index :: int
  Ac_Key :: string

record AssetUploadData =
  Au_Hash :: string
  Au_Variant :: string
  Au_Id :: string
  Au_OwnerId :: string
  Au_TotalBytes :: int
  Au_ChunkSize :: int
  Au_TotalChunks :: int
  Au_UploadState :: string
  Au_UploadKey :: string
  Au_UploadEndpoint :: string
  Au_IsDirectUpload :: bool
  Au_MaxUploadConcurrency :: int
  Au_Chunks :: "AssetChunk list"
  Au_CreatedOn :: string
  Au_LastChunkSize :: int

record UserProfile =
  Up_IconUrl :: string
  Up_Tagline :: string
  Up_DisplayBadges :: "(string \<times> string) list"
  Up_Description :: string

record Contact =
  Ct_Id :: string
  Ct_Username :: string
  Ct_Status :: string
  Ct_IsAccepted :: bool
  Ct_Profile :: UserProfile

record StorageInfo =
  Si_Id :: string
  Si_OwnerId :: string
  Si_UsedBytes :: int
  Si_QuotaBytes :: int
  Si_FullQuotaBytes :: int
  Si_ShareableQuotaBytes :: int

record searchWorldsRequest =
  Sw_RecordType :: string
  Sw_Count :: int
  Sw_Offset :: int
  Sw_Private :: bool
  Sw_OnlyFeatured :: bool
  Sw_SortBy :: string
  Sw_SortDirection :: string
  Sw_SubmittedTo :: string
  Sw_ByOwner :: string
  Sw_OptionalTags :: "string list"
  Sw_RequiredTags :: "string list"
  Sw_ExcludedTags :: "string list"

record searchWorldsResponse_Record =
  Sr_Id :: string
  Sr_OwnerId :: string
  Sr_OwnerName :: string
  Sr_Name :: string
  Sr_Description :: string
  Sr_Submissions :: "bool list"
  Sr_ThumbnailUri :: string

record WorldRecord =
  Wr_ID :: string
  Wr_OwnerID :: string
  Wr_OwnerName :: string
  Wr_Name :: string
  Wr_Description :: string
  Wr_ThumbnailUri :: string
  Wr_IsFeatured :: bool

text \<open>
  What the client uses: the network with its clock, one second of waiting (which says whether the call was
  cancelled meanwhile), URLs, the JSON codecs by type, the lookups of \<open>gjson\<close>, and the rest.
\<close>

record 'c cloud_env =
  sf_Do :: "'c \<Rightarrow> HttpReq \<Rightarrow> HttpResp res \<times> 'c"
  sf_Now :: "'c \<Rightarrow> time"
  sf_Sleep :: "'c \<Rightarrow> bool \<times> 'c"
  sf_NewRequest :: "HttpReq \<Rightarrow> unit res"
  sf_JoinPath :: "string \<Rightarrow> string list \<Rightarrow> string res"
  sf_Sha256Hex :: "string \<Rightarrow> string"
  sf_Uid :: string
  sf_MachineID :: string
  sf_FormatTime :: "time \<Rightarrow> string"
  sf_ParseTime :: "string \<Rightarrow> time res"
  sf_LoginJson :: "string \<Rightarrow> string \<Rightarrow> string \<Rightarrow> string \<Rightarrow> string res"
  sf_ParseLogin :: "string \<Rightarrow> (string \<times> string \<times> string) res"
  sf_gjson :: "string \<Rightarrow> string \<Rightarrow> string option"
  sf_gjsonValid :: "string \<Rightarrow> bool"
  sf_RecordJson :: "Record \<Rightarrow> string res"
  sf_ParseStatus :: "string \<Rightarrow> RecordPreprocessStatus res"
  sf_UploadJson :: "AssetUploadData \<Rightarrow> string res"
  sf_ParseUpload :: "string \<Rightarrow> AssetUploadData res"
  sf_ParseETag :: "string \<Rightarrow> string res"
  sf_ProfileJson :: "UserProfile \<Rightarrow> string res"
  sf_ParseContacts :: "string \<Rightarrow> Contact list res"
  sf_ParseStorage :: "string \<Rightarrow> StorageInfo res"
  sf_SearchJson :: "searchWorldsRequest \<Rightarrow> string res"
  sf_ParseWorlds :: "string \<Rightarrow> searchWorldsResponse_Record list res"

definition API_BASE_URL :: string where
  "API_BASE_URL = ''https://api.resonite.com''"

text \<open>Sending a request; a body is read completely, and an error of the network keeps the text given.\<close>

definition send :: "'c cloud_env \<Rightarrow> 'c \<Rightarrow> HttpReq \<Rightarrow> HttpResp res \<times> 'c" where
  "send sf c req = checkS (sf_NewRequest sf req) c (\<lambda>_. sf_Do sf c req)"

definition read_body :: "HttpResp \<Rightarrow> string res" where
  "read_body resp = (case Rs_ReadErr resp of None \<Rightarrow> Inr (Rs_Body resp) | Some e \<Rightarrow> Inl e)"

text \<open>The common end of the calls: any status but 200 is an error, the rest is read and decoded.\<close>

definition ok_body :: "string \<Rightarrow> HttpResp \<Rightarrow> string res" where
  "ok_body what resp = (if Rs_StatusCode resp \<noteq> 200 then Inl (ErrMsg what) else read_body resp)"

section \<open>Users and sessions\<close>

record UserSession =
  Us_UserId :: string
  Us_token :: string
  Us_expire :: time

definition makeApiRequest :: "UserSession \<Rightarrow> string \<Rightarrow> string \<Rightarrow> string option \<Rightarrow> HttpReq" where
  "makeApiRequest s verb url body = \<lparr>Hr_Method = verb, Hr_Url = url,
     Hr_Headers = (if body \<noteq> None then [(''Content-Type'', ''application/json'')] else [])
       @ [(''Accept'', ''application/json''), (''Authorization'', ''res '' @ Us_UserId s @ '':'' @ Us_token s)],
     Hr_Body = body\<rparr>"

record CloudUserInfo =
  Cu_ID :: string
  Cu_UserName :: string
  Cu_NormalizedUserName :: string
  Cu_IconUrl :: string

definition gjson_required :: "'c cloud_env \<Rightarrow> string \<Rightarrow> string \<Rightarrow> string res" where
  "gjson_required sf body key = (case sf_gjson sf body key of
     None \<Rightarrow> Inl (ErrMsg (''failed to fetch user info: '' @ key @ '' not found'')) | Some v \<Rightarrow> Inr v)"

definition FetchUserInfo :: "'c cloud_env \<Rightarrow> 'c \<Rightarrow> string \<Rightarrow> CloudUserInfo res \<times> 'c" where
  "FetchUserInfo sf c resoniteID =
     checkS (sf_JoinPath sf API_BASE_URL [''users'', resoniteID]) c (\<lambda>url.
     bindS (send sf c \<lparr>Hr_Method = ''GET'', Hr_Url = url, Hr_Headers = [], Hr_Body = None\<rparr>) (\<lambda>resp c.
     (bindR (read_body resp) (\<lambda>body.
      if Rs_StatusCode resp > 299 then Inl (ErrMsg (''failed to fetch user info: '' @ body))
      else if \<not> sf_gjsonValid sf body then Inl (ErrMsg (''failed to fetch user info: invalid json: '' @ body))
      else
        bindR (gjson_required sf body ''id'') (\<lambda>i.
        bindR (gjson_required sf body ''username'') (\<lambda>name.
        bindR (gjson_required sf body ''normalizedUsername'') (\<lambda>normalized.
        Inr \<lparr>Cu_ID = i, Cu_UserName = name, Cu_NormalizedUserName = normalized,
             Cu_IconUrl = (case sf_gjson sf body ''profile.iconUrl'' of None \<Rightarrow> [] | Some v \<Rightarrow> v)\<rparr>)))), c)))"

definition minute :: time where
  "minute = 60 * 1000000"

definition IsValid :: "time \<Rightarrow> UserSession \<Rightarrow> bool" where
  "IsValid now s \<longleftrightarrow> now + minute < Us_expire s"

text \<open>\<open>sf_LoginJson\<close> gets the field of the credential, its value, the password and the secret machine id.\<close>

definition UserLogin :: "'c cloud_env \<Rightarrow> 'c \<Rightarrow> string \<Rightarrow> string \<Rightarrow> string \<Rightarrow> UserSession res \<times> 'c" where
  "UserLogin sf c machineId credential password =
     checkS (sf_JoinPath sf API_BASE_URL [''userSessions'']) c (\<lambda>url.
     checkS (sf_LoginJson sf (if HasPrefix credential ''U-'' then ''ownerId'' else ''email'') credential password machineId) c (\<lambda>reqBody.
     bindS (send sf c \<lparr>Hr_Method = ''POST'', Hr_Url = url,
              Hr_Headers = [(''Content-Type'', ''application/json''), (''Accept'', ''application/json''), (''Uid'', sf_Uid sf)],
              Hr_Body = Some reqBody\<rparr>) (\<lambda>resp c.
     (bindR (ok_body ''failed to login'' resp) (\<lambda>body.
      bindR (sf_ParseLogin sf body) (\<lambda>(userId, token, expire).
      bindR (sf_ParseTime sf expire) (\<lambda>expireTime.
      Inr \<lparr>Us_UserId = userId, Us_token = token, Us_expire = expireTime\<rparr>))), c))))"

definition UpdateUserProfile :: "'c cloud_env \<Rightarrow> 'c \<Rightarrow> UserSession \<Rightarrow> UserProfile \<Rightarrow> unit res \<times> 'c" where
  "UpdateUserProfile sf c s profile =
     checkS (sf_JoinPath sf API_BASE_URL [''users'', Us_UserId s, ''profile'']) c (\<lambda>url.
     checkS (sf_ProfileJson sf profile) c (\<lambda>body.
     bindS (send sf c (makeApiRequest s ''PUT'' url (Some body))) (\<lambda>resp c.
     (if Rs_StatusCode resp \<noteq> 200 then Inl (ErrMsg ''failed to update profile'') else Inr (), c))))"

definition GetContacts :: "'c cloud_env \<Rightarrow> 'c \<Rightarrow> UserSession \<Rightarrow> Contact list res \<times> 'c" where
  "GetContacts sf c s =
     checkS (sf_JoinPath sf API_BASE_URL [''users'', Us_UserId s, ''contacts'']) c (\<lambda>url.
     bindS (send sf c (makeApiRequest s ''GET'' url None)) (\<lambda>resp c.
     (bindR (ok_body ''failed to get contacts'' resp) (sf_ParseContacts sf), c)))"

definition GetStorage :: "'c cloud_env \<Rightarrow> 'c \<Rightarrow> UserSession \<Rightarrow> string \<Rightarrow> StorageInfo res \<times> 'c" where
  "GetStorage sf c s ownerId =
     checkS (sf_JoinPath sf API_BASE_URL [''users'', ownerId, ''storage'']) c (\<lambda>url.
     bindS (send sf c (makeApiRequest s ''GET'' url None)) (\<lambda>resp c.
     (bindR (ok_body ''failed to login'' resp) (sf_ParseStorage sf), c)))"

section \<open>Worlds\<close>

definition maxWorldSearchCount :: int where
  "maxWorldSearchCount = 20"

fun search_term :: "string list \<times> string list \<times> string list \<Rightarrow> string \<Rightarrow> string list \<times> string list \<times> string list" where
  "search_term (optional, required, excluded) [] = (optional, required, excluded)"
| "search_term (optional, required, excluded) (c # term) =
     (if c = CHR ''+'' then (optional, if term \<noteq> [] then required @ [term] else required, excluded)
      else if c = CHR ''-'' then (optional, required, if term \<noteq> [] then excluded @ [term] else excluded)
      else (optional @ [c # term], required, excluded))"

definition parseSearchTerms :: "string \<Rightarrow> string list \<times> string list \<times> string list" where
  "parseSearchTerms query = foldl search_term ([], [], []) (Fields (TrimSpace query))"

definition world_record :: "searchWorldsResponse_Record \<Rightarrow> WorldRecord" where
  "world_record r = \<lparr>Wr_ID = Sr_Id r, Wr_OwnerID = Sr_OwnerId r, Wr_OwnerName = Sr_OwnerName r, Wr_Name = Sr_Name r,
     Wr_Description = Sr_Description r, Wr_ThumbnailUri = Sr_ThumbnailUri r,
     Wr_IsFeatured = (case Sr_Submissions r of [] \<Rightarrow> False | f # _ \<Rightarrow> f)\<rparr>"

definition worlds_answer :: "'c cloud_env \<Rightarrow> string \<Rightarrow> HttpResp \<Rightarrow> (WorldRecord list \<times> bool) res" where
  "worlds_answer sf what resp =
     bindR (read_body resp) (\<lambda>body.
     if Rs_StatusCode resp \<noteq> 200 then Inl (ErrMsg what)
     else bindR (sf_ParseWorlds sf body) (\<lambda>records.
       Inr (map world_record records, int (length records) \<ge> maxWorldSearchCount)))"

definition SearchWorlds :: "'c cloud_env \<Rightarrow> 'c \<Rightarrow> string \<Rightarrow> bool \<Rightarrow> int \<Rightarrow> (WorldRecord list \<times> bool) res \<times> 'c" where
  "SearchWorlds sf c query featuredOnly pageIndex =
     (let (optionalTags, requiredTags, excludedTags) = parseSearchTerms query in
      checkS (sf_SearchJson sf \<lparr>Sw_RecordType = ''world'', Sw_Count = maxWorldSearchCount, Sw_Offset = wrap64 (maxWorldSearchCount * pageIndex), Sw_Private = False, Sw_OnlyFeatured = featuredOnly,
                Sw_SortBy = ''FirstPublishTime'', Sw_SortDirection = ''Descending'', Sw_SubmittedTo = ''G-Resonite'', Sw_ByOwner = [],
                Sw_OptionalTags = optionalTags, Sw_RequiredTags = requiredTags, Sw_ExcludedTags = excludedTags\<rparr>) c (\<lambda>body.
      bindS (send sf c \<lparr>Hr_Method = ''POST'', Hr_Url = API_BASE_URL @ ''/records/pagedSearch'',
               Hr_Headers = [(''Content-Type'', ''application/json''), (''Accept'', ''application/json'')], Hr_Body = Some body\<rparr>) (\<lambda>resp c.
      (worlds_answer sf ''search worlds failed'' resp, c))))"

definition SearchOwnWorlds :: "'c cloud_env \<Rightarrow> 'c \<Rightarrow> UserSession \<Rightarrow> int \<Rightarrow> (WorldRecord list \<times> bool) res \<times> 'c" where
  "SearchOwnWorlds sf c s pageIndex =
     checkS (sf_SearchJson sf \<lparr>Sw_RecordType = ''world'', Sw_Count = maxWorldSearchCount, Sw_Offset = wrap64 (maxWorldSearchCount * pageIndex), Sw_Private = True, Sw_OnlyFeatured = False,
               Sw_SortBy = ''LastUpdateDate'', Sw_SortDirection = ''Descending'', Sw_SubmittedTo = [], Sw_ByOwner = Us_UserId s,
               Sw_OptionalTags = [], Sw_RequiredTags = [], Sw_ExcludedTags = []\<rparr>) c (\<lambda>body.
     bindS (send sf c (makeApiRequest s ''POST'' (API_BASE_URL @ ''/records/pagedSearch'') (Some body))) (\<lambda>resp c.
     (worlds_answer sf ''search own worlds failed'' resp, c)))"

section \<open>Uploading an icon\<close>

definition GenerateRecordID :: "string \<Rightarrow> string" where
  "GenerateRecordID uuid = ''R-'' @ uuid"

definition ComputeAssetHash :: "'c cloud_env \<Rightarrow> string \<Rightarrow> string" where
  "ComputeAssetHash sf data = sf_Sha256Hex sf data"

definition ownerType :: "string \<Rightarrow> string" where
  "ownerType ownerId = (if ownerId \<noteq> [] \<and> hd ownerId = CHR ''G'' then ''groups'' else ''users'')"

definition PreprocessRecord :: "'c cloud_env \<Rightarrow> 'c \<Rightarrow> UserSession \<Rightarrow> Record \<Rightarrow> RecordPreprocessStatus res \<times> 'c" where
  "PreprocessRecord sf c s rec =
     checkS (sf_JoinPath sf API_BASE_URL [ownerType (Rec_OwnerId rec), Rec_OwnerId rec, ''records'', Rec_Id rec, ''preprocess'']) c (\<lambda>url.
     checkS (sf_RecordJson sf rec) c (\<lambda>body.
     bindS (send sf c (makeApiRequest s ''POST'' url (Some body))) (\<lambda>resp c.
     (bindR (ok_body ''failed to preprocess record'' resp) (sf_ParseStatus sf), c))))"

definition GetPreprocessStatus :: "'c cloud_env \<Rightarrow> 'c \<Rightarrow> UserSession \<Rightarrow> string \<Rightarrow> string \<Rightarrow> string \<Rightarrow> RecordPreprocessStatus res \<times> 'c" where
  "GetPreprocessStatus sf c s ownerId recordId preprocessId =
     checkS (sf_JoinPath sf API_BASE_URL [ownerType ownerId, ownerId, ''records'', recordId, ''preprocess'', preprocessId]) c (\<lambda>url.
     bindS (send sf c (makeApiRequest s ''GET'' url None)) (\<lambda>resp c.
     (bindR (ok_body ''failed to get preprocess status'' resp) (sf_ParseStatus sf), c)))"

text \<open>Polling: at most so many times, with a second in between that ends the call when it is cancelled.\<close>

definition pause :: "'c cloud_env \<Rightarrow> 'c \<Rightarrow> unit res \<times> 'c" where
  "pause sf c = (let (cancelled, c) = sf_Sleep sf c in (if cancelled then Inl ErrCanceled else Inr (), c))"

fun poll_preprocess :: "nat \<Rightarrow> 'c cloud_env \<Rightarrow> 'c \<Rightarrow> UserSession \<Rightarrow> string \<Rightarrow> string \<Rightarrow> string \<Rightarrow> AssetDiff list res \<times> 'c" where
  "poll_preprocess 0 sf c s ownerId recordId preprocessId = (Inl (ErrMsg ''preprocess timeout''), c)"
| "poll_preprocess (Suc n) sf c s ownerId recordId preprocessId =
     bindS (GetPreprocessStatus sf c s ownerId recordId preprocessId) (\<lambda>status c.
     if Ps_State status = ''Success'' then (Inr (Ps_ResultDiffs status), c)
     else if Ps_State status = ''Failed'' then (Inl (ErrMsg (''preprocess failed: '' @ Ps_FailReason status)), c)
     else bindS (pause sf c) (\<lambda>_ c. poll_preprocess n sf c s ownerId recordId preprocessId))"

definition WaitForPreprocess :: "'c cloud_env \<Rightarrow> 'c \<Rightarrow> UserSession \<Rightarrow> string \<Rightarrow> string \<Rightarrow> string \<Rightarrow> AssetDiff list res \<times> 'c" where
  "WaitForPreprocess sf c s ownerId recordId preprocessId = poll_preprocess 60 sf c s ownerId recordId preprocessId"

text \<open>Nothing is answered for an asset that the cloud has already.\<close>

definition StartAssetUpload :: "'c cloud_env \<Rightarrow> 'c \<Rightarrow> UserSession \<Rightarrow> string \<Rightarrow> string \<Rightarrow> int \<Rightarrow> AssetUploadData option res \<times> 'c" where
  "StartAssetUpload sf c s ownerId hash totalBytes =
     checkS (sf_JoinPath sf API_BASE_URL [ownerType ownerId, ownerId, ''assets'', hash, ''upload'']) c (\<lambda>url.
     bindS (send sf c (makeApiRequest s ''POST'' (url @ ''?size='' @ show_int totalBytes) None)) (\<lambda>resp c.
     (if Rs_StatusCode resp = 400 then
        (if Contains (Rs_Body resp) ''AlreadyUploaded'' then Inr None else Inl (ErrMsg ''failed to start asset upload''))
      else bindR (ok_body ''failed to start asset upload'' resp) (\<lambda>body. bindR (sf_ParseUpload sf body) (\<lambda>u. Inr (Some u))), c)))"

text \<open>
  The part of the data that is sent as the i-th chunk: from the offset to its end, which is computed in 64
  bits; \<open>None\<close> where the slice expression of the code panics.
\<close>

definition chunk_end :: "AssetUploadData \<Rightarrow> string \<Rightarrow> int \<Rightarrow> int \<Rightarrow> int" where
  "chunk_end u data i offset =
     min (wrap64 (offset + (if i = Au_TotalChunks u - 1 \<and> Au_LastChunkSize u > 0 then Au_LastChunkSize u else Au_ChunkSize u))) (int (length data))"

definition slice :: "string \<Rightarrow> int \<Rightarrow> int \<Rightarrow> string option" where
  "slice data a b = (if 0 \<le> a \<and> a \<le> b \<and> b \<le> int (length data) then Some (take (nat b - nat a) (drop (nat a) data)) else None)"

definition chunk_request :: "AssetUploadData \<Rightarrow> int \<Rightarrow> string \<Rightarrow> HttpReq" where
  "chunk_request u i chunkData = \<lparr>Hr_Method = ''PUT'', Hr_Url = Au_UploadEndpoint u,
     Hr_Headers = [(''Upload-Key'', Au_UploadKey u), (''Content-Length'', show_int (int (length chunkData))),
       if Au_IsDirectUpload u then (''Upload-Timestamp'', Au_CreatedOn u) else (''Part-Number'', show_int (i + 1))],
     Hr_Body = Some chunkData\<rparr>"

definition header :: "HttpResp \<Rightarrow> string \<Rightarrow> string" where
  "header resp name = (case map_of (Rs_Headers resp) name of None \<Rightarrow> [] | Some v \<Rightarrow> v)"

definition etag_of :: "'c cloud_env \<Rightarrow> HttpResp \<Rightarrow> string" where
  "etag_of sf resp = (if header resp ''ETag'' \<noteq> [] then header resp ''ETag''
     else case sf_ParseETag sf (Rs_Body resp) of Inl _ \<Rightarrow> [] | Inr etag \<Rightarrow> etag)"

fun upload_chunks :: "'c cloud_env \<Rightarrow> AssetUploadData \<Rightarrow> string \<Rightarrow> 'c \<Rightarrow> int list \<Rightarrow> int \<Rightarrow> AssetChunk list \<Rightarrow> AssetChunk list res \<times> 'c" where
  "upload_chunks sf u data c [] offset chunks = (Inr chunks, c)"
| "upload_chunks sf u data c (i # is) offset chunks =
     (case slice data offset (chunk_end u data i offset) of
        None \<Rightarrow> (Inl (ErrMsg ''runtime error: slice bounds out of range''), c)
      | Some chunkData \<Rightarrow>
          bindS (send sf c (chunk_request u i chunkData)) (\<lambda>resp c.
          checkS (ok_body ''failed to upload chunk'' resp) c (\<lambda>_.
          upload_chunks sf u data c is (chunk_end u data i offset)
            (if Au_IsDirectUpload u then chunks else chunks @ [\<lparr>Ac_Index = i, Ac_Key = etag_of sf resp\<rparr>]))))"

definition UploadAssetChunks :: "'c cloud_env \<Rightarrow> 'c \<Rightarrow> AssetUploadData \<Rightarrow> string \<Rightarrow> AssetChunk list res \<times> 'c" where
  "UploadAssetChunks sf c u data = upload_chunks sf u data c [0..Au_TotalChunks u - 1] 0 []"

definition FinalizeAssetUpload :: "'c cloud_env \<Rightarrow> 'c \<Rightarrow> UserSession \<Rightarrow> string \<Rightarrow> AssetUploadData \<Rightarrow> AssetChunk list \<Rightarrow> unit res \<times> 'c" where
  "FinalizeAssetUpload sf c s ownerId u chunks =
     checkS (sf_JoinPath sf API_BASE_URL [ownerType ownerId, ownerId, ''assets'', Au_Hash u, ''upload'', Au_Id u]) c (\<lambda>url.
     checkS (sf_UploadJson sf (u\<lparr>Au_Chunks := chunks\<rparr>)) c (\<lambda>body.
     bindS (send sf c (makeApiRequest s ''PATCH'' url (Some body))) (\<lambda>resp c.
     (if Rs_StatusCode resp \<noteq> 200 then Inl (ErrMsg ''failed to finalize upload'') else Inr (), c))))"

fun poll_upload :: "nat \<Rightarrow> 'c cloud_env \<Rightarrow> 'c \<Rightarrow> UserSession \<Rightarrow> string \<Rightarrow> string \<Rightarrow> string \<Rightarrow> unit res \<times> 'c" where
  "poll_upload 0 sf c s ownerId hash uploadId = (Inl (ErrMsg ''upload timeout''), c)"
| "poll_upload (Suc n) sf c s ownerId hash uploadId =
     checkS (sf_JoinPath sf API_BASE_URL [ownerType ownerId, ownerId, ''assets'', hash, ''upload'', uploadId]) c (\<lambda>url.
     bindS (send sf c (makeApiRequest s ''GET'' url None)) (\<lambda>resp c.
     checkS (bindR (read_body resp) (\<lambda>body.
             if Rs_StatusCode resp \<noteq> 200 then Inl (ErrMsg ''failed to get upload status'') else sf_ParseUpload sf body)) c (\<lambda>status.
     if Au_UploadState status = ''Uploaded'' then (Inr (), c)
     else if Au_UploadState status = ''Failed'' then (Inl (ErrMsg ''upload failed''), c)
     else bindS (pause sf c) (\<lambda>_ c. poll_upload n sf c s ownerId hash uploadId))))"

definition WaitForAssetUpload :: "'c cloud_env \<Rightarrow> 'c \<Rightarrow> UserSession \<Rightarrow> string \<Rightarrow> string \<Rightarrow> string \<Rightarrow> unit res \<times> 'c" where
  "WaitForAssetUpload sf c s ownerId hash uploadId = poll_upload 120 sf c s ownerId hash uploadId"

text \<open>The steps that upload data under a hash, common to \<open>UploadAsset\<close> and \<open>UploadTextureRecord\<close>.\<close>

definition upload_data :: "'c cloud_env \<Rightarrow> 'c \<Rightarrow> UserSession \<Rightarrow> string \<Rightarrow> string \<Rightarrow> string \<Rightarrow> unit res \<times> 'c" where
  "upload_data sf c s ownerId hash data =
     bindS (StartAssetUpload sf c s ownerId hash (int (length data))) (\<lambda>uploadData c.
     case uploadData of
       None \<Rightarrow> (Inr (), c)
     | Some u \<Rightarrow>
         bindS (UploadAssetChunks sf c u data) (\<lambda>chunks c.
         bindS (if Au_IsDirectUpload u then (Inr (), c) else FinalizeAssetUpload sf c s ownerId u chunks) (\<lambda>_ c.
         WaitForAssetUpload sf c s ownerId hash (Au_Id u))))"

definition UploadAsset :: "'c cloud_env \<Rightarrow> 'c \<Rightarrow> UserSession \<Rightarrow> string \<Rightarrow> string \<Rightarrow> string res \<times> 'c" where
  "UploadAsset sf c s ownerId data =
     (let hash = ComputeAssetHash sf data in
      bindS (upload_data sf c s ownerId hash data) (\<lambda>_ c. (Inr (''resdb:///'' @ hash), c)))"

definition UpsertRecord :: "'c cloud_env \<Rightarrow> 'c \<Rightarrow> UserSession \<Rightarrow> Record \<Rightarrow> unit res \<times> 'c" where
  "UpsertRecord sf c s rec =
     checkS (sf_JoinPath sf API_BASE_URL [ownerType (Rec_OwnerId rec), Rec_OwnerId rec, ''records'', Rec_Id rec]) c (\<lambda>url.
     checkS (sf_RecordJson sf rec) c (\<lambda>body.
     bindS (send sf c (makeApiRequest s ''PUT'' (url @ ''?ensureFolder=true'') (Some body))) (\<lambda>resp c.
     (if Rs_StatusCode resp \<noteq> 200 then Inl (ErrMsg ''failed to upsert record'') else Inr (), c))))"

definition texture_record :: "'c cloud_env \<Rightarrow> time \<Rightarrow> UserSession \<Rightarrow> string \<Rightarrow> string \<Rightarrow> string \<Rightarrow> string \<Rightarrow> Record" where
  "texture_record sf now s recordId name path data =
     \<lparr>Rec_Id = recordId, Rec_OwnerId = Us_UserId s, Rec_AssetUri = ''resdb:///'' @ ComputeAssetHash sf data,
      Rec_Version = \<lparr>Rv_GlobalVersion = 0, Rv_LocalVersion = 1, Rv_LastModifyingUserId = Us_UserId s, Rv_LastModifyingMachineId = sf_MachineID sf\<rparr>,
      Rec_Name = name, Rec_Description = [], Rec_RecordType = ''texture'', Rec_OwnerName = [], Rec_Tags = [], Rec_Path = path, Rec_ThumbnailUri = [],
      Rec_LastModificationTime = sf_FormatTime sf now, Rec_CreationTime = [], Rec_IsDeleted = False, Rec_IsPublic = False, Rec_IsForPatrons = False,
      Rec_IsListed = False, Rec_IsReadOnly = False, Rec_Visits = 0, Rec_Rating = 0, Rec_RandomOrder = 0, Rec_AssetManifest = [(ComputeAssetHash sf data, int (length data))]\<rparr>"

definition UploadTextureRecord :: "'c cloud_env \<Rightarrow> 'c \<Rightarrow> UserSession \<Rightarrow> string \<Rightarrow> string \<Rightarrow> string \<Rightarrow> string \<Rightarrow> (string \<times> string) res \<times> 'c" where
  "UploadTextureRecord sf c s uuid name path data =
     (let recordId = GenerateRecordID uuid;
          hash = ComputeAssetHash sf data;
          rec = texture_record sf (sf_Now sf c) s recordId name path data
      in bindS (PreprocessRecord sf c s rec) (\<lambda>status c.
         bindS (WaitForPreprocess sf c s (Us_UserId s) recordId (Ps_Id status)) (\<lambda>assetDiffs c.
         bindS (forS (\<lambda>c diff. if \<not> Ad_IsUploaded diff \<and> Ad_Hash diff = hash then upload_data sf c s (Us_UserId s) hash data else (Inr (), c)) c assetDiffs) (\<lambda>_ c.
         bindS (UpsertRecord sf c s rec) (\<lambda>_ c. (Inr (recordId, Rec_AssetUri rec), c))))))"

section \<open>Icons\<close>

record Rectangle =
  MinX :: int
  MinY :: int
  MaxX :: int
  MaxY :: int

definition Dx :: "Rectangle \<Rightarrow> int" where "Dx r = MaxX r - MinX r"
definition Dy :: "Rectangle \<Rightarrow> int" where "Dy r = MaxY r - MinY r"

definition IconSize :: int where "IconSize = 256"
definition MaxImageFileSize :: int where "MaxImageFileSize = 10 * 1024 * 1024"

text \<open>The square that is cut out; widths and heights are not negative, so Go's division is \<open>div\<close>.\<close>

definition crop_rect :: "Rectangle \<Rightarrow> Rectangle" where
  "crop_rect bounds =
     (let width = Dx bounds; height = Dy bounds in
      if width > height then
        let offset = (width - height) div 2 in \<lparr>MinX = offset, MinY = 0, MaxX = offset + height, MaxY = height\<rparr>
      else if height > width then
        let offset = (height - width) div 2 in \<lparr>MinX = 0, MinY = offset, MaxX = width, MaxY = offset + width\<rparr>
      else bounds)"

text \<open>Decoding, cutting and scaling a picture, and encoding it as PNG.\<close>

record 'i picture_lib =
  pic_Decode :: "string \<Rightarrow> ('i \<times> string) res"
  pic_Bounds :: "'i \<Rightarrow> Rectangle"
  pic_Cut :: "'i \<Rightarrow> Rectangle \<Rightarrow> 'i"
  pic_Scale :: "'i \<Rightarrow> int \<Rightarrow> 'i"
  pic_EncodePng :: "'i \<Rightarrow> string res"

definition ProcessIconImage :: "'i picture_lib \<Rightarrow> string \<Rightarrow> string res" where
  "ProcessIconImage lib data =
     (if int (length data) > MaxImageFileSize then Inl (ErrMsg ''image file too large'')
      else
        bindR (pic_Decode lib data) (\<lambda>(img, format).
        if format \<notin> {''png'', ''jpeg'', ''gif'', ''webp''} then Inl (ErrMsg (''unsupported image format: '' @ format))
        else if format = ''png'' \<and> Dx (pic_Bounds lib img) = IconSize \<and> Dy (pic_Bounds lib img) = IconSize then Inr data
        else pic_EncodePng lib (pic_Scale lib (pic_Cut lib img (crop_rect (pic_Bounds lib img))) IconSize)))"

section \<open>The client\<close>

text \<open>The cache of sessions, by credential. Reading and writing it are separate critical sections; a call is one step here.\<close>

type_synonym sessions = "string \<rightharpoonup> UserSession"

definition getOrLogin :: "'c cloud_env \<Rightarrow> 'c \<times> sessions \<Rightarrow> string \<Rightarrow> string \<Rightarrow> string \<Rightarrow> UserSession res \<times> 'c \<times> sessions" where
  "getOrLogin sf st machineId credential password =
     (let login = (case UserLogin sf (fst st) machineId credential password of
                     (Inl e, c) \<Rightarrow> (Inl e, c, snd st)
                   | (Inr s, c) \<Rightarrow> (Inr s, c, (snd st)(credential \<mapsto> s)))
      in case snd st credential of
           None \<Rightarrow> login
         | Some s \<Rightarrow> if IsValid (sf_Now sf (fst st)) s then (Inr s, st) else login)"

text \<open>A call of the cloud with the session of the credential.\<close>

definition with_session ::
  "'c cloud_env \<Rightarrow> ('c \<Rightarrow> UserSession \<Rightarrow> 'r res \<times> 'c) \<Rightarrow> 'c \<times> sessions \<Rightarrow> string \<Rightarrow> string \<Rightarrow> string \<Rightarrow> 'r res \<times> 'c \<times> sessions" where
  "with_session sf call st machineId credential password =
     bindS (getOrLogin sf st machineId credential password) (\<lambda>s st.
     case call (fst st) s of (r, c) \<Rightarrow> (r, c, snd st))"

definition Client_GetStorageInfo where
  "Client_GetStorageInfo sf st machineId credential password ownerId =
     with_session sf (\<lambda>c s. GetStorage sf c s ownerId) st machineId credential password"

definition Client_GetContacts where
  "Client_GetContacts sf st machineId credential password = with_session sf (GetContacts sf) st machineId credential password"

definition Client_UploadTextureRecord where
  "Client_UploadTextureRecord sf st machineId credential password uuid name path data =
     with_session sf (\<lambda>c s. UploadTextureRecord sf c s uuid name path data) st machineId credential password"

definition Client_UpdateUserProfile where
  "Client_UpdateUserProfile sf st machineId credential password profile =
     with_session sf (\<lambda>c s. UpdateUserProfile sf c s profile) st machineId credential password"

definition Client_GetOwnWorlds where
  "Client_GetOwnWorlds sf st machineId credential password pageIndex =
     with_session sf (\<lambda>c s. SearchOwnWorlds sf c s pageIndex) st machineId credential password"

section \<open>Properties\<close>

text \<open>The offset after the first so many chunks of a plan.\<close>

definition last_size :: "AssetUploadData \<Rightarrow> int" where
  "last_size u = (if Au_LastChunkSize u > 0 then Au_LastChunkSize u else Au_ChunkSize u)"

definition planned :: "AssetUploadData \<Rightarrow> int" where
  "planned u = (Au_TotalChunks u - 1) * Au_ChunkSize u + last_size u"

definition offset_at :: "AssetUploadData \<Rightarrow> string \<Rightarrow> int \<Rightarrow> int" where
  "offset_at u data k = (if k = Au_TotalChunks u then min (planned u) (int (length data)) else min (k * Au_ChunkSize u) (int (length data)))"

definition sane_plan :: "AssetUploadData \<Rightarrow> string \<Rightarrow> bool" where
  "sane_plan u data \<longleftrightarrow> 1 \<le> Au_TotalChunks u \<and> 0 \<le> Au_ChunkSize u \<and> Au_ChunkSize u < 4611686018427387904
     \<and> Au_LastChunkSize u < 4611686018427387904 \<and> int (length data) < 4611686018427387904"

lemma chunk_end_offset:
  assumes "sane_plan u data" "0 \<le> k" "k < Au_TotalChunks u"
  shows "chunk_end u data k (offset_at u data k) = offset_at u data (k + 1)" "0 \<le> offset_at u data k" "offset_at u data k \<le> offset_at u data (k + 1)"
    "offset_at u data k \<le> int (length data)"
proof -
  have s: "0 \<le> Au_ChunkSize u" "Au_ChunkSize u < 4611686018427387904" "Au_LastChunkSize u < 4611686018427387904" "int (length data) < 4611686018427387904"
    using assms(1) by (auto simp: sane_plan_def)
  show "0 \<le> offset_at u data k" "offset_at u data k \<le> int (length data)" using assms(2,3) s(1) by (auto simp: offset_at_def)
  have o: "offset_at u data k = min (k * Au_ChunkSize u) (int (length data))" using assms(3) by (simp add: offset_at_def)
  have nn: "0 \<le> k * Au_ChunkSize u" using assms(2) s(1) by simp
  have size: "0 \<le> (if k = Au_TotalChunks u - 1 \<and> Au_LastChunkSize u > 0 then Au_LastChunkSize u else Au_ChunkSize u)"
    "(if k = Au_TotalChunks u - 1 \<and> Au_LastChunkSize u > 0 then Au_LastChunkSize u else Au_ChunkSize u) < 4611686018427387904" (is "?z < _")
    using s by auto
  have "wrap64 (offset_at u data k + ?z) = offset_at u data k + ?z"
    using size s(4) o nn by (intro wrap64_id) linarith+
  then have e: "chunk_end u data k (offset_at u data k) = min (offset_at u data k + ?z) (int (length data))" by (simp add: chunk_end_def)
  show "chunk_end u data k (offset_at u data k) = offset_at u data (k + 1)"
  proof (cases "k = Au_TotalChunks u - 1")
    case True
    have "?z = last_size u" by (simp add: True last_size_def)
    then show ?thesis using o size(1) e by (auto simp: offset_at_def planned_def True)
  next
    case False
    then have z: "?z = Au_ChunkSize u" by simp
    have "offset_at u data (k + 1) = min (k * Au_ChunkSize u + Au_ChunkSize u) (int (length data))"
      using False assms(3) by (simp add: offset_at_def distrib_right)
    then show ?thesis unfolding e z using o s(1) by linarith
  qed
  then show "offset_at u data k \<le> offset_at u data (k + 1)" using e o size(1) by linarith
qed

text \<open>A network that can be watched: what was sent so far.\<close>

definition watched :: "'c cloud_env \<Rightarrow> ('c \<Rightarrow> HttpReq list) \<Rightarrow> bool" where
  "watched sf sent \<longleftrightarrow> (\<forall>c req. sent (snd (sf_Do sf c req)) = sent c @ [req])"

definition bodies :: "HttpReq list \<Rightarrow> string" where
  "bodies reqs = concat (map (\<lambda>r. case Hr_Body r of None \<Rightarrow> [] | Some b \<Rightarrow> b) reqs)"

lemma send_Inr: "watched sf sent \<Longrightarrow> send sf c req = (Inr resp, c') \<Longrightarrow> sent c' = sent c @ [req]"
proof -
  assume w: "watched sf sent" and "send sf c req = (Inr resp, c')"
  then have "sf_Do sf c req = (Inr resp, c')" by (simp add: send_def ctrl_simps)
  then show ?thesis using w[unfolded watched_def, rule_format, of c req] by simp
qed

lemma slice_telescope:
  assumes "0 \<le> a" "a \<le> b" "b \<le> t" "slice data a b = Some x"
  shows "x @ drop (nat b) (take (nat t) data) = drop (nat a) (take (nat t) data)"
proof -
  have x: "x = take (nat b - nat a) (drop (nat a) data)" using assms(4) by (auto simp: slice_def split: if_splits)
  have n: "nat a \<le> nat b" "nat b \<le> nat t" using assms(1-3) by linarith+
  have "drop (nat a) (take (nat t) data) = take (nat b - nat a) (drop (nat a) (take (nat t) data)) @ drop (nat b - nat a) (drop (nat a) (take (nat t) data))"
    by (rule append_take_drop_id[symmetric])
  also have "take (nat b - nat a) (drop (nat a) (take (nat t) data)) = x"
    unfolding x drop_take take_take using n by (metis diff_le_mono min.absorb1)
  also have "drop (nat b - nat a) (drop (nat a) (take (nat t) data)) = drop (nat b) (take (nat t) data)"
    unfolding drop_drop using n by simp
  finally show ?thesis by simp
qed
lemma offset_end: "sane_plan u data \<Longrightarrow> 0 \<le> k \<Longrightarrow> k \<le> Au_TotalChunks u
    \<Longrightarrow> offset_at u data k \<le> min (planned u) (int (length data))"
proof -
  assume a: "sane_plan u data" "0 \<le> k" "k \<le> Au_TotalChunks u"
  then have "k \<noteq> Au_TotalChunks u \<Longrightarrow> k * Au_ChunkSize u \<le> (Au_TotalChunks u - 1) * Au_ChunkSize u" by (intro mult_right_mono) (auto simp: sane_plan_def)
  moreover have "0 \<le> last_size u" using a(1) by (auto simp: sane_plan_def last_size_def)
  ultimately show ?thesis by (auto simp: offset_at_def planned_def min_le_iff_disj)
qed

lemma upload_chunks_sent:
  assumes w: "watched sf sent" and plan: "sane_plan u data"
  shows "0 \<le> k \<Longrightarrow> k \<le> Au_TotalChunks u \<Longrightarrow> upload_chunks sf u data c [k..Au_TotalChunks u - 1] (offset_at u data k) chunks = (Inr out, c')
    \<Longrightarrow> \<exists>reqs. sent c' = sent c @ reqs \<and> int (length reqs) = Au_TotalChunks u - k
       \<and> bodies reqs = drop (nat (offset_at u data k)) (take (nat (min (planned u) (int (length data)))) data)"
proof (induction "nat (Au_TotalChunks u - k)" arbitrary: k c chunks)
  case 0
  then have k: "k = Au_TotalChunks u" by simp
  then show ?case using 0 by (simp add: offset_at_def bodies_def)
next
  case (Suc n)
  let ?t = "min (planned u) (int (length data))"
  have k: "0 \<le> k" "k < Au_TotalChunks u" using Suc.hyps(2) Suc.prems by auto
  note off = chunk_end_offset[OF plan k]
  have idx: "[k..Au_TotalChunks u - 1] = k # [k + 1..Au_TotalChunks u - 1]" using k by (subst upto.simps) simp
  obtain x where x: "slice data (offset_at u data k) (offset_at u data (k + 1)) = Some x"
    using off(2-4) chunk_end_offset(4)[OF plan, of "k + 1"] k offset_end[OF plan, of "k + 1"] by (auto simp: slice_def)
  obtain resp c1 b where c1: "send sf c (chunk_request u k x) = (Inr resp, c1)" "ok_body ''failed to upload chunk'' resp = Inr b"
    "upload_chunks sf u data c1 [k + 1..Au_TotalChunks u - 1] (offset_at u data (k + 1))
       (if Au_IsDirectUpload u then chunks else chunks @ [\<lparr>Ac_Index = k, Ac_Key = etag_of sf resp\<rparr>]) = (Inr out, c')"
    using Suc.prems(3) unfolding idx by (auto simp: off(1) x ctrl_simps)
  obtain reqs where reqs: "sent c' = sent c1 @ reqs" "int (length reqs) = Au_TotalChunks u - (k + 1)"
    "bodies reqs = drop (nat (offset_at u data (k + 1))) (take (nat ?t) data)"
  proof -
    have "n = nat (Au_TotalChunks u - (k + 1))" using Suc.hyps(2) by linarith
    then show ?thesis using Suc.hyps(1)[OF _ _ _ c1(3)] k that by auto
  qed
  have "bodies (chunk_request u k x # reqs) = x @ bodies reqs" by (simp add: bodies_def chunk_request_def)
  also have "\<dots> = drop (nat (offset_at u data k)) (take (nat ?t) data)"
    unfolding reqs(3) using slice_telescope[OF off(2,3) offset_end[OF plan] x] k by simp
  finally show ?case using reqs send_Inr[OF w c1(1)] by (intro exI[of _ "chunk_request u k x # reqs"]) simp
qed


text \<open>
  A session is shared by credential. What \<open>getOrLogin\<close> returns is either fresh from the cloud, for these credentials,
  or was cached under the credential and is valid for more than a minute; and once a session is cached,
  every later call with the same credential gets it without a request, whatever the password, until a
  minute before it expires.
\<close>

theorem sessions_ignore_password:
  assumes run: "getOrLogin sf (c, m) machineId credential password = (Inr s, c', m')"
  shows "(c' = c \<and> m' = m \<and> m credential = Some s \<and> IsValid (sf_Now sf c) s
      \<or> UserLogin sf c machineId credential password = (Inr s, c') \<and> m' = m(credential \<mapsto> s))
     \<and> (\<forall>c2 machineId2 password2. IsValid (sf_Now sf c2) s
          \<longrightarrow> getOrLogin sf (c2, m') machineId2 credential password2 = (Inr s, c2, m'))"
proof -
  have c: "c' = c \<and> m' = m \<and> m credential = Some s \<and> IsValid (sf_Now sf c) s
      \<or> UserLogin sf c machineId credential password = (Inr s, c') \<and> m' = m(credential \<mapsto> s)"
    using run by (auto simp: getOrLogin_def Let_def case_prod_unfold prod_eq_iff split: option.splits sum.splits if_splits)
  then have "m' credential = Some s" by auto
  then show ?thesis using c by (simp add: getOrLogin_def)
qed
text \<open>
  The square that is cut out of an icon is as large as it can be and in the middle, for a picture whose corner is
  at the origin; for another one, such as a frame of a GIF, it need not even touch the picture.
\<close>

theorem crop_centred:
  "0 \<le> Dx b \<and> 0 \<le> Dy b \<longrightarrow>
     Dx (crop_rect b) = min (Dx b) (Dy b) \<and> Dy (crop_rect b) = min (Dx b) (Dy b)
     \<and> (MinX b = 0 \<and> MinY b = 0 \<longrightarrow> 0 \<le> MinX (crop_rect b) \<and> MaxX (crop_rect b) \<le> MaxX b \<and> 0 \<le> MinY (crop_rect b) \<and> MaxY (crop_rect b) \<le> MaxY b
          \<and> \<bar>(MaxX b - MaxX (crop_rect b)) - MinX (crop_rect b)\<bar> \<le> 1 \<and> \<bar>(MaxY b - MaxY (crop_rect b)) - MinY (crop_rect b)\<bar> \<le> 1)"
  by (auto simp: crop_rect_def Let_def Dx_def Dy_def min_def)

lemma crop_off_picture: "\<exists>b. 0 < Dx b \<and> 0 < Dy b \<and> MaxX (crop_rect b) \<le> MinX b"
  by (rule exI[of _ "\<lparr>MinX = 100, MinY = 0, MaxX = 104, MaxY = 2\<rparr>"]) (simp add: crop_rect_def Dx_def Dy_def)

section \<open>Instances\<close>

text \<open>A cloud that remembers the requests and answers all of them with 200.\<close>

definition echo_cloud :: "HttpReq list cloud_env" where
  "echo_cloud = \<lparr>sf_Do = (\<lambda>c req. (Inr \<lparr>Rs_StatusCode = 200, Rs_Headers = [(''ETag'', ''e'')], Rs_Body = ''ok'', Rs_ReadErr = None\<rparr>, c @ [req])),
     sf_Now = (\<lambda>_. 0), sf_Sleep = (\<lambda>c. (False, c)), sf_NewRequest = (\<lambda>_. Inr ()), sf_JoinPath = (\<lambda>b es. Inr (b @ concat (map (Cons CHR ''/'') es))),
     sf_Sha256Hex = (\<lambda>_. ''h''), sf_Uid = ''u'', sf_MachineID = ''M-1'', sf_FormatTime = show_int, sf_ParseTime = (\<lambda>_. Inr (minute + 1)),
     sf_LoginJson = (\<lambda>_ _ _ _. Inr ''{}''), sf_ParseLogin = (\<lambda>_. Inr (''U-1'', ''t'', ''e'')), sf_gjson = (\<lambda>_ _. None), sf_gjsonValid = (\<lambda>_. True),
     sf_RecordJson = (\<lambda>_. Inr ''{}''), sf_ParseStatus = (\<lambda>_. Inl ErrCanceled), sf_UploadJson = (\<lambda>_. Inr ''{}''), sf_ParseUpload = (\<lambda>_. Inl ErrCanceled),
     sf_ParseETag = (\<lambda>_. Inr ''e''), sf_ProfileJson = (\<lambda>_. Inr ''{}''), sf_ParseContacts = (\<lambda>_. Inr []), sf_ParseStorage = (\<lambda>_. Inl ErrCanceled),
     sf_SearchJson = (\<lambda>_. Inr ''{}''), sf_ParseWorlds = (\<lambda>_. Inr [])\<rparr>"

definition small_plan :: AssetUploadData where
  "small_plan = \<lparr>Au_Hash = ''h'', Au_Variant = [], Au_Id = ''i'', Au_OwnerId = ''U-1'', Au_TotalBytes = 5, Au_ChunkSize = 2, Au_TotalChunks = 3, Au_UploadState = [], Au_UploadKey = ''k'', Au_UploadEndpoint = ''e'',
     Au_IsDirectUpload = False, Au_MaxUploadConcurrency = 1, Au_Chunks = [], Au_CreatedOn = [], Au_LastChunkSize = 1\<rparr>"


theorem sessions_ignore_password_witness:
  "\<exists>s c' m'. getOrLogin echo_cloud ([], Map.empty) ''m'' ''U-1'' ''right'' = (Inr s, c', m')
     \<and> getOrLogin echo_cloud (c', m') ''m'' ''U-1'' ''wrong'' = (Inr s, c', m')"
proof -
  obtain s c' m' where run: "getOrLogin echo_cloud ([], Map.empty) ''m'' ''U-1'' ''right'' = (Inr s, c', m')" and s: "Us_expire s = minute + 1"
    by (simp add: getOrLogin_def UserLogin_def send_def ok_body_def read_body_def echo_cloud_def)
  have "IsValid (sf_Now echo_cloud c') s" using s by (simp add: IsValid_def echo_cloud_def)
  then show ?thesis using sessions_ignore_password[OF run] run by blast
qed

theorem crop_centred_witness:
  "Dx (crop_rect \<lparr>MinX = 0, MinY = 0, MaxX = 300, MaxY = 200\<rparr>) = 200"
  using crop_centred[of "\<lparr>MinX = 0, MinY = 0, MaxX = 300, MaxY = 200\<rparr>"] by (simp add: Dx_def Dy_def)

end
