(* ===== verification/ReadService.thy ===== *)
theory ReadService
  imports ControllerService Docker Skyfrost
begin

text \<open>
  Two reads that close the controller service: the instances of a host, from the log table through the
  repository and the usecase to the handler (\<open>db/container_logs.sql.go\<close>,
  \<open>adapter/headless_host_repository.go\<close>, \<open>usecase/headless_host_usecase.go\<close>,
  \<open>adapter/rpc/controller_service_host.go\<close>), and the search for worlds
  (\<open>adapter/rpc/controller_service_cloud.go\<close>) on the client of \<open>Skyfrost\<close>.
\<close>

section \<open>Instances of a host\<close>

text \<open>\<open>SUBSTRING(tag FROM 'headless-[^-]+-(\d+)')\<close>: the leftmost place where the pattern matches.\<close>

definition match_instance :: "string \<Rightarrow> string option" where
  "match_instance s =
     (let r = drop (length ''headless-'') s;
          host = takeWhile (\<lambda>c. c \<noteq> CHR ''-'') r;
          rest = dropWhile (\<lambda>c. c \<noteq> CHR ''-'') r;
          digits = takeWhile is_digit (tl rest)
      in if HasPrefix s ''headless-'' \<and> host \<noteq> [] \<and> rest \<noteq> [] \<and> digits \<noteq> [] then Some digits else None)"

fun instance_text :: "string \<Rightarrow> string option" where
  "instance_text [] = match_instance []"
| "instance_text (c # s) = (case match_instance (c # s) of Some d \<Rightarrow> Some d | None \<Rightarrow> instance_text s)"

record GetInstanceTimestampsRow =
  Gi_InstanceID :: "int option"
  Gi_FirstLogAt :: "time option"
  Gi_LastLogAt :: "time option"
  Gi_LogCount :: int

definition cast_integer :: "string option \<Rightarrow> int option res" where
  "cast_integer t = (case t of None \<Rightarrow> Inr None | Some s \<Rightarrow> if in32 (int (digits_value s)) then Inr (Some (int (digits_value s))) else Inl ErrDB)"

text \<open>Aggregates skip NULL, and are NULL over nothing else; NULL comes first in descending order.\<close>

definition timestamps_of :: "ContainerLog list \<Rightarrow> time list" where
  "timestamps_of ls = List.map_filter Log_Ts ls"

definition instance_row :: "ContainerLog list \<Rightarrow> string option \<Rightarrow> GetInstanceTimestampsRow res" where
  "instance_row logs t =
     bindR (cast_integer t) (\<lambda>i.
     let ls = filter (\<lambda>l. instance_text (Log_Tag l) = t) logs; ts = timestamps_of ls in
     Inr \<lparr>Gi_InstanceID = i, Gi_FirstLogAt = (if ts = [] then None else Some (Min (set ts))),
          Gi_LastLogAt = (if ts = [] then None else Some (Max (set ts))), Gi_LogCount = int (length ls)\<rparr>)"

definition instance_desc :: "GetInstanceTimestampsRow \<Rightarrow> bool \<times> int" where
  "instance_desc r = (case Gi_InstanceID r of None \<Rightarrow> (False, 0) | Some i \<Rightarrow> (True, - i))"

definition host_logs :: "db \<Rightarrow> string \<Rightarrow> ContainerLog list" where
  "host_logs d hid = filter (\<lambda>l. HasPrefix (Log_Tag l) (''headless-'' @ hid @ ''-'')) (db_logs d)"

text \<open>The scan of a row into a Go \<open>int32\<close> fails on NULL.\<close>

definition q_GetInstanceTimestamps :: "db \<Rightarrow> string \<Rightarrow> GetInstanceTimestampsRow list res" where
  "q_GetInstanceTimestamps d hid = readQ d ''GetInstanceTimestamps'' [hid]
     (let logs = host_logs d hid in
      bindR (mapR (instance_row logs) (remdups (map (instance_text \<circ> Log_Tag) logs))) (\<lambda>rows.
      if list_ex (\<lambda>r. Gi_InstanceID r = None) rows then Inl (ErrMsg ''cannot scan NULL into *int32'')
      else Inr (sort_key instance_desc rows)))"

record InstanceTimestamp =
  It_InstanceID :: int32
  It_FirstLogAt :: "int option"
  It_LastLogAt :: "int option"
  It_LogCount :: int

definition unix :: "time \<Rightarrow> int" where
  "unix t = t div Second"

definition HostRepository_GetInstanceTimestamps :: "db \<Rightarrow> string \<Rightarrow> InstanceTimestamp list res" where
  "HostRepository_GetInstanceTimestamps d hid =
     bindR (q_GetInstanceTimestamps d hid) (\<lambda>rows.
     Inr (map (\<lambda>row. \<lparr>It_InstanceID = (case Gi_InstanceID row of None \<Rightarrow> 0 | Some i \<Rightarrow> i), It_FirstLogAt = map_option unix (Gi_FirstLogAt row),
        It_LastLogAt = map_option unix (Gi_LastLogAt row), It_LogCount = Gi_LogCount row\<rparr>) rows))"

record HeadlessHostInstance =
  Hi_InstanceID :: int32
  Hi_FirstLogAt :: "int option"
  Hi_LastLogAt :: "int option"
  Hi_LogCount :: int
  Hi_IsCurrent :: bool

definition HeadlessHostGetInstances :: "'w HostConnector \<Rightarrow> 'w ctl \<Rightarrow> claims \<Rightarrow> string \<Rightarrow> HeadlessHostInstance list res" where
  "HeadlessHostGetInstances con c caller hostID =
     bindR (requireHostRead (lv_db c) caller hostID) (\<lambda>_.
     bindR (HostRepository_Find con (ct_world c) (lv_db c) hostID False) (\<lambda>host.
     bindR (HostRepository_GetInstanceTimestamps (lv_db c) hostID) (\<lambda>timestamps.
     Inr (map (\<lambda>ts. \<lparr>Hi_InstanceID = It_InstanceID ts, Hi_FirstLogAt = It_FirstLogAt ts, Hi_LastLogAt = It_LastLogAt ts,
        Hi_LogCount = It_LogCount ts, Hi_IsCurrent = (It_InstanceID ts = HH_InstanceId host)\<rparr>) timestamps))))"

definition Svc_ListHeadlessHostInstances :: "'w HostConnector \<Rightarrow> 'w ctl \<Rightarrow> ctx \<Rightarrow> string \<Rightarrow> HeadlessHostInstance list rpc" where
  "Svc_ListHeadlessHostInstances con c cx hostID = map_err convertErr (HeadlessHostGetInstances con c (user_of cx) hostID)"

section \<open>Worlds\<close>

definition Svc_SearchWorlds :: "'c cloud_env \<Rightarrow> 'c \<Rightarrow> string \<Rightarrow> bool \<Rightarrow> int32 \<Rightarrow> (WorldRecord list \<times> bool) rpc \<times> 'c" where
  "Svc_SearchWorlds sf c query featuredOnly pageIndex =
     map_errS (Pair CodeInternal) (SearchWorlds sf c query featuredOnly pageIndex)"

section \<open>Properties\<close>

lemma show_int_digits: "0 \<le> n \<Longrightarrow> takeWhile is_digit (show_int n) = show_int n \<and> show_int n \<noteq> [] \<and> int (digits_value (show_int n)) = n"
  using show_nat_digits[of "nat n"] by (simp add: show_int_nonneg takeWhile_eq_all_conv list_all_iff)

text \<open>The tag that the connector gives to the logs of an instance is read back as that instance.\<close>

lemma instance_text_log_tag:
  assumes "hid \<noteq> []" "CHR ''-'' \<notin> set hid" "0 \<le> n"
  shows "instance_text (log_tag hid n) = Some (show_int n)"
proof -
  have "takeWhile (\<lambda>c. c \<noteq> CHR ''-'') (hid @ CHR ''-'' # show_int n) = hid" "dropWhile (\<lambda>c. c \<noteq> CHR ''-'') (hid @ CHR ''-'' # show_int n) = CHR ''-'' # show_int n"
    using assms(2) by (induction hid) auto
  then have "match_instance (log_tag hid n) = Some (show_int n)"
    using assms(1) by (simp add: match_instance_def log_tag_def HasPrefix_def Let_def show_int_digits[OF assms(3)])
  then show ?thesis by (simp add: log_tag_def)
qed

lemma log_tag_inj: "0 \<le> n \<Longrightarrow> 0 \<le> m \<Longrightarrow> log_tag hid n = log_tag hid m \<longleftrightarrow> n = m"
  by (auto simp: log_tag_def show_int_inj)

lemma log_tag_prefix: "HasPrefix (log_tag hid n) (''headless-'' @ hid @ ''-'')"
  by (simp add: log_tag_def HasPrefix_def)

lemma host_logs_instance: "filter (\<lambda>l. Log_Tag l = log_tag hid n) (host_logs d hid) = filter (\<lambda>l. Log_Tag l = log_tag hid n) (db_logs d)"
  unfolding host_logs_def filter_filter using log_tag_prefix[of hid n] by (intro filter_cong) auto

text \<open>The rows of a log table whose tags were all written by the connector.\<close>

definition own_tags :: "db \<Rightarrow> string \<Rightarrow> bool" where
  "own_tags d hid \<longleftrightarrow> hid \<noteq> [] \<and> CHR ''-'' \<notin> set hid
     \<and> (\<forall>l \<in> set (host_logs d hid). \<exists>n. 0 \<le> n \<and> in32 n \<and> Log_Tag l = log_tag hid n)"

definition instance_keys :: "db \<Rightarrow> string \<Rightarrow> string option list" where
  "instance_keys d hid = remdups (map (instance_text \<circ> Log_Tag) (host_logs d hid))"

definition key_row :: "db \<Rightarrow> string \<Rightarrow> string option \<Rightarrow> GetInstanceTimestampsRow" where
  "key_row d hid t = (let ls = filter (\<lambda>l. instance_text (Log_Tag l) = t) (host_logs d hid); ts = timestamps_of ls in
     \<lparr>Gi_InstanceID = map_option (int \<circ> digits_value) t, Gi_FirstLogAt = (if ts = [] then None else Some (Min (set ts))),
      Gi_LastLogAt = (if ts = [] then None else Some (Max (set ts))), Gi_LogCount = int (length ls)\<rparr>)"

lemma key_row_id: "0 \<le> n \<Longrightarrow> Gi_InstanceID (key_row d hid (Some (show_int n))) = Some n"
  using show_int_digits[of n] by (simp add: key_row_def Let_def)

lemma own_tag:
  assumes "own_tags d hid" "l \<in> set (host_logs d hid)"
  obtains n where "0 \<le> n" "in32 n" "Log_Tag l = log_tag hid n" "instance_text (Log_Tag l) = Some (show_int n)"
  using assms instance_text_log_tag[of hid] by (auto simp: own_tags_def)

lemma own_key:
  assumes "own_tags d hid" "t \<in> set (instance_keys d hid)"
  obtains n where "0 \<le> n" "in32 n" "t = Some (show_int n)"
  using assms by (auto simp: instance_keys_def elim: own_tag)

lemma instance_keys_set:
  assumes own: "own_tags d hid" and n: "0 \<le> n"
  shows "Some (show_int n) \<in> set (instance_keys d hid) \<longleftrightarrow> (\<exists>l \<in> set (db_logs d). Log_Tag l = log_tag hid n)"
proof
  assume "Some (show_int n) \<in> set (instance_keys d hid)"
  then obtain l where l: "l \<in> set (host_logs d hid)" "instance_text (Log_Tag l) = Some (show_int n)" by (auto simp: instance_keys_def)
  with own obtain m where m: "0 \<le> m" "Log_Tag l = log_tag hid m" "show_int m = show_int n" by (auto elim: own_tag)
  then have "m = n" using show_int_inj n by blast
  moreover have "l \<in> set (db_logs d)" using l(1) by (simp add: host_logs_def)
  ultimately show "\<exists>l \<in> set (db_logs d). Log_Tag l = log_tag hid n" using m by blast
next
  assume "\<exists>l \<in> set (db_logs d). Log_Tag l = log_tag hid n"
  then obtain l where l: "l \<in> set (db_logs d)" "Log_Tag l = log_tag hid n" by blast
  then have "l \<in> set (host_logs d hid)" using log_tag_prefix[of hid n] by (simp add: host_logs_def)
  moreover have "instance_text (Log_Tag l) = Some (show_int n)" using l own n instance_text_log_tag[of hid n] by (simp add: own_tags_def)
  ultimately have "Some (show_int n) \<in> (instance_text \<circ> Log_Tag) ` set (host_logs d hid)" by (intro image_eqI[of _ _ l]) simp_all
  then show "Some (show_int n) \<in> set (instance_keys d hid)" by (simp add: instance_keys_def)
qed

lemma key_row_count:
  assumes own: "own_tags d hid" and n: "0 \<le> n"
  shows "Gi_LogCount (key_row d hid (Some (show_int n))) = int (length (filter (\<lambda>l. Log_Tag l = log_tag hid n) (db_logs d)))"
proof -
  have "instance_text (Log_Tag l) = Some (show_int n) \<longleftrightarrow> Log_Tag l = log_tag hid n" if l: "l \<in> set (host_logs d hid)" for l
  proof -
    obtain k where k: "0 \<le> k" "Log_Tag l = log_tag hid k" "instance_text (Log_Tag l) = Some (show_int k)"
      using own_tag[OF own l] by blast
    then show ?thesis using show_int_inj[OF k(1) n] log_tag_inj[OF k(1) n] by simp
  qed
  then have "filter (\<lambda>l. instance_text (Log_Tag l) = Some (show_int n)) (host_logs d hid)
      = filter (\<lambda>l. Log_Tag l = log_tag hid n) (host_logs d hid)" by (intro filter_cong) auto
  then show ?thesis by (simp add: key_row_def Let_def host_logs_instance)
qed

lemma GetInstanceTimestamps_rows:
  assumes nf: "no_faults d" and own: "own_tags d hid"
  shows "q_GetInstanceTimestamps d hid = Inr (sort_key instance_desc (map (key_row d hid) (instance_keys d hid)))"
proof -
  have "instance_row (host_logs d hid) t = Inr (key_row d hid t)" if t: "t \<in> set (instance_keys d hid)" for t
  proof -
    obtain n where "0 \<le> n" "in32 n" "t = Some (show_int n)" using own_key[OF own t] by blast
    then show ?thesis using show_int_digits[of n] by (simp add: instance_row_def cast_integer_def key_row_def Let_def)
  qed
  then have rows: "mapR (instance_row (host_logs d hid)) (instance_keys d hid) = Inr (map (key_row d hid) (instance_keys d hid))"
    by (intro mapR_Inr)
  have "Gi_InstanceID (key_row d hid t) \<noteq> None" if t: "t \<in> set (instance_keys d hid)" for t
  proof -
    obtain n where "0 \<le> n" "in32 n" "t = Some (show_int n)" using own_key[OF own t] by blast
    then show ?thesis by (simp add: key_row_id)
  qed
  then have "\<not> list_ex (\<lambda>r. Gi_InstanceID r = None) (map (key_row d hid) (instance_keys d hid))"
    by (auto simp: list_ex_iff)
  then show ?thesis using nf rows by (simp add: q_GetInstanceTimestamps_def Let_def instance_keys_def)
qed

lemma own_rows:
  assumes own: "own_tags d hid" and rows: "rows = sort_key instance_desc (map (key_row d hid) (instance_keys d hid))"
  shows "r \<in> set rows \<longleftrightarrow> (\<exists>n. 0 \<le> n \<and> (\<exists>l \<in> set (db_logs d). Log_Tag l = log_tag hid n) \<and> r = key_row d hid (Some (show_int n)))"
proof -
  have "r \<in> set rows \<longleftrightarrow> (\<exists>t \<in> set (instance_keys d hid). r = key_row d hid t)" by (auto simp: rows)
  also have "\<dots> \<longleftrightarrow> (\<exists>n. 0 \<le> n \<and> Some (show_int n) \<in> set (instance_keys d hid) \<and> r = key_row d hid (Some (show_int n)))"
    using own_key[OF own] by metis
  finally show ?thesis using instance_keys_set[OF own] by metis
qed

lemma own_rows_sorted:
  assumes own: "own_tags d hid" and rows: "rows = sort_key instance_desc (map (key_row d hid) (instance_keys d hid))"
  shows "sorted_wrt (\<lambda>i j. j \<le> i) (map (the \<circ> Gi_InstanceID) rows)"
proof -
  have some: "Gi_InstanceID r \<noteq> None" if "r \<in> set rows" for r using that own_rows[OF own rows, of r] by (auto simp: key_row_id)
  have "sorted (map instance_desc rows)" by (simp add: rows)
  then have "sorted_wrt (\<lambda>x y. instance_desc x \<le> instance_desc y) rows" by (simp add: sorted_map)
  then have "sorted_wrt (\<lambda>x y. the (Gi_InstanceID y) \<le> the (Gi_InstanceID x)) rows"
  proof (rule sorted_wrt_mono_rel[rotated])
    fix x y assume "x \<in> set rows" "y \<in> set rows" "instance_desc x \<le> instance_desc y"
    then show "the (Gi_InstanceID y) \<le> the (Gi_InstanceID x)" using some[of x] some[of y] by (auto simp: instance_desc_def)
  qed
  then show ?thesis by (simp add: sorted_wrt_map)
qed

lemma own_rows_distinct:
  assumes own: "own_tags d hid" and rows: "rows = sort_key instance_desc (map (key_row d hid) (instance_keys d hid))"
  shows "distinct (map (the \<circ> Gi_InstanceID) rows)"
proof -
  have "inj_on (the \<circ> Gi_InstanceID \<circ> key_row d hid) (set (instance_keys d hid))"
  proof (rule inj_onI)
    fix s t assume "s \<in> set (instance_keys d hid)" "t \<in> set (instance_keys d hid)"
      and eq: "(the \<circ> Gi_InstanceID \<circ> key_row d hid) s = (the \<circ> Gi_InstanceID \<circ> key_row d hid) t"
    then obtain n m where "0 \<le> n" "s = Some (show_int n)" "0 \<le> m" "t = Some (show_int m)" using own_key[OF own] by metis
    then show "s = t" using eq by (simp add: key_row_id)
  qed
  then have "distinct (map (the \<circ> Gi_InstanceID) (map (key_row d hid) (instance_keys d hid)))"
    by (simp add: distinct_map instance_keys_def comp_assoc)
  moreover have "mset (map (the \<circ> Gi_InstanceID) (map (key_row d hid) (instance_keys d hid))) = mset (map (the \<circ> Gi_InstanceID) rows)"
    by (simp only: rows mset_map mset_sort)
  ultimately show ?thesis using mset_eq_imp_distinct_iff by blast
qed

lemma strictly_descending: "sorted_wrt (\<lambda>i j. j \<le> i) xs \<Longrightarrow> distinct xs \<Longrightarrow> sorted_wrt (\<lambda>i j. j < i) (xs :: int list)"
  by (induction xs) (auto simp: order_less_le)

lemma own_row_ids:
  assumes own: "own_tags d hid" and rows: "rows = sort_key instance_desc (map (key_row d hid) (instance_keys d hid))"
  shows "(\<lambda>r. the (Gi_InstanceID r)) ` set rows = {n. 0 \<le> n \<and> (\<exists>l \<in> set (db_logs d). Log_Tag l = log_tag hid n)}"
proof (intro set_eqI iffI)
  fix n assume "n \<in> (\<lambda>r. the (Gi_InstanceID r)) ` set rows"
  then obtain r where "r \<in> set rows" "n = the (Gi_InstanceID r)" by blast
  then show "n \<in> {n. 0 \<le> n \<and> (\<exists>l \<in> set (db_logs d). Log_Tag l = log_tag hid n)}"
    using own_rows[OF own rows, of r] by (auto simp: key_row_id)
next
  fix n assume "n \<in> {n. 0 \<le> n \<and> (\<exists>l \<in> set (db_logs d). Log_Tag l = log_tag hid n)}"
  then have "key_row d hid (Some (show_int n)) \<in> set rows" "n = the (Gi_InstanceID (key_row d hid (Some (show_int n))))"
    using own_rows[OF own rows] by (auto simp: key_row_id)
  then show "n \<in> (\<lambda>r. the (Gi_InstanceID r)) ` set rows" by (rule image_eqI[rotated])
qed

definition instance_item :: "HeadlessHost \<Rightarrow> GetInstanceTimestampsRow \<Rightarrow> HeadlessHostInstance" where
  "instance_item host row = \<lparr>Hi_InstanceID = the (Gi_InstanceID row), Hi_FirstLogAt = map_option unix (Gi_FirstLogAt row),
     Hi_LastLogAt = map_option unix (Gi_LastLogAt row), Hi_LogCount = Gi_LogCount row,
     Hi_IsCurrent = (the (Gi_InstanceID row) = HH_InstanceId host)\<rparr>"

text \<open>
  The instances of a host, for a caller that may read it: newest first, each once, exactly those that
  have logged a line, with the number of their lines, and the running one marked.
\<close>

theorem instances_listed:
  assumes "no_faults (lv_db c)" "own_tags (lv_db c) hid"
    and "requireHostRead (lv_db c) (user_of cx) hid = Inr ()"
    and "HostRepository_Find con (ct_world c) (lv_db c) hid False = Inr host"
  shows "\<exists>is. Svc_ListHeadlessHostInstances con c cx hid = Inr is
     \<and> sorted_wrt (\<lambda>i j. j < i) (map Hi_InstanceID is)
     \<and> Hi_InstanceID ` set is = {n. 0 \<le> n \<and> (\<exists>l \<in> set (db_logs (lv_db c)). Log_Tag l = log_tag hid n)}
     \<and> (\<forall>i \<in> set is. Hi_LogCount i = int (length (filter (\<lambda>l. Log_Tag l = log_tag hid (Hi_InstanceID i)) (db_logs (lv_db c))))
          \<and> (Hi_IsCurrent i \<longleftrightarrow> Hi_InstanceID i = HH_InstanceId host))"
proof -
  define rows where "rows = sort_key instance_desc (map (key_row (lv_db c) hid) (instance_keys (lv_db c) hid))"
  note row = own_rows[OF assms(2) rows_def]
  let ?item = "instance_item host"
  have id: "(case Gi_InstanceID r of None \<Rightarrow> 0 | Some i \<Rightarrow> i) = the (Gi_InstanceID r)" if "r \<in> set rows" for r
    using that row[of r] by (auto simp: key_row_id)
  have res: "Svc_ListHeadlessHostInstances con c cx hid = Inr (map ?item rows)"
    using assms GetInstanceTimestamps_rows[OF assms(1,2)]
    by (auto simp: id  Svc_ListHeadlessHostInstances_def HeadlessHostGetInstances_def HostRepository_GetInstanceTimestamps_def
        instance_item_def simp flip: rows_def)
  have "sorted_wrt (\<lambda>i j. j < i) (map (the \<circ> Gi_InstanceID) rows)"
    using own_rows_sorted[OF assms(2) rows_def] own_rows_distinct[OF assms(2) rows_def] by (rule strictly_descending)
  then have sorted: "sorted_wrt (\<lambda>i j. j < i) (map Hi_InstanceID (map ?item rows))" by (simp add: instance_item_def comp_def)
  have ids: "Hi_InstanceID ` set (map ?item rows) = {n. 0 \<le> n \<and> (\<exists>l \<in> set (db_logs (lv_db c)). Log_Tag l = log_tag hid n)}"
    using own_row_ids[OF assms(2) rows_def] by (simp add: image_image instance_item_def)
  have "Hi_LogCount i = int (length (filter (\<lambda>l. Log_Tag l = log_tag hid (Hi_InstanceID i)) (db_logs (lv_db c))))
      \<and> (Hi_IsCurrent i \<longleftrightarrow> Hi_InstanceID i = HH_InstanceId host)" if "i \<in> set (map ?item rows)" for i
    using that row key_row_count[OF assms(2)] by (auto simp: instance_item_def key_row_id)
  then show ?thesis using res sorted ids by (intro exI[of _ "map ?item rows"]) simp
qed

theorem instances_listed_witness:
  "\<exists>is. Svc_ListHeadlessHostInstances set_runtime host_ctl (Some (alice\<lparr>Auth_UserID := SystemUserID\<rparr>)) ''h1'' = Inr is
     \<and> Hi_InstanceID ` set is = {1}"
proof -
  let ?cx = "Some (alice\<lparr>Auth_UserID := SystemUserID\<rparr>)"
  have own: "own_tags (lv_db host_ctl) ''h1''"
    by (auto simp: own_tags_def host_logs_def host_ctl_def team_log_def in32_def intro!: exI[of _ 1])
  have acc: "requireHostRead (lv_db host_ctl) (user_of ?cx) ''h1'' = Inr ()" by code_simp
  have "isl (HostRepository_Find set_runtime (ct_world host_ctl) (lv_db host_ctl) ''h1'' False) = False" by code_simp
  then obtain host where "HostRepository_Find set_runtime (ct_world host_ctl) (lv_db host_ctl) ''h1'' False = Inr host"
    by (cases "HostRepository_Find set_runtime (ct_world host_ctl) (lv_db host_ctl) ''h1'' False") simp_all
  note r = instances_listed[OF host_ctl_ok(1) own acc this]
  have "{n. 0 \<le> n \<and> (\<exists>l \<in> set (db_logs (lv_db host_ctl)). Log_Tag l = log_tag ''h1'' n)} = {1}"
    using log_tag_inj[of 1 _ "''h1''"] by (auto simp: host_ctl_def team_log_def)
  then show ?thesis using r by force
qed

end
