(* ===== verification/Spec2Isabelle.thy ===== *)
theory Spec2Isabelle
  imports Rbac ScheduledExecutor EventWatcher OpService RbacService DockerEvents LinkBridge ReadService
begin

text \<open>
  A verification library for baru-reso-headless-controller, a server that starts and supervises
  Resonite headless hosts in containers, runs sessions on them, and lets users of several groups do
  so under a permission system. File names below are under \<open>src/\<close>.

  \<^bold>\<open>The program.\<close> RPC handlers (\<open>adapter/rpc\<close>) call usecases (\<open>usecase/\<close>), which check permissions and
  work through repositories (\<open>adapter/\<close>) on a PostgreSQL database whose queries are generated from SQL
  (\<open>db/\<close>). Hosts are containers reached through a connector (\<open>adapter/hostconnector\<close>) and an RPC client.
  Workers (\<open>worker/\<close>) follow the event stream of each host and keep the session rows and an in-memory
  cache of live snapshots (\<open>adapter/sessionstate\<close>) up to date.

  \<^bold>\<open>The model.\<close> The database is one record of tables (\<open>Store.db\<close>), each a list of rows in insertion
  order, with the clock and a function that says which queries fail; a read is a function of the
  database, a write returns its result and the new database. Errors are values (\<open>Entities.err\<close>): the
  sentinels the code compares with \<open>errors.Is\<close> and messages; wrapping is not modelled because the code
  looks through it. A Go panic of a call is an error of that call. \<open>RunInTx\<close> restores the database on
  an error. A caller is the user id in the request's claims, if any. Random values, password hashing,
  the JSON codecs, the network, the Docker daemon and the program in the container are arguments; the usecases
  take the container runtime and the cloud service as arguments too, and the theories on the connector and
  the cloud client model the code behind them. The order
  in which Go iterates over a map is an argument constrained to be an order of its keys.

  \<^bold>\<open>Theories and sources.\<close>
  \<^item> \<open>Prelude\<close>: sequencing of fallible and stateful steps, tables, the string functions and 32-bit
    arithmetic that the code uses, and the contract of a step invariant.
  \<^item> \<open>Entities\<close>: \<open>domain/errors.go\<close>, \<open>domain/entity\<close> and the messages of the container.
  \<^item> \<open>Store\<close>, \<open>Repos\<close>: the permission tables, their queries, constraints and triggers
    (\<open>db/*.sql.go\<close>, \<open>db/migrations\<close>) and the group, member and role repositories.
  \<^item> \<open>RbacInv\<close>: the well-formedness of the permission tables, kept by every query, and the seeded
    database of the migrations.
  \<^item> \<open>PermissionUsecase\<close>, \<open>RoleUsecase\<close>, \<open>GroupUsecase\<close>, \<open>UserUsecase\<close>: the usecases of the same names in
    \<open>usecase/\<close>, every operation. The contract of the permission service is a locale, interpreted on
    \<open>HasPermission\<close>.
  \<^item> \<open>Rbac\<close>: the four usecases as one transition system and the invariants of its histories.
  \<^item> \<open>SessionCache\<close>: \<open>adapter/sessionstate/cache.go\<close>; the port \<open>SessionStateCache\<close> is a locale, interpreted
    on the two maps of \<open>MemoryCache\<close>.
  \<^item> \<open>SessionStore\<close>: \<open>db/sessions.sql.go\<close> and \<open>adapter/session_repository.go\<close>.
  \<^item> \<open>SessionEvents\<close>: \<open>worker/session_lifecycle_handler.go\<close> and \<open>worker/session_state_sync_handler.go\<close>.
  \<^item> \<open>HostStore\<close>: \<open>db/hosts.sql.go\<close>, \<open>db/container_logs.sql.go\<close>, \<open>adapter/headless_host_repository.go\<close> and
    the settings conversion of \<open>adapter/converter\<close>.
  \<^item> \<open>SessionUsecase\<close>: \<open>usecase/session_usecase.go\<close>.
  \<^item> \<open>AccountUsecase\<close>: \<open>db/headless_accounts.sql.go\<close> and \<open>usecase/headless_account_usecase.go\<close>.
  \<^item> \<open>HostUsecase\<close>: \<open>usecase/headless_host_usecase.go\<close>, on top of the host repository, the sessions and
    the accounts.
  \<^item> \<open>WorkQueue\<close>: the contract of a table of work whose rows are claimed, settled and swept, as a pair of
    locales, and the timing of a batch behind a semaphore. \<open>Frames\<close>: which tables the operations on hosts
    and sessions leave alone.
  \<^item> \<open>JobQueue\<close>, \<open>JobExecutor\<close>: asynchronous jobs (\<open>db/async_jobs.sql.go\<close>, \<open>adapter/async_job_repository.go\<close>,
    \<open>usecase/async_job\<close>, \<open>worker/async_job_executor.go\<close>); the table interprets the contract.
  \<^item> \<open>ScheduledOps\<close>, \<open>ScheduledExecutor\<close>: scheduled operations (\<open>db/scheduled_session_operations.sql.go\<close>, their
    repository, \<open>usecase/scheduled_op\<close>, \<open>usecase/scheduled_session_operation_usecase.go\<close>,
    \<open>worker/scheduled_operation_executor.go\<close>); the table interprets the same contract.
  \<^item> \<open>Auth\<close>: \<open>lib/auth/auth.go\<close>, tokens and the interceptors that read them; the JWT library is a parameter.
    \<open>Interceptor\<close>: \<open>adapter/rpc/permission_interceptor.go\<close>, every check and the rule of every procedure.
    \<open>UserService\<close>: \<open>adapter/rpc/user_service.go\<close> and the issue of ResoniteLink connections.
  \<^item> \<open>Orchestrator\<close>: \<open>worker/host_upgrade_orchestrator.go\<close> and \<open>worker/image_checker.go\<close>, the rollout of new images.
  \<^item> \<open>Notifications\<close>: \<open>usecase/notification\<close>, \<open>worker/notification_dispatcher.go\<close> and
    \<open>adapter/rpc/notification_service.go\<close>; the port \<open>Bus\<close> is a locale, interpreted on \<open>MemoryBus\<close>, and the
    interleaving of publishers inside \<open>busSend\<close> is a step relation.
  \<^item> \<open>EventWatcher\<close>: \<open>worker/host_event_watcher.go\<close>, its checkpoints and \<open>worker/loop.go\<close>, with the handlers of the
    theories above in the order in which \<open>app/wire.go\<close> registers them.
  \<^item> \<open>ControllerService\<close>: the handlers of \<open>adapter/rpc/controller_service*.go\<close> for hosts, sessions, accounts,
    contacts and the cloud, and \<open>usecase/blob_usecase.go\<close>, world downloads. What the three list handlers
    share is a locale, interpreted on the pages of hosts, sessions and accounts.
  \<^item> \<open>OpService\<close>: \<open>adapter/rpc/scheduled_session_operation_service.go\<close>, from messages to scheduled operations and back.
  \<^item> \<open>RbacService\<close>: \<open>adapter/rpc/group_service.go\<close> and \<open>adapter/rpc/role_service.go\<close>.
  \<^item> \<open>Golib\<close>: the string, number and Base64 functions of Go's standard library that the theories below use.
  \<^item> \<open>Docker\<close>: \<open>adapter/hostconnector/docker_connector.go\<close> and \<open>lib/validater.go\<close>, the implementation of the connector
    on a Docker daemon and a registry, which are parameters; it is shown to be a lawful connector in the sense of \<open>HostStore\<close>.
  \<^item> \<open>DockerEvents\<close>: \<open>SubscribeEvents\<close> of the connector and \<open>worker/docker_event_watcher.go\<close>; the two channels of a
    connection and the loop that reads them are a step relation.
  \<^item> \<open>LinkBridge\<close>: \<open>adapter/resonitelink/ws_bridge.go\<close>, the handler that admits a ResoniteLink connection and the three
    goroutines that forward its frames, as a step relation.
  \<^item> \<open>Skyfrost\<close>: \<open>lib/skyfrost\<close>, the client of the Resonite cloud with its cache of sessions, the upload of assets in
    chunks, the search for worlds and the processing of icons.
  \<^item> \<open>ReadService\<close>: the instances of a host, from the log table to the handler, and the search for worlds.

  \<^bold>\<open>What is shown.\<close> For the permission system: a decision procedure that refines the documented
  membership rule, operations that change exactly what they should, no privilege escalation by member
  operations, single use of invitation tokens, atomic registration, and invariants of every history
  (well-formed tables, builtin roles untouched, a system group that is never empty). For sessions: the
  effect of starting, stopping and reading, agreement of the paged and the unpaged listing, events that
  may arrive late or twice, exact resynchronisation of cache and rows. For hosts: no container without
  a row after a failed start, which settings survive storage, what a restart keeps and ends. For jobs and
  scheduled operations: claims are exclusive in every history of any number of instances, runs settle
  their rows and act as the user who asked, what is enqueued is what runs, cancelled work never runs, and
  which default settings keep a batch within its claims. For the RPC layer: every procedure has a rule,
  only the public ones run without a token, and the others run exactly for the callers that the
  permission guide names; lists show only what the caller may read, a world that is asked for is started
  under the name and in the group it was checked for, and what is scheduled is what is shown. For the workers: a rollout ends no session with users in it, draining ends, an
  idle host keeps its settings when it is upgraded, no host event is lost once there is a checkpoint,
  and a client is notified only of what it may read. For what lies behind the interfaces: a started
  container is the one that was asked for and the connect string reaches exactly it, statuses follow the
  events of the daemon under every scheduling, a link leads to the session of its token and ends with it,
  frames are forwarded in order, and an upload sends exactly the data. Where the code falls short of its
  documentation, a theorem states what happens instead.

  \<^bold>\<open>Bounds.\<close> Loops over finite lists need no fuel; the two polling loops of the cloud client count down the 60 and
  120 rounds of the code. The loop that lists the tags of a registry may not end: it is a partial function
  whose value \<open>None\<close> is not returning, and it is shown to return with a registry that serves pages as
  specified. 32-bit arithmetic wraps
  around where the code computes in \<open>int32\<close>, and so do the offsets of the cloud client in 64 bits.

  \<^bold>\<open>Not modelled.\<close> The wire format and the field-by-field conversion of messages, the web front end,
  generated protobuf code (they copy fields and hold no decisions), blob storage and the other third-party
  libraries (parameters), the start-up of the process with its flags and configuration. Concurrency is modelled as sequences of atomic
  operations; two usecase calls that interleave between their queries are outside the model, except
  for registration, whose transaction is treated separately from what was read before it.
\<close>

end
